(* ===== verification/Go_Prelude.thy ===== *)
theory Go_Prelude
  imports Main "HOL-Library.Monad_Syntax" "HOL-Library.State_Monad"
begin

text \<open>
  The part of Go's language and standard library that the operator uses, and the lemmas and
  proof collections the component theories share.

  A Go \<^verbatim>\<open>string\<close> is its list of bytes (\<^typ>\<open>string\<close>). The case mappings of package
  \<^verbatim>\<open>strings\<close> are modelled on ASCII: a byte outside \<^verbatim>\<open>A-Z\<close> / \<^verbatim>\<open>a-z\<close> is left alone, and white
  space is the ASCII white space; this is exact for the DNS names, version numbers and keywords
  the operator passes through them. Go's \<^verbatim>\<open>int\<close> and \<^verbatim>\<open>int32\<close> are \<^typ>\<open>int\<close> with the wrap-around
  of the operations written out (\<open>go_int64\<close>, \<open>go_int32\<close>). A pointer that may be nil is an
  \<^typ>\<open>'a option\<close>. Code with effects is a \<open>State_Monad\<close> computation, and \<open>or_return\<close> is
  the idiom \<^verbatim>\<open>if err != nil { return err }\<close>.
\<close>

named_theorems go_string \<open>unfolding rules of the string functions on closed arguments\<close>
named_theorems run_simps \<open>running a computation\<close>

section \<open>Machine integers\<close>

definition go_int64 :: "int \<Rightarrow> int" where
  "go_int64 n = (n + 2 ^ 63) mod 2 ^ 64 - 2 ^ 63"

definition go_int32 :: "int \<Rightarrow> int" where
  "go_int32 n = (n + 2 ^ 31) mod 2 ^ 32 - 2 ^ 31"

lemma go_int64_id: "- (2 ^ 63) \<le> n \<Longrightarrow> n < 2 ^ 63 \<Longrightarrow> go_int64 n = n"
  by (simp add: go_int64_def)

lemma go_int32_id: "- (2 ^ 31) \<le> n \<Longrightarrow> n < 2 ^ 31 \<Longrightarrow> go_int32 n = n"
  by (simp add: go_int32_def)

lemma go_int32_range: "- (2 ^ 31) \<le> go_int32 n \<and> go_int32 n < 2 ^ 31"
proof -
  have "0 \<le> (n + 2 ^ 31) mod 2 ^ 32" and "(n + 2 ^ 31) mod 2 ^ 32 < 2 ^ 32"
    by simp_all
  then show ?thesis by (simp add: go_int32_def)
qed

section \<open>Package strings\<close>

definition HasPrefix :: "string \<Rightarrow> string \<Rightarrow> bool" where
  "HasPrefix s p \<longleftrightarrow> take (length p) s = p"

definition HasSuffix :: "string \<Rightarrow> string \<Rightarrow> bool" where
  "HasSuffix s p \<longleftrightarrow> length p \<le> length s \<and> drop (length s - length p) s = p"

fun Contains :: "string \<Rightarrow> string \<Rightarrow> bool" where
  "Contains [] sub = (sub = [])"
| "Contains (c # cs) sub = (HasPrefix (c # cs) sub \<or> Contains cs sub)"

definition TrimPrefix :: "string \<Rightarrow> string \<Rightarrow> string" where
  "TrimPrefix s p = (if HasPrefix s p then drop (length p) s else s)"

definition CutPrefix :: "string \<Rightarrow> string \<Rightarrow> string option" where
  "CutPrefix s p = (if HasPrefix s p then Some (drop (length p) s) else None)"

definition char_code :: "char \<Rightarrow> nat" where
  "char_code c = of_char c"

definition lower_char :: "char \<Rightarrow> char" where
  "lower_char c = (if 65 \<le> char_code c \<and> char_code c \<le> 90 then char_of (char_code c + 32) else c)"

definition upper_char :: "char \<Rightarrow> char" where
  "upper_char c = (if 97 \<le> char_code c \<and> char_code c \<le> 122 then char_of (char_code c - 32) else c)"

definition ToLower :: "string \<Rightarrow> string" where
  "ToLower s = map lower_char s"

definition ToUpper :: "string \<Rightarrow> string" where
  "ToUpper s = map upper_char s"

definition EqualFold :: "string \<Rightarrow> string \<Rightarrow> bool" where
  "EqualFold s t \<longleftrightarrow> ToLower s = ToLower t"

definition is_space :: "char \<Rightarrow> bool" where
  "is_space c \<longleftrightarrow> (9 \<le> char_code c \<and> char_code c \<le> 13) \<or> char_code c = 32"

text \<open>\<^verbatim>\<open>strings.TrimRight(s, c)\<close> and \<^verbatim>\<open>strings.Trim(s, c)\<close> for a set of characters.\<close>

definition TrimRightFunc :: "(char \<Rightarrow> bool) \<Rightarrow> string \<Rightarrow> string" where
  "TrimRightFunc P s = rev (dropWhile P (rev s))"

definition TrimFunc :: "(char \<Rightarrow> bool) \<Rightarrow> string \<Rightarrow> string" where
  "TrimFunc P s = TrimRightFunc P (dropWhile P s)"

definition TrimSpace :: "string \<Rightarrow> string" where
  "TrimSpace s = TrimFunc is_space s"

text \<open>\<^verbatim>\<open>strings.Split(s, sep)\<close> for a one-byte separator: never the empty list.\<close>

fun Split :: "string \<Rightarrow> char \<Rightarrow> string list" where
  "Split [] sep = [[]]"
| "Split (c # cs) sep =
     (if c = sep then [] # Split cs sep
      else (case Split cs sep of [] \<Rightarrow> [[c]] | p # ps \<Rightarrow> (c # p) # ps))"

fun Join :: "string list \<Rightarrow> string \<Rightarrow> string" where
  "Join [] sep = []"
| "Join [p] sep = p"
| "Join (p # q # ps) sep = p @ sep @ Join (q # ps) sep"

text \<open>\<^verbatim>\<open>strings.Cut(s, sep)\<close> for a one-byte separator.\<close>

fun Cut :: "string \<Rightarrow> char \<Rightarrow> string \<times> string \<times> bool" where
  "Cut [] sep = ([], [], False)"
| "Cut (c # cs) sep =
     (if c = sep then ([], cs, True)
      else (case Cut cs sep of (b, a, found) \<Rightarrow> if found then (c # b, a, True) else (c # cs, [], False)))"

text \<open>\<^verbatim>\<open>strings.Fields\<close>: the maximal runs of non-space bytes.\<close>

fun fields_aux :: "string \<Rightarrow> string \<Rightarrow> string list" where
  "fields_aux cur [] = (if cur = [] then [] else [cur])"
| "fields_aux cur (c # cs) =
     (if is_space c then (if cur = [] then fields_aux [] cs else cur # fields_aux [] cs)
      else fields_aux (cur @ [c]) cs)"

definition Fields :: "string \<Rightarrow> string list" where
  "Fields s = fields_aux [] s"

text \<open>\<^verbatim>\<open>strings.Compare\<close> and Go's \<^verbatim>\<open><\<close> on strings: bytewise lexicographic order.\<close>

fun str_less :: "string \<Rightarrow> string \<Rightarrow> bool" where
  "str_less s [] = False"
| "str_less [] (c # cs) = True"
| "str_less (a # s) (b # t) = (char_code a < char_code b \<or> (a = b \<and> str_less s t))"

definition str_le :: "string \<Rightarrow> string \<Rightarrow> bool" where
  "str_le s t \<longleftrightarrow> \<not> str_less t s"

section \<open>Package strconv\<close>

definition is_digit :: "char \<Rightarrow> bool" where
  "is_digit c \<longleftrightarrow> 48 \<le> char_code c \<and> char_code c \<le> 57"

definition digit_char :: "nat \<Rightarrow> char" where
  "digit_char d = char_of (48 + d)"

fun nat_string :: "nat \<Rightarrow> string" where
  "nat_string n = (if n < 10 then [digit_char n] else nat_string (n div 10) @ [digit_char (n mod 10)])"

declare nat_string.simps [simp del]

definition Itoa :: "int \<Rightarrow> string" where
  "Itoa n = (if n < 0 then CHR ''-'' # nat_string (nat (- n)) else nat_string (nat n))"

definition FormatBool :: "bool \<Rightarrow> string" where
  "FormatBool b = (if b then ''true'' else ''false'')"

definition digits_value :: "string \<Rightarrow> nat" where
  "digits_value s = foldl (\<lambda>acc c. 10 * acc + (char_code c - 48)) 0 s"

text \<open>A run of decimal digits as a number: what \<^verbatim>\<open>Atoi\<close> and \<^verbatim>\<open>ParseUint\<close> accept after the sign.\<close>

definition parse_digits :: "string \<Rightarrow> nat option" where
  "parse_digits s = (if s \<noteq> [] \<and> list_all is_digit s then Some (digits_value s) else None)"

text \<open>\<^verbatim>\<open>strconv.Atoi\<close>: an optional sign and digits, in the range of a 64-bit \<^verbatim>\<open>int\<close>.\<close>

definition Atoi :: "string \<Rightarrow> int option" where
  "Atoi s =
     (let neg = HasPrefix s ''-'';
          body = (if neg \<or> HasPrefix s ''+'' then tl s else s)
      in case parse_digits body of
           None \<Rightarrow> None
         | Some m \<Rightarrow>
             (let n = (if neg then - int m else int m)
              in if - (2 ^ 63) \<le> n \<and> n < 2 ^ 63 then Some n else None))"

text \<open>\<^verbatim>\<open>strconv.ParseUint(s, 10, bits)\<close>: digits only, no sign, below \<open>2 ^ bits\<close>.\<close>

definition ParseUint10 :: "string \<Rightarrow> nat \<Rightarrow> nat option" where
  "ParseUint10 s bits =
     (case parse_digits s of None \<Rightarrow> None | Some m \<Rightarrow> if m < 2 ^ bits then Some m else None)"

section \<open>Early return\<close>

text \<open>
  Running a computation whose first result is an error ends the function with that error:
  \<^verbatim>\<open>x, err := f(); if err != nil { return err }\<close>.
\<close>

definition or_return :: "('w, 'e + 'a) state \<Rightarrow> ('a \<Rightarrow> ('w, 'e + 'b) state) \<Rightarrow> ('w, 'e + 'b) state" where
  "or_return m f = State_Monad.bind m (\<lambda>r. case r of Inl e \<Rightarrow> State_Monad.return (Inl e) | Inr a \<Rightarrow> f a)"

lemma run_or_return [run_simps]:
  "run_state (or_return m f) w =
     (case run_state m w of (Inl e, w') \<Rightarrow> (Inl e, w') | (Inr a, w') \<Rightarrow> run_state (f a) w')"
  by (simp add: or_return_def split: prod.splits sum.splits)

lemma or_return_Inl: "run_state m w = (Inl e, w') \<Longrightarrow> run_state (or_return m f) w = (Inl e, w')"
  by (simp add: run_or_return)

lemma or_return_Inr: "run_state m w = (Inr a, w') \<Longrightarrow> run_state (or_return m f) w = run_state (f a) w'"
  by (simp add: run_or_return)

lemma or_return_Inr_iff:
  "run_state (or_return m f) w = (Inr b, w'') \<longleftrightarrow>
     (\<exists>a w'. run_state m w = (Inr a, w') \<and> run_state (f a) w' = (Inr b, w''))"
  by (auto simp: run_or_return split: prod.splits sum.splits)

text \<open>A call whose result is only wrapped before use is that call with the wrapping done at the use.\<close>

lemma or_return_map:
  "or_return (or_return m (\<lambda>a. State_Monad.return (Inr (f a)))) g = or_return m (\<lambda>a. g (f a))"
  by (rule state_ext) (auto simp: run_or_return split: prod.splits sum.splits)

lemma bind_or_return_map:
  "State_Monad.bind (or_return m (\<lambda>a. State_Monad.return (Inr (f a)))) k =
     State_Monad.bind m (\<lambda>r. case r of Inl e \<Rightarrow> k (Inl e) | Inr a \<Rightarrow> k (Inr (f a)))"
  by (rule state_ext) (auto simp: run_or_return split: prod.splits sum.splits)

text \<open>A loop over a slice whose body may return early, with no other effect than on the loop's variables.\<close>

fun fold_err :: "('a \<Rightarrow> 'b \<Rightarrow> 'e + 'b) \<Rightarrow> 'a list \<Rightarrow> 'b \<Rightarrow> 'e + 'b" where
  "fold_err f [] s = Inr s"
| "fold_err f (x # xs) s = (case f x s of Inl e \<Rightarrow> Inl e | Inr s' \<Rightarrow> fold_err f xs s')"

definition and_then :: "'e + 'a \<Rightarrow> ('a \<Rightarrow> 'e + 'b) \<Rightarrow> 'e + 'b" where
  "and_then r f = (case r of Inl e \<Rightarrow> Inl e | Inr a \<Rightarrow> f a)"

text \<open>
  What a loop adds to a set read off its state, what it keeps invariant, and when it does not return
  early.
\<close>

lemma fold_err_collect:
  assumes "\<And>x s s'. x \<in> set xs \<Longrightarrow> f x s = Inr s' \<Longrightarrow> g s' = g s \<union> h x" and "fold_err f xs s = Inr s'"
  shows "g s' = g s \<union> (\<Union>x \<in> set xs. h x)"
  using assms
proof (induction xs arbitrary: s)
  case (Cons x xs)
  obtain s1 where s1: "f x s = Inr s1" "fold_err f xs s1 = Inr s'"
    using Cons.prems(2) by (auto split: sum.splits)
  have "g s' = g s1 \<union> (\<Union>x \<in> set xs. h x)"
    by (rule Cons.IH [OF Cons.prems(1) s1(2)]) auto
  moreover have "g s1 = g s \<union> h x" using Cons.prems(1) s1(1) by simp
  ultimately show ?case by auto
qed simp

lemma fold_err_invariant:
  assumes "\<And>x s s'. x \<in> set xs \<Longrightarrow> I s \<Longrightarrow> f x s = Inr s' \<Longrightarrow> I s'" and "fold_err f xs s = Inr s'" and "I s"
  shows "I s'"
  using assms
proof (induction xs arbitrary: s)
  case (Cons x xs)
  obtain s1 where s1: "f x s = Inr s1" "fold_err f xs s1 = Inr s'"
    using Cons.prems(2) by (auto split: sum.splits)
  then have "I s1" using Cons.prems(1) [of x s s1] Cons.prems(3) by simp
  show ?case by (rule Cons.IH [OF Cons.prems(1) s1(2) \<open>I s1\<close>]) simp_all
qed simp

lemma fold_err_returns:
  assumes "\<And>x s. x \<in> set xs \<Longrightarrow> (\<exists>s'. f x s = Inr s') \<longleftrightarrow> good x"
  shows "(\<exists>s'. fold_err f xs s = Inr s') \<longleftrightarrow> (\<forall>x \<in> set xs. good x)"
  using assms
proof (induction xs arbitrary: s)
  case (Cons x xs)
  show ?case
  proof (cases "f x s")
    case (Inl e)
    then show ?thesis using Cons.prems [of x s] by auto
  next
    case (Inr s1)
    with Cons.prems [of x s] have "good x" by auto
    with Inr Cons.IH [of s1] Cons.prems show ?thesis by auto
  qed
qed simp

lemma and_then_Inr [simp]: "and_then r f = Inr b \<longleftrightarrow> (\<exists>a. r = Inr a \<and> f a = Inr b)"
  by (cases r) (simp_all add: and_then_def)

section \<open>Lemmas on strings\<close>

lemma append_prefixE:
  assumes "u @ v = a @ b" and "length a \<le> length u"
  obtains r where "u = a @ r" and "b = r @ v"
  using assms that by (auto simp: append_eq_append_conv2)

lemma takeWhile_neq_append:
  "c \<notin> set xs \<Longrightarrow> ys = [] \<or> hd ys = c \<Longrightarrow> takeWhile (\<lambda>x. x \<noteq> c) (xs @ ys) = xs"
  by (induction xs) (cases ys; auto)+

lemma HasPrefix_iff: "HasPrefix s p \<longleftrightarrow> (\<exists>t. s = p @ t)"
  unfolding HasPrefix_def by (metis append_eq_conv_conj append_take_drop_id)

lemma HasPrefix_append [simp]: "HasPrefix (p @ t) p"
  by (auto simp: HasPrefix_iff)

lemma HasSuffix_iff: "HasSuffix s p \<longleftrightarrow> (\<exists>t. s = t @ p)"
proof
  assume "HasSuffix s p"
  then show "\<exists>t. s = t @ p"
    unfolding HasSuffix_def by (metis append_take_drop_id)
next
  assume "\<exists>t. s = t @ p"
  then show "HasSuffix s p"
    unfolding HasSuffix_def by auto
qed

lemma Contains_Nil [simp]: "Contains s []"
  by (induction s) (auto simp: HasPrefix_iff)

lemma Contains_iff: "Contains s sub \<longleftrightarrow> (\<exists>u v. s = u @ sub @ v)"
proof (induction s)
  case Nil
  show ?case by auto
next
  case (Cons c cs)
  show ?case
  proof
    assume "Contains (c # cs) sub"
    then consider t where "c # cs = sub @ t" | u v where "cs = u @ sub @ v"
      using Cons.IH by (auto simp: HasPrefix_iff)
    then show "\<exists>u v. c # cs = u @ sub @ v"
    proof cases
      case 1
      then have "c # cs = [] @ sub @ t" by simp
      then show ?thesis by blast
    next
      case 2
      then have "c # cs = (c # u) @ sub @ v" by simp
      then show ?thesis by blast
    qed
  next
    assume "\<exists>u v. c # cs = u @ sub @ v"
    then obtain u v where uv: "c # cs = u @ sub @ v" by blast
    show "Contains (c # cs) sub"
    proof (cases u)
      case Nil
      with uv have "HasPrefix (c # cs) sub" by (auto simp: HasPrefix_iff)
      then show ?thesis by simp
    next
      case (Cons d u')
      with uv have "cs = u' @ sub @ v" by simp
      with Cons.IH show ?thesis by (metis Contains.simps(2))
    qed
  qed
qed

lemma Contains_append1: "Contains s sub \<Longrightarrow> Contains (s @ t) sub"
  unfolding Contains_iff by (metis append.assoc)

lemma Contains_append2: "Contains t sub \<Longrightarrow> Contains (s @ t) sub"
  unfolding Contains_iff by (metis append.assoc)

lemma char_code_char_of [simp]: "n < 256 \<Longrightarrow> char_code (char_of n) = n"
  by (simp add: char_code_def)

lemma char_code_inject [simp]: "char_code a = char_code b \<longleftrightarrow> a = b"
  by (simp add: char_code_def)

lemma char_code_less [simp]: "char_code c < 256"
  by (simp add: char_code_def)

lemma lower_char_idem [simp]: "lower_char (lower_char c) = lower_char c"
  by (auto simp: lower_char_def)

lemma upper_char_idem [simp]: "upper_char (upper_char c) = upper_char c"
  by (auto simp: upper_char_def)

lemma ToLower_idem [simp]: "ToLower (ToLower s) = ToLower s"
  by (simp add: ToLower_def)

lemma ToUpper_idem [simp]: "ToUpper (ToUpper s) = ToUpper s"
  by (simp add: ToUpper_def)

lemma ToLower_append [simp]: "ToLower (s @ t) = ToLower s @ ToLower t"
  by (simp add: ToLower_def)

lemma Split_not_Nil [simp]: "Split s sep \<noteq> []"
  by (cases s) (auto split: list.splits)

lemma Split_no_sep: "sep \<notin> set s \<Longrightarrow> Split s sep = [s]"
  by (induction s) auto

lemma Split_append: "sep \<notin> set p \<Longrightarrow> Split (p @ sep # s) sep = p # Split s sep"
  by (induction p) auto

lemma Join_Split: "Join (Split s sep) [sep] = s"
proof (induction s)
  case Nil
  show ?case by simp
next
  case (Cons c cs)
  obtain p ps where ps: "Split cs sep = p # ps"
    by (cases "Split cs sep") auto
  with Cons.IH show ?case by (cases ps) auto
qed

lemma Split_Join:
  "ps \<noteq> [] \<Longrightarrow> \<forall>p \<in> set ps. sep \<notin> set p \<Longrightarrow> Split (Join ps [sep]) sep = ps"
proof (induction ps "[sep]" rule: Join.induct)
  case (3 p q ps)
  then show ?case using Split_append [of sep p] by simp
qed (simp_all add: Split_no_sep)

lemma set_Split: "p \<in> set (Split s sep) \<Longrightarrow> set p \<subseteq> set s - {sep}"
proof (induction s arbitrary: p)
  case Nil
  then show ?case by simp
next
  case (Cons c cs)
  obtain q qs where qs: "Split cs sep = q # qs"
    by (cases "Split cs sep") auto
  have q: "set q \<subseteq> set cs - {sep}" using Cons.IH [of q] qs by simp
  have rest: "r \<in> set qs \<Longrightarrow> set r \<subseteq> set cs - {sep}" for r
    using Cons.IH [of r] qs by simp
  from Cons.prems qs q rest show ?case by (auto split: if_splits)
qed

lemma Cut_append: "sep \<notin> set b \<Longrightarrow> Cut (b @ sep # a) sep = (b, a, True)"
  by (induction b) auto

lemma Cut_no_sep: "sep \<notin> set s \<Longrightarrow> Cut s sep = (s, [], False)"
  by (induction s) auto

lemma dropWhile_hd: "s \<noteq> [] \<Longrightarrow> \<not> P (hd s) \<Longrightarrow> dropWhile P s = s"
  by (cases s) auto

lemma TrimRightFunc_id: "s = [] \<or> \<not> P (last s) \<Longrightarrow> TrimRightFunc P s = s"
  unfolding TrimRightFunc_def by (cases s rule: rev_cases) auto

lemma TrimFunc_id: "s = [] \<or> (\<not> P (hd s) \<and> \<not> P (last s)) \<Longrightarrow> TrimFunc P s = s"
  unfolding TrimFunc_def by (cases "s = []") (simp_all add: TrimRightFunc_id dropWhile_hd)

lemma TrimRightFunc_idem [simp]: "TrimRightFunc P (TrimRightFunc P s) = TrimRightFunc P s"
  by (simp add: TrimRightFunc_def dropWhile_idem)

section \<open>Lemmas on decimal numbers\<close>

lemma digit_char_code [simp]: "d < 10 \<Longrightarrow> char_code (digit_char d) = 48 + d"
  by (simp add: digit_char_def)

lemma is_digit_digit_char [simp]: "d < 10 \<Longrightarrow> is_digit (digit_char d)"
  by (simp add: is_digit_def)

lemma nat_string_not_Nil [simp]: "nat_string n \<noteq> []"
  by (subst nat_string.simps) simp

lemma nat_string_digits: "list_all is_digit (nat_string n)"
proof (induction n rule: nat_string.induct)
  case (1 n)
  then show ?case by (subst nat_string.simps) auto
qed

lemma digits_value_snoc: "digits_value (s @ [c]) = 10 * digits_value s + (char_code c - 48)"
  by (simp add: digits_value_def)

lemma digits_value_nat_string: "digits_value (nat_string n) = n"
proof (induction n rule: nat_string.induct)
  case (1 n)
  show ?case
  proof (cases "n < 10")
    case True
    then show ?thesis by (subst nat_string.simps) (simp add: digits_value_def)
  next
    case False
    with 1 have "digits_value (nat_string (n div 10)) = n div 10" by simp
    with False show ?thesis by (subst nat_string.simps) (simp add: digits_value_snoc)
  qed
qed

lemma parse_digits_nat_string [simp]: "parse_digits (nat_string n) = Some n"
  by (simp add: parse_digits_def nat_string_digits digits_value_nat_string)

lemma is_digit_not: "is_digit c \<Longrightarrow> c \<noteq> CHR ''.'' \<and> c \<noteq> CHR ''-'' \<and> c \<noteq> CHR ''+'' \<and> c \<noteq> CHR ''v'' \<and> \<not> is_space c"
  by (auto simp: is_digit_def is_space_def char_code_def)

lemma HasPrefix_single: "HasPrefix s [c] \<longleftrightarrow> s \<noteq> [] \<and> hd s = c"
  unfolding HasPrefix_def by (cases s) auto

lemma list_all_hd: "list_all P s \<Longrightarrow> s \<noteq> [] \<Longrightarrow> P (hd s)"
  by (cases s) auto

lemma list_all_last: "list_all P s \<Longrightarrow> s \<noteq> [] \<Longrightarrow> P (last s)"
  by (simp add: list_all_iff)

lemma Atoi_digits:
  assumes "list_all is_digit s" "s \<noteq> []"
  shows "Atoi s = (if int (digits_value s) < 2 ^ 63 then Some (int (digits_value s)) else None)"
proof -
  have "hd s \<noteq> CHR ''-''" "hd s \<noteq> CHR ''+''"
    using assms is_digit_not list_all_hd by blast+
  with assms show ?thesis
    by (auto simp: Atoi_def HasPrefix_single parse_digits_def Let_def)
qed

lemma Atoi_Itoa: "0 \<le> n \<Longrightarrow> n < 2 ^ 63 \<Longrightarrow> Atoi (Itoa n) = Some n"
  by (simp add: Itoa_def Atoi_digits nat_string_digits digits_value_nat_string)

lemma Itoa_nonneg: "0 \<le> n \<Longrightarrow> Itoa n = nat_string (nat n)"
  by (simp add: Itoa_def)

lemma nat_string_inject: "nat_string m = nat_string n \<longleftrightarrow> m = n"
  by (metis digits_value_nat_string)

lemma Itoa_nonneg_inject: "0 \<le> m \<Longrightarrow> 0 \<le> n \<Longrightarrow> Itoa m = Itoa n \<longleftrightarrow> m = n"
  by (simp add: Itoa_def nat_string_inject eq_nat_nat_iff)

end
