(* ===== verification/Go_Hash.thy ===== *)
theory Go_Hash
  imports Go_Prelude "HOL-Library.Word"
begin

text \<open>
  Go's packages \<^verbatim>\<open>crypto/sha256\<close> and \<^verbatim>\<open>encoding/hex\<close>, from which the ExternalDNS webhook makes the
  names of its Records: SHA-256 on 32-bit words, with the message padded to blocks of 64 bytes.
\<close>

unbundle bit_operations_syntax

type_synonym w32 = "32 word"

section \<open>The compression function\<close>

text \<open>
  The constants are the first 32 bits of the fractional parts of the cube roots of the first 64 primes
  and of the square roots of the first eight; \<open>root_floor\<close> finds the integer root bit by bit, below
  \<open>2 ^ 35\<close>, which is enough for primes below 512.
\<close>

definition root_floor :: "nat \<Rightarrow> nat \<Rightarrow> nat" where
  "root_floor k n = fold (\<lambda>b r. if (r + 2 ^ b) ^ k \<le> n then r + 2 ^ b else r) (rev [0..<35]) 0"

definition first_primes :: "nat list" where
  "first_primes = [
      2, 3, 5, 7, 11, 13, 17, 19, 23, 29, 31, 37, 41, 43, 47, 53,
      59, 61, 67, 71, 73, 79, 83, 89, 97, 101, 103, 107, 109, 113, 127, 131,
      137, 139, 149, 151, 157, 163, 167, 173, 179, 181, 191, 193, 197, 199, 211, 223,
      227, 229, 233, 239, 241, 251, 257, 263, 269, 271, 277, 281, 283, 293, 307, 311]"

definition fraction_bits :: "nat \<Rightarrow> nat \<Rightarrow> w32" where
  "fraction_bits k p = of_nat (root_floor k (p * 2 ^ (32 * k)))"

definition sha256_K :: "w32 list" where
  "sha256_K = map (fraction_bits 3) first_primes"

definition sha256_init :: "w32 list" where
  "sha256_init = map (fraction_bits 2) (take 8 first_primes)"

definition rotr :: "nat \<Rightarrow> w32 \<Rightarrow> w32" where
  "rotr n x = drop_bit n x OR push_bit (32 - n) x"

definition small_sigma0 :: "w32 \<Rightarrow> w32" where
  "small_sigma0 x = rotr 7 x XOR rotr 18 x XOR drop_bit 3 x"

definition small_sigma1 :: "w32 \<Rightarrow> w32" where
  "small_sigma1 x = rotr 17 x XOR rotr 19 x XOR drop_bit 10 x"

definition big_sigma0 :: "w32 \<Rightarrow> w32" where
  "big_sigma0 x = rotr 2 x XOR rotr 13 x XOR rotr 22 x"

definition big_sigma1 :: "w32 \<Rightarrow> w32" where
  "big_sigma1 x = rotr 6 x XOR rotr 11 x XOR rotr 25 x"

definition choose_bits :: "w32 \<Rightarrow> w32 \<Rightarrow> w32 \<Rightarrow> w32" where
  "choose_bits x y z = (x AND y) XOR ((NOT x) AND z)"

definition majority_bits :: "w32 \<Rightarrow> w32 \<Rightarrow> w32 \<Rightarrow> w32" where
  "majority_bits x y z = (x AND y) XOR (x AND z) XOR (y AND z)"

text \<open>The message schedule: 48 words after the 16 of the block, each from the ones before it.\<close>

fun extend_schedule :: "nat \<Rightarrow> w32 list \<Rightarrow> w32 list" where
  "extend_schedule 0 ws = ws"
| "extend_schedule (Suc n) ws =
     (let i = length ws
      in extend_schedule n (ws @ [small_sigma1 (ws ! (i - 2)) + ws ! (i - 7) + small_sigma0 (ws ! (i - 15)) + ws ! (i - 16)]))"

fun sha256_round :: "w32 \<times> w32 \<Rightarrow> w32 list \<Rightarrow> w32 list" where
  "sha256_round (k, m) [a, b, c, d, e, f, g, h] =
     (let t1 = h + big_sigma1 e + choose_bits e f g + k + m;
          t2 = big_sigma0 a + majority_bits a b c
      in [t1 + t2, a, b, c, d + t1, e, f, g])"
| "sha256_round _ st = st"

definition sha256_block :: "w32 list \<Rightarrow> w32 list \<Rightarrow> w32 list" where
  "sha256_block ws st = map2 (+) st (fold sha256_round (zip sha256_K (extend_schedule 48 ws)) st)"

section \<open>Bytes and words\<close>

definition byte_of_char :: "char \<Rightarrow> 8 word" where
  "byte_of_char c = of_nat (char_code c)"

fun chunks :: "nat \<Rightarrow> nat \<Rightarrow> 'a list \<Rightarrow> 'a list list" where
  "chunks n 0 xs = []"
| "chunks n (Suc k) xs = take n xs # chunks n k (drop n xs)"

definition big_endian :: "8 word list \<Rightarrow> nat" where
  "big_endian bs = foldl (\<lambda>acc b. 256 * acc + unat b) 0 bs"

definition bytes_of :: "nat \<Rightarrow> nat \<Rightarrow> 8 word list" where
  "bytes_of k n = map (\<lambda>i. of_nat (n div 256 ^ (k - 1 - i))) [0..<k]"

text \<open>A one bit, zeros up to 8 bytes before the end of a block, and the length in bits.\<close>

definition sha256_pad :: "8 word list \<Rightarrow> 8 word list" where
  "sha256_pad msg = msg @ [0x80] @ replicate ((119 - length msg mod 64) mod 64) 0 @ bytes_of 8 (8 * length msg)"

definition sha256 :: "8 word list \<Rightarrow> 8 word list" where
  "sha256 msg =
     (let padded = sha256_pad msg;
          blocks = chunks 64 (length padded div 64) padded;
          words = map (\<lambda>b. map (\<lambda>c. of_nat (big_endian c)) (chunks 4 16 b)) blocks
      in concat (map (\<lambda>x. bytes_of 4 (unat x)) (fold sha256_block words sha256_init)))"

definition hex_digit :: "nat \<Rightarrow> char" where
  "hex_digit n = ''0123456789abcdef'' ! n"

definition EncodeToString :: "8 word list \<Rightarrow> string" where
  "EncodeToString bs = concat (map (\<lambda>b. [hex_digit (unat b div 16), hex_digit (unat b mod 16)]) bs)"

section \<open>Lemmas\<close>

lemma length_sha256_round: "length (sha256_round km st) = length st"
  by (cases "(km, st)" rule: sha256_round.cases) (simp_all add: Let_def)

lemma length_sha256_block [simp]: "length (sha256_block ws st) = length st"
proof -
  have "length (fold sha256_round kms st) = length st" for kms
    by (induction kms arbitrary: st) (simp_all add: length_sha256_round)
  then show ?thesis by (simp add: sha256_block_def)
qed

text \<open>Padding fills whole blocks, and a digest has 32 bytes.\<close>

lemma sha256_pad_blocks: "64 dvd length (sha256_pad msg)"
proof -
  let ?r = "length msg mod 64"
  have "?r + (119 - ?r) mod 64 + 9 = (if ?r \<le> 55 then 64 else 128)"
  proof (cases "?r \<le> 55")
    case True
    then have "119 - ?r = 55 - ?r + 64" by simp
    with True show ?thesis by (simp only: mod_add_self2) simp
  next
    case False
    moreover have "?r < 64" by simp
    ultimately show ?thesis by (simp only: mod_less) simp
  qed
  then have "64 dvd ?r + (119 - ?r) mod 64 + 9" by simp
  then have "64 dvd 64 * (length msg div 64) + (?r + (119 - ?r) mod 64 + 9)" by (rule dvd_add [OF dvd_triv_left])
  also have "64 * (length msg div 64) + (?r + (119 - ?r) mod 64 + 9) = length msg + ((119 - ?r) mod 64 + 9)"
    using mult_div_mod_eq [of 64 "length msg"] by linarith
  finally have "64 dvd length msg + ((119 - ?r) mod 64 + 9)" .
  then show ?thesis by (simp add: sha256_pad_def bytes_of_def ac_simps)
qed

lemma length_sha256: "length (sha256 msg) = 32"
proof -
  have "length (fold sha256_block bs sha256_init) = 8" for bs
  proof -
    have "length (fold sha256_block bs st) = length st" for st
      by (induction bs arbitrary: st) simp_all
    then show ?thesis by (simp add: sha256_init_def first_primes_def)
  qed
  then have "sum_list (map (\<lambda>x. length (bytes_of 4 (unat x))) (fold sha256_block bs sha256_init)) = 32" for bs
    by (simp add: bytes_of_def sum_list_triv)
  then show ?thesis by (simp add: sha256_def Let_def length_concat o_def)
qed

lemma length_EncodeToString: "length (EncodeToString bs) = 2 * length bs"
  by (induction bs) (simp_all add: EncodeToString_def)

end
