(* ===== verification/Go_Net.thy ===== *)
theory Go_Net
  imports Go_Prelude "HOL-Library.Word"
begin

text \<open>
  The functions of Go's package \<^verbatim>\<open>net\<close> the admission webhooks call: \<^verbatim>\<open>net.ParseIP(s).To4()\<close>,
  \<^verbatim>\<open>net.ParseMAC\<close>, \<^verbatim>\<open>IPMask.Size\<close>, \<^verbatim>\<open>IP.Mask\<close> and \<^verbatim>\<open>IPNet.Contains\<close>. An IP address is its slice of
  bytes, four of them after \<^verbatim>\<open>To4\<close>; a byte is an \<open>8 word\<close>.
\<close>

unbundle bit_operations_syntax

type_synonym byte = "8 word"

section \<open>IPv4\<close>

text \<open>
  A field of the dotted notation: decimal digits, no leading zero, at most 255. Go scans the bytes
  once; four fields and no empty one is what its checks on the dots come to.
\<close>

definition parse_octet :: "string \<Rightarrow> byte option" where
  "parse_octet s =
     (case parse_digits s of
        None \<Rightarrow> None
      | Some n \<Rightarrow> if 1 < length s \<and> hd s = CHR ''0'' then None else if 255 < n then None else Some (of_nat n))"

definition parseIPv4 :: "string \<Rightarrow> byte list option" where
  "parseIPv4 s =
     (let fields = map parse_octet (Split s CHR ''.'')
      in if length fields = 4 \<and> None \<notin> set fields then Some (map the fields) else None)"

section \<open>IPv6\<close>

definition hex_value :: "char \<Rightarrow> nat option" where
  "hex_value c =
     (let n = char_code c
      in if 48 \<le> n \<and> n \<le> 57 then Some (n - 48)
         else if 97 \<le> n \<and> n \<le> 102 then Some (n - 87)
         else if 65 \<le> n \<and> n \<le> 70 then Some (n - 55)
         else None)"

definition is_hex :: "char \<Rightarrow> bool" where
  "is_hex c \<longleftrightarrow> hex_value c \<noteq> None"

definition hex_number :: "string \<Rightarrow> nat" where
  "hex_number s = foldl (\<lambda>acc c. 16 * acc + (case hex_value c of Some d \<Rightarrow> d | None \<Rightarrow> 0)) 0 s"

text \<open>
  The loop of \<^verbatim>\<open>netip.parseIPv6\<close>: the bytes read so far, the position of the ellipsis among them, and
  the rest of the text, which is not empty. It ends at the end of the text, after 16 bytes, or after an
  IPv4 address in the last four; what is left of the text is returned with the bytes.
\<close>

function parse6_loop :: "byte list \<Rightarrow> nat option \<Rightarrow> string \<Rightarrow> (byte list \<times> nat option \<times> string) option" where
  "parse6_loop ip ellipsis s =
     (if 16 \<le> length ip then Some (ip, ellipsis, s)
      else
        let digits = takeWhile is_hex s; rest = dropWhile is_hex s
        in if digits = [] \<or> 4 < length digits then None
           else if rest \<noteq> [] \<and> hd rest = CHR ''.'' then
             (if (ellipsis = None \<and> length ip \<noteq> 12) \<or> 16 < length ip + 4 then None
              else case parseIPv4 s of None \<Rightarrow> None | Some ip4 \<Rightarrow> Some (ip @ ip4, ellipsis, []))
           else
             let ip = ip @ [of_nat (hex_number digits div 256), of_nat (hex_number digits mod 256)]
             in if rest = [] then Some (ip, ellipsis, [])
                else if hd rest \<noteq> CHR '':'' \<or> tl rest = [] then None
                else if hd (tl rest) = CHR '':'' then
                  (if ellipsis \<noteq> None then None
                   else if tl (tl rest) = [] then Some (ip, Some (length ip), [])
                   else parse6_loop ip (Some (length ip)) (tl (tl rest)))
                else parse6_loop ip ellipsis (tl rest))"
  by pat_completeness auto

termination by (relation "measure (\<lambda>(ip, _, _). 16 - length ip)") auto

declare parse6_loop.simps [simp del]

definition expand6 :: "byte list \<Rightarrow> nat option \<Rightarrow> byte list option" where
  "expand6 ip ellipsis =
     (if length ip < 16
      then (case ellipsis of
              None \<Rightarrow> None
            | Some e \<Rightarrow> Some (take e ip @ replicate (16 - length ip) 0 @ drop e ip))
      else if ellipsis \<noteq> None then None
      else Some ip)"

text \<open>An address with a zone is no IP for \<^verbatim>\<open>net.ParseIP\<close>, so a percent sign ends in nil.\<close>

definition parseIPv6 :: "string \<Rightarrow> byte list option" where
  "parseIPv6 s =
     (if CHR ''%'' \<in> set s then None
      else if HasPrefix s ''::'' \<and> drop 2 s = [] then Some (replicate 16 0)
      else
        case (if HasPrefix s ''::'' then parse6_loop [] (Some 0) (drop 2 s) else parse6_loop [] None s) of
          None \<Rightarrow> None
        | Some (ip, ellipsis, rest) \<Rightarrow> if rest \<noteq> [] then None else expand6 ip ellipsis)"

text \<open>\<^verbatim>\<open>netip.ParseAddr\<close> decides by the first dot, colon or percent sign.\<close>

definition To4 :: "byte list \<Rightarrow> byte list option" where
  "To4 ip =
     (if length ip = 4 then Some ip
      else if length ip = 16 \<and> take 12 ip = replicate 10 0 @ [255, 255] then Some (drop 12 ip)
      else None)"

definition ParseIP :: "string \<Rightarrow> byte list option" where
  "ParseIP s =
     (case dropWhile (\<lambda>c. c \<noteq> CHR ''.'' \<and> c \<noteq> CHR '':'' \<and> c \<noteq> CHR ''%'') s of
        [] \<Rightarrow> None
      | c # _ \<Rightarrow> if c = CHR ''.'' then parseIPv4 s else if c = CHR '':'' then parseIPv6 s else None)"

definition ParseIP4 :: "string \<Rightarrow> byte list option" where
  "ParseIP4 s = (case ParseIP s of None \<Rightarrow> None | Some ip \<Rightarrow> To4 ip)"

section \<open>Masks\<close>

text \<open>\<^verbatim>\<open>simpleMaskLength\<close>: full bytes, then one that starts with ones and continues with zeros, then zeros.\<close>

definition leading_ones :: "byte \<Rightarrow> nat option" where
  "leading_ones b = find (\<lambda>n. b = push_bit (8 - n) (mask n)) [0..<9]"

fun simpleMaskLength :: "byte list \<Rightarrow> nat option" where
  "simpleMaskLength [] = Some 0"
| "simpleMaskLength (b # bs) =
     (if b = 255 then map_option (\<lambda>n. 8 + n) (simpleMaskLength bs)
      else if list_all (\<lambda>c. c = 0) bs then leading_ones b else None)"

definition mask_and :: "byte list \<Rightarrow> byte list \<Rightarrow> byte list" where
  "mask_and ip m = map2 (AND) ip m"

text \<open>\<^verbatim>\<open>(&net.IPNet{IP: networkIP.Mask(mask), Mask: mask}).Contains(ip)\<close> on four-byte addresses.\<close>

definition subnet_contains :: "byte list \<Rightarrow> byte list \<Rightarrow> byte list \<Rightarrow> bool" where
  "subnet_contains networkIP m ip \<longleftrightarrow> mask_and (mask_and networkIP m) m = mask_and ip m"

section \<open>Hardware addresses\<close>

text \<open>
  Groups of two hexadecimal digits with one separator, or of four with dots: 6, 8 or 20 bytes.
\<close>

definition hex_group :: "nat \<Rightarrow> string \<Rightarrow> bool" where
  "hex_group n g \<longleftrightarrow> length g = n \<and> list_all is_hex g"

definition ParseMAC_ok :: "string \<Rightarrow> bool" where
  "ParseMAC_ok s =
     (if length s < 14 then False
      else if s ! 2 = CHR '':'' \<or> s ! 2 = CHR ''-'' then
        (let groups = Split s (s ! 2) in list_all (hex_group 2) groups \<and> length groups \<in> {6, 8, 20})
      else if s ! 4 = CHR ''.'' then
        (let groups = Split s CHR ''.'' in list_all (hex_group 4) groups \<and> length groups \<in> {3, 4, 10})
      else False)"

section \<open>Lemmas\<close>

lemma parseIPv4_length: "parseIPv4 s = Some ip \<Longrightarrow> length ip = 4"
  by (auto simp: parseIPv4_def Let_def split: if_splits)

lemma To4_length: "To4 ip = Some ip4 \<Longrightarrow> length ip4 = 4"
  by (auto simp: To4_def split: if_splits)

lemma ParseIP4_length: "ParseIP4 s = Some ip \<Longrightarrow> length ip = 4"
  by (auto simp: ParseIP4_def To4_length split: option.splits)

text \<open>The number an address stands for, most significant byte first.\<close>

fun bytes_value :: "byte list \<Rightarrow> nat" where
  "bytes_value [] = 0"
| "bytes_value (b # bs) = unat b * 256 ^ length bs + bytes_value bs"

lemma bytes_value_bound: "bytes_value bs < 256 ^ length bs"
proof (induction bs)
  case (Cons b bs)
  have "unat b < 2 ^ LENGTH(8)" by (rule unsigned_less)
  then have "unat b \<le> 255" by simp
  then have "unat b * 256 ^ length bs \<le> 255 * 256 ^ length bs" by (rule mult_le_mono1)
  with Cons have "unat b * 256 ^ length bs + bytes_value bs < 255 * 256 ^ length bs + 256 ^ length bs" by linarith
  then show ?case by simp
qed simp

lemma bytes_value_Cons_less:
  assumes "length as = length bs" and "a < b"
  shows "bytes_value (a # as) < bytes_value (b # bs)"
proof -
  have "unat a + 1 \<le> unat b" using assms(2) by (simp add: word_less_nat_alt)
  then have "(unat a + 1) * 256 ^ length bs \<le> unat b * 256 ^ length bs" by (rule mult_le_mono1)
  with bytes_value_bound [of as] assms(1) show ?thesis by (simp add: algebra_simps)
qed

lemma mask_and_idem [simp]: "mask_and (mask_and a m) m = mask_and a m"
  by (auto simp: mask_and_def list_eq_iff_nth_eq and.assoc)

lemma subnet_contains_iff: "subnet_contains net m ip \<longleftrightarrow> mask_and ip m = mask_and net m"
  by (auto simp: subnet_contains_def)

text \<open>Masks with leading ones are the ones \<^verbatim>\<open>Size\<close> accepts, byte by byte.\<close>

lemma leading_ones_Some: "leading_ones b = Some n \<Longrightarrow> n \<le> 8 \<and> b = push_bit (8 - n) (mask n)"
  by (auto simp: leading_ones_def find_Some_iff)

end
