(* ===== verification/Api_Errors.thy ===== *)
theory Api_Errors
  imports Go_Prelude
begin

text \<open>
  The error values of the operator (\<^verbatim>\<open>internal/technitium/errors.go\<close> and the sentinels of the
  controller package) and \<^verbatim>\<open>classifyStatus\<close>, which turns a Technitium response envelope into
  one of them.

  A Go \<^verbatim>\<open>error\<close> is a value of \<open>go_error\<close>: a sentinel of the
  operator or of the packages \<^verbatim>\<open>flag\<close> and \<^verbatim>\<open>net/http\<close>, an \<^verbatim>\<open>*APIError\<close>, a text made by
  \<^verbatim>\<open>errors.New\<close> or by \<^verbatim>\<open>fmt.Errorf\<close> without \<^verbatim>\<open>%w\<close>, a wrapping made by \<^verbatim>\<open>fmt.Errorf\<close> with
  \<^verbatim>\<open>%w\<close> (the text before it, the wrapped error, the text after it), or an error of the
  Kubernetes API with its status reason. \<^verbatim>\<open>errors.Is\<close> walks the wrappings.
\<close>

section \<open>Errors\<close>

datatype kube_reason = NotFound | AlreadyExists | Conflict | OtherReason

datatype go_error =
    ErrZoneAlreadyExists | ErrZoneNotFound | ErrInvalidToken | ErrInvalidCredentials
  | ErrClusterAlreadyInitialized | ErrRecordAlreadyExists | ErrRecordNotFound
  | ErrAppAlreadyInstalled | ErrAppNotInstalled | ErrDHCPScopeNotFound | ErrDHCPReservationNotFound
  | errAdminCredentialsRejected | errPDBNotOwned
  | ErrHelp | ErrServerClosed
  | APIError string string int
  | ErrorText string
  | ErrorWrap string go_error string
  | KubeError kube_reason string

fun errors_Is :: "go_error \<Rightarrow> go_error \<Rightarrow> bool" where
  "errors_Is (ErrorWrap p e s) t = (ErrorWrap p e s = t \<or> errors_Is e t)"
| "errors_Is e t = (e = t)"

text \<open>\<^verbatim>\<open>apierrors.IsNotFound\<close> reads the status reason of the error or of one it wraps.\<close>

fun IsNotFound :: "go_error \<Rightarrow> bool" where
  "IsNotFound (KubeError r _) = (r = NotFound)"
| "IsNotFound (ErrorWrap _ e _) = IsNotFound e"
| "IsNotFound _ = False"

fun IsAlreadyExists :: "go_error \<Rightarrow> bool" where
  "IsAlreadyExists (KubeError r _) = (r = AlreadyExists)"
| "IsAlreadyExists (ErrorWrap _ e _) = IsAlreadyExists e"
| "IsAlreadyExists _ = False"

text \<open>\<^verbatim>\<open>client.IgnoreNotFound\<close>: nil for a not-found error, the error itself otherwise.\<close>

definition IgnoreNotFound :: "go_error \<Rightarrow> go_error option" where
  "IgnoreNotFound e = (if IsNotFound e then None else Some e)"

text \<open>The \<^verbatim>\<open>%q\<close> verb on printable ASCII: quotes and backslashes are escaped.\<close>

definition Quote :: "string \<Rightarrow> string" where
  "Quote s = CHR 0x22 # concat (map (\<lambda>c. if char_code c = 34 \<or> char_code c = 92 then [CHR 0x5C, c] else [c]) s) @ [CHR 0x22]"

definition APIError_Error :: "string \<Rightarrow> string \<Rightarrow> int \<Rightarrow> string" where
  "APIError_Error status message httpStatus =
     (if message \<noteq> [] then ''technitium: API returned status '' @ Quote status @ '': '' @ message
      else if httpStatus \<noteq> 0 then ''technitium: unexpected HTTP '' @ Itoa httpStatus @ '' response''
      else ''technitium: API returned status '' @ Quote status)"

fun Error :: "go_error \<Rightarrow> string" where
  "Error ErrZoneAlreadyExists = ''technitium: zone already exists''"
| "Error ErrZoneNotFound = ''technitium: zone not found''"
| "Error ErrInvalidToken = ''technitium: invalid or expired token''"
| "Error ErrInvalidCredentials = ''technitium: invalid username or password''"
| "Error ErrClusterAlreadyInitialized = ''technitium: cluster already initialized''"
| "Error ErrRecordAlreadyExists = ''technitium: record already exists''"
| "Error ErrRecordNotFound = ''technitium: record not found''"
| "Error ErrAppAlreadyInstalled = ''technitium: app already installed''"
| "Error ErrAppNotInstalled = ''technitium: app not installed''"
| "Error ErrDHCPScopeNotFound = ''technitium: dhcp scope not found''"
| "Error ErrDHCPReservationNotFound = ''technitium: dhcp reservation not found''"
| "Error errAdminCredentialsRejected = ''admin credentials rejected''"
| "Error errPDBNotOwned = ''pod disruption budget exists but is not owned by this TechnitiumCluster''"
| "Error ErrHelp = ''flag: help requested''"
| "Error ErrServerClosed = ''http: Server closed''"
| "Error (APIError st msg http) = APIError_Error st msg http"
| "Error (ErrorText t) = t"
| "Error (ErrorWrap p e s) = p @ Error e @ s"
| "Error (KubeError _ msg) = msg"

section \<open>classifyStatus\<close>

definition wrap_message :: "go_error \<Rightarrow> string \<Rightarrow> go_error" where
  "wrap_message sentinel message = ErrorWrap [] sentinel ('': '' @ message)"

definition not_found_phrases :: "string list" where
  "not_found_phrases =
     [''no such zone'', ''no such record'', ''no such app'', ''no such scope'', ''no reservation'',
      ''not installed'', ''not found'', ''does not exist'']"

definition classifyStatus :: "string \<Rightarrow> string \<Rightarrow> go_error option" where
  "classifyStatus status message =
     (if status = ''ok'' then None
      else if status = ''invalid-token'' then Some ErrInvalidToken
      else
        let lower = ToLower message in
        if Contains lower ''invalid username or password'' then
          Some (wrap_message ErrInvalidCredentials message)
        else
          let isRecord = Contains lower ''record'';
              isApp = Contains lower ''app'';
              isDHCPReservation = Contains lower ''reservation'' \<or> Contains lower ''lease'';
              isDHCPScope = Contains lower ''scope''
          in
          if Contains lower ''already initialized'' then
            Some (wrap_message ErrClusterAlreadyInitialized message)
          else if Contains lower ''already exists'' \<or> Contains lower ''already installed'' then
            (if isRecord then Some (wrap_message ErrRecordAlreadyExists message)
             else if isApp then Some (wrap_message ErrAppAlreadyInstalled message)
             else Some (wrap_message ErrZoneAlreadyExists message))
          else if list_ex (Contains lower) not_found_phrases then
            (if isRecord then Some (wrap_message ErrRecordNotFound message)
             else if isApp then Some (wrap_message ErrAppNotInstalled message)
             else if isDHCPReservation then Some (wrap_message ErrDHCPReservationNotFound message)
             else if isDHCPScope then Some (wrap_message ErrDHCPScopeNotFound message)
             else Some (wrap_message ErrZoneNotFound message))
          else Some (APIError status message 0))"

section \<open>Lemmas\<close>

fun is_sentinel :: "go_error \<Rightarrow> bool" where
  "is_sentinel (APIError _ _ _) = False"
| "is_sentinel (ErrorText _) = False"
| "is_sentinel (ErrorWrap _ _ _) = False"
| "is_sentinel (KubeError _ _) = False"
| "is_sentinel _ = True"

lemma errors_Is_refl [simp]: "errors_Is e e"
  by (cases e) auto

lemma is_sentinel_not_wrap: "is_sentinel t \<Longrightarrow> t \<noteq> ErrorWrap p e s"
  by auto

lemma errors_Is_wrap [simp]: "is_sentinel t \<Longrightarrow> errors_Is (ErrorWrap p e s) t = errors_Is e t"
  by auto

lemma errors_Is_sentinel: "is_sentinel e \<Longrightarrow> errors_Is e t \<longleftrightarrow> e = t"
  by (cases e) auto

lemma errors_Is_wrap_message:
  "is_sentinel e \<Longrightarrow> is_sentinel t \<Longrightarrow> errors_Is (wrap_message e m) t \<longleftrightarrow> e = t"
  unfolding wrap_message_def by (simp only: errors_Is_wrap errors_Is_sentinel)

text \<open>A word without spaces is not split by a space, so it lies on one side of it.\<close>

lemma Contains_space_split:
  assumes "sp \<notin> set sub"
  shows "Contains (u @ sp # z) sub \<longleftrightarrow> Contains u sub \<or> Contains z sub"
proof
  assume "Contains (u @ sp # z) sub"
  then obtain a b where ab: "u @ sp # z = (a @ sub) @ b"
    unfolding Contains_iff by auto
  show "Contains u sub \<or> Contains z sub"
  proof (cases "length (a @ sub) \<le> length u")
    case True
    with ab obtain r where "u = (a @ sub) @ r" by (rule append_prefixE)
    then show ?thesis unfolding Contains_iff by auto
  next
    case False
    with ab [symmetric] obtain r where r: "a @ sub = u @ r" "sp # z = r @ b"
      by (metis append_prefixE nat_le_linear)
    with False obtain r' where r': "r = sp # r'" by (cases r) auto
    have "length u \<le> length a"
    proof (rule ccontr)
      assume "\<not> length u \<le> length a"
      with r(1) obtain t where "sub = t @ r" by (metis append_prefixE nat_le_linear)
      with r' assms show False by simp
    qed
    with r(1) obtain t where t: "a = u @ t" "r = t @ sub" by (metis append_prefixE)
    with r' assms obtain t' where "t = sp # t'" by (cases t) auto
    with t r' r(2) have "z = t' @ sub @ b" by simp
    then show ?thesis unfolding Contains_iff by blast
  qed
next
  assume "Contains u sub \<or> Contains z sub"
  then show "Contains (u @ sp # z) sub"
    using Contains_append1 Contains_append2 [of z sub "u @ [sp]"] by auto
qed

text \<open>A phrase with a space that occurs in a text followed by a word has its first words in the text.\<close>

lemma Contains_phrase:
  assumes "sp \<notin> set z" and "Contains (u @ z) (p @ sp # q)"
  shows "Contains u (p @ [sp])"
proof -
  obtain a b where ab: "u @ z = (a @ p @ [sp]) @ q @ b"
    using assms(2) unfolding Contains_iff by auto
  show ?thesis
  proof (cases "length (a @ p @ [sp]) \<le> length u")
    case True
    with ab obtain r where "u = (a @ p @ [sp]) @ r" by (rule append_prefixE)
    then show ?thesis unfolding Contains_iff by auto
  next
    case False
    with ab [symmetric] obtain r where r: "(a @ p) @ [sp] = u @ r" "z = r @ q @ b"
      by (metis append.assoc append_prefixE nat_le_linear)
    with False have "r \<noteq> []" by auto
    with r(1) have "last r = sp" by (metis last_appendR last_snoc)
    with \<open>r \<noteq> []\<close> r(2) assms(1) show ?thesis by (metis UnI1 last_in_set set_append)
  qed
qed

section \<open>Properties\<close>

lemma lower_char_space [simp]: "lower_char c = CHR '' '' \<longleftrightarrow> c = CHR '' ''"
proof -
  have "char_code (lower_char c) = char_code CHR '' '' \<longleftrightarrow> char_code c = char_code CHR '' ''"
    unfolding lower_char_def by (auto simp del: char_code_inject) (auto simp: char_code_def)
  then show ?thesis by simp
qed

lemma ToLower_space: "CHR '' '' \<in> set (ToLower s) \<longleftrightarrow> CHR '' '' \<in> set s"
  unfolding ToLower_def set_map image_iff by (metis lower_char_space)

text \<open>
  The message the server sends for a missing zone ends with the zone's name. No phrase that
  selects another branch of the classification can straddle the name, so the branch is that of
  the not-found phrases; which sentinel it yields depends on the words inside the name.
\<close>

definition zone_not_found_message :: "string \<Rightarrow> string" where
  "zone_not_found_message z = ''No such zone was found: '' @ z"

lemma classify_zone_not_found:
  assumes "CHR '' '' \<notin> set z"
  shows "classifyStatus ''error'' (zone_not_found_message z) =
    Some (wrap_message
      (if Contains (ToLower z) ''record'' then ErrRecordNotFound
       else if Contains (ToLower z) ''app'' then ErrAppNotInstalled
       else if Contains (ToLower z) ''reservation'' \<or> Contains (ToLower z) ''lease'' then ErrDHCPReservationNotFound
       else if Contains (ToLower z) ''scope'' then ErrDHCPScopeNotFound
       else ErrZoneNotFound) (zone_not_found_message z))"
proof -
  let ?u = "''no such zone was found: ''" and ?z = "ToLower z"
  have lower: "ToLower (zone_not_found_message z) = ?u @ ?z"
  proof -
    have "ToLower ''No such zone was found: '' = ?u" by code_simp
    then show ?thesis unfolding zone_not_found_message_def ToLower_append by simp
  qed
  have z: "CHR '' '' \<notin> set ?z" using assms by (simp add: ToLower_space)
  have phrase: "\<not> Contains (?u @ ?z) (p @ CHR '' '' # q)" if "\<not> Contains ?u (p @ '' '')" for p q
    using Contains_phrase [OF z, of ?u p q] that by blast
  have 1: "\<not> Contains (?u @ ?z) ''invalid username or password''"
    using phrase [of "''invalid''" "''username or password''"] by (simp add: HasPrefix_def)
  have 2: "\<not> Contains (?u @ ?z) ''already initialized''" "\<not> Contains (?u @ ?z) ''already exists''"
    "\<not> Contains (?u @ ?z) ''already installed''"
    using phrase [of "''already''"] by (simp_all add: HasPrefix_def)
  have 3: "Contains (?u @ ?z) ''no such zone''"
    by (simp add: HasPrefix_def)
  have word: "Contains (?u @ ?z) w \<longleftrightarrow> Contains ?z w"
    if "CHR '' '' \<notin> set w" "\<not> Contains ''no such zone was found:'' w" for w
    using Contains_space_split [OF that(1), of "''no such zone was found:''" ?z] that(2) by simp
  have 4: "Contains (?u @ ?z) ''record'' = Contains ?z ''record''" by (rule word) (simp_all add: HasPrefix_def)
  have 5: "Contains (?u @ ?z) ''app'' = Contains ?z ''app''" by (rule word) (simp_all add: HasPrefix_def)
  have 6: "Contains (?u @ ?z) ''reservation'' = Contains ?z ''reservation''" by (rule word) (simp_all add: HasPrefix_def)
  have 7: "Contains (?u @ ?z) ''lease'' = Contains ?z ''lease''" by (rule word) (simp_all add: HasPrefix_def)
  have 8: "Contains (?u @ ?z) ''scope'' = Contains ?z ''scope''" by (rule word) (simp_all add: HasPrefix_def)
  show ?thesis
    unfolding classifyStatus_def lower Let_def not_found_phrases_def
    using 1 2 3 by (simp only: 4 5 6 7 8 list_ex_Nil_iff list_ex_Cons_iff) simp
qed

text \<open>
  (C38) A missing zone is reported as \<^verbatim>\<open>ErrZoneNotFound\<close>, the error on which the Zone controller
  creates the zone, exactly when the zone's name contains none of the words record, app,
  reservation, lease and scope; for every other name the error is another sentinel.
\<close>

theorem zone_not_found_iff:
  assumes "CHR '' '' \<notin> set z"
  shows "(\<exists>e. classifyStatus ''error'' (zone_not_found_message z) = Some e \<and> errors_Is e ErrZoneNotFound) \<longleftrightarrow>
    (\<forall>w \<in> {''record'', ''app'', ''reservation'', ''lease'', ''scope''}. \<not> Contains (ToLower z) w)"
  unfolding classify_zone_not_found [OF assms] by (simp add: errors_Is_wrap_message)

theorem zone_not_found_iff_witness:
  "(\<exists>e. classifyStatus ''error'' (zone_not_found_message ''example.com'') = Some e \<and> errors_Is e ErrZoneNotFound) \<and>
   \<not> (\<exists>e. classifyStatus ''error'' (zone_not_found_message ''apps.example.com'') = Some e \<and> errors_Is e ErrZoneNotFound)"
proof
  have "\<forall>w \<in> {''record'', ''app'', ''reservation'', ''lease'', ''scope''}. \<not> Contains (ToLower ''example.com'') w"
    by code_simp
  with zone_not_found_iff [of "''example.com''"]
  show "\<exists>e. classifyStatus ''error'' (zone_not_found_message ''example.com'') = Some e \<and> errors_Is e ErrZoneNotFound"
    by simp
  have "Contains (ToLower ''apps.example.com'') ''app''" by code_simp
  with zone_not_found_iff [of "''apps.example.com''"]
  show "\<not> (\<exists>e. classifyStatus ''error'' (zone_not_found_message ''apps.example.com'') = Some e \<and> errors_Is e ErrZoneNotFound)"
    by auto
qed

end
