(* ===== verification/Technitium_Types.thy ===== *)
theory Technitium_Types
  imports Api_Errors
begin

text \<open>
  The data Technitium's API returns (\<^verbatim>\<open>internal/technitium\<close>): one record per response struct,
  and \<open>payload\<close>, the decoded \<^verbatim>\<open>"response"\<close> object of an envelope. The JSON codec itself is not
  modelled: a response is its decoded envelope, and a payload that does not decode into the
  struct the caller asked for is a payload of another constructor. Integers are \<^typ>\<open>int\<close>, a
  point in time is its number of nanoseconds, and a nil pointer is \<^const>\<open>None\<close>.
\<close>

record zone_info =
  zi_Name :: string
  zi_Type :: string
  zi_Internal :: bool
  zi_DNSSECStatus :: string
  zi_SOASerial :: int
  zi_LastModified :: int
  zi_Disabled :: bool

record zone_options =
  zo_Name :: string
  zo_Type :: string
  zo_Internal :: bool
  zo_DNSSECStatus :: string
  zo_Disabled :: bool
  zo_Catalog :: string
  zo_DnssecValidation :: bool

record record_data =
  rd_IPAddress :: string
  rd_CName :: string
  rd_Text :: string
  rd_NameServer :: string
  rd_PtrName :: string
  rd_Exchange :: string
  rd_Preference :: int

record dns_record =
  tr_Name :: string
  tr_Type :: string
  tr_TTL :: int
  tr_Disabled :: bool
  tr_RData :: record_data

record cluster_node =
  cn_ID :: int
  cn_Name :: string
  cn_URL :: string
  cn_IPAddresses :: "string list"
  cn_Type :: string
  cn_State :: string
  cn_Version :: string
  cn_UpSince :: "int option"
  cn_LastSeen :: "int option"
  cn_ConfigLastSynced :: "int option"

record cluster_state =
  cs_Version :: string
  cs_DNSServerDomain :: string
  cs_ClusterInitialized :: bool
  cs_ClusterDomain :: string
  cs_Nodes :: "cluster_node list"

record dns_settings =
  ds_Forwarders :: "string list"
  ds_ForwarderProtocol :: string
  ds_Recursion :: string
  ds_RecursionNetworkACL :: "string list"
  ds_ServeStale :: bool
  ds_ServeStaleTTL :: int
  ds_CacheMaximumRecordTTL :: int
  ds_CacheMinimumRecordTTL :: int
  ds_EnableLogging :: bool
  ds_LogQueries :: bool
  ds_UseLocalTime :: bool
  ds_MaxLogFileDays :: int
  ds_EnableBlocking :: bool
  ds_BlockingType :: string
  ds_BlockListURLs :: "string list"
  ds_BlockListUpdateIntervalHours :: int

record dhcp_scope_info =
  dsi_Name :: string
  dsi_Enabled :: bool
  dsi_StartingAddress :: string
  dsi_EndingAddress :: string
  dsi_SubnetMask :: string

record dhcp_reserved_lease =
  rl_HardwareAddress :: string
  rl_Address :: string
  rl_HostName :: string
  rl_Comments :: string

record dhcp_scope_details =
  sd_Name :: string
  sd_Enabled :: bool
  sd_StartingAddress :: string
  sd_EndingAddress :: string
  sd_SubnetMask :: string
  sd_RouterAddress :: string
  sd_DNSServers :: "string list"
  sd_ReservedLeases :: "dhcp_reserved_lease list"

record dns_app_info =
  ai_Name :: string
  ai_Version :: string

record dnssec_properties =
  dp_Name :: string
  dp_DNSSECStatus :: string
  dp_DNSKeyTTL :: int

record dashboard_stats =
  st_TotalQueries :: int
  st_TotalNoError :: int
  st_TotalServerFailure :: int
  st_TotalNxDomain :: int
  st_TotalRefused :: int
  st_TotalAuthoritative :: int
  st_TotalRecursive :: int
  st_TotalCached :: int
  st_TotalBlocked :: int
  st_TotalDropped :: int
  st_TotalClients :: int
  st_Zones :: int
  st_CachedEntries :: int
  st_AllowedZones :: int
  st_BlockedZones :: int
  st_AllowListZones :: int
  st_BlockListZones :: int

datatype payload =
    NoPayload
  | UndecodablePayload
  | ZoneOptionsPayload zone_options
  | ZonesPagePayload int int int "zone_info list"
  | RecordsPayload "dns_record list"
  | ClusterStatePayload cluster_state
  | DNSSettingsPayload dns_settings
  | DHCPScopesPayload "dhcp_scope_info list"
  | DHCPScopePayload dhcp_scope_details
  | AppsPayload "dns_app_info list"
  | AppConfigPayload string
  | DNSSECPropertiesPayload dnssec_properties
  | DashboardStatsPayload dashboard_stats

text \<open>The zero values a decode leaves behind when the envelope carries no payload.\<close>

definition zero_zone_options :: zone_options where
  "zero_zone_options = \<lparr>zo_Name = [], zo_Type = [], zo_Internal = False, zo_DNSSECStatus = [],
     zo_Disabled = False, zo_Catalog = [], zo_DnssecValidation = False\<rparr>"

definition zero_cluster_state :: cluster_state where
  "zero_cluster_state = \<lparr>cs_Version = [], cs_DNSServerDomain = [], cs_ClusterInitialized = False,
     cs_ClusterDomain = [], cs_Nodes = []\<rparr>"

definition zero_dns_settings :: dns_settings where
  "zero_dns_settings = \<lparr>ds_Forwarders = [], ds_ForwarderProtocol = [], ds_Recursion = [],
     ds_RecursionNetworkACL = [], ds_ServeStale = False, ds_ServeStaleTTL = 0,
     ds_CacheMaximumRecordTTL = 0, ds_CacheMinimumRecordTTL = 0, ds_EnableLogging = False,
     ds_LogQueries = False, ds_UseLocalTime = False, ds_MaxLogFileDays = 0, ds_EnableBlocking = False,
     ds_BlockingType = [], ds_BlockListURLs = [], ds_BlockListUpdateIntervalHours = 0\<rparr>"

definition zero_dhcp_scope_details :: dhcp_scope_details where
  "zero_dhcp_scope_details = \<lparr>sd_Name = [], sd_Enabled = False, sd_StartingAddress = [],
     sd_EndingAddress = [], sd_SubnetMask = [], sd_RouterAddress = [], sd_DNSServers = [],
     sd_ReservedLeases = []\<rparr>"

definition zero_dnssec_properties :: dnssec_properties where
  "zero_dnssec_properties = \<lparr>dp_Name = [], dp_DNSSECStatus = [], dp_DNSKeyTTL = 0\<rparr>"

definition zero_dashboard_stats :: dashboard_stats where
  "zero_dashboard_stats = \<lparr>st_TotalQueries = 0, st_TotalNoError = 0, st_TotalServerFailure = 0,
     st_TotalNxDomain = 0, st_TotalRefused = 0, st_TotalAuthoritative = 0, st_TotalRecursive = 0,
     st_TotalCached = 0, st_TotalBlocked = 0, st_TotalDropped = 0, st_TotalClients = 0, st_Zones = 0,
     st_CachedEntries = 0, st_AllowedZones = 0, st_BlockedZones = 0, st_AllowListZones = 0,
     st_BlockListZones = 0\<rparr>"

fun as_zone_options :: "payload \<Rightarrow> zone_options option" where
  "as_zone_options (ZoneOptionsPayload z) = Some z"
| "as_zone_options _ = None"

fun as_zones_page :: "payload \<Rightarrow> (int \<times> int \<times> int \<times> zone_info list) option" where
  "as_zones_page (ZonesPagePayload pn tp tz zs) = Some (pn, tp, tz, zs)"
| "as_zones_page _ = None"

fun as_records :: "payload \<Rightarrow> dns_record list option" where
  "as_records (RecordsPayload rs) = Some rs"
| "as_records _ = None"

fun as_cluster_state :: "payload \<Rightarrow> cluster_state option" where
  "as_cluster_state (ClusterStatePayload c) = Some c"
| "as_cluster_state _ = None"

fun as_dns_settings :: "payload \<Rightarrow> dns_settings option" where
  "as_dns_settings (DNSSettingsPayload d) = Some d"
| "as_dns_settings _ = None"

fun as_dhcp_scopes :: "payload \<Rightarrow> dhcp_scope_info list option" where
  "as_dhcp_scopes (DHCPScopesPayload xs) = Some xs"
| "as_dhcp_scopes _ = None"

fun as_dhcp_scope :: "payload \<Rightarrow> dhcp_scope_details option" where
  "as_dhcp_scope (DHCPScopePayload d) = Some d"
| "as_dhcp_scope _ = None"

fun as_apps :: "payload \<Rightarrow> dns_app_info list option" where
  "as_apps (AppsPayload xs) = Some xs"
| "as_apps _ = None"

fun as_app_config :: "payload \<Rightarrow> string option" where
  "as_app_config (AppConfigPayload c) = Some c"
| "as_app_config _ = None"

fun as_dnssec_properties :: "payload \<Rightarrow> dnssec_properties option" where
  "as_dnssec_properties (DNSSECPropertiesPayload d) = Some d"
| "as_dnssec_properties _ = None"

fun as_dashboard_stats :: "payload \<Rightarrow> dashboard_stats option" where
  "as_dashboard_stats (DashboardStatsPayload s) = Some s"
| "as_dashboard_stats _ = None"

end
