(* ===== verification/Runtime.thy ===== *)
theory Runtime
  imports Technitium_Types
begin

text \<open>
  What the operator runs against, and the state its code has of its own.

  The HTTP transport, the Kubernetes API server and the helper functions of controller-runtime
  and apimachinery are not part of the repository: they are parameters. \<open>runtime\<close> holds the
  transport, the clock and the pure helpers (finalizers, conditions, owner references);
  \<open>kclient\<close> is \<^verbatim>\<open>client.Client\<close> at one kind of object. Each call takes the state \<open>'s\<close> of
  the outside world and returns its answer with the new state, so an answer may depend on
  everything that happened before. What the theorems need of these parameters is stated as a
  predicate on them (\<open>finalizer_laws\<close>, \<open>condition_laws\<close>) and appears as a hypothesis.

  \<open>world\<close> is that outside state together with the operator's own: the heap of
  \<^verbatim>\<open>*technitium.Client\<close> values (a pointer is an index into it), the entries of the reconciler's
  \<^verbatim>\<open>serverClientCache\<close>, and \<open>trace\<close>, a ghost list of the calls made so far, in order, in which
  the ordering properties are stated.
\<close>

section \<open>Requests and replies\<close>

type_synonym params = "string \<Rightarrow> string option"

record http_request =
  rq_url :: string
  rq_form :: params
  rq_authorization :: "string option"

record envelope =
  env_status :: string
  env_errorMessage :: string
  env_token :: "string option"
  env_response :: payload

datatype http_body = NotJSON | Envelope envelope

datatype http_reply =
    BuildFailed string
  | RequestFailed string
  | ReadFailed string
  | Response int http_body

section \<open>Kubernetes objects\<close>

datatype object_key = ObjectKey (key_Namespace: string) (key_Name: string)

type_synonym string_map = "(string \<times> string) list"

record owner_reference =
  or_Kind :: string
  or_Name :: string
  or_UID :: string
  or_Controller :: "bool option"

record object_meta =
  om_Name :: string
  om_Namespace :: string
  om_UID :: string
  om_Generation :: int
  om_ResourceVersion :: string
  om_CreationTimestamp :: "int option"
  om_DeletionTimestamp :: "int option"
  om_Finalizers :: "string list"
  om_Labels :: string_map
  om_Annotations :: string_map
  om_OwnerReferences :: "owner_reference list"

definition zero_meta :: object_meta where
  "zero_meta = \<lparr>om_Name = [], om_Namespace = [], om_UID = [], om_Generation = 0, om_ResourceVersion = [],
     om_CreationTimestamp = None, om_DeletionTimestamp = None, om_Finalizers = [], om_Labels = [],
     om_Annotations = [], om_OwnerReferences = []\<rparr>"

definition meta_key :: "object_meta \<Rightarrow> object_key" where
  "meta_key m = ObjectKey (om_Namespace m) (om_Name m)"

datatype condition_status = ConditionTrue | ConditionFalse | ConditionUnknown

record condition =
  c_Type :: string
  c_Status :: condition_status
  c_Reason :: string
  c_Message :: string
  c_ObservedGeneration :: int

section \<open>The outside\<close>

datatype event =
    EvHttp http_request
  | EvGet string object_key
  | EvList string
  | EvCreate string object_meta
  | EvUpdate string object_meta
  | EvStatusUpdate string object_meta
  | EvPatch string object_meta
  | EvDelete string object_meta
  | EvCreateOrUpdate string object_meta

record 's runtime =
  rt_http :: "http_request \<Rightarrow> 's \<Rightarrow> http_reply \<times> 's"
  rt_Now :: "'s \<Rightarrow> int \<times> 's"
  rt_AddFinalizer :: "string list \<Rightarrow> string \<Rightarrow> string list \<times> bool"
  rt_ContainsFinalizer :: "string list \<Rightarrow> string \<Rightarrow> bool"
  rt_RemoveFinalizer :: "string list \<Rightarrow> string \<Rightarrow> string list"
  rt_SetStatusCondition :: "condition list \<Rightarrow> condition \<Rightarrow> condition list \<times> bool"
  rt_FindStatusCondition :: "condition list \<Rightarrow> string \<Rightarrow> condition option"
  rt_IsControlledBy :: "object_meta \<Rightarrow> object_meta \<Rightarrow> bool"
  rt_SetControllerReference :: "object_meta \<Rightarrow> object_meta \<Rightarrow> go_error + object_meta"

record ('s, 'o) kclient =
  kc_kind :: string
  kc_meta :: "'o \<Rightarrow> object_meta"
  kc_Get :: "object_key \<Rightarrow> 's \<Rightarrow> (go_error + 'o) \<times> 's"
  kc_List :: "string \<Rightarrow> string_map \<Rightarrow> 's \<Rightarrow> (go_error + 'o list) \<times> 's"
  kc_Create :: "'o \<Rightarrow> 's \<Rightarrow> (go_error + 'o) \<times> 's"
  kc_Update :: "'o \<Rightarrow> 's \<Rightarrow> (go_error + 'o) \<times> 's"
  kc_StatusUpdate :: "'o \<Rightarrow> 's \<Rightarrow> (go_error + 'o) \<times> 's"
  kc_Patch :: "'o \<Rightarrow> 'o \<Rightarrow> 's \<Rightarrow> (go_error + 'o) \<times> 's"
  kc_Delete :: "'o \<Rightarrow> 's \<Rightarrow> (go_error + unit) \<times> 's"
  kc_CreateOrUpdate :: "'o \<Rightarrow> ('o \<Rightarrow> go_error + 'o) \<Rightarrow> 's \<Rightarrow> (go_error + 'o \<times> 'o) \<times> 's"

section \<open>The operator's own state\<close>

record tclient =
  cl_baseURL :: string
  cl_token :: string
  cl_username :: string
  cl_password :: string
  cl_timeout :: int
  cl_insecureSkipVerify :: bool

record cached_server_client =
  ce_endpoint :: string
  ce_secretResourceVersion :: string
  ce_api :: nat

record 's world =
  ext :: 's
  trace :: "event list"
  heap :: "tclient list"
  entries :: "string \<Rightarrow> cached_server_client option"

section \<open>Calls to the outside\<close>

text \<open>A call hands the outside its state, stores the new one and appends the event.\<close>

definition outside :: "event \<Rightarrow> ('s \<Rightarrow> 'a \<times> 's) \<Rightarrow> ('s world, 'a) state" where
  "outside ev f = State (\<lambda>w. case f (ext w) of (a, s) \<Rightarrow> (a, w\<lparr>ext := s, trace := trace w @ [ev]\<rparr>))"

definition http_post :: "'s runtime \<Rightarrow> http_request \<Rightarrow> ('s world, http_reply) state" where
  "http_post rt req = outside (EvHttp req) (rt_http rt req)"

definition now :: "'s runtime \<Rightarrow> ('s world, int) state" where
  "now rt = State (\<lambda>w. case rt_Now rt (ext w) of (t, s) \<Rightarrow> (t, w\<lparr>ext := s\<rparr>))"

definition kget :: "('s, 'o) kclient \<Rightarrow> object_key \<Rightarrow> ('s world, go_error + 'o) state" where
  "kget kc key = outside (EvGet (kc_kind kc) key) (kc_Get kc key)"

definition klist :: "('s, 'o) kclient \<Rightarrow> string \<Rightarrow> string_map \<Rightarrow> ('s world, go_error + 'o list) state" where
  "klist kc ns labels = outside (EvList (kc_kind kc)) (kc_List kc ns labels)"

definition kcreate :: "('s, 'o) kclient \<Rightarrow> 'o \<Rightarrow> ('s world, go_error + 'o) state" where
  "kcreate kc obj = outside (EvCreate (kc_kind kc) (kc_meta kc obj)) (kc_Create kc obj)"

definition kupdate :: "('s, 'o) kclient \<Rightarrow> 'o \<Rightarrow> ('s world, go_error + 'o) state" where
  "kupdate kc obj = outside (EvUpdate (kc_kind kc) (kc_meta kc obj)) (kc_Update kc obj)"

definition kstatus_update :: "('s, 'o) kclient \<Rightarrow> 'o \<Rightarrow> ('s world, go_error + 'o) state" where
  "kstatus_update kc obj = outside (EvStatusUpdate (kc_kind kc) (kc_meta kc obj)) (kc_StatusUpdate kc obj)"

definition kpatch :: "('s, 'o) kclient \<Rightarrow> 'o \<Rightarrow> 'o \<Rightarrow> ('s world, go_error + 'o) state" where
  "kpatch kc base obj = outside (EvPatch (kc_kind kc) (kc_meta kc obj)) (kc_Patch kc base obj)"

definition kdelete :: "('s, 'o) kclient \<Rightarrow> 'o \<Rightarrow> ('s world, go_error + unit) state" where
  "kdelete kc obj = outside (EvDelete (kc_kind kc) (kc_meta kc obj)) (kc_Delete kc obj)"

text \<open>
  \<^verbatim>\<open>controllerutil.CreateOrUpdate\<close> applies the mutate function to the stored object, or to the
  given one when there is none, and creates or updates the result. It returns the object the
  function was applied to, which a Go closure sees as it runs, and the object as stored.
\<close>

definition kcreate_or_update ::
  "('s, 'o) kclient \<Rightarrow> 'o \<Rightarrow> ('o \<Rightarrow> go_error + 'o) \<Rightarrow> ('s world, go_error + 'o \<times> 'o) state" where
  "kcreate_or_update kc obj f =
     outside (EvCreateOrUpdate (kc_kind kc) (kc_meta kc obj)) (kc_CreateOrUpdate kc obj f)"

section \<open>Documented behaviour of the helpers\<close>

text \<open>
  \<^verbatim>\<open>controllerutil.AddFinalizer\<close> adds the finalizer when it is absent and reports whether it
  changed the list; \<^verbatim>\<open>ContainsFinalizer\<close> tests membership; \<^verbatim>\<open>RemoveFinalizer\<close> drops it and
  leaves the others.
\<close>

definition finalizer_laws :: "'s runtime \<Rightarrow> bool" where
  "finalizer_laws rt \<longleftrightarrow>
     (\<forall>fs f. rt_ContainsFinalizer rt fs f \<longleftrightarrow> f \<in> set fs) \<and>
     (\<forall>fs f. set (fst (rt_AddFinalizer rt fs f)) = insert f (set fs)) \<and>
     (\<forall>fs f. snd (rt_AddFinalizer rt fs f) \<longleftrightarrow> f \<notin> set fs) \<and>
     (\<forall>fs f. f \<in> set fs \<longrightarrow> fst (rt_AddFinalizer rt fs f) = fs) \<and>
     (\<forall>fs f. set (rt_RemoveFinalizer rt fs f) = set fs - {f})"

text \<open>
  \<^verbatim>\<open>meta.SetStatusCondition\<close> replaces the condition of the same type or appends it, and
  reports whether anything changed; \<^verbatim>\<open>meta.FindStatusCondition\<close> finds a condition by type.
\<close>

definition condition_laws :: "'s runtime \<Rightarrow> bool" where
  "condition_laws rt \<longleftrightarrow>
     (\<forall>cs c t. rt_FindStatusCondition rt (fst (rt_SetStatusCondition rt cs c)) t =
        (if t = c_Type c then Some c else rt_FindStatusCondition rt cs t)) \<and>
     (\<forall>cs c. \<not> snd (rt_SetStatusCondition rt cs c) \<longleftrightarrow> rt_FindStatusCondition rt cs (c_Type c) = Some c) \<and>
     (\<forall>cs c. \<not> snd (rt_SetStatusCondition rt cs c) \<longrightarrow> fst (rt_SetStatusCondition rt cs c) = cs)"

text \<open>\<^verbatim>\<open>controllerutil.SetControllerReference\<close> changes nothing of the object but its owner references.\<close>

definition controller_reference_laws :: "'s runtime \<Rightarrow> bool" where
  "controller_reference_laws rt \<longleftrightarrow>
     (\<forall>owner m m'. rt_SetControllerReference rt owner m = Inr m' \<longrightarrow>
        m' = m\<lparr>om_OwnerReferences := om_OwnerReferences m'\<rparr>)"

section \<open>A concrete runtime\<close>

text \<open>
  An instance of the parameters, over any transport and clock, on which the hypotheses of the
  theorems can be checked: the helpers by list operations.
\<close>

fun set_condition :: "condition list \<Rightarrow> condition \<Rightarrow> condition list \<times> bool" where
  "set_condition [] c = ([c], True)"
| "set_condition (d # ds) c =
     (if c_Type d = c_Type c then (c # ds, d \<noteq> c)
      else case set_condition ds c of (ds', changed) \<Rightarrow> (d # ds', changed))"

definition plain_runtime ::
  "(http_request \<Rightarrow> 's \<Rightarrow> http_reply \<times> 's) \<Rightarrow> ('s \<Rightarrow> int \<times> 's) \<Rightarrow> 's runtime" where
  "plain_runtime http clock = \<lparr>rt_http = http, rt_Now = clock,
     rt_AddFinalizer = (\<lambda>fs f. if f \<in> set fs then (fs, False) else (fs @ [f], True)),
     rt_ContainsFinalizer = (\<lambda>fs f. f \<in> set fs),
     rt_RemoveFinalizer = (\<lambda>fs f. filter (\<lambda>g. g \<noteq> f) fs),
     rt_SetStatusCondition = set_condition,
     rt_FindStatusCondition = (\<lambda>cs t. find (\<lambda>c. c_Type c = t) cs),
     rt_IsControlledBy = (\<lambda>m owner. \<exists>r \<in> set (om_OwnerReferences m).
        or_Controller r = Some True \<and> or_UID r = om_UID owner),
     rt_SetControllerReference = (\<lambda>owner m. Inr (m\<lparr>om_OwnerReferences :=
        om_OwnerReferences m @ [\<lparr>or_Kind = [], or_Name = om_Name owner, or_UID = om_UID owner, or_Controller = Some True\<rparr>]\<rparr>))\<rparr>"

text \<open>
  A Kubernetes client over a fixed answer to \<open>Get\<close>: it accepts every write and stores nothing.
\<close>

definition plain_kclient :: "string \<Rightarrow> ('o \<Rightarrow> object_meta) \<Rightarrow> (object_key \<Rightarrow> go_error + 'o) \<Rightarrow> ('s, 'o) kclient" where
  "plain_kclient kind meta get = \<lparr>kc_kind = kind, kc_meta = meta,
     kc_Get = (\<lambda>key s. (get key, s)),
     kc_List = (\<lambda>_ _ s. (Inr [], s)),
     kc_Create = (\<lambda>obj s. (Inr obj, s)),
     kc_Update = (\<lambda>obj s. (Inr obj, s)),
     kc_StatusUpdate = (\<lambda>obj s. (Inr obj, s)),
     kc_Patch = (\<lambda>_ obj s. (Inr obj, s)),
     kc_Delete = (\<lambda>_ s. (Inr (), s)),
     kc_CreateOrUpdate = (\<lambda>obj f s. (map_sum id (Pair obj) (f obj), s))\<rparr>"

section \<open>Lemmas\<close>

lemma plain_runtime_sel [simp]:
  "rt_http (plain_runtime http clock) = http"
  "rt_Now (plain_runtime http clock) = clock"
  "rt_AddFinalizer (plain_runtime http clock) fs f = (if f \<in> set fs then (fs, False) else (fs @ [f], True))"
  "rt_ContainsFinalizer (plain_runtime http clock) fs f \<longleftrightarrow> f \<in> set fs"
  "rt_RemoveFinalizer (plain_runtime http clock) fs f = filter (\<lambda>g. g \<noteq> f) fs"
  "rt_SetStatusCondition (plain_runtime http clock) = set_condition"
  "rt_FindStatusCondition (plain_runtime http clock) cs t = find (\<lambda>c. c_Type c = t) cs"
  by (simp_all add: plain_runtime_def)

lemma plain_kclient_sel [simp]:
  "kc_kind (plain_kclient kind meta get) = kind"
  "kc_meta (plain_kclient kind meta get) = meta"
  "kc_Get (plain_kclient kind meta get) key s = (get key, s)"
  "kc_List (plain_kclient kind meta get) ns ls s = (Inr [], s)"
  "kc_Update (plain_kclient kind meta get) obj s = (Inr obj, s)"
  "kc_StatusUpdate (plain_kclient kind meta get) obj s = (Inr obj, s)"
  "kc_Patch (plain_kclient kind meta get) b obj s = (Inr obj, s)"
  "kc_Delete (plain_kclient kind meta get) obj s = (Inr (), s)"
  by (simp_all add: plain_kclient_def)

lemma finalizer_laws_plain: "finalizer_laws (plain_runtime http clock)"
  by (auto simp: finalizer_laws_def)

lemma controller_reference_laws_plain: "controller_reference_laws (plain_runtime http clock)"
  by (auto simp: controller_reference_laws_def plain_runtime_def)

lemma set_condition_find:
  "find (\<lambda>c. c_Type c = t) (fst (set_condition cs c)) =
     (if t = c_Type c then Some c else find (\<lambda>c. c_Type c = t) cs)"
  by (induction cs) (auto split: prod.splits)

lemma set_condition_changed:
  "\<not> snd (set_condition cs c) \<longleftrightarrow> find (\<lambda>d. c_Type d = c_Type c) cs = Some c"
  by (induction cs) (auto split: prod.splits)

lemma set_condition_same: "\<not> snd (set_condition cs c) \<Longrightarrow> fst (set_condition cs c) = cs"
  by (induction cs) (auto split: prod.splits if_splits)

lemma condition_laws_plain: "condition_laws (plain_runtime http clock)"
  unfolding condition_laws_def
  by (simp add: set_condition_find set_condition_changed [simplified] set_condition_same)

lemma run_outside [run_simps]:
  "run_state (outside ev f) w = (fst (f (ext w)), w\<lparr>ext := snd (f (ext w)), trace := trace w @ [ev]\<rparr>)"
  by (simp add: outside_def split: prod.splits)

lemma run_now [run_simps]:
  "run_state (now rt) w = (fst (rt_Now rt (ext w)), w\<lparr>ext := snd (rt_Now rt (ext w))\<rparr>)"
  by (simp add: now_def split: prod.splits)

lemmas kube_defs = kget_def klist_def kcreate_def kupdate_def kstatus_update_def kpatch_def kdelete_def
  kcreate_or_update_def

text \<open>
  Two facts every computation of the operator satisfies, and that are proved for each of them
  from its parts: the trace only grows, and the heap only grows. \<open>extends\<close> is the relation
  between the world before and after.
\<close>

definition extends :: "'s world \<Rightarrow> 's world \<Rightarrow> bool" where
  "extends w w' \<longleftrightarrow> (\<exists>es. trace w' = trace w @ es) \<and> (\<exists>cs. heap w' = heap w @ cs)"

lemma extends_refl [simp, intro]: "extends w w"
  by (simp add: extends_def)

lemma extends_trans [trans]: "extends a b \<Longrightarrow> extends b c \<Longrightarrow> extends a c"
  by (auto simp: extends_def)

text \<open>The events between two worlds.\<close>

definition new_events :: "'s world \<Rightarrow> 's world \<Rightarrow> event list" where
  "new_events w w' = drop (length (trace w)) (trace w')"

lemma new_events_append [simp]: "trace w' = trace w @ es \<Longrightarrow> new_events w w' = es"
  by (simp add: new_events_def)

definition is_http :: "event \<Rightarrow> bool" where
  "is_http ev \<longleftrightarrow> (\<exists>req. ev = EvHttp req)"

lemma is_http_simps [simp]:
  "is_http (EvHttp req)" "\<not> is_http (EvGet k key)" "\<not> is_http (EvList k)" "\<not> is_http (EvCreate k m)"
  "\<not> is_http (EvUpdate k m)" "\<not> is_http (EvStatusUpdate k m)" "\<not> is_http (EvPatch k m)"
  "\<not> is_http (EvDelete k m)" "\<not> is_http (EvCreateOrUpdate k m)"
  by (simp_all add: is_http_def)

text \<open>
  Footprints: the kinds of event a computation may add. \<open>writes m P\<close> says that running
  \<open>m\<close> extends the trace only by events satisfying \<open>P\<close>.
\<close>

definition emits :: "(event \<Rightarrow> bool) \<Rightarrow> ('s world, 'a) state \<Rightarrow> bool" where
  "emits P m \<longleftrightarrow>
     (\<forall>w. \<exists>es. trace (snd (run_state m w)) = trace w @ es \<and> list_all P es)"

lemma emits_return [intro!, simp]: "emits P (State_Monad.return a)"
  by (simp add: emits_def)

lemma emits_bind [intro]:
  assumes "emits P m" and "\<And>a. emits P (f a)"
  shows "emits P (State_Monad.bind m f)"
  unfolding emits_def
proof
  fix w
  obtain a w1 where m: "run_state m w = (a, w1)" by fastforce
  obtain es where es: "trace w1 = trace w @ es" "list_all P es"
    using assms(1) m unfolding emits_def by (metis snd_conv)
  obtain es' where "trace (snd (run_state (f a) w1)) = trace w1 @ es'" "list_all P es'"
    using assms(2) unfolding emits_def by blast
  with es m show "\<exists>es. trace (snd (run_state (State_Monad.bind m f) w)) = trace w @ es \<and> list_all P es"
    by (intro exI [of _ "es @ es'"]) auto
qed

lemma emits_or_return [intro]:
  assumes "emits P m" and "\<And>a. emits P (f a)"
  shows "emits P (or_return m f)"
  unfolding or_return_def using assms by (intro emits_bind) (auto split: sum.splits)

lemma emits_outside: "P ev \<Longrightarrow> emits P (outside ev f)"
  by (auto simp: emits_def run_outside)

lemma emits_now [intro, simp]: "emits P (now rt)"
  by (simp add: emits_def run_now)

lemma emits_mono: "emits P m \<Longrightarrow> (\<And>e. P e \<Longrightarrow> Q e) \<Longrightarrow> emits Q m"
  unfolding emits_def by (metis (mono_tags, lifting) list.pred_mono_strong)

lemma emits_D:
  "emits P m \<Longrightarrow> run_state m w = (a, w') \<Longrightarrow> \<exists>es. trace w' = trace w @ es \<and> list_all P es"
  unfolding emits_def by (metis snd_conv)

end
