(* ===== verification/Client.thy ===== *)
theory Client
  imports Runtime
begin

text \<open>
  The HTTP client of package \<^verbatim>\<open>technitium\<close> (\<^verbatim>\<open>client.go\<close>, \<^verbatim>\<open>user.go\<close>): construction, the
  request primitive every endpoint goes through, and the two ways to obtain a token.

  A \<^verbatim>\<open>*Client\<close> is an index into the heap of the world, so that the token \<^verbatim>\<open>Login\<close> stores is
  seen by every holder of the pointer. A pointer comes from \<open>NewClient\<close> and is in range; the
  zero client stands for reading outside the heap, where Go would panic. The transport a client
  builds from its timeout and TLS settings is the parameter \<open>rt_http\<close>.

  The main fact of the theory is \<open>do_call_requests\<close>: an endpoint makes exactly one request, a
  POST to its path with its form and the client's current token.
\<close>

abbreviation ret :: "'a \<Rightarrow> ('w, 'a) state" where
  "ret \<equiv> State_Monad.return"

abbreviation fail :: "go_error \<Rightarrow> ('w, go_error + 'a) state" where
  "fail e \<equiv> State_Monad.return (Inl e)"

abbreviation ok :: "'a \<Rightarrow> ('w, go_error + 'a) state" where
  "ok a \<equiv> State_Monad.return (Inr a)"

section \<open>Construction\<close>

definition defaultTimeout :: int where
  "defaultTimeout = 30 * 1000000000"

datatype client_option =
    WithToken string
  | WithCredentials string string
  | WithTimeout int
  | WithInsecureSkipVerify bool

fun apply_option :: "client_option \<Rightarrow> tclient \<Rightarrow> tclient" where
  "apply_option (WithToken token) c = c\<lparr>cl_token := token\<rparr>"
| "apply_option (WithCredentials username password) c = c\<lparr>cl_username := username, cl_password := password\<rparr>"
| "apply_option (WithTimeout d) c = c\<lparr>cl_timeout := d\<rparr>"
| "apply_option (WithInsecureSkipVerify skip) c = c\<lparr>cl_insecureSkipVerify := skip\<rparr>"

definition zero_client :: tclient where
  "zero_client = \<lparr>cl_baseURL = [], cl_token = [], cl_username = [], cl_password = [], cl_timeout = 0,
     cl_insecureSkipVerify = False\<rparr>"

definition deref :: "nat \<Rightarrow> ('s world, tclient) state" where
  "deref c = State (\<lambda>w. (if c < length (heap w) then heap w ! c else zero_client, w))"

definition store :: "nat \<Rightarrow> tclient \<Rightarrow> ('s world, unit) state" where
  "store c v = State (\<lambda>w. ((), w\<lparr>heap := (heap w)[c := v]\<rparr>))"

definition alloc :: "tclient \<Rightarrow> ('s world, nat) state" where
  "alloc v = State (\<lambda>w. (length (heap w), w\<lparr>heap := heap w @ [v]\<rparr>))"

definition NewClient :: "string \<Rightarrow> client_option list \<Rightarrow> ('s world, go_error + nat) state" where
  "NewClient baseURL opts =
     (if baseURL = [] then fail (ErrorText ''technitium: baseURL is required'')
      else do {
        c \<leftarrow> alloc (fold apply_option opts
               (zero_client\<lparr>cl_baseURL := TrimRightFunc (\<lambda>ch. ch = CHR ''/'') baseURL, cl_timeout := defaultTimeout\<rparr>));
        ok c
      })"

definition Token :: "nat \<Rightarrow> ('s world, string) state" where
  "Token c = do { cl \<leftarrow> deref c; ret (cl_token cl) }"

section \<open>Requests\<close>

definition no_params :: params where
  "no_params = (\<lambda>_. None)"

definition request_of :: "tclient \<Rightarrow> string \<Rightarrow> params \<Rightarrow> http_request" where
  "request_of cl path params = \<lparr>rq_url = cl_baseURL cl @ path, rq_form = params,
     rq_authorization = (if cl_token cl \<noteq> [] then Some (''Bearer '' @ cl_token cl) else None)\<rparr>"

definition reply_result :: "string \<Rightarrow> http_reply \<Rightarrow> go_error + envelope" where
  "reply_result path reply =
     (case reply of
        BuildFailed msg \<Rightarrow> Inl (ErrorWrap (''technitium: building request for '' @ path @ '' failed: '') (ErrorText msg) [])
      | RequestFailed msg \<Rightarrow> Inl (ErrorWrap (''technitium: request to '' @ path @ '' failed: '') (ErrorText msg) [])
      | ReadFailed msg \<Rightarrow> Inl (ErrorWrap (''technitium: reading response from '' @ path @ '' failed: '') (ErrorText msg) [])
      | Response status NotJSON \<Rightarrow> Inl (APIError [] [] status)
      | Response status (Envelope env) \<Rightarrow>
          (case classifyStatus (env_status env) (env_errorMessage env) of
             Some err \<Rightarrow> Inl err
           | None \<Rightarrow> Inr env))"

definition doRaw :: "'s runtime \<Rightarrow> nat \<Rightarrow> string \<Rightarrow> params \<Rightarrow> ('s world, go_error + envelope) state" where
  "doRaw rt c path params = do {
     cl \<leftarrow> deref c;
     reply \<leftarrow> http_post rt (request_of cl path params);
     ret (reply_result path reply)
   }"

text \<open>
  \<^verbatim>\<open>do\<close> with a target: \<open>zero\<close> is the target before decoding and \<open>decode\<close> reads a payload
  into it. \<open>do_ok\<close> is \<^verbatim>\<open>do\<close> with a nil target.
\<close>

definition decode_response :: "string \<Rightarrow> 'a \<Rightarrow> (payload \<Rightarrow> 'a option) \<Rightarrow> envelope \<Rightarrow> go_error + 'a" where
  "decode_response path zero decode env =
     (case env_response env of
        NoPayload \<Rightarrow> Inr zero
      | p \<Rightarrow> (case decode p of
                Some a \<Rightarrow> Inr a
              | None \<Rightarrow> Inl (ErrorWrap (''technitium: decoding response payload from '' @ path @ '' failed: '')
                              (ErrorText ''json'') [])))"

definition do_call ::
  "'s runtime \<Rightarrow> nat \<Rightarrow> string \<Rightarrow> params \<Rightarrow> 'a \<Rightarrow> (payload \<Rightarrow> 'a option) \<Rightarrow> ('s world, go_error + 'a) state" where
  "do_call rt c path params zero decode =
     or_return (doRaw rt c path params) (\<lambda>env. ret (decode_response path zero decode env))"

definition do_ok :: "'s runtime \<Rightarrow> nat \<Rightarrow> string \<Rightarrow> params \<Rightarrow> ('s world, go_error + unit) state" where
  "do_ok rt c path params = or_return (doRaw rt c path params) (\<lambda>_. ok ())"

section \<open>Tokens\<close>

definition Login :: "'s runtime \<Rightarrow> nat \<Rightarrow> ('s world, go_error + string) state" where
  "Login rt c = do {
     cl \<leftarrow> deref c;
     if cl_username cl = [] then fail (ErrorText ''technitium: username is required to log in'')
     else or_return
       (doRaw rt c ''/api/user/login''
         (no_params(''user'' \<mapsto> cl_username cl, ''pass'' \<mapsto> cl_password cl)))
       (\<lambda>env. case env_token env of
          None \<Rightarrow> fail (ErrorWrap ''technitium: decoding login response failed: '' (ErrorText ''json'') [])
        | Some token \<Rightarrow>
            if token = [] then fail (ErrorText ''technitium: login response contained no token'')
            else do {
              cl' \<leftarrow> deref c;
              store c (cl'\<lparr>cl_token := token\<rparr>);
              ok token
            })
   }"

definition CreateToken :: "'s runtime \<Rightarrow> nat \<Rightarrow> string \<Rightarrow> ('s world, go_error + string) state" where
  "CreateToken rt c tokenName = do {
     cl \<leftarrow> deref c;
     if cl_username cl = [] then fail (ErrorText ''technitium: username is required to create a token'')
     else or_return
       (doRaw rt c ''/api/user/createToken''
         (no_params(''user'' \<mapsto> cl_username cl, ''pass'' \<mapsto> cl_password cl, ''tokenName'' \<mapsto> tokenName)))
       (\<lambda>env. case env_token env of
          None \<Rightarrow> fail (ErrorWrap ''technitium: decoding createToken response failed: '' (ErrorText ''json'') [])
        | Some token \<Rightarrow>
            if token = [] then fail (ErrorText ''technitium: createToken response contained no token'')
            else ok token)
   }"

definition ChangePassword :: "'s runtime \<Rightarrow> nat \<Rightarrow> string \<Rightarrow> ('s world, go_error + unit) state" where
  "ChangePassword rt c newPassword =
     do_ok rt c ''/api/user/changePassword'' (no_params(''pass'' \<mapsto> newPassword))"

section \<open>Lemmas\<close>

lemma run_deref [run_simps]:
  "run_state (deref c) w = (if c < length (heap w) then heap w ! c else zero_client, w)"
  by (simp add: deref_def)

lemma run_store [run_simps]: "run_state (store c v) w = ((), w\<lparr>heap := (heap w)[c := v]\<rparr>)"
  by (simp add: store_def)

lemma run_alloc [run_simps]: "run_state (alloc v) w = (length (heap w), w\<lparr>heap := heap w @ [v]\<rparr>)"
  by (simp add: alloc_def)

lemma run_http_post [run_simps]:
  "run_state (http_post rt req) w =
     (fst (rt_http rt req (ext w)), w\<lparr>ext := snd (rt_http rt req (ext w)), trace := trace w @ [EvHttp req]\<rparr>)"
  by (simp add: http_post_def run_outside)

definition client_at :: "'s world \<Rightarrow> nat \<Rightarrow> tclient" where
  "client_at w c = (if c < length (heap w) then heap w ! c else zero_client)"

lemma client_at_update [simp]:
  "client_at (w\<lparr>ext := s\<rparr>) c = client_at w c" "client_at (w\<lparr>trace := t\<rparr>) c = client_at w c"
  "client_at (w\<lparr>entries := e\<rparr>) c = client_at w c"
  by (simp_all add: client_at_def)

lemma run_doRaw [run_simps]:
  "run_state (doRaw rt c path params) w =
     (let req = request_of (client_at w c) path params
      in (reply_result path (fst (rt_http rt req (ext w))),
          w\<lparr>ext := snd (rt_http rt req (ext w)), trace := trace w @ [EvHttp req]\<rparr>))"
  by (simp add: doRaw_def run_simps client_at_def Let_def)

text \<open>Every endpoint makes one request and changes nothing of the operator's own state.\<close>

definition one_request :: "'s world \<Rightarrow> 's world \<Rightarrow> http_request \<Rightarrow> bool" where
  "one_request w w' req \<longleftrightarrow>
     trace w' = trace w @ [EvHttp req] \<and> heap w' = heap w \<and> entries w' = entries w"

lemma do_call_requests:
  "run_state (do_call rt c path params zero decode) w = (r, w') \<Longrightarrow>
     one_request w w' (request_of (client_at w c) path params)"
  by (auto simp: do_call_def one_request_def run_simps Let_def split: sum.splits)

lemma do_ok_requests:
  "run_state (do_ok rt c path params) w = (r, w') \<Longrightarrow>
     one_request w w' (request_of (client_at w c) path params)"
  by (auto simp: do_ok_def one_request_def run_simps Let_def split: sum.splits)

lemma emits_doRaw [intro, simp]: "emits is_http (doRaw rt c path params)"
  by (auto simp: emits_def run_doRaw Let_def)

lemma emits_pure [intro, simp]: "emits P (deref c)" "emits P (store c v)" "emits P (alloc v)"
  by (simp_all add: emits_def run_simps)

lemma emits_do_call [intro, simp]: "emits is_http (do_call rt c path params zero decode)"
  by (auto simp: do_call_def)

lemma emits_do_ok [intro, simp]: "emits is_http (do_ok rt c path params)"
  by (auto simp: do_ok_def)

lemma emits_NewClient [intro, simp]: "emits P (NewClient url opts)"
  by (auto simp: NewClient_def)

lemma emits_Login [intro, simp]: "emits is_http (Login rt c)"
  by (auto simp: Login_def split: option.split if_splits intro!: emits_bind emits_or_return)

lemma emits_CreateToken [intro, simp]: "emits is_http (CreateToken rt c name)"
  by (auto simp: CreateToken_def split: option.split if_splits intro!: emits_bind emits_or_return)

lemma NewClient_ok_iff:
  "run_state (NewClient url opts) w = (Inr c, w') \<longleftrightarrow>
     url \<noteq> [] \<and> c = length (heap w) \<and>
     w' = w\<lparr>heap := heap w @ [fold apply_option opts
       (zero_client\<lparr>cl_baseURL := TrimRightFunc (\<lambda>ch. ch = CHR ''/'') url, cl_timeout := defaultTimeout\<rparr>)]\<rparr>"
  by (auto simp: NewClient_def run_simps)

lemma fold_apply_option_baseURL [simp]: "cl_baseURL (fold apply_option opts c) = cl_baseURL c"
proof (induction opts arbitrary: c)
  case (Cons o' opts)
  then show ?case by (cases o') auto
qed simp

text \<open>
  A successful \<^verbatim>\<open>Login\<close> leaves its token in the client it was called on, and nowhere else.
\<close>

lemma Login_ok:
  assumes "run_state (Login rt c) w = (Inr token, w')" and "c < length (heap w)"
  shows "token \<noteq> [] \<and> heap w' = (heap w)[c := (heap w ! c)\<lparr>cl_token := token\<rparr>] \<and> entries w' = entries w"
  using assms
  by (auto simp: Login_def run_simps client_at_def Let_def split: if_splits sum.splits option.splits)

lemma Login_length_heap: "length (heap (snd (run_state (Login rt c) w))) = length (heap w)"
  by (auto simp: Login_def run_simps Let_def split: sum.splits option.splits)

end
