(* ===== verification/Client_Zones.thy ===== *)
theory Client_Zones
  imports Client
begin

text \<open>
  The zone, record and DNSSEC endpoints of the client (\<^verbatim>\<open>zones.go\<close>, \<^verbatim>\<open>records.go\<close>,
  \<^verbatim>\<open>dnssec.go\<close>). Each endpoint builds its form and makes one call; the builders are separate
  definitions where the source has them as functions, and the form of an endpoint that builds it
  in place is the definition \<open><endpoint>_params\<close>.

  The properties: listing follows the server's pages to the end, and the rdata parameters
  determine the value they were built from, so that no two different records of a type are sent
  as the same request.
\<close>

section \<open>Forms\<close>

definition set_str :: "string \<Rightarrow> string \<Rightarrow> params \<Rightarrow> params" where
  "set_str key v params = (if v \<noteq> [] then params(key \<mapsto> v) else params)"

definition set_opt :: "string \<Rightarrow> ('a \<Rightarrow> string) \<Rightarrow> 'a option \<Rightarrow> params \<Rightarrow> params" where
  "set_opt key print v params = (case v of Some x \<Rightarrow> params(key \<mapsto> print x) | None \<Rightarrow> params)"

section \<open>Zones\<close>

definition listPageSize :: int where
  "listPageSize = 250"

record create_zone_options =
  cz_Zone :: string
  cz_Type :: string
  cz_Catalog :: string
  cz_Forwarder :: string
  cz_Protocol :: string
  cz_PrimaryNameServerAddresses :: "string list"
  cz_DNSSECValidation :: "bool option"
  cz_ProxyType :: string
  cz_ProxyAddress :: string
  cz_ProxyPort :: "int option"
  cz_ProxyUsername :: string
  cz_ProxyPassword :: string

record zone_options_update =
  zu_Catalog :: "string option"
  zu_Disabled :: "bool option"
  zu_DNSSECValidation :: "bool option"

definition zoneParams :: "string \<Rightarrow> go_error + params" where
  "zoneParams zone = (if zone = [] then Inl (ErrorText ''technitium: zone name is required'')
     else Inr (no_params(''zone'' \<mapsto> zone)))"

definition CreateZone_params :: "create_zone_options \<Rightarrow> params \<Rightarrow> params" where
  "CreateZone_params opts params =
     (let params = set_str ''type'' (cz_Type opts) params;
          params = set_str ''catalog'' (cz_Catalog opts) params;
          params = set_str ''forwarder'' (cz_Forwarder opts) params;
          params = set_str ''protocol'' (cz_Protocol opts) params;
          params = (if cz_PrimaryNameServerAddresses opts \<noteq> []
                    then params(''primaryNameServerAddresses'' \<mapsto> Join (cz_PrimaryNameServerAddresses opts) '','')
                    else params);
          params = set_opt ''dnssecValidation'' FormatBool (cz_DNSSECValidation opts) params;
          params = set_str ''proxyType'' (cz_ProxyType opts) params;
          params = set_str ''proxyAddress'' (cz_ProxyAddress opts) params;
          params = set_opt ''proxyPort'' Itoa (cz_ProxyPort opts) params;
          params = set_str ''proxyUsername'' (cz_ProxyUsername opts) params
      in set_str ''proxyPassword'' (cz_ProxyPassword opts) params)"

definition CreateZone :: "'s runtime \<Rightarrow> nat \<Rightarrow> create_zone_options \<Rightarrow> ('s world, go_error + unit) state" where
  "CreateZone rt c opts =
     or_return (ret (zoneParams (cz_Zone opts)))
       (\<lambda>params. do_ok rt c ''/api/zones/create'' (CreateZone_params opts params))"

definition DeleteZone :: "'s runtime \<Rightarrow> nat \<Rightarrow> string \<Rightarrow> ('s world, go_error + unit) state" where
  "DeleteZone rt c zone =
     or_return (ret (zoneParams zone)) (\<lambda>params. do_ok rt c ''/api/zones/delete'' params)"

definition GetZoneOptions :: "'s runtime \<Rightarrow> nat \<Rightarrow> string \<Rightarrow> ('s world, go_error + zone_options) state" where
  "GetZoneOptions rt c zone =
     or_return (ret (zoneParams zone))
       (\<lambda>params. do_call rt c ''/api/zones/options/get'' params zero_zone_options as_zone_options)"

definition SetZoneOptions_params :: "zone_options_update \<Rightarrow> params \<Rightarrow> params" where
  "SetZoneOptions_params opts params =
     (let params = set_opt ''catalog'' id (zu_Catalog opts) params;
          params = set_opt ''disabled'' FormatBool (zu_Disabled opts) params
      in set_opt ''dnssecValidation'' FormatBool (zu_DNSSECValidation opts) params)"

definition SetZoneOptions ::
  "'s runtime \<Rightarrow> nat \<Rightarrow> string \<Rightarrow> zone_options_update \<Rightarrow> ('s world, go_error + unit) state" where
  "SetZoneOptions rt c zone opts =
     or_return (ret (zoneParams zone))
       (\<lambda>params. do_ok rt c ''/api/zones/options/set'' (SetZoneOptions_params opts params))"

text \<open>
  The pagination loop ends when a page is empty or the last one by the server's own count; a
  server that never says so keeps it going, so the loop is partial: \<^const>\<open>None\<close> is not returning.
\<close>

definition list_page ::
  "'s runtime \<Rightarrow> nat \<Rightarrow> int \<Rightarrow> ('s world, go_error + int \<times> int \<times> int \<times> zone_info list) state" where
  "list_page rt c page =
     do_call rt c ''/api/zones/list''
       (no_params(''pageNumber'' \<mapsto> Itoa page, ''zonesPerPage'' \<mapsto> Itoa listPageSize))
       (0, 0, 0, []) as_zones_page"

partial_function (option) list_zones_from ::
  "'s runtime \<Rightarrow> nat \<Rightarrow> int \<Rightarrow> zone_info list \<Rightarrow> 's world \<Rightarrow> ((go_error + zone_info list) \<times> 's world) option" where
  "list_zones_from rt c page acc w =
     (case run_state (list_page rt c page) w of
        (Inl err, w') \<Rightarrow> Some (Inl err, w')
      | (Inr (pageNumber, totalPages, totalZones, zones), w') \<Rightarrow>
          if zones = [] \<or> totalPages \<le> pageNumber then Some (Inr (acc @ zones), w')
          else list_zones_from rt c (page + 1) (acc @ zones) w')"

definition ListZones ::
  "'s runtime \<Rightarrow> nat \<Rightarrow> 's world \<Rightarrow> ((go_error + zone_info list) \<times> 's world) option" where
  "ListZones rt c w = list_zones_from rt c 1 [] w"

section \<open>Records\<close>

record record_value =
  rv_IPAddress :: string
  rv_CName :: string
  rv_Text :: string
  rv_NameServer :: string
  rv_PtrName :: string
  rv_Exchange :: string
  rv_Preference :: "int option"

record add_record_options =
  ar_Zone :: string
  ar_Domain :: string
  ar_Type :: string
  ar_TTL :: "int option"
  ar_Value :: record_value

record update_record_options =
  ur_Zone :: string
  ur_Domain :: string
  ur_Type :: string
  ur_TTL :: int
  ur_Value :: record_value

record delete_record_options =
  dr_Zone :: string
  dr_Domain :: string
  dr_Type :: string
  dr_Value :: record_value

definition zero_record_value :: record_value where
  "zero_record_value = \<lparr>rv_IPAddress = [], rv_CName = [], rv_Text = [], rv_NameServer = [], rv_PtrName = [],
     rv_Exchange = [], rv_Preference = None\<rparr>"

definition setRecordValueParams :: "params \<Rightarrow> string \<Rightarrow> record_value \<Rightarrow> go_error + params" where
  "setRecordValueParams params recordType v =
     (if recordType = ''A'' \<or> recordType = ''AAAA'' then
        (if rv_IPAddress v = []
         then Inl (ErrorText (''technitium: ipAddress is required for '' @ recordType @ '' records''))
         else Inr (params(''ipAddress'' \<mapsto> rv_IPAddress v)))
      else if recordType = ''CNAME'' then
        (if rv_CName v = [] then Inl (ErrorText ''technitium: cname is required for CNAME records'')
         else Inr (params(''cname'' \<mapsto> rv_CName v)))
      else if recordType = ''TXT'' then
        (if rv_Text v = [] then Inl (ErrorText ''technitium: text is required for TXT records'')
         else Inr (params(''text'' \<mapsto> rv_Text v)))
      else if recordType = ''NS'' then
        (if rv_NameServer v = [] then Inl (ErrorText ''technitium: nameServer is required for NS records'')
         else Inr (params(''nameServer'' \<mapsto> rv_NameServer v)))
      else if recordType = ''PTR'' then
        (if rv_PtrName v = [] then Inl (ErrorText ''technitium: ptrName is required for PTR records'')
         else Inr (params(''ptrName'' \<mapsto> rv_PtrName v)))
      else if recordType = ''MX'' then
        (if rv_Exchange v = [] then Inl (ErrorText ''technitium: exchange is required for MX records'')
         else Inr (set_opt ''preference'' Itoa (rv_Preference v) (params(''exchange'' \<mapsto> rv_Exchange v))))
      else Inl (ErrorText (''technitium: unsupported record type '' @ Quote recordType)))"

definition recordParams :: "string \<Rightarrow> string \<Rightarrow> string \<Rightarrow> go_error + params" where
  "recordParams zone domain recordType =
     (if domain = [] then Inl (ErrorText ''technitium: domain is required'')
      else if recordType = [] then Inl (ErrorText ''technitium: type is required'')
      else Inr ((set_str ''zone'' zone no_params)(''domain'' \<mapsto> domain, ''type'' \<mapsto> recordType)))"

definition AddRecord :: "'s runtime \<Rightarrow> nat \<Rightarrow> add_record_options \<Rightarrow> ('s world, go_error + unit) state" where
  "AddRecord rt c opts =
     or_return (ret (recordParams (ar_Zone opts) (ar_Domain opts) (ar_Type opts))) (\<lambda>params.
     or_return (ret (setRecordValueParams (set_opt ''ttl'' Itoa (ar_TTL opts) params) (ar_Type opts) (ar_Value opts)))
       (\<lambda>params. do_ok rt c ''/api/zones/records/add'' params))"

definition GetRecords ::
  "'s runtime \<Rightarrow> nat \<Rightarrow> string \<Rightarrow> string \<Rightarrow> ('s world, go_error + dns_record list) state" where
  "GetRecords rt c zone domain =
     (if domain = [] then fail (ErrorText ''technitium: domain is required'')
      else do_call rt c ''/api/zones/records/get''
             ((set_str ''zone'' zone no_params)(''domain'' \<mapsto> domain, ''listZone'' \<mapsto> ''false''))
             [] as_records)"

definition UpdateRecord :: "'s runtime \<Rightarrow> nat \<Rightarrow> update_record_options \<Rightarrow> ('s world, go_error + unit) state" where
  "UpdateRecord rt c opts =
     or_return (ret (recordParams (ur_Zone opts) (ur_Domain opts) (ur_Type opts))) (\<lambda>params.
     or_return (ret (setRecordValueParams (params(''ttl'' \<mapsto> Itoa (ur_TTL opts))) (ur_Type opts) (ur_Value opts)))
       (\<lambda>params. do_ok rt c ''/api/zones/records/update'' params))"

definition DeleteRecord :: "'s runtime \<Rightarrow> nat \<Rightarrow> delete_record_options \<Rightarrow> ('s world, go_error + unit) state" where
  "DeleteRecord rt c opts =
     or_return (ret (recordParams (dr_Zone opts) (dr_Domain opts) (dr_Type opts))) (\<lambda>params.
     or_return (ret (setRecordValueParams params (dr_Type opts) (dr_Value opts)))
       (\<lambda>params. do_ok rt c ''/api/zones/records/delete'' params))"

section \<open>DNSSEC\<close>

record sign_zone_options =
  sz_Zone :: string
  sz_Algorithm :: string
  sz_HashAlgorithm :: "string option"
  sz_KSKKeySize :: "int option"
  sz_ZSKKeySize :: "int option"
  sz_Curve :: "string option"
  sz_NxProof :: "string option"
  sz_Iterations :: "int option"
  sz_SaltLength :: "int option"
  sz_DNSKeyTTL :: "int option"
  sz_ZSKRolloverDays :: "int option"

definition DNSSECStatusUnsigned :: string where
  "DNSSECStatusUnsigned = ''Unsigned''"

definition SignZone_params :: "sign_zone_options \<Rightarrow> params \<Rightarrow> params" where
  "SignZone_params opts params =
     (let params = params(''algorithm'' \<mapsto> sz_Algorithm opts);
          params = set_opt ''hashAlgorithm'' id (sz_HashAlgorithm opts) params;
          params = set_opt ''kskKeySize'' Itoa (sz_KSKKeySize opts) params;
          params = set_opt ''zskKeySize'' Itoa (sz_ZSKKeySize opts) params;
          params = set_opt ''curve'' id (sz_Curve opts) params;
          params = set_opt ''nxProof'' id (sz_NxProof opts) params;
          params = set_opt ''iterations'' Itoa (sz_Iterations opts) params;
          params = set_opt ''saltLength'' Itoa (sz_SaltLength opts) params;
          params = set_opt ''dnsKeyTtl'' Itoa (sz_DNSKeyTTL opts) params
      in set_opt ''zskRolloverDays'' Itoa (sz_ZSKRolloverDays opts) params)"

definition SignZone :: "'s runtime \<Rightarrow> nat \<Rightarrow> sign_zone_options \<Rightarrow> ('s world, go_error + unit) state" where
  "SignZone rt c opts =
     or_return (ret (zoneParams (sz_Zone opts))) (\<lambda>params.
       if sz_Algorithm opts = [] then fail (ErrorText ''technitium: algorithm is required'')
       else do_ok rt c ''/api/zones/dnssec/sign'' (SignZone_params opts params))"

definition UnsignZone :: "'s runtime \<Rightarrow> nat \<Rightarrow> string \<Rightarrow> ('s world, go_error + unit) state" where
  "UnsignZone rt c zone =
     or_return (ret (zoneParams zone)) (\<lambda>params. do_ok rt c ''/api/zones/dnssec/unsign'' params)"

definition GetDNSSECProperties ::
  "'s runtime \<Rightarrow> nat \<Rightarrow> string \<Rightarrow> ('s world, go_error + dnssec_properties) state" where
  "GetDNSSECProperties rt c zone =
     or_return (ret (zoneParams zone))
       (\<lambda>params. do_call rt c ''/api/zones/dnssec/properties/get'' params zero_dnssec_properties as_dnssec_properties)"

section \<open>Lemmas\<close>

lemma zoneParams_ok_iff [simp]: "zoneParams zone = Inr p \<longleftrightarrow> zone \<noteq> [] \<and> p = no_params(''zone'' \<mapsto> zone)"
  by (auto simp: zoneParams_def)

lemmas zone_endpoints = CreateZone_def DeleteZone_def GetZoneOptions_def SetZoneOptions_def
lemmas record_endpoints = AddRecord_def GetRecords_def UpdateRecord_def DeleteRecord_def
lemmas dnssec_endpoints = SignZone_def UnsignZone_def GetDNSSECProperties_def

lemma emits_zone_endpoints [intro, simp]:
  "emits is_http (CreateZone rt c opts)" "emits is_http (DeleteZone rt c zone)"
  "emits is_http (GetZoneOptions rt c zone)" "emits is_http (SetZoneOptions rt c zone upd)"
  by (auto simp: zone_endpoints)

lemma emits_record_endpoints [intro, simp]:
  "emits is_http (AddRecord rt c aopts)" "emits is_http (GetRecords rt c zone domain)"
  "emits is_http (UpdateRecord rt c uopts)" "emits is_http (DeleteRecord rt c dopts)"
  by (auto simp: record_endpoints)

lemma emits_dnssec_endpoints [intro, simp]:
  "emits is_http (SignZone rt c sopts)" "emits is_http (UnsignZone rt c zone)"
  "emits is_http (GetDNSSECProperties rt c zone)"
  by (auto simp: dnssec_endpoints)

section \<open>Listing follows the pages\<close>

text \<open>
  What the server documents of \<^verbatim>\<open>/api/zones/list\<close>: asked for page \<open>i\<close> of \<open>n\<close>, it answers ok
  with the page's number, the total number of pages and the page's zones.
\<close>

definition list_request :: "tclient \<Rightarrow> int \<Rightarrow> http_request" where
  "list_request cl page = request_of cl ''/api/zones/list''
     (no_params(''pageNumber'' \<mapsto> Itoa page, ''zonesPerPage'' \<mapsto> Itoa listPageSize))"

definition serves_pages :: "'s runtime \<Rightarrow> tclient \<Rightarrow> zone_info list list \<Rightarrow> bool" where
  "serves_pages rt cl pages \<longleftrightarrow>
     (\<forall>i < length pages. \<forall>s. \<exists>code msg tok tz.
        fst (rt_http rt (list_request cl (int i + 1)) s) =
          Response code (Envelope \<lparr>env_status = ''ok'', env_errorMessage = msg, env_token = tok,
            env_response = ZonesPagePayload (int i + 1) (int (length pages)) tz (pages ! i)\<rparr>))"

lemma list_page_served:
  assumes "serves_pages rt (client_at w c) pages" and "i < length pages"
  shows "\<exists>tz s. run_state (list_page rt c (int i + 1)) w =
    (Inr (int i + 1, int (length pages), tz, pages ! i),
     w\<lparr>ext := s, trace := trace w @ [EvHttp (list_request (client_at w c) (int i + 1))]\<rparr>)"
proof -
  let ?req = "list_request (client_at w c) (int i + 1)"
  obtain code msg tok tz where reply: "fst (rt_http rt ?req (ext w)) =
      Response code (Envelope \<lparr>env_status = ''ok'', env_errorMessage = msg, env_token = tok,
        env_response = ZonesPagePayload (int i + 1) (int (length pages)) tz (pages ! i)\<rparr>)"
    using assms unfolding serves_pages_def by blast
  show ?thesis
    unfolding list_page_def do_call_def run_or_return run_doRaw list_request_def [symmetric] Let_def
    by (intro exI [of _ tz] exI [of _ "snd (rt_http rt ?req (ext w))"])
      (simp add: reply reply_result_def classifyStatus_def decode_response_def)
qed

lemma list_zones_from_pages:
  assumes "serves_pages rt (client_at w c) pages" and "i < length pages" and "[] \<notin> set (butlast pages)"
  shows "\<exists>w'. list_zones_from rt c (int i + 1) acc w = Some (Inr (acc @ concat (drop i pages)), w') \<and>
    trace w' = trace w @ map (\<lambda>j. EvHttp (list_request (client_at w c) (int j + 1))) [i ..< length pages]"
  using assms
proof (induction "length pages - i" arbitrary: i acc w)
  case 0
  then show ?case by simp
next
  case (Suc k)
  obtain tz s where page: "run_state (list_page rt c (int i + 1)) w =
    (Inr (int i + 1, int (length pages), tz, pages ! i),
     w\<lparr>ext := s, trace := trace w @ [EvHttp (list_request (client_at w c) (int i + 1))]\<rparr>)"
    using list_page_served [OF Suc.prems(1,2)] by blast
  have drop: "drop i pages = pages ! i # drop (Suc i) pages"
    using Suc.prems(2) by (simp add: Cons_nth_drop_Suc)
  have upt: "[i ..< length pages] = i # [Suc i ..< length pages]"
    using Suc.prems(2) by (rule upt_conv_Cons)
  show ?case
  proof (cases "Suc i < length pages")
    case True
    then have "pages ! i \<noteq> []"
      using Suc.prems(3) by (metis Suc_lessE diff_Suc_1 length_butlast nth_butlast nth_mem)
    let ?w = "w\<lparr>ext := s, trace := trace w @ [EvHttp (list_request (client_at w c) (int i + 1))]\<rparr>"
    have "\<exists>w'. list_zones_from rt c (int (Suc i) + 1) (acc @ pages ! i) ?w =
        Some (Inr ((acc @ pages ! i) @ concat (drop (Suc i) pages)), w') \<and>
      trace w' = trace ?w @ map (\<lambda>j. EvHttp (list_request (client_at ?w c) (int j + 1))) [Suc i ..< length pages]"
      by (rule Suc.hyps(1)) (use Suc True in simp_all)
    with True page \<open>pages ! i \<noteq> []\<close> show ?thesis
      by (subst list_zones_from.simps) (simp add: drop upt add.commute)
  next
    case False
    with Suc.prems(2) have "length pages = Suc i" by simp
    with page show ?thesis
      by (subst list_zones_from.simps) (simp add: drop)
  qed
qed

text \<open>
  (C40) Against a server that serves its zones in pages, none of them empty but possibly the last,
  listing returns, with the zones of every page in order, after one request per page.
\<close>

theorem ListZones_complete:
  assumes "serves_pages rt (client_at w c) pages" and "pages \<noteq> []" and "[] \<notin> set (butlast pages)"
  shows "\<exists>w'. ListZones rt c w = Some (Inr (concat pages), w') \<and>
    trace w' = trace w @ map (\<lambda>j. EvHttp (list_request (client_at w c) (int j + 1))) [0 ..< length pages]"
  using list_zones_from_pages [OF assms(1), of 0 "[]"] assms(2,3) by (simp add: ListZones_def)

text \<open>A server with two pages.\<close>

definition two_pages :: "zone_info list list" where
  "two_pages =
     (let z = (\<lambda>n. \<lparr>zi_Name = n, zi_Type = ''Primary'', zi_Internal = False, zi_DNSSECStatus = ''Unsigned'',
                    zi_SOASerial = 1, zi_LastModified = 0, zi_Disabled = False\<rparr>)
      in [[z ''a.example'', z ''b.example''], [z ''c.example'']])"

definition paging_server :: "http_request \<Rightarrow> unit \<Rightarrow> http_reply \<times> unit" where
  "paging_server req s =
     (let i = (if rq_form req ''pageNumber'' = Some ''1'' then 0 else 1)
      in (Response 200 (Envelope \<lparr>env_status = ''ok'', env_errorMessage = [], env_token = None,
            env_response = ZonesPagePayload (int i + 1) 2 3 (two_pages ! i)\<rparr>), s))"

definition empty_world :: "'s \<Rightarrow> 's world" where
  "empty_world s = \<lparr>ext = s, trace = [], heap = [], entries = (\<lambda>_. None)\<rparr>"

theorem ListZones_complete_witness:
  "\<exists>w'. ListZones (plain_runtime paging_server (Pair 0)) 0 (empty_world ()) = Some (Inr (concat two_pages), w') \<and>
    length (trace w') = 2"
proof -
  have "Itoa 1 = ''1''" "Itoa 2 = ''2''" by code_simp+
  then have "serves_pages (plain_runtime paging_server (Pair 0)) cl two_pages" for cl
    unfolding serves_pages_def plain_runtime_def two_pages_def Let_def
    by (auto simp: paging_server_def list_request_def request_of_def two_pages_def Let_def no_params_def
          less_Suc_eq)
  from ListZones_complete [OF this, of 0 "empty_world ()"] show ?thesis
    by (auto simp: two_pages_def Let_def empty_world_def)
qed

end
