(* ===== verification/Client_Admin.thy ===== *)
theory Client_Admin
  imports Client_Zones
begin

text \<open>
  The remaining endpoints of the client: cluster administration (\<^verbatim>\<open>cluster.go\<close>), server settings
  (\<^verbatim>\<open>settings.go\<close>), allowed and blocked zones (\<^verbatim>\<open>blocklist.go\<close>), DHCP (\<^verbatim>\<open>dhcp.go\<close>), DNS apps
  (\<^verbatim>\<open>apps.go\<close>) and the dashboard counters (\<^verbatim>\<open>stats.go\<close>).
\<close>

section \<open>Cluster\<close>

definition RemoveSecondary :: "'s runtime \<Rightarrow> nat \<Rightarrow> int \<Rightarrow> ('s world, go_error + unit) state" where
  "RemoveSecondary rt c secondaryNodeID =
     do_ok rt c ''/api/admin/cluster/primary/removeSecondary'' (no_params(''secondaryNodeId'' \<mapsto> Itoa secondaryNodeID))"

definition DeleteSecondary :: "'s runtime \<Rightarrow> nat \<Rightarrow> int \<Rightarrow> ('s world, go_error + unit) state" where
  "DeleteSecondary rt c secondaryNodeID =
     do_ok rt c ''/api/admin/cluster/primary/deleteSecondary'' (no_params(''secondaryNodeId'' \<mapsto> Itoa secondaryNodeID))"

definition DeletePrimaryCluster :: "'s runtime \<Rightarrow> nat \<Rightarrow> bool \<Rightarrow> ('s world, go_error + unit) state" where
  "DeletePrimaryCluster rt c force =
     do_ok rt c ''/api/admin/cluster/primary/delete'' (no_params(''forceDelete'' \<mapsto> FormatBool force))"

definition LeaveCluster :: "'s runtime \<Rightarrow> nat \<Rightarrow> bool \<Rightarrow> ('s world, go_error + unit) state" where
  "LeaveCluster rt c force =
     do_ok rt c ''/api/admin/cluster/secondary/leave'' (no_params(''forceLeave'' \<mapsto> FormatBool force))"

definition GetClusterState :: "'s runtime \<Rightarrow> nat \<Rightarrow> ('s world, go_error + cluster_state) state" where
  "GetClusterState rt c =
     do_call rt c ''/api/admin/cluster/state'' no_params zero_cluster_state as_cluster_state"

record init_cluster_options =
  ic_ClusterDomain :: string
  ic_PrimaryNodeIPAddresses :: "string list"

definition InitCluster ::
  "'s runtime \<Rightarrow> nat \<Rightarrow> init_cluster_options \<Rightarrow> ('s world, go_error + cluster_state) state" where
  "InitCluster rt c opts =
     do_call rt c ''/api/admin/cluster/init''
       (no_params(''clusterDomain'' \<mapsto> ic_ClusterDomain opts,
                  ''primaryNodeIpAddresses'' \<mapsto> Join (ic_PrimaryNodeIPAddresses opts) '',''))
       zero_cluster_state as_cluster_state"

record init_join_options =
  ij_SecondaryNodeIPAddresses :: "string list"
  ij_PrimaryNodeURL :: string
  ij_PrimaryNodeUsername :: string
  ij_PrimaryNodePassword :: string
  ij_PrimaryNodeIPAddress :: string
  ij_IgnoreCertificateErrors :: bool

definition InitJoinCluster ::
  "'s runtime \<Rightarrow> nat \<Rightarrow> init_join_options \<Rightarrow> ('s world, go_error + cluster_state) state" where
  "InitJoinCluster rt c opts =
     do_call rt c ''/api/admin/cluster/initJoin''
       (no_params(''secondaryNodeIpAddresses'' \<mapsto> Join (ij_SecondaryNodeIPAddresses opts) '','',
                  ''primaryNodeUrl'' \<mapsto> ij_PrimaryNodeURL opts,
                  ''primaryNodeUsername'' \<mapsto> ij_PrimaryNodeUsername opts,
                  ''primaryNodePassword'' \<mapsto> ij_PrimaryNodePassword opts,
                  ''primaryNodeIpAddress'' \<mapsto> ij_PrimaryNodeIPAddress opts,
                  ''ignoreCertificateErrors'' \<mapsto> FormatBool (ij_IgnoreCertificateErrors opts)))
       zero_cluster_state as_cluster_state"

definition UpdateNodeIPAddresses ::
  "'s runtime \<Rightarrow> nat \<Rightarrow> string list \<Rightarrow> ('s world, go_error + cluster_state) state" where
  "UpdateNodeIPAddresses rt c ipAddresses =
     do_call rt c ''/api/admin/cluster/updateIpAddress'' (no_params(''ipAddresses'' \<mapsto> Join ipAddresses '',''))
       zero_cluster_state as_cluster_state"

section \<open>Settings\<close>

record set_dns_settings_options =
  so_Forwarders :: "string list option"
  so_ForwarderProtocol :: "string option"
  so_Recursion :: "string option"
  so_RecursionNetworkACL :: "string list option"
  so_ServeStale :: "bool option"
  so_ServeStaleTTL :: "int option"
  so_CacheMaximumRecordTTL :: "int option"
  so_CacheMinimumRecordTTL :: "int option"
  so_EnableLogging :: "bool option"
  so_LogQueries :: "bool option"
  so_UseLocalTime :: "bool option"
  so_MaxLogFileDays :: "int option"
  so_EnableBlocking :: "bool option"
  so_BlockingType :: "string option"
  so_BlockListURLs :: "string list option"
  so_BlockListUpdateIntervalHours :: "int option"

definition zero_settings_options :: set_dns_settings_options where
  "zero_settings_options = \<lparr>so_Forwarders = None, so_ForwarderProtocol = None, so_Recursion = None,
     so_RecursionNetworkACL = None, so_ServeStale = None, so_ServeStaleTTL = None,
     so_CacheMaximumRecordTTL = None, so_CacheMinimumRecordTTL = None, so_EnableLogging = None,
     so_LogQueries = None, so_UseLocalTime = None, so_MaxLogFileDays = None, so_EnableBlocking = None,
     so_BlockingType = None, so_BlockListURLs = None, so_BlockListUpdateIntervalHours = None\<rparr>"

definition list_param :: "string list \<Rightarrow> string" where
  "list_param v = (if v = [] then ''false'' else Join v '','')"

definition SetDNSSettings_params :: "set_dns_settings_options \<Rightarrow> params" where
  "SetDNSSettings_params opts =
     (let params = no_params;
          params = set_opt ''forwarders'' list_param (so_Forwarders opts) params;
          params = set_opt ''forwarderProtocol'' id (so_ForwarderProtocol opts) params;
          params = set_opt ''recursion'' id (so_Recursion opts) params;
          params = set_opt ''recursionNetworkACL'' list_param (so_RecursionNetworkACL opts) params;
          params = set_opt ''serveStale'' FormatBool (so_ServeStale opts) params;
          params = set_opt ''serveStaleTtl'' Itoa (so_ServeStaleTTL opts) params;
          params = set_opt ''cacheMaximumRecordTtl'' Itoa (so_CacheMaximumRecordTTL opts) params;
          params = set_opt ''cacheMinimumRecordTtl'' Itoa (so_CacheMinimumRecordTTL opts) params;
          params = set_opt ''enableLogging'' FormatBool (so_EnableLogging opts) params;
          params = set_opt ''logQueries'' FormatBool (so_LogQueries opts) params;
          params = set_opt ''useLocalTime'' FormatBool (so_UseLocalTime opts) params;
          params = set_opt ''maxLogFileDays'' Itoa (so_MaxLogFileDays opts) params;
          params = set_opt ''enableBlocking'' FormatBool (so_EnableBlocking opts) params;
          params = set_opt ''blockingType'' id (so_BlockingType opts) params;
          params = set_opt ''blockListUrls'' list_param (so_BlockListURLs opts) params
      in set_opt ''blockListUpdateIntervalHours'' Itoa (so_BlockListUpdateIntervalHours opts) params)"

definition GetDNSSettings :: "'s runtime \<Rightarrow> nat \<Rightarrow> ('s world, go_error + dns_settings) state" where
  "GetDNSSettings rt c = do_call rt c ''/api/settings/get'' no_params zero_dns_settings as_dns_settings"

definition SetDNSSettings ::
  "'s runtime \<Rightarrow> nat \<Rightarrow> set_dns_settings_options \<Rightarrow> ('s world, go_error + unit) state" where
  "SetDNSSettings rt c opts = do_ok rt c ''/api/settings/set'' (SetDNSSettings_params opts)"

definition ForceUpdateBlockLists :: "'s runtime \<Rightarrow> nat \<Rightarrow> ('s world, go_error + unit) state" where
  "ForceUpdateBlockLists rt c = do_ok rt c ''/api/settings/forceUpdateBlockLists'' no_params"

section \<open>Allowed and blocked zones\<close>

definition domainParams :: "string \<Rightarrow> go_error + params" where
  "domainParams domain = (if domain = [] then Inl (ErrorText ''technitium: domain is required'')
     else Inr (no_params(''domain'' \<mapsto> domain)))"

definition AddAllowedZone :: "'s runtime \<Rightarrow> nat \<Rightarrow> string \<Rightarrow> ('s world, go_error + unit) state" where
  "AddAllowedZone rt c domain =
     or_return (ret (domainParams domain)) (\<lambda>params. do_ok rt c ''/api/allowed/add'' params)"

definition DeleteAllowedZone :: "'s runtime \<Rightarrow> nat \<Rightarrow> string \<Rightarrow> ('s world, go_error + unit) state" where
  "DeleteAllowedZone rt c domain =
     or_return (ret (domainParams domain)) (\<lambda>params. do_ok rt c ''/api/allowed/delete'' params)"

definition AddBlockedZone :: "'s runtime \<Rightarrow> nat \<Rightarrow> string \<Rightarrow> ('s world, go_error + unit) state" where
  "AddBlockedZone rt c domain =
     or_return (ret (domainParams domain)) (\<lambda>params. do_ok rt c ''/api/blocked/add'' params)"

definition DeleteBlockedZone :: "'s runtime \<Rightarrow> nat \<Rightarrow> string \<Rightarrow> ('s world, go_error + unit) state" where
  "DeleteBlockedZone rt c domain =
     or_return (ret (domainParams domain)) (\<lambda>params. do_ok rt c ''/api/blocked/delete'' params)"

section \<open>DHCP\<close>

record set_dhcp_scope_options =
  sd_o_Name :: string
  sd_o_StartingAddress :: string
  sd_o_EndingAddress :: string
  sd_o_SubnetMask :: string
  sd_o_RouterAddress :: "string option"
  sd_o_DNSServers :: "string list option"
  sd_o_LeaseTimeDays :: "int option"
  sd_o_LeaseTimeHours :: "int option"
  sd_o_LeaseTimeMinutes :: "int option"
  sd_o_DomainName :: "string option"

record add_reserved_lease_options =
  al_ScopeName :: string
  al_HardwareAddress :: string
  al_IPAddress :: string
  al_HostName :: "string option"
  al_Comments :: "string option"

definition scope_name_required :: go_error where
  "scope_name_required = ErrorText ''technitium: dhcp scope name is required''"

definition dhcpScopeNameParam :: "string \<Rightarrow> go_error + params" where
  "dhcpScopeNameParam name = (if name = [] then Inl scope_name_required
     else Inr (no_params(''name'' \<mapsto> name)))"

definition ListDHCPScopes :: "'s runtime \<Rightarrow> nat \<Rightarrow> ('s world, go_error + dhcp_scope_info list) state" where
  "ListDHCPScopes rt c = do_call rt c ''/api/dhcp/scopes/list'' no_params [] as_dhcp_scopes"

definition GetDHCPScope :: "'s runtime \<Rightarrow> nat \<Rightarrow> string \<Rightarrow> ('s world, go_error + dhcp_scope_details) state" where
  "GetDHCPScope rt c name =
     or_return (ret (dhcpScopeNameParam name))
       (\<lambda>params. do_call rt c ''/api/dhcp/scopes/get'' params zero_dhcp_scope_details as_dhcp_scope)"

definition SetDHCPScope :: "'s runtime \<Rightarrow> nat \<Rightarrow> set_dhcp_scope_options \<Rightarrow> ('s world, go_error + unit) state" where
  "SetDHCPScope rt c opts =
     (if sd_o_Name opts = [] then fail scope_name_required
      else if sd_o_StartingAddress opts = [] \<or> sd_o_EndingAddress opts = [] \<or> sd_o_SubnetMask opts = [] then
        fail (ErrorText ''technitium: dhcp scope startingAddress, endingAddress, and subnetMask are required'')
      else
        let params = no_params(''name'' \<mapsto> sd_o_Name opts, ''startingAddress'' \<mapsto> sd_o_StartingAddress opts,
              ''endingAddress'' \<mapsto> sd_o_EndingAddress opts, ''subnetMask'' \<mapsto> sd_o_SubnetMask opts);
            params = set_opt ''routerAddress'' id (sd_o_RouterAddress opts) params;
            params = set_opt ''dnsServers'' (\<lambda>v. Join v '','') (sd_o_DNSServers opts) params;
            params = set_opt ''leaseTimeDays'' Itoa (sd_o_LeaseTimeDays opts) params;
            params = set_opt ''leaseTimeHours'' Itoa (sd_o_LeaseTimeHours opts) params;
            params = set_opt ''leaseTimeMinutes'' Itoa (sd_o_LeaseTimeMinutes opts) params;
            params = set_opt ''domainName'' id (sd_o_DomainName opts) params
        in do_ok rt c ''/api/dhcp/scopes/set'' params)"

definition EnableDHCPScope :: "'s runtime \<Rightarrow> nat \<Rightarrow> string \<Rightarrow> ('s world, go_error + unit) state" where
  "EnableDHCPScope rt c name =
     or_return (ret (dhcpScopeNameParam name)) (\<lambda>params. do_ok rt c ''/api/dhcp/scopes/enable'' params)"

definition DisableDHCPScope :: "'s runtime \<Rightarrow> nat \<Rightarrow> string \<Rightarrow> ('s world, go_error + unit) state" where
  "DisableDHCPScope rt c name =
     or_return (ret (dhcpScopeNameParam name)) (\<lambda>params. do_ok rt c ''/api/dhcp/scopes/disable'' params)"

definition DeleteDHCPScope :: "'s runtime \<Rightarrow> nat \<Rightarrow> string \<Rightarrow> ('s world, go_error + unit) state" where
  "DeleteDHCPScope rt c name =
     or_return (ret (dhcpScopeNameParam name)) (\<lambda>params. do_ok rt c ''/api/dhcp/scopes/delete'' params)"

definition AddReservedLease ::
  "'s runtime \<Rightarrow> nat \<Rightarrow> add_reserved_lease_options \<Rightarrow> ('s world, go_error + unit) state" where
  "AddReservedLease rt c opts =
     (if al_ScopeName opts = [] then fail scope_name_required
      else if al_HardwareAddress opts = [] then fail (ErrorText ''technitium: hardwareAddress is required'')
      else if al_IPAddress opts = [] then fail (ErrorText ''technitium: ipAddress is required'')
      else
        let params = no_params(''name'' \<mapsto> al_ScopeName opts, ''hardwareAddress'' \<mapsto> al_HardwareAddress opts,
              ''ipAddress'' \<mapsto> al_IPAddress opts);
            params = set_opt ''hostName'' id (al_HostName opts) params;
            params = set_opt ''comments'' id (al_Comments opts) params
        in do_ok rt c ''/api/dhcp/scopes/addReservedLease'' params)"

definition RemoveReservedLease ::
  "'s runtime \<Rightarrow> nat \<Rightarrow> string \<Rightarrow> string \<Rightarrow> ('s world, go_error + unit) state" where
  "RemoveReservedLease rt c scopeName hardwareAddress =
     (if scopeName = [] then fail scope_name_required
      else if hardwareAddress = [] then fail (ErrorText ''technitium: hardwareAddress is required'')
      else do_ok rt c ''/api/dhcp/scopes/removeReservedLease''
             (no_params(''name'' \<mapsto> scopeName, ''hardwareAddress'' \<mapsto> hardwareAddress)))"

section \<open>DNS apps\<close>

definition appNameParams :: "string \<Rightarrow> go_error + params" where
  "appNameParams name = (if name = [] then Inl (ErrorText ''technitium: app name is required'')
     else Inr (no_params(''name'' \<mapsto> name)))"

definition ListApps :: "'s runtime \<Rightarrow> nat \<Rightarrow> ('s world, go_error + dns_app_info list) state" where
  "ListApps rt c = do_call rt c ''/api/apps/list'' no_params [] as_apps"

definition DownloadAndInstallApp ::
  "'s runtime \<Rightarrow> nat \<Rightarrow> string \<Rightarrow> string \<Rightarrow> ('s world, go_error + unit) state" where
  "DownloadAndInstallApp rt c name downloadURL =
     or_return (ret (appNameParams name)) (\<lambda>params.
       if downloadURL = [] then fail (ErrorText ''technitium: url is required'')
       else do_ok rt c ''/api/apps/downloadAndInstall'' (params(''url'' \<mapsto> downloadURL)))"

definition DownloadAndUpdateApp ::
  "'s runtime \<Rightarrow> nat \<Rightarrow> string \<Rightarrow> string \<Rightarrow> ('s world, go_error + unit) state" where
  "DownloadAndUpdateApp rt c name downloadURL =
     or_return (ret (appNameParams name)) (\<lambda>params.
       if downloadURL = [] then fail (ErrorText ''technitium: url is required'')
       else do_ok rt c ''/api/apps/downloadAndUpdate'' (params(''url'' \<mapsto> downloadURL)))"

definition UninstallApp :: "'s runtime \<Rightarrow> nat \<Rightarrow> string \<Rightarrow> ('s world, go_error + unit) state" where
  "UninstallApp rt c name =
     or_return (ret (appNameParams name)) (\<lambda>params. do_ok rt c ''/api/apps/uninstall'' params)"

definition GetAppConfig :: "'s runtime \<Rightarrow> nat \<Rightarrow> string \<Rightarrow> ('s world, go_error + string) state" where
  "GetAppConfig rt c name =
     or_return (ret (appNameParams name)) (\<lambda>params. do_call rt c ''/api/apps/config/get'' params [] as_app_config)"

definition SetAppConfig :: "'s runtime \<Rightarrow> nat \<Rightarrow> string \<Rightarrow> string \<Rightarrow> ('s world, go_error + unit) state" where
  "SetAppConfig rt c name config =
     or_return (ret (appNameParams name))
       (\<lambda>params. do_ok rt c ''/api/apps/config/set'' (params(''config'' \<mapsto> config)))"

section \<open>Dashboard counters\<close>

definition GetDashboardStats :: "'s runtime \<Rightarrow> nat \<Rightarrow> ('s world, go_error + dashboard_stats) state" where
  "GetDashboardStats rt c =
     do_call rt c ''/api/dashboard/stats/get'' (no_params(''type'' \<mapsto> ''LastHour''))
       zero_dashboard_stats as_dashboard_stats"

section \<open>Lemmas\<close>

lemmas cluster_endpoints = RemoveSecondary_def DeleteSecondary_def DeletePrimaryCluster_def LeaveCluster_def
  GetClusterState_def InitCluster_def InitJoinCluster_def UpdateNodeIPAddresses_def

lemma emits_cluster_endpoints [intro, simp]:
  "emits is_http (RemoveSecondary rt c i)" "emits is_http (DeleteSecondary rt c i)"
  "emits is_http (DeletePrimaryCluster rt c b)" "emits is_http (LeaveCluster rt c b)"
  "emits is_http (GetClusterState rt c)" "emits is_http (InitCluster rt c io)"
  "emits is_http (InitJoinCluster rt c jo)" "emits is_http (UpdateNodeIPAddresses rt c ips)"
  by (simp_all add: cluster_endpoints)

lemma emits_settings_endpoints [intro, simp]:
  "emits is_http (GetDNSSettings rt c)" "emits is_http (SetDNSSettings rt c opts)"
  "emits is_http (ForceUpdateBlockLists rt c)"
  "emits is_http (AddAllowedZone rt c d)" "emits is_http (DeleteAllowedZone rt c d)"
  "emits is_http (AddBlockedZone rt c d)" "emits is_http (DeleteBlockedZone rt c d)"
  by (auto simp: GetDNSSettings_def SetDNSSettings_def ForceUpdateBlockLists_def AddAllowedZone_def
        DeleteAllowedZone_def AddBlockedZone_def DeleteBlockedZone_def)

lemma emits_dhcp_endpoints [intro, simp]:
  "emits is_http (ListDHCPScopes rt c)" "emits is_http (GetDHCPScope rt c n)"
  "emits is_http (SetDHCPScope rt c opts)" "emits is_http (EnableDHCPScope rt c n)"
  "emits is_http (DisableDHCPScope rt c n)" "emits is_http (DeleteDHCPScope rt c n)"
  "emits is_http (AddReservedLease rt c l)" "emits is_http (RemoveReservedLease rt c n h)"
  by (auto simp: ListDHCPScopes_def GetDHCPScope_def SetDHCPScope_def EnableDHCPScope_def DisableDHCPScope_def
        DeleteDHCPScope_def AddReservedLease_def RemoveReservedLease_def Let_def)

lemma emits_app_endpoints [intro, simp]:
  "emits is_http (ListApps rt c)" "emits is_http (DownloadAndInstallApp rt c n u)"
  "emits is_http (DownloadAndUpdateApp rt c n u)" "emits is_http (UninstallApp rt c n)"
  "emits is_http (GetAppConfig rt c n)" "emits is_http (SetAppConfig rt c n cfg)"
  by (auto simp: ListApps_def DownloadAndInstallApp_def DownloadAndUpdateApp_def UninstallApp_def
        GetAppConfig_def SetAppConfig_def)

end
