(* ===== verification/Version.thy ===== *)
theory Version
  imports Api_Errors
begin

text \<open>
  Technitium versions (\<^verbatim>\<open>internal/technitium/version.go\<close>): parsing a version and the version in
  a container image tag, comparing versions, and printing them. \<^verbatim>\<open>Compare\<close> subtracts 64-bit
  integers, so its differences are taken modulo \<open>2 ^ 64\<close>; the bounds lemma shows that no
  difference of two parsed versions wraps, so that it decides the lexicographic order, which is
  the instance of \<open>linorder\<close> given here.
\<close>

section \<open>Definitions\<close>

datatype version = Version (Major: int) (Minor: int) (Patch: int)

definition version_char :: "char \<Rightarrow> bool" where
  "version_char c \<longleftrightarrow> c = CHR ''.'' \<or> is_digit c"

text \<open>The loop over the parts: the first part that is not a number ends it with an error.\<close>

fun parse_parts :: "string \<Rightarrow> string list \<Rightarrow> go_error + int list" where
  "parse_parts s [] = Inr []"
| "parse_parts s (p # ps) =
     (case Atoi p of
        None \<Rightarrow> Inl (ErrorWrap (''technitium: invalid version '' @ Quote s @ '': '')
                      (ErrorText (''strconv.Atoi: parsing '' @ Quote p @ '': value out of range'')) [])
      | Some n \<Rightarrow> (case parse_parts s ps of Inl e \<Rightarrow> Inl e | Inr ns \<Rightarrow> Inr (n # ns)))"

text \<open>\<^verbatim>\<open>var nums [3]int\<close>: a component that was not given is zero.\<close>

definition component :: "int list \<Rightarrow> nat \<Rightarrow> int" where
  "component ns i = (if i < length ns then ns ! i else 0)"

definition ParseVersion :: "string \<Rightarrow> go_error + version" where
  "ParseVersion s0 =
     (let s = TrimPrefix (TrimSpace s0) ''v'';
          numeric = takeWhile version_char s;
          parts = Split (TrimFunc (\<lambda>c. c = CHR ''.'') numeric) CHR ''.''
      in if hd parts = [] \<or> length parts > 3 \<or> HasPrefix s ''.'' \<or> Contains numeric ''..'' then
           Inl (ErrorText (''technitium: no version in '' @ Quote s))
         else (case parse_parts s parts of
                 Inl e \<Rightarrow> Inl e
               | Inr ns \<Rightarrow> Inr (Version (component ns 0) (component ns 1) (component ns 2))))"

definition ParseImageVersion :: "string \<Rightarrow> version option" where
  "ParseImageVersion image0 =
     (let image = takeWhile (\<lambda>c. c \<noteq> CHR ''@'') image0;
          name = rev (takeWhile (\<lambda>c. c \<noteq> CHR ''/'') (rev image))
      in case Cut name CHR '':'' of
           (_, tag, found) \<Rightarrow>
             if \<not> found then None
             else (case ParseVersion tag of Inl e \<Rightarrow> None | Inr v \<Rightarrow> Some v))"

fun compare_diffs :: "int list \<Rightarrow> int" where
  "compare_diffs [] = 0"
| "compare_diffs (d # ds) = (if d < 0 then -1 else if d > 0 then 1 else compare_diffs ds)"

definition Compare :: "version \<Rightarrow> version \<Rightarrow> int" where
  "Compare v w =
     compare_diffs [go_int64 (Major v - Major w), go_int64 (Minor v - Minor w), go_int64 (Patch v - Patch w)]"

definition version_String :: "version \<Rightarrow> string" where
  "version_String v = Itoa (Major v) @ ''.'' @ Itoa (Minor v) @ ''.'' @ Itoa (Patch v)"

section \<open>The order on versions\<close>

instantiation version :: linorder
begin

definition less_eq_version :: "version \<Rightarrow> version \<Rightarrow> bool" where
  "less_eq_version v w \<longleftrightarrow>
     Major v < Major w \<or> Major v = Major w \<and>
       (Minor v < Minor w \<or> Minor v = Minor w \<and> Patch v \<le> Patch w)"

definition less_version :: "version \<Rightarrow> version \<Rightarrow> bool" where
  "less_version v w \<longleftrightarrow>
     Major v < Major w \<or> Major v = Major w \<and>
       (Minor v < Minor w \<or> Minor v = Minor w \<and> Patch v < Patch w)"

instance
  by standard (auto simp: less_eq_version_def less_version_def version.expand)

end

definition valid_version :: "version \<Rightarrow> bool" where
  "valid_version v \<longleftrightarrow> (\<forall>n \<in> {Major v, Minor v, Patch v}. 0 \<le> n \<and> n < 2 ^ 63)"

lemma valid_version_iff:
  "valid_version v \<longleftrightarrow>
     0 \<le> Major v \<and> Major v < 2 ^ 63 \<and> 0 \<le> Minor v \<and> Minor v < 2 ^ 63 \<and> 0 \<le> Patch v \<and> Patch v < 2 ^ 63"
  by (auto simp: valid_version_def)

section \<open>Parsing\<close>

lemma set_TrimFunc: "set (TrimFunc P s) \<subseteq> set s"
  unfolding TrimFunc_def TrimRightFunc_def by (auto dest!: set_dropWhileD)

lemma TrimSpace_append:
  assumes "p \<noteq> []" "\<not> is_space (hd p)" "\<not> is_space (last p)"
  shows "TrimSpace (p @ q) = p @ TrimRightFunc is_space q"
proof -
  have "dropWhile is_space (p @ q) = p @ q"
    using assms by (simp add: dropWhile_hd)
  moreover have "dropWhile is_space (rev q @ rev p) = dropWhile is_space (rev q) @ rev p"
  proof (cases "\<exists>x \<in> set (rev q). \<not> is_space x")
    case True
    then show ?thesis by (meson dropWhile_append1)
  next
    case False
    have "dropWhile is_space (rev p) = rev p"
      using assms by (simp add: dropWhile_hd hd_rev)
    with False show ?thesis by (simp add: dropWhile_append dropWhile_eq_Nil_conv)
  qed
  ultimately show ?thesis by (simp add: TrimSpace_def TrimFunc_def TrimRightFunc_def)
qed

lemma hd_TrimRightFunc: "TrimRightFunc P q \<noteq> [] \<Longrightarrow> hd (TrimRightFunc P q) = hd q"
proof -
  assume ne: "TrimRightFunc P q \<noteq> []"
  have "q = rev (takeWhile P (rev q) @ dropWhile P (rev q))"
    by (simp only: takeWhile_dropWhile_id rev_rev_ident)
  then have "q = TrimRightFunc P q @ rev (takeWhile P (rev q))"
    by (simp only: TrimRightFunc_def rev_append)
  with ne show ?thesis by (metis hd_append2)
qed

lemma parse_parts_Itoa:
  "\<forall>n \<in> set ns. 0 \<le> n \<and> n < 2 ^ 63 \<Longrightarrow> parse_parts s (map Itoa ns) = Inr ns"
  by (induction ns) (auto simp: Atoi_Itoa)

lemma Itoa_digits: "0 \<le> n \<Longrightarrow> list_all is_digit (Itoa n) \<and> Itoa n \<noteq> []"
  by (simp add: Itoa_def nat_string_digits)

lemma digits_no_dot: "list_all is_digit s \<Longrightarrow> CHR ''.'' \<notin> set s"
  using is_digit_not by (auto simp: list_all_iff)

lemma digits_version_char: "list_all is_digit s \<Longrightarrow> list_all version_char s"
  by (auto simp: list_all_iff version_char_def)

lemma no_double_dot:
  assumes "list_all is_digit a" "list_all is_digit b" "list_all is_digit c" "b \<noteq> []" "c \<noteq> []"
  shows "\<not> Contains (a @ ''.'' @ b @ ''.'' @ c) ''..''"
proof
  assume "Contains (a @ ''.'' @ b @ ''.'' @ c) ''..''"
  then obtain u v where uv: "a @ ''.'' @ b @ ''.'' @ c = u @ ''..'' @ v"
    unfolding Contains_iff by blast
  have "Split (a @ ''.'' @ b @ ''.'' @ c) CHR ''.'' = [a, b, c]"
    using assms by (simp add: Split_append Split_no_sep digits_no_dot)
  moreover have "[] \<in> set (tl (Split (u @ ''..'' @ v) CHR ''.''))"
    by (induction u) (auto split: list.splits dest: list.set_sel(2) [rotated])
  ultimately have "[] \<in> set [b, c]" using uv by simp
  with assms(4,5) show False by simp
qed

lemma ParseVersion_dotted:
  assumes abc: "list_all is_digit a" "list_all is_digit b" "list_all is_digit c"
    and ne: "a \<noteq> []" "b \<noteq> []" "c \<noteq> []"
    and pre: "pre = [] \<or> pre = ''v''"
    and suffix: "suffix = [] \<or> \<not> version_char (hd suffix)"
  shows "\<exists>s. ParseVersion (pre @ (a @ ''.'' @ b @ ''.'' @ c) @ suffix) =
           (case parse_parts s [a, b, c] of
              Inl e \<Rightarrow> Inl e | Inr ns \<Rightarrow> Inr (Version (component ns 0) (component ns 1) (component ns 2)))"
proof -
  let ?L = "a @ ''.'' @ b @ ''.'' @ c" and ?t = "TrimRightFunc is_space suffix"
  have hd_digit: "is_digit (hd ?L)" using list_all_hd [OF abc(1) ne(1)] ne(1) by simp
  have last_digit: "is_digit (last ?L)" using list_all_last [OF abc(3) ne(3)] ne(3) by simp
  note hd_last = is_digit_not [OF hd_digit] is_digit_not [OF last_digit]
  have "TrimSpace ((pre @ ?L) @ suffix) = (pre @ ?L) @ ?t"
    using pre hd_last by (intro TrimSpace_append) (auto simp: is_space_def char_code_def)
  then have s: "TrimPrefix (TrimSpace (pre @ ?L @ suffix)) ''v'' = ?L @ ?t"
    using pre hd_last by (auto simp: TrimPrefix_def HasPrefix_single ne)
  have "?t = [] \<or> \<not> version_char (hd ?t)"
    using suffix hd_TrimRightFunc by (metis TrimRightFunc_def dropWhile.simps(1) rev.simps(1))
  moreover have "\<forall>x \<in> set ?L. version_char x"
    using abc by (auto simp: list_all_iff version_char_def)
  ultimately have num: "takeWhile version_char (?L @ ?t) = ?L"
    by (cases ?t) auto
  have trim: "TrimFunc (\<lambda>c. c = CHR ''.'') ?L = ?L"
    using hd_last by (intro TrimFunc_id) blast
  have split: "Split ?L CHR ''.'' = [a, b, c]"
    using abc by (simp add: Split_append Split_no_sep digits_no_dot)
  have "\<not> HasPrefix (?L @ ?t) ''.''"
    using hd_last ne by (simp add: HasPrefix_single)
  then show ?thesis
    unfolding ParseVersion_def Let_def s num trim split
    using no_double_dot [OF abc ne(2,3)] ne(1) by auto
qed

lemma ParseVersion_print:
  assumes "valid_version v" and "pre = [] \<or> pre = ''v''"
    and "suffix = [] \<or> \<not> version_char (hd suffix)"
  shows "ParseVersion (pre @ version_String v @ suffix) = Inr v"
proof -
  note valid = assms(1) [unfolded valid_version_iff]
  obtain s where s: "ParseVersion (pre @ version_String v @ suffix) =
      (case parse_parts s (map Itoa [Major v, Minor v, Patch v]) of
         Inl e \<Rightarrow> Inl e | Inr ns \<Rightarrow> Inr (Version (component ns 0) (component ns 1) (component ns 2)))"
    using ParseVersion_dotted [OF _ _ _ _ _ _ assms(2,3), of "Itoa (Major v)" "Itoa (Minor v)" "Itoa (Patch v)"]
      valid Itoa_digits by (auto simp: version_String_def)
  moreover have "parse_parts s (map Itoa [Major v, Minor v, Patch v]) = Inr [Major v, Minor v, Patch v]"
    using valid by (intro parse_parts_Itoa) auto
  ultimately show ?thesis by (simp add: component_def)
qed

lemma Atoi_unsigned: "list_all is_digit s \<Longrightarrow> Atoi s = Some n \<Longrightarrow> 0 \<le> n \<and> n < 2 ^ 63"
  by (cases "s = []") (auto simp: Atoi_digits, auto simp: Atoi_def parse_digits_def HasPrefix_def split: if_splits)

lemma parse_parts_range:
  "parse_parts s ps = Inr ns \<Longrightarrow> \<forall>p \<in> set ps. list_all is_digit p \<Longrightarrow> \<forall>n \<in> set ns. 0 \<le> n \<and> n < 2 ^ 63"
proof (induction ps arbitrary: ns)
  case (Cons p ps)
  then obtain n ms where "Atoi p = Some n" "parse_parts s ps = Inr ms" "ns = n # ms"
    by (auto split: option.splits sum.splits)
  with Cons Atoi_unsigned [of p n] show ?case by simp
qed simp

lemma component_range: "\<forall>n \<in> set ns. 0 \<le> n \<and> n < 2 ^ 63 \<Longrightarrow> 0 \<le> component ns i \<and> component ns i < 2 ^ 63"
  by (auto simp: component_def)

lemma ParseVersion_valid_aux:
  assumes "ParseVersion s = Inr v"
  shows "valid_version v"
proof -
  let ?s = "TrimPrefix (TrimSpace s) ''v''"
  let ?num = "takeWhile version_char ?s"
  let ?parts = "Split (TrimFunc (\<lambda>c. c = CHR ''.'') ?num) CHR ''.''"
  obtain ns where ns: "parse_parts ?s ?parts = Inr ns"
    and v: "v = Version (component ns 0) (component ns 1) (component ns 2)"
    using assms by (auto simp: ParseVersion_def Let_def split: if_splits sum.splits)
  have "list_all is_digit p" if "p \<in> set ?parts" for p
  proof -
    have "set p \<subseteq> set ?num - {CHR ''.''}"
      using set_Split [OF that] set_TrimFunc by blast
    then show ?thesis
      by (auto simp: list_all_iff version_char_def dest!: set_takeWhileD)
  qed
  with parse_parts_range [OF ns] have "\<forall>n \<in> set ns. 0 \<le> n \<and> n < 2 ^ 63" by blast
  with component_range v show ?thesis by (simp add: valid_version_iff)
qed

lemma Compare_order_aux:
  assumes "valid_version v" "valid_version w"
  shows "Compare v w = (if v < w then -1 else if v = w then 0 else 1)"
proof -
  have "go_int64 (m - n) = m - n" if "0 \<le> m" "m < 2 ^ 63" "0 \<le> n" "n < 2 ^ 63" for m n
    using that by (intro go_int64_id) auto
  with assms show ?thesis
    by (cases v; cases w) (simp add: Compare_def valid_version_iff less_version_def)
qed

lemma ParseImageVersion_valid: "ParseImageVersion img = Some v \<Longrightarrow> valid_version v"
  by (auto simp: ParseImageVersion_def Let_def split: prod.splits if_splits sum.splits
      intro: ParseVersion_valid_aux)

section \<open>Properties\<close>

text \<open>
  Parsing what \<^verbatim>\<open>String\<close> prints gives the version back, with an optional leading
  \<^verbatim>\<open>v\<close> and with any suffix that does not continue the number (such as \<^verbatim>\<open>-alpine\<close>), for every
  version whose components are non-negative 64-bit integers.
\<close>

theorem ParseVersion_String_roundtrip:
  assumes "valid_version v" and "pre = [] \<or> pre = ''v''"
    and "suffix = [] \<or> \<not> version_char (hd suffix)"
  shows "ParseVersion (pre @ version_String v @ suffix) = Inr v"
  using assms by (rule ParseVersion_print)

theorem ParseVersion_String_roundtrip_witness:
  "ParseVersion (''v'' @ version_String (Version 15 6 1) @ ''-alpine'') = Inr (Version 15 6 1)"
proof (rule ParseVersion_String_roundtrip)
  show "valid_version (Version 15 6 1)" by (simp add: valid_version_iff)
  show "''-alpine'' = [] \<or> \<not> version_char (hd ''-alpine'')"
    by (simp add: version_char_def is_digit_def char_code_def)
qed simp

text \<open>
  The version of an image reference is the version of its tag: a registry port (a colon in
  the path before the last slash) and a digest (from the first at sign on) are ignored, and the
  function fails exactly when the tag holds no version.
\<close>

theorem ParseImageVersion_tag:
  assumes "CHR ''@'' \<notin> set (path @ name @ tag)" and "path = [] \<or> last path = CHR ''/''"
    and "CHR ''/'' \<notin> set (name @ tag)" and "CHR '':'' \<notin> set name"
    and "digest = [] \<or> hd digest = CHR ''@''"
  shows "ParseImageVersion (path @ name @ '':'' @ tag @ digest) =
           (case ParseVersion tag of Inl e \<Rightarrow> None | Inr v \<Rightarrow> Some v)"
proof -
  let ?ref = "path @ name @ '':'' @ tag"
  have "takeWhile (\<lambda>c. c \<noteq> CHR ''@'') (?ref @ digest) = ?ref"
    using assms(1,5) by (intro takeWhile_neq_append) auto
  moreover have "takeWhile (\<lambda>c. c \<noteq> CHR ''/'') (rev (name @ '':'' @ tag) @ rev path) = rev (name @ '':'' @ tag)"
    using assms(2,3) by (intro takeWhile_neq_append) (auto simp: hd_rev)
  moreover have "Cut (name @ '':'' @ tag) CHR '':'' = (name, tag, True)"
    using assms(4) by (simp add: Cut_append)
  ultimately show ?thesis by (simp add: ParseImageVersion_def Let_def)
qed

theorem ParseImageVersion_tag_witness:
  "ParseImageVersion (''registry:5000/'' @ ''dns-server'' @ '':'' @ version_String (Version 15 5 0) @ ''@sha256:ab'') =
     Some (Version 15 5 0)"
proof -
  have tag: "version_String (Version 15 5 0) = ''15.5.0''" by code_simp
  have "ParseVersion ''15.5.0'' = Inr (Version 15 5 0)" by code_simp
  with ParseImageVersion_tag [of "''registry:5000/''" "''dns-server''" "''15.5.0''" "''@sha256:ab''"]
  show ?thesis by (simp only: tag) simp
qed

text \<open>
  \<^verbatim>\<open>Compare\<close> is the lexicographic order on versions that \<^verbatim>\<open>ParseVersion\<close> returns: the
  64-bit subtractions do not wrap, because a parsed component lies between \<open>0\<close> and
  \<open>2 ^ 63 - 1\<close>.
\<close>

theorem Compare_parsed_is_order:
  assumes "ParseVersion s = Inr v" and "ParseVersion t = Inr w"
  shows "Compare v w = (if v < w then -1 else if v = w then 0 else 1)"
  using assms by (intro Compare_order_aux ParseVersion_valid_aux)

theorem Compare_parsed_is_order_witness:
  "Compare (Version 15 5 0) (Version 15 10 0) = -1"
proof -
  have "ParseVersion ''15.5'' = Inr (Version 15 5 0)" and "ParseVersion ''v15.10'' = Inr (Version 15 10 0)"
    by code_simp+
  from Compare_parsed_is_order [OF this] show ?thesis by (simp add: less_version_def)
qed

end
