(* ===== verification/Cluster_Types.thy ===== *)
theory Cluster_Types
  imports Client_Admin Version
begin

text \<open>
  The TechnitiumCluster resource (\<^verbatim>\<open>api/v1alpha1/technitiumcluster_types.go\<close>), the Kubernetes
  objects its controller manages, as far as the controller reads or writes them, and the names,
  labels and addresses derived from a cluster.

  Enumerations of the API are their strings. Parts of a pod specification the controller only
  copies from the spec (resources, affinity, tolerations and the like) are opaque strings.
  A Go map is an association list read with \<open>map_of\<close>; \<open>map_set\<close> and \<open>map_delete\<close> keep
  its keys distinct.
\<close>

section \<open>Maps\<close>

definition map_get :: "string_map \<Rightarrow> string \<Rightarrow> string" where
  "map_get m k = (case map_of m k of Some v \<Rightarrow> v | None \<Rightarrow> [])"

fun map_set :: "string \<Rightarrow> string \<Rightarrow> string_map \<Rightarrow> string_map" where
  "map_set k v [] = [(k, v)]"
| "map_set k v ((k', v') # m) = (if k = k' then (k, v) # m else (k', v') # map_set k v m)"

definition map_delete :: "string \<Rightarrow> string_map \<Rightarrow> string_map" where
  "map_delete k m = filter (\<lambda>(k', _). k' \<noteq> k) m"

text \<open>\<^verbatim>\<open>maps.Copy(dst, src)\<close>: every pair of the source is set on the destination.\<close>

definition map_copy :: "string_map \<Rightarrow> string_map \<Rightarrow> string_map" where
  "map_copy src dst = fold (\<lambda>(k, v). map_set k v) src dst"

section \<open>The TechnitiumCluster resource\<close>

type_synonym opaque = string

datatype int_or_string = FromInt int | FromString string

record secret_reference =
  sr_Name :: string
  sr_Namespace :: string

record pdb_spec =
  pb_Enabled :: "bool option"
  pb_MaxUnavailable :: "int_or_string option"

record storage_spec =
  ss_Size :: opaque
  ss_StorageClassName :: "string option"
  ss_RetentionPolicy :: string

record primary_service_spec =
  ps_Enabled :: bool
  ps_Type :: string
  ps_ExternalTrafficPolicy :: string
  ps_Annotations :: string_map

record replica_service_override =
  ro_Ordinal :: int
  ro_Annotations :: string_map

record per_replica_service_spec =
  pr_Type :: string
  pr_ExternalTrafficPolicy :: string
  pr_Annotations :: string_map
  pr_Ordinals :: "replica_service_override list"

record service_spec =
  sv_Type :: string
  sv_Annotations :: string_map
  sv_ExternalTrafficPolicy :: string
  sv_ExposeAPI :: "bool option"
  sv_PerReplica :: "per_replica_service_spec option"
  sv_Primary :: "primary_service_spec option"

record cluster_spec =
  tc_Image :: string
  tc_Replicas :: "int option"
  tc_Storage :: storage_spec
  tc_Resources :: opaque
  tc_Affinity :: "opaque option"
  tc_TopologySpreadConstraints :: "opaque list"
  tc_Tolerations :: "opaque list"
  tc_NodeSelector :: string_map
  tc_PriorityClassName :: string
  tc_Service :: service_spec
  tc_PodDisruptionBudget :: pdb_spec
  tc_AdminSecretRef :: "secret_reference option"
  tc_DNSServerDomain :: string
  tc_ClusterDomain :: string
  tc_DeletionPolicy :: string

record node_status =
  ns_Name :: string
  ns_Role :: string
  ns_State :: string
  ns_Version :: string
  ns_LastSynced :: "int option"
  ns_Message :: string

record rollout_bookmark =
  rb_Node :: string
  rb_NodeStartedTime :: int

datatype cluster_phase = NoPhase | Pending | Provisioning | Bootstrapping | Clustering | Ready

record cluster_status =
  ts_Conditions :: "condition list"
  ts_Phase :: cluster_phase
  ts_ReadyReplicas :: int
  ts_Endpoint :: string
  ts_PrimaryEndpoint :: string
  ts_PrimaryService :: string
  ts_ObservedGeneration :: int
  ts_Nodes :: "node_status list"
  ts_Version :: string
  ts_Members :: string
  ts_Rollout :: "rollout_bookmark option"

record technitium_cluster =
  tc_meta :: object_meta
  tc_Spec :: cluster_spec
  tc_Status :: cluster_status

definition DeletionPolicyOrphan :: string where
  "DeletionPolicyOrphan = ''Orphan''"

definition PVCRetentionPolicyDelete :: string where
  "PVCRetentionPolicyDelete = ''Delete''"

definition AllowDowngradeAnnotation :: string where
  "AllowDowngradeAnnotation = ''dns.packet.fail/allow-downgrade''"

definition ConditionAvailable :: string where
  "ConditionAvailable = ''Available''"

definition ConditionProgressing :: string where
  "ConditionProgressing = ''Progressing''"

definition ConditionDegraded :: string where
  "ConditionDegraded = ''Degraded''"

definition ConditionUpgrading :: string where
  "ConditionUpgrading = ''Upgrading''"

section \<open>Objects of the Kubernetes API\<close>

record secret =
  sec_meta :: object_meta
  sec_Type :: string
  sec_Data :: string_map

record pod_condition =
  pc_Type :: string
  pc_Status :: condition_status
  pc_LastTransitionTime :: "int option"

record pod =
  pod_meta :: object_meta
  pod_IP :: string
  pod_Conditions :: "pod_condition list"

record pvc =
  pvc_meta :: object_meta
  pvc_AccessModes :: "string list"
  pvc_Storage :: opaque
  pvc_StorageClassName :: "string option"

record service_port =
  sp_Name :: string
  sp_Port :: int
  sp_Protocol :: string
  sp_TargetPort :: int_or_string
  sp_NodePort :: int

record service =
  svc_meta :: object_meta
  svc_Type :: string
  svc_ClusterIP :: string
  svc_ExternalTrafficPolicy :: string
  svc_Selector :: string_map
  svc_Ports :: "service_port list"

record pod_disruption_budget =
  pdb_meta :: object_meta
  pdb_MaxUnavailable :: "int_or_string option"
  pdb_MinAvailable :: "int_or_string option"
  pdb_Selector :: string_map

datatype env_value = EnvValue string | EnvFieldRef string

datatype probe =
    TCPProbe (probe_port: int) (probe_initialDelay: int) (probe_period: int)
  | ExecProbe (probe_command: "string list") (probe_initialDelay: int) (probe_period: int)
      (probe_timeout: int) (probe_failureThreshold: int)

datatype affinity = NoAffinity | SpecAffinity opaque | HostnameAntiAffinity int string string_map

datatype volume =
    SecretVolume (vol_name: string) string "(string \<times> string) list"
  | EmptyDirVolume (vol_name: string)

record container =
  ct_Name :: string
  ct_Image :: string
  ct_Ports :: "(string \<times> int \<times> string) list"
  ct_Env :: "(string \<times> env_value) list"
  ct_Resources :: opaque
  ct_VolumeMounts :: "(string \<times> string \<times> bool) list"
  ct_ReadinessProbe :: probe
  ct_LivenessProbe :: probe
  ct_AllowPrivilegeEscalation :: bool
  ct_RunAsNonRoot :: bool
  ct_CapabilitiesDrop :: "string list"
  ct_CapabilitiesAdd :: "string list"

record pod_template =
  pt_Labels :: string_map
  pt_RunAsNonRoot :: bool
  pt_RunAsUser :: int
  pt_RunAsGroup :: int
  pt_FSGroup :: int
  pt_SeccompProfile :: string
  pt_Affinity :: affinity
  pt_TopologySpreadConstraints :: "opaque list"
  pt_Tolerations :: "opaque list"
  pt_NodeSelector :: string_map
  pt_PriorityClassName :: string
  pt_Containers :: "container list"
  pt_Volumes :: "volume list"

record stateful_set =
  sts_meta :: object_meta
  sts_Replicas :: "int option"
  sts_Template :: pod_template
  sts_StrategyType :: string
  sts_RollingUpdate :: "int option option"
  sts_ServiceName :: string
  sts_Selector :: string_map
  sts_VolumeClaimTemplates :: "pvc list"
  sts_ReadyReplicas :: int
  sts_CurrentRevision :: string
  sts_UpdateRevision :: string
  sts_ObservedGeneration :: int

section \<open>Names, labels and addresses\<close>

abbreviation tc_Name :: "technitium_cluster \<Rightarrow> string" where
  "tc_Name tc \<equiv> om_Name (tc_meta tc)"

definition primaryOrdinal :: int where
  "primaryOrdinal = 0"

definition instanceLabels :: "string \<Rightarrow> string_map" where
  "instanceLabels name = [(''app.kubernetes.io/name'', ''technitium''), (''app.kubernetes.io/instance'', name)]"

definition commonLabels :: "string \<Rightarrow> string_map" where
  "commonLabels name = map_set ''app.kubernetes.io/managed-by'' ''technitium-operator'' (instanceLabels name)"

definition statefulSetName :: "string \<Rightarrow> string" where
  "statefulSetName clusterName = clusterName"

definition clientServiceName :: "string \<Rightarrow> string" where
  "clientServiceName clusterName = clusterName"

definition headlessServiceName :: "string \<Rightarrow> string" where
  "headlessServiceName clusterName = clusterName @ ''-headless''"

definition adminSecretName :: "string \<Rightarrow> string" where
  "adminSecretName clusterName = clusterName @ ''-admin''"

definition primaryServiceName :: "string \<Rightarrow> string" where
  "primaryServiceName clusterName = clusterName @ ''-primary''"

text \<open>\<^verbatim>\<open>fmt.Sprintf("%s-%d", name, ordinal)\<close>: the pod of an ordinal, and its per-replica Service.\<close>

definition ordinal_name :: "string \<Rightarrow> int \<Rightarrow> string" where
  "ordinal_name clusterName ordinal = clusterName @ ''-'' @ Itoa ordinal"

definition nodeEndpoint :: "string \<Rightarrow> int \<Rightarrow> string \<Rightarrow> string" where
  "nodeEndpoint clusterName ordinal namespace =
     ''http://'' @ ordinal_name clusterName ordinal @ ''.'' @ headlessServiceName clusterName @ ''.'' @ namespace @ ''.svc:5380''"

definition clusterDomainFor :: "technitium_cluster \<Rightarrow> string" where
  "clusterDomainFor tc =
     (if tc_ClusterDomain (tc_Spec tc) \<noteq> [] then tc_ClusterDomain (tc_Spec tc)
      else if tc_DNSServerDomain (tc_Spec tc) \<noteq> [] then tc_DNSServerDomain (tc_Spec tc)
      else tc_Name tc @ ''.local'')"

definition desiredReplicaCount :: "technitium_cluster \<Rightarrow> int" where
  "desiredReplicaCount tc = (case tc_Replicas (tc_Spec tc) of Some n \<Rightarrow> n | None \<Rightarrow> 1)"

text \<open>
  The Secret that holds a cluster's admin credentials; the key comes with the error too, for the
  caller's messages.
\<close>

definition adminSecretKeyFor :: "technitium_cluster \<Rightarrow> string \<Rightarrow> object_key \<times> go_error option" where
  "adminSecretKeyFor tc operatorNamespace =
     (case tc_AdminSecretRef (tc_Spec tc) of
        None \<Rightarrow> (ObjectKey operatorNamespace (adminSecretName (tc_Name tc)), None)
      | Some ref \<Rightarrow>
          (ObjectKey operatorNamespace (sr_Name ref),
           if sr_Namespace ref \<noteq> [] \<and> sr_Namespace ref \<noteq> operatorNamespace then
             Some (ErrorText (''spec.adminSecretRef.namespace '' @ Quote (sr_Namespace ref) @
               '' is invalid: the admin Secret must live in the operator namespace, so the namespace must be empty or '' @
               Quote operatorNamespace))
           else None))"

definition resolvedAdminSecretName :: "technitium_cluster \<Rightarrow> string \<Rightarrow> string" where
  "resolvedAdminSecretName tc operatorNamespace = key_Name (fst (adminSecretKeyFor tc operatorNamespace))"

text \<open>\<^verbatim>\<open>client.ObjectKey\<close> printed with \<^verbatim>\<open>%s\<close>.\<close>

definition key_string :: "object_key \<Rightarrow> string" where
  "key_string k = key_Namespace k @ ''/'' @ key_Name k"

section \<open>Lemmas\<close>

lemma map_of_map_set [simp]: "map_of (map_set k v m) = (map_of m)(k \<mapsto> v)"
  by (induction m) auto

lemma map_of_map_delete [simp]: "map_of (map_delete k m) = (map_of m)(k := None)"
  by (induction m) (auto simp: map_delete_def)

lemma keys_map_set: "fst ` set (map_set k v m) = insert k (fst ` set m)"
proof (induction m)
  case (Cons kv m)
  then show ?case by (cases kv) (simp add: insert_commute)
qed simp

lemma distinct_map_set [simp]: "distinct (map fst m) \<Longrightarrow> distinct (map fst (map_set k v m))"
proof (induction m)
  case (Cons kv m)
  then show ?case using keys_map_set [of k v m] by (cases kv) auto
qed simp

lemma distinct_map_delete [simp]: "distinct (map fst m) \<Longrightarrow> distinct (map fst (map_delete k m))"
  by (induction m) (auto simp: map_delete_def)

lemma map_of_map_copy: "distinct (map fst src) \<Longrightarrow> map_of (map_copy src dst) = map_of dst ++ map_of src"
proof (induction src arbitrary: dst)
  case Nil
  then show ?case by (simp add: map_copy_def)
next
  case (Cons kv src)
  obtain k v where kv: "kv = (k, v)" by (cases kv)
  have "map_of (map_copy src (map_set k v dst)) = map_of (map_set k v dst) ++ map_of src"
    using Cons by simp
  moreover have "map_of src k = None"
    using Cons.prems kv by (auto simp: map_of_eq_None_iff)
  ultimately show ?case
    by (auto simp: kv map_copy_def map_add_def fun_eq_iff split: option.splits)
qed

lemma distinct_map_copy: "distinct (map fst dst) \<Longrightarrow> distinct (map fst (map_copy src dst))"
  by (induction src arbitrary: dst) (auto simp: map_copy_def split: prod.splits)

end
