(* ===== verification/Server_Ref.thy ===== *)
theory Server_Ref
  imports Cluster_Types
begin

text \<open>
  Credentials from a Secret (\<^verbatim>\<open>internal/config/credentials.go\<close>) and the resolution of a
  \<^verbatim>\<open>serverRef\<close> to a client of the cluster's Primary (\<^verbatim>\<open>internal/controller/serverref.go\<close>).

  The cache is the \<open>entries\<close> field of the world. Its invariant \<open>cache_ok\<close> says that each
  entry's client is the one that would be built now from the endpoint and Secret version stored
  with it; resolving keeps it, and with it every resolution, cached or not, yields a client for
  the cluster's current Primary endpoint with the Secret's current credentials.
\<close>

section \<open>Credentials\<close>

definition adminSecretUsernameKey :: string where
  "adminSecretUsernameKey = ''username''"

definition adminSecretPasswordKey :: string where
  "adminSecretPasswordKey = ''password''"

definition adminSecretTokenKey :: string where
  "adminSecretTokenKey = ''token''"

definition ClientOptionsFromSecret :: "secret option \<Rightarrow> go_error + client_option list" where
  "ClientOptionsFromSecret sec =
     (case sec of
        None \<Rightarrow> Inl (ErrorText ''technitium: credentials secret is nil'')
      | Some secret \<Rightarrow>
          (let token = TrimSpace (map_get (sec_Data secret) ''token'');
               username = TrimSpace (map_get (sec_Data secret) ''username'');
               password = map_get (sec_Data secret) ''password''
           in if token \<noteq> [] then Inr [WithToken token]
              else if username \<noteq> [] then Inr [WithCredentials username password]
              else Inl (ErrorText (''technitium: credentials secret '' @ Quote (om_Name (sec_meta secret)) @
                     '' must contain either a '' @ Quote ''token'' @ '' key, or '' @ Quote ''username'' @
                     '' and '' @ Quote ''password'' @ '' keys''))))"

definition UsernamePasswordFromSecret :: "secret option \<Rightarrow> go_error + string \<times> string" where
  "UsernamePasswordFromSecret sec =
     (case sec of
        None \<Rightarrow> Inl (ErrorText ''technitium: credentials secret is nil'')
      | Some secret \<Rightarrow>
          (let username = TrimSpace (map_get (sec_Data secret) ''username'');
               password = map_get (sec_Data secret) ''password'';
               missing = (\<lambda>key. Inl (ErrorText (''technitium: credentials secret '' @ Quote (om_Name (sec_meta secret)) @
                     '' has no '' @ Quote key @ '' key'')))
           in if username = [] then missing ''username''
              else if password = [] then missing ''password''
              else Inr (username, password)))"

section \<open>Resolution\<close>

definition lookup_entry :: "string \<Rightarrow> ('s world, cached_server_client option) state" where
  "lookup_entry name = State (\<lambda>w. (entries w name, w))"

definition store_entry :: "string \<Rightarrow> cached_server_client \<Rightarrow> ('s world, unit) state" where
  "store_entry name e = State (\<lambda>w. ((), w\<lparr>entries := (entries w)(name \<mapsto> e)\<rparr>))"

definition wrap_error :: "string \<Rightarrow> ('w, go_error + 'a) state \<Rightarrow> ('w, go_error + 'a) state" where
  "wrap_error prefix m = do { r \<leftarrow> m; ret (map_sum (\<lambda>e. ErrorWrap prefix e []) id r) }"

text \<open>The part of \<^verbatim>\<open>resolve\<close> under the lock: the cached client when it is current, a new one otherwise.\<close>

definition cached_or_built :: "string \<Rightarrow> technitium_cluster \<Rightarrow> secret \<Rightarrow> ('s world, go_error + nat) state" where
  "cached_or_built name tc secret = do {
     entry \<leftarrow> lookup_entry (tc_Name tc);
     let endpoint = ts_PrimaryEndpoint (tc_Status tc);
     let version = om_ResourceVersion (sec_meta secret);
     if (case entry of Some e \<Rightarrow> ce_endpoint e = endpoint \<and> ce_secretResourceVersion e = version | None \<Rightarrow> False)
     then ok (ce_api (the entry))
     else
       or_return (ret (ClientOptionsFromSecret (Some secret))) (\<lambda>opts.
       or_return (wrap_error (''building Technitium client for '' @ Quote name @ '': '') (NewClient endpoint opts)) (\<lambda>api. do {
         store_entry (tc_Name tc) \<lparr>ce_endpoint = endpoint, ce_secretResourceVersion = version, ce_api = api\<rparr>;
         ok api
       }))
   }"

definition resolve ::
  "('s, technitium_cluster) kclient \<Rightarrow> ('s, secret) kclient \<Rightarrow> string \<Rightarrow> secret_reference
    \<Rightarrow> ('s world, go_error + nat) state" where
  "resolve clusters secrets operatorNamespace serverRef =
     (let name = sr_Name serverRef in
      or_return (wrap_error (''getting TechnitiumCluster '' @ Quote name @ '': '') (kget clusters (ObjectKey [] name)))
      (\<lambda>tc.
        if ts_PrimaryEndpoint (tc_Status tc) = [] then
          fail (ErrorText (''TechnitiumCluster '' @ Quote name @ '' is not ready yet: no primary endpoint reported''))
        else case adminSecretKeyFor tc operatorNamespace of
          (secretKey, Some err) \<Rightarrow>
            fail (ErrorWrap (''TechnitiumCluster '' @ Quote name @ '' has an invalid admin secret reference: '') err [])
        | (secretKey, None) \<Rightarrow>
            or_return (wrap_error (''getting admin secret '' @ key_string secretKey @ '' for TechnitiumCluster '' @ Quote name @ '': '')
                        (kget secrets secretKey))
            (\<lambda>secret.
              if map_get (sec_Data secret) adminSecretTokenKey = [] then
                fail (ErrorText (''TechnitiumCluster '' @ Quote name @ '' is not bootstrapped yet: admin secret '' @
                       key_string secretKey @ '' has no token''))
              else cached_or_built name tc secret)))"

section \<open>Lemmas\<close>

lemma run_lookup_entry [run_simps]: "run_state (lookup_entry n) w = (entries w n, w)"
  by (simp add: lookup_entry_def)

lemma run_store_entry [run_simps]: "run_state (store_entry n e) w = ((), w\<lparr>entries := (entries w)(n \<mapsto> e)\<rparr>)"
  by (simp add: store_entry_def)

lemma run_wrap_error [run_simps]:
  "run_state (wrap_error p m) w = (case run_state m w of (r, w') \<Rightarrow> (map_sum (\<lambda>e. ErrorWrap p e []) id r, w'))"
  by (simp add: wrap_error_def split: prod.splits)

lemma wrap_error_Inr_iff [simp]:
  "run_state (wrap_error p m) w = (Inr a, w') \<longleftrightarrow> run_state m w = (Inr a, w')"
proof -
  obtain r v where "run_state m w = (r, v)" by fastforce
  then show ?thesis by (cases r) (auto simp: run_wrap_error)
qed

lemma emits_wrap_error [intro]: "emits P m \<Longrightarrow> emits P (wrap_error p m)"
  by (auto simp: wrap_error_def intro!: emits_bind)

definition is_kube_read :: "event \<Rightarrow> bool" where
  "is_kube_read ev \<longleftrightarrow> (\<exists>k key. ev = EvGet k key) \<or> (\<exists>k. ev = EvList k)"

lemma is_kube_read_simps [simp]: "is_kube_read (EvGet k key)" "is_kube_read (EvList k)"
  "\<not> is_kube_read (EvHttp req)" "\<not> is_kube_read (EvUpdate k m)" "\<not> is_kube_read (EvStatusUpdate k m)"
  by (auto simp: is_kube_read_def)

lemma emits_kget [intro]: "P (EvGet (kc_kind kc) key) \<Longrightarrow> emits P (kget kc key)"
  by (simp add: kget_def emits_outside)

lemma emits_entries [intro, simp]: "emits P (lookup_entry n)" "emits P (store_entry n e)"
  by (simp_all add: emits_def run_simps)

text \<open>Resolving reads the cluster and the Secret and calls nothing else.\<close>

lemma emits_cached_or_built [intro, simp]: "emits P (cached_or_built name tc sec)"
  unfolding cached_or_built_def Let_def
  by (intro emits_bind) (auto intro!: emits_or_return emits_wrap_error emits_bind)

lemma emits_resolve: "emits is_kube_read (resolve clusters secrets ns ref)"
  unfolding resolve_def Let_def
  by (intro emits_or_return emits_wrap_error emits_kget)
    (auto split: prod.splits option.splits intro!: emits_or_return emits_wrap_error emits_kget emits_bind)

section \<open>The cache\<close>

text \<open>The client a pair of endpoint and credentials builds.\<close>

definition built_client :: "string \<Rightarrow> client_option list \<Rightarrow> tclient" where
  "built_client endpoint opts = fold apply_option opts
     (zero_client\<lparr>cl_baseURL := TrimRightFunc (\<lambda>ch. ch = CHR ''/'') endpoint, cl_timeout := defaultTimeout\<rparr>)"

text \<open>
  What the API server documents of resource versions: an object's content changes only together
  with its resource version, so a version determines the Secret's data. \<open>content\<close> is that
  function.
\<close>

definition versioned :: "(string \<Rightarrow> string_map) \<Rightarrow> ('s, secret) kclient \<Rightarrow> bool" where
  "versioned content kc \<longleftrightarrow>
     (\<forall>key s sec. fst (kc_Get kc key s) = Inr sec \<longrightarrow>
        sec_Data sec = content (om_ResourceVersion (sec_meta sec)))"

definition options_of_data :: "string_map \<Rightarrow> client_option list option" where
  "options_of_data d =
     (let token = TrimSpace (map_get d ''token''); username = TrimSpace (map_get d ''username'')
      in if token \<noteq> [] then Some [WithToken token]
         else if username \<noteq> [] then Some [WithCredentials username (map_get d ''password'')]
         else None)"

lemma ClientOptionsFromSecret_iff:
  "ClientOptionsFromSecret (Some sec) = Inr opts \<longleftrightarrow> options_of_data (sec_Data sec) = Some opts"
  by (auto simp: ClientOptionsFromSecret_def options_of_data_def Let_def)

definition entry_ok :: "(string \<Rightarrow> string_map) \<Rightarrow> 's world \<Rightarrow> cached_server_client \<Rightarrow> bool" where
  "entry_ok content w e \<longleftrightarrow>
     ce_api e < length (heap w) \<and>
     (\<exists>opts. options_of_data (content (ce_secretResourceVersion e)) = Some opts \<and>
        heap w ! ce_api e = built_client (ce_endpoint e) opts)"

definition cache_ok :: "(string \<Rightarrow> string_map) \<Rightarrow> 's world \<Rightarrow> bool" where
  "cache_ok content w \<longleftrightarrow> (\<forall>name e. entries w name = Some e \<longrightarrow> entry_ok content w e)"

lemma cache_ok_same: "cache_ok content w \<Longrightarrow> heap w' = heap w \<Longrightarrow> entries w' = entries w \<Longrightarrow> cache_ok content w'"
  by (simp add: cache_ok_def entry_ok_def)

lemma entry_ok_alloc: "entry_ok content w e \<Longrightarrow> heap w' = heap w @ [v] \<Longrightarrow> entry_ok content w' e"
  by (auto simp: entry_ok_def nth_append)

lemma cache_ok_store:
  assumes "cache_ok content w" and "heap w' = heap w @ [built_client endpoint opts]"
    and "options_of_data (content version) = Some opts"
    and "entries w' = (entries w)(name \<mapsto>
      \<lparr>ce_endpoint = endpoint, ce_secretResourceVersion = version, ce_api = length (heap w)\<rparr>)"
  shows "cache_ok content w'"
  unfolding cache_ok_def
proof (intro allI impI)
  fix n e
  assume e: "entries w' n = Some e"
  show "entry_ok content w' e"
  proof (cases "n = name")
    case True
    with e assms show ?thesis by (auto simp: entry_ok_def)
  next
    case False
    with e assms have "entry_ok content w e" by (auto simp: cache_ok_def)
    then show ?thesis using assms(2) by (rule entry_ok_alloc)
  qed
qed

lemma cached_or_built_ok:
  assumes "run_state (cached_or_built name tc sec) w = (Inr c, w')"
  shows "(\<exists>e. entries w (tc_Name tc) = Some e \<and> ce_endpoint e = ts_PrimaryEndpoint (tc_Status tc) \<and>
        ce_secretResourceVersion e = om_ResourceVersion (sec_meta sec) \<and> c = ce_api e \<and> w' = w) \<or>
     (\<exists>opts. options_of_data (sec_Data sec) = Some opts \<and> c = length (heap w) \<and>
        heap w' = heap w @ [built_client (ts_PrimaryEndpoint (tc_Status tc)) opts] \<and>
        entries w' = (entries w)(tc_Name tc \<mapsto>
          \<lparr>ce_endpoint = ts_PrimaryEndpoint (tc_Status tc),
           ce_secretResourceVersion = om_ResourceVersion (sec_meta sec), ce_api = length (heap w)\<rparr>))"
proof (cases "case entries w (tc_Name tc) of Some e \<Rightarrow> ce_endpoint e = ts_PrimaryEndpoint (tc_Status tc) \<and>
    ce_secretResourceVersion e = om_ResourceVersion (sec_meta sec) | None \<Rightarrow> False")
  case True
  with assms show ?thesis by (auto simp: cached_or_built_def run_simps Let_def split: option.splits)
next
  case False
  with assms show ?thesis
    by (auto simp: cached_or_built_def run_lookup_entry Let_def or_return_Inr_iff ClientOptionsFromSecret_iff
         NewClient_ok_iff built_client_def run_store_entry)
qed

lemma resolve_ok_cases:
  assumes "run_state (resolve clusters secrets ns ref) w = (Inr c, w')"
  obtains tc s1 key sec s2 where
    "kc_Get clusters (ObjectKey [] (sr_Name ref)) (ext w) = (Inr tc, s1)"
    "ts_PrimaryEndpoint (tc_Status tc) \<noteq> []"
    "adminSecretKeyFor tc ns = (key, None)"
    "kc_Get secrets key s1 = (Inr sec, s2)"
    "(\<exists>e. entries w (tc_Name tc) = Some e \<and> ce_endpoint e = ts_PrimaryEndpoint (tc_Status tc) \<and>
        ce_secretResourceVersion e = om_ResourceVersion (sec_meta sec) \<and> c = ce_api e \<and>
        heap w' = heap w \<and> entries w' = entries w) \<or>
     (\<exists>opts. options_of_data (sec_Data sec) = Some opts \<and> c = length (heap w) \<and>
        heap w' = heap w @ [built_client (ts_PrimaryEndpoint (tc_Status tc)) opts] \<and>
        entries w' = (entries w)(tc_Name tc \<mapsto>
          \<lparr>ce_endpoint = ts_PrimaryEndpoint (tc_Status tc),
           ce_secretResourceVersion = om_ResourceVersion (sec_meta sec), ce_api = length (heap w)\<rparr>))"
proof -
  let ?get = "kc_Get clusters (ObjectKey [] (sr_Name ref)) (ext w)"
  obtain tc s1 where tc: "?get = (Inr tc, s1)" and ready: "ts_PrimaryEndpoint (tc_Status tc) \<noteq> []"
    using assms
    by (cases ?get; cases "fst ?get") (auto simp: resolve_def run_simps kget_def Let_def split: if_splits)
  obtain key where key: "adminSecretKeyFor tc ns = (key, None)"
    using assms tc ready
    by (cases "adminSecretKeyFor tc ns"; cases "snd (adminSecretKeyFor tc ns)")
      (auto simp: resolve_def run_simps kget_def Let_def)
  obtain sec s2 where sec: "kc_Get secrets key s1 = (Inr sec, s2)"
    using assms tc ready key
    by (cases "kc_Get secrets key s1"; cases "fst (kc_Get secrets key s1)")
      (auto simp: resolve_def run_simps kget_def Let_def)
  let ?w1 = "w\<lparr>ext := s2, trace := trace w @
    [EvGet (kc_kind clusters) (ObjectKey [] (sr_Name ref)), EvGet (kc_kind secrets) key]\<rparr>"
  have "run_state (cached_or_built (sr_Name ref) tc sec) ?w1 = (Inr c, w')"
    using assms tc ready key sec
    by (auto simp: resolve_def run_or_return run_wrap_error run_outside kget_def Let_def split: if_splits)
  from cached_or_built_ok [OF this] show thesis
    by (intro that [OF tc ready key sec]) auto
qed

text \<open>
  (C20) A resolved client is the one for the cluster's current Primary endpoint with the
  credentials currently in its admin Secret, whether it was built now or taken from the cache,
  and resolving keeps the cache consistent.
\<close>

theorem resolve_current_client:
  assumes "cache_ok content w" and "versioned content secrets"
    and "run_state (resolve clusters secrets ns ref) w = (Inr c, w')"
  shows "cache_ok content w' \<and> c < length (heap w') \<and>
    (\<exists>tc s1 key sec opts.
       kc_Get clusters (ObjectKey [] (sr_Name ref)) (ext w) = (Inr tc, s1) \<and>
       adminSecretKeyFor tc ns = (key, None) \<and> fst (kc_Get secrets key s1) = Inr sec \<and>
       options_of_data (sec_Data sec) = Some opts \<and>
       heap w' ! c = built_client (ts_PrimaryEndpoint (tc_Status tc)) opts)"
  using assms(3)
proof (cases rule: resolve_ok_cases)
  case (1 tc s1 key sec s2)
  have content: "sec_Data sec = content (om_ResourceVersion (sec_meta sec))"
    using assms(2) 1(4) unfolding versioned_def by (metis fst_conv)
  from 1(5) show ?thesis
  proof (elim disjE exE conjE)
    fix e
    assume e: "entries w (tc_Name tc) = Some e" "ce_endpoint e = ts_PrimaryEndpoint (tc_Status tc)"
      "ce_secretResourceVersion e = om_ResourceVersion (sec_meta sec)" "c = ce_api e"
      "heap w' = heap w" "entries w' = entries w"
    have "entry_ok content w e" using assms(1) e(1) by (auto simp: cache_ok_def)
    then show ?thesis
      using assms(1) 1 e content cache_ok_same [OF assms(1) e(5,6)] by (auto simp: entry_ok_def)
  next
    fix opts
    assume o: "options_of_data (sec_Data sec) = Some opts" "c = length (heap w)"
      "heap w' = heap w @ [built_client (ts_PrimaryEndpoint (tc_Status tc)) opts]"
      "entries w' = (entries w)(tc_Name tc \<mapsto>
          \<lparr>ce_endpoint = ts_PrimaryEndpoint (tc_Status tc),
           ce_secretResourceVersion = om_ResourceVersion (sec_meta sec), ce_api = length (heap w)\<rparr>)"
    have "cache_ok content w'"
      using cache_ok_store [OF assms(1) o(3) _ o(4)] o(1) content by simp
    with 1 o show ?thesis by auto
  qed
qed

text \<open>A cluster with a reported endpoint and a bootstrapped admin Secret.\<close>

definition sample_cluster :: technitium_cluster where
  "sample_cluster = \<lparr>tc_meta = zero_meta\<lparr>om_Name := ''dns''\<rparr>,
     tc_Spec = \<lparr>tc_Image = ''technitium/dns-server:15.5.0'', tc_Replicas = Some 3,
       tc_Storage = \<lparr>ss_Size = ''1Gi'', ss_StorageClassName = None, ss_RetentionPolicy = ''Retain''\<rparr>,
       tc_Resources = [], tc_Affinity = None, tc_TopologySpreadConstraints = [], tc_Tolerations = [],
       tc_NodeSelector = [], tc_PriorityClassName = [],
       tc_Service = \<lparr>sv_Type = [], sv_Annotations = [], sv_ExternalTrafficPolicy = [], sv_ExposeAPI = None,
         sv_PerReplica = None, sv_Primary = None\<rparr>,
       tc_PodDisruptionBudget = \<lparr>pb_Enabled = None, pb_MaxUnavailable = None\<rparr>,
       tc_AdminSecretRef = None, tc_DNSServerDomain = [], tc_ClusterDomain = [], tc_DeletionPolicy = []\<rparr>,
     tc_Status = \<lparr>ts_Conditions = [], ts_Phase = Ready, ts_ReadyReplicas = 3, ts_Endpoint = [],
       ts_PrimaryEndpoint = ''http://dns-0.dns-headless.ops.svc:5380'', ts_PrimaryService = [],
       ts_ObservedGeneration = 1, ts_Nodes = [], ts_Version = [], ts_Members = [], ts_Rollout = None\<rparr>\<rparr>"

definition sample_secret :: secret where
  "sample_secret = \<lparr>sec_meta = zero_meta\<lparr>om_Name := ''dns-admin'', om_ResourceVersion := ''7''\<rparr>,
     sec_Type = ''Opaque'', sec_Data = [(''username'', ''admin''), (''password'', ''pw''), (''token'', ''t0k'')]\<rparr>"

definition sample_clusters :: "('s, technitium_cluster) kclient" where
  "sample_clusters = plain_kclient ''TechnitiumCluster'' tc_meta (\<lambda>_. Inr sample_cluster)"

definition sample_secrets :: "('s, secret) kclient" where
  "sample_secrets = plain_kclient ''Secret'' sec_meta (\<lambda>_. Inr sample_secret)"

definition sample_ref :: secret_reference where
  "sample_ref = \<lparr>sr_Name = ''dns'', sr_Namespace = []\<rparr>"

lemma sample_resolve:
  "run_state (resolve sample_clusters sample_secrets ''ops'' sample_ref) (empty_world ()) =
    (Inr 0, \<lparr>ext = (), trace = [EvGet ''TechnitiumCluster'' (ObjectKey [] ''dns''), EvGet ''Secret'' (ObjectKey ''ops'' ''dns-admin'')],
      heap = [built_client ''http://dns-0.dns-headless.ops.svc:5380'' [WithToken ''t0k'']],
      entries = [''dns'' \<mapsto> \<lparr>ce_endpoint = ''http://dns-0.dns-headless.ops.svc:5380'', ce_secretResourceVersion = ''7'', ce_api = 0\<rparr>]\<rparr>)"
proof -
  have "TrimSpace ''t0k'' = ''t0k''" by code_simp
  then show ?thesis
    by (simp add: resolve_def cached_or_built_def Let_def run_simps kget_def sample_clusters_def sample_secrets_def
        sample_cluster_def sample_secret_def sample_ref_def plain_kclient_def empty_world_def zero_meta_def
        adminSecretKeyFor_def adminSecretName_def ClientOptionsFromSecret_def map_get_def adminSecretTokenKey_def
        NewClient_def built_client_def)
qed

theorem resolve_current_client_witness:
  "\<exists>w'. run_state (resolve sample_clusters sample_secrets ''ops'' sample_ref) (empty_world ()) = (Inr 0, w') \<and>
    cache_ok (\<lambda>_. sec_Data sample_secret) w' \<and>
    heap w' ! 0 = built_client ''http://dns-0.dns-headless.ops.svc:5380'' [WithToken ''t0k'']"
proof -
  have 1: "cache_ok (\<lambda>_. sec_Data sample_secret) (empty_world ())"
    by (simp add: cache_ok_def empty_world_def)
  have 2: "versioned (\<lambda>_. sec_Data sample_secret) sample_secrets"
    by (simp add: versioned_def sample_secrets_def plain_kclient_def)
  show ?thesis
    using resolve_current_client [OF 1 2 sample_resolve] sample_resolve by simp
qed

end
