(* ===== verification/Controller_Common.thy ===== *)
theory Controller_Common
  imports Server_Ref
begin

text \<open>
  What the resource controllers share: the idioms of their bodies, the constants and small
  helpers of \<^verbatim>\<open>zone_controller.go\<close> the others reuse, and the contract of a controller that guards
  server-side state with a finalizer, as the locale \<open>finalizing_controller\<close>.
\<close>

section \<open>Idioms\<close>

text \<open>\<^verbatim>\<open>return client.IgnoreNotFound(err)\<close>, and a call of which only the error is returned.\<close>

definition ignore_not_found :: "go_error \<Rightarrow> 'a \<Rightarrow> ('w, go_error + 'a) state" where
  "ignore_not_found err a = (case IgnoreNotFound err of Some e \<Rightarrow> fail e | None \<Rightarrow> ok a)"

definition ignore_result :: "('w, go_error + 'a) state \<Rightarrow> ('w, go_error + unit) state" where
  "ignore_result m = or_return m (\<lambda>_. ok ())"

definition or_empty :: "string option \<Rightarrow> string" where
  "or_empty v = (case v of Some s \<Rightarrow> s | None \<Rightarrow> [])"

text \<open>
  A slice that may be nil, and its elements; \<^verbatim>\<open>reflect.DeepEqual\<close> tells nil from empty, a loop does
  not. A loop that returns on the first error.
\<close>

type_synonym 'a slice = "'a list option"

definition elems :: "'a slice \<Rightarrow> 'a list" where
  "elems xs = (case xs of None \<Rightarrow> [] | Some ys \<Rightarrow> ys)"

fun for_each :: "('a \<Rightarrow> ('w, go_error + unit) state) \<Rightarrow> 'a list \<Rightarrow> ('w, go_error + unit) state" where
  "for_each f [] = ok ()"
| "for_each f (x # xs) = or_return (f x) (\<lambda>_. for_each f xs)"

definition driftReconcileInterval :: int where
  "driftReconcileInterval = 5 * 60 * 1000000000"

definition conditionReady :: string where
  "conditionReady = ''Ready''"

definition conditionProgressing :: string where
  "conditionProgressing = ''Progressing''"

definition conditionDegraded :: string where
  "conditionDegraded = ''Degraded''"

text \<open>A condition as the controllers stamp it, with the object's generation.\<close>

definition mk_condition :: "string \<Rightarrow> condition_status \<Rightarrow> string \<Rightarrow> string \<Rightarrow> int \<Rightarrow> condition" where
  "mk_condition condType status reason message generation =
     \<lparr>c_Type = condType, c_Status = status, c_Reason = reason, c_Message = message,
      c_ObservedGeneration = generation\<rparr>"

text \<open>Several conditions set in order, and whether any of them changed.\<close>

fun set_conditions :: "'s runtime \<Rightarrow> condition list \<Rightarrow> condition list \<Rightarrow> condition list \<times> bool" where
  "set_conditions rt [] cs = (cs, False)"
| "set_conditions rt (c # rest) cs =
     (let (cs1, changed1) = rt_SetStatusCondition rt cs c; (cs2, changed2) = set_conditions rt rest cs1
      in (cs2, changed1 \<or> changed2))"

section \<open>Lemmas\<close>

lemma set_conditions_other:
  assumes "condition_laws rt" and "t \<notin> c_Type ` set conds"
  shows "rt_FindStatusCondition rt (fst (set_conditions rt conds cs)) t = rt_FindStatusCondition rt cs t"
  using assms(2)
proof (induction conds arbitrary: cs)
  case (Cons c conds)
  then show ?case
    using assms(1) by (auto simp: condition_laws_def case_prod_beta Let_def)
qed simp

lemma set_conditions_find:
  assumes "condition_laws rt" and "distinct (map c_Type conds)" and "c \<in> set conds"
  shows "rt_FindStatusCondition rt (fst (set_conditions rt conds cs)) (c_Type c) = Some c"
  using assms(2,3)
proof (induction conds arbitrary: cs)
  case (Cons d conds)
  show ?case
  proof (cases "c = d")
    case True
    with Cons.prems assms(1) show ?thesis
      by (auto simp: case_prod_beta Let_def set_conditions_other) (simp add: condition_laws_def)
  next
    case False
    with Cons show ?thesis by (auto simp: case_prod_beta Let_def)
  qed
qed simp

lemma set_conditions_same:
  assumes "condition_laws rt" and "\<forall>c \<in> set conds. rt_FindStatusCondition rt cs (c_Type c) = Some c"
  shows "set_conditions rt conds cs = (cs, False)"
  using assms(2)
proof (induction conds)
  case (Cons c conds)
  have "rt_SetStatusCondition rt cs c = (cs, False)"
    using Cons.prems assms(1) by (auto simp: condition_laws_def prod_eq_iff)
  with Cons show ?case by simp
qed simp

text \<open>Conditions of different types set twice are not changed the second time.\<close>

lemma set_conditions_idem:
  assumes "condition_laws rt" and "distinct (map c_Type conds)"
  shows "set_conditions rt conds (fst (set_conditions rt conds cs)) = (fst (set_conditions rt conds cs), False)"
  using assms by (intro set_conditions_same) (auto simp: set_conditions_find)

lemma emits_ignore [intro, simp]:
  "emits P (ignore_not_found err a)" "emits P m \<Longrightarrow> emits P (ignore_result m)"
  by (auto simp: ignore_not_found_def ignore_result_def split: option.split)

lemma run_ignore_result [run_simps]:
  "run_state (ignore_result m) w = (case run_state m w of (r, w') \<Rightarrow> (map_sum id (\<lambda>_. ()) r, w'))"
  by (auto simp: ignore_result_def run_or_return split: prod.splits sum.splits)

lemma ignore_not_found_simp [run_simps]:
  "run_state (ignore_not_found err a) w = (if IsNotFound err then (Inr a, w) else (Inl err, w))"
  by (simp add: ignore_not_found_def IgnoreNotFound_def)

lemma run_kube [run_simps]:
  "run_state (kget kc key) w = (fst (kc_Get kc key (ext w)),
     w\<lparr>ext := snd (kc_Get kc key (ext w)), trace := trace w @ [EvGet (kc_kind kc) key]\<rparr>)"
  "run_state (klist kc ns ls) w = (fst (kc_List kc ns ls (ext w)),
     w\<lparr>ext := snd (kc_List kc ns ls (ext w)), trace := trace w @ [EvList (kc_kind kc)]\<rparr>)"
  "run_state (kupdate kc obj) w = (fst (kc_Update kc obj (ext w)),
     w\<lparr>ext := snd (kc_Update kc obj (ext w)), trace := trace w @ [EvUpdate (kc_kind kc) (kc_meta kc obj)]\<rparr>)"
  "run_state (kstatus_update kc obj) w = (fst (kc_StatusUpdate kc obj (ext w)),
     w\<lparr>ext := snd (kc_StatusUpdate kc obj (ext w)), trace := trace w @ [EvStatusUpdate (kc_kind kc) (kc_meta kc obj)]\<rparr>)"
  by (simp_all add: kube_defs run_outside)

text \<open>Footprints of the Kubernetes calls, and of any call when nothing is asked of the events.\<close>

abbreviation any_event :: "event \<Rightarrow> bool" where
  "any_event \<equiv> (\<lambda>_. True)"

lemma emits_kube [intro]:
  "P (EvGet (kc_kind kc) key) \<Longrightarrow> emits P (kget kc key)"
  "P (EvList (kc_kind kc)) \<Longrightarrow> emits P (klist kc ns ls)"
  "P (EvCreate (kc_kind kc) (kc_meta kc obj)) \<Longrightarrow> emits P (kcreate kc obj)"
  "P (EvUpdate (kc_kind kc) (kc_meta kc obj)) \<Longrightarrow> emits P (kupdate kc obj)"
  "P (EvStatusUpdate (kc_kind kc) (kc_meta kc obj)) \<Longrightarrow> emits P (kstatus_update kc obj)"
  "P (EvPatch (kc_kind kc) (kc_meta kc obj)) \<Longrightarrow> emits P (kpatch kc b obj)"
  "P (EvDelete (kc_kind kc) (kc_meta kc obj)) \<Longrightarrow> emits P (kdelete kc obj)"
  "P (EvCreateOrUpdate (kc_kind kc) (kc_meta kc obj)) \<Longrightarrow> emits P (kcreate_or_update kc obj f)"
  by (simp_all add: kube_defs emits_outside)

lemma emits_any: "emits P m \<Longrightarrow> emits any_event m"
  by (erule emits_mono) simp

lemma emits_if [intro]: "(b \<Longrightarrow> emits P m) \<Longrightarrow> (\<not> b \<Longrightarrow> emits P n) \<Longrightarrow> emits P (if b then m else n)"
  by simp

lemma emits_case_sum [intro]:
  "(\<And>e. r = Inl e \<Longrightarrow> emits P (f e)) \<Longrightarrow> (\<And>a. r = Inr a \<Longrightarrow> emits P (g a)) \<Longrightarrow>
     emits P (case r of Inl e \<Rightarrow> f e | Inr a \<Rightarrow> g a)"
  by (cases r) auto

lemma emits_case_option [intro]:
  "(v = None \<Longrightarrow> emits P m) \<Longrightarrow> (\<And>a. v = Some a \<Longrightarrow> emits P (g a)) \<Longrightarrow>
     emits P (case v of None \<Rightarrow> m | Some a \<Rightarrow> g a)"
  by (cases v) auto

lemma emits_case_prod [intro]:
  "(\<And>a b. p = (a, b) \<Longrightarrow> emits P (f a b)) \<Longrightarrow> emits P (case p of (a, b) \<Rightarrow> f a b)"
  by (cases p) auto

text \<open>A rule for a call whose continuation is only run on what the call can return.\<close>

lemma emits_or_return_result:
  assumes "emits P m" and "\<And>a w w'. run_state m w = (Inr a, w') \<Longrightarrow> emits P (f a)"
  shows "emits P (or_return m f)"
  unfolding emits_def
proof
  fix w
  obtain a w1 where m: "run_state m w = (a, w1)" by fastforce
  obtain es where es: "trace w1 = trace w @ es" "list_all P es"
    using emits_D [OF assms(1) m] by blast
  show "\<exists>es. trace (snd (run_state (or_return m f) w)) = trace w @ es \<and> list_all P es"
  proof (cases a)
    case (Inr b)
    obtain es' where "trace (snd (run_state (f b) w1)) = trace w1 @ es'" "list_all P es'"
      using assms(2) m Inr unfolding emits_def by blast
    with es m Inr show ?thesis by (intro exI [of _ "es @ es'"]) (auto simp: run_or_return)
  qed (use es m in \<open>auto simp: run_or_return\<close>)
qed

lemmas emits_rules = emits_bind emits_or_return emits_if emits_case_sum emits_case_option emits_case_prod
  emits_kube emits_wrap_error emits_ignore(2)

lemma elems_simps [simp]: "elems None = []" "elems (Some xs) = xs"
  by (simp_all add: elems_def)

lemma emits_for_each: "(\<And>x. x \<in> set xs \<Longrightarrow> emits P (f x)) \<Longrightarrow> emits P (for_each f xs)"
  by (induction xs) (auto intro!: emits_or_return)

text \<open>
  A loop over calls each of which keeps a relation between the worlds keeps it; when every call that
  succeeds has the effect \<open>eff\<close>, a loop that succeeds has had all of them.
\<close>

lemma for_each_invariant:
  assumes "\<And>x w r w'. x \<in> set xs \<Longrightarrow> run_state (f x) w = (r, w') \<Longrightarrow> I w \<Longrightarrow> I w'"
    and "run_state (for_each f xs) w = (r, w')" and "I w"
  shows "I w'"
  using assms
proof (induction xs arbitrary: w)
  case (Cons x xs)
  then show ?case
    by (auto simp: run_or_return split: prod.splits sum.splits) blast+
qed simp

lemma for_each_effect:
  assumes "\<And>x w u w'. x \<in> set xs \<Longrightarrow> run_state (f x) w = (Inr u, w') \<Longrightarrow> view w' = eff x (view w)"
    and "run_state (for_each f xs) w = (Inr u, w')"
  shows "view w' = fold eff xs (view w)"
  using assms
proof (induction xs arbitrary: w)
  case (Cons x xs)
  then show ?case by (force simp: run_or_return split: prod.splits sum.splits)
qed simp

section \<open>Controllers with a finalizer\<close>

text \<open>
  Every resource controller has the shape of this locale: fetch the object, finalize it when it is
  being deleted, reject it when the guard does (only the cluster's controller has one), otherwise
  make sure the finalizer is on the stored object before the live part, which is the only part that
  writes to the server, runs.
\<close>

locale finalizing_controller =
  fixes rt :: "'s runtime"
    and kc :: "('s, 'o) kclient"
    and meta :: "'o \<Rightarrow> object_meta"
    and with_finalizers :: "string list \<Rightarrow> 'o \<Rightarrow> 'o"
    and finalizer :: string
    and finalize :: "'o \<Rightarrow> ('s world, go_error + int) state"
    and guard :: "object_key \<Rightarrow> 'o \<Rightarrow> ('s world, go_error + int) state option"
    and live :: "object_key \<Rightarrow> 'o \<Rightarrow> ('s world, go_error + int) state"
    and reconcile :: "object_key \<Rightarrow> ('s world, go_error + int) state"
  assumes reconcile_eq: "reconcile key = do {
      got \<leftarrow> kget kc key;
      case got of
        Inl err \<Rightarrow> ignore_not_found err 0
      | Inr obj \<Rightarrow>
          if om_DeletionTimestamp (meta obj) \<noteq> None then finalize obj
          else case guard key obj of
            Some reject \<Rightarrow> reject
          | None \<Rightarrow>
              (let (fs, added) = rt_AddFinalizer rt (om_Finalizers (meta obj)) finalizer;
                   obj' = with_finalizers fs obj
               in or_return (if added then kupdate kc obj' else ok obj') (live key))
    }"
    and finalizers_with: "om_Finalizers (meta (with_finalizers fs obj)) = fs"
    and live_emits: "emits any_event (live key obj)"
begin

text \<open>An object that is gone, or cannot be read, is left alone.\<close>

lemma reconcile_missing:
  assumes "kc_Get kc key (ext w) = (Inl err, s)"
  shows "run_state (reconcile key) w =
    (if IsNotFound err then Inr 0 else Inl err, w\<lparr>ext := s, trace := trace w @ [EvGet (kc_kind kc) key]\<rparr>)"
  using assms by (simp add: reconcile_eq run_simps)

text \<open>
  On an object without the finalizer the first thing that happens after the read is the update
  that adds it; when that fails nothing else happens.
\<close>

lemma finalizer_first:
  assumes laws: "finalizer_laws rt"
    and get: "kc_Get kc key (ext w) = (Inr obj, s)"
    and alive: "om_DeletionTimestamp (meta obj) = None"
    and accepted: "guard key obj = None"
    and absent: "finalizer \<notin> set (om_Finalizers (meta obj))"
    and run: "run_state (reconcile key) w = (r, w')"
  shows "\<exists>obj' es. trace w' = trace w @ [EvGet (kc_kind kc) key, EvUpdate (kc_kind kc) (kc_meta kc obj')] @ es \<and>
    finalizer \<in> set (om_Finalizers (meta obj')) \<and>
    (\<forall>err s'. kc_Update kc obj' s = (Inl err, s') \<longrightarrow> es = [] \<and> r = Inl err)"
proof -
  obtain fs added where add: "rt_AddFinalizer rt (om_Finalizers (meta obj)) finalizer = (fs, added)"
    by fastforce
  have fs: "finalizer \<in> set fs" and added: "added"
    using laws absent add unfolding finalizer_laws_def by (metis fst_conv insertI1, metis snd_conv)
  let ?obj = "with_finalizers fs obj"
  let ?w1 = "w\<lparr>ext := s, trace := trace w @ [EvGet (kc_kind kc) key]\<rparr>"
  have r: "run_state (or_return (kupdate kc ?obj) (live key)) ?w1 = (r, w')"
    using run by (simp add: reconcile_eq run_kube get alive accepted add added)
  show ?thesis
  proof (cases "kc_Update kc ?obj s")
    case (Pair u s')
    let ?w2 = "w\<lparr>ext := s', trace := trace w @ [EvGet (kc_kind kc) key, EvUpdate (kc_kind kc) (kc_meta kc ?obj)]\<rparr>"
    show ?thesis
    proof (cases u)
      case (Inl err)
      with r Pair have "r = Inl err" "w' = ?w2" by (auto simp: run_or_return run_kube)
      then show ?thesis
        using fs Inl Pair by (intro exI [of _ ?obj] exI [of _ "[]"]) (auto simp: finalizers_with)
    next
      case (Inr stored)
      with r Pair have "run_state (live key stored) ?w2 = (r, w')" by (auto simp: run_or_return run_kube)
      then obtain es where "trace w' = trace ?w2 @ es"
        using emits_D [OF live_emits] by blast
      then show ?thesis
        using fs Inr Pair by (intro exI [of _ ?obj] exI [of _ es]) (auto simp: finalizers_with)
    qed
  qed
qed

text \<open>An object being deleted is only finalized.\<close>

lemma reconcile_deleting:
  assumes "kc_Get kc key (ext w) = (Inr obj, s)" and "om_DeletionTimestamp (meta obj) \<noteq> None"
  shows "run_state (reconcile key) w =
    run_state (finalize obj) (w\<lparr>ext := s, trace := trace w @ [EvGet (kc_kind kc) key]\<rparr>)"
  using assms by (simp add: reconcile_eq run_kube)

end

text \<open>A server that accepts every request, for the witnesses of the controllers.\<close>

definition ok_server :: "http_request \<Rightarrow> unit \<Rightarrow> http_reply \<times> unit" where
  "ok_server req s = (Response 200 (Envelope \<lparr>env_status = ''ok'', env_errorMessage = [], env_token = None,
     env_response = NoPayload\<rparr>), s)"

abbreviation sample_runtime :: "unit runtime" where
  "sample_runtime \<equiv> plain_runtime ok_server (Pair 0)"

end
