(* ===== verification/Zone_Controller.thy ===== *)
theory Zone_Controller
  imports Controller_Common
begin

text \<open>
  The Zone resource and its controller (\<^verbatim>\<open>api/v1alpha1/zone_types.go\<close>,
  \<^verbatim>\<open>internal/controller/zone_controller.go\<close>).

  \<open>zone_api\<close> is the interface \<^verbatim>\<open>ZoneAPI\<close>; in production it is the client of the resolved
  server (\<open>client_zone_api\<close>), in the source's tests an injected fake (\<open>zr_NewServerClient\<close>).
  A reconcile returns the error or the requeue delay in nanoseconds, 0 for none.
\<close>

section \<open>The resource\<close>

record forwarder_proxy =
  fp_Type :: string
  fp_Address :: "string option"
  fp_Port :: "int option"
  fp_Username :: "string option"
  fp_Password :: "string option"

record zone_spec =
  zs_ZoneName :: string
  zs_ServerRef :: secret_reference
  zs_Type :: string
  zs_PrimaryNameServerAddresses :: "string list"
  zs_Forwarder :: "string option"
  zs_ForwarderProtocol :: "string option"
  zs_Catalog :: "string option"
  zs_DNSSECValidation :: "bool option"
  zs_ForwarderProxy :: "forwarder_proxy option"
  zs_DeletionPolicy :: string

record zone_status =
  zst_Conditions :: "condition list"
  zst_ObservedGeneration :: int
  zst_ZoneCreated :: bool

record zone =
  z_meta :: object_meta
  z_Spec :: zone_spec
  z_Status :: zone_status

section \<open>The reconciler\<close>

record 's zone_api =
  za_CreateZone :: "create_zone_options \<Rightarrow> ('s world, go_error + unit) state"
  za_GetZoneOptions :: "string \<Rightarrow> ('s world, go_error + zone_options) state"
  za_SetZoneOptions :: "string \<Rightarrow> zone_options_update \<Rightarrow> ('s world, go_error + unit) state"
  za_DeleteZone :: "string \<Rightarrow> ('s world, go_error + unit) state"

definition client_zone_api :: "'s runtime \<Rightarrow> nat \<Rightarrow> 's zone_api" where
  "client_zone_api rt c = \<lparr>za_CreateZone = CreateZone rt c, za_GetZoneOptions = GetZoneOptions rt c,
     za_SetZoneOptions = SetZoneOptions rt c, za_DeleteZone = DeleteZone rt c\<rparr>"

record 's zone_reconciler =
  zr_runtime :: "'s runtime"
  zr_zones :: "('s, zone) kclient"
  zr_clusters :: "('s, technitium_cluster) kclient"
  zr_secrets :: "('s, secret) kclient"
  zr_OperatorNamespace :: string
  zr_NewServerClient :: "(secret_reference \<Rightarrow> ('s world, go_error + 's zone_api) state) option"

definition zoneFinalizer :: string where
  "zoneFinalizer = ''dns.packet.fail/zone-cleanup''"

definition ZoneReconciler_defaultServerClient :: "'s zone_reconciler \<Rightarrow> secret_reference \<Rightarrow> ('s world, go_error + 's zone_api) state" where
  "ZoneReconciler_defaultServerClient r serverRef =
     or_return (resolve (zr_clusters r) (zr_secrets r) (zr_OperatorNamespace r) serverRef)
       (\<lambda>c. ok (client_zone_api (zr_runtime r) c))"

definition ZoneReconciler_serverClientFor :: "'s zone_reconciler \<Rightarrow> secret_reference \<Rightarrow> ('s world, go_error + 's zone_api) state" where
  "ZoneReconciler_serverClientFor r serverRef =
     (case zr_NewServerClient r of Some f \<Rightarrow> f serverRef | None \<Rightarrow> ZoneReconciler_defaultServerClient r serverRef)"

definition zone_with_finalizers :: "string list \<Rightarrow> zone \<Rightarrow> zone" where
  "zone_with_finalizers fs zone = zone\<lparr>z_meta := (z_meta zone)\<lparr>om_Finalizers := fs\<rparr>\<rparr>"

definition finalizeZone :: "'s zone_reconciler \<Rightarrow> zone \<Rightarrow> ('s world, go_error + unit) state" where
  "finalizeZone r zone =
     (if \<not> rt_ContainsFinalizer (zr_runtime r) (om_Finalizers (z_meta zone)) zoneFinalizer then ok ()
      else
        let clear = ignore_result (kupdate (zr_zones r)
          (zone_with_finalizers (rt_RemoveFinalizer (zr_runtime r) (om_Finalizers (z_meta zone)) zoneFinalizer) zone))
        in if zs_DeletionPolicy (z_Spec zone) = DeletionPolicyOrphan then clear
           else do {
             resolved \<leftarrow> ZoneReconciler_serverClientFor r (zs_ServerRef (z_Spec zone));
             case resolved of
               Inr api \<Rightarrow> do {
                 deleted \<leftarrow> za_DeleteZone api (zs_ZoneName (z_Spec zone));
                 case deleted of
                   Inl err \<Rightarrow> if errors_Is err ErrZoneNotFound then clear else fail err
                 | Inr _ \<Rightarrow> clear
               }
             | Inl err \<Rightarrow> if IsNotFound err then clear else fail err
           })"

definition clusterCatalogZone :: "technitium_cluster \<Rightarrow> string" where
  "clusterCatalogZone tc = ''cluster-catalog.'' @ clusterDomainFor tc"

definition desiredCatalog :: "'s zone_reconciler \<Rightarrow> zone \<Rightarrow> ('s world, go_error + string option) state" where
  "desiredCatalog r zone =
     (case zs_Catalog (z_Spec zone) of
        Some c \<Rightarrow> ok (Some c)
      | None \<Rightarrow>
          if zs_Type (z_Spec zone) \<notin> {[], ''Primary'', ''Secondary'', ''Stub'', ''Forwarder''} then ok None
          else do {
            got \<leftarrow> kget (zr_clusters r) (ObjectKey [] (sr_Name (zs_ServerRef (z_Spec zone))));
            case got of
              Inl err \<Rightarrow> (case IgnoreNotFound err of Some err \<Rightarrow> fail err | None \<Rightarrow> ok None)
            | Inr tc \<Rightarrow>
                (case tc_Replicas (tc_Spec tc) of
                   None \<Rightarrow> ok None
                 | Some n \<Rightarrow> if n \<le> 1 then ok None else ok (Some (clusterCatalogZone tc)))
          })"

text \<open>The update \<^verbatim>\<open>reconcileOptions\<close> computes: the options that differ from the desired ones.\<close>

definition empty_update :: zone_options_update where
  "empty_update = \<lparr>zu_Catalog = None, zu_Disabled = None, zu_DNSSECValidation = None\<rparr>"

definition option_drift :: "zone \<Rightarrow> zone_options \<Rightarrow> string option \<Rightarrow> zone_options_update" where
  "option_drift zone current catalog =
     \<lparr>zu_Catalog = (case catalog of Some c \<Rightarrow> if zo_Catalog current \<noteq> c then Some c else None | None \<Rightarrow> None),
      zu_Disabled = None,
      zu_DNSSECValidation =
        (case zs_DNSSECValidation (z_Spec zone) of
           Some v \<Rightarrow> if zo_DnssecValidation current \<noteq> v then Some v else None
         | None \<Rightarrow> None)\<rparr>"

definition reconcileOptions ::
  "'s zone_api \<Rightarrow> zone \<Rightarrow> zone_options \<Rightarrow> string option \<Rightarrow> ('s world, go_error + unit) state" where
  "reconcileOptions api zone current catalog =
     (let update = option_drift zone current catalog
      in if update = empty_update then ok ()
         else or_return (za_SetZoneOptions api (zs_ZoneName (z_Spec zone)) update) (\<lambda>_. ok ()))"

definition createOptionsFromSpec :: "zone \<Rightarrow> string option \<Rightarrow> create_zone_options" where
  "createOptionsFromSpec zone catalog =
     (let spec = z_Spec zone;
          opts = \<lparr>cz_Zone = zs_ZoneName spec, cz_Type = zs_Type spec, cz_Catalog = or_empty catalog,
            cz_Forwarder = or_empty (zs_Forwarder spec), cz_Protocol = or_empty (zs_ForwarderProtocol spec),
            cz_PrimaryNameServerAddresses = zs_PrimaryNameServerAddresses spec,
            cz_DNSSECValidation = zs_DNSSECValidation spec,
            cz_ProxyType = [], cz_ProxyAddress = [], cz_ProxyPort = None, cz_ProxyUsername = [], cz_ProxyPassword = []\<rparr>
      in case zs_ForwarderProxy spec of
           None \<Rightarrow> opts
         | Some proxy \<Rightarrow> opts\<lparr>cz_ProxyType := fp_Type proxy, cz_ProxyAddress := or_empty (fp_Address proxy),
             cz_ProxyPort := fp_Port proxy, cz_ProxyUsername := or_empty (fp_Username proxy),
             cz_ProxyPassword := or_empty (fp_Password proxy)\<rparr>)"

text \<open>The part of \<^verbatim>\<open>reconcileZone\<close> that talks to the server: read the zone, then create or correct it.\<close>

definition applyZone :: "'s zone_api \<Rightarrow> zone \<Rightarrow> string option \<Rightarrow> ('s world, go_error + unit) state" where
  "applyZone api zone catalog = do {
     got \<leftarrow> za_GetZoneOptions api (zs_ZoneName (z_Spec zone));
     case got of
       Inr current \<Rightarrow> reconcileOptions api zone current catalog
     | Inl err \<Rightarrow>
         if \<not> errors_Is err ErrZoneNotFound then fail err
         else do {
           created \<leftarrow> za_CreateZone api (createOptionsFromSpec zone catalog);
           case created of
             Inl err \<Rightarrow> if \<not> errors_Is err ErrZoneAlreadyExists then fail err else ok ()
           | Inr _ \<Rightarrow> ok ()
         }
   }"

definition reconcileZone :: "'s zone_reconciler \<Rightarrow> zone \<Rightarrow> ('s world, go_error + unit) state" where
  "reconcileZone r zone =
     or_return (ZoneReconciler_serverClientFor r (zs_ServerRef (z_Spec zone))) (\<lambda>api.
     or_return (desiredCatalog r zone) (\<lambda>catalog. applyZone api zone catalog))"

section \<open>Status\<close>

definition setCondition ::
  "'s runtime \<Rightarrow> string \<Rightarrow> condition_status \<Rightarrow> string \<Rightarrow> string \<Rightarrow> zone \<Rightarrow> zone \<times> bool" where
  "setCondition rt condType status reason message zone =
     (case rt_SetStatusCondition rt (zst_Conditions (z_Status zone))
        (mk_condition condType status reason message (om_Generation (z_meta zone))) of
        (cs, changed) \<Rightarrow> (zone\<lparr>z_Status := (z_Status zone)\<lparr>zst_Conditions := cs\<rparr>\<rparr>, changed))"

text \<open>What \<^verbatim>\<open>markReady\<close> does to the fetched object, and whether anything changed.\<close>

definition ready_zone :: "'s runtime \<Rightarrow> zone \<Rightarrow> zone \<times> bool" where
  "ready_zone rt zone =
     (let msg = ''Zone reconciled on the Technitium server'';
          (zone, c1) = setCondition rt conditionReady ConditionTrue ''ZoneReady'' msg zone;
          (zone, c2) = setCondition rt conditionProgressing ConditionFalse ''ZoneReady'' msg zone;
          (zone, c3) = setCondition rt conditionDegraded ConditionFalse ''ZoneReady'' msg zone;
          c4 = (zst_ObservedGeneration (z_Status zone) \<noteq> om_Generation (z_meta zone));
          zone = zone\<lparr>z_Status := (z_Status zone)\<lparr>zst_ObservedGeneration := om_Generation (z_meta zone)\<rparr>\<rparr>;
          c5 = (\<not> zst_ZoneCreated (z_Status zone));
          zone = zone\<lparr>z_Status := (z_Status zone)\<lparr>zst_ZoneCreated := True\<rparr>\<rparr>
      in (zone, c1 \<or> c2 \<or> c3 \<or> c4 \<or> c5))"

definition ZoneReconciler_markReady :: "'s zone_reconciler \<Rightarrow> object_key \<Rightarrow> ('s world, go_error + unit) state" where
  "ZoneReconciler_markReady r key = do {
     got \<leftarrow> kget (zr_zones r) key;
     case got of
       Inl err \<Rightarrow> ignore_not_found err ()
     | Inr zone \<Rightarrow>
         (case ready_zone (zr_runtime r) zone of (zone', changed) \<Rightarrow>
            if \<not> changed then ok () else ignore_result (kstatus_update (zr_zones r) zone'))
   }"

definition degraded_zone :: "'s runtime \<Rightarrow> go_error \<Rightarrow> zone \<Rightarrow> zone" where
  "degraded_zone rt cause zone =
     (let zone = fst (setCondition rt conditionReady ConditionFalse ''ReconcileFailed'' (Error cause) zone);
          zone = fst (setCondition rt conditionProgressing ConditionFalse ''ReconcileFailed'' (Error cause) zone)
      in fst (setCondition rt conditionDegraded ConditionTrue ''ReconcileFailed'' (Error cause) zone))"

definition ZoneReconciler_markDegraded :: "'s zone_reconciler \<Rightarrow> object_key \<Rightarrow> go_error \<Rightarrow> ('s world, go_error + unit) state" where
  "ZoneReconciler_markDegraded r key cause = do {
     got \<leftarrow> kget (zr_zones r) key;
     case got of
       Inl err \<Rightarrow> ignore_not_found err ()
     | Inr zone \<Rightarrow> ignore_result (kstatus_update (zr_zones r) (degraded_zone (zr_runtime r) cause zone))
   }"

section \<open>Reconcile\<close>

definition ZoneReconciler_Reconcile :: "'s zone_reconciler \<Rightarrow> object_key \<Rightarrow> ('s world, go_error + int) state" where
  "ZoneReconciler_Reconcile r key = do {
     got \<leftarrow> kget (zr_zones r) key;
     case got of
       Inl err \<Rightarrow> ignore_not_found err 0
     | Inr zone \<Rightarrow>
         if om_DeletionTimestamp (z_meta zone) \<noteq> None then or_return (finalizeZone r zone) (\<lambda>_. ok 0)
         else
           let (fs, added) = rt_AddFinalizer (zr_runtime r) (om_Finalizers (z_meta zone)) zoneFinalizer;
               zone' = zone_with_finalizers fs zone
           in or_return (if added then kupdate (zr_zones r) zone' else ok zone') (\<lambda>zone'. do {
                done \<leftarrow> reconcileZone r zone';
                case done of
                  Inl err \<Rightarrow> do { _ \<leftarrow> ZoneReconciler_markDegraded r key err; fail err }
                | Inr _ \<Rightarrow> or_return (ZoneReconciler_markReady r key) (\<lambda>_. ok driftReconcileInterval)
              })
   }"

definition zonesForCluster :: "'s zone_reconciler \<Rightarrow> string \<Rightarrow> ('s world, object_key list) state" where
  "zonesForCluster r clusterName = do {
     got \<leftarrow> klist (zr_zones r) [] [];
     ret (case got of
       Inl _ \<Rightarrow> []
     | Inr zones \<Rightarrow> map (\<lambda>z. meta_key (z_meta z)) (filter (\<lambda>z. sr_Name (zs_ServerRef (z_Spec z)) = clusterName) zones))
   }"

section \<open>Lemmas\<close>

text \<open>The reconciler as production wires it: no injected client.\<close>

definition production_zones ::
  "'s runtime \<Rightarrow> ('s, zone) kclient \<Rightarrow> ('s, technitium_cluster) kclient \<Rightarrow> ('s, secret) kclient \<Rightarrow> string
    \<Rightarrow> 's zone_reconciler" where
  "production_zones rt zones clusters secrets ns = \<lparr>zr_runtime = rt, zr_zones = zones, zr_clusters = clusters,
     zr_secrets = secrets, zr_OperatorNamespace = ns, zr_NewServerClient = None\<rparr>"

lemma production_zones_sel [simp]:
  "zr_runtime (production_zones rt zones clusters secrets ns) = rt"
  "zr_zones (production_zones rt zones clusters secrets ns) = zones"
  "zr_clusters (production_zones rt zones clusters secrets ns) = clusters"
  "zr_secrets (production_zones rt zones clusters secrets ns) = secrets"
  "zr_OperatorNamespace (production_zones rt zones clusters secrets ns) = ns"
  "zr_NewServerClient (production_zones rt zones clusters secrets ns) = None"
  by (simp_all add: production_zones_def)

lemma production_serverClientFor:
  "ZoneReconciler_serverClientFor (production_zones rt zones clusters secrets ns) ref =
     or_return (resolve clusters secrets ns ref) (\<lambda>c. ok (client_zone_api rt c))"
  by (simp add: ZoneReconciler_serverClientFor_def ZoneReconciler_defaultServerClient_def)

lemma client_zone_api_sel [simp]:
  "za_CreateZone (client_zone_api rt c) = CreateZone rt c"
  "za_GetZoneOptions (client_zone_api rt c) = GetZoneOptions rt c"
  "za_SetZoneOptions (client_zone_api rt c) = SetZoneOptions rt c"
  "za_DeleteZone (client_zone_api rt c) = DeleteZone rt c"
  by (simp_all add: client_zone_api_def)

text \<open>
  The interface the controller relies on: an API whose calls only make requests, so that what a
  reconcile does to Kubernetes is what the controller itself does.
\<close>

locale zone_server =
  fixes api :: "'s zone_api"
  assumes create_emits: "emits is_http (za_CreateZone api opts)"
    and get_emits: "emits is_http (za_GetZoneOptions api zone)"
    and set_emits: "emits is_http (za_SetZoneOptions api zone upd)"
    and delete_emits: "emits is_http (za_DeleteZone api zone)"
begin

lemma reconcileOptions_emits: "emits is_http (reconcileOptions api z current catalog)"
  unfolding reconcileOptions_def Let_def by (intro emits_rules emits_return set_emits)

text \<open>A zone without drift is not written to.\<close>

lemma reconcileOptions_idle:
  assumes "option_drift z current catalog = empty_update"
  shows "reconcileOptions api z current catalog = ok ()"
  using assms by (simp add: reconcileOptions_def)

lemma applyZone_emits: "emits is_http (applyZone api z catalog)"
  unfolding applyZone_def
  by (intro emits_rules emits_return get_emits create_emits reconcileOptions_emits)

end

interpretation client_zone: zone_server "client_zone_api rt c" for rt :: "'s runtime" and c
  by unfold_locales simp_all

lemma emits_desiredCatalog: "emits is_kube_read (desiredCatalog r z)"
  unfolding desiredCatalog_def by (intro emits_rules emits_return) simp

lemma emits_production_reconcileZone:
  "emits any_event (reconcileZone (production_zones rt zones clusters secrets ns) z)"
  unfolding reconcileZone_def production_serverClientFor or_return_map
  by (intro emits_or_return emits_any [OF emits_resolve] emits_any [OF emits_desiredCatalog]
        emits_any [OF client_zone.applyZone_emits])

lemma emits_mark:
  "emits any_event (ZoneReconciler_markReady r key)" "emits any_event (ZoneReconciler_markDegraded r key err)"
  unfolding ZoneReconciler_markReady_def ZoneReconciler_markDegraded_def
  by (intro emits_rules emits_return emits_ignore; simp)+

text \<open>The live part of a reconcile, and the reconciler as a controller with a finalizer.\<close>

definition live_zone :: "'s zone_reconciler \<Rightarrow> object_key \<Rightarrow> zone \<Rightarrow> ('s world, go_error + int) state" where
  "live_zone r key zone = do {
     done \<leftarrow> reconcileZone r zone;
     case done of
       Inl err \<Rightarrow> do { _ \<leftarrow> ZoneReconciler_markDegraded r key err; fail err }
     | Inr _ \<Rightarrow> or_return (ZoneReconciler_markReady r key) (\<lambda>_. ok driftReconcileInterval)
   }"

interpretation zone_controller: finalizing_controller rt zones z_meta zone_with_finalizers zoneFinalizer
    "\<lambda>z. or_return (finalizeZone (production_zones rt zones clusters secrets ns) z) (\<lambda>_. ok 0)" "\<lambda>_ _. None"
    "live_zone (production_zones rt zones clusters secrets ns)"
    "ZoneReconciler_Reconcile (production_zones rt zones clusters secrets ns)"
  for rt :: "'s runtime" and zones clusters secrets ns
proof unfold_locales
  show "om_Finalizers (z_meta (zone_with_finalizers fs z)) = fs" for fs z
    by (simp add: zone_with_finalizers_def)
  show "emits any_event (live_zone (production_zones rt zones clusters secrets ns) key z)" for key z
    unfolding live_zone_def
    by (intro emits_rules emits_return emits_production_reconcileZone emits_mark)
qed (unfold ZoneReconciler_Reconcile_def live_zone_def [abs_def] production_zones_sel option.case, rule refl)

section \<open>Convergence\<close>

text \<open>
  What Technitium documents of the zone endpoints, as laws on an API and the zones its server
  holds; of each zone the server keeps the request that created it and its present options. A read
  returns the options or an error and changes nothing; an update of an existing zone sets the given
  options and no others; a zone that is not there can be created from a request; a request the
  server refuses (\<open>accepts\<close> and \<open>takes\<close> are its checks) changes nothing.

  The error for a missing zone is \<^verbatim>\<open>ErrZoneNotFound\<close> only for a \<open>plain_zone_name\<close>: the client
  classifies errors by substrings of the message, which repeats the zone's name
  (\<open>client_reports_missing\<close>).
\<close>

definition plain_zone_name :: "string \<Rightarrow> bool" where
  "plain_zone_name name \<longleftrightarrow> name \<noteq> [] \<and> CHR '' '' \<notin> set name \<and>
     (\<forall>w \<in> {''record'', ''app'', ''reservation'', ''lease'', ''scope''}. \<not> Contains (ToLower name) w)"

lemma client_reports_missing:
  assumes "name \<noteq> []" and "CHR '' '' \<notin> set name"
    and "\<And>req. fst (rt_http rt req (ext w)) = Response code (Envelope \<lparr>env_status = ''error'',
      env_errorMessage = zone_not_found_message name, env_token = tok, env_response = pay\<rparr>)"
  shows "\<exists>e. fst (run_state (za_GetZoneOptions (client_zone_api rt c) name) w) = Inl e \<and>
    (errors_Is e ErrZoneNotFound \<longleftrightarrow> plain_zone_name name)"
  using assms classify_zone_not_found [OF assms(2)]
  by (simp add: GetZoneOptions_def zoneParams_def do_call_def run_or_return run_doRaw Let_def reply_result_def
      errors_Is_wrap_message plain_zone_name_def)

definition apply_update :: "zone_options_update \<Rightarrow> zone_options \<Rightarrow> zone_options" where
  "apply_update u o' = o'\<lparr>
     zo_Catalog := (case zu_Catalog u of Some c \<Rightarrow> c | None \<Rightarrow> zo_Catalog o'),
     zo_Disabled := (case zu_Disabled u of Some d \<Rightarrow> d | None \<Rightarrow> zo_Disabled o'),
     zo_DnssecValidation := (case zu_DNSSECValidation u of Some v \<Rightarrow> v | None \<Rightarrow> zo_DnssecValidation o')\<rparr>"

type_synonym 's served_zones = "'s \<Rightarrow> string \<Rightarrow> (create_zone_options \<times> zone_options) option"

definition zone_api_laws ::
  "'s zone_api \<Rightarrow> 's served_zones \<Rightarrow> (create_zone_options \<Rightarrow> bool) \<Rightarrow> (string \<Rightarrow> zone_options_update \<Rightarrow> bool) \<Rightarrow> bool" where
  "zone_api_laws api zones accepts takes \<longleftrightarrow>
     (\<forall>name w. zones (ext (snd (run_state (za_GetZoneOptions api name) w))) = zones (ext w)) \<and>
     (\<forall>name w q o'. zones (ext w) name = Some (q, o') \<longrightarrow> fst (run_state (za_GetZoneOptions api name) w) = Inr o') \<and>
     (\<forall>name w. zones (ext w) name = None \<longrightarrow>
        (\<exists>e. fst (run_state (za_GetZoneOptions api name) w) = Inl e \<and> (plain_zone_name name \<longrightarrow> errors_Is e ErrZoneNotFound))) \<and>
     (\<forall>name u w q o'. zones (ext w) name = Some (q, o') \<longrightarrow>
        (case run_state (za_SetZoneOptions api name u) w of (r, w') \<Rightarrow>
           if takes name u then r = Inr () \<and> zones (ext w') = (zones (ext w))(name \<mapsto> (q, apply_update u o'))
           else (\<exists>e. r = Inl e) \<and> zones (ext w') = zones (ext w))) \<and>
     (\<forall>opts w. zones (ext w) (cz_Zone opts) = None \<longrightarrow>
        (case run_state (za_CreateZone api opts) w of (r, w') \<Rightarrow>
           if accepts opts then r = Inr () \<and>
             (\<exists>o'. zones (ext w') = (zones (ext w))(cz_Zone opts \<mapsto> (opts, o')) \<and> zo_Catalog o' = cz_Catalog opts \<and>
                (\<forall>v. cz_DNSSECValidation opts = Some v \<longrightarrow> zo_DnssecValidation o' = v))
           else (\<exists>e. r = Inl e \<and> \<not> errors_Is e ErrZoneAlreadyExists) \<and> zones (ext w') = zones (ext w)))"

lemma zone_api_lawsD:
  assumes "zone_api_laws api zones accepts takes"
  shows get_keeps: "zones (ext (snd (run_state (za_GetZoneOptions api name) w))) = zones (ext w)"
    and get_found: "zones (ext w) name = Some (q, o') \<Longrightarrow> fst (run_state (za_GetZoneOptions api name) w) = Inr o'"
    and get_missing: "zones (ext w) name = None \<Longrightarrow>
      \<exists>e. fst (run_state (za_GetZoneOptions api name) w) = Inl e \<and> (plain_zone_name name \<longrightarrow> errors_Is e ErrZoneNotFound)"
    and set_found: "zones (ext w) name = Some (q, o') \<Longrightarrow> run_state (za_SetZoneOptions api name u) w = (r, w') \<Longrightarrow>
      if takes name u then r = Inr () \<and> zones (ext w') = (zones (ext w))(name \<mapsto> (q, apply_update u o'))
      else (\<exists>e. r = Inl e) \<and> zones (ext w') = zones (ext w)"
    and create_missing: "zones (ext w) (cz_Zone opts) = None \<Longrightarrow> run_state (za_CreateZone api opts) w = (r, w') \<Longrightarrow>
      if accepts opts then r = Inr () \<and>
        (\<exists>o'. zones (ext w') = (zones (ext w))(cz_Zone opts \<mapsto> (opts, o')) \<and> zo_Catalog o' = cz_Catalog opts \<and>
           (\<forall>v. cz_DNSSECValidation opts = Some v \<longrightarrow> zo_DnssecValidation o' = v))
      else (\<exists>e. r = Inl e \<and> \<not> errors_Is e ErrZoneAlreadyExists) \<and> zones (ext w') = zones (ext w)"
proof -
  note laws = assms [unfolded zone_api_laws_def]
  show "zones (ext (snd (run_state (za_GetZoneOptions api name) w))) = zones (ext w)"
    using laws by blast
  show "zones (ext w) name = Some (q, o') \<Longrightarrow> fst (run_state (za_GetZoneOptions api name) w) = Inr o'"
    using laws by blast
  show "zones (ext w) name = None \<Longrightarrow>
      \<exists>e. fst (run_state (za_GetZoneOptions api name) w) = Inl e \<and> (plain_zone_name name \<longrightarrow> errors_Is e ErrZoneNotFound)"
    using laws by blast
  show "if takes name u then r = Inr () \<and> zones (ext w') = (zones (ext w))(name \<mapsto> (q, apply_update u o'))
      else (\<exists>e. r = Inl e) \<and> zones (ext w') = zones (ext w)"
    if "zones (ext w) name = Some (q, o')" "run_state (za_SetZoneOptions api name u) w = (r, w')"
    using laws [THEN conjunct2, THEN conjunct2, THEN conjunct2, THEN conjunct1, rule_format, of w name q o' u] that by simp
  show "if accepts opts then r = Inr () \<and>
        (\<exists>o'. zones (ext w') = (zones (ext w))(cz_Zone opts \<mapsto> (opts, o')) \<and> zo_Catalog o' = cz_Catalog opts \<and>
           (\<forall>v. cz_DNSSECValidation opts = Some v \<longrightarrow> zo_DnssecValidation o' = v))
      else (\<exists>e. r = Inl e \<and> \<not> errors_Is e ErrZoneAlreadyExists) \<and> zones (ext w') = zones (ext w)"
    if "zones (ext w) (cz_Zone opts) = None" "run_state (za_CreateZone api opts) w = (r, w')"
    using laws [THEN conjunct2, THEN conjunct2, THEN conjunct2, THEN conjunct2, rule_format, of w opts] that by simp
qed

definition as_desired :: "zone \<Rightarrow> string option \<Rightarrow> zone_options \<Rightarrow> bool" where
  "as_desired z catalog o' \<longleftrightarrow>
     (\<forall>c. catalog = Some c \<longrightarrow> zo_Catalog o' = c) \<and>
     (\<forall>v. zs_DNSSECValidation (z_Spec z) = Some v \<longrightarrow> zo_DnssecValidation o' = v)"

text \<open>A request that asks for the zone of the spec, field by field.\<close>

definition asks_for :: "zone \<Rightarrow> string option \<Rightarrow> create_zone_options \<Rightarrow> bool" where
  "asks_for z catalog q \<longleftrightarrow>
     cz_Zone q = zs_ZoneName (z_Spec z) \<and> cz_Type q = zs_Type (z_Spec z) \<and>
     cz_Catalog q = (case catalog of Some c \<Rightarrow> c | None \<Rightarrow> []) \<and>
     cz_Forwarder q = (case zs_Forwarder (z_Spec z) of Some f \<Rightarrow> f | None \<Rightarrow> []) \<and>
     cz_Protocol q = (case zs_ForwarderProtocol (z_Spec z) of Some p \<Rightarrow> p | None \<Rightarrow> []) \<and>
     cz_PrimaryNameServerAddresses q = zs_PrimaryNameServerAddresses (z_Spec z) \<and>
     cz_DNSSECValidation q = zs_DNSSECValidation (z_Spec z) \<and>
     (case zs_ForwarderProxy (z_Spec z) of
        None \<Rightarrow> cz_ProxyType q = [] \<and> cz_ProxyAddress q = [] \<and> cz_ProxyPort q = None \<and> cz_ProxyUsername q = [] \<and>
          cz_ProxyPassword q = []
      | Some p \<Rightarrow> cz_ProxyType q = fp_Type p \<and> cz_ProxyAddress q = (case fp_Address p of Some x \<Rightarrow> x | None \<Rightarrow> []) \<and>
          cz_ProxyPort q = fp_Port p \<and> cz_ProxyUsername q = (case fp_Username p of Some x \<Rightarrow> x | None \<Rightarrow> []) \<and>
          cz_ProxyPassword q = (case fp_Password p of Some x \<Rightarrow> x | None \<Rightarrow> []))"

text \<open>What the pass should make of a zone: nothing but the catalog and the validation setting of an existing zone change.\<close>

definition zone_outcome ::
  "zone \<Rightarrow> string option \<Rightarrow> (create_zone_options \<times> zone_options) option \<Rightarrow> create_zone_options \<times> zone_options \<Rightarrow> bool" where
  "zone_outcome z catalog before after \<longleftrightarrow>
     (case before of
        Some (q, o') \<Rightarrow> after = (q, o'\<lparr>
          zo_Catalog := (case catalog of Some c \<Rightarrow> c | None \<Rightarrow> zo_Catalog o'),
          zo_DnssecValidation := (case zs_DNSSECValidation (z_Spec z) of Some v \<Rightarrow> v | None \<Rightarrow> zo_DnssecValidation o')\<rparr>)
      | None \<Rightarrow> asks_for z catalog (fst after) \<and> as_desired z catalog (snd after))"

lemma option_drift_empty_iff: "option_drift z o' catalog = empty_update \<longleftrightarrow> as_desired z catalog o'"
  by (auto simp: option_drift_def empty_update_def as_desired_def split: option.splits)

lemma zone_outcome_desired: "zone_outcome z catalog b (q, o') \<Longrightarrow> as_desired z catalog o'"
  by (cases catalog; cases "zs_DNSSECValidation (z_Spec z)"; cases b) (auto simp: zone_outcome_def as_desired_def)

lemma zone_outcome_drift: "zone_outcome z catalog (Some (q, o')) (q, apply_update (option_drift z o' catalog) o')"
  by (auto simp: zone_outcome_def apply_update_def option_drift_def split: option.split)

lemma zone_outcome_same: "as_desired z catalog o' \<Longrightarrow> zone_outcome z catalog (Some (q, o')) (q, o')"
  by (auto simp: zone_outcome_def as_desired_def split: option.split)

lemma createOptions_asks_for: "asks_for z catalog (createOptionsFromSpec z catalog)"
  by (auto simp: asks_for_def createOptionsFromSpec_def Let_def or_empty_def split: option.split)

lemma applyZone_found:
  assumes "zone_api_laws api zones accepts takes" and "zones (ext w) (zs_ZoneName (z_Spec z)) = Some (q, o')"
  shows "run_state (applyZone api z catalog) w =
    run_state (reconcileOptions api z o' catalog) (snd (run_state (za_GetZoneOptions api (zs_ZoneName (z_Spec z))) w))"
  using get_found [OF assms] by (auto simp: applyZone_def split: prod.splits)

text \<open>A pass over a zone that exists, and over one that does not.\<close>

lemma applyZone_existing:
  assumes laws: "zone_api_laws api zones accepts takes" and found: "zones (ext w) (zs_ZoneName (z_Spec z)) = Some (q, o')"
    and run: "run_state (applyZone api z catalog) w = (r, w')"
  shows "(r = Inr () \<and> (\<exists>a. zones (ext w') = (zones (ext w))(zs_ZoneName (z_Spec z) \<mapsto> a) \<and> zone_outcome z catalog (Some (q, o')) a)) \<or>
    ((\<exists>e. r = Inl e) \<and> zones (ext w') = zones (ext w) \<and> (\<exists>u. u \<noteq> empty_update \<and> \<not> takes (zs_ZoneName (z_Spec z)) u))"
proof (cases "option_drift z o' catalog = empty_update")
  case True
  then have "r = Inr ()" "zones (ext w') = zones (ext w)"
    using run by (auto simp: applyZone_found [OF laws found] reconcileOptions_def get_keeps [OF laws])
  with True found show ?thesis
    by (intro disjI1 conjI exI [of _ "(q, o')"]) (auto simp: option_drift_empty_iff intro: zone_outcome_same)
next
  case False
  let ?w = "snd (run_state (za_GetZoneOptions api (zs_ZoneName (z_Spec z))) w)"
  obtain r1 w1 where set1: "run_state (za_SetZoneOptions api (zs_ZoneName (z_Spec z)) (option_drift z o' catalog)) ?w = (r1, w1)"
    by fastforce
  have some: "zones (ext ?w) (zs_ZoneName (z_Spec z)) = Some (q, o')" by (simp add: get_keeps [OF laws] found)
  have "r = r1" "w' = w1"
    using run False set1
    by (auto simp: applyZone_found [OF laws found] reconcileOptions_def Let_def run_or_return split: sum.splits)
  with set_found [OF laws some set1] show ?thesis
    using zone_outcome_drift [of z catalog q o'] False by (auto simp: get_keeps [OF laws] split: if_splits)
qed

lemma applyZone_missing:
  assumes laws: "zone_api_laws api zones accepts takes" and none: "zones (ext w) (zs_ZoneName (z_Spec z)) = None"
    and run: "run_state (applyZone api z catalog) w = (r, w')"
  shows "(r = Inr () \<and> (\<exists>a. zones (ext w') = (zones (ext w))(zs_ZoneName (z_Spec z) \<mapsto> a) \<and> zone_outcome z catalog None a)) \<or>
    ((\<exists>e. r = Inl e) \<and> zones (ext w') = zones (ext w) \<and>
     \<not> (plain_zone_name (zs_ZoneName (z_Spec z)) \<and> (\<forall>q. asks_for z catalog q \<longrightarrow> accepts q)))"
proof -
  let ?n = "zs_ZoneName (z_Spec z)" and ?q = "createOptionsFromSpec z catalog"
  let ?w = "snd (run_state (za_GetZoneOptions api ?n) w)"
  obtain e where e: "fst (run_state (za_GetZoneOptions api ?n) w) = Inl e" "plain_zone_name ?n \<longrightarrow> errors_Is e ErrZoneNotFound"
    using get_missing [OF laws none] by blast
  obtain r1 w1 where new: "run_state (za_CreateZone api ?q) ?w = (r1, w1)" by fastforce
  have q: "cz_Zone ?q = ?n" "cz_Catalog ?q = or_empty catalog" "cz_DNSSECValidation ?q = zs_DNSSECValidation (z_Spec z)"
    using createOptions_asks_for [of z catalog] by (simp_all add: asks_for_def or_empty_def)
  have none': "zones (ext ?w) (cz_Zone ?q) = None" by (simp add: get_keeps [OF laws] none q)
  show ?thesis
  proof (cases "errors_Is e ErrZoneNotFound")
    case True
    then have "(r, w') = (case r1 of Inl e \<Rightarrow> (if errors_Is e ErrZoneAlreadyExists then Inr () else Inl e, w1) | Inr _ \<Rightarrow> (Inr (), w1))"
      using run e new by (auto simp: applyZone_def split: prod.splits sum.splits)
    with create_missing [OF laws none' new] createOptions_asks_for [of z catalog] show ?thesis
      by (fastforce simp: get_keeps [OF laws] q zone_outcome_def as_desired_def or_empty_def split: if_splits sum.splits)
  next
    case False
    then have "r = Inl e" "w' = ?w" using run e by (auto simp: applyZone_def split: prod.splits)
    with False e show ?thesis by (simp add: get_keeps [OF laws])
  qed
qed

text \<open>
  (C4) A pass over the server that succeeds has created the missing zone from a request that asks
  for every field of the spec, or has set the catalog and the validation setting of the existing
  zone and nothing else; every other zone is as it was, and a second pass makes no write at all,
  only the read. A pass that fails has changed nothing. It succeeds when the server accepts what it
  is asked and, unless the zone exists already, the zone's name contains none of the words that
  make the client misread the server's answer.
\<close>

theorem applyZone_converges:
  assumes laws: "zone_api_laws api zones accepts takes"
    and run: "run_state (applyZone api z catalog) w = (r, w')"
  shows "(r = Inr () \<longrightarrow>
      (\<exists>after. zones (ext w') = (zones (ext w))(zs_ZoneName (z_Spec z) \<mapsto> after) \<and>
         zone_outcome z catalog (zones (ext w) (zs_ZoneName (z_Spec z))) after) \<and>
      run_state (applyZone api z catalog) w' =
        (Inr (), snd (run_state (za_GetZoneOptions api (zs_ZoneName (z_Spec z))) w'))) \<and>
    (\<forall>e. r = Inl e \<longrightarrow> zones (ext w') = zones (ext w)) \<and>
    ((\<forall>u. u \<noteq> empty_update \<longrightarrow> takes (zs_ZoneName (z_Spec z)) u) \<and> (\<forall>q. asks_for z catalog q \<longrightarrow> accepts q) \<and>
     (zones (ext w) (zs_ZoneName (z_Spec z)) = None \<longrightarrow> plain_zone_name (zs_ZoneName (z_Spec z))) \<longrightarrow> r = Inr ())"
proof -
  let ?n = "zs_ZoneName (z_Spec z)"
  have main: "(r = Inr () \<and> (\<exists>a. zones (ext w') = (zones (ext w))(?n \<mapsto> a) \<and> zone_outcome z catalog (zones (ext w) ?n) a)) \<or>
    ((\<exists>e. r = Inl e) \<and> zones (ext w') = zones (ext w) \<and>
     \<not> ((\<forall>u. u \<noteq> empty_update \<longrightarrow> takes ?n u) \<and> (\<forall>q. asks_for z catalog q \<longrightarrow> accepts q) \<and> (zones (ext w) ?n = None \<longrightarrow> plain_zone_name ?n)))"
    using applyZone_missing [OF laws _ run] applyZone_existing [OF laws _ run] by (cases "zones (ext w) ?n") auto
  have idle: "run_state (applyZone api z catalog) w' = (Inr (), snd (run_state (za_GetZoneOptions api ?n) w'))"
    if "zones (ext w') = (zones (ext w))(?n \<mapsto> (q, o'))" "zone_outcome z catalog (zones (ext w) ?n) (q, o')" for q o'
  proof -
    have "zones (ext w') ?n = Some (q, o')" using that by simp
    moreover have "option_drift z o' catalog = empty_update"
      using zone_outcome_desired [OF that(2)] by (simp add: option_drift_empty_iff)
    ultimately show ?thesis by (simp add: applyZone_found [OF laws] reconcileOptions_def)
  qed
  from main idle show ?thesis by (metis Inl_Inr_False prod.collapse)
qed

section \<open>Finalizers\<close>

text \<open>
  Before the Zone controller sends anything to the server for a Zone that lacks the cleanup
  finalizer, it has put the finalizer on the stored object: the first call after the read is that
  update, and when the update fails the reconcile ends with its error and no further call.
\<close>

theorem zone_finalizer_before_server:
  assumes "finalizer_laws rt"
    and "kc_Get zones key (ext w) = (Inr zone, s)"
    and "om_DeletionTimestamp (z_meta zone) = None"
    and "zoneFinalizer \<notin> set (om_Finalizers (z_meta zone))"
    and "run_state (ZoneReconciler_Reconcile (production_zones rt zones clusters secrets ns) key) w = (r, w')"
  shows "\<exists>zone' es.
    trace w' = trace w @ [EvGet (kc_kind zones) key, EvUpdate (kc_kind zones) (kc_meta zones zone')] @ es \<and>
    zoneFinalizer \<in> set (om_Finalizers (z_meta zone')) \<and>
    (\<forall>err s'. kc_Update zones zone' s = (Inl err, s') \<longrightarrow> es = [] \<and> r = Inl err)"
  using assms(1-3) refl assms(4-) by (rule zone_controller.finalizer_first)

lemma resolve_trace:
  "run_state (resolve clusters secrets ns ref) w = (r, w') \<Longrightarrow>
     \<exists>es. trace w' = trace w @ es \<and> list_all is_kube_read es"
  using emits_D [OF emits_resolve] by blast

lemma DeleteZone_trace:
  "run_state (DeleteZone rt c name) w = (r, w') \<Longrightarrow> \<exists>es. trace w' = trace w @ es \<and> list_all is_http es"
  using emits_D [OF emits_zone_endpoints(2)] by blast

lemma is_kube_read_not_update: "list_all is_kube_read es \<Longrightarrow> EvUpdate k m \<notin> set es"
  by (auto simp: list_all_iff)

lemma is_http_not_update: "list_all is_http es \<Longrightarrow> EvUpdate k m \<notin> set es"
  by (auto simp: list_all_iff)

text \<open>A not-found error of the resolution has one of two causes: no such cluster, or no such admin Secret.\<close>

lemma resolve_NotFound:
  assumes "run_state (resolve clusters secrets ns ref) w = (Inl e, w')" and "IsNotFound e"
  shows "(\<exists>e' s. kc_Get clusters (ObjectKey [] (sr_Name ref)) (ext w) = (Inl e', s) \<and> IsNotFound e' \<and>
      trace w' = trace w @ [EvGet (kc_kind clusters) (ObjectKey [] (sr_Name ref))]) \<or>
    (\<exists>tc s key e' s'. kc_Get clusters (ObjectKey [] (sr_Name ref)) (ext w) = (Inr tc, s) \<and>
      adminSecretKeyFor tc ns = (key, None) \<and> kc_Get secrets key s = (Inl e', s') \<and> IsNotFound e' \<and>
      trace w' = trace w @ [EvGet (kc_kind clusters) (ObjectKey [] (sr_Name ref)), EvGet (kc_kind secrets) key])"
proof -
  have built: "\<not> IsNotFound e'" if "run_state (cached_or_built name tc sec) v = (Inl e', v')" for name tc sec v v' e'
    using that
    by (auto simp: cached_or_built_def Let_def run_or_return run_simps ClientOptionsFromSecret_def NewClient_def
        split: if_splits sum.splits prod.splits option.splits)
  have key: "\<not> IsNotFound e'" if "adminSecretKeyFor tc ns = (k, Some e')" for tc k e'
    using that by (auto simp: adminSecretKeyFor_def split: option.splits if_splits)
  obtain got s where got: "kc_Get clusters (ObjectKey [] (sr_Name ref)) (ext w) = (got, s)" by fastforce
  show ?thesis
  proof (cases got)
    case (Inl e')
    with assms got show ?thesis
      by (auto simp: resolve_def Let_def run_or_return run_wrap_error run_kube)
  next
    case (Inr tc)
    obtain k ke where k: "adminSecretKeyFor tc ns = (k, ke)" by fastforce
    obtain sgot s2 where sgot: "kc_Get secrets k s = (sgot, s2)" by fastforce
    have "ts_PrimaryEndpoint (tc_Status tc) \<noteq> []" "ke = None"
      using assms got Inr k key by (auto simp: resolve_def Let_def run_or_return run_wrap_error run_kube split: if_splits option.splits)
    then show ?thesis
      using assms got Inr k sgot
      by (cases sgot) (auto simp: resolve_def Let_def run_or_return run_wrap_error run_kube dest: built split: if_splits)
  qed
qed

text \<open>
  (C28) While the deletion policy is not Orphan, the update that clears the finalizer is issued as
  the last call, and only in one of three cases: the server has confirmed the deletion of the zone
  or reported it missing; or the TechnitiumCluster does not exist; or the TechnitiumCluster exists
  and its admin Secret does not, in which case no request was sent to the server. Any other failure leaves the finalizer
  in place.
\<close>

theorem zone_finalizer_cleared_after_delete:
  assumes policy: "zs_DeletionPolicy (z_Spec z) \<noteq> DeletionPolicyOrphan"
    and run: "run_state (finalizeZone (production_zones rt zones clusters secrets ns) z) w = (res, w')"
    and cleared: "EvUpdate k m \<in> set (new_events w w')"
  shows "let ref = zs_ServerRef (z_Spec z); cluster = ObjectKey [] (sr_Name ref) in
    (\<exists>e s. kc_Get clusters cluster (ext w) = (Inl e, s) \<and> IsNotFound e \<and>
       trace w' = trace w @ [EvGet (kc_kind clusters) cluster, EvUpdate k m]) \<or>
    (\<exists>tc s key e s'. kc_Get clusters cluster (ext w) = (Inr tc, s) \<and> adminSecretKeyFor tc ns = (key, None) \<and>
       kc_Get secrets key s = (Inl e, s') \<and> IsNotFound e \<and>
       trace w' = trace w @ [EvGet (kc_kind clusters) cluster, EvGet (kc_kind secrets) key, EvUpdate k m]) \<or>
    (\<exists>c w1 del w2. run_state (resolve clusters secrets ns ref) w = (Inr c, w1) \<and>
       run_state (DeleteZone rt c (zs_ZoneName (z_Spec z))) w1 = (del, w2) \<and>
       (del = Inr () \<or> (\<exists>e. del = Inl e \<and> errors_Is e ErrZoneNotFound)) \<and>
       trace w' = trace w2 @ [EvUpdate k m])"
proof -
  let ?res = "resolve clusters secrets ns (zs_ServerRef (z_Spec z))"
  have contained: "rt_ContainsFinalizer rt (om_Finalizers (z_meta z)) zoneFinalizer"
    using run cleared by (auto simp: finalizeZone_def new_events_def split: if_splits)
  obtain resolved w1 where w1: "run_state ?res w = (resolved, w1)" by fastforce
  obtain es where es: "trace w1 = trace w @ es" "list_all is_kube_read es"
    using resolve_trace [OF w1] by blast
  show ?thesis
  proof (cases resolved)
    case (Inl e)
    have "IsNotFound e"
    proof (rule ccontr)
      assume "\<not> IsNotFound e"
      then have "w' = w1"
        using run w1 Inl contained policy
        by (auto simp: finalizeZone_def production_serverClientFor Let_def run_or_return)
      with es cleared is_kube_read_not_update show False by auto
    qed
    moreover from this obtain m' where last: "trace w' = trace w1 @ [EvUpdate (kc_kind zones) m']"
      using run w1 Inl contained policy
      by (auto simp: finalizeZone_def production_serverClientFor Let_def run_or_return run_ignore_result run_kube
           split: prod.splits)
    moreover from this have "EvUpdate k m = EvUpdate (kc_kind zones) m'"
      using es cleared is_kube_read_not_update by auto
    ultimately show ?thesis
      using resolve_NotFound [OF w1 [unfolded Inl]] unfolding Let_def by fastforce
  next
    case (Inr c)
    obtain del w2 where w2: "run_state (DeleteZone rt c (zs_ZoneName (z_Spec z))) w1 = (del, w2)" by fastforce
    obtain es' where es': "trace w2 = trace w1 @ es'" "list_all is_http es'"
      using DeleteZone_trace [OF w2] by blast
    have confirmed: "del = Inr () \<or> (\<exists>e. del = Inl e \<and> errors_Is e ErrZoneNotFound)"
    proof (rule ccontr)
      assume "\<not> ?thesis"
      then obtain e where "del = Inl e" "\<not> errors_Is e ErrZoneNotFound" by (cases del) auto
      then have "w' = w2"
        using run w1 w2 Inr contained policy
        by (auto simp: finalizeZone_def production_serverClientFor Let_def run_or_return)
      with es es' cleared is_kube_read_not_update is_http_not_update show False by auto
    qed
    then obtain m' where "trace w' = trace w2 @ [EvUpdate (kc_kind zones) m']"
      using run w1 w2 Inr contained policy
      by (auto simp: finalizeZone_def production_serverClientFor Let_def run_or_return run_ignore_result run_kube
           split: prod.splits)
    moreover from this have "EvUpdate k m = EvUpdate (kc_kind zones) m'"
      using es es' cleared is_kube_read_not_update is_http_not_update by auto
    ultimately show ?thesis using w1 w2 Inr confirmed unfolding Let_def by auto
  qed
qed

text \<open>
  (C29) A missing admin Secret is taken for a missing cluster: although the TechnitiumCluster
  exists and reports its Primary, the controller drops the finalizer of a Zone being deleted
  without a request to the server, so the zone stays there.
\<close>

theorem missing_secret_orphans_zone:
  assumes "finalizer_laws rt" and "zoneFinalizer \<in> set (om_Finalizers (z_meta z))"
    and "zs_DeletionPolicy (z_Spec z) \<noteq> DeletionPolicyOrphan"
    and "kc_Get clusters (ObjectKey [] (sr_Name (zs_ServerRef (z_Spec z)))) (ext w) = (Inr tc, s1)"
    and "ts_PrimaryEndpoint (tc_Status tc) \<noteq> []" and "adminSecretKeyFor tc ns = (key, None)"
    and "kc_Get secrets key s1 = (Inl err, s2)" and "IsNotFound err"
    and "run_state (finalizeZone (production_zones rt zones clusters secrets ns) z) w = (res, w')"
  shows "\<exists>z'. zoneFinalizer \<notin> set (om_Finalizers (z_meta z')) \<and> z_Spec z' = z_Spec z \<and>
    trace w' = trace w @ [EvGet (kc_kind clusters) (ObjectKey [] (sr_Name (zs_ServerRef (z_Spec z)))),
      EvGet (kc_kind secrets) key, EvUpdate (kc_kind zones) (kc_meta zones z')] \<and>
    res = map_sum id (\<lambda>_. ()) (fst (kc_Update zones z' s2))"
proof -
  let ?z = "zone_with_finalizers (rt_RemoveFinalizer rt (om_Finalizers (z_meta z)) zoneFinalizer) z"
  have contained: "rt_ContainsFinalizer rt (om_Finalizers (z_meta z)) zoneFinalizer"
    and removed: "zoneFinalizer \<notin> set (om_Finalizers (z_meta ?z))"
    using assms(1,2) by (auto simp: finalizer_laws_def zone_with_finalizers_def)
  have "z_Spec ?z = z_Spec z" by (simp add: zone_with_finalizers_def)
  with removed show ?thesis
    using assms contained
    by (intro exI [of _ ?z])
      (auto simp: finalizeZone_def production_serverClientFor Let_def run_or_return run_ignore_result run_kube
        resolve_def run_wrap_error split: prod.splits)
qed

section \<open>Status writes\<close>

definition ready_conditions :: "int \<Rightarrow> condition list" where
  "ready_conditions g =
     (let msg = ''Zone reconciled on the Technitium server''
      in [mk_condition conditionReady ConditionTrue ''ZoneReady'' msg g,
          mk_condition conditionProgressing ConditionFalse ''ZoneReady'' msg g,
          mk_condition conditionDegraded ConditionFalse ''ZoneReady'' msg g])"

lemma ready_conditions_types:
  "map c_Type (ready_conditions g) = [conditionReady, conditionProgressing, conditionDegraded]"
  by (simp add: ready_conditions_def mk_condition_def Let_def)

lemma ready_zone_eq:
  "ready_zone rt z =
     (let g = om_Generation (z_meta z);
          cs = set_conditions rt (ready_conditions g) (zst_Conditions (z_Status z))
      in (z\<lparr>z_Status := (z_Status z)\<lparr>zst_Conditions := fst cs, zst_ObservedGeneration := g, zst_ZoneCreated := True\<rparr>\<rparr>,
          snd cs \<or> zst_ObservedGeneration (z_Status z) \<noteq> g \<or> \<not> zst_ZoneCreated (z_Status z)))"
  by (simp add: ready_zone_def setCondition_def ready_conditions_def Let_def case_prod_beta disj_assoc)

text \<open>
  Recording success on a Zone that already records it writes nothing: the status computed
  from an object that carries that status is unchanged, so a drift tick on a healthy zone makes no
  status update and triggers no watch event.
\<close>

theorem markReady_quiescent:
  assumes "condition_laws rt"
  shows "ready_zone rt (fst (ready_zone rt z)) = (fst (ready_zone rt z), False)"
proof -
  have "distinct (map c_Type (ready_conditions g))" for g
    unfolding ready_conditions_types by (simp add: conditionReady_def conditionProgressing_def conditionDegraded_def)
  from set_conditions_idem [OF assms this] show ?thesis
    by (simp add: ready_zone_eq Let_def)
qed

section \<open>Witnesses\<close>

definition sample_zone :: zone where
  "sample_zone = \<lparr>z_meta = zero_meta\<lparr>om_Name := ''example'', om_Namespace := ''apps''\<rparr>,
     z_Spec = \<lparr>zs_ZoneName = ''example.com'', zs_ServerRef = sample_ref, zs_Type = ''Primary'',
       zs_PrimaryNameServerAddresses = [], zs_Forwarder = None, zs_ForwarderProtocol = None, zs_Catalog = Some ''cat'',
       zs_DNSSECValidation = Some True, zs_ForwarderProxy = None, zs_DeletionPolicy = ''Delete''\<rparr>,
     z_Status = \<lparr>zst_Conditions = [], zst_ObservedGeneration = 0, zst_ZoneCreated = False\<rparr>\<rparr>"

theorem markReady_quiescent_witness:
  "ready_zone (plain_runtime paging_server (Pair 0)) (fst (ready_zone (plain_runtime paging_server (Pair 0)) sample_zone)) =
    (fst (ready_zone (plain_runtime paging_server (Pair 0)) sample_zone), False)"
  by (rule markReady_quiescent [OF condition_laws_plain])

text \<open>A server that keeps its zones in a map, as an instance of the documented behaviour.\<close>

type_synonym zone_store = "string \<Rightarrow> (create_zone_options \<times> zone_options) option"

definition store_zone_api :: "zone_store zone_api" where
  "store_zone_api = \<lparr>
     za_CreateZone = (\<lambda>opts. State (\<lambda>w. (Inr (), w\<lparr>ext := (ext w)(cz_Zone opts \<mapsto> (opts,
        zero_zone_options\<lparr>zo_Name := cz_Zone opts, zo_Catalog := cz_Catalog opts,
          zo_DnssecValidation := (cz_DNSSECValidation opts = Some True)\<rparr>))\<rparr>))),
     za_GetZoneOptions = (\<lambda>name. State (\<lambda>w. (case ext w name of
        Some (_, o') \<Rightarrow> Inr o'
      | None \<Rightarrow> Inl (if plain_zone_name name then ErrZoneNotFound else ErrAppNotInstalled), w))),
     za_SetZoneOptions = (\<lambda>name u. State (\<lambda>w. if u = empty_update then (Inl (ErrorText ''no options''), w)
        else (Inr (), w\<lparr>ext := (ext w)(name := map_option (map_prod id (apply_update u)) (ext w name))\<rparr>))),
     za_DeleteZone = (\<lambda>name. State (\<lambda>w. (Inr (), w\<lparr>ext := (ext w)(name := None)\<rparr>)))\<rparr>"

lemma store_zone_api_laws: "zone_api_laws store_zone_api (\<lambda>s. s) (\<lambda>_. True) (\<lambda>_ u. u \<noteq> empty_update)"
  by (auto simp: zone_api_laws_def store_zone_api_def zero_zone_options_def)

theorem applyZone_converges_witness:
  "\<exists>q o' w'. run_state (applyZone store_zone_api sample_zone (Some ''cat'')) (empty_world Map.empty) = (Inr (), w') \<and>
     ext w' = [''example.com'' \<mapsto> (q, o')] \<and> cz_Type q = ''Primary'' \<and> zo_Catalog o' = ''cat'' \<and> zo_DnssecValidation o'"
proof -
  have plain: "plain_zone_name ''example.com''" by code_simp
  obtain r w' where run: "run_state (applyZone store_zone_api sample_zone (Some ''cat'')) (empty_world Map.empty) = (r, w')"
    by fastforce
  from applyZone_converges [OF store_zone_api_laws run] plain run show ?thesis
    by (auto simp: zone_outcome_def asks_for_def as_desired_def sample_zone_def empty_world_def)
qed

definition sample_zones :: "zone \<Rightarrow> ('s, zone) kclient" where
  "sample_zones z = plain_kclient ''Zone'' z_meta (\<lambda>_. Inr z)"

lemma sample_client_sel [simp]:
  "kc_kind (sample_zones z) = ''Zone''" "kc_meta (sample_zones z) = z_meta"
  "kc_kind sample_clusters = ''TechnitiumCluster''" "trace (empty_world s) = []" "sr_Name sample_ref = ''dns''"
  by (simp_all add: sample_zones_def sample_clusters_def empty_world_def sample_ref_def)

abbreviation sample_reconciler :: "zone \<Rightarrow> unit zone_reconciler" where
  "sample_reconciler z \<equiv> production_zones sample_runtime (sample_zones z) sample_clusters sample_secrets ''ops''"

theorem zone_finalizer_before_server_witness:
  "\<exists>(z' :: zone) es. trace (snd (run_state (ZoneReconciler_Reconcile (sample_reconciler sample_zone) (ObjectKey ''apps'' ''example''))
       (empty_world ()))) =
    [EvGet ''Zone'' (ObjectKey ''apps'' ''example''), EvUpdate ''Zone'' (z_meta z')] @ es \<and>
    zoneFinalizer \<in> set (om_Finalizers (z_meta z'))"
proof -
  have get: "kc_Get (sample_zones sample_zone) (ObjectKey ''apps'' ''example'') (ext (empty_world ())) = (Inr sample_zone, ())"
    by (simp add: sample_zones_def plain_kclient_def)
  have fresh: "om_DeletionTimestamp (z_meta sample_zone) = None"
    "zoneFinalizer \<notin> set (om_Finalizers (z_meta sample_zone))"
    by (simp_all add: sample_zone_def zero_meta_def)
  from zone_finalizer_before_server [OF finalizer_laws_plain [of ok_server "Pair 0"] get fresh prod.collapse [symmetric],
      where clusters = sample_clusters and secrets = sample_secrets and ns = "''ops''"]
  show ?thesis
    by simp blast
qed

definition deleted_zone :: zone where
  "deleted_zone = sample_zone\<lparr>z_meta := (z_meta sample_zone)\<lparr>om_Finalizers := [zoneFinalizer], om_DeletionTimestamp := Some 1\<rparr>\<rparr>"

lemma deleted_zone_sel [simp]:
  "z_Spec deleted_zone = z_Spec sample_zone" "om_Finalizers (z_meta deleted_zone) = [zoneFinalizer]"
  "zs_ServerRef (z_Spec sample_zone) = sample_ref" "zs_ZoneName (z_Spec sample_zone) = ''example.com''"
  "zs_DeletionPolicy (z_Spec sample_zone) = ''Delete''"
  by (simp_all add: deleted_zone_def sample_zone_def)

lemma sample_delete:
  "fst (run_state (DeleteZone sample_runtime c ''example.com'') w) = Inr ()"
  by (simp add: DeleteZone_def zoneParams_def do_ok_def run_or_return run_doRaw Let_def ok_server_def
      reply_result_def classifyStatus_def)

theorem zone_finalizer_cleared_after_delete_witness:
  "\<exists>c w1 del w2. run_state (resolve sample_clusters sample_secrets ''ops'' sample_ref) (empty_world ()) = (Inr c, w1) \<and>
    run_state (DeleteZone sample_runtime c ''example.com'') w1 = (del, w2) \<and> del = Inr () \<and>
    trace (snd (run_state (finalizeZone (sample_reconciler deleted_zone) deleted_zone) (empty_world ()))) =
      trace w2 @ [EvUpdate ''Zone'' (z_meta (zone_with_finalizers [] deleted_zone))]"
proof -
  let ?run = "run_state (finalizeZone (sample_reconciler deleted_zone) deleted_zone) (empty_world ())"
  let ?m = "z_meta (zone_with_finalizers [] deleted_zone)"
  have policy: "zs_DeletionPolicy (z_Spec deleted_zone) \<noteq> DeletionPolicyOrphan"
    by (simp add: DeletionPolicyOrphan_def)
  obtain w1 where w1: "run_state (resolve sample_clusters sample_secrets ''ops'' sample_ref) (empty_world ()) = (Inr 0, w1)"
    using sample_resolve by blast
  obtain w2 where w2: "run_state (DeleteZone sample_runtime 0 ''example.com'') w1 = (Inr (), w2)"
    using sample_delete by (metis prod.collapse)
  have "snd ?run = w2\<lparr>trace := trace w2 @ [EvUpdate ''Zone'' ?m]\<rparr>"
    using w1 w2 policy
    by (simp add: finalizeZone_def production_serverClientFor Let_def run_or_return run_ignore_result run_kube sample_zones_def)
  then have "EvUpdate ''Zone'' ?m \<in> set (new_events (empty_world ()) (snd ?run))"
    by (simp add: new_events_def empty_world_def)
  from zone_finalizer_cleared_after_delete [OF policy prod.collapse [symmetric] this] w1 w2
  show ?thesis by (auto simp: prod_eq_iff sample_clusters_def sample_secrets_def plain_kclient_def)
qed

definition gone_secrets :: "('s, secret) kclient" where
  "gone_secrets = plain_kclient ''Secret'' sec_meta (\<lambda>_. Inl (KubeError NotFound ''not found''))"

lemma gone_secrets_kind [simp]: "kc_kind gone_secrets = ''Secret''"
  by (simp add: gone_secrets_def)

theorem missing_secret_orphans_zone_witness:
  "\<exists>z' :: zone. zoneFinalizer \<notin> set (om_Finalizers (z_meta z')) \<and>
    trace (snd (run_state (finalizeZone (production_zones sample_runtime (sample_zones deleted_zone) sample_clusters gone_secrets ''ops'')
       deleted_zone) (empty_world ()))) =
      [EvGet ''TechnitiumCluster'' (ObjectKey [] ''dns''), EvGet ''Secret'' (ObjectKey ''ops'' ''dns-admin''),
       EvUpdate ''Zone'' (z_meta z')]"
proof -
  have 1: "zoneFinalizer \<in> set (om_Finalizers (z_meta deleted_zone))"
    "zs_DeletionPolicy (z_Spec deleted_zone) \<noteq> DeletionPolicyOrphan"
    by (simp_all add: DeletionPolicyOrphan_def)
  have 2: "kc_Get sample_clusters (ObjectKey [] (sr_Name (zs_ServerRef (z_Spec deleted_zone)))) (ext (empty_world ())) =
      (Inr sample_cluster, ())"
    by (simp add: sample_clusters_def plain_kclient_def)
  have 3: "ts_PrimaryEndpoint (tc_Status sample_cluster) \<noteq> []"
    "adminSecretKeyFor sample_cluster ''ops'' = (ObjectKey ''ops'' ''dns-admin'', None)"
    by (simp_all add: sample_cluster_def adminSecretKeyFor_def adminSecretName_def zero_meta_def)
  have 4: "kc_Get gone_secrets (ObjectKey ''ops'' ''dns-admin'') () = (Inl (KubeError NotFound ''not found''), ())"
    "IsNotFound (KubeError NotFound ''not found'')"
    by (simp_all add: gone_secrets_def plain_kclient_def)
  from missing_secret_orphans_zone [OF finalizer_laws_plain [of ok_server "Pair 0"] 1 2 3 4 prod.collapse [symmetric],
      where zones = "sample_zones deleted_zone"]
  show ?thesis
    by simp blast
qed

end
