(* ===== verification/Resource_Controller.thy ===== *)
theory Resource_Controller
  imports Controller_Common
begin

text \<open>
  The common body of the Record, DNSSEC, DNSApp, DHCPScope, Blocklist and ServerSettings controllers.

  Each of them repeats the same code on its own type: resolve the server, reconcile between the
  finalizer and the status, finalize by a clean-up on the server. The code is modelled once, over
  the accessors of a type (\<open>resource_shape\<close>) and the parts in which the controllers differ:
  what they apply, what they clean up and which status fields they set. The locale
  \<open>resource_controller\<close> states what those parts must satisfy and proves the properties all the
  controllers share; each controller's theory interprets it.
\<close>

section \<open>A controller\<close>

record ('s, 'o, 'api) resource_reconciler =
  rr_runtime :: "'s runtime"
  rr_objects :: "('s, 'o) kclient"
  rr_clusters :: "('s, technitium_cluster) kclient"
  rr_secrets :: "('s, secret) kclient"
  rr_OperatorNamespace :: string
  rr_NewServerClient :: "(secret_reference \<Rightarrow> ('s world, go_error + 'api) state) option"
  rr_client :: "nat \<Rightarrow> 'api"

record 'o resource_shape =
  sh_meta :: "'o \<Rightarrow> object_meta"
  sh_with_finalizers :: "string list \<Rightarrow> 'o \<Rightarrow> 'o"
  sh_conditions :: "'o \<Rightarrow> condition list"
  sh_with_conditions :: "condition list \<Rightarrow> 'o \<Rightarrow> 'o"
  sh_finalizer :: string
  sh_ServerRef :: "'o \<Rightarrow> secret_reference"
  sh_DeletionPolicy :: "'o \<Rightarrow> string"

text \<open>\<open>rr_client\<close> views a client as the controller's interface, a conversion Go makes silently.\<close>

definition defaultServerClient :: "('s, 'o, 'api) resource_reconciler \<Rightarrow> secret_reference \<Rightarrow> ('s world, go_error + 'api) state" where
  "defaultServerClient r serverRef =
     or_return (resolve (rr_clusters r) (rr_secrets r) (rr_OperatorNamespace r) serverRef) (\<lambda>c. ok (rr_client r c))"

definition serverClientFor :: "('s, 'o, 'api) resource_reconciler \<Rightarrow> secret_reference \<Rightarrow> ('s world, go_error + 'api) state" where
  "serverClientFor r serverRef =
     (case rr_NewServerClient r of Some f \<Rightarrow> f serverRef | None \<Rightarrow> defaultServerClient r serverRef)"

section \<open>Finalization\<close>

definition clear_finalizer :: "('s, 'o, 'api) resource_reconciler \<Rightarrow> 'o resource_shape \<Rightarrow> 'o \<Rightarrow> ('s world, go_error + unit) state" where
  "clear_finalizer r sh obj =
     ignore_result (kupdate (rr_objects r)
       (sh_with_finalizers sh (rt_RemoveFinalizer (rr_runtime r) (om_Finalizers (sh_meta sh obj)) (sh_finalizer sh)) obj))"

definition finalize_resource ::
  "('s, 'o, 'api) resource_reconciler \<Rightarrow> 'o resource_shape \<Rightarrow> ('api \<Rightarrow> 'o \<Rightarrow> ('s world, go_error + unit) state) \<Rightarrow> 'o
    \<Rightarrow> ('s world, go_error + unit) state" where
  "finalize_resource r sh cleanup obj =
     (if \<not> rt_ContainsFinalizer (rr_runtime r) (om_Finalizers (sh_meta sh obj)) (sh_finalizer sh) then ok ()
      else if sh_DeletionPolicy sh obj = DeletionPolicyOrphan then clear_finalizer r sh obj
      else do {
        resolved \<leftarrow> serverClientFor r (sh_ServerRef sh obj);
        case resolved of
          Inr api \<Rightarrow> or_return (cleanup api obj) (\<lambda>_. clear_finalizer r sh obj)
        | Inl err \<Rightarrow> if IsNotFound err then clear_finalizer r sh obj else fail err
      })"

text \<open>
  \<^verbatim>\<open>if err := m(); err != nil && !expected(err) { return err }\<close>, mostly with
  \<^verbatim>\<open>errors.Is(err, sentinel)\<close> for the expected errors.
\<close>

definition tolerate_if :: "(go_error \<Rightarrow> bool) \<Rightarrow> ('s world, go_error + unit) state \<Rightarrow> ('s world, go_error + unit) state" where
  "tolerate_if expected m = do {
     res \<leftarrow> m;
     case res of
       Inl err \<Rightarrow> if expected err then ok () else fail err
     | Inr _ \<Rightarrow> ok ()
   }"

abbreviation tolerate :: "go_error \<Rightarrow> ('s world, go_error + unit) state \<Rightarrow> ('s world, go_error + unit) state" where
  "tolerate sentinel \<equiv> tolerate_if (\<lambda>err. errors_Is err sentinel)"

section \<open>Status\<close>

definition ready_trio :: "string \<Rightarrow> string \<Rightarrow> int \<Rightarrow> condition list" where
  "ready_trio reason message generation =
     [mk_condition conditionReady ConditionTrue reason message generation,
      mk_condition conditionProgressing ConditionFalse reason message generation,
      mk_condition conditionDegraded ConditionFalse reason message generation]"

definition failed_trio :: "string \<Rightarrow> int \<Rightarrow> condition list" where
  "failed_trio message generation =
     [mk_condition conditionReady ConditionFalse ''ReconcileFailed'' message generation,
      mk_condition conditionProgressing ConditionFalse ''ReconcileFailed'' message generation,
      mk_condition conditionDegraded ConditionTrue ''ReconcileFailed'' message generation]"

text \<open>
  The conditions first, then the controller's own fields: \<open>record_fields\<close> sets each of them to its
  new value, and the code notes a change for every field that had another one.
\<close>

definition ready_object ::
  "'s runtime \<Rightarrow> 'o resource_shape \<Rightarrow> string \<Rightarrow> string \<Rightarrow> ('o \<Rightarrow> 'o) \<Rightarrow> 'o \<Rightarrow> 'o \<times> bool" where
  "ready_object rt sh reason message record_fields obj =
     (let (conds, changed) = set_conditions rt (ready_trio reason message (om_Generation (sh_meta sh obj))) (sh_conditions sh obj);
          obj1 = sh_with_conditions sh conds obj;
          obj2 = record_fields obj1
      in (obj2, changed \<or> obj2 \<noteq> obj1))"

definition mark_ready ::
  "('s, 'o, 'api) resource_reconciler \<Rightarrow> 'o resource_shape \<Rightarrow> string \<Rightarrow> string \<Rightarrow> ('o \<Rightarrow> 'o) \<Rightarrow> object_key
    \<Rightarrow> ('s world, go_error + unit) state" where
  "mark_ready r sh reason message record_fields key = do {
     got \<leftarrow> kget (rr_objects r) key;
     case got of
       Inl err \<Rightarrow> ignore_not_found err ()
     | Inr obj \<Rightarrow>
         (case ready_object (rr_runtime r) sh reason message record_fields obj of (obj', changed) \<Rightarrow>
            if \<not> changed then ok () else ignore_result (kstatus_update (rr_objects r) obj'))
   }"

definition mark_degraded ::
  "('s, 'o, 'api) resource_reconciler \<Rightarrow> 'o resource_shape \<Rightarrow> object_key \<Rightarrow> go_error \<Rightarrow> ('s world, go_error + unit) state" where
  "mark_degraded r sh key cause = do {
     got \<leftarrow> kget (rr_objects r) key;
     case got of
       Inl err \<Rightarrow> ignore_not_found err ()
     | Inr obj \<Rightarrow>
         ignore_result (kstatus_update (rr_objects r) (sh_with_conditions sh
           (fst (set_conditions (rr_runtime r) (failed_trio (Error cause) (om_Generation (sh_meta sh obj))) (sh_conditions sh obj))) obj))
   }"

section \<open>Reconcile\<close>

text \<open>
  \<open>apply\<close> brings the server in line and returns what the status step records of it; \<open>ready\<close> is that
  step, given the object reconciled, the result of \<open>apply\<close> and the key.
\<close>

definition live_resource ::
  "('s, 'o, 'api) resource_reconciler \<Rightarrow> 'o resource_shape \<Rightarrow> ('api \<Rightarrow> 'o \<Rightarrow> ('s world, go_error + 'a) state) \<Rightarrow>
    ('o \<Rightarrow> 'a \<Rightarrow> object_key \<Rightarrow> ('s world, go_error + unit) state) \<Rightarrow> object_key \<Rightarrow> 'o \<Rightarrow> ('s world, go_error + int) state" where
  "live_resource r sh apply ready key obj = do {
     done \<leftarrow> or_return (serverClientFor r (sh_ServerRef sh obj)) (\<lambda>api. apply api obj);
     case done of
       Inl err \<Rightarrow> do { _ \<leftarrow> mark_degraded r sh key err; fail err }
     | Inr a \<Rightarrow> or_return (ready obj a key) (\<lambda>_. ok driftReconcileInterval)
   }"

definition reconcile_resource ::
  "('s, 'o, 'api) resource_reconciler \<Rightarrow> 'o resource_shape \<Rightarrow> ('o \<Rightarrow> ('s world, go_error + unit) state) \<Rightarrow>
    ('api \<Rightarrow> 'o \<Rightarrow> ('s world, go_error + 'a) state) \<Rightarrow> ('o \<Rightarrow> 'a \<Rightarrow> object_key \<Rightarrow> ('s world, go_error + unit) state)
    \<Rightarrow> object_key \<Rightarrow> ('s world, go_error + int) state" where
  "reconcile_resource r sh finalize apply ready key = do {
     got \<leftarrow> kget (rr_objects r) key;
     case got of
       Inl err \<Rightarrow> ignore_not_found err 0
     | Inr obj \<Rightarrow>
         if om_DeletionTimestamp (sh_meta sh obj) \<noteq> None then or_return (finalize obj) (\<lambda>_. ok 0)
         else
           let (fs, added) = rt_AddFinalizer (rr_runtime r) (om_Finalizers (sh_meta sh obj)) (sh_finalizer sh);
               obj' = sh_with_finalizers sh fs obj
           in or_return (if added then kupdate (rr_objects r) obj' else ok obj') (live_resource r sh apply ready key)
   }"

section \<open>Shapes\<close>

text \<open>What the accessors of a type satisfy.\<close>

definition shape_ok :: "'o resource_shape \<Rightarrow> bool" where
  "shape_ok sh \<longleftrightarrow>
     (\<forall>fs obj. om_Finalizers (sh_meta sh (sh_with_finalizers sh fs obj)) = fs) \<and>
     (\<forall>cs obj. sh_conditions sh (sh_with_conditions sh cs obj) = cs) \<and>
     (\<forall>cs obj. sh_meta sh (sh_with_conditions sh cs obj) = sh_meta sh obj) \<and>
     (\<forall>cs cs' obj. sh_with_conditions sh cs (sh_with_conditions sh cs' obj) = sh_with_conditions sh cs obj)"

section \<open>Lemmas\<close>

text \<open>A reconciler as production wires it: no injected client, and the client type \<open>mk\<close> of the resolved server.\<close>

definition production ::
  "'s runtime \<Rightarrow> ('s, 'o) kclient \<Rightarrow> ('s, technitium_cluster) kclient \<Rightarrow> ('s, secret) kclient \<Rightarrow> string \<Rightarrow> (nat \<Rightarrow> 'api)
    \<Rightarrow> ('s, 'o, 'api) resource_reconciler" where
  "production rt objects clusters secrets ns mk = \<lparr>rr_runtime = rt, rr_objects = objects, rr_clusters = clusters,
     rr_secrets = secrets, rr_OperatorNamespace = ns, rr_NewServerClient = None, rr_client = mk\<rparr>"

lemma production_sel [simp]:
  "rr_runtime (production rt objects clusters secrets ns mk) = rt"
  "rr_objects (production rt objects clusters secrets ns mk) = objects"
  "rr_clusters (production rt objects clusters secrets ns mk) = clusters"
  "rr_secrets (production rt objects clusters secrets ns mk) = secrets"
  "rr_OperatorNamespace (production rt objects clusters secrets ns mk) = ns"
  "rr_NewServerClient (production rt objects clusters secrets ns mk) = None"
  "rr_client (production rt objects clusters secrets ns mk) = mk"
  by (simp_all add: production_def)

lemma serverClientFor_production:
  "serverClientFor (production rt objects clusters secrets ns mk) ref =
     or_return (resolve clusters secrets ns ref) (\<lambda>c. ok (mk c))"
  by (simp add: serverClientFor_def defaultServerClient_def)

text \<open>A tolerated call succeeds when the call does, or fails as expected.\<close>

definition done_if :: "(go_error \<Rightarrow> bool) \<Rightarrow> go_error + unit \<Rightarrow> bool" where
  "done_if expected res = (case res of Inr _ \<Rightarrow> True | Inl e \<Rightarrow> expected e)"

abbreviation done_or :: "go_error \<Rightarrow> go_error + unit \<Rightarrow> bool" where
  "done_or sentinel \<equiv> done_if (\<lambda>err. errors_Is err sentinel)"

lemma done_if_simps [simp]: "done_if P (Inr u)" "done_if P (Inl e) \<longleftrightarrow> P e"
  by (simp_all add: done_if_def)

lemma run_tolerate:
  "run_state (tolerate_if P m) w = (Inr (), w') \<longleftrightarrow> (\<exists>res. run_state m w = (res, w') \<and> done_if P res)"
  by (auto simp: tolerate_if_def done_if_def split: prod.splits sum.splits)

lemma emits_serverClientFor:
  "rr_NewServerClient r = None \<Longrightarrow> emits is_kube_read (serverClientFor r ref)"
  by (simp add: serverClientFor_def defaultServerClient_def emits_or_return [OF emits_resolve])

lemma serverClientFor_client:
  assumes "rr_NewServerClient r = None" and "run_state (serverClientFor r ref) w = (Inr api, w')"
  shows "\<exists>c. api = rr_client r c"
  using assms by (auto simp: serverClientFor_def defaultServerClient_def or_return_Inr_iff)

lemma emits_tolerate: "emits P m \<Longrightarrow> emits P (tolerate_if expected m)"
  unfolding tolerate_if_def by (intro emits_rules emits_return)

lemma emits_mark_resource:
  "emits any_event (mark_ready r sh reason message f key)" "emits any_event (mark_degraded r sh key err)"
  unfolding mark_ready_def mark_degraded_def by (intro emits_rules emits_return emits_ignore; simp)+

text \<open>A resource whose conditions and fields are already recorded is not written again.\<close>

lemma ready_object_idem:
  assumes "condition_laws rt" and "shape_ok sh"
    and "\<And>obj. f (f obj) = f obj" and "\<And>cs obj. f (sh_with_conditions sh cs obj) = sh_with_conditions sh cs (f obj)"
    and "\<And>obj. sh_meta sh (f obj) = sh_meta sh obj" and "\<And>obj. sh_conditions sh (f obj) = sh_conditions sh obj"
    and "\<And>obj. sh_with_conditions sh (sh_conditions sh obj) obj = obj"
  shows "ready_object rt sh reason message f (fst (ready_object rt sh reason message f obj)) =
    (fst (ready_object rt sh reason message f obj), False)"
proof -
  let ?conds = "ready_trio reason message (om_Generation (sh_meta sh obj))"
  have types: "distinct (map c_Type ?conds)"
    by (simp add: ready_trio_def mk_condition_def conditionReady_def conditionProgressing_def conditionDegraded_def)
  obtain cs changed where cs: "set_conditions rt ?conds (sh_conditions sh obj) = (cs, changed)" by fastforce
  have again: "set_conditions rt ?conds cs = (cs, False)"
    using set_conditions_idem [OF assms(1) types, of "sh_conditions sh obj"] cs by simp
  have sh: "sh_conditions sh (sh_with_conditions sh c obj) = c" "sh_meta sh (sh_with_conditions sh c obj) = sh_meta sh obj"
    "sh_with_conditions sh c (sh_with_conditions sh c' obj) = sh_with_conditions sh c obj" for c c' obj
    using assms(2) by (simp_all add: shape_ok_def)
  show ?thesis
    by (simp add: ready_object_def Let_def cs again sh assms(3-6))
qed

text \<open>A resource with a field that is not yet as recorded is written, whatever its conditions are.\<close>

lemma mark_ready_writes:
  assumes "kc_Get (rr_objects r) key (ext w) = (Inr obj, s)"
    and "\<And>cs. record_fields (sh_with_conditions sh cs obj) \<noteq> sh_with_conditions sh cs obj"
  shows "\<exists>obj'. trace (snd (run_state (mark_ready r sh reason message record_fields key) w)) =
    trace w @ [EvGet (kc_kind (rr_objects r)) key, EvStatusUpdate (kc_kind (rr_objects r)) (kc_meta (rr_objects r) obj')]"
proof -
  obtain obj' changed where ready: "ready_object (rr_runtime r) sh reason message record_fields obj = (obj', changed)" by fastforce
  then have changed
    using assms(2) by (auto simp: ready_object_def Let_def split: prod.splits)
  with assms(1) ready show ?thesis
    by (auto simp: mark_ready_def run_kube run_ignore_result)
qed

section \<open>The shared properties\<close>

text \<open>
  First what holds however the resource is finalized, then what the controllers add that clean up
  on the server.
\<close>

locale resource_live =
  fixes r :: "('s, 'o, 'api) resource_reconciler"
    and sh :: "'o resource_shape"
    and finalize :: "'o \<Rightarrow> ('s world, go_error + unit) state"
    and apply_to :: "'api \<Rightarrow> 'o \<Rightarrow> ('s world, go_error + 'a) state"
    and ready :: "'o \<Rightarrow> 'a \<Rightarrow> object_key \<Rightarrow> ('s world, go_error + unit) state"
  assumes no_seam: "rr_NewServerClient r = None"
    and shape: "shape_ok sh"
    and apply_emits: "emits is_http (apply_to (rr_client r c) obj)"
    and ready_emits: "emits any_event (ready obj a key)"
begin

lemma live_resource_emits: "emits any_event (live_resource r sh apply_to ready key obj)"
proof -
  have step: "emits any_event (or_return (serverClientFor r (sh_ServerRef sh obj)) (\<lambda>api. apply_to api obj))"
  proof (rule emits_or_return_result)
    show "emits any_event (serverClientFor r (sh_ServerRef sh obj))"
      by (rule emits_any [OF emits_serverClientFor [OF no_seam]])
    show "emits any_event (apply_to api obj)" if "run_state (serverClientFor r (sh_ServerRef sh obj)) w = (Inr api, w')" for api w w'
      using serverClientFor_client [OF no_seam that] apply_emits emits_any by metis
  qed
  show ?thesis
    unfolding live_resource_def
    by (intro emits_bind [OF step] emits_bind emits_case_sum emits_or_return emits_mark_resource ready_emits emits_return)
qed

end

sublocale resource_live \<subseteq> finalizing_controller "rr_runtime r" "rr_objects r" "sh_meta sh" "sh_with_finalizers sh" "sh_finalizer sh"
    "\<lambda>obj. or_return (finalize obj) (\<lambda>_. ok 0)" "\<lambda>_ _. None" "live_resource r sh apply_to ready"
    "reconcile_resource r sh finalize apply_to ready"
proof unfold_locales
  show "om_Finalizers (sh_meta sh (sh_with_finalizers sh fs obj)) = fs" for fs obj
    using shape by (simp add: shape_ok_def)
  show "emits any_event (live_resource r sh apply_to ready key obj)" for key obj
    by (rule live_resource_emits)
qed (unfold reconcile_resource_def option.case, rule refl)

locale resource_controller = resource_live r sh "finalize_resource r sh cleanup" apply_to ready
  for r :: "('s, 'o, 'api) resource_reconciler"
    and sh :: "'o resource_shape"
    and cleanup :: "'api \<Rightarrow> 'o \<Rightarrow> ('s world, go_error + unit) state"
    and apply_to :: "'api \<Rightarrow> 'o \<Rightarrow> ('s world, go_error + 'a) state"
    and ready :: "'o \<Rightarrow> 'a \<Rightarrow> object_key \<Rightarrow> ('s world, go_error + unit) state" +
  assumes cleanup_emits: "emits is_http (cleanup (rr_client r c) obj)"
begin

text \<open>
  A finalization that succeeds and drops the finalizer has either been told to orphan, or found the
  cluster (or its Secret) missing, or completed the clean-up on the server just before.
\<close>

lemma finalize_after_cleanup:
  assumes "finalizer_laws (rr_runtime r)" and "sh_finalizer sh \<in> set (om_Finalizers (sh_meta sh obj))"
    and "sh_DeletionPolicy sh obj \<noteq> DeletionPolicyOrphan"
    and "run_state (finalize_resource r sh cleanup obj) w = (Inr (), w')"
  shows "(\<exists>c w1 w2. run_state (resolve (rr_clusters r) (rr_secrets r) (rr_OperatorNamespace r) (sh_ServerRef sh obj)) w = (Inr c, w1) \<and>
      run_state (cleanup (rr_client r c) obj) w1 = (Inr (), w2) \<and> run_state (clear_finalizer r sh obj) w2 = (Inr (), w')) \<or>
    (\<exists>e w1. run_state (resolve (rr_clusters r) (rr_secrets r) (rr_OperatorNamespace r) (sh_ServerRef sh obj)) w = (Inl e, w1) \<and>
      IsNotFound e \<and> run_state (clear_finalizer r sh obj) w1 = (Inr (), w'))"
proof -
  have contains: "rt_ContainsFinalizer (rr_runtime r) (om_Finalizers (sh_meta sh obj)) (sh_finalizer sh)"
    using assms(1,2) by (simp add: finalizer_laws_def)
  have resolve: "serverClientFor r ref =
      or_return (resolve (rr_clusters r) (rr_secrets r) (rr_OperatorNamespace r) ref) (\<lambda>c. ok (rr_client r c))" for ref
    by (simp add: serverClientFor_def no_seam defaultServerClient_def)
  show ?thesis
    using assms(3,4) contains
    by (auto simp: finalize_resource_def resolve run_or_return or_return_Inr_iff split: prod.splits sum.splits if_splits)
qed

end

end
