(* ===== verification/Record_Controller.thy ===== *)
theory Record_Controller
  imports Resource_Controller
begin

text \<open>
  The Record resource and its controller (\<^verbatim>\<open>api/v1alpha1/record_types.go\<close>,
  \<^verbatim>\<open>internal/controller/record_controller.go\<close>), on the common body of \<open>Resource_Controller\<close>.

  A Record owns one resource record of a DNS name: the one with its type and data. The section on
  convergence states that against a server whose names hold sets of records.
\<close>

section \<open>The resource\<close>

definition RecordTypeA :: string where
  "RecordTypeA = ''A''"

definition RecordTypeAAAA :: string where
  "RecordTypeAAAA = ''AAAA''"

definition RecordTypeCNAME :: string where
  "RecordTypeCNAME = ''CNAME''"

definition RecordTypeTXT :: string where
  "RecordTypeTXT = ''TXT''"

definition RecordTypeNS :: string where
  "RecordTypeNS = ''NS''"

definition RecordTypePTR :: string where
  "RecordTypePTR = ''PTR''"

definition RecordTypeMX :: string where
  "RecordTypeMX = ''MX''"

lemmas record_type_defs = RecordTypeA_def RecordTypeAAAA_def RecordTypeCNAME_def RecordTypeTXT_def
  RecordTypeNS_def RecordTypePTR_def RecordTypeMX_def

record record_spec =
  rs_ServerRef :: secret_reference
  rs_Zone :: string
  rs_Name :: string
  rs_Type :: string
  rs_TTL :: "int option"
  rs_Data :: string
  rs_Priority :: "int option"
  rs_DeletionPolicy :: string

record record_status =
  rst_Conditions :: "condition list"
  rst_ObservedGeneration :: int
  rst_RecordCreated :: bool
  rst_AppliedData :: string
  rst_AppliedPriority :: "int option"

record record_resource =
  rec_meta :: object_meta
  rec_Spec :: record_spec
  rec_Status :: record_status

section \<open>The reconciler\<close>

record 's record_api =
  ra_AddRecord :: "add_record_options \<Rightarrow> ('s world, go_error + unit) state"
  ra_GetRecords :: "string \<Rightarrow> string \<Rightarrow> ('s world, go_error + dns_record list) state"
  ra_UpdateRecord :: "update_record_options \<Rightarrow> ('s world, go_error + unit) state"
  ra_DeleteRecord :: "delete_record_options \<Rightarrow> ('s world, go_error + unit) state"

definition client_record_api :: "'s runtime \<Rightarrow> nat \<Rightarrow> 's record_api" where
  "client_record_api rt c = \<lparr>ra_AddRecord = AddRecord rt c, ra_GetRecords = GetRecords rt c,
     ra_UpdateRecord = UpdateRecord rt c, ra_DeleteRecord = DeleteRecord rt c\<rparr>"

type_synonym 's record_reconciler = "('s, record_resource, 's record_api) resource_reconciler"

definition defaultRecordTTL :: int where
  "defaultRecordTTL = 3600"

definition recordFinalizer :: string where
  "recordFinalizer = ''dns.packet.fail/record-cleanup''"

definition record_shape :: "record_resource resource_shape" where
  "record_shape = \<lparr>sh_meta = rec_meta,
     sh_with_finalizers = (\<lambda>fs rec. rec\<lparr>rec_meta := (rec_meta rec)\<lparr>om_Finalizers := fs\<rparr>\<rparr>),
     sh_conditions = (\<lambda>rec. rst_Conditions (rec_Status rec)),
     sh_with_conditions = (\<lambda>cs rec. rec\<lparr>rec_Status := (rec_Status rec)\<lparr>rst_Conditions := cs\<rparr>\<rparr>),
     sh_finalizer = recordFinalizer,
     sh_ServerRef = (\<lambda>rec. rs_ServerRef (rec_Spec rec)),
     sh_DeletionPolicy = (\<lambda>rec. rs_DeletionPolicy (rec_Spec rec))\<rparr>"

definition appliedSpec :: "record_resource \<Rightarrow> record_spec" where
  "appliedSpec rec =
     (if rst_AppliedData (rec_Status rec) \<noteq> []
      then (rec_Spec rec)\<lparr>rs_Data := rst_AppliedData (rec_Status rec), rs_Priority := rst_AppliedPriority (rec_Status rec)\<rparr>
      else rec_Spec rec)"

definition recordDataMatches :: "record_spec \<Rightarrow> dns_record \<Rightarrow> bool" where
  "recordDataMatches spec current =
     (let t = rs_Type spec; d = tr_RData current
      in if t = RecordTypeA \<or> t = RecordTypeAAAA then rd_IPAddress d = rs_Data spec
         else if t = RecordTypeCNAME then rd_CName d = rs_Data spec
         else if t = RecordTypeTXT then rd_Text d = rs_Data spec
         else if t = RecordTypeNS then rd_NameServer d = rs_Data spec
         else if t = RecordTypePTR then rd_PtrName d = rs_Data spec
         else if t = RecordTypeMX then
           (if rd_Exchange d \<noteq> rs_Data spec then False
            else case rs_Priority spec of None \<Rightarrow> True | Some p \<Rightarrow> rd_Preference d = p)
         else False)"

text \<open>The record found is a pointer into the slice: its index.\<close>

definition findRecord :: "dns_record list \<Rightarrow> record_spec \<Rightarrow> nat option" where
  "findRecord records spec =
     find (\<lambda>i. tr_Type (records ! i) = rs_Type spec \<and>
       (rs_Type spec = RecordTypeCNAME \<or> recordDataMatches spec (records ! i))) [0..<length records]"

definition recordTTLFromSpec :: "record_spec \<Rightarrow> int" where
  "recordTTLFromSpec spec = (case rs_TTL spec of Some t \<Rightarrow> t | None \<Rightarrow> defaultRecordTTL)"

definition setRecordValue :: "record_value \<Rightarrow> record_spec \<Rightarrow> record_value" where
  "setRecordValue v spec =
     (let t = rs_Type spec
      in if t = RecordTypeA \<or> t = RecordTypeAAAA then v\<lparr>rv_IPAddress := rs_Data spec\<rparr>
         else if t = RecordTypeCNAME then v\<lparr>rv_CName := rs_Data spec\<rparr>
         else if t = RecordTypeTXT then v\<lparr>rv_Text := rs_Data spec\<rparr>
         else if t = RecordTypeNS then v\<lparr>rv_NameServer := rs_Data spec\<rparr>
         else if t = RecordTypePTR then v\<lparr>rv_PtrName := rs_Data spec\<rparr>
         else if t = RecordTypeMX then v\<lparr>rv_Exchange := rs_Data spec, rv_Preference := rs_Priority spec\<rparr>
         else v)"

definition addOptionsFromSpec :: "record_spec \<Rightarrow> add_record_options" where
  "addOptionsFromSpec spec = \<lparr>ar_Zone = rs_Zone spec, ar_Domain = rs_Name spec, ar_Type = rs_Type spec,
     ar_TTL = rs_TTL spec, ar_Value = setRecordValue zero_record_value spec\<rparr>"

definition deleteOptionsFromSpec :: "record_spec \<Rightarrow> delete_record_options" where
  "deleteOptionsFromSpec spec = \<lparr>dr_Zone = rs_Zone spec, dr_Domain = rs_Name spec, dr_Type = rs_Type spec,
     dr_Value = setRecordValue zero_record_value spec\<rparr>"

definition deleteOptionsFromCurrent :: "record_spec \<Rightarrow> dns_record \<Rightarrow> delete_record_options" where
  "deleteOptionsFromCurrent spec current =
     (let d = tr_RData current
      in \<lparr>dr_Zone = rs_Zone spec, dr_Domain = rs_Name spec, dr_Type = rs_Type spec,
          dr_Value = \<lparr>rv_IPAddress = rd_IPAddress d, rv_CName = rd_CName d, rv_Text = rd_Text d,
            rv_NameServer = rd_NameServer d, rv_PtrName = rd_PtrName d, rv_Exchange = rd_Exchange d,
            rv_Preference = (if rd_Preference d \<noteq> 0 then Some (rd_Preference d) else None)\<rparr>\<rparr>)"

definition deleteStaleRecord ::
  "'s record_api \<Rightarrow> record_resource \<Rightarrow> dns_record list \<Rightarrow> nat option \<Rightarrow> ('s world, go_error + unit) state" where
  "deleteStaleRecord api rec records current =
     (let spec = rec_Spec rec; status = rec_Status rec
      in if rs_Type spec = RecordTypeCNAME \<or> rst_AppliedData status = [] then ok ()
         else if rst_AppliedData status = rs_Data spec \<and> rst_AppliedPriority status = rs_Priority spec then ok ()
         else case findRecord records (appliedSpec rec) of
           None \<Rightarrow> ok ()
         | Some stale \<Rightarrow>
             if Some stale = current then ok ()
             else tolerate ErrRecordNotFound (ra_DeleteRecord api (deleteOptionsFromCurrent spec (records ! stale))))"

text \<open>\<^verbatim>\<open>reconcileRecord\<close> once the server is resolved.\<close>

definition applyRecord :: "'s record_api \<Rightarrow> record_resource \<Rightarrow> ('s world, go_error + unit) state" where
  "applyRecord api rec =
     (let spec = rec_Spec rec
      in or_return (ra_GetRecords api (rs_Zone spec) (rs_Name spec)) (\<lambda>records.
           case findRecord records spec of
             None \<Rightarrow>
               or_return (tolerate ErrRecordAlreadyExists (ra_AddRecord api (addOptionsFromSpec spec)))
                 (\<lambda>_. deleteStaleRecord api rec records None)
           | Some current \<Rightarrow>
               if \<not> recordDataMatches spec (records ! current) then
                 or_return (tolerate ErrRecordNotFound (ra_DeleteRecord api (deleteOptionsFromCurrent spec (records ! current))))
                   (\<lambda>_. tolerate ErrRecordAlreadyExists (ra_AddRecord api (addOptionsFromSpec spec)))
               else
                 or_return
                   (if tr_TTL (records ! current) \<noteq> recordTTLFromSpec spec
                    then ra_UpdateRecord api \<lparr>ur_Zone = rs_Zone spec, ur_Domain = rs_Name spec, ur_Type = rs_Type spec,
                           ur_TTL = recordTTLFromSpec spec, ur_Value = setRecordValue zero_record_value spec\<rparr>
                    else ok ())
                   (\<lambda>_. deleteStaleRecord api rec records (Some current))))"

definition reconcileRecord :: "'s record_reconciler \<Rightarrow> record_resource \<Rightarrow> ('s world, go_error + unit) state" where
  "reconcileRecord r rec =
     or_return (serverClientFor r (rs_ServerRef (rec_Spec rec))) (\<lambda>api. applyRecord api rec)"

definition record_cleanup :: "'s record_api \<Rightarrow> record_resource \<Rightarrow> ('s world, go_error + unit) state" where
  "record_cleanup api rec = tolerate ErrRecordNotFound (ra_DeleteRecord api (deleteOptionsFromSpec (appliedSpec rec)))"

definition finalizeRecord :: "'s record_reconciler \<Rightarrow> record_resource \<Rightarrow> ('s world, go_error + unit) state" where
  "finalizeRecord r = finalize_resource r record_shape record_cleanup"

section \<open>Status and reconcile\<close>

definition record_applied_fields :: "record_spec \<Rightarrow> record_resource \<Rightarrow> record_resource" where
  "record_applied_fields applied rec = rec\<lparr>rec_Status := (rec_Status rec)\<lparr>
     rst_ObservedGeneration := om_Generation (rec_meta rec), rst_RecordCreated := True,
     rst_AppliedData := rs_Data applied, rst_AppliedPriority := rs_Priority applied\<rparr>\<rparr>"

definition RecordReconciler_markReady :: "'s record_reconciler \<Rightarrow> record_spec \<Rightarrow> object_key \<Rightarrow> ('s world, go_error + unit) state" where
  "RecordReconciler_markReady r applied = mark_ready r record_shape ''RecordReady'' ''Record reconciled on the Technitium server''
     (record_applied_fields applied)"

definition RecordReconciler_markDegraded :: "'s record_reconciler \<Rightarrow> object_key \<Rightarrow> go_error \<Rightarrow> ('s world, go_error + unit) state" where
  "RecordReconciler_markDegraded r = mark_degraded r record_shape"

definition RecordReconciler_Reconcile :: "'s record_reconciler \<Rightarrow> object_key \<Rightarrow> ('s world, go_error + int) state" where
  "RecordReconciler_Reconcile r = reconcile_resource r record_shape (finalizeRecord r) applyRecord
     (\<lambda>rec _. RecordReconciler_markReady r (rec_Spec rec))"

section \<open>Lemmas\<close>

lemma record_shape_sel [simp]:
  "sh_meta record_shape = rec_meta"
  "sh_with_finalizers record_shape fs rec = rec\<lparr>rec_meta := (rec_meta rec)\<lparr>om_Finalizers := fs\<rparr>\<rparr>"
  "sh_conditions record_shape rec = rst_Conditions (rec_Status rec)"
  "sh_with_conditions record_shape cs rec = rec\<lparr>rec_Status := (rec_Status rec)\<lparr>rst_Conditions := cs\<rparr>\<rparr>"
  "sh_finalizer record_shape = recordFinalizer"
  "sh_ServerRef record_shape rec = rs_ServerRef (rec_Spec rec)"
  "sh_DeletionPolicy record_shape rec = rs_DeletionPolicy (rec_Spec rec)"
  by (simp_all add: record_shape_def)

lemma record_shape_ok: "shape_ok record_shape"
  by (simp add: shape_ok_def)

lemma client_record_api_sel [simp]:
  "ra_AddRecord (client_record_api rt c) = AddRecord rt c"
  "ra_GetRecords (client_record_api rt c) = GetRecords rt c"
  "ra_UpdateRecord (client_record_api rt c) = UpdateRecord rt c"
  "ra_DeleteRecord (client_record_api rt c) = DeleteRecord rt c"
  by (simp_all add: client_record_api_def)

text \<open>What the controller needs of a server to leave Kubernetes alone.\<close>

locale record_server =
  fixes api :: "'s record_api"
  assumes add_emits: "emits is_http (ra_AddRecord api aopts)"
    and get_emits: "emits is_http (ra_GetRecords api zone domain)"
    and update_emits: "emits is_http (ra_UpdateRecord api uopts)"
    and delete_emits: "emits is_http (ra_DeleteRecord api dopts)"
begin

lemma deleteStaleRecord_emits: "emits is_http (deleteStaleRecord api rec records current)"
  unfolding deleteStaleRecord_def Let_def by (intro emits_rules emits_return emits_tolerate delete_emits)

lemma applyRecord_emits: "emits is_http (applyRecord api rec)"
  unfolding applyRecord_def Let_def
  by (intro emits_rules emits_return emits_tolerate get_emits add_emits update_emits delete_emits deleteStaleRecord_emits)

lemma record_cleanup_emits: "emits is_http (record_cleanup api rec)"
  unfolding record_cleanup_def by (intro emits_tolerate delete_emits)

end

interpretation client_record: record_server "client_record_api rt c" for rt :: "'s runtime" and c
  by unfold_locales simp_all

interpretation record_controller: resource_controller
    "production rt records clusters secrets ns (client_record_api rt)" record_shape record_cleanup applyRecord
    "\<lambda>rec _. RecordReconciler_markReady (production rt records clusters secrets ns (client_record_api rt)) (rec_Spec rec)"
  for rt :: "'s runtime" and records clusters secrets ns
  by unfold_locales
    (simp_all add: record_shape_ok client_record.record_cleanup_emits client_record.applyRecord_emits
      RecordReconciler_markReady_def emits_mark_resource)

abbreviation record_production ::
  "'s runtime \<Rightarrow> ('s, record_resource) kclient \<Rightarrow> ('s, technitium_cluster) kclient \<Rightarrow> ('s, secret) kclient \<Rightarrow> string
    \<Rightarrow> 's record_reconciler" where
  "record_production rt records clusters secrets ns \<equiv> production rt records clusters secrets ns (client_record_api rt)"

section \<open>Sets of records\<close>

text \<open>
  A record value identifies records by type and data, the way the server matches the parameters of
  a delete or an update. The abstract state of a DNS name is the set of its records; \<open>rrset_ok\<close>
  says that no two of them have the same identity and that the name has at most one CNAME.
\<close>

definition record_types :: "string list" where
  "record_types = [RecordTypeA, RecordTypeAAAA, RecordTypeCNAME, RecordTypeTXT, RecordTypeNS, RecordTypePTR, RecordTypeMX]"

definition value_matches :: "string \<Rightarrow> record_value \<Rightarrow> record_data \<Rightarrow> bool" where
  "value_matches t v d \<longleftrightarrow>
     (if t = RecordTypeA \<or> t = RecordTypeAAAA then rd_IPAddress d = rv_IPAddress v
      else if t = RecordTypeCNAME then rd_CName d = rv_CName v
      else if t = RecordTypeTXT then rd_Text d = rv_Text v
      else if t = RecordTypeNS then rd_NameServer d = rv_NameServer v
      else if t = RecordTypePTR then rd_PtrName d = rv_PtrName v
      else t = RecordTypeMX \<and> rd_Exchange d = rv_Exchange v \<and> Some (rd_Preference d) = rv_Preference v)"

definition carries :: "string \<Rightarrow> record_value \<Rightarrow> dns_record \<Rightarrow> bool" where
  "carries t v tr \<longleftrightarrow> tr_Type tr = t \<and> value_matches t v (tr_RData tr)"

definition identifies :: "string \<Rightarrow> record_value \<Rightarrow> bool" where
  "identifies t v \<longleftrightarrow> t \<in> set record_types \<and> (\<exists>p. setRecordValueParams no_params t v = Inr p) \<and>
     (t = RecordTypeMX \<longrightarrow> rv_Preference v \<noteq> None)"

definition rrset_ok :: "dns_record set \<Rightarrow> bool" where
  "rrset_ok S \<longleftrightarrow>
     (\<forall>tr \<in> S. \<forall>tr' \<in> S. tr_Type tr = RecordTypeCNAME \<and> tr_Type tr' = RecordTypeCNAME \<longrightarrow> tr = tr') \<and>
     (\<forall>tr \<in> S. tr_Type tr = RecordTypeCNAME \<longrightarrow> rd_CName (tr_RData tr) \<noteq> []) \<and>
     (\<forall>t v. \<forall>tr \<in> S. \<forall>tr' \<in> S. carries t v tr \<and> carries t v tr' \<longrightarrow> tr = tr')"

text \<open>A CNAME has its name to itself.\<close>

definition coexists :: "string \<Rightarrow> dns_record set \<Rightarrow> bool" where
  "coexists t S \<longleftrightarrow> (\<forall>tr \<in> S. (tr_Type tr = RecordTypeCNAME) = (t = RecordTypeCNAME))"

text \<open>
  What Technitium documents of the record endpoints in a zone it serves: a read lists the records of
  the name; a record whose value is new, and that does not clash with a CNAME, can be added with the
  TTL asked for; an update sets the TTL of the record with the value; a deletion removes it, or
  reports that it is not there.
\<close>

definition record_read_law :: "'s record_api \<Rightarrow> string \<Rightarrow> ('s \<Rightarrow> string \<Rightarrow> dns_record set) \<Rightarrow> bool" where
  "record_read_law api zone recs \<longleftrightarrow>
     (\<forall>d w. \<exists>rs w'. run_state (ra_GetRecords api zone d) w = (Inr rs, w') \<and> distinct rs \<and> set rs = recs (ext w) d \<and>
        recs (ext w') = recs (ext w))"

definition record_add_law :: "'s record_api \<Rightarrow> string \<Rightarrow> ('s \<Rightarrow> string \<Rightarrow> dns_record set) \<Rightarrow> bool" where
  "record_add_law api zone recs \<longleftrightarrow>
     (\<forall>d t v ttl w. identifies t v \<and> (\<forall>tr \<in> recs (ext w) d. \<not> carries t v tr) \<and> coexists t (recs (ext w) d) \<and>
          (t = RecordTypeCNAME \<longrightarrow> recs (ext w) d = {}) \<longrightarrow>
        (\<exists>tr w'. run_state (ra_AddRecord api \<lparr>ar_Zone = zone, ar_Domain = d, ar_Type = t, ar_TTL = Some ttl, ar_Value = v\<rparr>) w =
            (Inr (), w') \<and> carries t v tr \<and> tr_TTL tr = ttl \<and>
          recs (ext w') = (recs (ext w))(d := insert tr (recs (ext w) d))))"

definition record_update_law :: "'s record_api \<Rightarrow> string \<Rightarrow> ('s \<Rightarrow> string \<Rightarrow> dns_record set) \<Rightarrow> bool" where
  "record_update_law api zone recs \<longleftrightarrow>
     (\<forall>d t v ttl w. identifies t v \<and> (\<exists>tr \<in> recs (ext w) d. carries t v tr) \<longrightarrow>
        (\<exists>w'. run_state (ra_UpdateRecord api \<lparr>ur_Zone = zone, ur_Domain = d, ur_Type = t, ur_TTL = ttl, ur_Value = v\<rparr>) w =
            (Inr (), w') \<and> recs (ext w') =
          (recs (ext w))(d := (\<lambda>tr. if carries t v tr then tr\<lparr>tr_TTL := ttl\<rparr> else tr) ` recs (ext w) d)))"

definition record_delete_law :: "'s record_api \<Rightarrow> string \<Rightarrow> ('s \<Rightarrow> string \<Rightarrow> dns_record set) \<Rightarrow> bool" where
  "record_delete_law api zone recs \<longleftrightarrow>
     (\<forall>d t v w. identifies t v \<longrightarrow>
        (\<exists>r w'. run_state (ra_DeleteRecord api \<lparr>dr_Zone = zone, dr_Domain = d, dr_Type = t, dr_Value = v\<rparr>) w = (r, w') \<and>
          (r = Inr () \<or> (\<exists>e. r = Inl e \<and> errors_Is e ErrRecordNotFound)) \<and>
          recs (ext w') = (recs (ext w))(d := {tr \<in> recs (ext w) d. \<not> carries t v tr})))"

lemma delete_record:
  assumes "record_delete_law api zone recs" and "identifies t v"
  shows "\<exists>w'. run_state (tolerate ErrRecordNotFound
        (ra_DeleteRecord api \<lparr>dr_Zone = zone, dr_Domain = d, dr_Type = t, dr_Value = v\<rparr>)) w = (Inr (), w') \<and>
      recs (ext w') = (recs (ext w))(d := {tr \<in> recs (ext w) d. \<not> carries t v tr})"
proof -
  obtain r w' where "run_state (ra_DeleteRecord api \<lparr>dr_Zone = zone, dr_Domain = d, dr_Type = t, dr_Value = v\<rparr>) w = (r, w')"
    "r = Inr () \<or> (\<exists>e. r = Inl e \<and> errors_Is e ErrRecordNotFound)"
    "recs (ext w') = (recs (ext w))(d := {tr \<in> recs (ext w) d. \<not> carries t v tr})"
    using assms unfolding record_delete_law_def by blast
  then show ?thesis by (auto simp: tolerate_if_def)
qed

text \<open>The record a Record claims on the server, and the Records that are complete as admission makes them.\<close>

definition claims :: "record_spec \<Rightarrow> dns_record \<Rightarrow> bool" where
  "claims spec tr \<longleftrightarrow> tr_Type tr = rs_Type spec \<and> (rs_Type spec = RecordTypeCNAME \<or> recordDataMatches spec tr)"

definition spec_ok :: "record_spec \<Rightarrow> bool" where
  "spec_ok spec \<longleftrightarrow> rs_Type spec \<in> set record_types \<and> rs_Data spec \<noteq> [] \<and>
     (rs_Type spec = RecordTypeMX \<longrightarrow> rs_Priority spec \<noteq> None)"

text \<open>
  The stale record of a Record whose rdata was edited can be named in a deletion request: the request made from the record on
  the server leaves out a preference of 0, so of an MX record of preference 0 it does not say which record it means.
\<close>

definition nonzero_MX :: "record_spec \<Rightarrow> bool" where
  "nonzero_MX spec \<longleftrightarrow> (rs_Type spec = RecordTypeMX \<longrightarrow> rs_Priority spec \<noteq> Some 0)"

definition stale_removable :: "record_resource \<Rightarrow> bool" where
  "stale_removable rec \<longleftrightarrow> appliedSpec rec = rec_Spec rec \<or> nonzero_MX (appliedSpec rec)"

lemma findRecord_None: "findRecord records spec = None \<longleftrightarrow> (\<forall>tr \<in> set records. \<not> claims spec tr)"
  by (auto simp: findRecord_def find_None_iff claims_def all_set_conv_all_nth)

lemma findRecord_Some: "findRecord records spec = Some i \<Longrightarrow> i < length records \<and> claims spec (records ! i)"
  by (auto simp: findRecord_def find_Some_iff claims_def)

lemma record_type_cases [consumes 1]:
  assumes "t \<in> set record_types"
  obtains "t = ''A''" | "t = ''AAAA''" | "t = ''CNAME''" | "t = ''TXT''" | "t = ''NS''" | "t = ''PTR''" | "t = ''MX''"
  using assms by (auto simp: record_types_def record_type_defs)

lemma spec_ok_type: "spec_ok spec \<Longrightarrow> rs_Type spec \<in> set record_types"
  by (simp add: spec_ok_def)

lemmas record_value_defs = record_types_def record_type_defs spec_ok_def nonzero_MX_def identifies_def carries_def value_matches_def
  recordDataMatches_def setRecordValueParams_def setRecordValue_def deleteOptionsFromCurrent_def
  zero_record_value_def claims_def Let_def

lemma value_of_spec:
  assumes "spec_ok spec"
  shows "identifies (rs_Type spec) (setRecordValue zero_record_value spec)"
    and "carries (rs_Type spec) (setRecordValue zero_record_value spec) tr \<longleftrightarrow> tr_Type tr = rs_Type spec \<and> recordDataMatches spec tr"
  using spec_ok_type [OF assms] assms
  by (cases rule: record_type_cases; auto simp: record_value_defs)+

text \<open>The parameters made from a record on the server identify it.\<close>

lemma identifies_current:
  assumes "spec_ok spec" and "nonzero_MX spec" and "recordDataMatches spec tr \<or> rs_Type spec = RecordTypeCNAME \<and> rd_CName (tr_RData tr) \<noteq> []"
  shows "identifies (rs_Type spec) (dr_Value (deleteOptionsFromCurrent spec tr))"
  using spec_ok_type [OF assms(1)] assms
  by (cases rule: record_type_cases) (simp_all add: record_value_defs split: if_splits option.splits, auto)

lemma carries_current:
  assumes "spec_ok spec" and "nonzero_MX spec" and "tr_Type tr = rs_Type spec" and "recordDataMatches spec tr \<or> rs_Type spec = RecordTypeCNAME"
  shows "carries (rs_Type spec) (dr_Value (deleteOptionsFromCurrent spec tr)) tr"
  using spec_ok_type [OF assms(1)] assms
  by (cases rule: record_type_cases) (simp_all add: record_value_defs split: if_splits option.splits)

lemma deleteOptionsFromCurrent_eq:
  "deleteOptionsFromCurrent spec tr = \<lparr>dr_Zone = rs_Zone spec, dr_Domain = rs_Name spec, dr_Type = rs_Type spec,
     dr_Value = dr_Value (deleteOptionsFromCurrent spec tr)\<rparr>"
  by (simp add: deleteOptionsFromCurrent_def Let_def)

lemma carries_current_iff:
  assumes "spec_ok spec" and "nonzero_MX spec" and "recordDataMatches spec tr" and "rs_Type spec \<noteq> RecordTypeCNAME"
  shows "carries (rs_Type spec) (dr_Value (deleteOptionsFromCurrent spec tr)) x \<longleftrightarrow> claims spec x"
  using spec_ok_type [OF assms(1)] assms
  by (cases rule: record_type_cases) (auto simp: record_value_defs split: if_splits option.splits)

text \<open>Two complete Records of one type that can claim a common record claim the same records.\<close>

lemma claims_agree:
  assumes "spec_ok spec" and "spec_ok spec'" and "rs_Type spec' = rs_Type spec"
    and "claims spec tr" and "claims spec' tr"
  shows "claims spec x \<longleftrightarrow> claims spec' x"
  using spec_ok_type [OF assms(1)] assms
  by (cases rule: record_type_cases) (auto simp: record_value_defs split: if_splits)

lemma claims_unique:
  assumes "rrset_ok S" and "spec_ok spec" and "tr \<in> S" and "tr' \<in> S" and "claims spec tr" and "claims spec tr'"
  shows "tr = tr'"
proof (cases "rs_Type spec = RecordTypeCNAME")
  case True
  with assms show ?thesis by (simp add: rrset_ok_def claims_def)
next
  case False
  with assms have "carries (rs_Type spec) (setRecordValue zero_record_value spec) tr"
    "carries (rs_Type spec) (setRecordValue zero_record_value spec) tr'"
    by (simp_all add: value_of_spec claims_def)
  with assms show ?thesis unfolding rrset_ok_def by blast
qed

lemma findRecord_unique:
  assumes "distinct records" and "rrset_ok (set records)" and "spec_ok spec" and "j < length records" and "claims spec (records ! j)"
  shows "findRecord records spec = Some j"
proof -
  obtain i where i: "findRecord records spec = Some i"
    using assms(4,5) findRecord_None [of records spec] nth_mem by (metis not_None_eq)
  have "i < length records" "claims spec (records ! i)" using findRecord_Some [OF i] by simp_all
  then have "i = j"
    using claims_unique [OF assms(2,3)] assms by (metis nth_eq_iff_index_eq nth_mem)
  with i show ?thesis by simp
qed

section \<open>Convergence\<close>

text \<open>
  The abstract effect of a reconcile on the records of the name: the Record's own record \<open>tr\<close> is there,
  nothing else of what it claims or claimed before is, and the rest is as it was.
\<close>

definition rrset_apply :: "record_spec \<Rightarrow> record_spec \<Rightarrow> dns_record \<Rightarrow> dns_record set \<Rightarrow> dns_record set" where
  "rrset_apply spec applied tr S = insert tr {x \<in> S. \<not> claims spec x \<and> \<not> claims applied x}"

definition record_desired :: "record_spec \<Rightarrow> dns_record \<Rightarrow> bool" where
  "record_desired spec tr \<longleftrightarrow> tr_Type tr = rs_Type spec \<and> recordDataMatches spec tr \<and> Some (tr_TTL tr) = rs_TTL spec"

definition record_laws :: "'s record_api \<Rightarrow> string \<Rightarrow> ('s \<Rightarrow> string \<Rightarrow> dns_record set) \<Rightarrow> bool" where
  "record_laws api zone recs \<longleftrightarrow> record_read_law api zone recs \<and> record_add_law api zone recs \<and>
     record_update_law api zone recs \<and> record_delete_law api zone recs"

lemma appliedSpec_sel [simp]:
  "rs_Type (appliedSpec rec) = rs_Type (rec_Spec rec)" "rs_Zone (appliedSpec rec) = rs_Zone (rec_Spec rec)"
  "rs_Name (appliedSpec rec) = rs_Name (rec_Spec rec)"
  by (simp_all add: appliedSpec_def)

lemma claims_applied_CNAME:
  "rs_Type (rec_Spec rec) = RecordTypeCNAME \<Longrightarrow> claims (appliedSpec rec) x \<longleftrightarrow> claims (rec_Spec rec) x"
  by (simp add: claims_def)

lemma appliedSpec_same_iff:
  "appliedSpec rec = rec_Spec rec \<longleftrightarrow> rst_AppliedData (rec_Status rec) = [] \<or>
     rst_AppliedData (rec_Status rec) = rs_Data (rec_Spec rec) \<and> rst_AppliedPriority (rec_Status rec) = rs_Priority (rec_Spec rec)"
  by (cases "rec_Spec rec") (auto simp: appliedSpec_def)

lemma record_applied_fields_sel [simp]:
  "rec_Spec (record_applied_fields applied rec) = rec_Spec rec"
  "appliedSpec (record_applied_fields (rec_Spec rec) rec) = rec_Spec rec"
  by (simp_all add: record_applied_fields_def appliedSpec_def)

lemma record_desired_claims: "record_desired spec tr \<Longrightarrow> claims spec tr"
  by (simp add: record_desired_def claims_def)

text \<open>The stale record goes, once the desired one is in place, and nothing else does.\<close>

lemma deleteStaleRecord_effect:
  assumes laws: "record_delete_law api (rs_Zone (rec_Spec rec)) recs"
    and ok: "spec_ok (rec_Spec rec)" "spec_ok (appliedSpec rec)" "stale_removable rec"
    and records: "set records = S" "distinct records" and wf: "rrset_ok S"
    and tr: "claims (rec_Spec rec) tr"
    and before: "recs (ext w) = f(rs_Name (rec_Spec rec) := insert tr {x \<in> S. \<not> claims (rec_Spec rec) x})"
  shows "\<exists>w'. run_state (deleteStaleRecord api rec records (findRecord records (rec_Spec rec))) w = (Inr (), w') \<and>
    recs (ext w') = f(rs_Name (rec_Spec rec) := rrset_apply (rec_Spec rec) (appliedSpec rec) tr S)"
proof (cases "rs_Type (rec_Spec rec) = RecordTypeCNAME \<or> appliedSpec rec = rec_Spec rec")
  case True
  then have "rs_Type (rec_Spec rec) = RecordTypeCNAME \<or> rst_AppliedData (rec_Status rec) = [] \<or>
      rst_AppliedData (rec_Status rec) = rs_Data (rec_Spec rec) \<and> rst_AppliedPriority (rec_Status rec) = rs_Priority (rec_Spec rec)"
    by (simp only: appliedSpec_same_iff)
  then have run: "run_state (deleteStaleRecord api rec records (findRecord records (rec_Spec rec))) w = (Inr (), w)"
    by (auto simp: deleteStaleRecord_def Let_def)
  from True have "claims (appliedSpec rec) x \<longleftrightarrow> claims (rec_Spec rec) x" for x
    by (auto simp: claims_applied_CNAME)
  with run before show ?thesis by (simp add: rrset_apply_def)
next
  case False
  let ?spec = "rec_Spec rec" and ?app = "appliedSpec rec"
  from False have run: "deleteStaleRecord api rec records current = (case findRecord records ?app of None \<Rightarrow> ok ()
      | Some stale \<Rightarrow> if Some stale = current then ok ()
          else tolerate ErrRecordNotFound (ra_DeleteRecord api (deleteOptionsFromCurrent ?spec (records ! stale))))" for current
    by (auto simp: appliedSpec_same_iff deleteStaleRecord_def Let_def)
  have agree: "claims ?spec x \<longleftrightarrow> claims ?app x" if "claims ?spec y" "claims ?app y" for x y
    by (rule claims_agree) (use ok that in simp_all)
  show ?thesis
  proof (cases "findRecord records ?app")
    case None
    then have "\<forall>x \<in> S. \<not> claims ?app x" using records by (simp add: findRecord_None)
    then have "rrset_apply ?spec ?app tr S = insert tr {x \<in> S. \<not> claims ?spec x}" by (auto simp: rrset_apply_def)
    with None before show ?thesis by (simp add: run)
  next
    case (Some j)
    have j: "j < length records" "claims ?app (records ! j)" using findRecord_Some [OF Some] by simp_all
    show ?thesis
    proof (cases "Some j = findRecord records ?spec")
      case True
      then have "claims ?spec (records ! j)" using findRecord_Some by metis
      with j agree have "claims ?app x \<longleftrightarrow> claims ?spec x" for x by blast
      with before have "recs (ext w) = f(rs_Name ?spec := rrset_apply ?spec ?app tr S)" by (simp add: rrset_apply_def)
      with True [symmetric] show ?thesis by (simp add: run Some)
    next
      case False
      have other: "\<not> claims ?spec (records ! j)"
        using findRecord_unique [OF records(2)] wf ok(1) records(1) j(1) False by metis
      have notr: "\<not> claims ?app tr" using agree tr j(2) other by blast
      let ?v = "dr_Value (deleteOptionsFromCurrent ?spec (records ! j))"
      have v: "?v = dr_Value (deleteOptionsFromCurrent ?app (records ! j))"
        by (simp add: deleteOptionsFromCurrent_def Let_def)
      have data: "recordDataMatches ?app (records ! j)" using j(2) \<open>\<not> (_ \<or> _)\<close> by (simp add: claims_def)
      have nz: "nonzero_MX ?app" using ok(3) \<open>\<not> (_ \<or> _)\<close> by (simp add: stale_removable_def)
      have carried: "carries (rs_Type ?spec) ?v x \<longleftrightarrow> claims ?app x" for x
        using carries_current_iff [OF ok(2) nz data] \<open>\<not> (_ \<or> _)\<close> unfolding v by simp
      have "identifies (rs_Type ?spec) ?v"
        using identifies_current [OF ok(2) nz] data unfolding v by simp
      from delete_record [OF laws this, of "rs_Name ?spec" w] obtain w' where
        del: "run_state (tolerate ErrRecordNotFound (ra_DeleteRecord api (deleteOptionsFromCurrent ?spec (records ! j)))) w = (Inr (), w')"
        and after: "recs (ext w') = (recs (ext w))(rs_Name ?spec := {x \<in> recs (ext w) (rs_Name ?spec). \<not> claims ?app x})"
        unfolding deleteOptionsFromCurrent_eq [symmetric] carried by blast
      have "{x \<in> recs (ext w) (rs_Name ?spec). \<not> claims ?app x} = rrset_apply ?spec ?app tr S"
        using notr by (auto simp: before rrset_apply_def)
      with del after before False show ?thesis by (simp add: run Some)
    qed
  qed
qed

lemma record_values_of_spec:
  "addOptionsFromSpec spec = \<lparr>ar_Zone = rs_Zone spec, ar_Domain = rs_Name spec, ar_Type = rs_Type spec,
     ar_TTL = rs_TTL spec, ar_Value = setRecordValue zero_record_value spec\<rparr>"
  by (simp add: addOptionsFromSpec_def)

text \<open>Adding the desired record where nothing is in its place.\<close>

lemma add_desired:
  assumes "record_add_law api (rs_Zone spec) recs" and "spec_ok spec" and "rs_TTL spec = Some ttl"
    and "\<forall>x \<in> recs (ext w) (rs_Name spec). \<not> claims spec x" and "coexists (rs_Type spec) (recs (ext w) (rs_Name spec))"
  shows "\<exists>tr w'. run_state (tolerate e (ra_AddRecord api (addOptionsFromSpec spec))) w = (Inr (), w') \<and>
    record_desired spec tr \<and> recs (ext w') = (recs (ext w))(rs_Name spec := insert tr (recs (ext w) (rs_Name spec)))"
proof -
  have empty: "rs_Type spec = RecordTypeCNAME \<longrightarrow> recs (ext w) (rs_Name spec) = {}"
    using assms(4,5) by (auto simp: claims_def coexists_def)
  have "\<forall>x \<in> recs (ext w) (rs_Name spec). \<not> carries (rs_Type spec) (setRecordValue zero_record_value spec) x"
    using assms(4) by (auto simp: value_of_spec [OF assms(2)] claims_def)
  then obtain tr w' where "run_state (ra_AddRecord api \<lparr>ar_Zone = rs_Zone spec, ar_Domain = rs_Name spec,
        ar_Type = rs_Type spec, ar_TTL = Some ttl, ar_Value = setRecordValue zero_record_value spec\<rparr>) w = (Inr (), w')"
      "carries (rs_Type spec) (setRecordValue zero_record_value spec) tr" "tr_TTL tr = ttl"
      "recs (ext w') = (recs (ext w))(rs_Name spec := insert tr (recs (ext w) (rs_Name spec)))"
    using assms(1,5) empty value_of_spec(1) [OF assms(2)] unfolding record_add_law_def by blast
  then show ?thesis
    using assms(3) by (auto simp: tolerate_if_def record_values_of_spec record_desired_def value_of_spec [OF assms(2)])
qed

lemma image_only:
  assumes "a \<in> S" and "P a" and "\<forall>x \<in> S. P x \<longrightarrow> x = a"
  shows "(\<lambda>x. if P x then f x else x) ` S = insert (f a) {x \<in> S. \<not> P x}"
proof -
  have S: "S = insert a {x \<in> S. \<not> P x}" using assms by blast
  have "(\<lambda>x. if P x then f x else x) ` {x \<in> S. \<not> P x} = {x \<in> S. \<not> P x}" by force
  then have "(\<lambda>x. if P x then f x else x) ` insert a {x \<in> S. \<not> P x} = insert (f a) {x \<in> S. \<not> P x}"
    by (simp only: image_insert assms(2) if_True)
  with S show ?thesis by simp
qed

text \<open>Correcting the TTL of the record in place.\<close>

lemma update_desired:
  assumes law: "record_update_law api (rs_Zone spec) recs" and "spec_ok spec" and "rs_TTL spec = Some ttl" and wf: "rrset_ok S"
    and S: "recs (ext w) (rs_Name spec) = S" and tr: "tr \<in> S" "claims spec tr" "recordDataMatches spec tr"
  shows "\<exists>tr' w'. run_state (if tr_TTL tr \<noteq> recordTTLFromSpec spec
        then ra_UpdateRecord api \<lparr>ur_Zone = rs_Zone spec, ur_Domain = rs_Name spec, ur_Type = rs_Type spec,
               ur_TTL = recordTTLFromSpec spec, ur_Value = setRecordValue zero_record_value spec\<rparr>
        else ok ()) w = (Inr (), w') \<and>
    record_desired spec tr' \<and> recs (ext w') = (recs (ext w))(rs_Name spec := insert tr' {x \<in> S. \<not> claims spec x})"
proof -
  let ?v = "setRecordValue zero_record_value spec"
  have ttl: "recordTTLFromSpec spec = ttl" using assms(3) by (simp add: recordTTLFromSpec_def)
  have only: "x \<in> S \<Longrightarrow> claims spec x \<Longrightarrow> x = tr" for x
    using claims_unique [OF wf assms(2)] tr by blast
  have split: "insert (f tr) {x \<in> S. \<not> claims spec x} = (\<lambda>x. if carries (rs_Type spec) ?v x then f x else x) ` S" for f
  proof -
    have sub: "\<forall>x. carries (rs_Type spec) ?v x \<longrightarrow> claims spec x"
      by (simp add: value_of_spec [OF assms(2)] claims_def)
    have car: "carries (rs_Type spec) ?v tr" using tr by (simp add: value_of_spec [OF assms(2)] claims_def)
    have eq: "{x \<in> S. \<not> claims spec x} = {x \<in> S. \<not> carries (rs_Type spec) ?v x}"
      using sub car only by blast
    have "\<forall>x \<in> S. carries (rs_Type spec) ?v x \<longrightarrow> x = tr"
      using sub only by blast
    from image_only [where P = "carries (rs_Type spec) ?v", OF tr(1) car this] show ?thesis unfolding eq by simp
  qed
  show ?thesis
  proof (cases "tr_TTL tr = ttl")
    case True
    have "insert tr {x \<in> S. \<not> claims spec x} = S" using only tr(1) by blast
    moreover have "record_desired spec tr" using True tr assms(3) by (simp add: record_desired_def claims_def)
    ultimately show ?thesis using True S by (intro exI [of _ tr] exI [of _ w]) (simp add: ttl fun_upd_idem)
  next
    case False
    have "carries (rs_Type spec) ?v tr" using tr by (simp add: value_of_spec [OF assms(2)] claims_def)
    then obtain w' where run: "run_state (ra_UpdateRecord api \<lparr>ur_Zone = rs_Zone spec, ur_Domain = rs_Name spec,
          ur_Type = rs_Type spec, ur_TTL = ttl, ur_Value = ?v\<rparr>) w = (Inr (), w')"
        "recs (ext w') = (recs (ext w))(rs_Name spec := (\<lambda>x. if carries (rs_Type spec) ?v x then x\<lparr>tr_TTL := ttl\<rparr> else x) ` S)"
      using law value_of_spec(1) [OF assms(2)] tr(1) S unfolding record_update_law_def by blast
    have "record_desired spec (tr\<lparr>tr_TTL := ttl\<rparr>)"
      using tr assms(3) by (simp add: record_desired_def claims_def recordDataMatches_def)
    with run False show ?thesis
      by (intro exI [of _ "tr\<lparr>tr_TTL := ttl\<rparr>"] exI [of _ w']) (simp add: ttl split)
  qed
qed

text \<open>Replacing a CNAME whose target has drifted.\<close>

lemma recreate_desired:
  assumes laws: "record_laws api (rs_Zone spec) recs" and "spec_ok spec" and "rs_TTL spec = Some ttl" and wf: "rrset_ok S"
    and S: "recs (ext w) (rs_Name spec) = S" "coexists (rs_Type spec) S"
    and tr: "tr \<in> S" "claims spec tr" "\<not> recordDataMatches spec tr"
  shows "\<exists>tr' w'. run_state (or_return (tolerate ErrRecordNotFound (ra_DeleteRecord api (deleteOptionsFromCurrent spec tr)))
      (\<lambda>_. tolerate ErrRecordAlreadyExists (ra_AddRecord api (addOptionsFromSpec spec)))) w = (Inr (), w') \<and>
    record_desired spec tr' \<and> recs (ext w') = (recs (ext w))(rs_Name spec := insert tr' {x \<in> S. \<not> claims spec x})"
proof -
  let ?v = "dr_Value (deleteOptionsFromCurrent spec tr)"
  have cname: "rs_Type spec = RecordTypeCNAME" "tr_Type tr = RecordTypeCNAME" using tr by (auto simp: claims_def)
  with wf S tr have "S = {tr}" "rd_CName (tr_RData tr) \<noteq> []" by (auto simp: rrset_ok_def coexists_def)
  with cname assms(2) have v: "identifies (rs_Type spec) ?v" "carries (rs_Type spec) ?v tr"
    using identifies_current [of spec tr] carries_current [of spec tr] by (simp_all add: nonzero_MX_def record_type_defs)
  obtain w1 where del: "run_state (tolerate ErrRecordNotFound (ra_DeleteRecord api (deleteOptionsFromCurrent spec tr))) w = (Inr (), w1)"
    and w1: "recs (ext w1) = (recs (ext w))(rs_Name spec := {})"
    using delete_record [OF _ v(1), of api "rs_Zone spec" recs "rs_Name spec" w] laws v(2) S \<open>S = {tr}\<close>
    unfolding record_laws_def deleteOptionsFromCurrent_eq [symmetric] by (auto simp: conj_commute cong: conj_cong)
  have none: "{x \<in> S. \<not> claims spec x} = {}" using \<open>S = {tr}\<close> tr(2) by blast
  obtain tr' w' where "run_state (tolerate ErrRecordAlreadyExists (ra_AddRecord api (addOptionsFromSpec spec))) w1 = (Inr (), w')"
    "record_desired spec tr'" "recs (ext w') = (recs (ext w1))(rs_Name spec := insert tr' {})"
    using add_desired [of api spec recs ttl w1 ErrRecordAlreadyExists] laws assms(2,3) w1
    by (auto simp: record_laws_def coexists_def)
  then show ?thesis
    unfolding none using del w1 by (intro exI [of _ tr'] exI [of _ w']) (simp add: run_or_return)
qed

lemma same_identity:
  assumes "spec_ok spec" and "record_desired spec tr" and "carries t v tr" and "carries t v x"
  shows "claims spec x"
proof -
  have t: "t = rs_Type spec" "tr_Type x = rs_Type spec" "recordDataMatches spec tr"
    using assms(2-4) by (simp_all add: carries_def record_desired_def)
  have v: "value_matches (rs_Type spec) v (tr_RData tr)" "value_matches (rs_Type spec) v (tr_RData x)"
    using assms(3,4) t by (simp_all add: carries_def)
  have "recordDataMatches spec x"
    using spec_ok_type [OF assms(1)] v t(3)
    by (cases rule: record_type_cases)
      (simp_all add: record_type_defs value_matches_def recordDataMatches_def split: if_splits option.splits, metis option.inject)
  with t show ?thesis by (simp add: claims_def)
qed

lemma rrset_apply_ok:
  assumes "spec_ok spec" and "record_desired spec tr" and "rrset_ok S"
  shows "rrset_ok (rrset_apply spec applied tr S)"
proof -
  have cname: "rd_CName (tr_RData tr) \<noteq> []" if "tr_Type tr = RecordTypeCNAME"
  proof -
    have "rs_Type spec = ''CNAME''" "recordDataMatches spec tr" "rs_Data spec \<noteq> []"
      using that assms(1,2) by (simp_all add: record_desired_def spec_ok_def record_type_defs)
    then show ?thesis by (simp add: recordDataMatches_def record_type_defs)
  qed
  have same: "x = tr" if "x \<in> rrset_apply spec applied tr S" "carries t v tr" "carries t v x" for t v x
    using that same_identity [OF assms(1,2)] by (auto simp: rrset_apply_def)
  have only: "x = tr" if "x \<in> rrset_apply spec applied tr S" "tr_Type tr = RecordTypeCNAME" "tr_Type x = RecordTypeCNAME" for x
    using that assms(2) by (auto simp: rrset_apply_def claims_def record_desired_def)
  have old: "x = tr \<or> x \<in> S" if "x \<in> rrset_apply spec applied tr S" for x
    using that by (auto simp: rrset_apply_def)
  show ?thesis
    unfolding rrset_ok_def
  proof (intro conjI ballI allI impI)
    fix x y assume "x \<in> rrset_apply spec applied tr S" "y \<in> rrset_apply spec applied tr S"
      "tr_Type x = RecordTypeCNAME \<and> tr_Type y = RecordTypeCNAME"
    then show "x = y" using only old assms(3) unfolding rrset_ok_def by metis
  next
    fix x assume "x \<in> rrset_apply spec applied tr S" "tr_Type x = RecordTypeCNAME"
    then show "rd_CName (tr_RData x) \<noteq> []" using old cname assms(3) unfolding rrset_ok_def by metis
  next
    fix t v x y assume "x \<in> rrset_apply spec applied tr S" "y \<in> rrset_apply spec applied tr S"
      "carries t v x \<and> carries t v y"
    then show "x = y" using same old assms(3) unfolding rrset_ok_def by metis
  qed
qed

text \<open>A name that already is as desired is only read.\<close>

lemma applyRecord_idle:
  assumes read: "record_read_law api (rs_Zone (rec_Spec rec)) recs"
    and "recs (ext w) (rs_Name (rec_Spec rec)) = rrset_apply (rec_Spec rec) applied tr S"
    and tr: "record_desired (rec_Spec rec) tr" and app: "appliedSpec rec = rec_Spec rec"
  shows "run_state (applyRecord api rec) w =
    (Inr (), snd (run_state (ra_GetRecords api (rs_Zone (rec_Spec rec)) (rs_Name (rec_Spec rec))) w))"
proof -
  let ?spec = "rec_Spec rec"
  obtain records w1 where get: "run_state (ra_GetRecords api (rs_Zone ?spec) (rs_Name ?spec)) w = (Inr records, w1)"
    and set: "set records = rrset_apply ?spec applied tr S"
    using read assms(2) unfolding record_read_law_def by metis
  have "tr \<in> set records" using set by (simp add: rrset_apply_def)
  then obtain i where i: "findRecord records ?spec = Some i"
    using record_desired_claims [OF tr] findRecord_None [of records ?spec] by fastforce
  have "records ! i \<in> rrset_apply ?spec applied tr S" "claims ?spec (records ! i)"
    using findRecord_Some [OF i] set nth_mem by auto
  then have "records ! i = tr" by (auto simp: rrset_apply_def)
  moreover have "deleteStaleRecord api rec records (Some i) = ok ()"
    using app by (auto simp: appliedSpec_same_iff deleteStaleRecord_def Let_def)
  moreover have "tr_TTL tr = recordTTLFromSpec ?spec"
    using tr by (auto simp: record_desired_def recordTTLFromSpec_def split: option.splits)
  ultimately show ?thesis
    using get i tr by (simp add: applyRecord_def Let_def run_or_return record_desired_def)
qed

text \<open>One pass over the server.\<close>

lemma applyRecord_effect:
  fixes rec :: record_resource
  defines "spec \<equiv> rec_Spec rec"
  assumes laws: "record_laws api (rs_Zone spec) recs"
    and ok: "spec_ok spec" "spec_ok (appliedSpec rec)" "stale_removable rec" and ttl: "rs_TTL spec = Some ttl"
    and wf: "rrset_ok (recs (ext w) (rs_Name spec))" and co: "coexists (rs_Type spec) (recs (ext w) (rs_Name spec))"
    and run: "run_state (applyRecord api rec) w = (r, w')"
  shows "r = Inr () \<and>
    (\<exists>tr. record_desired spec tr \<and>
       recs (ext w') = (recs (ext w))(rs_Name spec := rrset_apply spec (appliedSpec rec) tr (recs (ext w) (rs_Name spec)))) \<and>
    rrset_ok (recs (ext w') (rs_Name spec)) \<and>
    run_state (applyRecord api (record_applied_fields spec rec)) w' =
      (Inr (), snd (run_state (ra_GetRecords api (rs_Zone spec) (rs_Name spec)) w'))"
proof -
  define S where "S = recs (ext w) (rs_Name spec)"
  obtain records w1 where get: "run_state (ra_GetRecords api (rs_Zone spec) (rs_Name spec)) w = (Inr records, w1)"
    and records: "distinct records" "set records = S" and w1: "recs (ext w1) = recs (ext w)"
    using laws unfolding record_laws_def record_read_law_def S_def by metis
  have stale: "\<exists>w'. run_state (deleteStaleRecord api rec records (findRecord records spec)) w2 = (Inr (), w') \<and>
      recs (ext w') = (recs (ext w))(rs_Name spec := rrset_apply spec (appliedSpec rec) tr S)"
    if "record_desired spec tr" "recs (ext w2) = (recs (ext w))(rs_Name spec := insert tr {x \<in> S. \<not> claims spec x})" for tr w2
    using deleteStaleRecord_effect [where S = S and tr = tr and w = w2] laws ok records wf that record_desired_claims
    unfolding record_laws_def spec_def S_def by blast
  have main: "r = Inr () \<and> (\<exists>tr. record_desired spec tr \<and>
      recs (ext w') = (recs (ext w))(rs_Name spec := rrset_apply spec (appliedSpec rec) tr S))"
  proof (cases "findRecord records spec")
    case None
    then have none: "\<forall>x \<in> S. \<not> claims spec x" using records by (simp add: findRecord_None)
    then have "{x \<in> S. \<not> claims spec x} = S" by blast
    then obtain tr w2 where add: "run_state (tolerate ErrRecordAlreadyExists (ra_AddRecord api (addOptionsFromSpec spec))) w1 = (Inr (), w2)"
      "record_desired spec tr" "recs (ext w2) = (recs (ext w))(rs_Name spec := insert tr {x \<in> S. \<not> claims spec x})"
      using add_desired [of api spec recs ttl w1 ErrRecordAlreadyExists] laws ok(1) ttl none co w1
      unfolding record_laws_def S_def by (auto 0 0)
    with stale [OF add(2,3)] run get None show ?thesis
      unfolding spec_def by (auto simp: applyRecord_def Let_def run_or_return)
  next
    case (Some i)
    have i: "records ! i \<in> S" "claims spec (records ! i)"
      using findRecord_Some [OF Some] records nth_mem by auto
    show ?thesis
    proof (cases "recordDataMatches spec (records ! i)")
      case True
      obtain tr w2 where "run_state (if tr_TTL (records ! i) \<noteq> recordTTLFromSpec spec
          then ra_UpdateRecord api \<lparr>ur_Zone = rs_Zone spec, ur_Domain = rs_Name spec, ur_Type = rs_Type spec,
                 ur_TTL = recordTTLFromSpec spec, ur_Value = setRecordValue zero_record_value spec\<rparr> else ok ()) w1 = (Inr (), w2)"
        and tr: "record_desired spec tr" "recs (ext w2) = (recs (ext w))(rs_Name spec := insert tr {x \<in> S. \<not> claims spec x})"
        using update_desired [of api spec recs ttl S w1 "records ! i"] laws ok(1) ttl wf w1 i True
        unfolding record_laws_def S_def by auto
      with stale [OF tr] run get Some True show ?thesis
        unfolding spec_def by (auto simp: applyRecord_def Let_def run_or_return)
    next
      case False
      then have "claims (appliedSpec rec) x \<longleftrightarrow> claims spec x" for x
        using i by (auto simp: claims_def spec_def)
      moreover obtain tr w2 where "run_state (or_return (tolerate ErrRecordNotFound (ra_DeleteRecord api (deleteOptionsFromCurrent spec (records ! i))))
          (\<lambda>_. tolerate ErrRecordAlreadyExists (ra_AddRecord api (addOptionsFromSpec spec)))) w1 = (Inr (), w2)"
        "record_desired spec tr" "recs (ext w2) = (recs (ext w))(rs_Name spec := insert tr {x \<in> S. \<not> claims spec x})"
        using recreate_desired [of api spec recs ttl S w1 "records ! i"] laws ok(1) ttl wf w1 i False co
        unfolding S_def by auto
      ultimately show ?thesis
        using run get Some False unfolding spec_def by (auto simp: applyRecord_def Let_def run_or_return rrset_apply_def)
    qed
  qed
  then obtain tr where tr: "record_desired spec tr"
    "recs (ext w') = (recs (ext w))(rs_Name spec := rrset_apply spec (appliedSpec rec) tr S)" by blast
  have "run_state (applyRecord api (record_applied_fields spec rec)) w' =
      (Inr (), snd (run_state (ra_GetRecords api (rs_Zone spec) (rs_Name spec)) w'))"
    using applyRecord_idle [of api "record_applied_fields spec rec" recs w' "appliedSpec rec" tr S] laws tr
    by (simp add: record_laws_def spec_def)
  with main tr rrset_apply_ok [OF ok(1) tr(1) wf] show ?thesis by (simp add: S_def)
qed


text \<open>A server that holds the records of one zone in memory, as an instance of the laws.\<close>

definition memory_call :: "('s \<Rightarrow> (go_error + 'a) \<times> 's) \<Rightarrow> ('s world, go_error + 'a) state" where
  "memory_call f = State (\<lambda>w. case f (ext w) of (r, s) \<Rightarrow> (r, w\<lparr>ext := s\<rparr>))"

definition memory_record :: "string \<Rightarrow> string \<Rightarrow> int \<Rightarrow> record_value \<Rightarrow> dns_record" where
  "memory_record d t ttl v = \<lparr>tr_Name = d, tr_Type = t, tr_TTL = ttl, tr_Disabled = False,
     tr_RData = \<lparr>rd_IPAddress = rv_IPAddress v, rd_CName = rv_CName v, rd_Text = rv_Text v, rd_NameServer = rv_NameServer v,
       rd_PtrName = rv_PtrName v, rd_Exchange = rv_Exchange v,
       rd_Preference = (case rv_Preference v of Some p \<Rightarrow> p | None \<Rightarrow> 0)\<rparr>\<rparr>"

definition memory_records :: "dns_record list \<Rightarrow> string \<Rightarrow> dns_record set" where
  "memory_records s d = {tr \<in> set s. tr_Name tr = d}"

definition memory_record_api :: "dns_record list record_api" where
  "memory_record_api = \<lparr>
     ra_AddRecord = (\<lambda>opts. memory_call (\<lambda>s.
       (Inr (), s @ [memory_record (ar_Domain opts) (ar_Type opts) (case ar_TTL opts of Some t \<Rightarrow> t | None \<Rightarrow> 3600) (ar_Value opts)]))),
     ra_GetRecords = (\<lambda>_ d. memory_call (\<lambda>s. (Inr (remdups (filter (\<lambda>tr. tr_Name tr = d) s)), s))),
     ra_UpdateRecord = (\<lambda>opts. memory_call (\<lambda>s. (Inr (), map (\<lambda>tr.
       if tr_Name tr = ur_Domain opts \<and> carries (ur_Type opts) (ur_Value opts) tr then tr\<lparr>tr_TTL := ur_TTL opts\<rparr> else tr) s))),
     ra_DeleteRecord = (\<lambda>opts. memory_call (\<lambda>s. (Inr (), filter (\<lambda>tr.
       \<not> (tr_Name tr = dr_Domain opts \<and> carries (dr_Type opts) (dr_Value opts) tr)) s)))\<rparr>"

lemma run_memory_call [simp]:
  "run_state (memory_call f) w = (fst (f (ext w)), w\<lparr>ext := snd (f (ext w))\<rparr>)"
  by (simp add: memory_call_def split: prod.split)

lemma carries_memory_record: "identifies t v \<Longrightarrow> carries t v (memory_record d t ttl v)"
  by (auto simp: identifies_def memory_record_def carries_def value_matches_def record_types_def)

lemma memory_record_laws: "record_laws memory_record_api zone memory_records"
  unfolding record_laws_def
proof (intro conjI)
  show "record_read_law memory_record_api zone memory_records"
    by (auto simp: record_read_law_def memory_record_api_def memory_records_def)
  show "record_add_law memory_record_api zone memory_records"
    unfolding record_add_law_def
  proof (intro allI impI)
    fix d t v ttl and w :: "dns_record list world" assume "identifies t v \<and> (\<forall>tr\<in>memory_records (ext w) d. \<not> carries t v tr) \<and>
      coexists t (memory_records (ext w) d) \<and> (t = RecordTypeCNAME \<longrightarrow> memory_records (ext w) d = {})"
    then show "\<exists>tr w'. run_state (ra_AddRecord memory_record_api \<lparr>ar_Zone = zone, ar_Domain = d, ar_Type = t, ar_TTL = Some ttl,
         ar_Value = v\<rparr>) w = (Inr (), w') \<and> carries t v tr \<and> tr_TTL tr = ttl \<and>
       memory_records (ext w') = (memory_records (ext w))(d := insert tr (memory_records (ext w) d))"
      by (intro exI [of _ "memory_record d t ttl v"])
        (auto simp: memory_record_api_def carries_memory_record memory_records_def fun_eq_iff; simp add: memory_record_def)
  qed
  show "record_update_law memory_record_api zone memory_records"
    by (auto simp: record_update_law_def memory_record_api_def memory_records_def fun_eq_iff image_iff)
  show "record_delete_law memory_record_api zone memory_records"
    by (auto simp: record_delete_law_def memory_record_api_def memory_records_def fun_eq_iff)
qed

text \<open>A Record whose address moved from .2 to .3, on a name that also has another Record's address .1.\<close>

definition address_record :: "string \<Rightarrow> dns_record" where
  "address_record ip = memory_record ''www.example.com'' ''A'' 3600 (zero_record_value\<lparr>rv_IPAddress := ip\<rparr>)"

definition moved_record :: record_resource where
  "moved_record = \<lparr>rec_meta = zero_meta\<lparr>om_Finalizers := [recordFinalizer], om_DeletionTimestamp := Some 1\<rparr>,
     rec_Spec = \<lparr>rs_ServerRef = \<lparr>sr_Name = ''dns'', sr_Namespace = []\<rparr>, rs_Zone = ''example.com'', rs_Name = ''www.example.com'',
       rs_Type = ''A'', rs_TTL = Some 300, rs_Data = ''10.0.0.3'', rs_Priority = None, rs_DeletionPolicy = ''Delete''\<rparr>,
     rec_Status = \<lparr>rst_Conditions = [], rst_ObservedGeneration = 1, rst_RecordCreated = True, rst_AppliedData = ''10.0.0.2'',
       rst_AppliedPriority = None\<rparr>\<rparr>"


section \<open>Deletion\<close>

text \<open>
  While the policy is not Orphan, a Record's finalizer is dropped only after the server confirmed
  the deletion, or reported it missing, of the value that was last applied, which is not the one in the
  spec when that has changed since; or when the cluster no longer exists.
\<close>

theorem record_finalizer_after_delete:
  assumes "finalizer_laws rt" and "recordFinalizer \<in> set (om_Finalizers (rec_meta rec))"
    and "rs_DeletionPolicy (rec_Spec rec) \<noteq> DeletionPolicyOrphan"
    and "run_state (finalizeRecord (record_production rt records clusters secrets ns) rec) w = (Inr (), w')"
  shows "(\<exists>c w1 w2 del. run_state (resolve clusters secrets ns (rs_ServerRef (rec_Spec rec))) w = (Inr c, w1) \<and>
      run_state (DeleteRecord rt c (deleteOptionsFromSpec (appliedSpec rec))) w1 = (del, w2) \<and> done_or ErrRecordNotFound del \<and>
      run_state (clear_finalizer (record_production rt records clusters secrets ns) record_shape rec) w2 = (Inr (), w')) \<or>
    (\<exists>e w1. run_state (resolve clusters secrets ns (rs_ServerRef (rec_Spec rec))) w = (Inl e, w1) \<and> IsNotFound e \<and>
      run_state (clear_finalizer (record_production rt records clusters secrets ns) record_shape rec) w1 = (Inr (), w'))"
  using record_controller.finalize_after_cleanup [OF _ _ _ assms(4) [unfolded finalizeRecord_def]] assms(1-3)
  unfolding production_sel record_cleanup_def run_tolerate client_record_api_sel record_shape_sel by blast

definition sample_records :: "('s, record_resource) kclient" where
  "sample_records = plain_kclient ''Record'' rec_meta (\<lambda>_. Inr moved_record)"

lemma sample_delete_record:
  "fst (run_state (DeleteRecord sample_runtime c (deleteOptionsFromSpec (appliedSpec moved_record))) w) = Inr ()"
  by (simp add: DeleteRecord_def recordParams_def setRecordValueParams_def deleteOptionsFromSpec_def appliedSpec_def moved_record_def
      setRecordValue_def zero_record_value_def record_type_defs do_ok_def run_or_return run_doRaw Let_def ok_server_def
      reply_result_def classifyStatus_def)

theorem record_finalizer_after_delete_witness:
  "\<exists>c w1 del w2. run_state (resolve sample_clusters sample_secrets ''ops'' sample_ref) (empty_world ()) = (Inr c, w1) \<and>
    run_state (DeleteRecord sample_runtime c \<lparr>dr_Zone = ''example.com'', dr_Domain = ''www.example.com'', dr_Type = ''A'',
      dr_Value = zero_record_value\<lparr>rv_IPAddress := ''10.0.0.2''\<rparr>\<rparr>) w1 = (del, w2) \<and> done_or ErrRecordNotFound del"
proof -
  let ?r = "record_production sample_runtime sample_records sample_clusters sample_secrets ''ops''"
  have moved: "recordFinalizer \<in> set (om_Finalizers (rec_meta moved_record))"
    "rs_DeletionPolicy (rec_Spec moved_record) \<noteq> DeletionPolicyOrphan" "rs_ServerRef (rec_Spec moved_record) = sample_ref"
    "deleteOptionsFromSpec (appliedSpec moved_record) = \<lparr>dr_Zone = ''example.com'', dr_Domain = ''www.example.com'', dr_Type = ''A'',
      dr_Value = zero_record_value\<lparr>rv_IPAddress := ''10.0.0.2''\<rparr>\<rparr>"
    by (simp_all add: moved_record_def DeletionPolicyOrphan_def sample_ref_def deleteOptionsFromSpec_def appliedSpec_def
        setRecordValue_def record_type_defs)
  obtain w1 where w1: "run_state (resolve sample_clusters sample_secrets ''ops'' sample_ref) (empty_world ()) = (Inr 0, w1)"
    using sample_resolve by blast
  obtain w2 where w2: "run_state (DeleteRecord sample_runtime 0 (deleteOptionsFromSpec (appliedSpec moved_record))) w1 = (Inr (), w2)"
    using sample_delete_record by (metis prod.collapse)
  have "\<exists>w'. run_state (finalizeRecord ?r moved_record) (empty_world ()) = (Inr (), w')"
    using moved w1 w2
    by (simp add: finalizeRecord_def finalize_resource_def serverClientFor_production record_cleanup_def tolerate_if_def
        clear_finalizer_def run_or_return run_ignore_result run_kube sample_records_def)
  then obtain w' where "run_state (finalizeRecord ?r moved_record) (empty_world ()) = (Inr (), w')" by blast
  from record_finalizer_after_delete [OF finalizer_laws_plain moved(1,2) this] show ?thesis
    unfolding moved(3,4) using w1 by auto
qed

end
