(* ===== verification/Dnssec_Controller.thy ===== *)
theory Dnssec_Controller
  imports Resource_Controller
begin

text \<open>
  The DNSSEC resource and its controller (\<^verbatim>\<open>api/v1alpha1/dnssec_types.go\<close>,
  \<^verbatim>\<open>internal/controller/dnssec_controller.go\<close>): an unsigned zone is signed, a deleted resource
  unsigns it.
\<close>

section \<open>The resource\<close>

record dnssec_spec =
  dns_ServerRef :: secret_reference
  dns_Zone :: string
  dns_Algorithm :: string
  dns_HashAlgorithm :: "string option"
  dns_KSKKeySize :: "int option"
  dns_ZSKKeySize :: "int option"
  dns_Curve :: "string option"
  dns_NSECType :: string
  dns_NSEC3Iterations :: "int option"
  dns_NSEC3SaltLength :: "int option"
  dns_DNSKeyTTL :: "int option"
  dns_ZSKRolloverDays :: "int option"
  dns_DeletionPolicy :: string

record dnssec_status =
  dnst_Conditions :: "condition list"
  dnst_ObservedGeneration :: int
  dnst_Signed :: bool

record dnssec_resource =
  dn_meta :: object_meta
  dn_Spec :: dnssec_spec
  dn_Status :: dnssec_status

section \<open>The reconciler\<close>

record 's dnssec_api =
  da_SignZone :: "sign_zone_options \<Rightarrow> ('s world, go_error + unit) state"
  da_UnsignZone :: "string \<Rightarrow> ('s world, go_error + unit) state"
  da_GetDNSSECProperties :: "string \<Rightarrow> ('s world, go_error + dnssec_properties) state"

definition client_dnssec_api :: "'s runtime \<Rightarrow> nat \<Rightarrow> 's dnssec_api" where
  "client_dnssec_api rt c = \<lparr>da_SignZone = SignZone rt c, da_UnsignZone = UnsignZone rt c,
     da_GetDNSSECProperties = GetDNSSECProperties rt c\<rparr>"

type_synonym 's dnssec_reconciler = "('s, dnssec_resource, 's dnssec_api) resource_reconciler"

definition dnssecFinalizer :: string where
  "dnssecFinalizer = ''dns.packet.fail/dnssec-cleanup''"

definition dnssec_shape :: "dnssec_resource resource_shape" where
  "dnssec_shape = \<lparr>sh_meta = dn_meta,
     sh_with_finalizers = (\<lambda>fs d. d\<lparr>dn_meta := (dn_meta d)\<lparr>om_Finalizers := fs\<rparr>\<rparr>),
     sh_conditions = (\<lambda>d. dnst_Conditions (dn_Status d)),
     sh_with_conditions = (\<lambda>cs d. d\<lparr>dn_Status := (dn_Status d)\<lparr>dnst_Conditions := cs\<rparr>\<rparr>),
     sh_finalizer = dnssecFinalizer,
     sh_ServerRef = (\<lambda>d. dns_ServerRef (dn_Spec d)),
     sh_DeletionPolicy = (\<lambda>d. dns_DeletionPolicy (dn_Spec d))\<rparr>"

definition signZoneOptionsFromSpec :: "dnssec_spec \<Rightarrow> sign_zone_options" where
  "signZoneOptionsFromSpec spec = \<lparr>sz_Zone = dns_Zone spec, sz_Algorithm = dns_Algorithm spec,
     sz_HashAlgorithm = dns_HashAlgorithm spec, sz_KSKKeySize = dns_KSKKeySize spec, sz_ZSKKeySize = dns_ZSKKeySize spec,
     sz_Curve = dns_Curve spec, sz_NxProof = (if dns_NSECType spec \<noteq> [] then Some (dns_NSECType spec) else None),
     sz_Iterations = dns_NSEC3Iterations spec, sz_SaltLength = dns_NSEC3SaltLength spec,
     sz_DNSKeyTTL = dns_DNSKeyTTL spec, sz_ZSKRolloverDays = dns_ZSKRolloverDays spec\<rparr>"

text \<open>\<^verbatim>\<open>reconcileDNSSEC\<close> once the server is resolved: whether the zone is signed.\<close>

definition applyDNSSEC :: "'s dnssec_api \<Rightarrow> dnssec_resource \<Rightarrow> ('s world, go_error + bool) state" where
  "applyDNSSEC api d =
     (let spec = dn_Spec d
      in or_return (da_GetDNSSECProperties api (dns_Zone spec)) (\<lambda>props.
           if dp_DNSSECStatus props = DNSSECStatusUnsigned
           then or_return (da_SignZone api (signZoneOptionsFromSpec spec)) (\<lambda>_. ok True)
           else ok True))"

definition reconcileDNSSEC :: "'s dnssec_reconciler \<Rightarrow> dnssec_resource \<Rightarrow> ('s world, go_error + bool) state" where
  "reconcileDNSSEC r d = or_return (serverClientFor r (dns_ServerRef (dn_Spec d))) (\<lambda>api. applyDNSSEC api d)"

text \<open>\<^verbatim>\<open>errors.AsType[*APIError]\<close>: the message of the API error an error is or wraps.\<close>

fun api_error_message :: "go_error \<Rightarrow> string option" where
  "api_error_message (APIError _ msg _) = Some msg"
| "api_error_message (ErrorWrap _ e _) = api_error_message e"
| "api_error_message _ = None"

definition isDNSSECZoneGone :: "go_error \<Rightarrow> bool" where
  "isDNSSECZoneGone err =
     (if errors_Is err ErrZoneNotFound then True
      else case api_error_message err of
        Some msg \<Rightarrow> (let lower = ToLower msg in Contains lower ''not signed'' \<or> Contains lower ''unsigned'')
      | None \<Rightarrow> False)"

definition dnssec_cleanup :: "'s dnssec_api \<Rightarrow> dnssec_resource \<Rightarrow> ('s world, go_error + unit) state" where
  "dnssec_cleanup api d = tolerate_if isDNSSECZoneGone (da_UnsignZone api (dns_Zone (dn_Spec d)))"

definition finalizeDNSSEC :: "'s dnssec_reconciler \<Rightarrow> dnssec_resource \<Rightarrow> ('s world, go_error + unit) state" where
  "finalizeDNSSEC r = finalize_resource r dnssec_shape dnssec_cleanup"

section \<open>Status and reconcile\<close>

definition dnssec_fields :: "bool \<Rightarrow> dnssec_resource \<Rightarrow> dnssec_resource" where
  "dnssec_fields signed d = d\<lparr>dn_Status := (dn_Status d)\<lparr>
     dnst_ObservedGeneration := om_Generation (dn_meta d), dnst_Signed := signed\<rparr>\<rparr>"

definition DNSSECReconciler_markReady :: "'s dnssec_reconciler \<Rightarrow> bool \<Rightarrow> object_key \<Rightarrow> ('s world, go_error + unit) state" where
  "DNSSECReconciler_markReady r signed =
     mark_ready r dnssec_shape ''DNSSECSigned'' ''Zone reconciled on the Technitium server'' (dnssec_fields signed)"

definition DNSSECReconciler_markDegraded :: "'s dnssec_reconciler \<Rightarrow> object_key \<Rightarrow> go_error \<Rightarrow> ('s world, go_error + unit) state" where
  "DNSSECReconciler_markDegraded r = mark_degraded r dnssec_shape"

definition DNSSECReconciler_Reconcile :: "'s dnssec_reconciler \<Rightarrow> object_key \<Rightarrow> ('s world, go_error + int) state" where
  "DNSSECReconciler_Reconcile r = reconcile_resource r dnssec_shape (finalizeDNSSEC r) applyDNSSEC
     (\<lambda>_ signed. DNSSECReconciler_markReady r signed)"

section \<open>Lemmas\<close>

lemma dnssec_shape_sel [simp]:
  "sh_meta dnssec_shape = dn_meta"
  "sh_with_finalizers dnssec_shape fs d = d\<lparr>dn_meta := (dn_meta d)\<lparr>om_Finalizers := fs\<rparr>\<rparr>"
  "sh_conditions dnssec_shape d = dnst_Conditions (dn_Status d)"
  "sh_with_conditions dnssec_shape cs d = d\<lparr>dn_Status := (dn_Status d)\<lparr>dnst_Conditions := cs\<rparr>\<rparr>"
  "sh_finalizer dnssec_shape = dnssecFinalizer"
  "sh_ServerRef dnssec_shape d = dns_ServerRef (dn_Spec d)"
  "sh_DeletionPolicy dnssec_shape d = dns_DeletionPolicy (dn_Spec d)"
  by (simp_all add: dnssec_shape_def)

lemma dnssec_shape_ok: "shape_ok dnssec_shape"
  by (simp add: shape_ok_def)

lemma client_dnssec_api_sel [simp]:
  "da_SignZone (client_dnssec_api rt c) = SignZone rt c"
  "da_UnsignZone (client_dnssec_api rt c) = UnsignZone rt c"
  "da_GetDNSSECProperties (client_dnssec_api rt c) = GetDNSSECProperties rt c"
  by (simp_all add: client_dnssec_api_def)

lemma dnssec_client_emits:
  "emits is_http (applyDNSSEC (client_dnssec_api rt c) d)" "emits is_http (dnssec_cleanup (client_dnssec_api rt c) d)"
  unfolding applyDNSSEC_def dnssec_cleanup_def Let_def client_dnssec_api_sel
  by (intro emits_rules emits_return emits_tolerate emits_dnssec_endpoints)+

abbreviation dnssec_production ::
  "'s runtime \<Rightarrow> ('s, dnssec_resource) kclient \<Rightarrow> ('s, technitium_cluster) kclient \<Rightarrow> ('s, secret) kclient \<Rightarrow> string
    \<Rightarrow> 's dnssec_reconciler" where
  "dnssec_production rt objects clusters secrets ns \<equiv> production rt objects clusters secrets ns (client_dnssec_api rt)"

interpretation dnssec_controller: resource_controller
    "dnssec_production rt objects clusters secrets ns" dnssec_shape dnssec_cleanup applyDNSSEC
    "\<lambda>_ signed. DNSSECReconciler_markReady (dnssec_production rt objects clusters secrets ns) signed"
  for rt :: "'s runtime" and objects clusters secrets ns
  by unfold_locales
    (simp_all add: dnssec_shape_ok dnssec_client_emits DNSSECReconciler_markReady_def emits_mark_resource)

section \<open>Convergence\<close>

text \<open>
  The DNSSEC status of the zones of a server: a read reports it; signing an unsigned zone gives it
  another status.
\<close>

definition dnssec_laws :: "'s dnssec_api \<Rightarrow> ('s \<Rightarrow> string \<Rightarrow> string option) \<Rightarrow> bool" where
  "dnssec_laws api status \<longleftrightarrow>
     (\<forall>zone st w. status (ext w) zone = Some st \<longrightarrow>
        (\<exists>props w'. run_state (da_GetDNSSECProperties api zone) w = (Inr props, w') \<and> dp_DNSSECStatus props = st \<and>
           status (ext w') = status (ext w))) \<and>
     (\<forall>opts w. status (ext w) (sz_Zone opts) = Some DNSSECStatusUnsigned \<longrightarrow>
        (\<exists>st w'. run_state (da_SignZone api opts) w = (Inr (), w') \<and> st \<noteq> DNSSECStatusUnsigned \<and>
           status (ext w') = (status (ext w))(sz_Zone opts \<mapsto> st)))"

lemma applyDNSSEC_signed:
  assumes "dnssec_laws api status" and "status (ext w) (dns_Zone (dn_Spec d)) = Some st" and "st \<noteq> DNSSECStatusUnsigned"
  shows "run_state (applyDNSSEC api d) w = (Inr True, snd (run_state (da_GetDNSSECProperties api (dns_Zone (dn_Spec d))) w)) \<and>
    status (ext (snd (run_state (applyDNSSEC api d) w))) = status (ext w)"
proof -
  obtain props w' where "run_state (da_GetDNSSECProperties api (dns_Zone (dn_Spec d))) w = (Inr props, w')"
    "dp_DNSSECStatus props = st" "status (ext w') = status (ext w)"
    using assms(1,2) unfolding dnssec_laws_def by blast
  with assms(3) show ?thesis by (simp add: applyDNSSEC_def Let_def run_or_return)
qed

text \<open>
  A zone is signed exactly once: a pass over an existing zone leaves it signed and every other
  zone as it was, and a zone that is signed, however it came to be, is only read.
\<close>

theorem applyDNSSEC_signs_once:
  assumes laws: "dnssec_laws api status" and zone: "status (ext w) (dns_Zone (dn_Spec d)) = Some st"
    and run: "run_state (applyDNSSEC api d) w = (r, w')"
  shows "r = Inr True \<and>
    (\<exists>st'. st' \<noteq> DNSSECStatusUnsigned \<and> status (ext w') = (status (ext w))(dns_Zone (dn_Spec d) \<mapsto> st')) \<and>
    (st \<noteq> DNSSECStatusUnsigned \<longrightarrow> w' = snd (run_state (da_GetDNSSECProperties api (dns_Zone (dn_Spec d))) w)) \<and>
    run_state (applyDNSSEC api d) w' = (Inr True, snd (run_state (da_GetDNSSECProperties api (dns_Zone (dn_Spec d))) w'))"
proof -
  have main: "r = Inr True \<and> (\<exists>st'. st' \<noteq> DNSSECStatusUnsigned \<and> status (ext w') = (status (ext w))(dns_Zone (dn_Spec d) \<mapsto> st')) \<and>
    (st \<noteq> DNSSECStatusUnsigned \<longrightarrow> w' = snd (run_state (da_GetDNSSECProperties api (dns_Zone (dn_Spec d))) w))"
  proof (cases "st = DNSSECStatusUnsigned")
    case True
    obtain props w1 where w1: "run_state (da_GetDNSSECProperties api (dns_Zone (dn_Spec d))) w = (Inr props, w1)"
      "dp_DNSSECStatus props = st" "status (ext w1) = status (ext w)"
      using laws zone unfolding dnssec_laws_def by blast
    have "status (ext w1) (sz_Zone (signZoneOptionsFromSpec (dn_Spec d))) = Some DNSSECStatusUnsigned"
      using w1 zone True by (simp add: signZoneOptionsFromSpec_def)
    then obtain st' w2 where "run_state (da_SignZone api (signZoneOptionsFromSpec (dn_Spec d))) w1 = (Inr (), w2)"
      "st' \<noteq> DNSSECStatusUnsigned" "status (ext w2) = (status (ext w1))(sz_Zone (signZoneOptionsFromSpec (dn_Spec d)) \<mapsto> st')"
      using laws unfolding dnssec_laws_def by blast
    with run w1 True show ?thesis by (auto simp: applyDNSSEC_def Let_def run_or_return signZoneOptionsFromSpec_def)
  next
    case False
    have "(status (ext w))(dns_Zone (dn_Spec d) \<mapsto> st) = status (ext w)" using zone by (auto simp: fun_upd_idem_iff)
    with applyDNSSEC_signed [OF laws zone False] run False show ?thesis by auto
  qed
  then obtain st' where "st' \<noteq> DNSSECStatusUnsigned" "status (ext w') (dns_Zone (dn_Spec d)) = Some st'" by (metis map_upd_Some_unfold)
  with main applyDNSSEC_signed [OF laws] show ?thesis by blast
qed

definition memory_dnssec_api :: "(string \<Rightarrow> string option) dnssec_api" where
  "memory_dnssec_api = \<lparr>da_SignZone = (\<lambda>opts. State (\<lambda>w. (Inr (), w\<lparr>ext := (ext w)(sz_Zone opts \<mapsto> ''SignedWithNSEC'')\<rparr>))),
     da_UnsignZone = (\<lambda>zone. State (\<lambda>w. (Inr (), w\<lparr>ext := (ext w)(zone \<mapsto> DNSSECStatusUnsigned)\<rparr>))),
     da_GetDNSSECProperties = (\<lambda>zone. State (\<lambda>w. (case ext w zone of
       Some st \<Rightarrow> Inr (zero_dnssec_properties\<lparr>dp_DNSSECStatus := st\<rparr>) | None \<Rightarrow> Inl ErrZoneNotFound, w)))\<rparr>"

definition sample_dnssec :: dnssec_resource where
  "sample_dnssec = \<lparr>dn_meta = zero_meta,
     dn_Spec = \<lparr>dns_ServerRef = sample_ref, dns_Zone = ''example.com'', dns_Algorithm = ''ECDSA'', dns_HashAlgorithm = None,
       dns_KSKKeySize = None, dns_ZSKKeySize = None, dns_Curve = Some ''P256'', dns_NSECType = ''NSEC'', dns_NSEC3Iterations = None,
       dns_NSEC3SaltLength = None, dns_DNSKeyTTL = None, dns_ZSKRolloverDays = None, dns_DeletionPolicy = ''Delete''\<rparr>,
     dn_Status = \<lparr>dnst_Conditions = [], dnst_ObservedGeneration = 0, dnst_Signed = False\<rparr>\<rparr>"

theorem applyDNSSEC_signs_once_witness:
  "\<exists>st'. st' \<noteq> ''Unsigned'' \<and> ext (snd (run_state (applyDNSSEC memory_dnssec_api sample_dnssec)
     (empty_world [''example.com'' \<mapsto> ''Unsigned'']))) = [''example.com'' \<mapsto> st']"
proof -
  have laws: "dnssec_laws memory_dnssec_api (\<lambda>s. s)"
    by (auto simp: dnssec_laws_def memory_dnssec_api_def DNSSECStatusUnsigned_def intro: exI [of _ "''SignedWithNSEC''"])
  have "ext (empty_world [''example.com'' \<mapsto> ''Unsigned'']) (dns_Zone (dn_Spec sample_dnssec)) = Some ''Unsigned''"
    by (simp add: empty_world_def sample_dnssec_def)
  from applyDNSSEC_signs_once [where status = "\<lambda>s. s", OF laws this prod.collapse [symmetric]] show ?thesis
    by (auto simp: DNSSECStatusUnsigned_def sample_dnssec_def empty_world_def)
qed

end
