(* ===== verification/App_Controller.thy ===== *)
theory App_Controller
  imports Resource_Controller
begin

text \<open>
  The DNSApp resource and its controller (\<^verbatim>\<open>api/v1alpha1/dnsapp_types.go\<close>,
  \<^verbatim>\<open>internal/controller/dnsapp_controller.go\<close>): an app is installed, updated to the wanted version
  and configured.
\<close>

section \<open>The resource\<close>

record dns_app_spec =
  as_ServerRef :: secret_reference
  as_AppName :: string
  as_URL :: string
  as_Version :: string
  as_Config :: string
  as_DeletionPolicy :: string

record dns_app_status =
  ast_Conditions :: "condition list"
  ast_ObservedGeneration :: int
  ast_InstalledVersion :: string

record dns_app =
  app_meta :: object_meta
  app_Spec :: dns_app_spec
  app_Status :: dns_app_status

section \<open>The reconciler\<close>

record 's dns_app_api =
  aa_ListApps :: "('s world, go_error + dns_app_info list) state"
  aa_DownloadAndInstallApp :: "string \<Rightarrow> string \<Rightarrow> ('s world, go_error + unit) state"
  aa_DownloadAndUpdateApp :: "string \<Rightarrow> string \<Rightarrow> ('s world, go_error + unit) state"
  aa_UninstallApp :: "string \<Rightarrow> ('s world, go_error + unit) state"
  aa_GetAppConfig :: "string \<Rightarrow> ('s world, go_error + string) state"
  aa_SetAppConfig :: "string \<Rightarrow> string \<Rightarrow> ('s world, go_error + unit) state"

definition client_app_api :: "'s runtime \<Rightarrow> nat \<Rightarrow> 's dns_app_api" where
  "client_app_api rt c = \<lparr>aa_ListApps = ListApps rt c, aa_DownloadAndInstallApp = DownloadAndInstallApp rt c,
     aa_DownloadAndUpdateApp = DownloadAndUpdateApp rt c, aa_UninstallApp = UninstallApp rt c,
     aa_GetAppConfig = GetAppConfig rt c, aa_SetAppConfig = SetAppConfig rt c\<rparr>"

type_synonym 's dns_app_reconciler = "('s, dns_app, 's dns_app_api) resource_reconciler"

definition dnsAppFinalizer :: string where
  "dnsAppFinalizer = ''dns.packet.fail/dnsapp-cleanup''"

definition app_shape :: "dns_app resource_shape" where
  "app_shape = \<lparr>sh_meta = app_meta,
     sh_with_finalizers = (\<lambda>fs a. a\<lparr>app_meta := (app_meta a)\<lparr>om_Finalizers := fs\<rparr>\<rparr>),
     sh_conditions = (\<lambda>a. ast_Conditions (app_Status a)),
     sh_with_conditions = (\<lambda>cs a. a\<lparr>app_Status := (app_Status a)\<lparr>ast_Conditions := cs\<rparr>\<rparr>),
     sh_finalizer = dnsAppFinalizer,
     sh_ServerRef = (\<lambda>a. as_ServerRef (app_Spec a)),
     sh_DeletionPolicy = (\<lambda>a. as_DeletionPolicy (app_Spec a))\<rparr>"

definition findAppByName :: "dns_app_info list \<Rightarrow> string \<Rightarrow> dns_app_info option" where
  "findAppByName apps name = find (\<lambda>a. ai_Name a = name) apps"

definition reconcileConfig :: "'s dns_app_api \<Rightarrow> dns_app_spec \<Rightarrow> ('s world, go_error + unit) state" where
  "reconcileConfig api spec =
     (if as_Config spec = [] then ok ()
      else or_return (aa_GetAppConfig api (as_AppName spec)) (\<lambda>current.
        if current = as_Config spec then ok ()
        else aa_SetAppConfig api (as_AppName spec) (as_Config spec)))"

text \<open>The first part of \<^verbatim>\<open>reconcileDNSApp\<close>: install or update, and the app as it is listed afterwards.\<close>

definition install_or_update :: "'s dns_app_api \<Rightarrow> dns_app_spec \<Rightarrow> dns_app_info option \<Rightarrow> ('s world, go_error + dns_app_info option) state" where
  "install_or_update api spec current =
     (let relist = or_return (aa_ListApps api) (\<lambda>apps. ok (findAppByName apps (as_AppName spec)))
      in case current of
           None \<Rightarrow>
             or_return (tolerate ErrAppAlreadyInstalled (aa_DownloadAndInstallApp api (as_AppName spec) (as_URL spec))) (\<lambda>_. relist)
         | Some a \<Rightarrow>
             if as_Version spec \<noteq> [] \<and> ai_Version a \<noteq> as_Version spec
             then or_return (aa_DownloadAndUpdateApp api (as_AppName spec) (as_URL spec)) (\<lambda>_. relist)
             else ok (Some a))"

definition applyDNSApp :: "'s dns_app_api \<Rightarrow> dns_app \<Rightarrow> ('s world, go_error + string) state" where
  "applyDNSApp api app =
     (let spec = app_Spec app
      in or_return (aa_ListApps api) (\<lambda>apps.
         or_return (install_or_update api spec (findAppByName apps (as_AppName spec))) (\<lambda>current.
         or_return (reconcileConfig api spec) (\<lambda>_.
           case current of
             None \<Rightarrow> fail (ErrorText (''technitium: app '' @ Quote (as_AppName spec) @ '' not found in app list after install''))
           | Some a \<Rightarrow> ok (ai_Version a)))))"

definition reconcileDNSApp :: "'s dns_app_reconciler \<Rightarrow> dns_app \<Rightarrow> ('s world, go_error + string) state" where
  "reconcileDNSApp r app = or_return (serverClientFor r (as_ServerRef (app_Spec app))) (\<lambda>api. applyDNSApp api app)"

definition app_cleanup :: "'s dns_app_api \<Rightarrow> dns_app \<Rightarrow> ('s world, go_error + unit) state" where
  "app_cleanup api app = tolerate ErrAppNotInstalled (aa_UninstallApp api (as_AppName (app_Spec app)))"

definition finalizeDNSApp :: "'s dns_app_reconciler \<Rightarrow> dns_app \<Rightarrow> ('s world, go_error + unit) state" where
  "finalizeDNSApp r = finalize_resource r app_shape app_cleanup"

section \<open>Status and reconcile\<close>

definition app_fields :: "string \<Rightarrow> dns_app \<Rightarrow> dns_app" where
  "app_fields installedVersion app = app\<lparr>app_Status := (app_Status app)\<lparr>
     ast_ObservedGeneration := om_Generation (app_meta app), ast_InstalledVersion := installedVersion\<rparr>\<rparr>"

definition DNSAppReconciler_markReady :: "'s dns_app_reconciler \<Rightarrow> string \<Rightarrow> object_key \<Rightarrow> ('s world, go_error + unit) state" where
  "DNSAppReconciler_markReady r installedVersion =
     mark_ready r app_shape ''DNSAppInstalled'' ''DNS App reconciled on the Technitium server'' (app_fields installedVersion)"

definition DNSAppReconciler_markDegraded :: "'s dns_app_reconciler \<Rightarrow> object_key \<Rightarrow> go_error \<Rightarrow> ('s world, go_error + unit) state" where
  "DNSAppReconciler_markDegraded r = mark_degraded r app_shape"

definition DNSAppReconciler_Reconcile :: "'s dns_app_reconciler \<Rightarrow> object_key \<Rightarrow> ('s world, go_error + int) state" where
  "DNSAppReconciler_Reconcile r = reconcile_resource r app_shape (finalizeDNSApp r) applyDNSApp
     (\<lambda>_ installedVersion. DNSAppReconciler_markReady r installedVersion)"

section \<open>Lemmas\<close>

lemma app_shape_sel [simp]:
  "sh_meta app_shape = app_meta"
  "sh_with_finalizers app_shape fs a = a\<lparr>app_meta := (app_meta a)\<lparr>om_Finalizers := fs\<rparr>\<rparr>"
  "sh_conditions app_shape a = ast_Conditions (app_Status a)"
  "sh_with_conditions app_shape cs a = a\<lparr>app_Status := (app_Status a)\<lparr>ast_Conditions := cs\<rparr>\<rparr>"
  "sh_finalizer app_shape = dnsAppFinalizer"
  "sh_ServerRef app_shape a = as_ServerRef (app_Spec a)"
  "sh_DeletionPolicy app_shape a = as_DeletionPolicy (app_Spec a)"
  by (simp_all add: app_shape_def)

lemma app_shape_ok: "shape_ok app_shape"
  by (simp add: shape_ok_def)

lemma client_app_api_sel [simp]:
  "aa_ListApps (client_app_api rt c) = ListApps rt c"
  "aa_DownloadAndInstallApp (client_app_api rt c) = DownloadAndInstallApp rt c"
  "aa_DownloadAndUpdateApp (client_app_api rt c) = DownloadAndUpdateApp rt c"
  "aa_UninstallApp (client_app_api rt c) = UninstallApp rt c"
  "aa_GetAppConfig (client_app_api rt c) = GetAppConfig rt c"
  "aa_SetAppConfig (client_app_api rt c) = SetAppConfig rt c"
  by (simp_all add: client_app_api_def)

lemma app_client_emits:
  "emits is_http (applyDNSApp (client_app_api rt c) app)" "emits is_http (app_cleanup (client_app_api rt c) app)"
  unfolding applyDNSApp_def install_or_update_def reconcileConfig_def app_cleanup_def Let_def client_app_api_sel
  by (intro emits_rules emits_return emits_tolerate emits_app_endpoints)+

abbreviation app_production ::
  "'s runtime \<Rightarrow> ('s, dns_app) kclient \<Rightarrow> ('s, technitium_cluster) kclient \<Rightarrow> ('s, secret) kclient \<Rightarrow> string
    \<Rightarrow> 's dns_app_reconciler" where
  "app_production rt objects clusters secrets ns \<equiv> production rt objects clusters secrets ns (client_app_api rt)"

interpretation app_controller: resource_controller
    "app_production rt objects clusters secrets ns" app_shape app_cleanup applyDNSApp
    "\<lambda>_ installedVersion. DNSAppReconciler_markReady (app_production rt objects clusters secrets ns) installedVersion"
  for rt :: "'s runtime" and objects clusters secrets ns
  by unfold_locales
    (simp_all add: app_shape_ok app_client_emits DNSAppReconciler_markReady_def emits_mark_resource)

section \<open>Convergence\<close>

text \<open>
  The apps of a server, each with its version and configuration, as the client documents them. Any call may fail, and a
  call concerns only the app it names. A listing that succeeds reports the apps. \<open>package\<close> is the package behind
  a URL, with its version and first configuration: an installation that succeeds installs it, an update that succeeds brings its version and
  keeps the configuration. An installation is refused with \<^verbatim>\<open>ErrAppAlreadyInstalled\<close> only for an app that
  is installed. Reading the configuration of an installed app reports it; writing it either replaces it or is
  refused, as for a configuration the app does not accept.
\<close>

type_synonym apps = "string \<Rightarrow> (string \<times> string) option"

definition app_list_law :: "'s dns_app_api \<Rightarrow> ('s \<Rightarrow> apps) \<Rightarrow> bool" where
  "app_list_law api apps \<longleftrightarrow>
     (\<forall>w res w'. run_state (aa_ListApps api) w = (res, w') \<longrightarrow> apps (ext w') = apps (ext w) \<and>
        (\<forall>l n. res = Inr l \<longrightarrow> map_option ai_Version (findAppByName l n) = map_option fst (apps (ext w) n)))"

definition app_write_law :: "'s dns_app_api \<Rightarrow> ('s \<Rightarrow> apps) \<Rightarrow> (string \<Rightarrow> string \<times> string) \<Rightarrow> bool" where
  "app_write_law api apps package \<longleftrightarrow>
     (\<forall>n url w res w'. run_state (aa_DownloadAndInstallApp api n url) w = (res, w') \<longrightarrow>
        (\<forall>m. m \<noteq> n \<longrightarrow> apps (ext w') m = apps (ext w) m) \<and>
        (res = Inr () \<and> apps (ext w) n = None \<longrightarrow> apps (ext w') n = Some (package url)) \<and>
        (\<forall>e. res = Inl e \<and> errors_Is e ErrAppAlreadyInstalled \<longrightarrow> apps (ext w) n \<noteq> None)) \<and>
     (\<forall>n url w res w'. run_state (aa_DownloadAndUpdateApp api n url) w = (res, w') \<longrightarrow>
        (\<forall>m. m \<noteq> n \<longrightarrow> apps (ext w') m = apps (ext w) m) \<and>
        (\<forall>v c. res = Inr () \<and> apps (ext w) n = Some (v, c) \<longrightarrow> apps (ext w') n = Some (fst (package url), c)))"

definition app_config_law :: "'s dns_app_api \<Rightarrow> ('s \<Rightarrow> apps) \<Rightarrow> bool" where
  "app_config_law api apps \<longleftrightarrow>
     (\<forall>n w res w'. run_state (aa_GetAppConfig api n) w = (res, w') \<longrightarrow> apps (ext w') = apps (ext w) \<and>
        (\<forall>v c cfg. res = Inr cfg \<and> apps (ext w) n = Some (v, c) \<longrightarrow> cfg = c)) \<and>
     (\<forall>n cfg w res w'. run_state (aa_SetAppConfig api n cfg) w = (res, w') \<longrightarrow>
        (\<forall>m. m \<noteq> n \<longrightarrow> apps (ext w') m = apps (ext w) m) \<and>
        (\<forall>v c. res = Inr () \<and> apps (ext w) n = Some (v, c) \<longrightarrow> apps (ext w') n = Some (v, cfg)))"

lemma app_list_lawD:
  assumes "app_list_law api apps"
  shows "run_state (aa_ListApps api) w = (res, w') \<Longrightarrow> apps (ext w') = apps (ext w)"
    and "run_state (aa_ListApps api) w = (Inr l, w') \<Longrightarrow> map_option ai_Version (findAppByName l n) = map_option fst (apps (ext w) n)"
  using assms unfolding app_list_law_def by blast+

lemma app_write_lawD:
  assumes "app_write_law api apps package"
  shows "run_state (aa_DownloadAndInstallApp api n url) w = (res, w') \<Longrightarrow> m \<noteq> n \<Longrightarrow> apps (ext w') m = apps (ext w) m"
    and "run_state (aa_DownloadAndInstallApp api n url) w = (Inr (), w') \<Longrightarrow> apps (ext w) n = None \<Longrightarrow> apps (ext w') n = Some (package url)"
    and "run_state (aa_DownloadAndInstallApp api n url) w = (Inl e, w') \<Longrightarrow> errors_Is e ErrAppAlreadyInstalled \<Longrightarrow> apps (ext w) n \<noteq> None"
    and "run_state (aa_DownloadAndUpdateApp api n url) w = (res, w') \<Longrightarrow> m \<noteq> n \<Longrightarrow> apps (ext w') m = apps (ext w) m"
    and "run_state (aa_DownloadAndUpdateApp api n url) w = (Inr (), w') \<Longrightarrow> apps (ext w) n = Some (v, c) \<Longrightarrow>
      apps (ext w') n = Some (fst (package url), c)"
  using assms unfolding app_write_law_def by metis+

lemma app_config_lawD:
  assumes "app_config_law api apps"
  shows "run_state (aa_GetAppConfig api n) w = (res, w') \<Longrightarrow> apps (ext w') = apps (ext w)"
    and "run_state (aa_GetAppConfig api n) w = (Inr cfg, w') \<Longrightarrow> apps (ext w) n = Some (v, c) \<Longrightarrow> cfg = c"
    and "run_state (aa_SetAppConfig api n cfg) w = (sres, w') \<Longrightarrow> m \<noteq> n \<Longrightarrow> apps (ext w') m = apps (ext w) m"
    and "run_state (aa_SetAppConfig api n cfg) w = (Inr (), w') \<Longrightarrow> apps (ext w) n = Some (v, c) \<Longrightarrow> apps (ext w') n = Some (v, cfg)"
  using assms unfolding app_config_law_def by blast+

text \<open>The app a spec asks for, from what is installed.\<close>

definition app_wanted :: "(string \<Rightarrow> string \<times> string) \<Rightarrow> dns_app_spec \<Rightarrow> (string \<times> string) option \<Rightarrow> string \<times> string" where
  "app_wanted package spec before =
     (case before of
        None \<Rightarrow> package (as_URL spec)
      | Some (v, c) \<Rightarrow> (if as_Version spec = [] \<or> as_Version spec = v then v else fst (package (as_URL spec)), c))"

lemma reconcileConfig_effect:
  assumes laws: "app_config_law api apps" and here: "apps (ext w) (as_AppName spec) = Some (v, c)"
    and run: "run_state (reconcileConfig api spec) w = (res, w')"
  shows "m \<noteq> as_AppName spec \<Longrightarrow> apps (ext w') m = apps (ext w) m"
    and "res = Inr () \<Longrightarrow> apps (ext w') (as_AppName spec) = Some (v, if as_Config spec = [] then c else as_Config spec)"
    and "as_Config spec = [] \<or> as_Config spec = c \<Longrightarrow> apps (ext w') = apps (ext w)"
proof -
  note law = app_config_lawD [OF laws]
  obtain got w1 where got: "run_state (aa_GetAppConfig api (as_AppName spec)) w = (got, w1)" by fastforce
  obtain set w2 where set: "run_state (aa_SetAppConfig api (as_AppName spec) (as_Config spec)) w1 = (set, w2)" by fastforce
  have same: "apps (ext w1) = apps (ext w)" and read: "got = Inr cfg \<Longrightarrow> cfg = c" for cfg
    using law(1,2) got here by blast+
  have cases: "(as_Config spec = [] \<and> res = Inr () \<and> w' = w) \<or> (\<exists>e. as_Config spec \<noteq> [] \<and> res = Inl e \<and> w' = w1) \<or>
    (as_Config spec \<noteq> [] \<and> as_Config spec = c \<and> res = Inr () \<and> w' = w1) \<or>
    (as_Config spec \<noteq> [] \<and> as_Config spec \<noteq> c \<and> res = set \<and> w' = w2)"
    using run got set read by (cases got) (auto simp: reconcileConfig_def run_or_return split: if_splits)
  have written: "m \<noteq> as_AppName spec \<Longrightarrow> apps (ext w2) m = apps (ext w) m"
    "set = Inr () \<Longrightarrow> apps (ext w2) (as_AppName spec) = Some (v, as_Config spec)" for m
    using law(3,4) set same here by metis+
  show "m \<noteq> as_AppName spec \<Longrightarrow> apps (ext w') m = apps (ext w) m"
    using cases same written(1) by auto
  show "res = Inr () \<Longrightarrow> apps (ext w') (as_AppName spec) = Some (v, if as_Config spec = [] then c else as_Config spec)"
    using cases same here written(2) by auto
  show "as_Config spec = [] \<or> as_Config spec = c \<Longrightarrow> apps (ext w') = apps (ext w)"
    using cases same by auto
qed

lemma relist_effect:
  assumes "app_list_law api apps" and "apps (ext w) n = Some vc"
    and "run_state (or_return (aa_ListApps api) (\<lambda>l. ok (findAppByName l n))) w = (res, w')"
  shows "apps (ext w') = apps (ext w)" and "res = Inr cur \<Longrightarrow> \<exists>a. cur = Some a \<and> ai_Version a = fst vc"
proof -
  note law = app_list_lawD [OF assms(1)]
  obtain got w1 where got: "run_state (aa_ListApps api) w = (got, w1)" by fastforce
  show "apps (ext w') = apps (ext w)"
    using assms(3) got law(1) [OF got] by (cases got) (auto simp: run_or_return)
  show "res = Inr cur \<Longrightarrow> \<exists>a. cur = Some a \<and> ai_Version a = fst vc"
    using assms(2,3) got law(2) [of w _ w1 n] by (cases got) (auto simp: run_or_return)
qed

lemma install_or_update_effect:
  assumes list: "app_list_law api apps" and laws: "app_write_law api apps package"
    and current: "map_option ai_Version current = map_option fst (apps (ext w) (as_AppName spec))"
    and run: "run_state (install_or_update api spec current) w = (res, w')"
  defines "wanted \<equiv> app_wanted package spec (apps (ext w) (as_AppName spec))"
  shows "(\<forall>m. m \<noteq> as_AppName spec \<longrightarrow> apps (ext w') m = apps (ext w) m) \<and>
    (\<forall>cur. res = Inr cur \<longrightarrow> apps (ext w') (as_AppName spec) = Some wanted \<and> (\<exists>a. cur = Some a \<and> ai_Version a = fst wanted))"
proof (cases "apps (ext w) (as_AppName spec)")
  case None
  note law = app_write_lawD [OF laws]
  let ?n = "as_AppName spec"
  obtain ins w1 where ins: "run_state (aa_DownloadAndInstallApp api ?n (as_URL spec)) w = (ins, w1)" by fastforce
  have frame: "m \<noteq> ?n \<Longrightarrow> apps (ext w1) m = apps (ext w) m" for m by (rule law(1) [OF ins])
  show ?thesis
  proof (cases ins)
    case (Inl e)
    with law(3) ins None have "\<not> errors_Is e ErrAppAlreadyInstalled" by blast
    with Inl ins run current None have "res = Inl e" "w' = w1"
      by (auto simp: install_or_update_def Let_def run_or_return tolerate_if_def)
    with frame show ?thesis by simp
  next
    case (Inr u)
    then have now: "apps (ext w1) ?n = Some (package (as_URL spec))" using law(2) ins None by simp
    have "run_state (or_return (aa_ListApps api) (\<lambda>l. ok (findAppByName l ?n))) w1 = (res, w')"
      using Inr ins run current None by (auto simp: install_or_update_def Let_def run_or_return tolerate_if_def)
    from relist_effect [OF list now this] now frame None show ?thesis by (simp add: wanted_def app_wanted_def)
  qed
next
  case (Some vc)
  note law = app_write_lawD [OF laws]
  let ?n = "as_AppName spec"
  obtain v c where vc: "vc = (v, c)" by fastforce
  with Some current obtain a where a: "current = Some a" "ai_Version a = v" by auto
  show ?thesis
  proof (cases "as_Version spec = [] \<or> as_Version spec = v")
    case True
    with run a have "res = Inr (Some a)" "w' = w" by (auto simp: install_or_update_def Let_def)
    with True Some vc a show ?thesis by (auto simp: wanted_def app_wanted_def)
  next
    case False
    obtain upd w1 where upd: "run_state (aa_DownloadAndUpdateApp api ?n (as_URL spec)) w = (upd, w1)" by fastforce
    have frame: "m \<noteq> ?n \<Longrightarrow> apps (ext w1) m = apps (ext w) m" for m by (rule law(4) [OF upd])
    show ?thesis
    proof (cases upd)
      case (Inl e)
      with False upd run a have "res = Inl e" "w' = w1" by (auto simp: install_or_update_def Let_def run_or_return)
      with frame show ?thesis by simp
    next
      case (Inr u)
      then have now: "apps (ext w1) ?n = Some (fst (package (as_URL spec)), c)" using law(5) upd Some vc by simp
      have "run_state (or_return (aa_ListApps api) (\<lambda>l. ok (findAppByName l ?n))) w1 = (res, w')"
        using False Inr upd run a by (auto simp: install_or_update_def Let_def run_or_return)
      from relist_effect [OF list now this] now frame Some vc False show ?thesis by (simp add: wanted_def app_wanted_def)
    qed
  qed
qed

lemma applyDNSApp_cases:
  assumes list: "app_list_law api apps" and writes: "app_write_law api apps package" and config: "app_config_law api apps"
    and run: "run_state (applyDNSApp api app) w = (r, w')"
  defines "spec \<equiv> app_Spec app"
  defines "n \<equiv> as_AppName spec"
  defines "wanted \<equiv> app_wanted package spec (apps (ext w) n)"
  shows "m \<noteq> n \<Longrightarrow> apps (ext w') m = apps (ext w) m"
    and "r = Inr v \<Longrightarrow> v = fst wanted \<and>
      apps (ext w') n = Some (v, if as_Config spec = [] then snd wanted else as_Config spec)"
    and "apps (ext w) n = Some (v0, c0) \<Longrightarrow> as_Version spec = [] \<or> as_Version spec = v0 \<Longrightarrow> as_Config spec = [] \<or> as_Config spec = c0 \<Longrightarrow>
      apps (ext w') = apps (ext w)"
proof -
  obtain lres w1 where l: "run_state (aa_ListApps api) w = (lres, w1)" by fastforce
  have same: "apps (ext w1) = apps (ext w)" by (rule app_list_lawD(1) [OF list l])
  have "(m \<noteq> n \<longrightarrow> apps (ext w') m = apps (ext w) m) \<and>
    (r = Inr v \<longrightarrow> v = fst wanted \<and> apps (ext w') n = Some (v, if as_Config spec = [] then snd wanted else as_Config spec)) \<and>
    (apps (ext w) n = Some (v0, c0) \<and> (as_Version spec = [] \<or> as_Version spec = v0) \<and> (as_Config spec = [] \<or> as_Config spec = c0) \<longrightarrow>
      apps (ext w') = apps (ext w))" for m v v0 c0
  proof (cases lres)
    case (Inl e)
    with run l have "r = Inl e" "w' = w1" by (simp_all add: applyDNSApp_def Let_def run_or_return)
    with same show ?thesis by auto
  next
    case (Inr apps_list)
    obtain ires w2 where inst: "run_state (install_or_update api spec (findAppByName apps_list n)) w1 = (ires, w2)" by fastforce
    have current: "map_option ai_Version (findAppByName apps_list n) = map_option fst (apps (ext w1) (as_AppName spec))"
      using app_list_lawD(2) [OF list, of w apps_list w1 n] l Inr same by (simp add: n_def)
    note effect = install_or_update_effect [OF list writes current inst, folded n_def, unfolded same, folded wanted_def]
    have quiet: "apps (ext w2) = apps (ext w)" if "apps (ext w) n = Some (v0, c0)" "as_Version spec = [] \<or> as_Version spec = v0"
    proof -
      from current that(1) same obtain a where "findAppByName apps_list n = Some a" "ai_Version a = v0" by (auto simp: n_def)
      with inst that(2) have "w2 = w1" by (auto simp: install_or_update_def Let_def)
      with same show ?thesis by simp
    qed
    show ?thesis
    proof (cases ires)
      case (Inl e)
      with run l Inr inst have "r = Inl e" "w' = w2" by (auto simp: applyDNSApp_def Let_def run_or_return spec_def n_def)
      with effect quiet show ?thesis by auto
    next
      case cur: (Inr cur)
      then obtain a where a: "cur = Some a" "ai_Version a = fst wanted" and now: "apps (ext w2) n = Some wanted"
        using effect by blast
      obtain cres w3 where conf: "run_state (reconcileConfig api spec) w2 = (cres, w3)" by fastforce
      have "apps (ext w2) (as_AppName spec) = Some (fst wanted, snd wanted)" using now by (simp add: n_def)
      note conf_effect = reconcileConfig_effect [OF config this conf, folded n_def]
      have out: "w' = w3" "r = (case cres of Inl e \<Rightarrow> Inl e | Inr _ \<Rightarrow> Inr (ai_Version a))"
        using run l Inr inst cur conf a by (auto simp: applyDNSApp_def Let_def run_or_return spec_def n_def split: sum.splits)
      have "apps (ext w') m = apps (ext w) m" if "m \<noteq> n"
        using conf_effect(1) [OF that] effect that out(1) by simp
      moreover have "v = fst wanted \<and> apps (ext w') n = Some (v, if as_Config spec = [] then snd wanted else as_Config spec)" if "r = Inr v"
        using conf_effect(2) out a(2) that by (cases cres) auto
      moreover have "apps (ext w') = apps (ext w)" if settled: "apps (ext w) n = Some (v0, c0)" "as_Version spec = [] \<or> as_Version spec = v0"
          "as_Config spec = [] \<or> as_Config spec = c0"
      proof -
        have "snd wanted = c0" using settled(1) by (simp add: wanted_def app_wanted_def)
        with conf_effect(3) quiet [OF settled(1,2)] settled(3) out(1) show ?thesis by metis
      qed
      ultimately show ?thesis by blast
    qed
  qed
  then show "m \<noteq> n \<Longrightarrow> apps (ext w') m = apps (ext w) m"
    and "r = Inr v \<Longrightarrow> v = fst wanted \<and> apps (ext w') n = Some (v, if as_Config spec = [] then snd wanted else as_Config spec)"
    and "apps (ext w) n = Some (v0, c0) \<Longrightarrow> as_Version spec = [] \<or> as_Version spec = v0 \<Longrightarrow> as_Config spec = [] \<or> as_Config spec = c0 \<Longrightarrow>
      apps (ext w') = apps (ext w)" by blast+
qed

text \<open>Calls that all succeed make a pass succeed.\<close>

lemma not_isl_run: "\<not> isl (fst p) \<Longrightarrow> \<exists>a w. p = (Inr a, w)"
  by (cases p; cases "fst p") auto

lemma applyDNSApp_succeeds:
  assumes list: "app_list_law api apps" and writes: "app_write_law api apps package" and config: "app_config_law api apps"
    and up: "\<And>u. \<not> isl (fst (run_state (aa_ListApps api) u))"
      "\<And>u. apps (ext u) (as_AppName (app_Spec app)) = None \<Longrightarrow>
        \<not> isl (fst (run_state (aa_DownloadAndInstallApp api (as_AppName (app_Spec app)) (as_URL (app_Spec app))) u))"
      "\<And>u. apps (ext u) (as_AppName (app_Spec app)) \<noteq> None \<Longrightarrow>
        \<not> isl (fst (run_state (aa_DownloadAndUpdateApp api (as_AppName (app_Spec app)) (as_URL (app_Spec app))) u)) \<and>
        \<not> isl (fst (run_state (aa_GetAppConfig api (as_AppName (app_Spec app))) u)) \<and>
        \<not> isl (fst (run_state (aa_SetAppConfig api (as_AppName (app_Spec app)) (as_Config (app_Spec app))) u))"
  shows "\<not> isl (fst (run_state (applyDNSApp api app) w))"
proof -
  let ?spec = "app_Spec app" and ?n = "as_AppName (app_Spec app)"
  obtain l w1 where l: "run_state (aa_ListApps api) w = (Inr l, w1)"
    using not_isl_run [OF up(1)] by blast
  have current: "map_option ai_Version (findAppByName l ?n) = map_option fst (apps (ext w1) ?n)"
    using app_list_lawD [OF list] l by metis
  have relist: "\<not> isl (fst (run_state (or_return (aa_ListApps api) (\<lambda>l. ok (findAppByName l ?n))) u))" for u
    using up(1) [of u] by (auto simp: run_or_return split: prod.splits sum.splits)
  obtain ires w2 where inst: "run_state (install_or_update api ?spec (findAppByName l ?n)) w1 = (ires, w2)" by fastforce
  have "\<not> isl ires"
  proof (cases "apps (ext w1) ?n")
    case None
    then obtain u wi where "run_state (aa_DownloadAndInstallApp api ?n (as_URL ?spec)) w1 = (Inr u, wi)"
      using not_isl_run [OF up(2)] by blast
    with inst current None have "run_state (or_return (aa_ListApps api) (\<lambda>l. ok (findAppByName l ?n))) wi = (ires, w2)"
      by (simp add: install_or_update_def Let_def run_or_return tolerate_if_def)
    with relist [of wi] show ?thesis by simp
  next
    case (Some vc)
    then obtain a where "findAppByName l ?n = Some a" using current by auto
    moreover obtain u wi where "run_state (aa_DownloadAndUpdateApp api ?n (as_URL ?spec)) w1 = (Inr u, wi)"
      using not_isl_run up(3) [of w1] Some by blast
    ultimately have "ires = Inr (Some a) \<or> run_state (or_return (aa_ListApps api) (\<lambda>l. ok (findAppByName l ?n))) wi = (ires, w2)"
      using inst by (auto simp: install_or_update_def Let_def run_or_return split: if_splits)
    with relist [of wi] show ?thesis by auto
  qed
  then obtain cur where cur: "ires = Inr cur" by (cases ires) auto
  with install_or_update_effect [OF list writes current inst] obtain a vc where a: "cur = Some a" and now: "apps (ext w2) ?n = Some vc" by blast
  obtain got w3 where got: "run_state (aa_GetAppConfig api ?n) w2 = (got, w3)" by fastforce
  have "apps (ext w3) ?n = Some vc" using app_config_lawD(1) [OF config got] now by simp
  with up(3) [of w2] up(3) [of w3] now got have "\<not> isl (fst (run_state (reconcileConfig api ?spec) w2))"
    by (auto simp: reconcileConfig_def run_or_return split: sum.splits)
  then obtain w4 where "run_state (reconcileConfig api ?spec) w2 = (Inr (), w4)"
    using not_isl_run by fastforce
  with l inst cur a show ?thesis by (simp add: applyDNSApp_def Let_def run_or_return)
qed

text \<open>
  (C34) A pass of the DNSApp controller that succeeds leaves the app installed and returns the version that is then on the
  server: that of the package at the URL, if the app was missing or another version than the one found is wanted, and
  the one found otherwise. The configuration is the spec's if it has one, else the one found, or that of the package for a new
  app. Whether or not a pass succeeds, every other app is as it was. If that version is the wanted one or none is wanted, any further pass
  changes nothing. A pass succeeds if the server answers its reads, installs the package where
  the app is missing, updates it where it is installed, and accepts the configuration.
\<close>

theorem applyDNSApp_converges:
  fixes app :: dns_app
  assumes "app_list_law api apps" and "app_write_law api apps package" and "app_config_law api apps"
    and "run_state (applyDNSApp api app) w = (r, w')" and "spec = app_Spec app" and "n = as_AppName spec"
  shows "(\<forall>m. m \<noteq> n \<longrightarrow> apps (ext w') m = apps (ext w) m) \<and>
    (\<forall>v. r = Inr v \<longrightarrow>
      (\<exists>c. apps (ext w') n = Some (v, c) \<and> (as_Config spec \<noteq> [] \<longrightarrow> c = as_Config spec) \<and>
        (case apps (ext w) n of
           None \<Rightarrow> v = fst (package (as_URL spec)) \<and> (as_Config spec = [] \<longrightarrow> c = snd (package (as_URL spec)))
         | Some (v0, c0) \<Rightarrow>
             v = (if as_Version spec = [] \<or> as_Version spec = v0 then v0 else fst (package (as_URL spec))) \<and>
             (as_Config spec = [] \<longrightarrow> c = c0))) \<and>
      (as_Version spec = [] \<or> as_Version spec = v \<longrightarrow>
        (\<forall>r2 w2. run_state (applyDNSApp api app) w' = (r2, w2) \<longrightarrow> apps (ext w2) = apps (ext w') \<and> (\<forall>v2. r2 = Inr v2 \<longrightarrow> v2 = v)))) \<and>
    ((\<forall>u. \<not> isl (fst (run_state (aa_ListApps api) u)) \<and>
       (if apps (ext u) n = None then \<not> isl (fst (run_state (aa_DownloadAndInstallApp api n (as_URL spec)) u))
        else \<not> isl (fst (run_state (aa_DownloadAndUpdateApp api n (as_URL spec)) u)) \<and>
          \<not> isl (fst (run_state (aa_GetAppConfig api n) u)) \<and> \<not> isl (fst (run_state (aa_SetAppConfig api n (as_Config spec)) u)))) \<longrightarrow>
     \<not> isl r)"
proof (intro conjI impI allI)
  note pass = applyDNSApp_cases [where app = app, OF assms(1-3), folded assms(5), folded assms(6)]
  show "m \<noteq> n \<Longrightarrow> apps (ext w') m = apps (ext w) m" for m by (rule pass(1) [OF assms(4)])
  fix v assume v: "r = Inr v"
  let ?c = "if as_Config spec = [] then snd (app_wanted package spec (apps (ext w) n)) else as_Config spec"
  have now: "v = fst (app_wanted package spec (apps (ext w) n))" "apps (ext w') n = Some (v, ?c)"
    using pass(2) [OF assms(4) v] by auto
  then show "\<exists>c. apps (ext w') n = Some (v, c) \<and> (as_Config spec \<noteq> [] \<longrightarrow> c = as_Config spec) \<and>
        (case apps (ext w) n of
           None \<Rightarrow> v = fst (package (as_URL spec)) \<and> (as_Config spec = [] \<longrightarrow> c = snd (package (as_URL spec)))
         | Some (v0, c0) \<Rightarrow>
             v = (if as_Version spec = [] \<or> as_Version spec = v0 then v0 else fst (package (as_URL spec))) \<and>
             (as_Config spec = [] \<longrightarrow> c = c0))"
    by (intro exI [of _ ?c]) (auto simp: app_wanted_def split: option.splits)
  fix r2 w2 assume settled: "as_Version spec = [] \<or> as_Version spec = v" and again: "run_state (applyDNSApp api app) w' = (r2, w2)"
  show "apps (ext w2) = apps (ext w')" using pass(3) [OF again now(2) settled] by simp
  show "v2 = v" if "r2 = Inr v2" for v2
    using pass(2) [OF again that] now(2) settled by (auto simp: app_wanted_def)
next
  assume up: "\<forall>u. \<not> isl (fst (run_state (aa_ListApps api) u)) \<and>
       (if apps (ext u) n = None then \<not> isl (fst (run_state (aa_DownloadAndInstallApp api n (as_URL spec)) u))
        else \<not> isl (fst (run_state (aa_DownloadAndUpdateApp api n (as_URL spec)) u)) \<and>
          \<not> isl (fst (run_state (aa_GetAppConfig api n) u)) \<and> \<not> isl (fst (run_state (aa_SetAppConfig api n (as_Config spec)) u)))"
  have "\<not> isl (fst (run_state (applyDNSApp api app) w))"
    by (rule applyDNSApp_succeeds [OF assms(1-3)]) (use up [unfolded assms(6) assms(5)] in metis)+
  with assms(4) show "\<not> isl r" by simp
qed

text \<open>
  A server that holds its apps as an association list, whose first entry for a name counts. It refuses an empty URL, the
  configuration \<^verbatim>\<open>bad\<close>, and the installation of an app it has.
\<close>

definition memory_app_api :: "(string \<times> string \<times> string) list dns_app_api" where
  "memory_app_api = \<lparr>
     aa_ListApps = State (\<lambda>w. (Inr (map (\<lambda>(n, v, _). \<lparr>ai_Name = n, ai_Version = v\<rparr>) (ext w)), w)),
     aa_DownloadAndInstallApp = (\<lambda>n url. State (\<lambda>w. if url = [] then (Inl (ErrorText ''technitium: url is required''), w)
       else if map_of (ext w) n \<noteq> None then (Inl ErrAppAlreadyInstalled, w)
       else (Inr (), w\<lparr>ext := (n, ''2.0'', []) # ext w\<rparr>))),
     aa_DownloadAndUpdateApp = (\<lambda>n url. State (\<lambda>w. case map_of (ext w) n of
         Some (v, c) \<Rightarrow> if url = [] then (Inl (ErrorText ''technitium: url is required''), w)
           else (Inr (), w\<lparr>ext := (n, ''2.0'', c) # ext w\<rparr>)
       | None \<Rightarrow> (Inl ErrAppNotInstalled, w))),
     aa_UninstallApp = (\<lambda>n. State (\<lambda>w. (Inr (), w\<lparr>ext := filter (\<lambda>p. fst p \<noteq> n) (ext w)\<rparr>))),
     aa_GetAppConfig = (\<lambda>n. State (\<lambda>w. case map_of (ext w) n of Some (v, c) \<Rightarrow> (Inr c, w) | None \<Rightarrow> (Inl ErrAppNotInstalled, w))),
     aa_SetAppConfig = (\<lambda>n cfg. State (\<lambda>w. case map_of (ext w) n of
         Some (v, c) \<Rightarrow> if cfg = ''bad'' then (Inl (ErrorText ''rejected''), w) else (Inr (), w\<lparr>ext := (n, v, cfg) # ext w\<rparr>)
       | None \<Rightarrow> (Inl ErrAppNotInstalled, w)))\<rparr>"

lemma memory_app_laws:
  "app_list_law memory_app_api map_of" "app_write_law memory_app_api map_of (\<lambda>_. (''2.0'', []))" "app_config_law memory_app_api map_of"
proof -
  have "map_option ai_Version (findAppByName (map (\<lambda>(n, v, _). \<lparr>ai_Name = n, ai_Version = v\<rparr>) s) n) = map_option fst (map_of s n)"
    for s :: "(string \<times> string \<times> string) list" and n
    by (induction s) (auto simp: findAppByName_def)
  then show "app_list_law memory_app_api map_of" by (simp add: app_list_law_def memory_app_api_def)
  show "app_write_law memory_app_api map_of (\<lambda>_. (''2.0'', []))" "app_config_law memory_app_api map_of"
    by (auto simp: app_write_law_def app_config_law_def memory_app_api_def split: if_splits option.splits)
qed

definition sample_app :: dns_app where
  "sample_app = \<lparr>app_meta = zero_meta,
     app_Spec = \<lparr>as_ServerRef = sample_ref, as_AppName = ''Split'', as_URL = ''https://apps.test/split.zip'', as_Version = ''2.0'',
       as_Config = ''{}'', as_DeletionPolicy = ''Delete''\<rparr>,
     app_Status = \<lparr>ast_Conditions = [], ast_ObservedGeneration = 0, ast_InstalledVersion = []\<rparr>\<rparr>"

theorem applyDNSApp_converges_witness:
  "\<exists>w'. run_state (applyDNSApp memory_app_api sample_app) (empty_world [(''Split'', ''1.0'', ''old'')]) = (Inr ''2.0'', w') \<and>
    map_of (ext w') ''Split'' = Some (''2.0'', ''{}'')"
proof -
  let ?w = "empty_world [(''Split'', ''1.0'', ''old'')]"
  obtain r w' where run: "run_state (applyDNSApp memory_app_api sample_app) ?w = (r, w')" by fastforce
  note main = applyDNSApp_converges [OF memory_app_laws run refl refl]
  have up: "\<not> isl (fst (run_state (aa_ListApps memory_app_api) u)) \<and>
       (if map_of (ext u) n = None then \<not> isl (fst (run_state (aa_DownloadAndInstallApp memory_app_api n (as_URL (app_Spec sample_app))) u))
        else \<not> isl (fst (run_state (aa_DownloadAndUpdateApp memory_app_api n (as_URL (app_Spec sample_app))) u)) \<and>
          \<not> isl (fst (run_state (aa_GetAppConfig memory_app_api n) u)) \<and>
          \<not> isl (fst (run_state (aa_SetAppConfig memory_app_api n (as_Config (app_Spec sample_app))) u)))" for u n
    by (auto simp: memory_app_api_def sample_app_def split: option.splits)
  with main obtain v where v: "r = Inr v" by (cases r) auto
  with main obtain c where "map_of (ext w') ''Split'' = Some (v, c)" "c = ''{}''" "v = ''2.0''"
    by (auto simp: sample_app_def empty_world_def)
  with run v show ?thesis by simp
qed

end
