(* ===== verification/Settings_Controller.thy ===== *)
theory Settings_Controller
  imports Resource_Controller
begin

text \<open>
  The ServerSettings resource and its controller (\<^verbatim>\<open>api/v1alpha1/serversettings_types.go\<close>,
  \<^verbatim>\<open>internal/controller/serversettings_controller.go\<close>): the groups of settings the spec names are
  written to the server when they differ, the others are left alone.

  Technitium reports its lists as JSON arrays, which decode to slices that are not nil even when they
  are empty; in the status an empty list is dropped when it is stored, so it is read back as nil.
\<close>

section \<open>The resource\<close>

record forwarder_settings =
  fs_Addresses :: "string slice"
  fs_Protocol :: "string option"

record recursion_settings =
  rcs_Policy :: string
  rcs_NetworkACL :: "string slice"

record cache_settings =
  ca_ServeStale :: "bool option"
  ca_ServeStaleTTLSeconds :: "int option"
  ca_MaximumRecordTTLSeconds :: "int option"
  ca_MinimumRecordTTLSeconds :: "int option"

record logging_settings =
  lo_Enabled :: "bool option"
  lo_LogQueries :: "bool option"
  lo_UseLocalTime :: "bool option"
  lo_MaxFileDays :: "int option"

record server_settings_spec =
  sts_ServerRef :: secret_reference
  sts_Forwarders :: "forwarder_settings option"
  sts_Recursion :: "recursion_settings option"
  sts_Cache :: "cache_settings option"
  sts_Logging :: "logging_settings option"
  sts_DeletionPolicy :: string

record observed_settings =
  ob_Forwarders :: "string slice"
  ob_ForwarderProtocol :: string
  ob_Recursion :: string
  ob_RecursionNetworkACL :: "string slice"
  ob_ServeStale :: "bool option"
  ob_ServeStaleTTLSeconds :: "int option"
  ob_CacheMaximumRecordTTLSeconds :: "int option"
  ob_CacheMinimumRecordTTLSeconds :: "int option"
  ob_LoggingEnabled :: "bool option"
  ob_LogQueries :: "bool option"
  ob_UseLocalTime :: "bool option"
  ob_MaxLogFileDays :: "int option"

record server_settings_status =
  stst_Conditions :: "condition list"
  stst_ObservedGeneration :: int
  stst_Observed :: "observed_settings option"

record server_settings =
  ss_meta :: object_meta
  ss_Spec :: server_settings_spec
  ss_Status :: server_settings_status

section \<open>The reconciler\<close>

record 's settings_api =
  sa_GetDNSSettings :: "('s world, go_error + dns_settings) state"
  sa_SetDNSSettings :: "set_dns_settings_options \<Rightarrow> ('s world, go_error + unit) state"

definition client_settings_api :: "'s runtime \<Rightarrow> nat \<Rightarrow> 's settings_api" where
  "client_settings_api rt c = \<lparr>sa_GetDNSSettings = GetDNSSettings rt c, sa_SetDNSSettings = SetDNSSettings rt c\<rparr>"

type_synonym 's settings_reconciler = "('s, server_settings, 's settings_api) resource_reconciler"

definition serverSettingsFinalizer :: string where
  "serverSettingsFinalizer = ''dns.packet.fail/serversettings-cleanup''"

definition settings_shape :: "server_settings resource_shape" where
  "settings_shape = \<lparr>sh_meta = ss_meta,
     sh_with_finalizers = (\<lambda>fs s. s\<lparr>ss_meta := (ss_meta s)\<lparr>om_Finalizers := fs\<rparr>\<rparr>),
     sh_conditions = (\<lambda>s. stst_Conditions (ss_Status s)),
     sh_with_conditions = (\<lambda>cs s. s\<lparr>ss_Status := (ss_Status s)\<lparr>stst_Conditions := cs\<rparr>\<rparr>),
     sh_finalizer = serverSettingsFinalizer,
     sh_ServerRef = (\<lambda>s. sts_ServerRef (ss_Spec s)),
     sh_DeletionPolicy = (\<lambda>s. sts_DeletionPolicy (ss_Spec s))\<rparr>"

text \<open>The teardown hook only clears the finalizer: settings have no owner on the server.\<close>

definition finalizeServerSettings :: "'s settings_reconciler \<Rightarrow> server_settings \<Rightarrow> ('s world, go_error + unit) state" where
  "finalizeServerSettings r s =
     (if \<not> rt_ContainsFinalizer (rr_runtime r) (om_Finalizers (ss_meta s)) serverSettingsFinalizer then ok ()
      else clear_finalizer r settings_shape s)"

definition setDNSSettingsOptionsFromSpec :: "server_settings_spec \<Rightarrow> set_dns_settings_options" where
  "setDNSSettingsOptionsFromSpec spec =
     (let opts = zero_settings_options;
          opts = (case sts_Forwarders spec of
            None \<Rightarrow> opts
          | Some fwd \<Rightarrow> opts\<lparr>so_Forwarders := Some (elems (fs_Addresses fwd)), so_ForwarderProtocol := fs_Protocol fwd\<rparr>);
          opts = (case sts_Recursion spec of
            None \<Rightarrow> opts
          | Some rc \<Rightarrow> opts\<lparr>so_Recursion := Some (rcs_Policy rc), so_RecursionNetworkACL := Some (elems (rcs_NetworkACL rc))\<rparr>);
          opts = (case sts_Cache spec of
            None \<Rightarrow> opts
          | Some ca \<Rightarrow> opts\<lparr>so_ServeStale := ca_ServeStale ca, so_ServeStaleTTL := ca_ServeStaleTTLSeconds ca,
              so_CacheMaximumRecordTTL := ca_MaximumRecordTTLSeconds ca, so_CacheMinimumRecordTTL := ca_MinimumRecordTTLSeconds ca\<rparr>)
      in case sts_Logging spec of
           None \<Rightarrow> opts
         | Some lo \<Rightarrow> opts\<lparr>so_EnableLogging := lo_Enabled lo, so_LogQueries := lo_LogQueries lo,
             so_UseLocalTime := lo_UseLocalTime lo, so_MaxLogFileDays := lo_MaxFileDays lo\<rparr>)"

definition stringSlicesEqual :: "string list \<Rightarrow> string list \<Rightarrow> bool" where
  "stringSlicesEqual a b \<longleftrightarrow> length a = length b \<and> list_all (\<lambda>i. a ! i = b ! i) [0..<length a]"

text \<open>\<^verbatim>\<open>desired.X != nil && *desired.X != current.X\<close>, for one field.\<close>

definition differs :: "'a option \<Rightarrow> 'a \<Rightarrow> bool" where
  "differs desired current = (case desired of None \<Rightarrow> False | Some v \<Rightarrow> v \<noteq> current)"

definition slice_differs :: "string list option \<Rightarrow> string list \<Rightarrow> bool" where
  "slice_differs desired current = (case desired of None \<Rightarrow> False | Some v \<Rightarrow> \<not> stringSlicesEqual v current)"

definition serverSettingsInSync :: "set_dns_settings_options \<Rightarrow> dns_settings \<Rightarrow> bool" where
  "serverSettingsInSync desired current =
     (if slice_differs (so_Forwarders desired) (ds_Forwarders current) then False
      else if differs (so_ForwarderProtocol desired) (ds_ForwarderProtocol current) then False
      else if differs (so_Recursion desired) (ds_Recursion current) then False
      else if slice_differs (so_RecursionNetworkACL desired) (ds_RecursionNetworkACL current) then False
      else if differs (so_ServeStale desired) (ds_ServeStale current) then False
      else if differs (so_ServeStaleTTL desired) (ds_ServeStaleTTL current) then False
      else if differs (so_CacheMaximumRecordTTL desired) (ds_CacheMaximumRecordTTL current) then False
      else if differs (so_CacheMinimumRecordTTL desired) (ds_CacheMinimumRecordTTL current) then False
      else if differs (so_EnableLogging desired) (ds_EnableLogging current) then False
      else if differs (so_LogQueries desired) (ds_LogQueries current) then False
      else if differs (so_UseLocalTime desired) (ds_UseLocalTime current) then False
      else if differs (so_MaxLogFileDays desired) (ds_MaxLogFileDays current) then False
      else True)"

text \<open>\<^verbatim>\<open>reconcileServerSettings\<close> once the server is resolved: the settings the server reports at the end.\<close>

definition applyServerSettings :: "'s settings_api \<Rightarrow> server_settings \<Rightarrow> ('s world, go_error + dns_settings) state" where
  "applyServerSettings api s =
     or_return (sa_GetDNSSettings api) (\<lambda>current.
       let desired = setDNSSettingsOptionsFromSpec (ss_Spec s)
       in if serverSettingsInSync desired current then ok current
          else or_return (sa_SetDNSSettings api desired) (\<lambda>_. or_return (sa_GetDNSSettings api) ok))"

definition reconcileServerSettings :: "'s settings_reconciler \<Rightarrow> server_settings \<Rightarrow> ('s world, go_error + dns_settings) state" where
  "reconcileServerSettings r s = or_return (serverClientFor r (sts_ServerRef (ss_Spec s))) (\<lambda>api. applyServerSettings api s)"

section \<open>Status and reconcile\<close>

definition observedFromDNSSettings :: "dns_settings \<Rightarrow> observed_settings" where
  "observedFromDNSSettings current = \<lparr>ob_Forwarders = Some (ds_Forwarders current), ob_ForwarderProtocol = ds_ForwarderProtocol current,
     ob_Recursion = ds_Recursion current, ob_RecursionNetworkACL = Some (ds_RecursionNetworkACL current),
     ob_ServeStale = Some (ds_ServeStale current), ob_ServeStaleTTLSeconds = Some (ds_ServeStaleTTL current),
     ob_CacheMaximumRecordTTLSeconds = Some (ds_CacheMaximumRecordTTL current),
     ob_CacheMinimumRecordTTLSeconds = Some (ds_CacheMinimumRecordTTL current),
     ob_LoggingEnabled = Some (ds_EnableLogging current), ob_LogQueries = Some (ds_LogQueries current),
     ob_UseLocalTime = Some (ds_UseLocalTime current), ob_MaxLogFileDays = Some (ds_MaxLogFileDays current)\<rparr>"

definition settings_fields :: "dns_settings \<Rightarrow> server_settings \<Rightarrow> server_settings" where
  "settings_fields current s = s\<lparr>ss_Status := (ss_Status s)\<lparr>
     stst_ObservedGeneration := om_Generation (ss_meta s), stst_Observed := Some (observedFromDNSSettings current)\<rparr>\<rparr>"

definition ServerSettingsReconciler_markReady ::
  "'s settings_reconciler \<Rightarrow> dns_settings \<Rightarrow> object_key \<Rightarrow> ('s world, go_error + unit) state" where
  "ServerSettingsReconciler_markReady r current =
     mark_ready r settings_shape ''SettingsApplied'' ''ServerSettings reconciled on the Technitium server'' (settings_fields current)"

definition ServerSettingsReconciler_markDegraded ::
  "'s settings_reconciler \<Rightarrow> object_key \<Rightarrow> go_error \<Rightarrow> ('s world, go_error + unit) state" where
  "ServerSettingsReconciler_markDegraded r = mark_degraded r settings_shape"

definition ServerSettingsReconciler_Reconcile :: "'s settings_reconciler \<Rightarrow> object_key \<Rightarrow> ('s world, go_error + int) state" where
  "ServerSettingsReconciler_Reconcile r = reconcile_resource r settings_shape (finalizeServerSettings r) applyServerSettings
     (\<lambda>_ current. ServerSettingsReconciler_markReady r current)"

section \<open>Lemmas\<close>

lemma settings_shape_sel [simp]:
  "sh_meta settings_shape = ss_meta"
  "sh_with_finalizers settings_shape fs s = s\<lparr>ss_meta := (ss_meta s)\<lparr>om_Finalizers := fs\<rparr>\<rparr>"
  "sh_conditions settings_shape s = stst_Conditions (ss_Status s)"
  "sh_with_conditions settings_shape cs s = s\<lparr>ss_Status := (ss_Status s)\<lparr>stst_Conditions := cs\<rparr>\<rparr>"
  "sh_finalizer settings_shape = serverSettingsFinalizer"
  "sh_ServerRef settings_shape s = sts_ServerRef (ss_Spec s)"
  "sh_DeletionPolicy settings_shape s = sts_DeletionPolicy (ss_Spec s)"
  by (simp_all add: settings_shape_def)

lemma settings_shape_ok: "shape_ok settings_shape"
  by (simp add: shape_ok_def)

lemma client_settings_api_sel [simp]:
  "sa_GetDNSSettings (client_settings_api rt c) = GetDNSSettings rt c"
  "sa_SetDNSSettings (client_settings_api rt c) = SetDNSSettings rt c"
  by (simp_all add: client_settings_api_def)

lemma settings_client_emits: "emits is_http (applyServerSettings (client_settings_api rt c) s)"
  unfolding applyServerSettings_def Let_def client_settings_api_sel
  by (intro emits_rules emits_return emits_settings_endpoints)

abbreviation settings_production ::
  "'s runtime \<Rightarrow> ('s, server_settings) kclient \<Rightarrow> ('s, technitium_cluster) kclient \<Rightarrow> ('s, secret) kclient \<Rightarrow> string
    \<Rightarrow> 's settings_reconciler" where
  "settings_production rt objects clusters secrets ns \<equiv> production rt objects clusters secrets ns (client_settings_api rt)"

interpretation settings_controller: resource_live
    "settings_production rt objects clusters secrets ns" settings_shape
    "finalizeServerSettings (settings_production rt objects clusters secrets ns)" applyServerSettings
    "\<lambda>_ current. ServerSettingsReconciler_markReady (settings_production rt objects clusters secrets ns) current"
  for rt :: "'s runtime" and objects clusters secrets ns
  by unfold_locales
    (simp_all add: settings_shape_ok settings_client_emits ServerSettingsReconciler_markReady_def emits_mark_resource)

lemma stringSlicesEqual_eq [simp]: "stringSlicesEqual a b \<longleftrightarrow> a = b"
  by (auto simp: stringSlicesEqual_def list_all_iff intro: nth_equalityI)

section \<open>Convergence\<close>

text \<open>What a partial write does to the settings: the fields it carries are set, the others are kept.\<close>

definition or_keep :: "'a option \<Rightarrow> 'a \<Rightarrow> 'a" where
  "or_keep v x = (case v of Some y \<Rightarrow> y | None \<Rightarrow> x)"

definition apply_settings :: "set_dns_settings_options \<Rightarrow> dns_settings \<Rightarrow> dns_settings" where
  "apply_settings so ds = \<lparr>
     ds_Forwarders = or_keep (so_Forwarders so) (ds_Forwarders ds),
     ds_ForwarderProtocol = or_keep (so_ForwarderProtocol so) (ds_ForwarderProtocol ds),
     ds_Recursion = or_keep (so_Recursion so) (ds_Recursion ds),
     ds_RecursionNetworkACL = or_keep (so_RecursionNetworkACL so) (ds_RecursionNetworkACL ds),
     ds_ServeStale = or_keep (so_ServeStale so) (ds_ServeStale ds),
     ds_ServeStaleTTL = or_keep (so_ServeStaleTTL so) (ds_ServeStaleTTL ds),
     ds_CacheMaximumRecordTTL = or_keep (so_CacheMaximumRecordTTL so) (ds_CacheMaximumRecordTTL ds),
     ds_CacheMinimumRecordTTL = or_keep (so_CacheMinimumRecordTTL so) (ds_CacheMinimumRecordTTL ds),
     ds_EnableLogging = or_keep (so_EnableLogging so) (ds_EnableLogging ds),
     ds_LogQueries = or_keep (so_LogQueries so) (ds_LogQueries ds),
     ds_UseLocalTime = or_keep (so_UseLocalTime so) (ds_UseLocalTime ds),
     ds_MaxLogFileDays = or_keep (so_MaxLogFileDays so) (ds_MaxLogFileDays ds),
     ds_EnableBlocking = or_keep (so_EnableBlocking so) (ds_EnableBlocking ds),
     ds_BlockingType = or_keep (so_BlockingType so) (ds_BlockingType ds),
     ds_BlockListURLs = or_keep (so_BlockListURLs so) (ds_BlockListURLs ds),
     ds_BlockListUpdateIntervalHours = or_keep (so_BlockListUpdateIntervalHours so) (ds_BlockListUpdateIntervalHours ds)\<rparr>"

lemma or_keep_simps [simp]:
  "or_keep None x = x" "or_keep (Some y) x = y" "or_keep v (or_keep v x) = or_keep v x"
  by (simp_all add: or_keep_def split: option.split)

lemma differs_keep: "differs v x \<longleftrightarrow> or_keep v x \<noteq> x" "slice_differs l y \<longleftrightarrow> or_keep l y \<noteq> y"
  by (simp_all add: differs_def slice_differs_def split: option.split)

lemma apply_settings_idem [simp]: "apply_settings so (apply_settings so ds) = apply_settings so ds"
  by (simp add: apply_settings_def)

text \<open>The options of a spec never carry the fields that belong to the Blocklist resource.\<close>

lemma settings_options_blocking [simp]:
  "so_EnableBlocking (setDNSSettingsOptionsFromSpec spec) = None"
  "so_BlockingType (setDNSSettingsOptionsFromSpec spec) = None"
  "so_BlockListURLs (setDNSSettingsOptionsFromSpec spec) = None"
  "so_BlockListUpdateIntervalHours (setDNSSettingsOptionsFromSpec spec) = None"
  by (simp_all add: setDNSSettingsOptionsFromSpec_def zero_settings_options_def Let_def split: option.splits)

text \<open>The comparison decides whether a write would change anything.\<close>

lemma serverSettingsInSync_iff:
  "serverSettingsInSync (setDNSSettingsOptionsFromSpec spec) ds \<longleftrightarrow> apply_settings (setDNSSettingsOptionsFromSpec spec) ds = ds"
  by (cases ds) (simp add: serverSettingsInSync_def apply_settings_def differs_keep)

text \<open>
  The settings a spec asks for, group by group: a list of a group in the spec is the list of the server, a field of
  the group that is set is the server's, and what the spec leaves open is as it was, as are the settings of the Blocklist resource.
\<close>

definition settings_wanted :: "server_settings_spec \<Rightarrow> dns_settings \<Rightarrow> dns_settings \<Rightarrow> bool" where
  "settings_wanted spec before after \<longleftrightarrow>
     (case sts_Forwarders spec of
        None \<Rightarrow> ds_Forwarders after = ds_Forwarders before \<and> ds_ForwarderProtocol after = ds_ForwarderProtocol before
      | Some f \<Rightarrow> ds_Forwarders after = elems (fs_Addresses f) \<and>
          ds_ForwarderProtocol after = or_keep (fs_Protocol f) (ds_ForwarderProtocol before)) \<and>
     (case sts_Recursion spec of
        None \<Rightarrow> ds_Recursion after = ds_Recursion before \<and> ds_RecursionNetworkACL after = ds_RecursionNetworkACL before
      | Some rc \<Rightarrow> ds_Recursion after = rcs_Policy rc \<and> ds_RecursionNetworkACL after = elems (rcs_NetworkACL rc)) \<and>
     (case sts_Cache spec of
        None \<Rightarrow> ds_ServeStale after = ds_ServeStale before \<and> ds_ServeStaleTTL after = ds_ServeStaleTTL before \<and>
          ds_CacheMaximumRecordTTL after = ds_CacheMaximumRecordTTL before \<and>
          ds_CacheMinimumRecordTTL after = ds_CacheMinimumRecordTTL before
      | Some ca \<Rightarrow> ds_ServeStale after = or_keep (ca_ServeStale ca) (ds_ServeStale before) \<and>
          ds_ServeStaleTTL after = or_keep (ca_ServeStaleTTLSeconds ca) (ds_ServeStaleTTL before) \<and>
          ds_CacheMaximumRecordTTL after = or_keep (ca_MaximumRecordTTLSeconds ca) (ds_CacheMaximumRecordTTL before) \<and>
          ds_CacheMinimumRecordTTL after = or_keep (ca_MinimumRecordTTLSeconds ca) (ds_CacheMinimumRecordTTL before)) \<and>
     (case sts_Logging spec of
        None \<Rightarrow> ds_EnableLogging after = ds_EnableLogging before \<and> ds_LogQueries after = ds_LogQueries before \<and>
          ds_UseLocalTime after = ds_UseLocalTime before \<and> ds_MaxLogFileDays after = ds_MaxLogFileDays before
      | Some lo \<Rightarrow> ds_EnableLogging after = or_keep (lo_Enabled lo) (ds_EnableLogging before) \<and>
          ds_LogQueries after = or_keep (lo_LogQueries lo) (ds_LogQueries before) \<and>
          ds_UseLocalTime after = or_keep (lo_UseLocalTime lo) (ds_UseLocalTime before) \<and>
          ds_MaxLogFileDays after = or_keep (lo_MaxFileDays lo) (ds_MaxLogFileDays before)) \<and>
     ds_EnableBlocking after = ds_EnableBlocking before \<and> ds_BlockingType after = ds_BlockingType before \<and>
     ds_BlockListURLs after = ds_BlockListURLs before \<and>
     ds_BlockListUpdateIntervalHours after = ds_BlockListUpdateIntervalHours before"

lemma settings_wanted_iff:
  "settings_wanted spec before after \<longleftrightarrow> after = apply_settings (setDNSSettingsOptionsFromSpec spec) before"
  by (cases "sts_Forwarders spec"; cases "sts_Recursion spec"; cases "sts_Cache spec"; cases "sts_Logging spec"; cases after)
    (auto simp: settings_wanted_def setDNSSettingsOptionsFromSpec_def apply_settings_def zero_settings_options_def)

text \<open>
  The settings of the server behind the API, as the client documents it: a call may fail; a read that succeeds reports the
  settings and no read changes them; a write that succeeds sets the fields it carries and no other.
\<close>

definition settings_laws :: "'s settings_api \<Rightarrow> ('s \<Rightarrow> dns_settings) \<Rightarrow> bool" where
  "settings_laws api settings \<longleftrightarrow>
     (\<forall>w res w'. run_state (sa_GetDNSSettings api) w = (res, w') \<longrightarrow>
        settings (ext w') = settings (ext w) \<and> (\<forall>ds. res = Inr ds \<longrightarrow> ds = settings (ext w))) \<and>
     (\<forall>so w w'. run_state (sa_SetDNSSettings api so) w = (Inr (), w') \<longrightarrow> settings (ext w') = apply_settings so (settings (ext w)))"

lemma settings_lawsD:
  assumes "settings_laws api settings"
  shows "run_state (sa_GetDNSSettings api) w = (res, w') \<Longrightarrow> settings (ext w') = settings (ext w)"
    and "run_state (sa_GetDNSSettings api) w = (Inr ds, w') \<Longrightarrow> ds = settings (ext w)"
    and "run_state (sa_SetDNSSettings api so) w = (Inr (), w') \<Longrightarrow> settings (ext w') = apply_settings so (settings (ext w))"
  using assms unfolding settings_laws_def by blast+

lemma applyServerSettings_idle:
  assumes "settings_laws api settings" and "settings_wanted (ss_Spec s) (settings (ext w)) (settings (ext w))"
  shows "run_state (applyServerSettings api s) w = run_state (sa_GetDNSSettings api) w"
proof -
  obtain res w1 where get: "run_state (sa_GetDNSSettings api) w = (res, w1)" by fastforce
  show ?thesis
  proof (cases res)
    case (Inr ds)
    with get settings_lawsD(2) [OF assms(1)] have "ds = settings (ext w)" by blast
    with assms(2) have "serverSettingsInSync (setDNSSettingsOptionsFromSpec (ss_Spec s)) ds"
      by (simp add: serverSettingsInSync_iff settings_wanted_iff)
    with get Inr show ?thesis by (simp add: applyServerSettings_def run_or_return)
  qed (use get in \<open>simp add: applyServerSettings_def run_or_return\<close>)
qed

text \<open>
  (C32) A pass of the ServerSettings controller that succeeds leaves the server with the settings the spec asks for: every
  field of every group of the spec as written there, all the others as they were; it returns the settings as they then are, and
  a second pass only reads. A pass over a server that already agrees is that one read, and so is a pass whose read
  fails. A pass succeeds if the server answers its reads and accepts a write of the settings the spec asks for.
\<close>

theorem applyServerSettings_converges:
  assumes "settings_laws api settings" and "run_state (applyServerSettings api s) w = (r, w')"
  shows "(\<forall>ds. r = Inr ds \<longrightarrow> ds = settings (ext w') \<and> settings_wanted (ss_Spec s) (settings (ext w)) ds \<and>
      run_state (applyServerSettings api s) w' = run_state (sa_GetDNSSettings api) w') \<and>
    (settings_wanted (ss_Spec s) (settings (ext w)) (settings (ext w)) \<or> isl (fst (run_state (sa_GetDNSSettings api) w)) \<longrightarrow>
      (r, w') = run_state (sa_GetDNSSettings api) w) \<and>
    ((\<forall>u. \<not> isl (fst (run_state (sa_GetDNSSettings api) u))) \<and>
     (\<forall>so u. settings_wanted (ss_Spec s) (settings (ext u)) (apply_settings so (settings (ext u))) \<longrightarrow>
        \<not> isl (fst (run_state (sa_SetDNSSettings api so) u))) \<longrightarrow> \<not> isl r)"
proof -
  let ?so = "setDNSSettingsOptionsFromSpec (ss_Spec s)"
  note laws = settings_lawsD [OF assms(1)]
  note idle = applyServerSettings_idle [OF assms(1)]
  obtain res w1 where get: "run_state (sa_GetDNSSettings api) w = (res, w1)" by fastforce
  consider (failed) e where "res = Inl e" | (agrees) "res = Inr (settings (ext w))" "settings_wanted (ss_Spec s) (settings (ext w)) (settings (ext w))"
    | (differing) "res = Inr (settings (ext w))" "\<not> settings_wanted (ss_Spec s) (settings (ext w)) (settings (ext w))"
    using get laws(2) [of w] by (cases res) auto
  then show ?thesis
  proof cases
    case failed
    with get have "isl (fst (run_state (sa_GetDNSSettings api) w))" by simp
    moreover have "(r, w') = (Inl e, w1)" using failed get assms(2) by (simp add: applyServerSettings_def run_or_return)
    ultimately show ?thesis using failed get by (metis (no_types, lifting) Inl_Inr_False prod.inject)
  next
    case agrees
    have run: "(r, w') = (Inr (settings (ext w)), w1)" using idle [OF agrees(2)] assms(2) get agrees(1) by simp
    have same: "settings (ext w1) = settings (ext w)" using laws(1) [OF get] .
    from agrees(2) have "run_state (applyServerSettings api s) w1 = run_state (sa_GetDNSSettings api) w1"
      by (intro idle) (simp add: same)
    with run same agrees get show ?thesis by auto
  next
    case differing
    have same: "settings (ext w1) = settings (ext w)" using laws(1) [OF get] .
    have sync: "\<not> serverSettingsInSync ?so (settings (ext w))"
      using differing(2) by (simp add: serverSettingsInSync_iff settings_wanted_iff eq_commute)
    obtain sres w2 where set: "run_state (sa_SetDNSSettings api ?so) w1 = (sres, w2)" by fastforce
    obtain gres w3 where get': "run_state (sa_GetDNSSettings api) w2 = (gres, w3)" by fastforce
    have run: "(r, w') = (case sres of Inl e \<Rightarrow> (Inl e, w2) | Inr _ \<Rightarrow> (gres, w3))"
      using assms(2) get differing(1) sync set get'
      by (cases sres; cases gres; simp add: applyServerSettings_def run_or_return)
    have finished: "ds = settings (ext w') \<and> settings_wanted (ss_Spec s) (settings (ext w)) ds \<and>
        run_state (applyServerSettings api s) w' = run_state (sa_GetDNSSettings api) w'" if "r = Inr ds" for ds
    proof -
      have eqs: "sres = Inr ()" "gres = Inr ds" "w' = w3" using run that by (cases sres; simp)+
      have after: "settings (ext w2) = apply_settings ?so (settings (ext w))" using laws(3) set eqs(1) same by fastforce
      have ds: "ds = settings (ext w2)" "settings (ext w') = settings (ext w2)" using laws(1,2) get' eqs by blast+
      have "settings_wanted (ss_Spec s) (settings (ext w')) (settings (ext w'))"
        by (simp add: settings_wanted_iff ds(2) after)
      from idle [OF this] ds after show ?thesis by (simp add: settings_wanted_iff)
    qed
    have "\<not> isl r" if "\<forall>u. \<not> isl (fst (run_state (sa_GetDNSSettings api) u))"
      "\<forall>so u. settings_wanted (ss_Spec s) (settings (ext u)) (apply_settings so (settings (ext u))) \<longrightarrow>
        \<not> isl (fst (run_state (sa_SetDNSSettings api so) u))"
    proof -
      have "\<not> isl sres" using that(2) set by (metis fst_conv settings_wanted_iff)
      moreover have "\<not> isl gres" using that(1) get' by (metis fst_conv)
      ultimately show ?thesis using run by (cases sres) auto
    qed
    with finished differing get show ?thesis by auto
  qed
qed

text \<open>A server that holds its settings in memory, and a resource that manages the forwarders only.\<close>

definition memory_settings_api :: "dns_settings settings_api" where
  "memory_settings_api = \<lparr>sa_GetDNSSettings = State (\<lambda>w. (Inr (ext w), w)),
     sa_SetDNSSettings = (\<lambda>so. State (\<lambda>w. (Inr (), w\<lparr>ext := apply_settings so (ext w)\<rparr>)))\<rparr>"

lemma memory_settings_laws: "settings_laws memory_settings_api (\<lambda>ds. ds)"
  by (simp add: settings_laws_def memory_settings_api_def)

definition sample_settings :: server_settings where
  "sample_settings = \<lparr>ss_meta = zero_meta,
     ss_Spec = \<lparr>sts_ServerRef = sample_ref, sts_Forwarders = Some \<lparr>fs_Addresses = Some [''9.9.9.9''], fs_Protocol = Some ''Tls''\<rparr>,
       sts_Recursion = None, sts_Cache = None, sts_Logging = None, sts_DeletionPolicy = ''Retain''\<rparr>,
     ss_Status = \<lparr>stst_Conditions = [], stst_ObservedGeneration = 0, stst_Observed = None\<rparr>\<rparr>"

theorem applyServerSettings_converges_witness:
  "\<exists>ds w'. run_state (applyServerSettings memory_settings_api sample_settings)
      (empty_world (zero_dns_settings\<lparr>ds_Recursion := ''Deny''\<rparr>)) = (Inr ds, w') \<and>
    ds_Forwarders ds = [''9.9.9.9''] \<and> ds_ForwarderProtocol ds = ''Tls'' \<and> ds_Recursion ds = ''Deny'' \<and> ext w' = ds"
proof -
  let ?w = "empty_world (zero_dns_settings\<lparr>ds_Recursion := ''Deny''\<rparr>)"
  obtain r w' where run: "run_state (applyServerSettings memory_settings_api sample_settings) ?w = (r, w')" by fastforce
  note main = applyServerSettings_converges [OF memory_settings_laws run]
  have up: "\<not> isl (fst (run_state (sa_GetDNSSettings memory_settings_api) u))"
    "\<not> isl (fst (run_state (sa_SetDNSSettings memory_settings_api so) u))" for so u
    by (simp_all add: memory_settings_api_def)
  with main obtain ds where ds: "r = Inr ds" by (cases r) auto
  with main have "ds = ext w'" "settings_wanted (ss_Spec sample_settings) (ext ?w) ds" by auto
  with run ds show ?thesis by (auto simp: settings_wanted_def sample_settings_def empty_world_def)
qed

section \<open>Empty lists in the status\<close>

text \<open>A resource as the API server returns it: a list that was stored empty is read back as nil.\<close>

definition as_stored :: "server_settings \<Rightarrow> bool" where
  "as_stored s \<longleftrightarrow> (\<forall>ob. stst_Observed (ss_Status s) = Some ob \<longrightarrow> ob_Forwarders ob \<noteq> Some [] \<and> ob_RecursionNetworkACL ob \<noteq> Some [])"

text \<open>
  On a server without forwarders (or without a recursion list) every pass writes the status, also
  when nothing has changed since the last one: the observed list is empty, the stored one nil, and
  \<^verbatim>\<open>reflect.DeepEqual\<close> tells them apart.
\<close>

theorem empty_list_rewrites_status:
  assumes "kc_Get (rr_objects r) key (ext w) = (Inr s, s1)" and "as_stored s"
    and "ds_Forwarders current = [] \<or> ds_RecursionNetworkACL current = []"
  shows "\<exists>s'. trace (snd (run_state (ServerSettingsReconciler_markReady r current key) w)) =
    trace w @ [EvGet (kc_kind (rr_objects r)) key, EvStatusUpdate (kc_kind (rr_objects r)) (kc_meta (rr_objects r) s')]"
  unfolding ServerSettingsReconciler_markReady_def
proof (rule mark_ready_writes [OF assms(1)])
  have "stst_Observed (ss_Status s) \<noteq> Some (observedFromDNSSettings current)"
    using assms(2,3) by (auto simp: as_stored_def observedFromDNSSettings_def)
  then show "settings_fields current (sh_with_conditions settings_shape cs s) \<noteq> sh_with_conditions settings_shape cs s" for cs
    by (cases s; cases "ss_Status s") (auto simp: settings_fields_def)
qed

definition settled_settings :: server_settings where
  "settled_settings = \<lparr>ss_meta = zero_meta, ss_Spec = ss_Spec sample_settings,
     ss_Status = \<lparr>stst_Conditions = ready_trio ''SettingsApplied'' ''ServerSettings reconciled on the Technitium server'' 0,
       stst_ObservedGeneration = 0,
       stst_Observed = Some ((observedFromDNSSettings zero_dns_settings)\<lparr>ob_Forwarders := None, ob_RecursionNetworkACL := None\<rparr>)\<rparr>\<rparr>"

theorem empty_list_rewrites_status_witness:
  "\<exists>s' :: server_settings. trace (snd (run_state (ServerSettingsReconciler_markReady (settings_production sample_runtime
      (plain_kclient ''ServerSettings'' ss_meta (\<lambda>_. Inr settled_settings)) sample_clusters sample_secrets ''ops'')
      zero_dns_settings (ObjectKey [] ''dns'')) (empty_world ()))) =
    [EvGet ''ServerSettings'' (ObjectKey [] ''dns''), EvStatusUpdate ''ServerSettings'' (ss_meta s')]"
proof -
  let ?objects = "plain_kclient ''ServerSettings'' ss_meta (\<lambda>_. Inr settled_settings) :: (unit, server_settings) kclient"
  have "as_stored settled_settings" by (simp add: as_stored_def settled_settings_def)
  moreover have "ds_Forwarders zero_dns_settings = [] \<or> ds_RecursionNetworkACL zero_dns_settings = []"
    by (simp add: zero_dns_settings_def)
  ultimately show ?thesis
    using empty_list_rewrites_status [of "settings_production sample_runtime ?objects sample_clusters sample_secrets ''ops''"
        "ObjectKey [] ''dns''" "empty_world ()" settled_settings "()" zero_dns_settings]
    by (simp add: empty_world_def)
qed

end
