(* ===== verification/Blocklist_Controller.thy ===== *)
theory Blocklist_Controller
  imports Settings_Controller
begin

text \<open>
  The Blocklist resource and its controller (\<^verbatim>\<open>api/v1alpha1/blocklist_types.go\<close>,
  \<^verbatim>\<open>internal/controller/blocklist_controller.go\<close>): the blocking settings, the block list URLs and
  the manually allowed and blocked domains of a server.
\<close>

section \<open>The resource\<close>

record blocklist_spec =
  bs_ServerRef :: secret_reference
  bs_Enabled :: "bool option"
  bs_BlockListURLs :: "string slice"
  bs_UpdateIntervalHours :: "int option"
  bs_BlockingType :: "string option"
  bs_AllowedDomains :: "string slice"
  bs_BlockedDomains :: "string slice"
  bs_DeletionPolicy :: string

record blocklist_status =
  bst_Conditions :: "condition list"
  bst_ObservedGeneration :: int
  bst_AppliedBlockListURLs :: "string slice"
  bst_AppliedAllowedDomains :: "string slice"
  bst_AppliedBlockedDomains :: "string slice"

record blocklist =
  bl_meta :: object_meta
  bl_Spec :: blocklist_spec
  bl_Status :: blocklist_status

section \<open>The reconciler\<close>

record 's blocklist_api =
  ba_GetDNSSettings :: "('s world, go_error + dns_settings) state"
  ba_SetDNSSettings :: "set_dns_settings_options \<Rightarrow> ('s world, go_error + unit) state"
  ba_ForceUpdateBlockLists :: "('s world, go_error + unit) state"
  ba_AddAllowedZone :: "string \<Rightarrow> ('s world, go_error + unit) state"
  ba_DeleteAllowedZone :: "string \<Rightarrow> ('s world, go_error + unit) state"
  ba_AddBlockedZone :: "string \<Rightarrow> ('s world, go_error + unit) state"
  ba_DeleteBlockedZone :: "string \<Rightarrow> ('s world, go_error + unit) state"

definition client_blocklist_api :: "'s runtime \<Rightarrow> nat \<Rightarrow> 's blocklist_api" where
  "client_blocklist_api rt c = \<lparr>ba_GetDNSSettings = GetDNSSettings rt c, ba_SetDNSSettings = SetDNSSettings rt c,
     ba_ForceUpdateBlockLists = ForceUpdateBlockLists rt c, ba_AddAllowedZone = AddAllowedZone rt c,
     ba_DeleteAllowedZone = DeleteAllowedZone rt c, ba_AddBlockedZone = AddBlockedZone rt c,
     ba_DeleteBlockedZone = DeleteBlockedZone rt c\<rparr>"

type_synonym 's blocklist_reconciler = "('s, blocklist, 's blocklist_api) resource_reconciler"

definition blocklistFinalizer :: string where
  "blocklistFinalizer = ''dns.packet.fail/blocklist-cleanup''"

definition blocklist_shape :: "blocklist resource_shape" where
  "blocklist_shape = \<lparr>sh_meta = bl_meta,
     sh_with_finalizers = (\<lambda>fs b. b\<lparr>bl_meta := (bl_meta b)\<lparr>om_Finalizers := fs\<rparr>\<rparr>),
     sh_conditions = (\<lambda>b. bst_Conditions (bl_Status b)),
     sh_with_conditions = (\<lambda>cs b. b\<lparr>bl_Status := (bl_Status b)\<lparr>bst_Conditions := cs\<rparr>\<rparr>),
     sh_finalizer = blocklistFinalizer,
     sh_ServerRef = (\<lambda>b. bs_ServerRef (bl_Spec b)),
     sh_DeletionPolicy = (\<lambda>b. bs_DeletionPolicy (bl_Spec b))\<rparr>"

definition blocklistSettingsInSync :: "set_dns_settings_options \<Rightarrow> dns_settings \<Rightarrow> bool" where
  "blocklistSettingsInSync desired current =
     (if differs (so_EnableBlocking desired) (ds_EnableBlocking current) then False
      else if differs (so_BlockingType desired) (ds_BlockingType current) then False
      else if slice_differs (so_BlockListURLs desired) (ds_BlockListURLs current) then False
      else if differs (so_BlockListUpdateIntervalHours desired) (ds_BlockListUpdateIntervalHours current) then False
      else True)"

text \<open>The two loops skip what is already applied, and what is still desired.\<close>

definition reconcileDomainSet ::
  "string list \<Rightarrow> string list \<Rightarrow> (string \<Rightarrow> ('s world, go_error + unit) state) \<Rightarrow> (string \<Rightarrow> ('s world, go_error + unit) state)
    \<Rightarrow> ('s world, go_error + unit) state" where
  "reconcileDomainSet applied desired add del =
     or_return (for_each add (filter (\<lambda>d. d \<notin> set applied) desired))
       (\<lambda>_. for_each del (filter (\<lambda>d. d \<notin> set desired) applied))"

definition blocklist_options :: "blocklist_spec \<Rightarrow> set_dns_settings_options" where
  "blocklist_options spec = zero_settings_options\<lparr>so_EnableBlocking := bs_Enabled spec, so_BlockingType := bs_BlockingType spec,
     so_BlockListURLs := Some (elems (bs_BlockListURLs spec)), so_BlockListUpdateIntervalHours := bs_UpdateIntervalHours spec\<rparr>"

text \<open>What a successful pass has applied: the lists of the spec.\<close>

record applied_blocklist =
  ab_BlockListURLs :: "string slice"
  ab_AllowedDomains :: "string slice"
  ab_BlockedDomains :: "string slice"

definition applyBlocklist :: "'s blocklist_api \<Rightarrow> blocklist \<Rightarrow> ('s world, go_error + applied_blocklist) state" where
  "applyBlocklist api bl =
     (let spec = bl_Spec bl; status = bl_Status bl; desired = blocklist_options spec;
          urlsNeedRefresh = (\<not> stringSlicesEqual (elems (bs_BlockListURLs spec)) (elems (bst_AppliedBlockListURLs status)))
      in or_return (ba_GetDNSSettings api) (\<lambda>current.
         or_return (if \<not> blocklistSettingsInSync desired current then ba_SetDNSSettings api desired else ok ()) (\<lambda>_.
         or_return (if urlsNeedRefresh then ba_ForceUpdateBlockLists api else ok ()) (\<lambda>_.
         or_return (reconcileDomainSet (elems (bst_AppliedAllowedDomains status)) (elems (bs_AllowedDomains spec))
                      (ba_AddAllowedZone api) (ba_DeleteAllowedZone api)) (\<lambda>_.
         or_return (reconcileDomainSet (elems (bst_AppliedBlockedDomains status)) (elems (bs_BlockedDomains spec))
                      (ba_AddBlockedZone api) (ba_DeleteBlockedZone api)) (\<lambda>_.
         ok \<lparr>ab_BlockListURLs = bs_BlockListURLs spec, ab_AllowedDomains = bs_AllowedDomains spec,
             ab_BlockedDomains = bs_BlockedDomains spec\<rparr>))))))"

definition reconcileBlocklist :: "'s blocklist_reconciler \<Rightarrow> blocklist \<Rightarrow> ('s world, go_error + applied_blocklist) state" where
  "reconcileBlocklist r bl = or_return (serverClientFor r (bs_ServerRef (bl_Spec bl))) (\<lambda>api. applyBlocklist api bl)"

definition blocklist_cleanup :: "'s blocklist_api \<Rightarrow> blocklist \<Rightarrow> ('s world, go_error + unit) state" where
  "blocklist_cleanup api bl =
     or_return (ba_SetDNSSettings api (zero_settings_options\<lparr>so_BlockListURLs := Some []\<rparr>)) (\<lambda>_.
     or_return (ba_ForceUpdateBlockLists api) (\<lambda>_.
     or_return (for_each (ba_DeleteAllowedZone api) (elems (bst_AppliedAllowedDomains (bl_Status bl)))) (\<lambda>_.
     for_each (ba_DeleteBlockedZone api) (elems (bst_AppliedBlockedDomains (bl_Status bl))))))"

definition finalizeBlocklist :: "'s blocklist_reconciler \<Rightarrow> blocklist \<Rightarrow> ('s world, go_error + unit) state" where
  "finalizeBlocklist r = finalize_resource r blocklist_shape blocklist_cleanup"

section \<open>Status and reconcile\<close>

definition blocklist_fields :: "applied_blocklist \<Rightarrow> blocklist \<Rightarrow> blocklist" where
  "blocklist_fields applied bl = bl\<lparr>bl_Status := (bl_Status bl)\<lparr>
     bst_ObservedGeneration := om_Generation (bl_meta bl), bst_AppliedBlockListURLs := ab_BlockListURLs applied,
     bst_AppliedAllowedDomains := ab_AllowedDomains applied, bst_AppliedBlockedDomains := ab_BlockedDomains applied\<rparr>\<rparr>"

definition BlocklistReconciler_markReady ::
  "'s blocklist_reconciler \<Rightarrow> applied_blocklist \<Rightarrow> object_key \<Rightarrow> ('s world, go_error + unit) state" where
  "BlocklistReconciler_markReady r applied =
     mark_ready r blocklist_shape ''BlocklistApplied'' ''Blocklist reconciled on the Technitium server'' (blocklist_fields applied)"

definition BlocklistReconciler_markDegraded :: "'s blocklist_reconciler \<Rightarrow> object_key \<Rightarrow> go_error \<Rightarrow> ('s world, go_error + unit) state" where
  "BlocklistReconciler_markDegraded r = mark_degraded r blocklist_shape"

definition BlocklistReconciler_Reconcile :: "'s blocklist_reconciler \<Rightarrow> object_key \<Rightarrow> ('s world, go_error + int) state" where
  "BlocklistReconciler_Reconcile r = reconcile_resource r blocklist_shape (finalizeBlocklist r) applyBlocklist
     (\<lambda>_ applied. BlocklistReconciler_markReady r applied)"

section \<open>Lemmas\<close>

lemma blocklist_shape_sel [simp]:
  "sh_meta blocklist_shape = bl_meta"
  "sh_with_finalizers blocklist_shape fs b = b\<lparr>bl_meta := (bl_meta b)\<lparr>om_Finalizers := fs\<rparr>\<rparr>"
  "sh_conditions blocklist_shape b = bst_Conditions (bl_Status b)"
  "sh_with_conditions blocklist_shape cs b = b\<lparr>bl_Status := (bl_Status b)\<lparr>bst_Conditions := cs\<rparr>\<rparr>"
  "sh_finalizer blocklist_shape = blocklistFinalizer"
  "sh_ServerRef blocklist_shape b = bs_ServerRef (bl_Spec b)"
  "sh_DeletionPolicy blocklist_shape b = bs_DeletionPolicy (bl_Spec b)"
  by (simp_all add: blocklist_shape_def)

lemma blocklist_shape_ok: "shape_ok blocklist_shape"
  by (simp add: shape_ok_def)

lemma client_blocklist_api_sel [simp]:
  "ba_GetDNSSettings (client_blocklist_api rt c) = GetDNSSettings rt c"
  "ba_SetDNSSettings (client_blocklist_api rt c) = SetDNSSettings rt c"
  "ba_ForceUpdateBlockLists (client_blocklist_api rt c) = ForceUpdateBlockLists rt c"
  "ba_AddAllowedZone (client_blocklist_api rt c) = AddAllowedZone rt c"
  "ba_DeleteAllowedZone (client_blocklist_api rt c) = DeleteAllowedZone rt c"
  "ba_AddBlockedZone (client_blocklist_api rt c) = AddBlockedZone rt c"
  "ba_DeleteBlockedZone (client_blocklist_api rt c) = DeleteBlockedZone rt c"
  by (simp_all add: client_blocklist_api_def)

lemma blocklist_client_emits:
  "emits is_http (applyBlocklist (client_blocklist_api rt c) b)" "emits is_http (blocklist_cleanup (client_blocklist_api rt c) b)"
  unfolding applyBlocklist_def blocklist_cleanup_def reconcileDomainSet_def Let_def client_blocklist_api_sel
  by (intro emits_rules emits_return emits_for_each emits_settings_endpoints)+

abbreviation blocklist_production ::
  "'s runtime \<Rightarrow> ('s, blocklist) kclient \<Rightarrow> ('s, technitium_cluster) kclient \<Rightarrow> ('s, secret) kclient \<Rightarrow> string
    \<Rightarrow> 's blocklist_reconciler" where
  "blocklist_production rt objects clusters secrets ns \<equiv> production rt objects clusters secrets ns (client_blocklist_api rt)"

interpretation blocklist_controller: resource_controller
    "blocklist_production rt objects clusters secrets ns" blocklist_shape blocklist_cleanup applyBlocklist
    "\<lambda>_ applied. BlocklistReconciler_markReady (blocklist_production rt objects clusters secrets ns) applied"
  for rt :: "'s runtime" and objects clusters secrets ns
  by unfold_locales
    (simp_all add: blocklist_shape_ok blocklist_client_emits BlocklistReconciler_markReady_def emits_mark_resource)

section \<open>Domain sets\<close>

text \<open>
  What the two calls do to the set of domains on the server: when they succeed they add or remove the
  domain, also when it was there or gone already; when they fail they may still have taken effect.
\<close>

definition set_call_law :: "('s \<Rightarrow> 'b) \<Rightarrow> ('a \<Rightarrow> 'b \<Rightarrow> 'b) \<Rightarrow> ('a \<Rightarrow> ('s world, go_error + unit) state) \<Rightarrow> bool" where
  "set_call_law view eff f \<longleftrightarrow>
     (\<forall>d w r w'. run_state (f d) w = (r, w') \<longrightarrow>
        (r = Inr () \<and> view (ext w') = eff d (view (ext w))) \<or>
        (r \<noteq> Inr () \<and> (view (ext w') = view (ext w) \<or> view (ext w') = eff d (view (ext w)))))"

text \<open>
  The server's set while domains are being added to and removed from the set \<open>D\<close> the last complete
  pass left: whatever is neither to be added nor to be removed is as it was.
\<close>

definition in_transit :: "'a set \<Rightarrow> 'a list \<Rightarrow> 'a list \<Rightarrow> 'a set \<Rightarrow> bool" where
  "in_transit D applied desired S \<longleftrightarrow> D - (set applied - set desired) \<subseteq> S \<and> S \<subseteq> D \<union> (set desired - set applied)"

lemma set_call_step:
  assumes "set_call_law view eff f" and "run_state (f d) w = (r, w')" and "P (view (ext w))" and "P (eff d (view (ext w)))"
  shows "P (view (ext w'))"
  using assms unfolding set_call_law_def by metis

lemma set_call_effect:
  assumes "set_call_law view eff f" and "run_state (f d) w = (Inr u, w')"
  shows "view (ext w') = eff d (view (ext w))"
  using assms unfolding set_call_law_def by (metis (full_types) old.unit.exhaust)

text \<open>A pass that succeeds, from whatever set the server has: it goes by the two lists alone.\<close>

lemma reconcileDomainSet_effect:
  assumes add: "set_call_law domains insert add_zone" and del: "set_call_law domains (\<lambda>d S. S - {d}) delete_zone"
    and run: "run_state (reconcileDomainSet applied desired add_zone delete_zone) w = (Inr (), w')"
  shows "domains (ext w') = (domains (ext w) \<union> (set desired - set applied)) - (set applied - set desired)"
proof -
  let ?adds = "filter (\<lambda>d. d \<notin> set applied) desired" and ?dels = "filter (\<lambda>d. d \<notin> set desired) applied"
  have fold_add: "fold insert xs S = S \<union> set xs" for xs and S :: "string set" by (induction xs arbitrary: S) auto
  have fold_del: "fold (\<lambda>d S. S - {d}) xs S = S - set xs" for xs and S :: "string set" by (induction xs arbitrary: S) auto
  obtain w1 where w1: "run_state (for_each add_zone ?adds) w = (Inr (), w1)" and w2: "run_state (for_each delete_zone ?dels) w1 = (Inr (), w')"
    using run by (auto simp: reconcileDomainSet_def run_or_return split: prod.splits sum.splits)
  have "domains (ext w1) = domains (ext w) \<union> set ?adds"
    using for_each_effect [where view = "\<lambda>w. domains (ext w)" and eff = insert, OF set_call_effect [OF add] w1] by (simp add: fold_add)
  moreover have "domains (ext w') = domains (ext w1) - set ?dels"
    using for_each_effect [where view = "\<lambda>w. domains (ext w)" and eff = "\<lambda>d S. S - {d}", OF set_call_effect [OF del] w2] by (simp add: fold_del)
  ultimately show ?thesis by auto
qed

text \<open>
  (C11) Reconciling a set of manual domains refines replacing the applied ones by the desired ones, and can
  be retried: wherever an earlier pass from the same status broke off, a pass that succeeds leaves
  exactly the domains that were on the server, less the applied ones, plus the desired ones; a pass that
  fails leaves the set where a later pass can take it up, with every other domain untouched.
\<close>

theorem reconcileDomainSet_refines:
  assumes add: "set_call_law domains insert add_zone" and del: "set_call_law domains (\<lambda>d S. S - {d}) delete_zone"
    and start: "in_transit D applied desired (domains (ext w))" and "set applied \<subseteq> D"
    and run: "run_state (reconcileDomainSet applied desired add_zone delete_zone) w = (r, w')"
  shows "in_transit D applied desired (domains (ext w')) \<and>
    (r = Inr () \<longrightarrow> domains (ext w') = (D - set applied) \<union> set desired)"
proof -
  let ?adds = "filter (\<lambda>d. d \<notin> set applied) desired" and ?dels = "filter (\<lambda>d. d \<notin> set desired) applied"
  let ?I = "\<lambda>w :: 'a world. in_transit D applied desired (domains (ext w))"
  obtain a w1 where w1: "run_state (for_each add_zone ?adds) w = (a, w1)" by fastforce
  have I1: "?I w1"
  proof (rule for_each_invariant [where I = ?I, OF _ w1 start])
    fix d u b u' assume d: "d \<in> set ?adds" and u: "run_state (add_zone d) u = (b, u')" and I: "?I u"
    have "in_transit D applied desired (insert d (domains (ext u)))"
      using d I by (auto simp: in_transit_def)
    then show "?I u'" by (rule set_call_step [where P = "in_transit D applied desired", OF add u I])
  qed
  have del_I: "?I w3" if w3: "run_state (for_each delete_zone ?dels) w2 = (b, w3)" and I2: "?I w2" for w2 w3 b
  proof (rule for_each_invariant [where I = ?I, OF _ w3 I2])
    fix d u b u' assume d: "d \<in> set ?dels" and u: "run_state (delete_zone d) u = (b, u')" and I: "?I u"
    have "in_transit D applied desired (domains (ext u) - {d})"
      using d I by (auto simp: in_transit_def)
    then show "?I u'" by (rule set_call_step [where P = "in_transit D applied desired", OF del u I])
  qed
  show ?thesis
  proof (cases a)
    case (Inl e)
    with run w1 I1 show ?thesis by (auto simp: reconcileDomainSet_def run_or_return)
  next
    case (Inr u)
    with run w1 have run2: "run_state (for_each delete_zone ?dels) w1 = (r, w')"
      by (simp add: reconcileDomainSet_def run_or_return)
    have "domains (ext w') = (D - set applied) \<union> set desired" if r: "r = Inr ()"
      using reconcileDomainSet_effect [OF add del run [unfolded r]] start assms(4) by (auto simp: in_transit_def)
    with del_I [OF run2 I1] show ?thesis by blast
  qed
qed

definition memory_add :: "string \<Rightarrow> (string set world, go_error + unit) state" where
  "memory_add d = State (\<lambda>w. (Inr (), w\<lparr>ext := insert d (ext w)\<rparr>))"

definition memory_delete :: "string \<Rightarrow> (string set world, go_error + unit) state" where
  "memory_delete d = State (\<lambda>w. (Inr (), w\<lparr>ext := ext w - {d}\<rparr>))"

theorem reconcileDomainSet_refines_witness:
  "ext (snd (run_state (reconcileDomainSet [''a.test'', ''b.test''] [''b.test'', ''c.test''] memory_add memory_delete)
     (empty_world {''a.test'', ''b.test'', ''manual.test''}))) = {''manual.test'', ''b.test'', ''c.test''}"
proof -
  let ?D = "{''a.test'', ''b.test'', ''manual.test''}"
  have laws: "set_call_law (\<lambda>S. S) insert memory_add" "set_call_law (\<lambda>S. S) (\<lambda>d S. S - {d}) memory_delete"
    by (auto simp: set_call_law_def memory_add_def memory_delete_def)
  have start: "in_transit ?D [''a.test'', ''b.test''] [''b.test'', ''c.test''] (ext (empty_world ?D))"
    by (auto simp: in_transit_def empty_world_def)
  have "fst (run_state (reconcileDomainSet [''a.test'', ''b.test''] [''b.test'', ''c.test''] memory_add memory_delete)
      (empty_world ?D)) = Inr ()"
    by (simp add: reconcileDomainSet_def memory_add_def memory_delete_def run_or_return)
  with reconcileDomainSet_refines [OF laws start _ prod.collapse [symmetric]] show ?thesis by auto
qed

text \<open>
  (C31) A pass does not look at the server: a domain that the status has as applied and the spec wants is not restored when it is missing
  there, and one that neither has is not removed. Both can be left by a pass that failed halfway when the spec is
  edited before the next one: a domain it removed and the edit brings back stays missing, under a status that lists it as
  applied, and a domain it added and the edit drops stays on the server.
\<close>

theorem interrupted_domains_stay:
  assumes "set_call_law domains insert add_zone" "set_call_law domains (\<lambda>d S. S - {d}) delete_zone"
    and failed: "run_state (reconcileDomainSet applied desired add_zone delete_zone) w = (Inl e, w1)"
    and edited: "run_state (reconcileDomainSet applied desired' add_zone delete_zone) w1 = (Inr (), w2)"
  shows "(\<forall>d \<in> set applied \<inter> set desired' - domains (ext w1). d \<notin> domains (ext w2)) \<and>
    (\<forall>d \<in> domains (ext w1) \<inter> set desired - set applied - set desired'. d \<in> domains (ext w2))"
  using reconcileDomainSet_effect [OF assms(1,2) edited] by auto

text \<open>A server that fails to remove one domain, as an instance.\<close>

definition stuck_delete :: "string \<Rightarrow> string \<Rightarrow> (string set world, go_error + unit) state" where
  "stuck_delete bad d = (if d = bad then ret (Inl (ErrorText ''timeout'')) else memory_delete d)"

theorem interrupted_domains_stay_witness:
  "\<exists>w1 w2. run_state (reconcileDomainSet [''a.test'', ''b.test''] [''c.test''] memory_add (stuck_delete ''b.test''))
       (empty_world {''a.test'', ''b.test''}) = (Inl (ErrorText ''timeout''), w1) \<and>
     run_state (reconcileDomainSet [''a.test'', ''b.test''] [''a.test'', ''b.test''] memory_add (stuck_delete ''b.test'')) w1 = (Inr (), w2) \<and>
     ''a.test'' \<notin> ext w2 \<and> ''c.test'' \<in> ext w2"
proof -
  let ?w1 = "(empty_world {''a.test'', ''b.test''})\<lparr>ext := {''b.test'', ''c.test''}\<rparr>"
  have laws: "set_call_law (\<lambda>S. S) insert memory_add" "set_call_law (\<lambda>S. S) (\<lambda>d S. S - {d}) (stuck_delete ''b.test'')"
    by (auto simp: set_call_law_def memory_add_def memory_delete_def stuck_delete_def)
  have run1: "run_state (reconcileDomainSet [''a.test'', ''b.test''] [''c.test''] memory_add (stuck_delete ''b.test''))
       (empty_world {''a.test'', ''b.test''}) = (Inl (ErrorText ''timeout''), ?w1)"
    by (simp add: reconcileDomainSet_def memory_add_def memory_delete_def stuck_delete_def run_or_return empty_world_def insert_Diff_if) auto
  have run2: "run_state (reconcileDomainSet [''a.test'', ''b.test''] [''a.test'', ''b.test''] memory_add (stuck_delete ''b.test'')) ?w1 = (Inr (), ?w1)"
    by (simp add: reconcileDomainSet_def run_or_return)
  from interrupted_domains_stay [OF laws run1 run2] run1 run2 show ?thesis
    by (intro exI [of _ ?w1]) (simp add: empty_world_def)
qed

section \<open>Settings\<close>

lemma blocklistSettingsInSync_iff:
  "blocklistSettingsInSync (blocklist_options spec) ds \<longleftrightarrow> apply_settings (blocklist_options spec) ds = ds"
  by (cases ds) (simp add: blocklistSettingsInSync_def blocklist_options_def zero_settings_options_def apply_settings_def differs_keep)

text \<open>
  (C33) The ServerSettings and the Blocklist controllers write to the same settings object and do not
  fight: their writes have the same outcome in either order, and neither a write of the one makes the
  other see drift, nor hides it.
\<close>

theorem settings_writers_independent:
  "apply_settings (blocklist_options b) (apply_settings (setDNSSettingsOptionsFromSpec s) ds) =
     apply_settings (setDNSSettingsOptionsFromSpec s) (apply_settings (blocklist_options b) ds) \<and>
   serverSettingsInSync (setDNSSettingsOptionsFromSpec s) (apply_settings (blocklist_options b) ds) =
     serverSettingsInSync (setDNSSettingsOptionsFromSpec s) ds \<and>
   blocklistSettingsInSync (blocklist_options b) (apply_settings (setDNSSettingsOptionsFromSpec s) ds) =
     blocklistSettingsInSync (blocklist_options b) ds"
  by (simp add: apply_settings_def blocklist_options_def zero_settings_options_def serverSettingsInSync_def
      blocklistSettingsInSync_def)

end
