(* ===== verification/Dhcp_Controller.thy ===== *)
theory Dhcp_Controller
  imports Settings_Controller
begin

text \<open>
  The DHCPScope resource and its controller (\<^verbatim>\<open>api/v1alpha1/dhcpscope_types.go\<close>,
  \<^verbatim>\<open>internal/controller/dhcpscope_controller.go\<close>): the range of a scope, its static reservations and
  whether it is enabled.
\<close>

section \<open>The resource\<close>

record dhcp_reservation =
  res_HardwareAddress :: string
  res_IPAddress :: string
  res_HostName :: "string option"
  res_Comments :: "string option"

record dhcp_scope_spec =
  dhs_ServerRef :: secret_reference
  dhs_ScopeName :: string
  dhs_StartingAddress :: string
  dhs_EndingAddress :: string
  dhs_SubnetMask :: string
  dhs_RouterAddress :: "string option"
  dhs_DNSServers :: "string slice"
  dhs_LeaseTimeDays :: "int option"
  dhs_LeaseTimeHours :: "int option"
  dhs_LeaseTimeMinutes :: "int option"
  dhs_DomainName :: "string option"
  dhs_Enabled :: "bool option"
  dhs_Reservations :: "dhcp_reservation list"
  dhs_DeletionPolicy :: string

record dhcp_scope_status =
  dhst_Conditions :: "condition list"
  dhst_ObservedGeneration :: int
  dhst_ScopeCreated :: bool
  dhst_AppliedReservations :: "string slice"

record dhcp_scope =
  dh_meta :: object_meta
  dh_Spec :: dhcp_scope_spec
  dh_Status :: dhcp_scope_status

section \<open>The reconciler\<close>

record 's dhcp_scope_api =
  dha_ListDHCPScopes :: "('s world, go_error + dhcp_scope_info list) state"
  dha_GetDHCPScope :: "string \<Rightarrow> ('s world, go_error + dhcp_scope_details) state"
  dha_SetDHCPScope :: "set_dhcp_scope_options \<Rightarrow> ('s world, go_error + unit) state"
  dha_EnableDHCPScope :: "string \<Rightarrow> ('s world, go_error + unit) state"
  dha_DisableDHCPScope :: "string \<Rightarrow> ('s world, go_error + unit) state"
  dha_DeleteDHCPScope :: "string \<Rightarrow> ('s world, go_error + unit) state"
  dha_AddReservedLease :: "add_reserved_lease_options \<Rightarrow> ('s world, go_error + unit) state"
  dha_RemoveReservedLease :: "string \<Rightarrow> string \<Rightarrow> ('s world, go_error + unit) state"

definition client_dhcp_api :: "'s runtime \<Rightarrow> nat \<Rightarrow> 's dhcp_scope_api" where
  "client_dhcp_api rt c = \<lparr>dha_ListDHCPScopes = ListDHCPScopes rt c, dha_GetDHCPScope = GetDHCPScope rt c,
     dha_SetDHCPScope = SetDHCPScope rt c, dha_EnableDHCPScope = EnableDHCPScope rt c,
     dha_DisableDHCPScope = DisableDHCPScope rt c, dha_DeleteDHCPScope = DeleteDHCPScope rt c,
     dha_AddReservedLease = AddReservedLease rt c, dha_RemoveReservedLease = RemoveReservedLease rt c\<rparr>"

type_synonym 's dhcp_scope_reconciler = "('s, dhcp_scope, 's dhcp_scope_api) resource_reconciler"

definition dhcpScopeFinalizer :: string where
  "dhcpScopeFinalizer = ''dns.packet.fail/dhcpscope-cleanup''"

definition dhcp_shape :: "dhcp_scope resource_shape" where
  "dhcp_shape = \<lparr>sh_meta = dh_meta,
     sh_with_finalizers = (\<lambda>fs d. d\<lparr>dh_meta := (dh_meta d)\<lparr>om_Finalizers := fs\<rparr>\<rparr>),
     sh_conditions = (\<lambda>d. dhst_Conditions (dh_Status d)),
     sh_with_conditions = (\<lambda>cs d. d\<lparr>dh_Status := (dh_Status d)\<lparr>dhst_Conditions := cs\<rparr>\<rparr>),
     sh_finalizer = dhcpScopeFinalizer,
     sh_ServerRef = (\<lambda>d. dhs_ServerRef (dh_Spec d)),
     sh_DeletionPolicy = (\<lambda>d. dhs_DeletionPolicy (dh_Spec d))\<rparr>"

definition setOptionsFromSpec :: "dhcp_scope_spec \<Rightarrow> set_dhcp_scope_options" where
  "setOptionsFromSpec spec = \<lparr>sd_o_Name = dhs_ScopeName spec, sd_o_StartingAddress = dhs_StartingAddress spec,
     sd_o_EndingAddress = dhs_EndingAddress spec, sd_o_SubnetMask = dhs_SubnetMask spec,
     sd_o_RouterAddress = dhs_RouterAddress spec, sd_o_DNSServers = dhs_DNSServers spec,
     sd_o_LeaseTimeDays = dhs_LeaseTimeDays spec, sd_o_LeaseTimeHours = dhs_LeaseTimeHours spec,
     sd_o_LeaseTimeMinutes = dhs_LeaseTimeMinutes spec, sd_o_DomainName = dhs_DomainName spec\<rparr>"

definition scopeCoreFieldsMatch :: "dhcp_scope_spec \<Rightarrow> dhcp_scope_details \<Rightarrow> bool" where
  "scopeCoreFieldsMatch spec current =
     (if dhs_StartingAddress spec \<noteq> sd_StartingAddress current \<or> dhs_EndingAddress spec \<noteq> sd_EndingAddress current \<or>
         dhs_SubnetMask spec \<noteq> sd_SubnetMask current then False
      else if differs (dhs_RouterAddress spec) (sd_RouterAddress current) then False
      else if slice_differs (dhs_DNSServers spec) (sd_DNSServers current) then False
      else if dhs_LeaseTimeDays spec \<noteq> None \<or> dhs_LeaseTimeHours spec \<noteq> None \<or> dhs_LeaseTimeMinutes spec \<noteq> None then False
      else if dhs_DomainName spec \<noteq> None then False
      else True)"

definition addReservation :: "string \<Rightarrow> 's dhcp_scope_api \<Rightarrow> dhcp_reservation \<Rightarrow> ('s world, go_error + unit) state" where
  "addReservation scopeName api reservation = dha_AddReservedLease api \<lparr>al_ScopeName = scopeName,
     al_HardwareAddress = res_HardwareAddress reservation, al_IPAddress = res_IPAddress reservation,
     al_HostName = res_HostName reservation, al_Comments = res_Comments reservation\<rparr>"

definition reconcileReservations ::
  "string list \<Rightarrow> dhcp_reservation list \<Rightarrow> string \<Rightarrow> 's dhcp_scope_api \<Rightarrow> ('s world, go_error + string slice) state" where
  "reconcileReservations applied desired scopeName api =
     or_return (for_each (addReservation scopeName api) (filter (\<lambda>r. res_HardwareAddress r \<notin> set applied) desired)) (\<lambda>_.
     or_return (for_each (\<lambda>mac. tolerate ErrDHCPReservationNotFound (dha_RemoveReservedLease api scopeName mac))
                  (filter (\<lambda>mac. mac \<notin> res_HardwareAddress ` set desired) applied)) (\<lambda>_.
     ok (Some (map res_HardwareAddress desired))))"

text \<open>The scope as read, \<^const>\<open>None\<close> when the server does not have it.\<close>

definition read_scope :: "'s dhcp_scope_api \<Rightarrow> string \<Rightarrow> ('s world, go_error + dhcp_scope_details option) state" where
  "read_scope api name = do {
     got \<leftarrow> dha_GetDHCPScope api name;
     case got of
       Inl err \<Rightarrow> if errors_Is err ErrDHCPScopeNotFound then ok None else fail err
     | Inr d \<Rightarrow> ok (Some d)
   }"

definition applyDHCPScope :: "'s dhcp_scope_api \<Rightarrow> dhcp_scope \<Rightarrow> ('s world, go_error + string slice) state" where
  "applyDHCPScope api scope =
     (let spec = dh_Spec scope; name = dhs_ScopeName spec
      in or_return (read_scope api name) (\<lambda>current.
         or_return (if (case current of None \<Rightarrow> True | Some c \<Rightarrow> \<not> scopeCoreFieldsMatch spec c)
                    then dha_SetDHCPScope api (setOptionsFromSpec spec) else ok ()) (\<lambda>_.
         or_return (reconcileReservations (elems (dhst_AppliedReservations (dh_Status scope))) (dhs_Reservations spec) name api) (\<lambda>applied.
           let currentlyEnabled = (case current of None \<Rightarrow> False | Some c \<Rightarrow> sd_Enabled c);
               desiredEnabled = (case dhs_Enabled spec of None \<Rightarrow> True | Some b \<Rightarrow> b)
           in or_return
                (if desiredEnabled \<and> \<not> currentlyEnabled then dha_EnableDHCPScope api name
                 else if \<not> desiredEnabled \<and> (current = None \<or> currentlyEnabled) then dha_DisableDHCPScope api name
                 else ok ())
                (\<lambda>_. ok applied)))))"

definition reconcileDHCPScope :: "'s dhcp_scope_reconciler \<Rightarrow> dhcp_scope \<Rightarrow> ('s world, go_error + string slice) state" where
  "reconcileDHCPScope r scope = or_return (serverClientFor r (dhs_ServerRef (dh_Spec scope))) (\<lambda>api. applyDHCPScope api scope)"

definition dhcp_cleanup :: "'s dhcp_scope_api \<Rightarrow> dhcp_scope \<Rightarrow> ('s world, go_error + unit) state" where
  "dhcp_cleanup api scope =
     or_return (tolerate ErrDHCPScopeNotFound (dha_DisableDHCPScope api (dhs_ScopeName (dh_Spec scope))))
       (\<lambda>_. tolerate ErrDHCPScopeNotFound (dha_DeleteDHCPScope api (dhs_ScopeName (dh_Spec scope))))"

definition finalizeDHCPScope :: "'s dhcp_scope_reconciler \<Rightarrow> dhcp_scope \<Rightarrow> ('s world, go_error + unit) state" where
  "finalizeDHCPScope r = finalize_resource r dhcp_shape dhcp_cleanup"

section \<open>Status and reconcile\<close>

definition dhcp_fields :: "string slice \<Rightarrow> dhcp_scope \<Rightarrow> dhcp_scope" where
  "dhcp_fields applied scope = scope\<lparr>dh_Status := (dh_Status scope)\<lparr>dhst_ObservedGeneration := om_Generation (dh_meta scope),
     dhst_ScopeCreated := True, dhst_AppliedReservations := applied\<rparr>\<rparr>"

definition DHCPScopeReconciler_markReady :: "'s dhcp_scope_reconciler \<Rightarrow> string slice \<Rightarrow> object_key \<Rightarrow> ('s world, go_error + unit) state" where
  "DHCPScopeReconciler_markReady r applied =
     mark_ready r dhcp_shape ''DHCPScopeReady'' ''DHCPScope reconciled on the Technitium server'' (dhcp_fields applied)"

definition DHCPScopeReconciler_markDegraded :: "'s dhcp_scope_reconciler \<Rightarrow> object_key \<Rightarrow> go_error \<Rightarrow> ('s world, go_error + unit) state" where
  "DHCPScopeReconciler_markDegraded r = mark_degraded r dhcp_shape"

definition DHCPScopeReconciler_Reconcile :: "'s dhcp_scope_reconciler \<Rightarrow> object_key \<Rightarrow> ('s world, go_error + int) state" where
  "DHCPScopeReconciler_Reconcile r = reconcile_resource r dhcp_shape (finalizeDHCPScope r) applyDHCPScope
     (\<lambda>_ applied. DHCPScopeReconciler_markReady r applied)"

section \<open>Lemmas\<close>

lemma dhcp_shape_sel [simp]:
  "sh_meta dhcp_shape = dh_meta"
  "sh_with_finalizers dhcp_shape fs d = d\<lparr>dh_meta := (dh_meta d)\<lparr>om_Finalizers := fs\<rparr>\<rparr>"
  "sh_conditions dhcp_shape d = dhst_Conditions (dh_Status d)"
  "sh_with_conditions dhcp_shape cs d = d\<lparr>dh_Status := (dh_Status d)\<lparr>dhst_Conditions := cs\<rparr>\<rparr>"
  "sh_finalizer dhcp_shape = dhcpScopeFinalizer"
  "sh_ServerRef dhcp_shape d = dhs_ServerRef (dh_Spec d)"
  "sh_DeletionPolicy dhcp_shape d = dhs_DeletionPolicy (dh_Spec d)"
  by (simp_all add: dhcp_shape_def)

lemma dhcp_shape_ok: "shape_ok dhcp_shape"
  by (simp add: shape_ok_def)

lemma client_dhcp_api_sel [simp]:
  "dha_ListDHCPScopes (client_dhcp_api rt c) = ListDHCPScopes rt c"
  "dha_GetDHCPScope (client_dhcp_api rt c) = GetDHCPScope rt c"
  "dha_SetDHCPScope (client_dhcp_api rt c) = SetDHCPScope rt c"
  "dha_EnableDHCPScope (client_dhcp_api rt c) = EnableDHCPScope rt c"
  "dha_DisableDHCPScope (client_dhcp_api rt c) = DisableDHCPScope rt c"
  "dha_DeleteDHCPScope (client_dhcp_api rt c) = DeleteDHCPScope rt c"
  "dha_AddReservedLease (client_dhcp_api rt c) = AddReservedLease rt c"
  "dha_RemoveReservedLease (client_dhcp_api rt c) = RemoveReservedLease rt c"
  by (simp_all add: client_dhcp_api_def)

lemma dhcp_client_emits:
  "emits is_http (applyDHCPScope (client_dhcp_api rt c) d)" "emits is_http (dhcp_cleanup (client_dhcp_api rt c) d)"
  unfolding applyDHCPScope_def dhcp_cleanup_def read_scope_def reconcileReservations_def addReservation_def Let_def client_dhcp_api_sel
  by (intro emits_rules emits_return emits_for_each emits_tolerate emits_dhcp_endpoints)+

abbreviation dhcp_production ::
  "'s runtime \<Rightarrow> ('s, dhcp_scope) kclient \<Rightarrow> ('s, technitium_cluster) kclient \<Rightarrow> ('s, secret) kclient \<Rightarrow> string
    \<Rightarrow> 's dhcp_scope_reconciler" where
  "dhcp_production rt objects clusters secrets ns \<equiv> production rt objects clusters secrets ns (client_dhcp_api rt)"

interpretation dhcp_controller: resource_controller
    "dhcp_production rt objects clusters secrets ns" dhcp_shape dhcp_cleanup applyDHCPScope
    "\<lambda>_ applied. DHCPScopeReconciler_markReady (dhcp_production rt objects clusters secrets ns) applied"
  for rt :: "'s runtime" and objects clusters secrets ns
  by unfold_locales
    (simp_all add: dhcp_shape_ok dhcp_client_emits DHCPScopeReconciler_markReady_def emits_mark_resource)

section \<open>Reservations\<close>

text \<open>
  A reservation whose hardware address is already applied is never sent to the server again: with
  the same addresses, a changed IP address, host name or comment is recorded as applied, and no request
  is made for it.
\<close>

theorem changed_reservation_ignored:
  assumes "map res_HardwareAddress desired = applied"
  shows "run_state (reconcileReservations applied desired name api) w = (Inr (Some applied), w)"
proof -
  have "filter (\<lambda>r. res_HardwareAddress r \<notin> set applied) desired = []"
    "filter (\<lambda>mac. mac \<notin> res_HardwareAddress ` set desired) applied = []"
    using assms by (auto simp: filter_empty_conv)
  then show ?thesis using assms by (simp add: reconcileReservations_def run_or_return)
qed

theorem changed_reservation_ignored_witness:
  "run_state (reconcileReservations [''00:11:22:33:44:55'']
      [\<lparr>res_HardwareAddress = ''00:11:22:33:44:55'', res_IPAddress = ''10.0.0.99'', res_HostName = None, res_Comments = None\<rparr>]
      ''lan'' (client_dhcp_api sample_runtime 0)) (empty_world ()) = (Inr (Some [''00:11:22:33:44:55'']), empty_world ())"
  by (rule changed_reservation_ignored) simp

text \<open>
  A scope without reservations is never settled: its applied list is empty, the stored one nil, so
  every pass writes the status.
\<close>

lemma no_reservations_rewrite_status:
  assumes "kc_Get (rr_objects r) key (ext w) = (Inr scope, s1)" and "dhst_AppliedReservations (dh_Status scope) \<noteq> Some []"
  shows "\<exists>scope'. trace (snd (run_state (DHCPScopeReconciler_markReady r (Some []) key) w)) =
    trace w @ [EvGet (kc_kind (rr_objects r)) key, EvStatusUpdate (kc_kind (rr_objects r)) (kc_meta (rr_objects r) scope')]"
  unfolding DHCPScopeReconciler_markReady_def
proof (rule mark_ready_writes [OF assms(1)])
  show "dhcp_fields (Some []) (sh_with_conditions dhcp_shape cs scope) \<noteq> sh_with_conditions dhcp_shape cs scope" for cs
    using assms(2) by (cases scope; cases "dh_Status scope") (auto simp: dhcp_fields_def)
qed

end
