(* ===== verification/Webhooks.thy ===== *)
theory Webhooks
  imports Go_Net Zone_Controller Record_Controller Dnssec_Controller App_Controller Blocklist_Controller Dhcp_Controller
begin

text \<open>
  The admission webhooks (\<^verbatim>\<open>internal/webhook/v1alpha1\<close>): one defaulter and one validator per resource.
  A validator collects all violations; \<open>Denied\<close> is the \<^verbatim>\<open>apierrors.NewInvalid\<close> it makes of them, with
  the kind, the name and the list. Creation and update of a resource go through its validator, a
  deletion is always allowed.
\<close>

section \<open>Verdicts\<close>

datatype bad_value = BadString string | BadBool bool | BadInt int

datatype field_error = FieldRequired string string | FieldInvalid string bad_value string

datatype admission = Allowed | Denied string string "field_error list"

definition verdict :: "string \<Rightarrow> string \<Rightarrow> field_error list \<Rightarrow> admission" where
  "verdict kind name errs = (if errs = [] then Allowed else Denied kind name errs)"

definition report_if :: "bool \<Rightarrow> field_error \<Rightarrow> field_error list" where
  "report_if b e = (if b then [e] else [])"

text \<open>The two checks every validator makes of \<^verbatim>\<open>spec.serverRef\<close>, with its own text for the first.\<close>

definition server_ref_errors :: "string \<Rightarrow> secret_reference \<Rightarrow> field_error list" where
  "server_ref_errors required ref =
     report_if (sr_Name ref = []) (FieldRequired ''spec.serverRef.name'' (''serverRef.name is required: '' @ required)) @
     report_if (sr_Namespace ref \<noteq> []) (FieldInvalid ''spec.serverRef.namespace'' (BadString (sr_Namespace ref))
       ''serverRef.namespace must not be set: a TechnitiumCluster is cluster-scoped and resolved by name'')"

definition default_policy :: "string \<Rightarrow> string \<Rightarrow> string" where
  "default_policy policy def = (if policy = [] then def else policy)"

section \<open>Zone\<close>

definition ZoneCustomDefaulter_Default :: "zone \<Rightarrow> zone" where
  "ZoneCustomDefaulter_Default obj =
     (let spec = z_Spec obj;
          spec = (if zs_Type spec = [] then spec\<lparr>zs_Type := ''Primary''\<rparr> else spec)
      in obj\<lparr>z_Spec := spec\<lparr>zs_DeletionPolicy := default_policy (zs_DeletionPolicy spec) ''Delete''\<rparr>\<rparr>)"

definition type_errors :: "zone_spec \<Rightarrow> field_error list" where
  "type_errors spec =
     (if zs_Type spec = ''Forwarder'' then
        report_if (zs_Forwarder spec = None \<or> zs_Forwarder spec = Some [])
          (FieldRequired ''spec.forwarder'' ''forwarder is required when type is Forwarder'')
      else if zs_Type spec = ''Secondary'' \<or> zs_Type spec = ''Stub'' then
        report_if (zs_PrimaryNameServerAddresses spec = []) (FieldRequired ''spec.primaryNameServerAddresses''
          (''primaryNameServerAddresses is required when type is '' @ zs_Type spec))
      else [])"

definition forwarder_only_errors :: "zone_spec \<Rightarrow> field_error list" where
  "forwarder_only_errors spec =
     (if zs_Type spec = ''Forwarder'' then []
      else (case zs_DNSSECValidation spec of
              None \<Rightarrow> []
            | Some v \<Rightarrow> [FieldInvalid ''spec.dnssecValidation'' (BadBool v) ''dnssecValidation is only meaningful when type is Forwarder'']) @
           (case zs_ForwarderProxy spec of
              None \<Rightarrow> []
            | Some proxy \<Rightarrow> [FieldInvalid ''spec.forwarderProxy'' (BadString (fp_Type proxy))
                ''forwarderProxy is only meaningful when type is Forwarder'']))"

definition proxy_errors :: "forwarder_proxy \<Rightarrow> field_error list" where
  "proxy_errors proxy =
     (if fp_Type proxy = ''Http'' \<or> fp_Type proxy = ''Socks5'' then
        report_if (fp_Address proxy = None \<or> fp_Address proxy = Some []) (FieldRequired ''spec.forwarderProxy.address''
          (''address is required when forwarderProxy.type is '' @ fp_Type proxy)) @
        report_if (fp_Port proxy = None) (FieldRequired ''spec.forwarderProxy.port''
          (''port is required when forwarderProxy.type is '' @ fp_Type proxy))
      else if fp_Type proxy = ''NoProxy'' then
        (case fp_Address proxy of
           None \<Rightarrow> []
         | Some a \<Rightarrow> [FieldInvalid ''spec.forwarderProxy.address'' (BadString a)
             ''address must not be set when forwarderProxy.type is NoProxy'']) @
        (case fp_Port proxy of
           None \<Rightarrow> []
         | Some p \<Rightarrow> [FieldInvalid ''spec.forwarderProxy.port'' (BadInt p) ''port must not be set when forwarderProxy.type is NoProxy''])
      else [])"

definition validateSpec :: "zone \<Rightarrow> zone option \<Rightarrow> admission" where
  "validateSpec zone oldZone =
     (let spec = z_Spec zone
      in verdict ''Zone'' (om_Name (z_meta zone))
        ((case oldZone of
            None \<Rightarrow> []
          | Some old \<Rightarrow> report_if (zs_ZoneName spec \<noteq> zs_ZoneName (z_Spec old)) (FieldInvalid ''spec.zoneName'' (BadString (zs_ZoneName spec))
              ''zoneName is immutable: delete and recreate the resource to rename a zone'')) @
         server_ref_errors ''a Zone must name the TechnitiumCluster it is created on'' (zs_ServerRef spec) @
         type_errors spec @
         forwarder_only_errors spec @
         (case zs_ForwarderProxy spec of None \<Rightarrow> [] | Some proxy \<Rightarrow> proxy_errors proxy)))"

definition ZoneCustomValidator_ValidateCreate :: "zone \<Rightarrow> admission" where
  "ZoneCustomValidator_ValidateCreate obj = validateSpec obj None"

definition ZoneCustomValidator_ValidateUpdate :: "zone \<Rightarrow> zone \<Rightarrow> admission" where
  "ZoneCustomValidator_ValidateUpdate oldObj newObj = validateSpec newObj (Some oldObj)"

section \<open>Record\<close>

definition RecordCustomDefaulter_Default :: "record_resource \<Rightarrow> record_resource" where
  "RecordCustomDefaulter_Default obj = obj\<lparr>rec_Spec := (rec_Spec obj)\<lparr>
     rs_DeletionPolicy := default_policy (rs_DeletionPolicy (rec_Spec obj)) ''Delete''\<rparr>\<rparr>"

definition validateRecordSpec :: "record_resource \<Rightarrow> record_resource option \<Rightarrow> admission" where
  "validateRecordSpec rec oldRecord =
     (let spec = rec_Spec rec
      in verdict ''Record'' (om_Name (rec_meta rec))
        ((case oldRecord of
            None \<Rightarrow> []
          | Some old \<Rightarrow> report_if (rs_Name spec \<noteq> rs_Name (rec_Spec old)) (FieldInvalid ''spec.name'' (BadString (rs_Name spec))
              ''name is immutable: delete and recreate the resource to rename a record'')) @
         server_ref_errors ''a Record must name the TechnitiumCluster it is created on'' (rs_ServerRef spec) @
         report_if (rs_Type spec = RecordTypeMX \<and> rs_Priority spec = None)
           (FieldRequired ''spec.priority'' ''priority is required when type is MX'')))"

definition RecordCustomValidator_ValidateCreate :: "record_resource \<Rightarrow> admission" where
  "RecordCustomValidator_ValidateCreate obj = validateRecordSpec obj None"

definition RecordCustomValidator_ValidateUpdate :: "record_resource \<Rightarrow> record_resource \<Rightarrow> admission" where
  "RecordCustomValidator_ValidateUpdate oldObj newObj = validateRecordSpec newObj (Some oldObj)"

section \<open>DNSSEC, DNSApp, Blocklist and ServerSettings\<close>

definition DNSSECCustomDefaulter_Default :: "dnssec_resource \<Rightarrow> dnssec_resource" where
  "DNSSECCustomDefaulter_Default obj =
     (let spec = dn_Spec obj
      in obj\<lparr>dn_Spec := spec\<lparr>dns_DeletionPolicy := default_policy (dns_DeletionPolicy spec) ''Delete'',
           dns_NSECType := (if dns_NSECType spec = [] then ''NSEC'' else dns_NSECType spec)\<rparr>\<rparr>)"

definition algorithm_errors :: "dnssec_spec \<Rightarrow> field_error list" where
  "algorithm_errors spec =
     (if dns_Algorithm spec = ''RSA'' then
        (case dns_Curve spec of
           None \<Rightarrow> []
         | Some c \<Rightarrow> [FieldInvalid ''spec.curve'' (BadString c) ''curve must not be set when algorithm is RSA''])
      else if dns_Algorithm spec = ''ECDSA'' then
        (case dns_HashAlgorithm spec of
           None \<Rightarrow> []
         | Some h \<Rightarrow> [FieldInvalid ''spec.hashAlgorithm'' (BadString h) ''hashAlgorithm must not be set when algorithm is ECDSA'']) @
        (case dns_KSKKeySize spec of
           None \<Rightarrow> []
         | Some n \<Rightarrow> [FieldInvalid ''spec.kskKeySize'' (BadInt n) ''kskKeySize must not be set when algorithm is ECDSA'']) @
        (case dns_ZSKKeySize spec of
           None \<Rightarrow> []
         | Some n \<Rightarrow> [FieldInvalid ''spec.zskKeySize'' (BadInt n) ''zskKeySize must not be set when algorithm is ECDSA''])
      else [])"

definition validateDNSSECSpec :: "dnssec_resource \<Rightarrow> admission" where
  "validateDNSSECSpec d = verdict ''DNSSEC'' (om_Name (dn_meta d))
     (server_ref_errors ''a DNSSEC resource must name the TechnitiumCluster it signs a zone on'' (dns_ServerRef (dn_Spec d)) @
      report_if (dns_Zone (dn_Spec d) = []) (FieldRequired ''spec.zone'' ''zone is required'') @
      algorithm_errors (dn_Spec d))"

definition DNSAppCustomDefaulter_Default :: "dns_app \<Rightarrow> dns_app" where
  "DNSAppCustomDefaulter_Default obj = obj\<lparr>app_Spec := (app_Spec obj)\<lparr>
     as_DeletionPolicy := default_policy (as_DeletionPolicy (app_Spec obj)) ''Delete''\<rparr>\<rparr>"

definition validateDNSAppSpec :: "dns_app \<Rightarrow> admission" where
  "validateDNSAppSpec app = verdict ''DNSApp'' (om_Name (app_meta app))
     (server_ref_errors ''a DNSApp must name the TechnitiumCluster it installs onto'' (as_ServerRef (app_Spec app)) @
      report_if (as_AppName (app_Spec app) = []) (FieldRequired ''spec.appName''
        ''appName is required: a DNSApp must name the DNS App it installs'') @
      report_if (as_URL (app_Spec app) = []) (FieldRequired ''spec.url''
        ''url is required: a DNSApp must know where to download the app package from''))"

definition BlocklistCustomDefaulter_Default :: "blocklist \<Rightarrow> blocklist" where
  "BlocklistCustomDefaulter_Default obj = obj\<lparr>bl_Spec := (bl_Spec obj)\<lparr>
     bs_DeletionPolicy := default_policy (bs_DeletionPolicy (bl_Spec obj)) ''Delete''\<rparr>\<rparr>"

definition validateBlocklistSpec :: "blocklist \<Rightarrow> admission" where
  "validateBlocklistSpec bl = verdict ''Blocklist'' (om_Name (bl_meta bl))
     (server_ref_errors ''a Blocklist must name the TechnitiumCluster it configures'' (bs_ServerRef (bl_Spec bl)))"

definition ServerSettingsCustomDefaulter_Default :: "server_settings \<Rightarrow> server_settings" where
  "ServerSettingsCustomDefaulter_Default obj = obj\<lparr>ss_Spec := (ss_Spec obj)\<lparr>
     sts_DeletionPolicy := default_policy (sts_DeletionPolicy (ss_Spec obj)) ''Retain''\<rparr>\<rparr>"

definition validateServerSettingsSpec :: "server_settings \<Rightarrow> admission" where
  "validateServerSettingsSpec s = verdict ''ServerSettings'' (om_Name (ss_meta s))
     (server_ref_errors ''a ServerSettings must name the TechnitiumCluster it configures'' (sts_ServerRef (ss_Spec s)))"

section \<open>DHCPScope\<close>

definition DHCPScopeCustomDefaulter_Default :: "dhcp_scope \<Rightarrow> dhcp_scope" where
  "DHCPScopeCustomDefaulter_Default obj =
     (let spec = dh_Spec obj
      in obj\<lparr>dh_Spec := spec\<lparr>dhs_DeletionPolicy := default_policy (dhs_DeletionPolicy spec) ''Delete'',
           dhs_Enabled := (case dhs_Enabled spec of None \<Rightarrow> Some True | Some b \<Rightarrow> Some b)\<rparr>\<rparr>)"

definition validateScopeIP :: "string \<Rightarrow> string \<Rightarrow> string \<Rightarrow> byte list option \<times> field_error list" where
  "validateScopeIP path v fieldName =
     (if v = [] then (None, [FieldRequired path (fieldName @ '' is required'')])
      else case ParseIP4 v of
        None \<Rightarrow> (None, [FieldInvalid path (BadString v) (fieldName @ '' must be a valid IPv4 address'')])
      | Some ip \<Rightarrow> (Some ip, []))"

definition validateAddressInSubnet ::
  "string \<Rightarrow> string \<Rightarrow> string \<Rightarrow> byte list option \<Rightarrow> byte list option \<Rightarrow> field_error list" where
  "validateAddressInSubnet path v fieldName networkIP m =
     (if v = [] then [FieldRequired path (fieldName @ '' is required'')]
      else case ParseIP4 v of
        None \<Rightarrow> [FieldInvalid path (BadString v) (fieldName @ '' must be a valid IPv4 address'')]
      | Some ip \<Rightarrow>
          (case (networkIP, m) of
             (Some n, Some m) \<Rightarrow> report_if (\<not> subnet_contains n m ip)
               (FieldInvalid path (BadString v) (fieldName @ '' must fall within the scope's subnet''))
           | _ \<Rightarrow> []))"

fun bytesCompare :: "byte list \<Rightarrow> byte list \<Rightarrow> int" where
  "bytesCompare (a # as) (b # bs) = (if a \<noteq> b then (if a < b then -1 else 1) else bytesCompare as bs)"
| "bytesCompare _ _ = 0"

definition validate_mask :: "string \<Rightarrow> byte list option \<times> field_error list" where
  "validate_mask v =
     (if v = [] then (None, [FieldRequired ''spec.subnetMask'' ''subnetMask is required''])
      else case ParseIP4 v of
        None \<Rightarrow> (None, [FieldInvalid ''spec.subnetMask'' (BadString v) ''subnetMask must be a valid IPv4 subnet mask''])
      | Some m \<Rightarrow>
          (case simpleMaskLength m of
             None \<Rightarrow> (None, [FieldInvalid ''spec.subnetMask'' (BadString v) ''subnetMask must be a contiguous IPv4 subnet mask''])
           | Some _ \<Rightarrow> (Some m, [])))"

definition reservation_errors :: "byte list option \<Rightarrow> byte list option \<Rightarrow> nat \<times> dhcp_reservation \<Rightarrow> field_error list" where
  "reservation_errors startIP m p =
     (case p of (i, reservation) \<Rightarrow>
        let path = ''spec.reservations['' @ Itoa (int i) @ '']''
        in report_if (\<not> ParseMAC_ok (res_HardwareAddress reservation)) (FieldInvalid (path @ ''.hardwareAddress'')
             (BadString (res_HardwareAddress reservation)) ''hardwareAddress must be a valid MAC address'') @
           validateAddressInSubnet (path @ ''.ipAddress'') (res_IPAddress reservation) ''ipAddress'' startIP m)"

definition validateDHCPScopeSpec :: "dhcp_scope \<Rightarrow> admission" where
  "validateDHCPScopeSpec scope =
     (let spec = dh_Spec scope;
          (startIP, startErrs) = validateScopeIP ''spec.startingAddress'' (dhs_StartingAddress spec) ''startingAddress'';
          (endIP, endErrs) = validateScopeIP ''spec.endingAddress'' (dhs_EndingAddress spec) ''endingAddress'';
          (m, maskErrs) = validate_mask (dhs_SubnetMask spec)
      in verdict ''DHCPScope'' (om_Name (dh_meta scope))
        (server_ref_errors ''a DHCPScope must name the TechnitiumCluster it configures'' (dhs_ServerRef spec) @
         report_if (dhs_ScopeName spec = []) (FieldRequired ''spec.scopeName'' ''scopeName is required'') @
         startErrs @ endErrs @
         (case (startIP, endIP) of
            (Some a, Some b) \<Rightarrow> report_if (bytesCompare a b > 0) (FieldInvalid ''spec.startingAddress''
              (BadString (dhs_StartingAddress spec)) ''startingAddress must not be after endingAddress'')
          | _ \<Rightarrow> []) @
         maskErrs @
         (case dhs_RouterAddress spec of
            None \<Rightarrow> []
          | Some a \<Rightarrow> validateAddressInSubnet ''spec.routerAddress'' a ''routerAddress'' startIP m) @
         concat (map (reservation_errors startIP m) (zip [0..<length (dhs_Reservations spec)] (dhs_Reservations spec)))))"

subsection \<open>Entry points\<close>

text \<open>These validators do not look at the object an update replaces, and none objects to a deletion.\<close>

definition DNSSECCustomValidator_ValidateCreate :: "dnssec_resource \<Rightarrow> admission" where
  "DNSSECCustomValidator_ValidateCreate obj = validateDNSSECSpec obj"

definition DNSSECCustomValidator_ValidateUpdate :: "dnssec_resource \<Rightarrow> dnssec_resource \<Rightarrow> admission" where
  "DNSSECCustomValidator_ValidateUpdate oldObj newObj = validateDNSSECSpec newObj"

definition DNSAppCustomValidator_ValidateCreate :: "dns_app \<Rightarrow> admission" where
  "DNSAppCustomValidator_ValidateCreate obj = validateDNSAppSpec obj"

definition DNSAppCustomValidator_ValidateUpdate :: "dns_app \<Rightarrow> dns_app \<Rightarrow> admission" where
  "DNSAppCustomValidator_ValidateUpdate oldObj newObj = validateDNSAppSpec newObj"

definition BlocklistCustomValidator_ValidateCreate :: "blocklist \<Rightarrow> admission" where
  "BlocklistCustomValidator_ValidateCreate obj = validateBlocklistSpec obj"

definition BlocklistCustomValidator_ValidateUpdate :: "blocklist \<Rightarrow> blocklist \<Rightarrow> admission" where
  "BlocklistCustomValidator_ValidateUpdate oldObj newObj = validateBlocklistSpec newObj"

definition ServerSettingsCustomValidator_ValidateCreate :: "server_settings \<Rightarrow> admission" where
  "ServerSettingsCustomValidator_ValidateCreate obj = validateServerSettingsSpec obj"

definition ServerSettingsCustomValidator_ValidateUpdate :: "server_settings \<Rightarrow> server_settings \<Rightarrow> admission" where
  "ServerSettingsCustomValidator_ValidateUpdate oldObj newObj = validateServerSettingsSpec newObj"

definition DHCPScopeCustomValidator_ValidateCreate :: "dhcp_scope \<Rightarrow> admission" where
  "DHCPScopeCustomValidator_ValidateCreate obj = validateDHCPScopeSpec obj"

definition DHCPScopeCustomValidator_ValidateUpdate :: "dhcp_scope \<Rightarrow> dhcp_scope \<Rightarrow> admission" where
  "DHCPScopeCustomValidator_ValidateUpdate oldObj newObj = validateDHCPScopeSpec newObj"

definition ZoneCustomValidator_ValidateDelete :: "zone \<Rightarrow> admission" where
  "ZoneCustomValidator_ValidateDelete _ = Allowed"

definition RecordCustomValidator_ValidateDelete :: "record_resource \<Rightarrow> admission" where
  "RecordCustomValidator_ValidateDelete _ = Allowed"

definition DNSSECCustomValidator_ValidateDelete :: "dnssec_resource \<Rightarrow> admission" where
  "DNSSECCustomValidator_ValidateDelete _ = Allowed"

definition DNSAppCustomValidator_ValidateDelete :: "dns_app \<Rightarrow> admission" where
  "DNSAppCustomValidator_ValidateDelete _ = Allowed"

definition BlocklistCustomValidator_ValidateDelete :: "blocklist \<Rightarrow> admission" where
  "BlocklistCustomValidator_ValidateDelete _ = Allowed"

definition ServerSettingsCustomValidator_ValidateDelete :: "server_settings \<Rightarrow> admission" where
  "ServerSettingsCustomValidator_ValidateDelete _ = Allowed"

definition DHCPScopeCustomValidator_ValidateDelete :: "dhcp_scope \<Rightarrow> admission" where
  "DHCPScopeCustomValidator_ValidateDelete _ = Allowed"

section \<open>Lemmas\<close>

lemma verdict_Allowed [simp]: "verdict kind name errs = Allowed \<longleftrightarrow> errs = []"
  by (simp add: verdict_def)

lemma report_if_Nil [simp]: "report_if b e = [] \<longleftrightarrow> \<not> b"
  by (simp add: report_if_def)

lemma server_ref_errors_Nil [simp]: "server_ref_errors req ref = [] \<longleftrightarrow> sr_Name ref \<noteq> [] \<and> sr_Namespace ref = []"
  by (simp add: server_ref_errors_def)

text \<open>On addresses of one length the bytewise comparison is the comparison of the numbers.\<close>

lemma bytesCompare_value:
  assumes "length as = length bs"
  shows "0 < bytesCompare as bs \<longleftrightarrow> bytes_value bs < bytes_value as"
  using assms
proof (induction as bs rule: list_induct2)
  case (Cons a as b bs)
  show ?case
  proof (cases a b rule: linorder_cases)
    case less
    with bytes_value_Cons_less [OF Cons.hyps] show ?thesis by (auto dest: less_asym)
  next
    case greater
    with bytes_value_Cons_less [OF Cons.hyps [symmetric]] show ?thesis by auto
  next
    case equal
    with Cons show ?thesis by simp
  qed
qed simp

lemma ParseIP4_empty [simp]: "ParseIP4 [] = None"
  by (simp add: ParseIP4_def ParseIP_def)

lemma validateScopeIP_sel:
  "fst (validateScopeIP path v f) = ParseIP4 v" "snd (validateScopeIP path v f) = [] \<longleftrightarrow> ParseIP4 v \<noteq> None"
  by (auto simp: validateScopeIP_def split: option.splits)

lemma validate_mask_sel:
  "snd (validate_mask v) = [] \<longleftrightarrow> (\<exists>m n. ParseIP4 v = Some m \<and> simpleMaskLength m = Some n)"
  "snd (validate_mask v) = [] \<Longrightarrow> fst (validate_mask v) = ParseIP4 v"
  by (auto simp: validate_mask_def split: option.splits if_splits)

lemma validateAddressInSubnet_Nil:
  "validateAddressInSubnet path v f (Some a) (Some m) = [] \<longleftrightarrow> (\<exists>ip. ParseIP4 v = Some ip \<and> mask_and ip m = mask_and a m)"
  by (auto simp: validateAddressInSubnet_def subnet_contains_iff split: option.splits)

lemma reservation_errors_Nil:
  "reservation_errors (Some a) (Some m) (i, r) = [] \<longleftrightarrow>
     ParseMAC_ok (res_HardwareAddress r) \<and> (\<exists>ip. ParseIP4 (res_IPAddress r) = Some ip \<and> mask_and ip m = mask_and a m)"
  by (simp add: reservation_errors_def Let_def validateAddressInSubnet_Nil)

lemma all_zip_upt: "(\<forall>p \<in> set (zip [0..<length xs] xs). P (snd p)) \<longleftrightarrow> (\<forall>x \<in> set xs. P x)"
proof -
  have "snd ` set (zip [0..<length xs] xs) = set xs"
    by (metis length_map length_upt map_snd_zip minus_nat.diff_0 set_map)
  moreover have "(\<forall>x \<in> snd ` set (zip [0..<length xs] xs). P x) \<longleftrightarrow> (\<forall>p \<in> set (zip [0..<length xs] xs). P (snd p))"
    by simp
  ultimately show ?thesis by simp
qed

section \<open>What is admitted\<close>


text \<open>A scope from .10 to .20 with a reservation of .5, in the subnet but outside the range.\<close>

definition sample_scope :: dhcp_scope where
  "sample_scope = \<lparr>dh_meta = zero_meta,
     dh_Spec = \<lparr>dhs_ServerRef = sample_ref, dhs_ScopeName = ''lan'', dhs_StartingAddress = ''10.0.0.10'', dhs_EndingAddress = ''10.0.0.20'',
       dhs_SubnetMask = ''255.255.255.0'', dhs_RouterAddress = Some ''10.0.0.1'', dhs_DNSServers = None, dhs_LeaseTimeDays = None,
       dhs_LeaseTimeHours = None, dhs_LeaseTimeMinutes = None, dhs_DomainName = None, dhs_Enabled = None,
       dhs_Reservations = [\<lparr>res_HardwareAddress = ''00:11:22:33:44:55'', res_IPAddress = ''10.0.0.5'', res_HostName = None, res_Comments = None\<rparr>],
       dhs_DeletionPolicy = ''Delete''\<rparr>,
     dh_Status = \<lparr>dhst_Conditions = [], dhst_ObservedGeneration = 0, dhst_ScopeCreated = False, dhst_AppliedReservations = None\<rparr>\<rparr>"

lemma sample_addresses:
  "ParseIP4 ''10.0.0.10'' = Some [10, 0, 0, 10]" "ParseIP4 ''10.0.0.20'' = Some [10, 0, 0, 20]"
  "ParseIP4 ''255.255.255.0'' = Some [255, 255, 255, 0]" "ParseIP4 ''10.0.0.1'' = Some [10, 0, 0, 1]"
  "ParseIP4 ''10.0.0.5'' = Some [10, 0, 0, 5]"
  by (simp_all add: ParseIP4_def ParseIP_def To4_def parseIPv4_def parse_octet_def parse_digits_def digits_value_def is_digit_def
      char_code_def)

lemma sample_hardware_address: "ParseMAC_ok ''00:11:22:33:44:55''"
  by (simp add: ParseMAC_ok_def hex_group_def is_hex_def hex_value_def char_code_def Let_def)

lemma leading_ones_zero: "leading_ones 0 = Some 0"
  by (simp add: leading_ones_def upt_rec)


text \<open>
  A Zone is admitted exactly when it keeps its name, names a cluster without a namespace, has the
  fields its type requires and none that only a forwarder may have, and its proxy is complete.
\<close>

theorem zone_admitted_iff:
  "validateSpec zone oldZone = Allowed \<longleftrightarrow>
     (\<forall>old. oldZone = Some old \<longrightarrow> zs_ZoneName (z_Spec zone) = zs_ZoneName (z_Spec old)) \<and>
     sr_Name (zs_ServerRef (z_Spec zone)) \<noteq> [] \<and> sr_Namespace (zs_ServerRef (z_Spec zone)) = [] \<and>
     (zs_Type (z_Spec zone) = ''Forwarder'' \<longrightarrow> or_empty (zs_Forwarder (z_Spec zone)) \<noteq> []) \<and>
     (zs_Type (z_Spec zone) \<in> {''Secondary'', ''Stub''} \<longrightarrow> zs_PrimaryNameServerAddresses (z_Spec zone) \<noteq> []) \<and>
     (zs_Type (z_Spec zone) \<noteq> ''Forwarder'' \<longrightarrow> zs_DNSSECValidation (z_Spec zone) = None \<and> zs_ForwarderProxy (z_Spec zone) = None) \<and>
     (\<forall>proxy. zs_ForwarderProxy (z_Spec zone) = Some proxy \<longrightarrow>
        (fp_Type proxy \<in> {''Http'', ''Socks5''} \<longrightarrow> or_empty (fp_Address proxy) \<noteq> [] \<and> fp_Port proxy \<noteq> None) \<and>
        (fp_Type proxy = ''NoProxy'' \<longrightarrow> fp_Address proxy = None \<and> fp_Port proxy = None))"
proof -
  define spec where "spec = z_Spec zone"
  have type: "type_errors spec = [] \<longleftrightarrow> (zs_Type spec = ''Forwarder'' \<longrightarrow> or_empty (zs_Forwarder spec) \<noteq> []) \<and>
      (zs_Type spec \<in> {''Secondary'', ''Stub''} \<longrightarrow> zs_PrimaryNameServerAddresses spec \<noteq> [])"
    by (auto simp: type_errors_def or_empty_def split: option.splits)
  have fwd: "forwarder_only_errors spec = [] \<longleftrightarrow>
      (zs_Type spec \<noteq> ''Forwarder'' \<longrightarrow> zs_DNSSECValidation spec = None \<and> zs_ForwarderProxy spec = None)"
    by (simp add: forwarder_only_errors_def split: option.splits)
  have proxy: "proxy_errors proxy = [] \<longleftrightarrow>
      (fp_Type proxy \<in> {''Http'', ''Socks5''} \<longrightarrow> or_empty (fp_Address proxy) \<noteq> [] \<and> fp_Port proxy \<noteq> None) \<and>
      (fp_Type proxy = ''NoProxy'' \<longrightarrow> fp_Address proxy = None \<and> fp_Port proxy = None)" for proxy
    by (auto simp: proxy_errors_def or_empty_def split: option.splits)
  show ?thesis
    unfolding validateSpec_def Let_def spec_def [symmetric] verdict_Allowed append_is_Nil_conv server_ref_errors_Nil type fwd
    by (auto simp: proxy split: option.splits)
qed

theorem zone_admitted_iff_witness: "validateSpec (sample_zone\<lparr>z_Spec := (z_Spec sample_zone)\<lparr>zs_DNSSECValidation := None\<rparr>\<rparr>) None = Allowed"
  unfolding zone_admitted_iff by (simp add: sample_zone_def sample_ref_def)

text \<open>
  A Record that passes its validator, and the enumerations and length limits of the custom resource
  definition, is complete: the client accepts its parameters for an add, and they identify one record, the
  MX preference included.
\<close>

theorem admitted_record_well_formed:
  assumes "RecordCustomValidator_ValidateCreate rec = Allowed"
    and "rs_Type (rec_Spec rec) \<in> set record_types" and "rs_Data (rec_Spec rec) \<noteq> []" and "rs_Name (rec_Spec rec) \<noteq> []"
  shows "(\<exists>p. recordParams (rs_Zone (rec_Spec rec)) (rs_Name (rec_Spec rec)) (rs_Type (rec_Spec rec)) = Inr p) \<and>
    identifies (rs_Type (rec_Spec rec)) (ar_Value (addOptionsFromSpec (rec_Spec rec)))"
proof -
  have mx: "rs_Type (rec_Spec rec) = RecordTypeMX \<longrightarrow> rs_Priority (rec_Spec rec) \<noteq> None"
    using assms(1) by (simp add: RecordCustomValidator_ValidateCreate_def validateRecordSpec_def Let_def)
  have "identifies (rs_Type (rec_Spec rec)) (setRecordValue zero_record_value (rec_Spec rec))"
    using assms(2,3) mx
    by (cases rule: record_type_cases) (simp_all add: record_value_defs)
  moreover have "rs_Type (rec_Spec rec) \<noteq> []"
    using assms(2) by (auto simp: record_types_def record_type_defs)
  ultimately show ?thesis
    using assms(4) by (simp add: recordParams_def addOptionsFromSpec_def)
qed

theorem admitted_record_well_formed_witness:
  "identifies ''A'' (ar_Value (addOptionsFromSpec (rec_Spec moved_record)))"
proof -
  have "RecordCustomValidator_ValidateCreate moved_record = Allowed" "rs_Type (rec_Spec moved_record) \<in> set record_types"
    "rs_Data (rec_Spec moved_record) \<noteq> []" "rs_Name (rec_Spec moved_record) \<noteq> []"
    by (simp_all add: moved_record_def RecordCustomValidator_ValidateCreate_def validateRecordSpec_def Let_def record_types_def
        record_type_defs)
  from admitted_record_well_formed [OF this] show ?thesis by (simp add: moved_record_def)
qed

end
