(* ===== verification/External_DNS.thy ===== *)
theory External_DNS
  imports Go_Hash Webhooks "HOL-Library.AList" "HOL-Library.List_Lexorder" "HOL-Library.Char_ord" "HOL-Library.Product_Lexorder"
begin

text \<open>
  The ExternalDNS webhook (\<^verbatim>\<open>internal/externaldns\<close>): the wire types, the translation between
  ExternalDNS endpoints and Record resources (\<^verbatim>\<open>translate.go\<close>). The handlers on top of it are in
  \<open>External_DNS_Server\<close>, the command that serves them in \<open>External_DNS_Run\<close>.

  The elements of the lists of a change set are pointers, which JSON \<^verbatim>\<open>null\<close> leaves nil; using one
  is the panic \<open>NilPointer\<close>. A Go map that is filled together with a slice of its keys, or with a
  slice of its values, is one association list in the order of the slice (\<^verbatim>\<open>groups\<close> and \<^verbatim>\<open>order\<close>,
  \<^verbatim>\<open>olds\<close> and \<^verbatim>\<open>oldOrder\<close>), and \<open>AList.update\<close> is the assignment; \<^verbatim>\<open>deleted\<close> holds exactly the
  names of \<^verbatim>\<open>p.Delete\<close>.
\<close>

section \<open>Wire types\<close>

record provider_specific =
  pv_Name :: string
  pv_Value :: string

record endpoint =
  ep_DNSName :: string
  ep_Targets :: "string list"
  ep_RecordType :: string
  ep_SetIdentifier :: string
  ep_RecordTTL :: int
  ep_Labels :: string_map
  ep_ProviderSpecific :: "provider_specific list"

record changes =
  ch_Create :: "endpoint option list"
  ch_UpdateOld :: "endpoint option list"
  ch_UpdateNew :: "endpoint option list"
  ch_Delete :: "endpoint option list"

definition normalizeName :: "string \<Rightarrow> string" where
  "normalizeName s = TrimRightFunc (\<lambda>c. c = CHR ''.'') (ToLower (TrimSpace s))"

section \<open>Translation\<close>

definition LabelManagedBy :: string where
  "LabelManagedBy = ''app.kubernetes.io/managed-by''"

definition LabelManagedByValue :: string where
  "LabelManagedByValue = ''external-dns''"

definition LabelOwner :: string where
  "LabelOwner = ''dns.packet.fail/external-dns-owner''"

definition AnnotationSetIdentifier :: string where
  "AnnotationSetIdentifier = ''dns.packet.fail/external-dns-set-identifier''"

definition supportedTypes :: "string \<rightharpoonup> string" where
  "supportedTypes = map_of [(''A'', RecordTypeA), (''AAAA'', RecordTypeAAAA), (''CNAME'', RecordTypeCNAME),
     (''TXT'', RecordTypeTXT), (''NS'', RecordTypeNS), (''PTR'', RecordTypePTR), (''MX'', RecordTypeMX)]"

record translator =
  tl_Namespace :: string
  tl_ServerRef :: string
  tl_OwnerID :: string
  tl_Zones :: "string list"

definition RecordName :: "string \<Rightarrow> string \<Rightarrow> string \<Rightarrow> string \<Rightarrow> string \<Rightarrow> string" where
  "RecordName ownerID dnsName recordType target setIdentifier =
     (let written = concat (map (\<lambda>p. map byte_of_char p @ [0])
            [ownerID, normalizeName dnsName, ToUpper recordType, target, setIdentifier])
      in ''edns-'' @ EncodeToString (take 16 (sha256 written)))"

definition in_zone :: "string \<Rightarrow> string \<Rightarrow> bool" where
  "in_zone name z \<longleftrightarrow> name = z \<or> HasSuffix name (CHR ''.'' # z)"

definition ZoneFor :: "translator \<Rightarrow> string \<Rightarrow> string \<times> bool" where
  "ZoneFor t name =
     (let name = normalizeName name;
          best = fold (\<lambda>z best. let z = normalizeName z
                  in if in_zone name z \<and> length best < length z then z else best) (tl_Zones t) []
      in (best, best \<noteq> []))"

definition num_error :: "string \<Rightarrow> go_error" where
  "num_error s = ErrorText (''strconv.ParseUint: parsing '' @ Quote s @
     (if parse_digits s = None then '': invalid syntax'' else '': value out of range''))"

definition ParseMX :: "string \<Rightarrow> go_error + int \<times> string" where
  "ParseMX target =
     (case Fields target of
        [p, host] \<Rightarrow>
          (case ParseUint10 p 16 of
             None \<Rightarrow> Inl (ErrorWrap (''malformed MX target '' @ Quote target @ '': invalid priority: '') (num_error p) [])
           | Some n \<Rightarrow> Inr (go_int32 (int n), host))
      | _ \<Rightarrow> Inl (ErrorText (''malformed MX target '' @ Quote target @ '': want '' @ Quote ''<priority> <host>'')))"

definition Selector :: "translator \<Rightarrow> string_map" where
  "Selector t = [(LabelManagedBy, LabelManagedByValue), (LabelOwner, tl_OwnerID t)]"

definition zero_record_status :: record_status where
  "zero_record_status = \<lparr>rst_Conditions = [], rst_ObservedGeneration = 0, rst_RecordCreated = False, rst_AppliedData = [],
     rst_AppliedPriority = None\<rparr>"

text \<open>The Record before the fields that depend on its type and TTL are filled in.\<close>

definition base_record :: "translator \<Rightarrow> endpoint \<Rightarrow> string \<Rightarrow> string \<Rightarrow> string \<Rightarrow> record_resource" where
  "base_record t ep target rt zone =
     \<lparr>rec_meta = zero_meta\<lparr>om_Name := RecordName (tl_OwnerID t) (ep_DNSName ep) (ep_RecordType ep) target (ep_SetIdentifier ep),
        om_Namespace := tl_Namespace t, om_Labels := Selector t,
        om_Annotations := (if ep_SetIdentifier ep \<noteq> [] then [(AnnotationSetIdentifier, ep_SetIdentifier ep)] else [])\<rparr>,
      rec_Spec = \<lparr>rs_ServerRef = \<lparr>sr_Name = tl_ServerRef t, sr_Namespace = []\<rparr>, rs_Zone = zone,
        rs_Name = normalizeName (ep_DNSName ep), rs_Type = rt, rs_TTL = None, rs_Data = target, rs_Priority = None,
        rs_DeletionPolicy = []\<rparr>,
      rec_Status = zero_record_status\<rparr>"

definition set_ttl :: "int \<Rightarrow> record_resource \<Rightarrow> record_resource" where
  "set_ttl ttl rec =
     (if 0 < ttl then rec\<lparr>rec_Spec := (rec_Spec rec)\<lparr>rs_TTL := Some (go_int32 (min ttl (2 ^ 31 - 1)))\<rparr>\<rparr> else rec)"

definition Desired :: "translator \<Rightarrow> endpoint \<Rightarrow> string \<Rightarrow> go_error + record_resource" where
  "Desired t ep target =
     (case supportedTypes (ToUpper (ep_RecordType ep)) of
        None \<Rightarrow> Inl (ErrorText (''unsupported record type '' @ Quote (ep_RecordType ep) @ '' for '' @ ep_DNSName ep))
      | Some rt \<Rightarrow>
          (let (zone, found) = ZoneFor t (normalizeName (ep_DNSName ep)); rec = base_record t ep target rt zone
           in if \<not> found then Inl (ErrorText (ep_DNSName ep @ '' is not in any configured zone''))
              else if rt = RecordTypeMX then
                (case ParseMX target of
                   Inl err \<Rightarrow> Inl err
                 | Inr (prio, host) \<Rightarrow>
                     Inr (set_ttl (ep_RecordTTL ep) (rec\<lparr>rec_Spec := (rec_Spec rec)\<lparr>rs_Priority := Some prio, rs_Data := host\<rparr>\<rparr>)))
              else Inr (set_ttl (ep_RecordTTL ep) rec)))"

subsection \<open>Endpoints\<close>

type_synonym ep_key = "string \<times> string \<times> string"

definition record_key :: "record_resource \<Rightarrow> ep_key" where
  "record_key r = (rs_Name (rec_Spec r), rs_Type (rec_Spec r), map_get (om_Annotations (rec_meta r)) AnnotationSetIdentifier)"

definition record_target :: "record_resource \<Rightarrow> string" where
  "record_target r =
     (case rs_Priority (rec_Spec r) of
        Some p \<Rightarrow> if rs_Type (rec_Spec r) = RecordTypeMX then Itoa p @ '' '' @ rs_Data (rec_Spec r) else rs_Data (rec_Spec r)
      | None \<Rightarrow> rs_Data (rec_Spec r))"

definition new_endpoint :: "record_resource \<Rightarrow> endpoint" where
  "new_endpoint r = (case record_key r of (name, typ, sid) \<Rightarrow>
     \<lparr>ep_DNSName = name, ep_Targets = [], ep_RecordType = typ, ep_SetIdentifier = sid,
      ep_RecordTTL = (case rs_TTL (rec_Spec r) of Some n \<Rightarrow> n | None \<Rightarrow> 0), ep_Labels = [], ep_ProviderSpecific = []\<rparr>)"

definition group_record :: "record_resource \<Rightarrow> (ep_key \<times> endpoint) list \<Rightarrow> (ep_key \<times> endpoint) list" where
  "group_record r groups =
     (let k = record_key r; ep = (case map_of groups k of Some ep \<Rightarrow> ep | None \<Rightarrow> new_endpoint r)
      in AList.update k (ep\<lparr>ep_Targets := ep_Targets ep @ [record_target r]\<rparr>) groups)"

definition Endpoints :: "record_resource list \<Rightarrow> endpoint list" where
  "Endpoints records =
     sort_key (\<lambda>ep. (ep_DNSName ep, ep_RecordType ep, ep_SetIdentifier ep))
       (map (\<lambda>(_, ep). ep\<lparr>ep_Targets := sort (ep_Targets ep)\<rparr>) (fold group_record records []))"

subsection \<open>Plans\<close>

record plan =
  pl_Create :: "record_resource list"
  pl_Patch :: "record_resource list"
  pl_Delete :: "string list"

datatype plan_error = Rejected go_error | NilPointer

definition keyOf :: "endpoint \<Rightarrow> ep_key" where
  "keyOf ep = (normalizeName (ep_DNSName ep), ToUpper (ep_RecordType ep), ep_SetIdentifier ep)"

text \<open>The use of a pointer.\<close>

definition follow :: "'a option \<Rightarrow> plan_error + 'a" where
  "follow p = (case p of None \<Rightarrow> Inl NilPointer | Some a \<Rightarrow> Inr a)"

definition desired_or_reject :: "translator \<Rightarrow> endpoint \<Rightarrow> string \<Rightarrow> plan_error + record_resource" where
  "desired_or_reject t ep tg = map_sum Rejected id (Desired t ep tg)"

definition record_name_of :: "translator \<Rightarrow> endpoint \<Rightarrow> string \<Rightarrow> string" where
  "record_name_of t ep target = RecordName (tl_OwnerID t) (ep_DNSName ep) (ep_RecordType ep) target (ep_SetIdentifier ep)"

definition del :: "translator \<Rightarrow> endpoint \<Rightarrow> string \<Rightarrow> plan \<Rightarrow> plan" where
  "del t ep target p =
     (let n = record_name_of t ep target
      in if n \<in> set (pl_Delete p) then p else p\<lparr>pl_Delete := pl_Delete p @ [n]\<rparr>)"

definition plan_create :: "translator \<Rightarrow> endpoint option \<Rightarrow> plan \<Rightarrow> plan_error + plan" where
  "plan_create t ptr p = and_then (follow ptr) (\<lambda>ep.
     fold_err (\<lambda>tg p. and_then (desired_or_reject t ep tg) (\<lambda>r. Inr (p\<lparr>pl_Create := pl_Create p @ [r]\<rparr>))) (ep_Targets ep) p)"

definition plan_target :: "translator \<Rightarrow> endpoint option \<Rightarrow> endpoint \<Rightarrow> string \<Rightarrow> plan \<Rightarrow> plan_error + plan" where
  "plan_target t old nw tg p = and_then (desired_or_reject t nw tg) (\<lambda>r.
     Inr (case old of
            None \<Rightarrow> p\<lparr>pl_Create := pl_Create p @ [r]\<rparr>
          | Some ep \<Rightarrow>
              if tg \<notin> set (ep_Targets ep) then p\<lparr>pl_Create := pl_Create p @ [r]\<rparr>
              else if ep_RecordTTL ep \<noteq> ep_RecordTTL nw then p\<lparr>pl_Patch := pl_Patch p @ [r]\<rparr>
              else p))"

definition plan_update ::
  "translator \<Rightarrow> (ep_key \<times> endpoint) list \<Rightarrow> endpoint option \<Rightarrow> plan \<times> ep_key set \<Rightarrow> plan_error + plan \<times> ep_key set" where
  "plan_update t olds ptr st = (case st of (p, seen) \<Rightarrow> and_then (follow ptr) (\<lambda>nw.
     let old = map_of olds (keyOf nw)
     in and_then (fold_err (plan_target t old nw) (ep_Targets nw) p) (\<lambda>p.
          Inr (case old of
                 None \<Rightarrow> p
               | Some ep \<Rightarrow> fold (del t ep) (filter (\<lambda>tg. tg \<notin> set (ep_Targets nw)) (ep_Targets ep)) p,
               insert (keyOf nw) seen))))"

definition plan_delete :: "translator \<Rightarrow> endpoint option \<Rightarrow> plan \<Rightarrow> plan_error + plan" where
  "plan_delete t ptr p = and_then (follow ptr) (\<lambda>ep. Inr (fold (del t ep) (ep_Targets ep) p))"

definition BuildPlan :: "translator \<Rightarrow> changes \<Rightarrow> plan_error + plan" where
  "BuildPlan t c =
     and_then (fold_err (plan_create t) (ch_Create c) \<lparr>pl_Create = [], pl_Patch = [], pl_Delete = []\<rparr>) (\<lambda>p.
     and_then (fold_err (\<lambda>ptr olds. and_then (follow ptr) (\<lambda>ep. Inr (AList.update (keyOf ep) ep olds))) (ch_UpdateOld c) []) (\<lambda>olds.
     and_then (fold_err (plan_update t olds) (ch_UpdateNew c) (p, {})) (\<lambda>(p, seen).
     let p = fold (\<lambda>(k, ep) p. if k \<in> seen then p else fold (del t ep) (ep_Targets ep) p) olds p
     in fold_err (plan_delete t) (ch_Delete c) p)))"

definition Adjust :: "translator \<Rightarrow> endpoint option list \<Rightarrow> endpoint list" where
  "Adjust t eps = concat (map (\<lambda>ptr. case ptr of
     None \<Rightarrow> []
   | Some ep \<Rightarrow>
       if supportedTypes (ToUpper (ep_RecordType ep)) = None \<or> \<not> snd (ZoneFor t (ep_DNSName ep)) then []
       else [ep\<lparr>ep_DNSName := normalizeName (ep_DNSName ep), ep_RecordType := ToUpper (ep_RecordType ep)\<rparr>]) eps)"

section \<open>Lemmas on names and types\<close>

lemma fold_longest:
  fixes P :: "string \<Rightarrow> bool"
  defines "step \<equiv> \<lambda>z best. if P z \<and> length best < length z then z else best"
  shows "(fold step zs b = b \<or> (fold step zs b \<in> set zs \<and> P (fold step zs b))) \<and> length b \<le> length (fold step zs b) \<and>
    (\<forall>z \<in> set zs. P z \<longrightarrow> length z \<le> length (fold step zs b))"
proof (induction zs arbitrary: b)
  case (Cons z zs)
  from Cons [of "step z b"] show ?case by (auto simp: step_def split: if_splits)
qed simp

lemma ZoneFor_eq:
  "ZoneFor t name =
     (let best = fold (\<lambda>z best. if in_zone (normalizeName name) z \<and> length best < length z then z else best)
            (map normalizeName (tl_Zones t)) []
      in (best, best \<noteq> []))"
  by (simp add: ZoneFor_def fold_map o_def Let_def)

lemma in_zone_iff: "in_zone name z \<longleftrightarrow> name = z \<or> (\<exists>p. name = p @ CHR ''.'' # z)"
  by (simp add: in_zone_def HasSuffix_iff)

lemma supportedTypes_iff: "supportedTypes ty = Some rt \<longleftrightarrow> ty = rt \<and> ty \<in> set record_types"
  by (auto simp: supportedTypes_def record_types_def record_type_defs split: if_splits)

text \<open>A name without white space is normal after one normalization.\<close>

lemma lower_char_is_space [simp]: "is_space (lower_char c) \<longleftrightarrow> is_space c"
  by (auto simp: is_space_def lower_char_def)

lemma TrimSpace_id: "list_all (\<lambda>c. \<not> is_space c) s \<Longrightarrow> TrimSpace s = s"
  unfolding TrimSpace_def by (rule TrimFunc_id) (auto simp: list_all_iff)

lemma list_all_TrimRightFunc: "list_all Q s \<Longrightarrow> list_all Q (TrimRightFunc P s)"
  unfolding TrimRightFunc_def list_all_iff by (metis set_dropWhileD set_rev)

lemma ToLower_TrimRightFunc_dot:
  "ToLower (TrimRightFunc (\<lambda>c. c = CHR ''.'') s) = TrimRightFunc (\<lambda>c. c = CHR ''.'') (ToLower s)"
proof -
  have "lower_char c = CHR ''.'' \<longleftrightarrow> c = CHR ''.''" for c
  proof -
    have "char_code (lower_char c) = char_code CHR ''.'' \<longleftrightarrow> char_code c = char_code CHR ''.''"
      unfolding lower_char_def by (auto simp del: char_code_inject) (auto simp: char_code_def)
    then show ?thesis by simp
  qed
  then show ?thesis by (simp add: TrimRightFunc_def ToLower_def rev_map dropWhile_map o_def)
qed

lemma normalizeName_idem:
  assumes "list_all (\<lambda>c. \<not> is_space c) s"
  shows "normalizeName (normalizeName s) = normalizeName s"
proof -
  have "list_all (\<lambda>c. \<not> is_space c) (ToLower s)"
    using assms by (simp add: ToLower_def list_all_iff)
  with assms show ?thesis
    by (simp add: normalizeName_def TrimSpace_id list_all_TrimRightFunc ToLower_TrimRightFunc_dot)
qed

lemma normalizeName_id:
  assumes "list_all (\<lambda>c. \<not> is_space c) s" "list_all (\<lambda>c. lower_char c = c) s" "s = [] \<or> last s \<noteq> CHR ''.''"
  shows "normalizeName s = s"
proof -
  have "map lower_char s = s" using assms(2) by (intro map_idI) (simp add: list_all_iff)
  with assms(1,3) show ?thesis by (simp add: normalizeName_def TrimSpace_id ToLower_def TrimRightFunc_id)
qed

lemmas char_evals = is_space_def lower_char_def char_code_def

section \<open>MX targets\<close>

lemma fields_aux_word: "list_all (\<lambda>c. \<not> is_space c) u \<Longrightarrow> fields_aux cur (u @ s) = fields_aux (cur @ u) s"
  by (induction u arbitrary: cur) auto

definition canonical_mx :: "string \<Rightarrow> bool" where
  "canonical_mx tg \<longleftrightarrow> (\<exists>p host. 0 \<le> p \<and> p < 2 ^ 16 \<and> host \<noteq> [] \<and> list_all (\<lambda>c. \<not> is_space c) host \<and> tg = Itoa p @ CHR '' '' # host)"

lemma ParseMX_print:
  assumes "0 \<le> p" "p < 2 ^ 16" "host \<noteq> []" "list_all (\<lambda>c. \<not> is_space c) host"
  shows "ParseMX (Itoa p @ CHR '' '' # host) = Inr (p, host)"
proof -
  have "list_all (\<lambda>c. \<not> is_space c) (nat_string (nat p))"
    using nat_string_digits [of "nat p"] is_digit_not by (auto simp: list_all_iff)
  then have "Fields (Itoa p @ CHR '' '' # host) = [nat_string (nat p), host]"
    using assms fields_aux_word [of host "[]" "[]"]
    by (simp add: Fields_def Itoa_nonneg fields_aux_word is_space_def char_code_def)
  moreover have "nat p < 2 ^ 16" using assms(1,2) by simp
  ultimately show ?thesis
    using assms(1) by (simp add: ParseMX_def ParseUint10_def go_int32_def)
qed

lemma ParseMX_range: "ParseMX tg = Inr (p, host) \<Longrightarrow> 0 \<le> p \<and> p < 2 ^ 16"
  by (auto simp: ParseMX_def ParseUint10_def go_int32_def split: list.splits option.splits if_splits)

section \<open>Translation of endpoints\<close>

definition sample_translator :: translator where
  "sample_translator = \<lparr>tl_Namespace = ''ns'', tl_ServerRef = ''dns'', tl_OwnerID = ''me'', tl_Zones = [''example.com'', ''sub.example.com'']\<rparr>"

lemma sample_names:
  "normalizeName ''a.sub.example.com'' = ''a.sub.example.com''" "normalizeName ''sub.example.com'' = ''sub.example.com''"
  "normalizeName ''example.com'' = ''example.com''"
  by (rule normalizeName_id; simp add: char_evals)+

text \<open>
  The zone of a name is the longest configured zone the name is in: the name itself or what follows
  one of its dots. There is none exactly when the name is in no configured zone but the empty one.
\<close>

theorem ZoneFor_longest:
  assumes "ZoneFor t name = (z, found)"
  defines "n \<equiv> normalizeName name" and "zones \<equiv> normalizeName ` set (tl_Zones t)"
  shows "(found \<longleftrightarrow> (\<exists>zone \<in> zones. zone \<noteq> [] \<and> (n = zone \<or> (\<exists>p. n = p @ CHR ''.'' # zone)))) \<and>
    (found \<longrightarrow> z \<in> zones \<and> (n = z \<or> (\<exists>p. n = p @ CHR ''.'' # z)) \<and>
      (\<forall>zone \<in> zones. n = zone \<or> (\<exists>p. n = p @ CHR ''.'' # zone) \<longrightarrow> length zone \<le> length z))"
proof -
  have z: "z = fold (\<lambda>z best. if in_zone n z \<and> length best < length z then z else best) (map normalizeName (tl_Zones t)) []"
    and found: "found \<longleftrightarrow> z \<noteq> []"
    using assms(1) unfolding ZoneFor_eq Let_def n_def by auto
  note longest = fold_longest [of "in_zone n" "map normalizeName (tl_Zones t)" "[]", folded z]
  have zones: "zones = set (map normalizeName (tl_Zones t))" by (simp add: zones_def)
  have "found \<longleftrightarrow> (\<exists>zone \<in> zones. zone \<noteq> [] \<and> in_zone n zone)"
    using longest unfolding found zones by (metis le_zero_eq length_0_conv)
  moreover have "found \<longrightarrow> z \<in> zones \<and> in_zone n z \<and> (\<forall>zone \<in> zones. in_zone n zone \<longrightarrow> length zone \<le> length z)"
    using longest unfolding found zones by blast
  ultimately show ?thesis unfolding in_zone_iff by blast
qed

theorem ZoneFor_longest_witness: "length (fst (ZoneFor sample_translator ''a.sub.example.com'')) \<ge> 15"
proof -
  obtain z found where z: "ZoneFor sample_translator ''a.sub.example.com'' = (z, found)" by fastforce
  have mem: "''sub.example.com'' \<in> normalizeName ` set (tl_Zones sample_translator)"
    using sample_names by (force simp: sample_translator_def)
  have longest: "length sub \<le> length z"
    if "sub \<in> normalizeName ` set (tl_Zones sample_translator)" "normalizeName ''a.sub.example.com'' = p @ CHR ''.'' # sub" "sub \<noteq> []" for sub p
    using ZoneFor_longest [OF z] that by blast
  have "length ''sub.example.com'' \<le> length z"
    by (rule longest [OF mem, of "''a''"]) (simp_all add: sample_names(1))
  with z show ?thesis by simp
qed

lemma Desired_cases:
  assumes "Desired t ep target = Inr rec"
  obtains zone where "ZoneFor t (normalizeName (ep_DNSName ep)) = (zone, True)"
    and "ToUpper (ep_RecordType ep) \<in> set record_types"
    and "ToUpper (ep_RecordType ep) \<noteq> RecordTypeMX"
    and "rec = set_ttl (ep_RecordTTL ep) (base_record t ep target (ToUpper (ep_RecordType ep)) zone)"
  | zone prio host where "ZoneFor t (normalizeName (ep_DNSName ep)) = (zone, True)"
    and "ToUpper (ep_RecordType ep) = RecordTypeMX" and "ParseMX target = Inr (prio, host)"
    and "rec = set_ttl (ep_RecordTTL ep) ((base_record t ep target RecordTypeMX zone)
      \<lparr>rec_Spec := (rec_Spec (base_record t ep target RecordTypeMX zone))\<lparr>rs_Priority := Some prio, rs_Data := host\<rparr>\<rparr>)"
  using assms that unfolding Desired_def
  by (auto simp: supportedTypes_iff Let_def split: option.splits prod.splits sum.splits if_splits)

lemma set_ttl_meta [simp]: "rec_meta (set_ttl ttl rec) = rec_meta rec"
  by (simp add: set_ttl_def)

lemma set_ttl_spec [simp]:
  "rs_ServerRef (rec_Spec (set_ttl ttl rec)) = rs_ServerRef (rec_Spec rec)" "rs_Zone (rec_Spec (set_ttl ttl rec)) = rs_Zone (rec_Spec rec)"
  "rs_Name (rec_Spec (set_ttl ttl rec)) = rs_Name (rec_Spec rec)" "rs_Type (rec_Spec (set_ttl ttl rec)) = rs_Type (rec_Spec rec)"
  "rs_Data (rec_Spec (set_ttl ttl rec)) = rs_Data (rec_Spec rec)" "rs_Priority (rec_Spec (set_ttl ttl rec)) = rs_Priority (rec_Spec rec)"
  "rs_TTL (rec_Spec (set_ttl ttl rec)) = (if 0 < ttl then Some (min ttl (2 ^ 31 - 1)) else rs_TTL (rec_Spec rec))"
  by (simp_all add: set_ttl_def go_int32_def)

lemma base_record_sel [simp]:
  "om_Name (rec_meta (base_record t ep target rt zone)) = record_name_of t ep target"
  "om_Namespace (rec_meta (base_record t ep target rt zone)) = tl_Namespace t"
  "om_Labels (rec_meta (base_record t ep target rt zone)) = Selector t"
  "om_Annotations (rec_meta (base_record t ep target rt zone)) =
     (if ep_SetIdentifier ep \<noteq> [] then [(AnnotationSetIdentifier, ep_SetIdentifier ep)] else [])"
  "rs_ServerRef (rec_Spec (base_record t ep target rt zone)) = \<lparr>sr_Name = tl_ServerRef t, sr_Namespace = []\<rparr>"
  "rs_Zone (rec_Spec (base_record t ep target rt zone)) = zone"
  "rs_Name (rec_Spec (base_record t ep target rt zone)) = normalizeName (ep_DNSName ep)"
  "rs_Type (rec_Spec (base_record t ep target rt zone)) = rt"
  "rs_TTL (rec_Spec (base_record t ep target rt zone)) = None"
  "rs_Data (rec_Spec (base_record t ep target rt zone)) = target"
  "rs_Priority (rec_Spec (base_record t ep target rt zone)) = None"
  by (simp_all add: base_record_def record_name_of_def)

definition sample_endpoint :: endpoint where
  "sample_endpoint = \<lparr>ep_DNSName = ''a.sub.example.com'', ep_Targets = [''10.0.0.2'', ''10.0.0.1''], ep_RecordType = ''A'',
     ep_SetIdentifier = [], ep_RecordTTL = 300, ep_Labels = [], ep_ProviderSpecific = []\<rparr>"

lemma sample_zone_for: "ZoneFor sample_translator ''a.sub.example.com'' = (''sub.example.com'', True)"
  by (simp add: ZoneFor_def sample_translator_def sample_names in_zone_def HasSuffix_def)

lemma ToUpper_A: "ToUpper ''A'' = ''A''"
  by (simp add: ToUpper_def upper_char_def char_code_def)

lemma sample_desired:
  "Desired sample_translator sample_endpoint tg =
     Inr (set_ttl 300 (base_record sample_translator sample_endpoint tg RecordTypeA ''sub.example.com''))"
  by (simp add: Desired_def sample_endpoint_def ToUpper_A sample_names sample_zone_for supportedTypes_def record_type_defs)

section \<open>The round trip\<close>

lemma record_key_Desired:
  assumes "Desired t ep tg = Inr r"
  shows "record_key r = keyOf ep"
  using assms
  by (cases rule: Desired_cases) (simp_all add: record_key_def keyOf_def map_get_def)

lemma record_target_Desired:
  assumes "Desired t ep tg = Inr r" and "ToUpper (ep_RecordType ep) = RecordTypeMX \<longrightarrow> canonical_mx tg"
  shows "record_target r = tg"
  using assms(1)
proof (cases rule: Desired_cases)
  case (2 zone prio host)
  then show ?thesis
    using assms(2) ParseMX_print by (auto simp: record_target_def canonical_mx_def)
qed (simp add: record_target_def)

lemma new_endpoint_Desired:
  assumes "Desired t ep tg = Inr r" and "normalizeName (ep_DNSName ep) = ep_DNSName ep" and "ToUpper (ep_RecordType ep) = ep_RecordType ep"
    and "0 \<le> ep_RecordTTL ep" and "ep_RecordTTL ep < 2 ^ 31"
  shows "new_endpoint r = ep\<lparr>ep_Targets := [], ep_Labels := [], ep_ProviderSpecific := []\<rparr>"
proof -
  have "rs_TTL (rec_Spec r) = (if 0 < ep_RecordTTL ep then Some (ep_RecordTTL ep) else None)"
    using assms(1,4,5) by (cases rule: Desired_cases) (simp_all add: min_def)
  with assms show ?thesis
    by (simp add: new_endpoint_def record_key_Desired keyOf_def)
qed

text \<open>Records of one endpoint fall into one group, which collects their targets in order.\<close>

lemma group_same_key:
  assumes "\<forall>r \<in> set rs. record_key r = k"
  shows "fold group_record rs [(k, ep)] = [(k, ep\<lparr>ep_Targets := ep_Targets ep @ map record_target rs\<rparr>)]"
  using assms by (induction rs arbitrary: ep) (simp_all add: group_record_def)

text \<open>
  (C15) Round trip: an endpoint in normal form, with MX targets printed as \<^verbatim>\<open>priority host\<close>, whose Records
  are listed is read back as that endpoint with its targets in order; labels and provider specific
  properties are not stored.
\<close>

theorem Endpoints_roundtrip:
  assumes "\<forall>tg \<in> set (ep_Targets ep). \<exists>r. Desired t ep tg = Inr r" and "ep_Targets ep \<noteq> []"
    and "normalizeName (ep_DNSName ep) = ep_DNSName ep" and "ToUpper (ep_RecordType ep) = ep_RecordType ep"
    and "0 \<le> ep_RecordTTL ep" and "ep_RecordTTL ep < 2 ^ 31"
    and "ep_RecordType ep = RecordTypeMX \<longrightarrow> list_all canonical_mx (ep_Targets ep)"
  shows "\<exists>rs. map (Desired t ep) (ep_Targets ep) = map Inr rs \<and>
    Endpoints rs = [ep\<lparr>ep_Targets := sort (ep_Targets ep), ep_Labels := [], ep_ProviderSpecific := []\<rparr>]"
proof -
  define rs where "rs = map (\<lambda>tg. projr (Desired t ep tg)) (ep_Targets ep)"
  have r: "map (Desired t ep) (ep_Targets ep) = map Inr rs"
    using assms(1) by (auto simp: rs_def)
  have key: "\<forall>r \<in> set rs. record_key r = keyOf ep"
    using assms(1) record_key_Desired by (fastforce simp: rs_def)
  have targets: "map record_target rs = ep_Targets ep"
    using assms(1,4,7) record_target_Desired unfolding rs_def by (auto simp: list_all_iff intro!: map_idI)
  obtain tg tgs where tgs: "ep_Targets ep = tg # tgs" using assms(2) by (cases "ep_Targets ep") auto
  obtain r0 rs' where rs: "rs = r0 # rs'" and r0: "Desired t ep tg = Inr r0"
    using r tgs by (cases rs) auto
  let ?ep = "ep\<lparr>ep_Targets := [], ep_Labels := [], ep_ProviderSpecific := []\<rparr>"
  have "fold group_record rs [] = [(keyOf ep, ?ep\<lparr>ep_Targets := map record_target rs\<rparr>)]"
    using key group_same_key [of rs' "keyOf ep"] new_endpoint_Desired [OF r0 assms(3-6)]
    by (simp add: rs group_record_def)
  then have "Endpoints rs = [ep\<lparr>ep_Targets := sort (ep_Targets ep), ep_Labels := [], ep_ProviderSpecific := []\<rparr>]"
    by (simp add: Endpoints_def targets)
  with r show ?thesis by blast
qed

theorem Endpoints_roundtrip_witness:
  "\<exists>rs. map (Desired sample_translator sample_endpoint) (ep_Targets sample_endpoint) = map Inr rs \<and>
    Endpoints rs = [sample_endpoint\<lparr>ep_Targets := sort (ep_Targets sample_endpoint)\<rparr>]"
proof -
  have "\<forall>tg \<in> set (ep_Targets sample_endpoint). \<exists>r. Desired sample_translator sample_endpoint tg = Inr r"
    by (simp add: sample_desired)
  moreover have "sample_endpoint\<lparr>ep_Targets := sort (ep_Targets sample_endpoint), ep_Labels := [], ep_ProviderSpecific := []\<rparr> =
      sample_endpoint\<lparr>ep_Targets := sort (ep_Targets sample_endpoint)\<rparr>"
    by (simp add: sample_endpoint_def)
  ultimately show ?thesis
    using Endpoints_roundtrip [of sample_endpoint sample_translator]
    by (simp add: sample_endpoint_def sample_names ToUpper_A record_type_defs)
qed

section \<open>Plans\<close>

lemma follow_Inr [simp]: "follow ptr = Inr a \<longleftrightarrow> ptr = Some a"
  by (cases ptr) (simp_all add: follow_def)

lemma desired_or_reject_Inr [simp]: "desired_or_reject t ep tg = Inr r \<longleftrightarrow> Desired t ep tg = Inr r"
  by (cases "Desired t ep tg") (simp_all add: desired_or_reject_def)

lemma del_sel [simp]:
  "pl_Create (del t ep tg p) = pl_Create p" "pl_Patch (del t ep tg p) = pl_Patch p"
  "set (pl_Delete (del t ep tg p)) = insert (record_name_of t ep tg) (set (pl_Delete p))"
  "distinct (pl_Delete p) \<Longrightarrow> distinct (pl_Delete (del t ep tg p))"
  by (auto simp: del_def Let_def)

lemma fold_del [simp]:
  "pl_Create (fold (del t ep) tgs p) = pl_Create p" "pl_Patch (fold (del t ep) tgs p) = pl_Patch p"
  "set (pl_Delete (fold (del t ep) tgs p)) = set (pl_Delete p) \<union> record_name_of t ep ` set tgs"
  "distinct (pl_Delete p) \<Longrightarrow> distinct (pl_Delete (fold (del t ep) tgs p))"
  by (induction tgs arbitrary: p) auto

text \<open>The Records wanted for the targets of an endpoint that satisfy a condition.\<close>

definition wanted :: "translator \<Rightarrow> endpoint \<Rightarrow> (string \<Rightarrow> bool) \<Rightarrow> record_resource set" where
  "wanted t ep P = {r. \<exists>tg \<in> set (ep_Targets ep). P tg \<and> Desired t ep tg = Inr r}"

lemma plan_create_sel:
  assumes "plan_create t ptr p = Inr p'"
  shows "\<exists>ep. ptr = Some ep \<and> set (pl_Create p') = set (pl_Create p) \<union> wanted t ep (\<lambda>_. True) \<and>
    pl_Patch p' = pl_Patch p \<and> pl_Delete p' = pl_Delete p"
proof -
  let ?f = "\<lambda>ep tg p. and_then (desired_or_reject t ep tg) (\<lambda>r. Inr (p\<lparr>pl_Create := pl_Create p @ [r]\<rparr>))"
  obtain ep where ep: "ptr = Some ep" and run: "fold_err (?f ep) (ep_Targets ep) p = Inr p'"
    using assms by (auto simp: plan_create_def)
  have "set (pl_Create p') = set (pl_Create p) \<union> (\<Union>tg \<in> set (ep_Targets ep). {r. Desired t ep tg = Inr r})"
    by (rule fold_err_collect [OF _ run, where g = "\<lambda>p. set (pl_Create p)"]) auto
  moreover have "pl_Patch p' = pl_Patch p \<and> pl_Delete p' = pl_Delete p"
    by (rule fold_err_invariant [OF _ run, where I = "\<lambda>q. pl_Patch q = pl_Patch p \<and> pl_Delete q = pl_Delete p"]) auto
  ultimately show ?thesis using ep by (auto simp: wanted_def)
qed

lemma plan_target_sel:
  assumes "plan_target t old nw tg p = Inr p'"
  shows "set (pl_Create p') = set (pl_Create p) \<union> {r. (\<forall>ep. old = Some ep \<longrightarrow> tg \<notin> set (ep_Targets ep)) \<and> Desired t nw tg = Inr r}"
    and "set (pl_Patch p') = set (pl_Patch p) \<union>
      {r. (\<exists>ep. old = Some ep \<and> tg \<in> set (ep_Targets ep) \<and> ep_RecordTTL ep \<noteq> ep_RecordTTL nw) \<and> Desired t nw tg = Inr r}"
    and "pl_Delete p' = pl_Delete p"
proof -
  obtain r where r: "Desired t nw tg = Inr r" using assms by (auto simp: plan_target_def)
  have only: "{r'. Q \<and> Desired t nw tg = Inr r'} = (if Q then {r} else {})" for Q by (auto simp: r)
  have p': "p' = (case old of
      None \<Rightarrow> p\<lparr>pl_Create := pl_Create p @ [r]\<rparr>
    | Some ep \<Rightarrow>
        if tg \<notin> set (ep_Targets ep) then p\<lparr>pl_Create := pl_Create p @ [r]\<rparr>
        else if ep_RecordTTL ep \<noteq> ep_RecordTTL nw then p\<lparr>pl_Patch := pl_Patch p @ [r]\<rparr>
        else p)"
    using assms r by (simp add: plan_target_def)
  show "set (pl_Create p') = set (pl_Create p) \<union> {r. (\<forall>ep. old = Some ep \<longrightarrow> tg \<notin> set (ep_Targets ep)) \<and> Desired t nw tg = Inr r}"
    "set (pl_Patch p') = set (pl_Patch p) \<union>
      {r. (\<exists>ep. old = Some ep \<and> tg \<in> set (ep_Targets ep) \<and> ep_RecordTTL ep \<noteq> ep_RecordTTL nw) \<and> Desired t nw tg = Inr r}"
    "pl_Delete p' = pl_Delete p"
    unfolding only p' by (cases old; simp)+
qed

lemma plan_targets_sel:
  assumes run: "fold_err (plan_target t old nw) (ep_Targets nw) p = Inr p'"
  shows "set (pl_Create p') = set (pl_Create p) \<union> wanted t nw (\<lambda>tg. \<forall>ep. old = Some ep \<longrightarrow> tg \<notin> set (ep_Targets ep))"
    and "set (pl_Patch p') = set (pl_Patch p) \<union>
      wanted t nw (\<lambda>tg. \<exists>ep. old = Some ep \<and> tg \<in> set (ep_Targets ep) \<and> ep_RecordTTL ep \<noteq> ep_RecordTTL nw)"
    and "pl_Delete p' = pl_Delete p"
proof -
  have "set (pl_Create p') = set (pl_Create p) \<union>
      (\<Union>tg \<in> set (ep_Targets nw). {r. (\<forall>ep. old = Some ep \<longrightarrow> tg \<notin> set (ep_Targets ep)) \<and> Desired t nw tg = Inr r})"
    by (rule fold_err_collect [OF _ run, where g = "\<lambda>p. set (pl_Create p)"]) (rule plan_target_sel)
  then show "set (pl_Create p') = set (pl_Create p) \<union> wanted t nw (\<lambda>tg. \<forall>ep. old = Some ep \<longrightarrow> tg \<notin> set (ep_Targets ep))"
    by (auto simp: wanted_def)
  have "set (pl_Patch p') = set (pl_Patch p) \<union> (\<Union>tg \<in> set (ep_Targets nw).
      {r. (\<exists>ep. old = Some ep \<and> tg \<in> set (ep_Targets ep) \<and> ep_RecordTTL ep \<noteq> ep_RecordTTL nw) \<and> Desired t nw tg = Inr r})"
    by (rule fold_err_collect [OF _ run, where g = "\<lambda>p. set (pl_Patch p)"]) (rule plan_target_sel)
  then show "set (pl_Patch p') = set (pl_Patch p) \<union>
      wanted t nw (\<lambda>tg. \<exists>ep. old = Some ep \<and> tg \<in> set (ep_Targets ep) \<and> ep_RecordTTL ep \<noteq> ep_RecordTTL nw)"
    by (auto simp: wanted_def)
  show "pl_Delete p' = pl_Delete p"
    by (rule fold_err_invariant [OF _ run, where I = "\<lambda>q. pl_Delete q = pl_Delete p"]) (simp_all add: plan_target_sel)
qed

text \<open>The endpoint an update replaces: the last one of its key.\<close>

definition old_of :: "changes \<Rightarrow> ep_key \<Rightarrow> endpoint option" where
  "old_of c k = map_of (rev (map (\<lambda>ep. (keyOf ep, ep)) (map the (ch_UpdateOld c)))) k"

definition dropped :: "translator \<Rightarrow> endpoint option \<Rightarrow> (string \<Rightarrow> bool) \<Rightarrow> string set" where
  "dropped t old P = {n. \<exists>ep tg. old = Some ep \<and> tg \<in> set (ep_Targets ep) \<and> P tg \<and> n = record_name_of t ep tg}"

lemma plan_update_sel:
  assumes "plan_update t olds ptr (p, seen) = Inr (p', seen')"
  shows "\<exists>nw. ptr = Some nw \<and> seen' = insert (keyOf nw) seen \<and>
    set (pl_Create p') = set (pl_Create p) \<union> wanted t nw (\<lambda>tg. \<forall>ep. map_of olds (keyOf nw) = Some ep \<longrightarrow> tg \<notin> set (ep_Targets ep)) \<and>
    set (pl_Patch p') = set (pl_Patch p) \<union>
      wanted t nw (\<lambda>tg. \<exists>ep. map_of olds (keyOf nw) = Some ep \<and> tg \<in> set (ep_Targets ep) \<and> ep_RecordTTL ep \<noteq> ep_RecordTTL nw) \<and>
    set (pl_Delete p') = set (pl_Delete p) \<union> dropped t (map_of olds (keyOf nw)) (\<lambda>tg. tg \<notin> set (ep_Targets nw)) \<and>
    (distinct (pl_Delete p) \<longrightarrow> distinct (pl_Delete p'))"
proof -
  obtain nw p1 where nw: "ptr = Some nw" and run: "fold_err (plan_target t (map_of olds (keyOf nw)) nw) (ep_Targets nw) p = Inr p1"
    and p': "p' = (case map_of olds (keyOf nw) of
        None \<Rightarrow> p1 | Some ep \<Rightarrow> fold (del t ep) (filter (\<lambda>tg. tg \<notin> set (ep_Targets nw)) (ep_Targets ep)) p1)"
    and seen: "seen' = insert (keyOf nw) seen"
    using assms by (auto simp: plan_update_def Let_def)
  have "set (pl_Delete p') = set (pl_Delete p1) \<union> dropped t (map_of olds (keyOf nw)) (\<lambda>tg. tg \<notin> set (ep_Targets nw))"
    "distinct (pl_Delete p1) \<Longrightarrow> distinct (pl_Delete p')"
    "pl_Create p' = pl_Create p1" "pl_Patch p' = pl_Patch p1"
    unfolding p' dropped_def by (cases "map_of olds (keyOf nw)"; auto)+
  with nw seen show ?thesis
    by (intro exI [of _ nw]) (simp add: plan_targets_sel [OF run])
qed

lemma olds_lookup:
  assumes "fold_err (\<lambda>ptr olds. and_then (follow ptr) (\<lambda>ep. Inr (AList.update (keyOf ep) ep olds))) ptrs olds = Inr olds'"
  shows "map_of olds' k = (map_of olds ++ map_of (rev (map (\<lambda>ep. (keyOf ep, ep)) (map the ptrs)))) k \<and>
    (distinct (map fst olds) \<longrightarrow> distinct (map fst olds'))"
  using assms
proof (induction ptrs arbitrary: olds)
  case (Cons ptr ptrs)
  obtain ep where ptr: "ptr = Some ep"
    and run: "fold_err (\<lambda>ptr olds. and_then (follow ptr) (\<lambda>ep. Inr (AList.update (keyOf ep) ep olds))) ptrs (AList.update (keyOf ep) ep olds) = Inr olds'"
    using Cons.prems by (cases ptr) (auto simp: and_then_def follow_def)
  show ?case
    using Cons.IH [OF run] distinct_update [of olds "keyOf ep" ep]
    by (auto simp: ptr update_conv' map_add_def split: option.splits)
qed simp

lemma fold_del_unseen:
  defines "del_all seen t \<equiv> \<lambda>(k, ep) p. if k \<in> seen then p else fold (del t ep) (ep_Targets ep) p"
  shows "pl_Create (fold (del_all seen t) olds p) = pl_Create p"
    and "pl_Patch (fold (del_all seen t) olds p) = pl_Patch p"
    and "set (pl_Delete (fold (del_all seen t) olds p)) =
      set (pl_Delete p) \<union> (\<Union>(k, ep) \<in> set olds. if k \<in> seen then {} else record_name_of t ep ` set (ep_Targets ep))"
    and "distinct (pl_Delete p) \<Longrightarrow> distinct (pl_Delete (fold (del_all seen t) olds p))"
  by (induction olds arbitrary: p) (auto simp: del_all_def split: prod.splits)

lemma UN_pointers:
  "(\<Union>ptr \<in> set ptrs. case ptr of None \<Rightarrow> {} | Some ep \<Rightarrow> h ep) = (\<Union>ep \<in> {ep. Some ep \<in> set ptrs}. h ep)"
proof (rule set_eqI)
  fix y
  have "(y \<in> (case ptr of None \<Rightarrow> {} | Some ep \<Rightarrow> h ep)) \<longleftrightarrow> (\<exists>ep. ptr = Some ep \<and> y \<in> h ep)" for ptr
    by (cases ptr) simp_all
  then show "y \<in> (\<Union>ptr \<in> set ptrs. case ptr of None \<Rightarrow> {} | Some ep \<Rightarrow> h ep) \<longleftrightarrow> y \<in> (\<Union>ep \<in> {ep. Some ep \<in> set ptrs}. h ep)"
    by auto
qed

lemma create_loop:
  assumes run: "fold_err (plan_create t) ptrs p = Inr p'"
  shows "set (pl_Create p') = set (pl_Create p) \<union> (\<Union>ep \<in> {ep. Some ep \<in> set ptrs}. wanted t ep (\<lambda>_. True))"
    and "pl_Patch p' = pl_Patch p" and "pl_Delete p' = pl_Delete p"
proof -
  let ?h = "\<lambda>ptr. case ptr of None \<Rightarrow> {} | Some ep \<Rightarrow> wanted t ep (\<lambda>_. True)"
  have "set (pl_Create p') = set (pl_Create p) \<union> (\<Union>ptr \<in> set ptrs. ?h ptr)"
  proof (rule fold_err_collect [OF _ run])
    fix ptr q q' assume "plan_create t ptr q = Inr q'"
    from plan_create_sel [OF this] obtain ep where "ptr = Some ep" "set (pl_Create q') = set (pl_Create q) \<union> wanted t ep (\<lambda>_. True)" by blast
    then show "set (pl_Create q') = set (pl_Create q) \<union> ?h ptr" by simp
  qed
  then show "set (pl_Create p') = set (pl_Create p) \<union> (\<Union>ep \<in> {ep. Some ep \<in> set ptrs}. wanted t ep (\<lambda>_. True))"
    by (simp only: UN_pointers)
  have "pl_Patch p' = pl_Patch p \<and> pl_Delete p' = pl_Delete p"
    by (rule fold_err_invariant [OF _ run, where I = "\<lambda>q. pl_Patch q = pl_Patch p \<and> pl_Delete q = pl_Delete p"])
      (auto dest: plan_create_sel)
  then show "pl_Patch p' = pl_Patch p" "pl_Delete p' = pl_Delete p" by simp_all
qed

lemma update_collect:
  assumes run: "fold_err (plan_update t olds) ptrs st = Inr st'"
    and step: "\<And>nw st st'. plan_update t olds (Some nw) st = Inr st' \<Longrightarrow> g st' = g st \<union> h nw"
  shows "g st' = g st \<union> (\<Union>nw \<in> {nw. Some nw \<in> set ptrs}. h nw)"
  unfolding UN_pointers [symmetric]
proof (rule fold_err_collect [OF _ run])
  fix ptr st st' assume *: "plan_update t olds ptr st = Inr st'"
  obtain p seen p' seen' where "st = (p, seen)" "st' = (p', seen')" by fastforce
  with * plan_update_sel obtain nw where "ptr = Some nw" by blast
  with step * show "g st' = g st \<union> (case ptr of None \<Rightarrow> {} | Some nw \<Rightarrow> h nw)" by simp
qed

lemma update_loop:
  assumes run: "fold_err (plan_update t olds) ptrs (p, seen) = Inr (p', seen')"
  shows "seen' = seen \<union> {keyOf nw | nw. Some nw \<in> set ptrs}"
    and "set (pl_Create p') = set (pl_Create p) \<union> (\<Union>nw \<in> {nw. Some nw \<in> set ptrs}.
      wanted t nw (\<lambda>tg. \<forall>ep. map_of olds (keyOf nw) = Some ep \<longrightarrow> tg \<notin> set (ep_Targets ep)))"
    and "set (pl_Patch p') = set (pl_Patch p) \<union> (\<Union>nw \<in> {nw. Some nw \<in> set ptrs}.
      wanted t nw (\<lambda>tg. \<exists>ep. map_of olds (keyOf nw) = Some ep \<and> tg \<in> set (ep_Targets ep) \<and> ep_RecordTTL ep \<noteq> ep_RecordTTL nw))"
    and "set (pl_Delete p') = set (pl_Delete p) \<union> (\<Union>nw \<in> {nw. Some nw \<in> set ptrs}.
      dropped t (map_of olds (keyOf nw)) (\<lambda>tg. tg \<notin> set (ep_Targets nw)))"
    and "distinct (pl_Delete p) \<Longrightarrow> distinct (pl_Delete p')"
proof -
  note collect = update_collect [OF run]
  note sel = plan_update_sel [where ptr = "Some nw" for nw, simplified]
  have "snd (p', seen') = snd (p, seen) \<union> (\<Union>nw \<in> {nw. Some nw \<in> set ptrs}. {keyOf nw})"
    by (rule collect) (auto dest!: sel)
  then show "seen' = seen \<union> {keyOf nw | nw. Some nw \<in> set ptrs}" by auto
  have "set (pl_Create (fst (p', seen'))) = set (pl_Create (fst (p, seen))) \<union> (\<Union>nw \<in> {nw. Some nw \<in> set ptrs}.
      wanted t nw (\<lambda>tg. \<forall>ep. map_of olds (keyOf nw) = Some ep \<longrightarrow> tg \<notin> set (ep_Targets ep)))"
    by (rule collect) (auto dest!: sel simp del: Un_iff)
  then show "set (pl_Create p') = set (pl_Create p) \<union> (\<Union>nw \<in> {nw. Some nw \<in> set ptrs}.
      wanted t nw (\<lambda>tg. \<forall>ep. map_of olds (keyOf nw) = Some ep \<longrightarrow> tg \<notin> set (ep_Targets ep)))" by simp
  have "set (pl_Patch (fst (p', seen'))) = set (pl_Patch (fst (p, seen))) \<union> (\<Union>nw \<in> {nw. Some nw \<in> set ptrs}.
      wanted t nw (\<lambda>tg. \<exists>ep. map_of olds (keyOf nw) = Some ep \<and> tg \<in> set (ep_Targets ep) \<and> ep_RecordTTL ep \<noteq> ep_RecordTTL nw))"
    by (rule collect) (auto dest!: sel simp del: Un_iff)
  then show "set (pl_Patch p') = set (pl_Patch p) \<union> (\<Union>nw \<in> {nw. Some nw \<in> set ptrs}.
      wanted t nw (\<lambda>tg. \<exists>ep. map_of olds (keyOf nw) = Some ep \<and> tg \<in> set (ep_Targets ep) \<and> ep_RecordTTL ep \<noteq> ep_RecordTTL nw))" by simp
  have "set (pl_Delete (fst (p', seen'))) = set (pl_Delete (fst (p, seen))) \<union> (\<Union>nw \<in> {nw. Some nw \<in> set ptrs}.
      dropped t (map_of olds (keyOf nw)) (\<lambda>tg. tg \<notin> set (ep_Targets nw)))"
    by (rule collect) (auto dest!: sel simp del: Un_iff)
  then show "set (pl_Delete p') = set (pl_Delete p) \<union> (\<Union>nw \<in> {nw. Some nw \<in> set ptrs}.
      dropped t (map_of olds (keyOf nw)) (\<lambda>tg. tg \<notin> set (ep_Targets nw)))" by simp
  have "distinct (pl_Delete (fst (p', seen')))" if "distinct (pl_Delete p)"
    by (rule fold_err_invariant [OF _ run, where I = "\<lambda>st. distinct (pl_Delete (fst st))"])
      (use that in \<open>auto dest!: plan_update_sel\<close>)
  then show "distinct (pl_Delete p) \<Longrightarrow> distinct (pl_Delete p')" by simp
qed

lemma UN_pairs: "(\<Union>(k, ep) \<in> S. F k ep) = {n. \<exists>k ep. (k, ep) \<in> S \<and> n \<in> F k ep}"
  by fast

lemma if_empty_iff: "n \<in> (if b then {} else X) \<longleftrightarrow> \<not> b \<and> n \<in> X"
  by simp

lemma delete_loop:
  assumes run: "fold_err (plan_delete t) ptrs p = Inr p'"
  shows "pl_Create p' = pl_Create p" "pl_Patch p' = pl_Patch p"
    "set (pl_Delete p') = set (pl_Delete p) \<union> (\<Union>ep \<in> {ep. Some ep \<in> set ptrs}. record_name_of t ep ` set (ep_Targets ep))"
    "distinct (pl_Delete p) \<Longrightarrow> distinct (pl_Delete p')"
proof -
  have step: "\<exists>ep. ptr = Some ep \<and> q' = fold (del t ep) (ep_Targets ep) q" if "plan_delete t ptr q = Inr q'" for ptr q q'
    using that by (auto simp: plan_delete_def)
  have "pl_Create p' = pl_Create p \<and> pl_Patch p' = pl_Patch p"
    by (rule fold_err_invariant [OF _ run, where I = "\<lambda>q. pl_Create q = pl_Create p \<and> pl_Patch q = pl_Patch p"])
      (auto dest: step)
  then show "pl_Create p' = pl_Create p" "pl_Patch p' = pl_Patch p" by simp_all
  show "set (pl_Delete p') = set (pl_Delete p) \<union> (\<Union>ep \<in> {ep. Some ep \<in> set ptrs}. record_name_of t ep ` set (ep_Targets ep))"
    unfolding UN_pointers [symmetric]
  proof (rule fold_err_collect [OF _ run])
    fix ptr q q' assume "plan_delete t ptr q = Inr q'"
    from step [OF this] obtain ep where "ptr = Some ep" "q' = fold (del t ep) (ep_Targets ep) q" by blast
    then show "set (pl_Delete q') = set (pl_Delete q) \<union> (case ptr of None \<Rightarrow> {} | Some ep \<Rightarrow> record_name_of t ep ` set (ep_Targets ep))"
      by simp
  qed
  show "distinct (pl_Delete p) \<Longrightarrow> distinct (pl_Delete p')"
    by (rule fold_err_invariant [OF _ run, where I = "\<lambda>q. distinct (pl_Delete q)"]) (auto dest: step)
qed

text \<open>The parts of a successful plan.\<close>

lemma BuildPlan_parts:
  assumes "BuildPlan t c = Inr p"
  obtains p1 olds p2 seen where
    "fold_err (plan_create t) (ch_Create c) \<lparr>pl_Create = [], pl_Patch = [], pl_Delete = []\<rparr> = Inr p1"
    "fold_err (\<lambda>ptr olds. and_then (follow ptr) (\<lambda>ep. Inr (AList.update (keyOf ep) ep olds))) (ch_UpdateOld c) [] = Inr olds"
    "fold_err (plan_update t olds) (ch_UpdateNew c) (p1, {}) = Inr (p2, seen)"
    "fold_err (plan_delete t) (ch_Delete c)
       (fold (\<lambda>(k, ep) p. if k \<in> seen then p else fold (del t ep) (ep_Targets ep) p) olds p2) = Inr p"
  using assms unfolding BuildPlan_def by (auto simp: Let_def)

lemma BuildPlan_sets:
  assumes "BuildPlan t c = Inr p"
  defines "new \<equiv> {nw. Some nw \<in> set (ch_UpdateNew c)}" and "old \<equiv> \<lambda>nw. old_of c (keyOf nw)"
  shows "set (pl_Create p) = (\<Union>ep \<in> {ep. Some ep \<in> set (ch_Create c)}. wanted t ep (\<lambda>_. True)) \<union>
      (\<Union>nw \<in> new. wanted t nw (\<lambda>tg. \<forall>ep. old nw = Some ep \<longrightarrow> tg \<notin> set (ep_Targets ep)))"
    and "set (pl_Patch p) = (\<Union>nw \<in> new. wanted t nw (\<lambda>tg.
      \<exists>ep. old nw = Some ep \<and> tg \<in> set (ep_Targets ep) \<and> ep_RecordTTL ep \<noteq> ep_RecordTTL nw))"
    and "set (pl_Delete p) = (\<Union>nw \<in> new. dropped t (old nw) (\<lambda>tg. tg \<notin> set (ep_Targets nw))) \<union>
      {record_name_of t ep tg | ep k tg. k \<notin> keyOf ` new \<and> old_of c k = Some ep \<and> tg \<in> set (ep_Targets ep)} \<union>
      (\<Union>ep \<in> {ep. Some ep \<in> set (ch_Delete c)}. record_name_of t ep ` set (ep_Targets ep))"
    and "distinct (pl_Delete p)"
proof -
  obtain p1 olds p2 seen where
    create: "fold_err (plan_create t) (ch_Create c) \<lparr>pl_Create = [], pl_Patch = [], pl_Delete = []\<rparr> = Inr p1"
    and collect: "fold_err (\<lambda>ptr olds. and_then (follow ptr) (\<lambda>ep. Inr (AList.update (keyOf ep) ep olds))) (ch_UpdateOld c) [] = Inr olds"
    and update: "fold_err (plan_update t olds) (ch_UpdateNew c) (p1, {}) = Inr (p2, seen)"
    and delete: "fold_err (plan_delete t) (ch_Delete c)
       (fold (\<lambda>(k, ep) p. if k \<in> seen then p else fold (del t ep) (ep_Targets ep) p) olds p2) = Inr p"
    using assms(1) by (rule BuildPlan_parts)
  have olds: "map_of olds k = old_of c k" and keys: "distinct (map fst olds)" for k
    using olds_lookup [OF collect] by (simp_all add: old_of_def map_add_def)
  have mem: "(k, ep) \<in> set olds \<longleftrightarrow> old_of c k = Some ep" for k ep
    using keys by (simp add: olds [symmetric])
  have seen: "seen = keyOf ` new" using update_loop(1) [OF update] by (auto simp: new_def)
  note parts = create_loop [OF create] update_loop(2-5) [OF update] fold_del_unseen delete_loop [OF delete]
  have unreplaced: "(\<Union>(k, ep) \<in> set olds. if k \<in> seen then {} else record_name_of t ep ` set (ep_Targets ep)) =
      {record_name_of t ep tg | ep k tg. k \<notin> keyOf ` new \<and> old_of c k = Some ep \<and> tg \<in> set (ep_Targets ep)}"
    unfolding UN_pairs if_empty_iff mem seen by blast
  show "set (pl_Create p) = (\<Union>ep \<in> {ep. Some ep \<in> set (ch_Create c)}. wanted t ep (\<lambda>_. True)) \<union>
      (\<Union>nw \<in> new. wanted t nw (\<lambda>tg. \<forall>ep. old nw = Some ep \<longrightarrow> tg \<notin> set (ep_Targets ep)))"
    "set (pl_Patch p) = (\<Union>nw \<in> new. wanted t nw (\<lambda>tg.
      \<exists>ep. old nw = Some ep \<and> tg \<in> set (ep_Targets ep) \<and> ep_RecordTTL ep \<noteq> ep_RecordTTL nw))"
    "distinct (pl_Delete p)"
    by (simp_all add: parts olds old_def new_def)
  show "set (pl_Delete p) = (\<Union>nw \<in> new. dropped t (old nw) (\<lambda>tg. tg \<notin> set (ep_Targets nw))) \<union>
      {record_name_of t ep tg | ep k tg. k \<notin> keyOf ` new \<and> old_of c k = Some ep \<and> tg \<in> set (ep_Targets ep)} \<union>
      (\<Union>ep \<in> {ep. Some ep \<in> set (ch_Delete c)}. record_name_of t ep ` set (ep_Targets ep))"
    unfolding unreplaced [symmetric] by (simp add: parts olds old_def new_def)
qed

text \<open>
  (C8) What a plan holds. Created are the Records of every endpoint to create, and of every target of an
  updated endpoint the old endpoint of the same key did not have; patched are the Records of the targets it
  had, when the TTL changes; deleted, each once, are the names of the targets the old endpoints no longer
  have, of old endpoints nothing replaces, and of the endpoints to delete. Targets that stay as they are
  are not touched.
\<close>

theorem BuildPlan_exact:
  assumes "BuildPlan t c = Inr p"
  defines "new \<equiv> {nw. Some nw \<in> set (ch_UpdateNew c)}" and "old \<equiv> \<lambda>nw. old_of c (keyOf nw)"
  shows "set (pl_Create p) =
      {r. \<exists>ep tg. Some ep \<in> set (ch_Create c) \<and> tg \<in> set (ep_Targets ep) \<and> Desired t ep tg = Inr r} \<union>
      {r. \<exists>nw \<in> new. \<exists>tg \<in> set (ep_Targets nw). Desired t nw tg = Inr r \<and> (\<forall>ep. old nw = Some ep \<longrightarrow> tg \<notin> set (ep_Targets ep))} \<and>
    set (pl_Patch p) =
      {r. \<exists>nw \<in> new. \<exists>tg \<in> set (ep_Targets nw). Desired t nw tg = Inr r \<and>
         (\<exists>ep. old nw = Some ep \<and> tg \<in> set (ep_Targets ep) \<and> ep_RecordTTL ep \<noteq> ep_RecordTTL nw)} \<and>
    set (pl_Delete p) =
      {record_name_of t ep tg | ep nw tg. nw \<in> new \<and> old nw = Some ep \<and> tg \<in> set (ep_Targets ep) - set (ep_Targets nw)} \<union>
      {record_name_of t ep tg | ep k tg. k \<notin> keyOf ` new \<and> old_of c k = Some ep \<and> tg \<in> set (ep_Targets ep)} \<union>
      {record_name_of t ep tg | ep tg. Some ep \<in> set (ch_Delete c) \<and> tg \<in> set (ep_Targets ep)} \<and>
    distinct (pl_Delete p)"
  using BuildPlan_sets [OF assms(1)]
  unfolding wanted_def dropped_def new_def [symmetric] old_def by (intro conjI; simp only:; blast)

text \<open>A plan is made exactly when no pointer is nil and every wanted Record can be built.\<close>

definition buildable :: "translator \<Rightarrow> endpoint option \<Rightarrow> bool" where
  "buildable t ptr \<longleftrightarrow> (\<exists>ep. ptr = Some ep \<and> (\<forall>tg \<in> set (ep_Targets ep). \<exists>r. Desired t ep tg = Inr r))"

lemma plan_create_returns: "(\<exists>p'. plan_create t ptr p = Inr p') \<longleftrightarrow> buildable t ptr"
proof (cases ptr)
  case (Some ep)
  have "(\<exists>p'. fold_err (\<lambda>tg p. and_then (desired_or_reject t ep tg) (\<lambda>r. Inr (p\<lparr>pl_Create := pl_Create p @ [r]\<rparr>))) (ep_Targets ep) p = Inr p')
      \<longleftrightarrow> (\<forall>tg \<in> set (ep_Targets ep). \<exists>r. Desired t ep tg = Inr r)"
    by (rule fold_err_returns) auto
  then show ?thesis by (simp add: plan_create_def buildable_def Some)
qed (simp add: plan_create_def buildable_def)

lemma plan_update_returns: "(\<exists>st'. plan_update t olds ptr st = Inr st') \<longleftrightarrow> buildable t ptr"
proof (cases ptr)
  case (Some nw)
  have "(\<exists>p'. fold_err (plan_target t (map_of olds (keyOf nw)) nw) (ep_Targets nw) p = Inr p')
      \<longleftrightarrow> (\<forall>tg \<in> set (ep_Targets nw). \<exists>r. Desired t nw tg = Inr r)" for p
    by (rule fold_err_returns) (auto simp: plan_target_def)
  then show ?thesis by (cases st) (simp add: plan_update_def buildable_def Some Let_def)
qed (simp add: plan_update_def buildable_def split: prod.splits)

lemma BuildPlan_returns_iff:
  "(\<exists>p. BuildPlan t c = Inr p) \<longleftrightarrow>
     (\<forall>ptr \<in> set (ch_Create c) \<union> set (ch_UpdateNew c). buildable t ptr) \<and> None \<notin> set (ch_UpdateOld c) \<union> set (ch_Delete c)"
proof -
  have create: "(\<exists>p'. fold_err (plan_create t) (ch_Create c) p = Inr p') \<longleftrightarrow> (\<forall>ptr \<in> set (ch_Create c). buildable t ptr)" for p
    by (rule fold_err_returns) (rule plan_create_returns)
  have update: "(\<exists>st'. fold_err (plan_update t olds) (ch_UpdateNew c) st = Inr st') \<longleftrightarrow> (\<forall>ptr \<in> set (ch_UpdateNew c). buildable t ptr)"
    for olds st
    by (rule fold_err_returns) (rule plan_update_returns)
  have collect: "(\<exists>olds'. fold_err (\<lambda>ptr olds. and_then (follow ptr) (\<lambda>ep. Inr (AList.update (keyOf ep) ep olds))) (ch_UpdateOld c) olds = Inr olds')
      \<longleftrightarrow> (\<forall>ptr \<in> set (ch_UpdateOld c). ptr \<noteq> None)" for olds
    by (rule fold_err_returns) (auto simp: not_None_eq)
  have delete: "(\<exists>p'. fold_err (plan_delete t) (ch_Delete c) p = Inr p') \<longleftrightarrow> (\<forall>ptr \<in> set (ch_Delete c). ptr \<noteq> None)" for p
    by (rule fold_err_returns) (auto simp: plan_delete_def)
  show ?thesis
  proof
    assume "\<exists>p. BuildPlan t c = Inr p"
    then obtain p where "BuildPlan t c = Inr p" by blast
    then show "(\<forall>ptr \<in> set (ch_Create c) \<union> set (ch_UpdateNew c). buildable t ptr) \<and> None \<notin> set (ch_UpdateOld c) \<union> set (ch_Delete c)"
      by (rule BuildPlan_parts) (use create update collect delete in blast)
  next
    assume ok: "(\<forall>ptr \<in> set (ch_Create c) \<union> set (ch_UpdateNew c). buildable t ptr) \<and> None \<notin> set (ch_UpdateOld c) \<union> set (ch_Delete c)"
    have dels: "\<forall>ptr \<in> set (ch_Delete c). ptr \<noteq> None" and ups: "\<forall>ptr \<in> set (ch_UpdateOld c). ptr \<noteq> None"
      using ok by (metis Un_iff)+
    have crs: "\<forall>ptr \<in> set (ch_Create c). buildable t ptr" and news: "\<forall>ptr \<in> set (ch_UpdateNew c). buildable t ptr"
      using ok by simp_all
    obtain p1 where 1: "fold_err (plan_create t) (ch_Create c) \<lparr>pl_Create = [], pl_Patch = [], pl_Delete = []\<rparr> = Inr p1"
      using crs create by blast
    obtain olds where 2: "fold_err (\<lambda>ptr olds. and_then (follow ptr) (\<lambda>ep. Inr (AList.update (keyOf ep) ep olds))) (ch_UpdateOld c) [] = Inr olds"
      using ups collect by blast
    obtain st where "fold_err (plan_update t olds) (ch_UpdateNew c) (p1, {}) = Inr st" using news update by blast
    then obtain p2 seen where 3: "fold_err (plan_update t olds) (ch_UpdateNew c) (p1, {}) = Inr (p2, seen)" by (cases st) auto
    obtain p where 4: "fold_err (plan_delete t) (ch_Delete c)
        (fold (\<lambda>(k, ep) p. if k \<in> seen then p else fold (del t ep) (ep_Targets ep) p) olds p2) = Inr p"
      using dels delete by blast
    show "\<exists>p. BuildPlan t c = Inr p"
      unfolding BuildPlan_def using 1 2 3 4 by (intro exI [of _ p]) (simp add: Let_def)
  qed
qed

definition sample_changes :: changes where
  "sample_changes = \<lparr>ch_Create = [], ch_UpdateOld = [Some sample_endpoint],
     ch_UpdateNew = [Some (sample_endpoint\<lparr>ep_Targets := [''10.0.0.1'', ''10.0.0.3'']\<rparr>)], ch_Delete = []\<rparr>"

lemma Desired_targets: "Desired t (ep\<lparr>ep_Targets := tgs\<rparr>) tg = Desired t ep tg"
proof -
  have sel: "ep_DNSName (ep\<lparr>ep_Targets := tgs\<rparr>) = ep_DNSName ep" "ep_RecordType (ep\<lparr>ep_Targets := tgs\<rparr>) = ep_RecordType ep"
    "ep_RecordTTL (ep\<lparr>ep_Targets := tgs\<rparr>) = ep_RecordTTL ep" "ep_SetIdentifier (ep\<lparr>ep_Targets := tgs\<rparr>) = ep_SetIdentifier ep"
    by simp_all
  show ?thesis unfolding Desired_def base_record_def sel by (rule refl)
qed

lemma sample_plan_made: "\<exists>p. BuildPlan sample_translator sample_changes = Inr p"
  unfolding BuildPlan_returns_iff by (simp add: sample_changes_def buildable_def Desired_targets sample_desired)

theorem BuildPlan_exact_witness:
  "\<exists>p. BuildPlan sample_translator sample_changes = Inr p \<and>
    record_name_of sample_translator sample_endpoint ''10.0.0.2'' \<in> set (pl_Delete p) \<and> distinct (pl_Delete p)"
proof -
  obtain p where p: "BuildPlan sample_translator sample_changes = Inr p" using sample_plan_made by blast
  let ?nw = "sample_endpoint\<lparr>ep_Targets := [''10.0.0.1'', ''10.0.0.3'']\<rparr>"
  have new: "?nw \<in> {nw. Some nw \<in> set (ch_UpdateNew sample_changes)}" by (simp add: sample_changes_def)
  have old: "old_of sample_changes (keyOf ?nw) = Some sample_endpoint"
    by (simp add: old_of_def sample_changes_def keyOf_def)
  have tg: "''10.0.0.2'' \<in> set (ep_Targets sample_endpoint) - set (ep_Targets ?nw)" by (simp add: sample_endpoint_def)
  have "record_name_of sample_translator sample_endpoint tg \<in> set (pl_Delete p)"
    if "tg \<in> set (ep_Targets sample_endpoint) - set (ep_Targets ?nw)" for tg
    using BuildPlan_exact [OF p] new old that by blast
  from this [OF tg] BuildPlan_exact [OF p] p show ?thesis by blast
qed

end
