(* ===== verification/External_DNS_Server.thy ===== *)
theory External_DNS_Server
  imports External_DNS
begin

text \<open>
  The HTTP handlers of the ExternalDNS webhook (\<^verbatim>\<open>internal/externaldns/server.go\<close>) on top of the
  translation, and what applying a plan does to the Records of the API server.
\<close>

section \<open>The server\<close>

text \<open>
  A request body as JSON decoding leaves it, and what a handler answers. \<open>Panicked\<close> is a handler that
  dies; \<^verbatim>\<open>net/http\<close> closes the connection.
\<close>

datatype 'v body = BodyTooLarge string | BodyMalformed string | BodyJSON 'v

datatype reply = ReplyFilter "string list" | ReplyEndpoints "endpoint list" | NoContent | ReplyError int string | Panicked

datatype webhook_request =
    Negotiate | ListRecords | PostChanges "changes body" | AdjustEndpoints "endpoint option list body"

definition decode :: "'v body \<Rightarrow> reply + 'v" where
  "decode b = (case b of
     BodyTooLarge e \<Rightarrow> Inl (ReplyError 413 e) | BodyMalformed e \<Rightarrow> Inl (ReplyError 400 e) | BodyJSON v \<Rightarrow> Inr v)"

definition records_handler :: "('s, record_resource) kclient \<Rightarrow> translator \<Rightarrow> ('s world, reply) state" where
  "records_handler kc t = do {
     got \<leftarrow> klist kc (tl_Namespace t) (Selector t);
     State_Monad.return (case got of Inl err \<Rightarrow> ReplyError 500 (Error err) | Inr items \<Rightarrow> ReplyEndpoints (Endpoints items))
   }"

definition patch :: "('s, record_resource) kclient \<Rightarrow> record_resource \<Rightarrow> ('s world, go_error + unit) state" where
  "patch kc want =
     or_return (kget kc (meta_key (rec_meta want))) (\<lambda>cur.
       ignore_result (kpatch kc cur
         (cur\<lparr>rec_Spec := rec_Spec want,
              rec_meta := (rec_meta cur)\<lparr>om_Labels := om_Labels (rec_meta want), om_Annotations := om_Annotations (rec_meta want)\<rparr>\<rparr>)))"

definition create_record :: "('s, record_resource) kclient \<Rightarrow> record_resource \<Rightarrow> ('s world, go_error + unit) state" where
  "create_record kc rec = wrap_error (''creating Record '' @ om_Name (rec_meta rec) @ '': '') (do {
     got \<leftarrow> kcreate kc rec;
     case got of Inl err \<Rightarrow> if IsAlreadyExists err then patch kc rec else fail err | Inr _ \<Rightarrow> ok ()
   })"

definition patch_record :: "('s, record_resource) kclient \<Rightarrow> record_resource \<Rightarrow> ('s world, go_error + unit) state" where
  "patch_record kc rec = wrap_error (''patching Record '' @ om_Name (rec_meta rec) @ '': '') (patch kc rec)"

definition zero_record_spec :: record_spec where
  "zero_record_spec = \<lparr>rs_ServerRef = \<lparr>sr_Name = [], sr_Namespace = []\<rparr>, rs_Zone = [], rs_Name = [], rs_Type = [], rs_TTL = None,
     rs_Data = [], rs_Priority = None, rs_DeletionPolicy = []\<rparr>"

definition named_record :: "translator \<Rightarrow> string \<Rightarrow> record_resource" where
  "named_record t name = \<lparr>rec_meta = zero_meta\<lparr>om_Name := name, om_Namespace := tl_Namespace t\<rparr>,
     rec_Spec = zero_record_spec, rec_Status = zero_record_status\<rparr>"

definition delete_record :: "('s, record_resource) kclient \<Rightarrow> translator \<Rightarrow> string \<Rightarrow> ('s world, go_error + unit) state" where
  "delete_record kc t name = wrap_error (''deleting Record '' @ name @ '': '') (do {
     got \<leftarrow> kdelete kc (named_record t name);
     case got of Inl err \<Rightarrow> ignore_not_found err () | Inr _ \<Rightarrow> ok ()
   })"

definition apply_plan :: "('s, record_resource) kclient \<Rightarrow> translator \<Rightarrow> plan \<Rightarrow> ('s world, go_error + unit) state" where
  "apply_plan kc t p =
     or_return (for_each (create_record kc) (pl_Create p)) (\<lambda>_.
     or_return (for_each (patch_record kc) (pl_Patch p)) (\<lambda>_.
     for_each (delete_record kc t) (pl_Delete p)))"

definition applyChanges :: "('s, record_resource) kclient \<Rightarrow> translator \<Rightarrow> changes body \<Rightarrow> ('s world, reply) state" where
  "applyChanges kc t b =
     (case decode b of
        Inl r \<Rightarrow> State_Monad.return r
      | Inr c \<Rightarrow>
          (case BuildPlan t c of
             Inl NilPointer \<Rightarrow> State_Monad.return Panicked
           | Inl (Rejected err) \<Rightarrow> State_Monad.return (ReplyError 400 (Error err))
           | Inr p \<Rightarrow> do {
               done \<leftarrow> apply_plan kc t p;
               State_Monad.return (case done of Inl err \<Rightarrow> ReplyError 500 (Error err) | Inr _ \<Rightarrow> NoContent)
             }))"

definition adjust :: "translator \<Rightarrow> endpoint option list body \<Rightarrow> reply" where
  "adjust t b = (case decode b of Inl r \<Rightarrow> r | Inr eps \<Rightarrow> ReplyEndpoints (Adjust t eps))"

definition negotiate :: "translator \<Rightarrow> reply" where
  "negotiate t = ReplyFilter (tl_Zones t)"

definition Handler :: "('s, record_resource) kclient \<Rightarrow> translator \<Rightarrow> webhook_request \<Rightarrow> ('s world, reply) state" where
  "Handler kc t req = (case req of
     Negotiate \<Rightarrow> State_Monad.return (negotiate t)
   | ListRecords \<Rightarrow> records_handler kc t
   | PostChanges b \<Rightarrow> applyChanges kc t b
   | AdjustEndpoints b \<Rightarrow> State_Monad.return (adjust t b))"

section \<open>Applying a plan\<close>

definition is_delete :: "event \<Rightarrow> bool" where
  "is_delete ev \<longleftrightarrow> (\<exists>k m. ev = EvDelete k m)"

lemma is_delete_simps [simp]:
  "\<not> is_delete (EvGet k key)" "\<not> is_delete (EvCreate k m)" "\<not> is_delete (EvPatch k m)" "is_delete (EvDelete k m)"
  by (simp_all add: is_delete_def)

lemma emits_create_record: "emits (\<lambda>ev. \<not> is_delete ev) (create_record kc r)"
  and emits_patch_record: "emits (\<lambda>ev. \<not> is_delete ev) (patch_record kc r)"
  and emits_delete_record: "emits is_delete (delete_record kc t n)"
  unfolding create_record_def patch_record_def patch_def delete_record_def
  by (intro emits_rules emits_return emits_ignore; simp)+

text \<open>A loop that returned has run its body on every element, and an element's events are in the trace.\<close>

lemma for_each_all:
  assumes "\<And>x w u w'. x \<in> set xs \<Longrightarrow> run_state (f x) w = (Inr u, w') \<Longrightarrow> \<exists>es. trace w' = trace w @ es \<and> Q x es"
    and "run_state (for_each f xs) w = (Inr u, w')"
    and "\<And>x es es1 es2. Q x es \<Longrightarrow> Q x (es1 @ es @ es2)"
  shows "\<exists>es. trace w' = trace w @ es \<and> (\<forall>x \<in> set xs. Q x es)"
  using assms(1,2)
proof (induction xs arbitrary: w)
  case (Cons x xs)
  obtain v w1 where x: "run_state (f x) w = (Inr v, w1)" and xs: "run_state (for_each f xs) w1 = (Inr u, w')"
    using Cons.prems(2) by (auto simp: or_return_Inr_iff)
  obtain es1 where es1: "trace w1 = trace w @ es1" "Q x es1"
    using Cons.prems(1) [of x w v w1] x by auto
  have "\<exists>es. trace w' = trace w1 @ es \<and> (\<forall>x \<in> set xs. Q x es)"
    by (rule Cons.IH [OF Cons.prems(1) xs]) simp_all
  then obtain es2 where "trace w' = trace w1 @ es2" "\<forall>y \<in> set xs. Q y es2" by blast
  with es1 assms(3) [of x es1 "[]" es2] assms(3) [of _ es2 es1 "[]"] show ?case
    by (intro exI [of _ "es1 @ es2"]) auto
qed simp

text \<open>
  What a successful call sends: a patch reads the object by the key of the wanted Record and patches it with the wanted spec,
  labels and annotations; a create sends the Record and, if it exists, patches it.
\<close>

definition patched :: "record_resource \<Rightarrow> record_resource \<Rightarrow> record_resource" where
  "patched cur want = cur\<lparr>rec_Spec := rec_Spec want,
     rec_meta := (rec_meta cur)\<lparr>om_Labels := om_Labels (rec_meta want), om_Annotations := om_Annotations (rec_meta want)\<rparr>\<rparr>"

definition patch_sent :: "('s, record_resource) kclient \<Rightarrow> record_resource \<Rightarrow> event list \<Rightarrow> bool" where
  "patch_sent kc r es \<longleftrightarrow>
     (\<exists>s cur s1 r' s2 es1 es2. kc_Get kc (meta_key (rec_meta r)) s = (Inr cur, s1) \<and> kc_Patch kc cur (patched cur r) s1 = (Inr r', s2) \<and>
        es = es1 @ [EvGet (kc_kind kc) (meta_key (rec_meta r)), EvPatch (kc_kind kc) (kc_meta kc (patched cur r))] @ es2)"

definition create_sent :: "('s, record_resource) kclient \<Rightarrow> record_resource \<Rightarrow> event list \<Rightarrow> bool" where
  "create_sent kc r es \<longleftrightarrow>
     (\<exists>s res s1 es1 es2. kc_Create kc r s = (res, s1) \<and> es = es1 @ EvCreate (kc_kind kc) (kc_meta kc r) # es2 \<and>
        (\<forall>err. res = Inl err \<longrightarrow> IsAlreadyExists err \<and> patch_sent kc r es2))"

lemma patch_sent_mono: "patch_sent kc r es \<Longrightarrow> patch_sent kc r (es1 @ es @ es2)"
  unfolding patch_sent_def by (metis append_assoc)

lemma create_sent_mono: "create_sent kc r es \<Longrightarrow> create_sent kc r (es1 @ es @ es2)"
  unfolding create_sent_def using patch_sent_mono [of kc r _ "[]" es2]
  by (elim exE conjE) (metis (no_types, lifting) append.assoc append_Cons append_Nil)

lemma patch_event:
  assumes "run_state (patch kc r) w = (Inr u, w')"
  shows "\<exists>es. trace w' = trace w @ es \<and> patch_sent kc r es"
proof -
  obtain got s1 where get: "kc_Get kc (meta_key (rec_meta r)) (ext w) = (got, s1)" by fastforce
  from assms get obtain cur where cur: "got = Inr cur" by (cases got) (auto simp: patch_def run_or_return run_kube)
  obtain res s2 where "kc_Patch kc cur (patched cur r) s1 = (res, s2)" by fastforce
  moreover from this assms get cur obtain r' where "res = Inr r'"
    and "w' = w\<lparr>ext := s2, trace := trace w @ [EvGet (kc_kind kc) (meta_key (rec_meta r)), EvPatch (kc_kind kc) (kc_meta kc (patched cur r))]\<rparr>"
    by (cases res) (auto simp: patch_def run_or_return run_kube kpatch_def run_outside run_ignore_result patched_def [symmetric])
  ultimately show ?thesis
    using get cur unfolding patch_sent_def by fastforce
qed

lemma create_record_event:
  assumes "run_state (create_record kc r) w = (Inr u, w')"
  shows "\<exists>es. trace w' = trace w @ es \<and> create_sent kc r es"
proof -
  obtain res s where create: "kc_Create kc r (ext w) = (res, s)" by fastforce
  let ?w1 = "w\<lparr>ext := s, trace := trace w @ [EvCreate (kc_kind kc) (kc_meta kc r)]\<rparr>"
  show ?thesis
  proof (cases res)
    case (Inl err)
    with assms create have "IsAlreadyExists err" "run_state (patch kc r) ?w1 = (Inr u, w')"
      unfolding create_record_def kcreate_def by (auto simp: run_outside split: if_splits)
    with patch_event [OF this(2)] obtain es where "trace w' = trace ?w1 @ es" "patch_sent kc r es" by blast
    with create Inl \<open>IsAlreadyExists err\<close> show ?thesis
      unfolding create_sent_def by (intro exI [of _ "EvCreate (kc_kind kc) (kc_meta kc r) # es"]) fastforce
  next
    case (Inr r')
    with assms create have "w' = ?w1"
      unfolding create_record_def kcreate_def by (auto simp: run_wrap_error run_outside)
    with create Inr show ?thesis unfolding create_sent_def by (intro exI [of _ "[EvCreate (kc_kind kc) (kc_meta kc r)]"]) fastforce
  qed
qed

lemma patch_record_event:
  assumes "run_state (patch_record kc r) w = (Inr u, w')"
  shows "\<exists>es. trace w' = trace w @ es \<and> patch_sent kc r es"
proof -
  from assms have "run_state (patch kc r) w = (Inr u, w')" by (simp add: patch_record_def)
  then show ?thesis by (rule patch_event)
qed

lemma apply_plan_events:
  assumes run: "run_state (apply_plan kc t p) w = (r, w')"
  shows "\<exists>es ds. trace w' = trace w @ es @ ds \<and> list_all (\<lambda>ev. \<not> is_delete ev) es \<and> list_all is_delete ds \<and>
    (ds \<noteq> [] \<or> r = Inr () \<longrightarrow> (\<forall>r \<in> set (pl_Create p). create_sent kc r es) \<and> (\<forall>r \<in> set (pl_Patch p). patch_sent kc r es))"
proof -
  obtain r1 w1 where 1: "run_state (for_each (create_record kc) (pl_Create p)) w = (r1, w1)" by fastforce
  obtain es1 where es1: "trace w1 = trace w @ es1" "list_all (\<lambda>ev. \<not> is_delete ev) es1"
    using emits_D [OF emits_for_each [OF emits_create_record] 1] by blast
  show ?thesis
  proof (cases r1)
    case (Inl e)
    with run 1 have "w' = w1" "r = Inl e" by (auto simp: apply_plan_def run_or_return)
    with es1 show ?thesis by (intro exI [of _ es1] exI [of _ "[]"]) auto
  next
    case (Inr u1)
    have created: "\<forall>x \<in> set (pl_Create p). create_sent kc x es1"
      using for_each_all [where Q = "create_sent kc", OF create_record_event 1 [unfolded Inr] create_sent_mono] es1(1) by auto
    obtain r2 w2 where 2: "run_state (for_each (patch_record kc) (pl_Patch p)) w1 = (r2, w2)" by fastforce
    obtain es2 where es2: "trace w2 = trace w1 @ es2" "list_all (\<lambda>ev. \<not> is_delete ev) es2"
      using emits_D [OF emits_for_each [OF emits_patch_record] 2] by blast
    show ?thesis
    proof (cases r2)
      case (Inl e)
      with run 1 2 Inr have "w' = w2" "r = Inl e" by (auto simp: apply_plan_def run_or_return)
      with es1 es2 show ?thesis by (intro exI [of _ "es1 @ es2"] exI [of _ "[]"]) auto
    next
      case u2: (Inr u2)
      have patched: "\<forall>x \<in> set (pl_Patch p). patch_sent kc x es2"
        using for_each_all [where Q = "patch_sent kc", OF patch_record_event 2 [unfolded u2] patch_sent_mono] es2(1) by auto
      have 3: "run_state (for_each (delete_record kc t) (pl_Delete p)) w2 = (r, w')"
        using run 1 2 Inr u2 by (simp add: apply_plan_def run_or_return)
      obtain ds where "trace w' = trace w2 @ ds" "list_all is_delete ds"
        using emits_D [OF emits_for_each [OF emits_delete_record] 3] by blast
      with es1 es2 created patched create_sent_mono [of kc _ es1 "[]" es2] patch_sent_mono [of kc _ es2 es1 "[]"] show ?thesis
        by (intro exI [of _ "es1 @ es2"] exI [of _ ds]) auto
    qed
  qed
qed

text \<open>
  (C12) Whatever the API server answers, deletions come last: before the first of them, and before a reply of
  success, every Record of the plan to create has been sent and has succeeded or, where it existed, been patched
  successfully, and every Record of the plan to patch has been read by its own key and patched with its own content, successfully. So
  an update takes no target away before the new ones are there. A body that cannot be decoded, a change set with an endpoint
  no Record can be built from, and a nil endpoint cause no call at all.
\<close>

theorem applyChanges_deletes_last:
  assumes "run_state (applyChanges kc t b) w = (reply, w')"
  shows "\<exists>es ds. trace w' = trace w @ es @ ds \<and> list_all (\<lambda>ev. \<not> is_delete ev) es \<and> list_all is_delete ds \<and>
    ((\<forall>c. b = BodyJSON c \<longrightarrow> (\<forall>p. BuildPlan t c \<noteq> Inr p)) \<longrightarrow> es @ ds = [] \<and> reply \<noteq> NoContent) \<and>
    (ds \<noteq> [] \<or> reply = NoContent \<longrightarrow> (\<exists>c p. b = BodyJSON c \<and> BuildPlan t c = Inr p \<and>
       (\<forall>r \<in> set (pl_Create p). create_sent kc r es) \<and> (\<forall>r \<in> set (pl_Patch p). patch_sent kc r es)))"
proof -
  consider (none) "\<forall>c. b = BodyJSON c \<longrightarrow> (\<forall>p. BuildPlan t c \<noteq> Inr p)" | (plan) c p where "b = BodyJSON c" "BuildPlan t c = Inr p"
    by blast
  then show ?thesis
  proof cases
    case none
    then have "w' = w" "reply \<noteq> NoContent"
      using assms unfolding applyChanges_def decode_def
      by (auto split: body.splits sum.splits plan_error.splits)
    then show ?thesis by (intro exI [of _ "[]"]) simp
  next
    case (plan c p)
    obtain r where run: "run_state (apply_plan kc t p) w = (r, w')" and reply: "reply = NoContent \<longleftrightarrow> r = Inr ()"
      using assms plan by (auto simp: applyChanges_def decode_def split: sum.splits prod.splits)
    from apply_plan_events [OF run] plan show ?thesis unfolding reply by blast
  qed
qed

subsection \<open>A plan against the API server\<close>

text \<open>
  The documented behaviour of the API server on the Records of a store. An object that breaks the resource definition
  (\<open>crd_record\<close>, the markers of \<^verbatim>\<open>record_types.go\<close>) or that the admission webhook refuses is rejected, and nothing changes; a patch
  may not change the name. Otherwise creating an object that exists
  is refused with \<^verbatim>\<open>AlreadyExists\<close>, and creating one that does not exist stores it, with an empty status and with the defaults
  \<open>dflt\<close> of the resource definition filled into its spec. A merge patch computed against the stored object leaves it with the
  new spec, labels and annotations and keeps the rest. Deleting an object removes it or, when it has
  finalizers, marks it as being deleted.
\<close>

definition crd_record :: "record_spec \<Rightarrow> bool" where
  "crd_record spec \<longleftrightarrow> rs_Type spec \<in> set record_types \<and> 1 \<le> length (rs_Zone spec) \<and> length (rs_Zone spec) \<le> 253 \<and>
     1 \<le> length (rs_Name spec) \<and> length (rs_Name spec) \<le> 255 \<and> 1 \<le> length (rs_Data spec) \<and>
     (case rs_TTL spec of None \<Rightarrow> True | Some ttl \<Rightarrow> 0 \<le> ttl)"

definition record_admitted :: "record_resource option \<Rightarrow> record_resource \<Rightarrow> bool" where
  "record_admitted old r \<longleftrightarrow> crd_record (rec_Spec r) \<and> validateRecordSpec r old = Allowed"

lemma record_admitted_iff:
  "record_admitted old r \<longleftrightarrow> crd_record (rec_Spec r) \<and> sr_Name (rs_ServerRef (rec_Spec r)) \<noteq> [] \<and>
     sr_Namespace (rs_ServerRef (rec_Spec r)) = [] \<and> (rs_Type (rec_Spec r) = RecordTypeMX \<longrightarrow> rs_Priority (rec_Spec r) \<noteq> None) \<and>
     (\<forall>cur. old = Some cur \<longrightarrow> rs_Name (rec_Spec r) = rs_Name (rec_Spec cur))"
  by (auto simp: record_admitted_def validateRecordSpec_def verdict_def report_if_def server_ref_errors_def Let_def
      split: option.splits if_splits)

type_synonym record_store = "object_key \<rightharpoonup> record_resource"

definition content :: "record_resource \<Rightarrow> record_spec \<times> string_map \<times> string_map" where
  "content r = (rec_Spec r, om_Labels (rec_meta r), om_Annotations (rec_meta r))"

definition terminating :: "record_resource \<Rightarrow> bool" where
  "terminating r \<longleftrightarrow> om_DeletionTimestamp (rec_meta r) \<noteq> None"

definition stored_as :: "(record_spec \<Rightarrow> record_spec) \<Rightarrow> record_resource \<Rightarrow> record_resource \<Rightarrow> bool" where
  "stored_as dflt r r' \<longleftrightarrow> content r' = (dflt (rec_Spec r), om_Labels (rec_meta r), om_Annotations (rec_meta r)) \<and>
     meta_key (rec_meta r') = meta_key (rec_meta r) \<and> terminating r' = terminating r"

definition create_law :: "('s, record_resource) kclient \<Rightarrow> ('s \<Rightarrow> record_store) \<Rightarrow> (record_spec \<Rightarrow> record_spec) \<Rightarrow> bool" where
  "create_law kc objs dflt \<longleftrightarrow> (\<forall>r s. \<not> terminating r \<longrightarrow>
     (let key = meta_key (rec_meta r); (res, s') = kc_Create kc r s
      in if \<not> record_admitted None r then (\<exists>err. res = Inl err \<and> \<not> IsAlreadyExists err) \<and> objs s' = objs s
         else case objs s key of
           Some _ \<Rightarrow> (\<exists>err. res = Inl err \<and> IsAlreadyExists err) \<and> objs s' = objs s
         | None \<Rightarrow> (\<exists>r'. res = Inr r' \<and> stored_as dflt r r' \<and> rec_Status r' = zero_record_status \<and> objs s' = (objs s)(key \<mapsto> r'))))"

definition get_law :: "('s, record_resource) kclient \<Rightarrow> ('s \<Rightarrow> record_store) \<Rightarrow> bool" where
  "get_law kc objs \<longleftrightarrow> (\<forall>key s. let (res, s') = kc_Get kc key s
     in objs s' = objs s \<and>
        (case objs s key of Some r \<Rightarrow> res = Inr r \<and> meta_key (rec_meta r) = key | None \<Rightarrow> (\<exists>err. res = Inl err \<and> IsNotFound err)))"

definition patch_law :: "('s, record_resource) kclient \<Rightarrow> ('s \<Rightarrow> record_store) \<Rightarrow> (record_spec \<Rightarrow> record_spec) \<Rightarrow> bool" where
  "patch_law kc objs dflt \<longleftrightarrow> (\<forall>base r s. objs s (meta_key (rec_meta r)) = Some base \<longrightarrow>
     (let (res, s') = kc_Patch kc base r s
      in if \<not> record_admitted (Some base) r then (\<exists>err. res = Inl err) \<and> objs s' = objs s
         else \<exists>r'. res = Inr r' \<and> stored_as dflt r r' \<and> rec_Status r' = rec_Status base \<and>
           objs s' = (objs s)(meta_key (rec_meta r) \<mapsto> r')))"

definition delete_law :: "('s, record_resource) kclient \<Rightarrow> ('s \<Rightarrow> record_store) \<Rightarrow> bool" where
  "delete_law kc objs \<longleftrightarrow> (\<forall>r s. let key = meta_key (rec_meta r); (res, s') = kc_Delete kc r s
     in case objs s key of
          None \<Rightarrow> (\<exists>err. res = Inl err \<and> IsNotFound err) \<and> objs s' = objs s
        | Some _ \<Rightarrow> res = Inr () \<and> (\<exists>v. (\<forall>r'. v = Some r' \<longrightarrow> terminating r') \<and> objs s' = (objs s)(key := v)))"

definition record_store_laws :: "('s, record_resource) kclient \<Rightarrow> ('s \<Rightarrow> record_store) \<Rightarrow> (record_spec \<Rightarrow> record_spec) \<Rightarrow> bool" where
  "record_store_laws kc objs dflt \<longleftrightarrow> create_law kc objs dflt \<and> get_law kc objs \<and> patch_law kc objs dflt \<and> delete_law kc objs \<and>
     (\<forall>spec. rs_Name (dflt spec) = rs_Name spec)"

text \<open>
  The abstract view: the Records of the webhook's namespace, by name, that are not being deleted; and what
  a plan means on it.
\<close>

definition published :: "translator \<Rightarrow> record_store \<Rightarrow> string \<rightharpoonup> record_spec \<times> string_map \<times> string_map" where
  "published t st n = (case st (ObjectKey (tl_Namespace t) n) of
     Some r \<Rightarrow> if terminating r then None else Some (content r) | None \<Rightarrow> None)"

definition put :: "(record_spec \<Rightarrow> record_spec) \<Rightarrow> record_resource \<Rightarrow> (string \<rightharpoonup> record_spec \<times> string_map \<times> string_map) \<Rightarrow>
    string \<rightharpoonup> record_spec \<times> string_map \<times> string_map" where
  "put dflt r f = f(om_Name (rec_meta r) \<mapsto> (dflt (rec_Spec r), om_Labels (rec_meta r), om_Annotations (rec_meta r)))"

definition plan_effect :: "(record_spec \<Rightarrow> record_spec) \<Rightarrow> plan \<Rightarrow> (string \<rightharpoonup> record_spec \<times> string_map \<times> string_map) \<Rightarrow>
    string \<rightharpoonup> record_spec \<times> string_map \<times> string_map" where
  "plan_effect dflt p f = fold (\<lambda>n f. f(n := None)) (pl_Delete p) (fold (put dflt) (pl_Create p @ pl_Patch p) f)"

lemma for_each_total:
  assumes "\<And>x w. x \<in> set xs \<Longrightarrow> I w \<Longrightarrow> \<exists>w'. run_state (f x) w = (Inr (), w') \<and> I w' \<and> view w' = eff x (view w)" and "I w"
  shows "\<exists>w'. run_state (for_each f xs) w = (Inr (), w') \<and> I w' \<and> view w' = fold eff xs (view w)"
  using assms
proof (induction xs arbitrary: w)
  case (Cons x xs)
  obtain w1 where "run_state (f x) w = (Inr (), w1)" "I w1" "view w1 = eff x (view w)"
    using Cons.prems by (metis list.set_intros(1))
  moreover obtain w2 where "run_state (for_each f xs) w1 = (Inr (), w2)" "I w2" "view w2 = fold eff xs (view w1)"
    using Cons.IH [OF Cons.prems(1) \<open>I w1\<close>] by (meson list.set_intros(2))
  ultimately show ?case by (auto simp: run_or_return)
qed simp

text \<open>The Records of a plan are in the webhook's namespace, labelled as its own, and not being deleted.\<close>

definition own_record :: "translator \<Rightarrow> record_resource \<Rightarrow> bool" where
  "own_record t r \<longleftrightarrow> om_Namespace (rec_meta r) = tl_Namespace t \<and> om_Labels (rec_meta r) = Selector t \<and> \<not> terminating r"

lemma own_record_Desired: "Desired t ep tg = Inr r \<Longrightarrow> own_record t r"
  by (erule Desired_cases) (auto simp: own_record_def terminating_def base_record_def zero_meta_def)

lemma plan_records_own: "BuildPlan t c = Inr p \<Longrightarrow> r \<in> set (pl_Create p) \<union> set (pl_Patch p) \<Longrightarrow> own_record t r"
  using BuildPlan_sets(1,2) [of t c p] own_record_Desired by (auto simp: wanted_def)

subsection \<open>Each call on the store\<close>

lemma own_record_key: "own_record t r \<Longrightarrow> meta_key (rec_meta r) = ObjectKey (tl_Namespace t) (om_Name (rec_meta r))"
  by (simp add: own_record_def meta_key_def)

text \<open>The effect of a call on one object: the store after it has \<open>r'\<close> in place of what it had.\<close>

definition writes_record :: "('s \<Rightarrow> record_store) \<Rightarrow> (record_spec \<Rightarrow> record_spec) \<Rightarrow> record_resource \<Rightarrow> bool \<Rightarrow>
    'a \<times> 's world \<Rightarrow> 's world \<Rightarrow> bool" where
  "writes_record objs dflt r gone res w \<longleftrightarrow>
     (\<exists>r'. objs (ext (snd res)) = (objs (ext w))(meta_key (rec_meta r) \<mapsto> r') \<and>
        content r' = (dflt (rec_Spec r), om_Labels (rec_meta r), om_Annotations (rec_meta r)) \<and> terminating r' = gone \<and>
        rec_Status r' = (case objs (ext w) (meta_key (rec_meta r)) of Some cur \<Rightarrow> rec_Status cur | None \<Rightarrow> zero_record_status))"

lemma patch_step:
  assumes "get_law kc objs" and "patch_law kc objs dflt" and "objs (ext w) (meta_key (rec_meta r)) = Some cur"
    and admitted: "record_admitted (Some cur) r"
  shows "fst (run_state (patch kc r) w) = Inr () \<and> writes_record objs dflt r (terminating cur) (run_state (patch kc r) w) w"
proof -
  obtain res s where get: "kc_Get kc (meta_key (rec_meta r)) (ext w) = (res, s)" by fastforce
  have res: "res = Inr cur" "objs s = objs (ext w)" and key: "meta_key (rec_meta cur) = meta_key (rec_meta r)"
    using assms(1) [unfolded get_law_def, rule_format, of "meta_key (rec_meta r)" "ext w"] get assms(3) by (auto simp: Let_def)
  let ?new = "patched cur r"
  obtain res' s' where patched: "kc_Patch kc cur ?new s = (res', s')" by fastforce
  have new_key: "meta_key (rec_meta ?new) = meta_key (rec_meta r)" using key by (simp add: meta_key_def patched_def)
  have "record_admitted (Some cur) ?new" using admitted by (simp add: record_admitted_iff patched_def)
  then obtain r' where "res' = Inr r'" "stored_as dflt ?new r'" "rec_Status r' = rec_Status cur" "objs s' = (objs s)(meta_key (rec_meta r) \<mapsto> r')"
    using assms(2) [unfolded patch_law_def, rule_format, of s ?new cur] assms(3) res(2) patched
    unfolding new_key by (auto simp: Let_def)
  moreover have "content r' = (dflt (rec_Spec r), om_Labels (rec_meta r), om_Annotations (rec_meta r)) \<and> terminating r' = terminating cur"
    using calculation(2) by (simp add: stored_as_def patched_def terminating_def)
  moreover have "run_state (patch kc r) w = (map_sum id (\<lambda>_. ()) res', w\<lparr>ext := s', trace := trace w @
      [EvGet (kc_kind kc) (meta_key (rec_meta r)), EvPatch (kc_kind kc) (kc_meta kc ?new)]\<rparr>)"
    using patched
    by (simp add: patch_def run_or_return run_kube get res kpatch_def run_outside run_ignore_result patched_def [symmetric])
  ultimately show ?thesis
    using assms(3) res(2) by (auto simp: writes_record_def)
qed

lemma create_record_step:
  assumes "record_store_laws kc objs dflt" and "own_record t r" and admitted: "record_admitted None r"
    and name: "\<And>cur. objs (ext w) (meta_key (rec_meta r)) = Some cur \<Longrightarrow> rs_Name (rec_Spec cur) = rs_Name (rec_Spec r)"
  shows "fst (run_state (create_record kc r) w) = Inr () \<and>
    writes_record objs dflt r (\<exists>cur. objs (ext w) (meta_key (rec_meta r)) = Some cur \<and> terminating cur)
      (run_state (create_record kc r) w) w"
proof -
  let ?key = "meta_key (rec_meta r)"
  obtain res s where create: "kc_Create kc r (ext w) = (res, s)" by fastforce
  have new: "\<not> terminating r" using assms(2) by (simp add: own_record_def)
  have law: "case objs (ext w) ?key of
      Some _ \<Rightarrow> (\<exists>err. res = Inl err \<and> IsAlreadyExists err) \<and> objs s = objs (ext w)
    | None \<Rightarrow> (\<exists>r'. res = Inr r' \<and> stored_as dflt r r' \<and> rec_Status r' = zero_record_status \<and> objs s = (objs (ext w))(?key \<mapsto> r'))"
  proof -
    have "create_law kc objs dflt" using assms(1) by (simp add: record_store_laws_def)
    from this [unfolded create_law_def, rule_format, OF new, of "ext w"] create admitted show ?thesis by (simp add: Let_def)
  qed
  show ?thesis
  proof (cases "objs (ext w) ?key")
    case None
    with law new show ?thesis
      by (auto simp: create_record_def run_wrap_error kcreate_def run_outside create writes_record_def stored_as_def split: sum.splits)
  next
    case (Some cur)
    let ?w = "w\<lparr>ext := s, trace := trace w @ [EvCreate (kc_kind kc) (kc_meta kc r)]\<rparr>"
    from Some law obtain err where err: "res = Inl err" "IsAlreadyExists err" and s: "objs s = objs (ext w)" by auto
    have "fst (run_state (patch kc r) ?w) = Inr () \<and> writes_record objs dflt r (terminating cur) (run_state (patch kc r) ?w) ?w"
      using assms(1) Some admitted name [OF Some] by (intro patch_step) (auto simp: record_store_laws_def s record_admitted_iff)
    then show ?thesis
      by (auto simp: create_record_def run_wrap_error kcreate_def run_outside create err writes_record_def s Some split: prod.splits)
  qed
qed

lemma patch_record_step:
  assumes "record_store_laws kc objs dflt" and "objs (ext w) (meta_key (rec_meta r)) = Some cur" and "record_admitted (Some cur) r"
  shows "fst (run_state (patch_record kc r) w) = Inr () \<and> writes_record objs dflt r (terminating cur) (run_state (patch_record kc r) w) w"
  using patch_step [of kc objs dflt w r cur] assms
  by (auto simp: record_store_laws_def patch_record_def run_wrap_error writes_record_def split: prod.splits)

lemma delete_record_step:
  assumes "record_store_laws kc objs dflt"
  shows "fst (run_state (delete_record kc t n) w) = Inr () \<and>
    (\<exists>v. (\<forall>r'. v = Some r' \<longrightarrow> terminating r') \<and>
       objs (ext (snd (run_state (delete_record kc t n) w))) = (objs (ext w))(ObjectKey (tl_Namespace t) n := v))"
proof -
  obtain res s where delete: "kc_Delete kc (named_record t n) (ext w) = (res, s)" by fastforce
  have key: "meta_key (rec_meta (named_record t n)) = ObjectKey (tl_Namespace t) n"
    by (simp add: named_record_def meta_key_def)
  have "case objs (ext w) (ObjectKey (tl_Namespace t) n) of
      None \<Rightarrow> (\<exists>err. res = Inl err \<and> IsNotFound err) \<and> objs s = objs (ext w)
    | Some _ \<Rightarrow> res = Inr () \<and> (\<exists>v. (\<forall>r'. v = Some r' \<longrightarrow> terminating r') \<and> objs s = (objs (ext w))(ObjectKey (tl_Namespace t) n := v))"
  proof -
    have "delete_law kc objs" using assms by (simp add: record_store_laws_def)
    from this [unfolded delete_law_def, rule_format, of "named_record t n" "ext w"] delete show ?thesis by (simp add: Let_def key)
  qed
  then show ?thesis
    by (auto simp: delete_record_def run_wrap_error kdelete_def run_outside delete ignore_not_found_simp split: option.splits)
      (auto intro!: exI [of _ None] simp: fun_upd_idem)
qed

lemma published_upd:
  "published t (st(ObjectKey (tl_Namespace t) n := v)) =
     (published t st)(n := (case v of None \<Rightarrow> None | Some r \<Rightarrow> if terminating r then None else Some (content r)))"
  by (rule ext) (simp add: published_def)

text \<open>Creating and patching publish a Record, deleting withdraws it.\<close>

lemma written_published:
  assumes "own_record t r" and "writes_record objs dflt r False res w"
  shows "published t (objs (ext (snd res))) = put dflt r (published t (objs (ext w)))"
  using assms by (auto simp: writes_record_def own_record_key published_upd put_def)

text \<open>
  The Records can be written: each is admitted, no two of them share a key unless they have the same DNS name, an object that
  exists under the key of one of them has its DNS name and is not being deleted, and the ones to patch exist.
\<close>

definition ready_for :: "translator \<Rightarrow> record_resource set \<Rightarrow> record_resource set \<Rightarrow> record_store \<Rightarrow> bool" where
  "ready_for t new existing st \<longleftrightarrow>
     (\<forall>r \<in> new. record_admitted None r) \<and>
     (\<forall>r \<in> new. \<forall>r' \<in> new. om_Name (rec_meta r) = om_Name (rec_meta r') \<longrightarrow> rs_Name (rec_Spec r) = rs_Name (rec_Spec r')) \<and>
     (\<forall>r \<in> new. \<forall>cur. st (ObjectKey (tl_Namespace t) (om_Name (rec_meta r))) = Some cur \<longrightarrow>
        \<not> terminating cur \<and> rs_Name (rec_Spec cur) = rs_Name (rec_Spec r)) \<and>
     (\<forall>r \<in> existing. st (ObjectKey (tl_Namespace t) (om_Name (rec_meta r))) \<noteq> None)"

lemma ready_forD:
  assumes "ready_for t new existing st"
  shows "r \<in> new \<Longrightarrow> record_admitted None r"
    and "r \<in> new \<Longrightarrow> r' \<in> new \<Longrightarrow> om_Name (rec_meta r) = om_Name (rec_meta r') \<Longrightarrow> rs_Name (rec_Spec r) = rs_Name (rec_Spec r')"
    and "r \<in> new \<Longrightarrow> st (ObjectKey (tl_Namespace t) (om_Name (rec_meta r))) = Some cur \<Longrightarrow> \<not> terminating cur"
    and "r \<in> new \<Longrightarrow> st (ObjectKey (tl_Namespace t) (om_Name (rec_meta r))) = Some cur \<Longrightarrow> rs_Name (rec_Spec cur) = rs_Name (rec_Spec r)"
    and "r \<in> existing \<Longrightarrow> \<exists>cur. st (ObjectKey (tl_Namespace t) (om_Name (rec_meta r))) = Some cur"
  using assms unfolding ready_for_def by blast+

lemma written_ready:
  assumes "own_record t r" and "writes_record objs dflt r False res w" and ready: "ready_for t new existing (objs (ext w))"
    and r: "r \<in> new" and dflt: "\<And>spec. rs_Name (dflt spec) = rs_Name spec"
  shows "ready_for t new existing (objs (ext (snd res)))"
proof -
  obtain r' where "objs (ext (snd res)) = (objs (ext w))(ObjectKey (tl_Namespace t) (om_Name (rec_meta r)) \<mapsto> r')"
    and "\<not> terminating r'" "rs_Name (rec_Spec r') = rs_Name (rec_Spec r)"
    using assms(2) own_record_key [OF assms(1)] dflt by (auto simp: writes_record_def content_def)
  note after = this
  show ?thesis
    unfolding ready_for_def
  proof (intro conjI ballI allI impI)
    fix x cur assume x: "x \<in> new" and cur: "objs (ext (snd res)) (ObjectKey (tl_Namespace t) (om_Name (rec_meta x))) = Some cur"
    have "cur = r' \<and> rs_Name (rec_Spec x) = rs_Name (rec_Spec r) \<or> objs (ext w) (ObjectKey (tl_Namespace t) (om_Name (rec_meta x))) = Some cur"
      using cur after(1) ready_forD(2) [OF ready x r] by (auto split: if_splits)
    then show "\<not> terminating cur" "rs_Name (rec_Spec cur) = rs_Name (rec_Spec x)"
      using after(2,3) ready_forD(3,4) [OF ready x] by auto
  next
    fix x assume "x \<in> existing"
    then show "objs (ext (snd res)) (ObjectKey (tl_Namespace t) (om_Name (rec_meta x))) \<noteq> None"
      using after(1) ready_forD(5) [OF ready] by auto
  qed (use ready_forD(1,2) [OF ready] in blast)+
qed

lemma written_step:
  assumes "own_record t r" and "ready_for t new existing (objs (ext w))" and "r \<in> new" and "\<And>spec. rs_Name (dflt spec) = rs_Name spec"
    and "fst (run_state m w) = Inr () \<and> writes_record objs dflt r False (run_state m w) w"
  shows "\<exists>w'. run_state m w = (Inr (), w') \<and> ready_for t new existing (objs (ext w')) \<and>
    published t (objs (ext w')) = put dflt r (published t (objs (ext w)))"
proof -
  obtain w' where run: "run_state m w = (Inr (), w')" using assms(5) by (cases "run_state m w") simp
  note wr = conjunct2 [OF assms(5), unfolded run]
  show ?thesis
    using run written_ready [OF assms(1) wr assms(2,3,4)] written_published [OF assms(1) wr] by simp
qed

lemma create_published:
  assumes laws: "record_store_laws kc objs dflt" and own: "own_record t r" and name: "r \<in> new"
    and ready: "ready_for t new existing (objs (ext w))"
  shows "\<exists>w'. run_state (create_record kc r) w = (Inr (), w') \<and> ready_for t new existing (objs (ext w')) \<and>
    published t (objs (ext w')) = put dflt r (published t (objs (ext w)))"
proof (rule written_step [where objs = objs and w = w, OF own ready])
  have "\<not> (\<exists>cur. objs (ext w) (meta_key (rec_meta r)) = Some cur \<and> terminating cur)"
    and "record_admitted None r" and "\<And>cur. objs (ext w) (meta_key (rec_meta r)) = Some cur \<Longrightarrow> rs_Name (rec_Spec cur) = rs_Name (rec_Spec r)"
    using ready_forD(1,3,4) [OF ready name] unfolding own_record_key [OF own] by blast+
  with create_record_step [OF laws own, of w]
  show "fst (run_state (create_record kc r) w) = Inr () \<and> writes_record objs dflt r False (run_state (create_record kc r) w) w"
    by auto
qed (use name laws in \<open>simp_all add: record_store_laws_def\<close>)

lemma patch_published:
  assumes laws: "record_store_laws kc objs dflt" and own: "own_record t r"
    and name: "r \<in> new" "r \<in> existing"
    and ready: "ready_for t new existing (objs (ext w))"
  shows "\<exists>w'. run_state (patch_record kc r) w = (Inr (), w') \<and> ready_for t new existing (objs (ext w')) \<and>
    published t (objs (ext w')) = put dflt r (published t (objs (ext w)))"
proof (rule written_step [where objs = objs and w = w, OF own ready])
  obtain cur where "objs (ext w) (meta_key (rec_meta r)) = Some cur" "\<not> terminating cur" "record_admitted (Some cur) r"
    using ready_forD(1,3,4) [OF ready name(1)] ready_forD(5) [OF ready name(2)] own_record_key [OF own] by (auto simp: record_admitted_iff)
  with patch_record_step [OF laws]
  show "fst (run_state (patch_record kc r) w) = Inr () \<and> writes_record objs dflt r False (run_state (patch_record kc r) w) w"
    by metis
qed (use name laws in \<open>simp_all add: record_store_laws_def\<close>)

lemma delete_published:
  assumes "record_store_laws kc objs dflt"
  shows "\<exists>w'. run_state (delete_record kc t n) w = (Inr (), w') \<and> True \<and>
    published t (objs (ext w')) = (published t (objs (ext w)))(n := None)"
  using delete_record_step [OF assms, of t n w]
  by (cases "run_state (delete_record kc t n) w") (auto simp: published_upd split: option.splits)

lemma apply_plan_refines:
  assumes laws: "record_store_laws kc objs dflt"
    and own: "\<And>r. r \<in> set (pl_Create p) \<union> set (pl_Patch p) \<Longrightarrow> own_record t r"
    and ready: "ready_for t (set (pl_Create p) \<union> set (pl_Patch p)) (set (pl_Patch p)) (objs (ext w))"
  shows "\<exists>w'. run_state (apply_plan kc t p) w = (Inr (), w') \<and>
    published t (objs (ext w')) = plan_effect dflt p (published t (objs (ext w)))"
proof -
  let ?I = "\<lambda>w. ready_for t (set (pl_Create p) \<union> set (pl_Patch p)) (set (pl_Patch p)) (objs (ext w))"
  let ?view = "\<lambda>w. published t (objs (ext w))"
  have "\<exists>w1. run_state (for_each (create_record kc) (pl_Create p)) w = (Inr (), w1) \<and> ?I w1 \<and>
      ?view w1 = fold (put dflt) (pl_Create p) (?view w)"
    by (rule for_each_total [of _ ?I _ ?view]) (use ready in \<open>auto intro!: create_published [OF laws own]\<close>)
  then obtain w1 where 1: "run_state (for_each (create_record kc) (pl_Create p)) w = (Inr (), w1)" "?I w1"
    "?view w1 = fold (put dflt) (pl_Create p) (?view w)" by blast
  have "\<exists>w2. run_state (for_each (patch_record kc) (pl_Patch p)) w1 = (Inr (), w2) \<and> ?I w2 \<and>
      ?view w2 = fold (put dflt) (pl_Patch p) (?view w1)"
    by (rule for_each_total [of _ ?I _ ?view]) (use 1(2) in \<open>auto intro!: patch_published [OF laws own]\<close>)
  then obtain w2 where 2: "run_state (for_each (patch_record kc) (pl_Patch p)) w1 = (Inr (), w2)"
    "?view w2 = fold (put dflt) (pl_Patch p) (?view w1)" by blast
  have "\<exists>w3. run_state (for_each (delete_record kc t) (pl_Delete p)) w2 = (Inr (), w3) \<and> True \<and>
      ?view w3 = fold (\<lambda>n f. f(n := None)) (pl_Delete p) (?view w2)"
    by (rule for_each_total [of _ "\<lambda>_. True" _ ?view]) (simp_all add: delete_published [OF laws, simplified])
  then obtain w3 where 3: "run_state (for_each (delete_record kc t) (pl_Delete p)) w2 = (Inr (), w3)"
    "?view w3 = fold (\<lambda>n f. f(n := None)) (pl_Delete p) (?view w2)" by blast
  show ?thesis
    by (rule exI [of _ w3]) (simp add: apply_plan_def run_or_return 1 2 3 plan_effect_def)
qed

text \<open>
  (C7) Take an API server with the documented behaviour, and a change set for which a plan can be made whose Records the API server
  admits (so none of them has empty data) and none of whose names belongs to a Record that is being deleted or that has another DNS
  name; the Records to patch exist. The change set is then
  answered with success, and the Records the webhook publishes afterwards are those the plan means: every
  created or patched Record with its spec, labels and annotations, none of the deleted ones, and all others
  as before.
\<close>

theorem applyChanges_refines:
  assumes "record_store_laws kc objs dflt" and "BuildPlan t c = Inr p"
    and "ready_for t (set (pl_Create p) \<union> set (pl_Patch p)) (set (pl_Patch p)) (objs (ext w))"
  shows "\<exists>w'. run_state (applyChanges kc t (BodyJSON c)) w = (NoContent, w') \<and>
    published t (objs (ext w')) = plan_effect dflt p (published t (objs (ext w)))"
  using apply_plan_refines [OF assms(1) plan_records_own [OF assms(2)] assms(3)] assms(2)
  by (auto simp: applyChanges_def decode_def)

text \<open>An API server that keeps its Records in a map, on which the laws hold.\<close>

definition keyed :: "record_store \<Rightarrow> record_store" where
  "keyed st key = (case st key of Some r \<Rightarrow> if meta_key (rec_meta r) = key then Some r else None | None \<Rightarrow> None)"

definition kube_records :: "(record_store, record_resource) kclient" where
  "kube_records = (plain_kclient ''Record'' rec_meta (\<lambda>_. Inl (KubeError NotFound ''not found'')))
     \<lparr>kc_Get := (\<lambda>key s. (case keyed s key of Some r \<Rightarrow> Inr r | None \<Rightarrow> Inl (KubeError NotFound ''not found''), s)),
      kc_Create := (\<lambda>r s. let key = meta_key (rec_meta r); r' = r\<lparr>rec_Status := zero_record_status\<rparr> in
         if \<not> record_admitted None r then (Inl (KubeError OtherReason ''invalid''), s)
         else case keyed s key of
           Some _ \<Rightarrow> (Inl (KubeError AlreadyExists ''already exists''), s) | None \<Rightarrow> (Inr r', s(key \<mapsto> r'))),
      kc_Patch := (\<lambda>base r s. let r' = r\<lparr>rec_Status := rec_Status base\<rparr> in
         if \<not> record_admitted (Some base) r then (Inl (KubeError OtherReason ''invalid''), s)
         else (Inr r', s(meta_key (rec_meta r) \<mapsto> r'))),
      kc_Delete := (\<lambda>r s. let key = meta_key (rec_meta r) in case keyed s key of
         Some _ \<Rightarrow> (Inr (), s(key := None)) | None \<Rightarrow> (Inl (KubeError NotFound ''not found''), s))\<rparr>"

lemma keyed_upd:
  "meta_key (rec_meta r) = key \<Longrightarrow> keyed (st(key \<mapsto> r)) = (keyed st)(key \<mapsto> r)" "keyed (st(key := None)) = (keyed st)(key := None)"
  by (rule ext; simp add: keyed_def)+

lemma keyed_Some: "keyed st key = Some r \<Longrightarrow> meta_key (rec_meta r) = key"
  by (auto simp: keyed_def split: option.splits if_splits)

lemma kube_records_laws: "record_store_laws kube_records keyed id"
proof -
  have "create_law kube_records keyed id" "patch_law kube_records keyed id"
    by (auto simp: create_law_def patch_law_def kube_records_def Let_def keyed_upd stored_as_def content_def terminating_def
        split: option.splits)
  moreover have "get_law kube_records keyed"
    by (auto simp: get_law_def kube_records_def keyed_Some split: option.splits)
  moreover have "delete_law kube_records keyed"
    by (auto simp: delete_law_def kube_records_def Let_def keyed_upd split: option.splits intro!: exI [of _ None])
  ultimately show ?thesis by (simp add: record_store_laws_def)
qed

lemma sample_plan_patches: "BuildPlan sample_translator sample_changes = Inr p \<Longrightarrow> pl_Patch p = []"
  using BuildPlan_sets(2) [of sample_translator sample_changes p]
  by (auto simp: sample_changes_def old_of_def keyOf_def wanted_def)

lemma sample_record_admitted:
  "tg \<noteq> [] \<Longrightarrow> record_admitted None (set_ttl 300 (base_record sample_translator sample_endpoint tg RecordTypeA ''sub.example.com''))"
  by (cases tg) (simp_all add: record_admitted_iff crd_record_def record_types_def record_type_defs base_record_def sample_translator_def
      sample_endpoint_def sample_names set_ttl_def go_int32_def)

lemma sample_plan_records:
  assumes "BuildPlan sample_translator sample_changes = Inr p" and "r \<in> set (pl_Create p) \<union> set (pl_Patch p)"
  shows "record_admitted None r" and "rs_Name (rec_Spec r) = ''a.sub.example.com''"
proof -
  obtain tg where "tg \<in> {''10.0.0.1'', ''10.0.0.2'', ''10.0.0.3''}" "Desired sample_translator sample_endpoint tg = Inr r"
    using BuildPlan_sets(1,2) [OF assms(1)] assms(2)
    by (auto simp: sample_changes_def wanted_def Desired_targets)
  then have "r = set_ttl 300 (base_record sample_translator sample_endpoint tg RecordTypeA ''sub.example.com'')" "tg \<noteq> []"
    by (auto simp: sample_desired)
  then show "record_admitted None r" "rs_Name (rec_Spec r) = ''a.sub.example.com''"
    using sample_record_admitted by (simp_all add: base_record_def sample_endpoint_def sample_names set_ttl_def)
qed

lemma sample_ready:
  assumes "BuildPlan sample_translator sample_changes = Inr p"
  shows "ready_for sample_translator (set (pl_Create p) \<union> set (pl_Patch p)) (set (pl_Patch p)) (keyed (ext (empty_world Map.empty)))"
  using sample_plan_records [OF assms] sample_plan_patches [OF assms]
  unfolding ready_for_def by (simp add: keyed_def empty_world_def)

theorem applyChanges_refines_witness:
  "\<exists>p w'. BuildPlan sample_translator sample_changes = Inr p \<and>
    run_state (applyChanges kube_records sample_translator (BodyJSON sample_changes)) (empty_world Map.empty) = (NoContent, w') \<and>
    published sample_translator (keyed (ext w')) = plan_effect id p (published sample_translator (keyed Map.empty))"
proof -
  obtain p where p: "BuildPlan sample_translator sample_changes = Inr p" using sample_plan_made by blast
  with applyChanges_refines [where objs = keyed and w = "empty_world Map.empty", OF kube_records_laws p sample_ready [OF p]] show ?thesis
    by (simp add: empty_world_def)
qed

theorem applyChanges_deletes_last_witness:
  "\<exists>p es ds. BuildPlan sample_translator sample_changes = Inr p \<and>
     trace (snd (run_state (applyChanges kube_records sample_translator (BodyJSON sample_changes)) (empty_world Map.empty))) = es @ ds \<and>
     list_all is_delete ds \<and> (\<forall>r \<in> set (pl_Create p). create_sent kube_records r es)"
proof -
  obtain p where p: "BuildPlan sample_translator sample_changes = Inr p" using sample_plan_made by blast
  obtain w' where run: "run_state (applyChanges kube_records sample_translator (BodyJSON sample_changes)) (empty_world Map.empty) = (NoContent, w')"
    using apply_plan_refines [where objs = keyed and w = "empty_world Map.empty", OF kube_records_laws plan_records_own [OF p] sample_ready [OF p]] p
    by (auto simp: applyChanges_def decode_def)
  from applyChanges_deletes_last [OF run] show ?thesis unfolding run using p by (auto simp: empty_world_def)
qed

text \<open>
  (C39) Creating an endpoint whose Record is still being deleted is answered with success, if the API server admits the
  Record at all, although only the dying object is patched: the Record is not published, and is gone once its finalizer is released.
\<close>

theorem terminating_record_lost:
  assumes "record_store_laws kc objs dflt" and "Desired t ep tg = Inr r"
    and "objs (ext w) (meta_key (rec_meta r)) = Some cur" and "terminating cur" and "record_admitted (Some cur) r"
  shows "\<exists>w'. run_state (applyChanges kc t (BodyJSON
      \<lparr>ch_Create = [Some (ep\<lparr>ep_Targets := [tg]\<rparr>)], ch_UpdateOld = [], ch_UpdateNew = [], ch_Delete = []\<rparr>)) w = (NoContent, w') \<and>
    published t (objs (ext w')) (om_Name (rec_meta r)) = None"
proof -
  have plan: "BuildPlan t \<lparr>ch_Create = [Some (ep\<lparr>ep_Targets := [tg]\<rparr>)], ch_UpdateOld = [], ch_UpdateNew = [], ch_Delete = []\<rparr> =
      Inr \<lparr>pl_Create = [r], pl_Patch = [], pl_Delete = []\<rparr>"
    using assms(2) by (simp add: BuildPlan_def plan_create_def desired_or_reject_def Desired_targets and_then_def follow_def)
  have own: "own_record t r" using assms(2) by (rule own_record_Desired)
  obtain w' where w': "run_state (create_record kc r) w = (Inr (), w')" "writes_record objs dflt r True (Inr () :: go_error + unit, w') w"
    using create_record_step [OF assms(1) own, of w] assms(3-5) by (cases "run_state (create_record kc r) w") (auto simp: record_admitted_iff)
  then have "published t (objs (ext w')) (om_Name (rec_meta r)) = None"
    by (auto simp: writes_record_def own_record_key [OF own] published_def)
  with w'(1) plan show ?thesis
    by (auto simp: applyChanges_def decode_def apply_plan_def run_or_return)
qed

theorem terminating_record_lost_witness:
  "\<exists>w :: record_store world. \<exists>w'. run_state (applyChanges kube_records sample_translator (BodyJSON
      \<lparr>ch_Create = [Some (sample_endpoint\<lparr>ep_Targets := [''10.0.0.1'']\<rparr>)], ch_UpdateOld = [], ch_UpdateNew = [], ch_Delete = []\<rparr>)) w = (NoContent, w')"
proof -
  define r where "r = set_ttl 300 (base_record sample_translator sample_endpoint ''10.0.0.1'' RecordTypeA ''sub.example.com'')"
  have r: "Desired sample_translator sample_endpoint ''10.0.0.1'' = Inr r" by (simp add: sample_desired r_def)
  define cur where "cur = r\<lparr>rec_meta := (rec_meta r)\<lparr>om_DeletionTimestamp := Some 1\<rparr>\<rparr>"
  let ?w = "empty_world [meta_key (rec_meta r) \<mapsto> cur]"
  have "keyed (ext ?w) (meta_key (rec_meta r)) = Some cur" "terminating cur" "record_admitted (Some cur) r"
    using sample_record_admitted [of "''10.0.0.1''"]
    by (simp_all add: keyed_def empty_world_def cur_def meta_key_def terminating_def record_admitted_iff r_def)
  from terminating_record_lost [where kc = kube_records and objs = keyed and dflt = id and w = ?w, OF kube_records_laws r this] show ?thesis by blast
qed

end
