(* ===== verification/Go_Flag.thy ===== *)
theory Go_Flag
  imports Api_Errors
begin

text \<open>
  Go's package \<^verbatim>\<open>flag\<close>, as far as the commands of the repository use it: a set of named flags, each with a
  \<^verbatim>\<open>Set\<close> method that changes the variables the flags are bound to, and \<^verbatim>\<open>FlagSet.Parse\<close> with
  \<^verbatim>\<open>ContinueOnError\<close>. The variables are the state \<open>'c\<close>.
\<close>

section \<open>Flags\<close>

record 'c go_flag =
  fl_IsBoolFlag :: bool
  fl_Set :: "string \<Rightarrow> 'c \<Rightarrow> go_error + 'c"

type_synonym 'c flag_set = "(string \<times> 'c go_flag) list"

definition StringVar :: "(string \<Rightarrow> 'c \<Rightarrow> 'c) \<Rightarrow> 'c go_flag" where
  "StringVar upd = \<lparr>fl_IsBoolFlag = False, fl_Set = (\<lambda>v c. Inr (upd v c))\<rparr>"

definition ParseBool :: "string \<Rightarrow> bool option" where
  "ParseBool s =
     (if s \<in> {''1'', ''t'', ''T'', ''TRUE'', ''true'', ''True''} then Some True
      else if s \<in> {''0'', ''f'', ''F'', ''FALSE'', ''false'', ''False''} then Some False
      else None)"

definition BoolVar :: "(bool \<Rightarrow> 'c \<Rightarrow> 'c) \<Rightarrow> 'c go_flag" where
  "BoolVar upd = \<lparr>fl_IsBoolFlag = True, fl_Set = (\<lambda>v c. case ParseBool v of
     None \<Rightarrow> Inl (ErrorText ''parse error'') | Some b \<Rightarrow> Inr (upd b c))\<rparr>"

subsection \<open>Durations\<close>

text \<open>
  \<^verbatim>\<open>time.ParseDuration\<close> on naturals below 2^64. The only floating point of it, the nanoseconds of a fraction
  \<open>f / scale\<close> of a unit, is the parameter \<open>frac f unit scale\<close>.
\<close>

definition leadingInt :: "string \<Rightarrow> nat option \<times> string" where
  "leadingInt s =
     (fold (\<lambda>c acc. case acc of None \<Rightarrow> None | Some x \<Rightarrow>
         if 2 ^ 63 div 10 < x then None
         else let y = x * 10 + (char_code c - 48) in if 2 ^ 63 < y then None else Some y)
       (takeWhile is_digit s) (Some 0),
      dropWhile is_digit s)"

definition leadingFraction :: "string \<Rightarrow> nat \<times> nat \<times> string" where
  "leadingFraction s =
     (case fold (\<lambda>c (x, scale, overflow).
         if overflow \<or> (2 ^ 63 - 1) div 10 < x then (x, scale, True)
         else let y = x * 10 + (char_code c - 48) in if 2 ^ 63 < y then (x, scale, True) else (y, scale * 10, False))
       (takeWhile is_digit s) (0, 1, False) of (x, scale, _) \<Rightarrow> (x, scale, dropWhile is_digit s))"

definition unitMap :: "string \<rightharpoonup> nat" where
  "unitMap = map_of [(''ns'', 1), (''us'', 10 ^ 3), ([CHR 0xC2, CHR 0xB5, CHR ''s''], 10 ^ 3), ([CHR 0xCE, CHR 0xBC, CHR ''s''], 10 ^ 3),
     (''ms'', 10 ^ 6), (''s'', 10 ^ 9), (''m'', 60 * 10 ^ 9), (''h'', 3600 * 10 ^ 9)]"

definition number_char :: "char \<Rightarrow> bool" where
  "number_char c \<longleftrightarrow> c = CHR ''.'' \<or> is_digit c"

text \<open>One number with its unit: its nanoseconds and what is left.\<close>

definition duration_term :: "(nat \<Rightarrow> nat \<Rightarrow> nat \<Rightarrow> nat) \<Rightarrow> string \<Rightarrow> (nat \<times> string) option" where
  "duration_term frac s =
     (if s = [] \<or> \<not> number_char (hd s) then None
      else case leadingInt s of
        (None, _) \<Rightarrow> None
      | (Some v, s1) \<Rightarrow>
          (let (f, scale, s2) = (if s1 \<noteq> [] \<and> hd s1 = CHR ''.'' then leadingFraction (tl s1) else (0, 1, s1));
               pre = (length s1 \<noteq> length s); post = (s1 \<noteq> [] \<and> hd s1 = CHR ''.'' \<and> length s2 \<noteq> length (tl s1));
               u = takeWhile (\<lambda>c. \<not> number_char c) s2; rest = dropWhile (\<lambda>c. \<not> number_char c) s2
           in if \<not> pre \<and> \<not> post \<or> u = [] then None
              else case unitMap u of
                None \<Rightarrow> None
              | Some unit \<Rightarrow>
                  if 2 ^ 63 div unit < v then None
                  else let n = v * unit + (if 0 < f then frac f unit scale else 0)
                       in if 2 ^ 63 < n then None else Some (n, rest)))"

lemma duration_term_shorter:
  assumes "duration_term frac s = Some (n, rest)"
  shows "length rest < length s"
proof -
  have drop: "length (dropWhile P xs) \<le> length xs" for P and xs :: string by (rule length_dropWhile_le)
  have "length (snd (snd (leadingFraction t))) \<le> length t" for t
    by (simp add: leadingFraction_def drop split: prod.split)
  moreover have "length (snd (leadingInt t)) \<le> length t" for t by (simp add: leadingInt_def drop)
  moreover have unit: "length (dropWhile P xs) < length xs" if "takeWhile (\<lambda>c. P c) xs \<noteq> []" for P and xs :: string
    using that by (metis length_append length_greater_0_conv less_add_same_cancel2 takeWhile_dropWhile_id)
  ultimately show ?thesis
    using assms
    by (auto simp: duration_term_def Let_def split: if_splits option.splits prod.splits)
      (metis (no_types, lifting) drop le_trans length_tl diff_le_self less_le_trans snd_conv unit)+
qed

function duration_terms :: "(nat \<Rightarrow> nat \<Rightarrow> nat \<Rightarrow> nat) \<Rightarrow> string \<Rightarrow> nat \<Rightarrow> nat option" where
  "duration_terms frac s d =
     (if s = [] then Some d
      else case duration_term frac s of
        None \<Rightarrow> None
      | Some (v, rest) \<Rightarrow> let d = (d + v) mod 2 ^ 64 in if 2 ^ 63 < d then None else duration_terms frac rest d)"
  by pat_completeness auto

termination by (relation "measure (\<lambda>(_, s, _). length s)") (auto dest: duration_term_shorter)

declare duration_terms.simps [simp del]

definition ParseDuration :: "(nat \<Rightarrow> nat \<Rightarrow> nat \<Rightarrow> nat) \<Rightarrow> string \<Rightarrow> int option" where
  "ParseDuration frac orig =
     (let neg = (orig \<noteq> [] \<and> hd orig = CHR ''-'');
          s = (if orig \<noteq> [] \<and> (hd orig = CHR ''-'' \<or> hd orig = CHR ''+'') then tl orig else orig)
      in if s = ''0'' then Some 0
         else if s = [] then None
         else case duration_terms frac s 0 of
           None \<Rightarrow> None
         | Some d \<Rightarrow> if neg then Some (- int d) else if 2 ^ 63 - 1 < d then None else Some (int d))"

definition DurationVar :: "(nat \<Rightarrow> nat \<Rightarrow> nat \<Rightarrow> nat) \<Rightarrow> (int \<Rightarrow> 'c \<Rightarrow> 'c) \<Rightarrow> 'c go_flag" where
  "DurationVar frac upd = \<lparr>fl_IsBoolFlag = False, fl_Set = (\<lambda>v c. case ParseDuration frac v of
     None \<Rightarrow> Inl (ErrorText ''parse error'') | Some d \<Rightarrow> Inr (upd d c))\<rparr>"

section \<open>Parsing\<close>

text \<open>The name of a flag ends at the first equals sign after its first byte.\<close>

definition cut_value :: "string \<Rightarrow> string \<times> string option" where
  "cut_value name =
     (case Cut (tl name) CHR ''='' of (before, after, found) \<Rightarrow>
        if found then (hd name # before, Some after) else (name, None))"

definition set_flag :: "string \<Rightarrow> string \<Rightarrow> 'c go_flag \<Rightarrow> 'c \<Rightarrow> string \<Rightarrow> go_error + 'c" where
  "set_flag pre post fl c v =
     (case fl_Set fl v c of Inl err \<Rightarrow> Inl (ErrorText (pre @ post @ '': '' @ Error err)) | Inr c' \<Rightarrow> Inr c')"

text \<open>
  \<^verbatim>\<open>parseOne\<close>: \<open>Inr None\<close> ends the flags, with the arguments that are left; otherwise the flag's new
  variables and the arguments after it.
\<close>

definition apply_flag :: "string \<Rightarrow> 'c go_flag \<Rightarrow> string option \<Rightarrow> string list \<Rightarrow> 'c \<Rightarrow> go_error + 'c \<times> string list" where
  "apply_flag name fl v args c =
     (if fl_IsBoolFlag fl then
        (case v of
           Some s \<Rightarrow> map_sum id (\<lambda>c'. (c', args)) (set_flag (''invalid boolean value '' @ Quote s @ '' for -'') name fl c s)
         | None \<Rightarrow> map_sum id (\<lambda>c'. (c', args)) (set_flag ''invalid boolean flag '' name fl c ''true''))
      else
        (case (v, args) of
           (Some s, _) \<Rightarrow> map_sum id (\<lambda>c'. (c', args)) (set_flag (''invalid value '' @ Quote s @ '' for flag -'') name fl c s)
         | (None, s # rest) \<Rightarrow> map_sum id (\<lambda>c'. (c', rest)) (set_flag (''invalid value '' @ Quote s @ '' for flag -'') name fl c s)
         | (None, []) \<Rightarrow> Inl (ErrorText (''flag needs an argument: -'' @ name))))"

definition parse_named :: "'c flag_set \<Rightarrow> string \<Rightarrow> string \<Rightarrow> string list \<Rightarrow> 'c \<Rightarrow> go_error + 'c \<times> string list" where
  "parse_named formal s body args c =
     (if body = [] \<or> hd body = CHR ''-'' \<or> hd body = CHR ''='' then Inl (ErrorText (''bad flag syntax: '' @ s))
      else case cut_value body of (name, v) \<Rightarrow>
        (case map_of formal name of
           None \<Rightarrow> if name = ''help'' \<or> name = ''h'' then Inl ErrHelp
                   else Inl (ErrorText (''flag provided but not defined: -'' @ name))
         | Some fl \<Rightarrow> apply_flag name fl v args c))"

definition parseOne :: "'c flag_set \<Rightarrow> string list \<Rightarrow> 'c \<Rightarrow> go_error + ('c \<times> string list) option \<times> string list" where
  "parseOne formal args c =
     (case args of
        [] \<Rightarrow> Inr (None, [])
      | s # rest \<Rightarrow>
          if length s < 2 \<or> hd s \<noteq> CHR ''-'' then Inr (None, args)
          else if s = ''--'' then Inr (None, rest)
          else map_sum id (\<lambda>st. (Some st, [])) (parse_named formal s (if s ! 1 = CHR ''-'' then drop 2 s else tl s) rest c))"

lemma parse_named_args: "parse_named formal s body args c = Inr (c', args') \<Longrightarrow> length args' \<le> length args"
  by (auto simp: parse_named_def apply_flag_def split: if_splits prod.splits option.splits list.splits)
    (auto simp: map_sum_def split: sum.splits)

lemma parseOne_args: "parseOne formal args c = Inr (Some (c', args'), r) \<Longrightarrow> length args' < length args"
  by (cases args)
    (auto simp: parseOne_def map_sum_def less_Suc_eq_le dest: parse_named_args split: if_splits sum.splits)

text \<open>\<^verbatim>\<open>FlagSet.Parse\<close>: the variables after all flags, with the arguments that are no flags.\<close>

function Parse :: "'c flag_set \<Rightarrow> string list \<Rightarrow> 'c \<Rightarrow> go_error + 'c \<times> string list" where
  "Parse formal args c =
     (case parseOne formal args c of
        Inl err \<Rightarrow> Inl err
      | Inr (None, rest) \<Rightarrow> Inr (c, rest)
      | Inr (Some (c', args'), _) \<Rightarrow> Parse formal args' c')"
  by pat_completeness auto

termination by (relation "measure (\<lambda>(_, args, _). length args)") (auto dest: parseOne_args)

declare Parse.simps [simp del]

text \<open>The exit status of a process whose \<^verbatim>\<open>flag.CommandLine\<close> fails to parse (\<^verbatim>\<open>ExitOnError\<close>).\<close>

definition exit_on_error :: "go_error \<Rightarrow> int" where
  "exit_on_error err = (if err = ErrHelp then 0 else 2)"

section \<open>Lemmas\<close>

lemma Parse_Nil [simp]: "Parse formal [] c = Inr (c, [])"
  by (simp add: Parse.simps parseOne_def)

text \<open>An argument \<^verbatim>\<open>--name=value\<close> of a flag that takes a value.\<close>

lemma Parse_assign:
  assumes "map_of formal name = Some fl" and "\<not> fl_IsBoolFlag fl" and "fl_Set fl v c = Inr c'"
    and "name \<noteq> []" and "hd name \<noteq> CHR ''-''" and "CHR ''='' \<notin> set name"
  shows "Parse formal ((''--'' @ name @ CHR ''='' # v) # args) c = Parse formal args c'"
proof -
  obtain a as where name: "name = a # as" using assms(4) by (cases name) auto
  have "cut_value (name @ CHR ''='' # v) = (name, Some v)"
    using assms(6) by (simp add: cut_value_def name Cut_append)
  then have "parse_named formal s (name @ CHR ''='' # v) args c = Inr (c', args)" for s
    using assms by (auto simp: parse_named_def apply_flag_def set_flag_def name)
  then have "parseOne formal ((''--'' @ name @ CHR ''='' # v) # args) c = Inr (Some (c', args), [])"
    by (simp add: parseOne_def name)
  then show ?thesis by (subst Parse.simps) simp
qed


end
