(* ===== verification/External_DNS_Run.thy ===== *)
theory External_DNS_Run
  imports External_DNS_Server Go_Flag
begin

text \<open>
  The \<^verbatim>\<open>external-dns-webhook\<close> subcommand (\<^verbatim>\<open>internal/externaldns/run.go\<close>): its command line, the
  translator it serves with, and how it ends. The environment of the process, the Kubernetes client's
  construction, the two HTTP servers and the flags of the zap logger are parameters.
\<close>

section \<open>The command line\<close>

definition namespaceFile :: string where
  "namespaceFile = ''/var/run/secrets/kubernetes.io/serviceaccount/namespace''"

record config =
  cfg_ServerRef :: string
  cfg_Zones :: "string list"
  cfg_Namespace :: string
  cfg_OwnerID :: string
  cfg_Listen :: string
  cfg_HealthListen :: string

record process_env =
  pe_Getenv :: "string \<Rightarrow> string"
  pe_ReadFile :: "string \<Rightarrow> go_error + string"

definition defaultNamespace :: "process_env \<Rightarrow> string" where
  "defaultNamespace env =
     (let ns = pe_Getenv env ''POD_NAMESPACE''
      in if ns \<noteq> [] then ns
         else case pe_ReadFile env namespaceFile of Inr b \<Rightarrow> TrimSpace b | Inl _ \<Rightarrow> [])"

text \<open>
  The variables the flags are bound to: the configuration, the list of \<^verbatim>\<open>--zone\<close> values, and the
  options \<open>'z\<close> of the logger, whose flags \<^verbatim>\<open>BindFlags\<close> adds under names of their own.
\<close>

record 'z flag_vars =
  fv_cfg :: config
  fv_zones :: "string list"
  fv_opts :: 'z

definition stringList_Set :: "string \<Rightarrow> string list \<Rightarrow> go_error + string list" where
  "stringList_Set v s = Inr (s @ [v])"

definition cfg_flag :: "(string \<Rightarrow> config \<Rightarrow> config) \<Rightarrow> 'z flag_vars go_flag" where
  "cfg_flag upd = StringVar (\<lambda>v c. c\<lparr>fv_cfg := upd v (fv_cfg c)\<rparr>)"

definition zone_flag :: "'z flag_vars go_flag" where
  "zone_flag = \<lparr>fl_IsBoolFlag = False, fl_Set = (\<lambda>v c. map_sum id (\<lambda>zs. c\<lparr>fv_zones := zs\<rparr>) (stringList_Set v (fv_zones c)))\<rparr>"

definition opts_flag :: "'z go_flag \<Rightarrow> 'z flag_vars go_flag" where
  "opts_flag fl = \<lparr>fl_IsBoolFlag = fl_IsBoolFlag fl, fl_Set = (\<lambda>v c. map_sum id (\<lambda>z. c\<lparr>fv_opts := z\<rparr>) (fl_Set fl v (fv_opts c)))\<rparr>"

definition webhook_flags :: "'z flag_set \<Rightarrow> 'z flag_vars flag_set" where
  "webhook_flags zap =
     [(''server-ref'', cfg_flag (\<lambda>v c. c\<lparr>cfg_ServerRef := v\<rparr>)), (''zone'', zone_flag),
      (''namespace'', cfg_flag (\<lambda>v c. c\<lparr>cfg_Namespace := v\<rparr>)), (''owner-id'', cfg_flag (\<lambda>v c. c\<lparr>cfg_OwnerID := v\<rparr>)),
      (''listen'', cfg_flag (\<lambda>v c. c\<lparr>cfg_Listen := v\<rparr>)), (''health-listen'', cfg_flag (\<lambda>v c. c\<lparr>cfg_HealthListen := v\<rparr>))]
     @ map (\<lambda>(n, fl). (n, opts_flag fl)) zap"

definition default_config :: "process_env \<Rightarrow> config" where
  "default_config env = \<lparr>cfg_ServerRef = [], cfg_Zones = [], cfg_Namespace = defaultNamespace env, cfg_OwnerID = ''default'',
     cfg_Listen = ''127.0.0.1:8888'', cfg_HealthListen = '':8080''\<rparr>"

definition ParseFlags :: "process_env \<Rightarrow> 'z flag_set \<Rightarrow> 'z \<Rightarrow> string list \<Rightarrow> go_error + config \<times> 'z" where
  "ParseFlags env zap opts args =
     (case Parse (webhook_flags zap) args \<lparr>fv_cfg = default_config env, fv_zones = [], fv_opts = opts\<rparr> of
        Inl err \<Rightarrow> Inl err
      | Inr (vars, _) \<Rightarrow>
          (let cfg = (fv_cfg vars)\<lparr>cfg_Zones := fv_zones vars\<rparr>
           in if cfg_ServerRef cfg = [] then Inl (ErrorText ''--server-ref is required'')
              else if cfg_Zones cfg = [] then Inl (ErrorText ''at least one --zone is required'')
              else if cfg_Namespace cfg = [] then Inl (ErrorText ''--namespace is required when it cannot be detected'')
              else Inr (cfg\<lparr>cfg_Zones := map normalizeName (cfg_Zones cfg)\<rparr>, fv_opts vars)))"

section \<open>Running\<close>

text \<open>
  What \<^verbatim>\<open>Run\<close> needs of the outside: the configuration of the Kubernetes client, without which
  \<^verbatim>\<open>GetConfigOrDie\<close> ends the process, building the client, the select on the servers' errors and the
  context (\<open>None\<close> is a cancelled context), and shutting a server down. A server is its address and
  handler.
\<close>

datatype http_handler = WebhookAPI translator | HealthMux

record http_server =
  hs_Addr :: string
  hs_Handler :: http_handler
  hs_ReadHeaderTimeout :: int

record 's run_env =
  re_process :: process_env
  re_GetConfigOrDie :: "'s \<Rightarrow> bool \<times> 's"
  re_NewClient :: "'s \<Rightarrow> (go_error + unit) \<times> 's"
  re_Select :: "http_server list \<Rightarrow> 's \<Rightarrow> go_error option \<times> 's"
  re_Shutdown :: "http_server \<Rightarrow> 's \<Rightarrow> 's"

datatype run_end = RunReturned "go_error option" | RunExited int

definition run_translator :: "config \<Rightarrow> translator" where
  "run_translator cfg = \<lparr>tl_Namespace = cfg_Namespace cfg, tl_ServerRef = cfg_ServerRef cfg, tl_OwnerID = cfg_OwnerID cfg,
     tl_Zones = cfg_Zones cfg\<rparr>"

definition run_servers :: "config \<Rightarrow> http_server list" where
  "run_servers cfg =
     [\<lparr>hs_Addr = cfg_Listen cfg, hs_Handler = WebhookAPI (run_translator cfg), hs_ReadHeaderTimeout = 10\<rparr>,
      \<lparr>hs_Addr = cfg_HealthListen cfg, hs_Handler = HealthMux, hs_ReadHeaderTimeout = 10\<rparr>]"

definition select_result :: "go_error option \<Rightarrow> go_error option" where
  "select_result got = (case got of Some err \<Rightarrow> if errors_Is err ErrServerClosed then None else Some err | None \<Rightarrow> None)"

definition Run :: "'s run_env \<Rightarrow> 'z flag_set \<Rightarrow> 'z \<Rightarrow> string list \<Rightarrow> 's \<Rightarrow> run_end \<times> 's" where
  "Run env zap opts args s =
     (case ParseFlags (re_process env) zap opts args of
        Inl err \<Rightarrow> (RunReturned (Some err), s)
      | Inr (cfg, _) \<Rightarrow>
          (case re_GetConfigOrDie env s of
             (False, s) \<Rightarrow> (RunExited 1, s)
           | (True, s) \<Rightarrow>
               (case re_NewClient env s of
                  (Inl err, s) \<Rightarrow> (RunReturned (Some (ErrorWrap ''building Kubernetes client: '' err [])), s)
                | (Inr _, s) \<Rightarrow>
                    (let (got, s) = re_Select env (run_servers cfg) s
                     in (RunReturned (select_result got), fold (re_Shutdown env) (run_servers cfg) s)))))"

section \<open>Lemmas\<close>

lemma map_of_webhook_flags:
  "map_of (webhook_flags zap) ''server-ref'' = Some (cfg_flag (\<lambda>v c. c\<lparr>cfg_ServerRef := v\<rparr>))"
  "map_of (webhook_flags zap) ''zone'' = Some zone_flag"
  "map_of (webhook_flags zap) ''namespace'' = Some (cfg_flag (\<lambda>v c. c\<lparr>cfg_Namespace := v\<rparr>))"
  "map_of (webhook_flags zap) ''owner-id'' = Some (cfg_flag (\<lambda>v c. c\<lparr>cfg_OwnerID := v\<rparr>))"
  "map_of (webhook_flags zap) ''listen'' = Some (cfg_flag (\<lambda>v c. c\<lparr>cfg_Listen := v\<rparr>))"
  "map_of (webhook_flags zap) ''health-listen'' = Some (cfg_flag (\<lambda>v c. c\<lparr>cfg_HealthListen := v\<rparr>))"
  by (simp_all add: webhook_flags_def)

definition flag_arg :: "string \<Rightarrow> string \<Rightarrow> string" where
  "flag_arg name v = ''--'' @ name @ CHR ''='' # v"

lemma Parse_cfg_flag:
  assumes "map_of (webhook_flags zap) name = Some (cfg_flag upd)" and "name \<noteq> []" "hd name \<noteq> CHR ''-''" "CHR ''='' \<notin> set name"
  shows "Parse (webhook_flags zap) (flag_arg name v # args) c = Parse (webhook_flags zap) args (c\<lparr>fv_cfg := upd v (fv_cfg c)\<rparr>)"
  unfolding flag_arg_def
  by (rule Parse_assign [OF assms(1) _ _ assms(2-4)]) (simp_all add: cfg_flag_def StringVar_def)

lemma Parse_zone_flags:
  "Parse (webhook_flags zap) (map (flag_arg ''zone'') zs @ args) c = Parse (webhook_flags zap) args (c\<lparr>fv_zones := fv_zones c @ zs\<rparr>)"
proof (induction zs arbitrary: c)
  case (Cons z zs)
  have "Parse (webhook_flags zap) (flag_arg ''zone'' z # rest) c = Parse (webhook_flags zap) rest (c\<lparr>fv_zones := fv_zones c @ [z]\<rparr>)" for rest
    unfolding flag_arg_def
    by (rule Parse_assign [OF map_of_webhook_flags(2)]) (simp_all add: zone_flag_def stringList_Set_def)
  then show ?case using Cons by simp
qed simp

text \<open>The command line of a configuration, one argument per value.\<close>

definition config_args :: "config \<Rightarrow> string list" where
  "config_args cfg =
     flag_arg ''server-ref'' (cfg_ServerRef cfg) # map (flag_arg ''zone'') (cfg_Zones cfg) @
     [flag_arg ''namespace'' (cfg_Namespace cfg), flag_arg ''owner-id'' (cfg_OwnerID cfg),
      flag_arg ''listen'' (cfg_Listen cfg), flag_arg ''health-listen'' (cfg_HealthListen cfg)]"

lemma Parse_config_args:
  "Parse (webhook_flags zap) (config_args cfg) c =
     Inr (c\<lparr>fv_cfg := cfg\<lparr>cfg_Zones := cfg_Zones (fv_cfg c)\<rparr>, fv_zones := fv_zones c @ cfg_Zones cfg\<rparr>, [])"
  by (simp add: config_args_def Parse_zone_flags Parse_cfg_flag [OF map_of_webhook_flags(1)] Parse_cfg_flag [OF map_of_webhook_flags(3)]
      Parse_cfg_flag [OF map_of_webhook_flags(4)] Parse_cfg_flag [OF map_of_webhook_flags(5)] Parse_cfg_flag [OF map_of_webhook_flags(6)])

text \<open>
  Round trip of the command line: parsing the arguments written from a configuration with a server
  reference, zones and a namespace gives that configuration back, with its zones normalized and in order, whatever
  the environment says, and leaves the logger's options alone.
\<close>

theorem ParseFlags_roundtrip:
  assumes "cfg_ServerRef cfg \<noteq> []" and "cfg_Zones cfg \<noteq> []" and "cfg_Namespace cfg \<noteq> []"
  shows "ParseFlags env zap opts (config_args cfg) = Inr (cfg\<lparr>cfg_Zones := map normalizeName (cfg_Zones cfg)\<rparr>, opts)"
  using assms by (simp add: ParseFlags_def Parse_config_args)

definition sample_config :: config where
  "sample_config = \<lparr>cfg_ServerRef = ''dns'', cfg_Zones = [''example.com'', ''sub.example.com''], cfg_Namespace = ''ns'', cfg_OwnerID = ''me'',
     cfg_Listen = ''127.0.0.1:8888'', cfg_HealthListen = '':8080''\<rparr>"

definition empty_env :: process_env where
  "empty_env = \<lparr>pe_Getenv = (\<lambda>_. []), pe_ReadFile = (\<lambda>_. Inl (ErrorText ''no such file''))\<rparr>"

theorem ParseFlags_roundtrip_witness:
  "ParseFlags empty_env [] () (config_args sample_config) = Inr (sample_config\<lparr>cfg_Zones := map normalizeName [''example.com'', ''sub.example.com'']\<rparr>, ())"
  using ParseFlags_roundtrip [of sample_config empty_env "[]" "()"] by (simp add: sample_config_def)

lemma ParseFlags_accepted:
  assumes "ParseFlags env zap opts args = Inr (cfg, opts')"
  shows "cfg_ServerRef cfg \<noteq> [] \<and> cfg_Zones cfg \<noteq> [] \<and> cfg_Namespace cfg \<noteq> []"
  using assms by (auto simp: ParseFlags_def Let_def split: sum.splits if_splits)

text \<open>However the command ends after its servers were started, both have been shut down.\<close>

lemma Run_shuts_down:
  assumes "ParseFlags (re_process env) zap opts args = Inr (cfg, opts')" 
    and "re_GetConfigOrDie env s = (True, s1)" and "re_NewClient env s1 = (Inr u, s2)"
    and "re_Select env (run_servers cfg) s2 = (got, s3)"
  shows "Run env zap opts args s = (RunReturned (select_result got), fold (re_Shutdown env) (run_servers cfg) s3)"
  by (simp add: Run_def assms)

text \<open>
  (C14) Under an accepted command line every Record built from an endpoint passes the admission webhook of
  Records and is in the ranges of its resource definition: a supported type, a priority exactly for MX and
  below 2^16, a TTL from 1 to the largest 32-bit number when the endpoint has one, and a zone that is
  configured and contains the name.
\<close>

theorem Desired_admitted:
  assumes "ParseFlags env zap opts args = Inr (cfg, opts')" and "Desired (run_translator cfg) ep target = Inr rec"
  defines "t \<equiv> run_translator cfg" and "spec \<equiv> rec_Spec rec"
  shows "RecordCustomValidator_ValidateCreate rec = Allowed \<and>
    rs_Type spec \<in> set record_types \<and>
    (case rs_Priority spec of None \<Rightarrow> rs_Type spec \<noteq> RecordTypeMX | Some p \<Rightarrow> rs_Type spec = RecordTypeMX \<and> 0 \<le> p \<and> p < 2 ^ 16) \<and>
    (case rs_TTL spec of None \<Rightarrow> ep_RecordTTL ep \<le> 0 | Some ttl \<Rightarrow> 1 \<le> ttl \<and> ttl < 2 ^ 31 \<and> ttl = min (ep_RecordTTL ep) (2 ^ 31 - 1)) \<and>
    rs_Zone spec \<in> normalizeName ` set (tl_Zones t) \<and> in_zone (normalizeName (rs_Name spec)) (rs_Zone spec)"
proof -
  have ref: "tl_ServerRef t \<noteq> []" using ParseFlags_accepted [OF assms(1)] by (simp add: t_def run_translator_def)
  have zone: "zone \<in> normalizeName ` set (tl_Zones t) \<and> in_zone (normalizeName n) zone"
    if "ZoneFor t n = (zone, True)" for n zone
    using that fold_longest [of "in_zone (normalizeName n)" "map normalizeName (tl_Zones t)" "[]"]
    unfolding ZoneFor_eq Let_def by auto
  from assms(2) [folded t_def] show ?thesis
  proof (cases rule: Desired_cases)
    case (1 zone)
    then show ?thesis
      using ref zone [OF 1(1)]
      by (simp add: spec_def RecordCustomValidator_ValidateCreate_def validateRecordSpec_def server_ref_errors_def report_if_def
          min_less_iff_disj)
  next
    case (2 zone prio host)
    then show ?thesis
      using ref zone [OF 2(1)] ParseMX_range [OF 2(3)]
      by (simp add: spec_def RecordCustomValidator_ValidateCreate_def validateRecordSpec_def server_ref_errors_def report_if_def
          record_types_def min_less_iff_disj)
  qed
qed

theorem Desired_admitted_witness:
  "RecordCustomValidator_ValidateCreate
     (set_ttl 300 (base_record sample_translator sample_endpoint ''10.0.0.1'' RecordTypeA ''sub.example.com'')) = Allowed"
proof -
  have tr: "run_translator sample_config = sample_translator"
    by (simp add: run_translator_def sample_translator_def sample_config_def)
  have cfg: "ParseFlags empty_env [] () (config_args sample_config) = Inr (sample_config, ())"
    by (simp add: ParseFlags_def Parse_config_args Let_def) (simp add: sample_config_def sample_names)
  show ?thesis by (rule conjunct1 [OF Desired_admitted [OF cfg, unfolded tr, OF sample_desired]])
qed

end
