(* ===== verification/Cluster_Nodes.thy ===== *)
theory Cluster_Nodes
  imports Controller_Common Go_Hash
begin

text \<open>
  The TechnitiumCluster reconciler's access to its nodes (\<^verbatim>\<open>technitiumcluster_controller.go\<close>): the
  interfaces \<^verbatim>\<open>bootstrapAPI\<close> and \<^verbatim>\<open>nodeAPI\<close>, the client that logs in on first use, the admin
  credentials, the token bootstrap, and the pods as the controller sees them.

  Every method of \<open>loginNodeClient\<close> satisfies the contract \<open>lazy_login\<close>: with a token it makes
  exactly the wrapped call, without one it logs in first and makes the call only when that
  succeeded.
\<close>

section \<open>Node clients\<close>

record 's bootstrap_api =
  ba_CreateToken :: "string \<Rightarrow> ('s world, go_error + string) state"

record 's node_api =
  na_GetClusterState :: "('s world, go_error + cluster_state) state"
  na_InitCluster :: "init_cluster_options \<Rightarrow> ('s world, go_error + cluster_state) state"
  na_InitJoinCluster :: "init_join_options \<Rightarrow> ('s world, go_error + cluster_state) state"
  na_RemoveSecondary :: "int \<Rightarrow> ('s world, go_error + unit) state"
  na_DeleteSecondary :: "int \<Rightarrow> ('s world, go_error + unit) state"
  na_DeletePrimaryCluster :: "bool \<Rightarrow> ('s world, go_error + unit) state"
  na_UpdateNodeIPAddresses :: "string list \<Rightarrow> ('s world, go_error + cluster_state) state"

definition ensureLoggedIn :: "'s runtime \<Rightarrow> nat \<Rightarrow> ('s world, go_error + unit) state" where
  "ensureLoggedIn rt n = do {
     token \<leftarrow> Token n;
     if token \<noteq> [] then ok ()
     else ignore_result (wrap_error ''logging in to node: '' (Login rt n))
   }"

definition loginNodeClient :: "'s runtime \<Rightarrow> nat \<Rightarrow> 's node_api" where
  "loginNodeClient rt n = \<lparr>
     na_GetClusterState = or_return (ensureLoggedIn rt n) (\<lambda>_. GetClusterState rt n),
     na_InitCluster = (\<lambda>opts. or_return (ensureLoggedIn rt n) (\<lambda>_. InitCluster rt n opts)),
     na_InitJoinCluster = (\<lambda>opts. or_return (ensureLoggedIn rt n) (\<lambda>_. InitJoinCluster rt n opts)),
     na_RemoveSecondary = (\<lambda>i. or_return (ensureLoggedIn rt n) (\<lambda>_. RemoveSecondary rt n i)),
     na_DeleteSecondary = (\<lambda>i. or_return (ensureLoggedIn rt n) (\<lambda>_. DeleteSecondary rt n i)),
     na_DeletePrimaryCluster = (\<lambda>force. or_return (ensureLoggedIn rt n) (\<lambda>_. DeletePrimaryCluster rt n force)),
     na_UpdateNodeIPAddresses = (\<lambda>ips. or_return (ensureLoggedIn rt n) (\<lambda>_. UpdateNodeIPAddresses rt n ips))\<rparr>"

section \<open>The reconciler\<close>

text \<open>
  \<open>cr_Marshal\<close> is \<^verbatim>\<open>json.Marshal\<close> on pod templates, whose error the code drops, and \<open>cr_rand\<close>
  the system's random source, \<^verbatim>\<open>rand.Read\<close> into that many bytes; both are parameters.
\<close>

record 's cluster_reconciler =
  cr_runtime :: "'s runtime"
  cr_clusters :: "('s, technitium_cluster) kclient"
  cr_secrets :: "('s, secret) kclient"
  cr_pods :: "('s, pod) kclient"
  cr_pvcs :: "('s, pvc) kclient"
  cr_services :: "('s, service) kclient"
  cr_statefulSets :: "('s, stateful_set) kclient"
  cr_pdbs :: "('s, pod_disruption_budget) kclient"
  cr_OperatorNamespace :: string
  cr_NewBootstrapClient :: "(string \<Rightarrow> string \<Rightarrow> string \<Rightarrow> ('s world, go_error + 's bootstrap_api) state) option"
  cr_NewNodeClient :: "(string \<Rightarrow> string \<Rightarrow> string \<Rightarrow> ('s world, go_error + 's node_api) state) option"
  cr_StallTimeout :: int
  cr_Now :: "('s world, int) state option"
  cr_Marshal :: "pod_template \<Rightarrow> 8 word list"
  cr_rand :: "nat \<Rightarrow> go_error + 8 word list"

definition hashPodTemplate :: "'s cluster_reconciler \<Rightarrow> pod_template \<Rightarrow> string" where
  "hashPodTemplate r t = EncodeToString (take 8 (sha256 (cr_Marshal r t)))"

definition generatePassword :: "'s cluster_reconciler \<Rightarrow> go_error + string" where
  "generatePassword r = (case cr_rand r 32 of Inl err \<Rightarrow> Inl err | Inr buf \<Rightarrow> Inr (EncodeToString buf))"

definition bootstrapClientFactory ::
  "'s cluster_reconciler \<Rightarrow> string \<Rightarrow> string \<Rightarrow> string \<Rightarrow> ('s world, go_error + 's bootstrap_api) state" where
  "bootstrapClientFactory r endpoint username password =
     (case cr_NewBootstrapClient r of
        Some f \<Rightarrow> f endpoint username password
      | None \<Rightarrow> or_return (NewClient endpoint [WithCredentials username password])
          (\<lambda>c. ok \<lparr>ba_CreateToken = CreateToken (cr_runtime r) c\<rparr>))"

definition nodeClientFactory ::
  "'s cluster_reconciler \<Rightarrow> string \<Rightarrow> string \<Rightarrow> string \<Rightarrow> ('s world, go_error + 's node_api) state" where
  "nodeClientFactory r endpoint username password =
     (case cr_NewNodeClient r of
        Some f \<Rightarrow> f endpoint username password
      | None \<Rightarrow> or_return (NewClient endpoint [WithCredentials username password])
          (\<lambda>c. ok (loginNodeClient (cr_runtime r) c)))"

section \<open>Admin credentials and the token\<close>

definition operatorTokenName :: string where
  "operatorTokenName = ''technitium-operator''"

definition resolveAdminSecret ::
  "'s cluster_reconciler \<Rightarrow> technitium_cluster \<Rightarrow> ('s world, go_error + secret \<times> object_key) state" where
  "resolveAdminSecret r tc =
     (case adminSecretKeyFor tc (cr_OperatorNamespace r) of
        (secretKey, Some err) \<Rightarrow> fail err
      | (secretKey, None) \<Rightarrow>
          or_return (wrap_error (''getting admin secret '' @ key_string secretKey @ '': '') (kget (cr_secrets r) secretKey))
            (\<lambda>secret. ok (secret, secretKey)))"

definition no_key_error :: "object_key \<Rightarrow> string \<Rightarrow> go_error" where
  "no_key_error secretKey key =
     ErrorText (''admin secret '' @ key_string secretKey @ '' has no '' @ Quote key @ '' key'')"

definition adminCredentials ::
  "'s cluster_reconciler \<Rightarrow> technitium_cluster \<Rightarrow> ('s world, go_error + string \<times> string) state" where
  "adminCredentials r tc =
     or_return (resolveAdminSecret r tc) (\<lambda>(secret, secretKey).
       let u = map_get (sec_Data secret) adminSecretUsernameKey;
           p = map_get (sec_Data secret) adminSecretPasswordKey
       in if u = [] then fail (no_key_error secretKey adminSecretUsernameKey)
          else if p = [] then fail (no_key_error secretKey adminSecretPasswordKey)
          else ok (u, p))"

definition ensureToken :: "'s cluster_reconciler \<Rightarrow> technitium_cluster \<Rightarrow> string \<Rightarrow> ('s world, go_error + bool) state" where
  "ensureToken r tc endpoint =
     or_return (resolveAdminSecret r tc) (\<lambda>(secret, secretKey).
       if map_get (sec_Data secret) adminSecretTokenKey \<noteq> [] then ok True
       else
         let username = map_get (sec_Data secret) adminSecretUsernameKey;
             password = map_get (sec_Data secret) adminSecretPasswordKey
         in if username = [] then fail (no_key_error secretKey adminSecretUsernameKey)
            else if password = [] then fail (no_key_error secretKey adminSecretPasswordKey)
            else or_return (wrap_error (''building bootstrap client for '' @ endpoint @ '': '')
                             (bootstrapClientFactory r endpoint username password)) (\<lambda>api. do {
              minted \<leftarrow> ba_CreateToken api operatorTokenName;
              case minted of
                Inl err \<Rightarrow>
                  if errors_Is err ErrInvalidCredentials then
                    fail (ErrorWrap [] errAdminCredentialsRejected
                      ('': the password in admin secret '' @ key_string secretKey @
                       '' does not match the one stored on the data volume, likely because the Secret was regenerated against a retained PVC (restore the original Secret or delete the PVCs): '' @
                       Error err))
                  else ok False
              | Inr token \<Rightarrow>
                  or_return (wrap_error (''writing admin token to secret '' @ key_string secretKey @ '': '')
                    (kupdate (cr_secrets r) (secret\<lparr>sec_Data := map_set adminSecretTokenKey token (sec_Data secret)\<rparr>)))
                    (\<lambda>_. ok True)
            }))"

section \<open>Pods\<close>

record cluster_pod_info =
  pi_ip :: string
  pi_ready :: bool
  pi_revision :: string
  pi_readySince :: "int option"

definition ControllerRevisionHashLabelKey :: string where
  "ControllerRevisionHashLabelKey = ''controller-revision-hash''"

definition pod_info :: "pod \<Rightarrow> cluster_pod_info" where
  "pod_info p =
     (let cond = find (\<lambda>c. pc_Type c = ''Ready'' \<and> pc_Status c = ConditionTrue) (pod_Conditions p)
      in \<lparr>pi_ip = pod_IP p,
          pi_ready = (cond \<noteq> None \<and> pod_IP p \<noteq> []),
          pi_revision = map_get (om_Labels (pod_meta p)) ControllerRevisionHashLabelKey,
          pi_readySince = (case cond of Some c \<Rightarrow> pc_LastTransitionTime c | None \<Rightarrow> None)\<rparr>)"

definition pods_by_ordinal :: "string \<Rightarrow> int \<Rightarrow> pod list \<Rightarrow> int \<Rightarrow> cluster_pod_info option" where
  "pods_by_ordinal clusterName desiredReplicas pods i =
     (if 0 \<le> i \<and> i < desiredReplicas
      then map_option pod_info (map_of (rev (map (\<lambda>p. (om_Name (pod_meta p), p)) pods)) (ordinal_name clusterName i))
      else None)"

definition resolveClusterPods ::
  "'s cluster_reconciler \<Rightarrow> technitium_cluster \<Rightarrow> int \<Rightarrow> ('s world, go_error + (int \<Rightarrow> cluster_pod_info option)) state" where
  "resolveClusterPods r tc desiredReplicas =
     or_return (wrap_error (''listing pods for '' @ tc_Name tc @ '': '')
                 (klist (cr_pods r) (cr_OperatorNamespace r) (instanceLabels (tc_Name tc))))
       (\<lambda>pods. ok (pods_by_ordinal (tc_Name tc) desiredReplicas pods))"

section \<open>Membership\<close>

definition nodeReadyState :: string where
  "nodeReadyState = ''Ready''"

definition nodeNotReadyState :: string where
  "nodeNotReadyState = ''NotReady''"

definition nodeSelfState :: string where
  "nodeSelfState = ''Self''"

definition nodeConnectedState :: string where
  "nodeConnectedState = ''Connected''"

definition roleForOrdinal :: "int \<Rightarrow> string" where
  "roleForOrdinal ordinal = (if ordinal = 0 then ''Primary'' else ''Secondary'')"

definition findClusterMember :: "cluster_node list \<Rightarrow> string \<Rightarrow> cluster_node option" where
  "findClusterMember nodes podName = find (\<lambda>n. HasPrefix (cn_Name n) (podName @ ''.'')) nodes"

definition nodeJoined :: "string \<Rightarrow> bool" where
  "nodeJoined state \<longleftrightarrow> state = nodeReadyState \<or> state = nodeSelfState \<or> state = nodeConnectedState"

section \<open>Lemmas\<close>

text \<open>The contract of a method of the lazily authenticating client.\<close>

locale lazy_login =
  fixes rt :: "'s runtime" and n :: nat
    and guarded :: "('s world, go_error + 'a) state"
    and wrapped :: "('s world, go_error + 'a) state"
  assumes guarded_eq: "guarded = or_return (ensureLoggedIn rt n) (\<lambda>_. wrapped)"
    and wrapped_emits: "emits is_http wrapped"
begin

lemma with_token:
  assumes "cl_token (client_at w n) \<noteq> []"
  shows "run_state guarded w = run_state wrapped w"
  using assms by (simp add: guarded_eq ensureLoggedIn_def Token_def run_simps client_at_def)

lemma login_fails:
  assumes "cl_token (client_at w n) = []" and "run_state (Login rt n) w = (Inl e, w')"
  shows "run_state guarded w = (Inl (ErrorWrap ''logging in to node: '' e []), w')"
  using assms by (simp add: guarded_eq ensureLoggedIn_def Token_def run_simps client_at_def)

lemma login_succeeds:
  assumes "cl_token (client_at w n) = []" and "run_state (Login rt n) w = (Inr t, w')"
  shows "run_state guarded w = run_state wrapped w'"
  using assms by (simp add: guarded_eq ensureLoggedIn_def Token_def run_simps client_at_def)

lemma guarded_emits: "emits is_http guarded"
  unfolding guarded_eq ensureLoggedIn_def Token_def
  by (intro emits_rules emits_return emits_pure emits_Login wrapped_emits)

end

interpretation login_state: lazy_login rt n "na_GetClusterState (loginNodeClient rt n)" "GetClusterState rt n"
  for rt :: "'s runtime" and n by unfold_locales (simp_all add: loginNodeClient_def)

interpretation login_init: lazy_login rt n "na_InitCluster (loginNodeClient rt n) opts" "InitCluster rt n opts"
  for rt :: "'s runtime" and n opts by unfold_locales (simp_all add: loginNodeClient_def)

interpretation login_join: lazy_login rt n "na_InitJoinCluster (loginNodeClient rt n) opts" "InitJoinCluster rt n opts"
  for rt :: "'s runtime" and n opts by unfold_locales (simp_all add: loginNodeClient_def)

interpretation login_remove: lazy_login rt n "na_RemoveSecondary (loginNodeClient rt n) i" "RemoveSecondary rt n i"
  for rt :: "'s runtime" and n i by unfold_locales (simp_all add: loginNodeClient_def)

interpretation login_delete: lazy_login rt n "na_DeleteSecondary (loginNodeClient rt n) i" "DeleteSecondary rt n i"
  for rt :: "'s runtime" and n i by unfold_locales (simp_all add: loginNodeClient_def)

interpretation login_primary: lazy_login rt n "na_DeletePrimaryCluster (loginNodeClient rt n) b" "DeletePrimaryCluster rt n b"
  for rt :: "'s runtime" and n b by unfold_locales (simp_all add: loginNodeClient_def)

interpretation login_update: lazy_login rt n "na_UpdateNodeIPAddresses (loginNodeClient rt n) ips" "UpdateNodeIPAddresses rt n ips"
  for rt :: "'s runtime" and n ips by unfold_locales (simp_all add: loginNodeClient_def)

lemmas emits_login = login_state.guarded_emits login_init.guarded_emits login_join.guarded_emits
  login_remove.guarded_emits login_delete.guarded_emits login_primary.guarded_emits login_update.guarded_emits

lemma emits_resolveAdminSecret: "emits is_kube_read (resolveAdminSecret r tc)"
  unfolding resolveAdminSecret_def by (intro emits_rules emits_return) simp

lemma emits_adminCredentials: "emits is_kube_read (adminCredentials r tc)"
  unfolding adminCredentials_def Let_def by (intro emits_rules emits_return emits_resolveAdminSecret)

lemma emits_resolveClusterPods: "emits is_kube_read (resolveClusterPods r tc n)"
  unfolding resolveClusterPods_def by (intro emits_rules emits_return) simp

text \<open>
  A pod name ends at its first dot, so a member is found under the pod's own name only: the node
  \<^verbatim>\<open>dns-1\<close> is never mistaken for \<^verbatim>\<open>dns-10\<close>.
\<close>

lemma ordinal_name_prefix:
  assumes "0 \<le> i" and "0 \<le> j" and "HasPrefix (ordinal_name c i @ ''.'' @ rest) (ordinal_name c j @ ''.'')"
  shows "i = j"
proof -
  obtain t where t: "Itoa i @ CHR ''.'' # rest = Itoa j @ CHR ''.'' # t"
    using assms(3) by (auto simp: HasPrefix_iff ordinal_name_def)
  have no_dot: "CHR ''.'' \<notin> set (nat_string k)" for k
    using nat_string_digits [of k] is_digit_not by (auto simp: list_all_iff)
  have "Itoa i = takeWhile (\<lambda>x. x \<noteq> CHR ''.'') (Itoa i @ CHR ''.'' # rest)"
    using no_dot assms(1) by (simp add: takeWhile_neq_append Itoa_nonneg)
  also have "\<dots> = Itoa j"
    using no_dot assms(2) unfolding t by (simp add: takeWhile_neq_append Itoa_nonneg)
  finally show ?thesis using assms(1,2) by (simp add: Itoa_nonneg_inject)
qed

text \<open>The reconciler as production wires it: no injected clients and the system's clock.\<close>

definition production :: "'s cluster_reconciler \<Rightarrow> bool" where
  "production r \<longleftrightarrow> cr_NewBootstrapClient r = None \<and> cr_NewNodeClient r = None \<and> cr_Now r = None"

lemma production_nodeClientFactory:
  "production r \<Longrightarrow> nodeClientFactory r endpoint username password =
     or_return (NewClient endpoint [WithCredentials username password]) (\<lambda>c. ok (loginNodeClient (cr_runtime r) c))"
  by (simp add: production_def nodeClientFactory_def)

text \<open>A computation with a node client is one with a client that logs in lazily.\<close>

lemma emits_with_node:
  assumes "production r" and "\<And>e. emits P (h e)" and "\<And>c. emits P (f (loginNodeClient (cr_runtime r) c))"
  shows "emits P (State_Monad.bind (nodeClientFactory r endpoint username password) (case_sum h f))"
  unfolding production_nodeClientFactory [OF assms(1)] bind_or_return_map
  using assms(2,3) by (intro emits_bind emits_NewClient) (auto split: sum.split)

lemma emits_or_return_node:
  assumes "production r" and "\<And>c. emits P (f (loginNodeClient (cr_runtime r) c))"
  shows "emits P (or_return (nodeClientFactory r endpoint username password) f)"
  unfolding production_nodeClientFactory [OF assms(1)] or_return_map
  by (intro emits_or_return emits_NewClient assms)

section \<open>A concrete reconciler\<close>

definition no_object :: "object_key \<Rightarrow> go_error + 'o" where
  "no_object key = Inl (KubeError NotFound ''not found'')"

definition sample_cluster_reconciler ::
  "(http_request \<Rightarrow> 's \<Rightarrow> http_reply \<times> 's) \<Rightarrow> 's cluster_reconciler" where
  "sample_cluster_reconciler http = \<lparr>cr_runtime = plain_runtime http (Pair 0),
     cr_clusters = sample_clusters, cr_secrets = sample_secrets,
     cr_pods = plain_kclient ''Pod'' pod_meta no_object, cr_pvcs = plain_kclient ''PersistentVolumeClaim'' pvc_meta no_object,
     cr_services = plain_kclient ''Service'' svc_meta no_object,
     cr_statefulSets = plain_kclient ''StatefulSet'' sts_meta no_object,
     cr_pdbs = plain_kclient ''PodDisruptionBudget'' pdb_meta no_object,
     cr_OperatorNamespace = ''ops'', cr_NewBootstrapClient = None, cr_NewNodeClient = None,
     cr_StallTimeout = 0, cr_Now = None, cr_Marshal = (\<lambda>_. []), cr_rand = (\<lambda>n. Inr (replicate n 0))\<rparr>"

lemma sample_cluster_reconciler_sel [simp]:
  "cr_runtime (sample_cluster_reconciler http) = plain_runtime http (Pair 0)"
  "cr_clusters (sample_cluster_reconciler http) = sample_clusters"
  "cr_secrets (sample_cluster_reconciler http) = sample_secrets"
  "cr_pods (sample_cluster_reconciler http) = plain_kclient ''Pod'' pod_meta no_object"
  "cr_pvcs (sample_cluster_reconciler http) = plain_kclient ''PersistentVolumeClaim'' pvc_meta no_object"
  "cr_services (sample_cluster_reconciler http) = plain_kclient ''Service'' svc_meta no_object"
  "cr_statefulSets (sample_cluster_reconciler http) = plain_kclient ''StatefulSet'' sts_meta no_object"
  "cr_pdbs (sample_cluster_reconciler http) = plain_kclient ''PodDisruptionBudget'' pdb_meta no_object"
  "cr_OperatorNamespace (sample_cluster_reconciler http) = ''ops''"
  "cr_NewBootstrapClient (sample_cluster_reconciler http) = None"
  "cr_NewNodeClient (sample_cluster_reconciler http) = None"
  "cr_StallTimeout (sample_cluster_reconciler http) = 0"
  "cr_Now (sample_cluster_reconciler http) = None"
  by (simp_all add: sample_cluster_reconciler_def)

lemma sample_production: "production (sample_cluster_reconciler http)"
  by (simp add: production_def)

definition no_reply :: "http_request \<Rightarrow> 's \<Rightarrow> http_reply \<times> 's" where
  "no_reply req s = (RequestFailed ''connection refused'', s)"

definition joined_state :: cluster_state where
  "joined_state = \<lparr>cs_Version = ''15.5.0'', cs_DNSServerDomain = ''dns-0.dns.local'', cs_ClusterInitialized = True,
     cs_ClusterDomain = ''dns.local'',
     cs_Nodes = [\<lparr>cn_ID = 2, cn_Name = ''dns-1.dns.local'', cn_URL = [], cn_IPAddresses = [''10.0.0.2''],
       cn_Type = ''Secondary'', cn_State = ''Connected'', cn_Version = ''15.5.0'', cn_UpSince = None,
       cn_LastSeen = Some 20, cn_ConfigLastSynced = None\<rparr>]\<rparr>"

definition answering_node :: "cluster_state \<Rightarrow> 's node_api" where
  "answering_node st = \<lparr>na_GetClusterState = ok st, na_InitCluster = (\<lambda>_. ok st), na_InitJoinCluster = (\<lambda>_. ok st),
     na_RemoveSecondary = (\<lambda>_. ok ()), na_DeleteSecondary = (\<lambda>_. ok ()), na_DeletePrimaryCluster = (\<lambda>_. ok ()),
     na_UpdateNodeIPAddresses = (\<lambda>_. ok st)\<rparr>"

definition answering_reconciler :: "unit cluster_reconciler" where
  "answering_reconciler = (sample_cluster_reconciler no_reply)\<lparr>cr_NewNodeClient := Some (\<lambda>_ _ _. ok (answering_node joined_state))\<rparr>"

end
