(* ===== verification/Stats_Poller.thy ===== *)
theory Stats_Poller
  imports Cluster_Nodes
begin

text \<open>
  The statistics poller (\<^verbatim>\<open>internal/controller/technitium_stats.go\<close>): once per interval it reads the
  dashboard of every node of every cluster and publishes the numbers as Prometheus gauges.

  The gauges are one map from series to values. A series is a gauge, the values of the labels cluster and
  node, and the value of the extra label (result or source; empty where there is none);
  \<^verbatim>\<open>DeletePartialMatch\<close> removes every series of a gauge with the given cluster and node. A value is
  kept as what it was set from, an integer converted to \<^verbatim>\<open>float64\<close> or a reading of the clock.
\<close>

section \<open>Gauges\<close>

datatype gauge = queries | queriesBySrc | clients | cacheEntries | zones | allowedZones | blockedZones
  | allowListSize | blockListSize | scrapeSuccess | lastSuccess

datatype gauge_value = Float64 int | UnixTime int

type_synonym metrics = "gauge \<times> string \<times> string \<times> string \<rightharpoonup> gauge_value"

text \<open>What \<^verbatim>\<open>newTechnitiumStatsMetrics\<close> makes of each gauge: its name and its labels; the help texts are left out.\<close>

definition labelCluster :: string where
  "labelCluster = ''cluster''"

definition labelNode :: string where
  "labelNode = ''node''"

record gauge_vec =
  gv_Name :: string
  gv_Labels :: "string list"

definition gauge_of :: "string \<Rightarrow> string list \<Rightarrow> gauge_vec" where
  "gauge_of name extra = \<lparr>gv_Name = ''technitium_dns_'' @ name, gv_Labels = [labelCluster, labelNode] @ extra\<rparr>"

primrec newTechnitiumStatsMetrics :: "gauge \<Rightarrow> gauge_vec" where
  "newTechnitiumStatsMetrics queries = gauge_of ''queries_last_hour'' [''result'']"
| "newTechnitiumStatsMetrics queriesBySrc = gauge_of ''queries_by_source_last_hour'' [''source'']"
| "newTechnitiumStatsMetrics clients = gauge_of ''clients_last_hour'' []"
| "newTechnitiumStatsMetrics cacheEntries = gauge_of ''cache_entries'' []"
| "newTechnitiumStatsMetrics zones = gauge_of ''zones'' []"
| "newTechnitiumStatsMetrics allowedZones = gauge_of ''allowed_zones'' []"
| "newTechnitiumStatsMetrics blockedZones = gauge_of ''blocked_zones'' []"
| "newTechnitiumStatsMetrics allowListSize = gauge_of ''allow_list_zones'' []"
| "newTechnitiumStatsMetrics blockListSize = gauge_of ''block_list_zones'' []"
| "newTechnitiumStatsMetrics scrapeSuccess = gauge_of ''stats_scrape_success'' []"
| "newTechnitiumStatsMetrics lastSuccess = gauge_of ''stats_last_success_timestamp_seconds'' []"

definition collectors :: "gauge_vec list" where
  "collectors = map newTechnitiumStatsMetrics [queries, queriesBySrc, clients, cacheEntries, zones, allowedZones, blockedZones,
     allowListSize, blockListSize, scrapeSuccess, lastSuccess]"

definition dataVecs :: "gauge list" where
  "dataVecs = [queries, queriesBySrc, clients, cacheEntries, zones, allowedZones, blockedZones, allowListSize, blockListSize]"

definition DeletePartialMatch :: "gauge list \<Rightarrow> string \<Rightarrow> string \<Rightarrow> metrics \<Rightarrow> metrics" where
  "DeletePartialMatch vecs cluster node m =
     (\<lambda>(g, c, n, l). if g \<in> set vecs \<and> c = cluster \<and> n = node then None else m (g, c, n, l))"

definition deleteData :: "string \<Rightarrow> string \<Rightarrow> metrics \<Rightarrow> metrics" where
  "deleteData cluster node m = DeletePartialMatch dataVecs cluster node m"

definition deleteNode :: "string \<Rightarrow> string \<Rightarrow> metrics \<Rightarrow> metrics" where
  "deleteNode cluster node m =
     DeletePartialMatch [lastSuccess] cluster node (DeletePartialMatch [scrapeSuccess] cluster node (deleteData cluster node m))"

definition set_gauges :: "string \<Rightarrow> string \<Rightarrow> (gauge \<times> string \<times> gauge_value) list \<Rightarrow> metrics \<Rightarrow> metrics" where
  "set_gauges cluster node vs m = fold (\<lambda>(g, l, v) m. m((g, cluster, node, l) \<mapsto> v)) vs m"

text \<open>The order in which Go ranges over the two map literals does not matter: their keys are distinct.\<close>

definition set_stats :: "string \<Rightarrow> string \<Rightarrow> dashboard_stats \<Rightarrow> int \<Rightarrow> metrics \<Rightarrow> metrics" where
  "set_stats cluster node s time m = set_gauges cluster node
     [(queries, ''no_error'', Float64 (st_TotalNoError s)), (queries, ''server_failure'', Float64 (st_TotalServerFailure s)),
      (queries, ''nx_domain'', Float64 (st_TotalNxDomain s)), (queries, ''refused'', Float64 (st_TotalRefused s)),
      (queriesBySrc, ''authoritative'', Float64 (st_TotalAuthoritative s)), (queriesBySrc, ''recursive'', Float64 (st_TotalRecursive s)),
      (queriesBySrc, ''cached'', Float64 (st_TotalCached s)), (queriesBySrc, ''blocked'', Float64 (st_TotalBlocked s)),
      (queriesBySrc, ''dropped'', Float64 (st_TotalDropped s)),
      (clients, [], Float64 (st_TotalClients s)), (cacheEntries, [], Float64 (st_CachedEntries s)), (zones, [], Float64 (st_Zones s)),
      (allowedZones, [], Float64 (st_AllowedZones s)), (blockedZones, [], Float64 (st_BlockedZones s)),
      (allowListSize, [], Float64 (st_AllowListZones s)), (blockListSize, [], Float64 (st_BlockListZones s)),
      (scrapeSuccess, [], Float64 1), (lastSuccess, [], UnixTime time)] m"

section \<open>The poller\<close>

text \<open>
  \<^verbatim>\<open>statsAPI\<close> has one method, so a client is the computation that calls it. \<open>sp_NewStatsClient\<close> is the
  seam for tests, nil in production.
\<close>

type_synonym 's stats_api = "('s world, go_error + dashboard_stats) state"

record 's stats_poller =
  sp_rt :: "'s runtime"
  sp_clusters :: "('s, technitium_cluster) kclient"
  sp_secrets :: "('s, secret) kclient"
  sp_OperatorNamespace :: string
  sp_NewStatsClient :: "(string \<Rightarrow> secret \<Rightarrow> ('s world, go_error + 's stats_api) state) option"

text \<open>The state between passes: the gauges and the pairs of cluster and node that have series.\<close>

record poller_state =
  pst_metrics :: metrics
  pst_known :: "(string \<times> string) set"

definition NewTechnitiumStatsPoller :: poller_state where
  "NewTechnitiumStatsPoller = \<lparr>pst_metrics = Map.empty, pst_known = {}\<rparr>"

definition NeedLeaderElection :: "'s stats_poller \<Rightarrow> bool" where
  "NeedLeaderElection _ = True"

definition statsClient :: "'s stats_poller \<Rightarrow> string \<Rightarrow> secret \<Rightarrow> ('s world, go_error + 's stats_api) state" where
  "statsClient p endpoint secret =
     (case sp_NewStatsClient p of
        Some f \<Rightarrow> f endpoint secret
      | None \<Rightarrow>
          (case ClientOptionsFromSecret (Some secret) of
             Inl err \<Rightarrow> fail err
           | Inr opts \<Rightarrow> or_return (NewClient endpoint opts) (\<lambda>c. ok (GetDashboardStats (sp_rt p) c))))"

text \<open>\<^verbatim>\<open>strconv.ParseInt(s, 10, 32)\<close>.\<close>

definition ParseInt32 :: "string \<Rightarrow> int option" where
  "ParseInt32 s = (case Atoi s of None \<Rightarrow> None | Some n \<Rightarrow> if - (2 ^ 31) \<le> n \<and> n < 2 ^ 31 then Some n else None)"

definition fail_node :: "string \<Rightarrow> string \<Rightarrow> metrics \<Rightarrow> metrics" where
  "fail_node cluster node m = (deleteData cluster node m)((scrapeSuccess, cluster, node, []) \<mapsto> Float64 0)"

definition pollNode :: "'s stats_poller \<Rightarrow> technitium_cluster \<Rightarrow> secret \<Rightarrow> node_status \<Rightarrow> metrics \<Rightarrow> ('s world, metrics) state" where
  "pollNode p tc secret ns m =
     (if \<not> nodeJoined (ns_State ns) then ret (fail_node (tc_Name tc) (ns_Name ns) m)
      else case ParseInt32 (TrimPrefix (ns_Name ns) (tc_Name tc @ ''-'')) of
        None \<Rightarrow> ret (fail_node (tc_Name tc) (ns_Name ns) m)
      | Some ordinal \<Rightarrow> do {
          built \<leftarrow> statsClient p (nodeEndpoint (tc_Name tc) ordinal (sp_OperatorNamespace p)) secret;
          case built of
            Inl _ \<Rightarrow> ret (fail_node (tc_Name tc) (ns_Name ns) m)
          | Inr api \<Rightarrow> do {
              got \<leftarrow> api;
              case got of
                Inl _ \<Rightarrow> ret (fail_node (tc_Name tc) (ns_Name ns) m)
              | Inr stats \<Rightarrow> do {
                  time \<leftarrow> now (sp_rt p);
                  ret (set_stats (tc_Name tc) (ns_Name ns) stats time m)
                }
            }
        })"

fun poll_nodes :: "'s stats_poller \<Rightarrow> technitium_cluster \<Rightarrow> secret \<Rightarrow> node_status list \<Rightarrow> metrics \<Rightarrow> ('s world, metrics) state" where
  "poll_nodes p tc secret [] m = ret m"
| "poll_nodes p tc secret (ns # nss) m = do { m' \<leftarrow> pollNode p tc secret ns m; poll_nodes p tc secret nss m' }"

definition pollCluster :: "'s stats_poller \<Rightarrow> technitium_cluster \<Rightarrow> metrics \<Rightarrow> ('s world, string list \<times> metrics) state" where
  "pollCluster p tc m =
     (if om_DeletionTimestamp (tc_meta tc) \<noteq> None \<or> ts_Nodes (tc_Status tc) = [] then ret ([], m)
      else case adminSecretKeyFor tc (sp_OperatorNamespace p) of
        (_, Some _) \<Rightarrow> ret ([], m)
      | (secretKey, None) \<Rightarrow> do {
          got \<leftarrow> kget (sp_secrets p) secretKey;
          case got of
            Inl _ \<Rightarrow> ret ([], m)
          | Inr secret \<Rightarrow>
              if map_get (sec_Data secret) adminSecretTokenKey = [] then ret ([], m)
              else do {
                m' \<leftarrow> poll_nodes p tc secret (ts_Nodes (tc_Status tc)) m;
                ret (map ns_Name (ts_Nodes (tc_Status tc)), m')
              }
        })"

fun poll_clusters ::
  "'s stats_poller \<Rightarrow> technitium_cluster list \<Rightarrow> (string \<times> string) set \<Rightarrow> metrics \<Rightarrow> ('s world, (string \<times> string) set \<times> metrics) state" where
  "poll_clusters p [] seen m = ret (seen, m)"
| "poll_clusters p (tc # tcs) seen m = do {
     (nodes, m') \<leftarrow> pollCluster p tc m;
     poll_clusters p tcs (seen \<union> Pair (tc_Name tc) ` set nodes) m'
   }"

text \<open>The pass over \<^verbatim>\<open>p.known\<close> deletes the series of every pair that was not seen, in any order.\<close>

definition forget :: "(string \<times> string) set \<Rightarrow> metrics \<Rightarrow> metrics" where
  "forget gone m = (\<lambda>(g, c, n, l). if (c, n) \<in> gone then deleteNode c n m (g, c, n, l) else m (g, c, n, l))"

definition poll :: "'s stats_poller \<Rightarrow> poller_state \<Rightarrow> ('s world, poller_state) state" where
  "poll p st = do {
     got \<leftarrow> klist (sp_clusters p) [] [];
     case got of
       Inl _ \<Rightarrow> ret st
     | Inr items \<Rightarrow> do {
         (seen, m) \<leftarrow> poll_clusters p items {} (pst_metrics st);
         ret \<lparr>pst_metrics = forget (pst_known st - seen) m, pst_known = seen\<rparr>
       }
   }"

text \<open>\<^verbatim>\<open>Start\<close> polls at once and after every tick, until its context ends; \<open>n\<close> is the number of ticks.\<close>

primrec Start :: "'s stats_poller \<Rightarrow> nat \<Rightarrow> poller_state \<Rightarrow> ('s world, poller_state) state" where
  "Start p 0 st = poll p st"
| "Start p (Suc n) st = do { st' \<leftarrow> poll p st; Start p n st' }"

section \<open>The readings of a pass\<close>

text \<open>
  The calls a pass makes, without any gauge: for each node that is tried, what its reading gave, \<open>None\<close>
  if it failed. A cluster that is being deleted, reports no nodes, or has no admin Secret with a token is not tried.
\<close>

type_synonym readings = "((string \<times> string) \<times> dashboard_stats option) list"

definition read_node :: "'s stats_poller \<Rightarrow> technitium_cluster \<Rightarrow> secret \<Rightarrow> node_status \<Rightarrow> ('s world, dashboard_stats option) state" where
  "read_node p tc secret ns =
     (case ParseInt32 (TrimPrefix (ns_Name ns) (tc_Name tc @ ''-'')) of
        Some ordinal \<Rightarrow>
          if nodeJoined (ns_State ns) then do {
            got \<leftarrow> or_return (statsClient p (nodeEndpoint (tc_Name tc) ordinal (sp_OperatorNamespace p)) secret) id;
            case got of
              Inl _ \<Rightarrow> ret None
            | Inr stats \<Rightarrow> do { _ \<leftarrow> now (sp_rt p); ret (Some stats) }
          } else ret None
      | None \<Rightarrow> ret None)"

fun read_nodes :: "'s stats_poller \<Rightarrow> technitium_cluster \<Rightarrow> secret \<Rightarrow> node_status list \<Rightarrow> ('s world, readings) state" where
  "read_nodes p tc secret [] = ret []"
| "read_nodes p tc secret (ns # nss) = do {
     res \<leftarrow> read_node p tc secret ns;
     rest \<leftarrow> read_nodes p tc secret nss;
     ret (((tc_Name tc, ns_Name ns), res) # rest)
   }"

definition read_cluster :: "'s stats_poller \<Rightarrow> technitium_cluster \<Rightarrow> ('s world, readings) state" where
  "read_cluster p tc =
     (if om_DeletionTimestamp (tc_meta tc) = None \<and> ts_Nodes (tc_Status tc) \<noteq> [] \<and> snd (adminSecretKeyFor tc (sp_OperatorNamespace p)) = None
      then do {
        got \<leftarrow> kget (sp_secrets p) (fst (adminSecretKeyFor tc (sp_OperatorNamespace p)));
        case got of
          Inr secret \<Rightarrow> if map_get (sec_Data secret) adminSecretTokenKey \<noteq> []
            then read_nodes p tc secret (ts_Nodes (tc_Status tc)) else ret []
        | Inl _ \<Rightarrow> ret []
      } else ret [])"

fun read_clusters :: "'s stats_poller \<Rightarrow> technitium_cluster list \<Rightarrow> ('s world, readings) state" where
  "read_clusters p [] = ret []"
| "read_clusters p (tc # tcs) = do { log \<leftarrow> read_cluster p tc; rest \<leftarrow> read_clusters p tcs; ret (log @ rest) }"

text \<open>The number each series should carry for a reading.\<close>

primrec series_of :: "dashboard_stats \<Rightarrow> gauge \<Rightarrow> string \<rightharpoonup> int" where
  "series_of s queries = [''no_error'' \<mapsto> st_TotalNoError s, ''server_failure'' \<mapsto> st_TotalServerFailure s,
     ''nx_domain'' \<mapsto> st_TotalNxDomain s, ''refused'' \<mapsto> st_TotalRefused s]"
| "series_of s queriesBySrc = [''authoritative'' \<mapsto> st_TotalAuthoritative s, ''recursive'' \<mapsto> st_TotalRecursive s,
     ''cached'' \<mapsto> st_TotalCached s, ''blocked'' \<mapsto> st_TotalBlocked s, ''dropped'' \<mapsto> st_TotalDropped s]"
| "series_of s clients = [[] \<mapsto> st_TotalClients s]"
| "series_of s cacheEntries = [[] \<mapsto> st_CachedEntries s]"
| "series_of s zones = [[] \<mapsto> st_Zones s]"
| "series_of s allowedZones = [[] \<mapsto> st_AllowedZones s]"
| "series_of s blockedZones = [[] \<mapsto> st_BlockedZones s]"
| "series_of s allowListSize = [[] \<mapsto> st_AllowListZones s]"
| "series_of s blockListSize = [[] \<mapsto> st_BlockListZones s]"
| "series_of s scrapeSuccess = [[] \<mapsto> 1]"
| "series_of s lastSuccess = Map.empty"

text \<open>The gauges of a node show a reading; the time of the last success is not part of it.\<close>

definition shows_reading :: "metrics \<Rightarrow> string \<Rightarrow> string \<Rightarrow> dashboard_stats option \<Rightarrow> bool" where
  "shows_reading m c n res \<longleftrightarrow>
     (\<forall>g l. g \<noteq> lastSuccess \<longrightarrow> m (g, c, n, l) =
        (case res of
           Some s \<Rightarrow> map_option Float64 (series_of s g l)
         | None \<Rightarrow> if g = scrapeSuccess \<and> l = [] then Some (Float64 0) else None))"

section \<open>The invariant\<close>

text \<open>Only the labels of the code are ever used.\<close>

definition labels_ok :: "metrics \<Rightarrow> bool" where
  "labels_ok m \<longleftrightarrow> (\<forall>s g c n l. g \<noteq> lastSuccess \<longrightarrow> series_of s g l = None \<longrightarrow> m (g, c, n, l) = None)"

definition agrees :: "readings \<Rightarrow> metrics \<Rightarrow> metrics \<Rightarrow> bool" where
  "agrees log m m' \<longleftrightarrow> (labels_ok m \<longrightarrow> labels_ok m' \<and>
     (\<forall>c n. case map_of (rev log) (c, n) of
        Some res \<Rightarrow> shows_reading m' c n res
      | None \<Rightarrow> \<forall>g l. m' (g, c, n, l) = m (g, c, n, l)))"

lemma agrees_Nil: "agrees [] m m"
  by (simp add: agrees_def)

lemma agrees_append: "agrees log1 m m1 \<Longrightarrow> agrees log2 m1 m2 \<Longrightarrow> agrees (log1 @ log2) m m2"
proof -
  assume 1: "agrees log1 m m1" and 2: "agrees log2 m1 m2"
  show ?thesis
    unfolding agrees_def
  proof (intro impI conjI allI)
    assume ok: "labels_ok m"
    with 1 have ok1: "labels_ok m1" by (simp add: agrees_def)
    with 2 show "labels_ok m2" by (simp add: agrees_def)
    fix c n
    have first: "case map_of (rev log1) (c, n) of Some res \<Rightarrow> shows_reading m1 c n res | None \<Rightarrow> \<forall>g l. m1 (g, c, n, l) = m (g, c, n, l)"
      and second: "case map_of (rev log2) (c, n) of Some res \<Rightarrow> shows_reading m2 c n res | None \<Rightarrow> \<forall>g l. m2 (g, c, n, l) = m1 (g, c, n, l)"
      using 1 2 ok ok1 unfolding agrees_def by blast+
    show "case map_of (rev (log1 @ log2)) (c, n) of Some res \<Rightarrow> shows_reading m2 c n res | None \<Rightarrow> \<forall>g l. m2 (g, c, n, l) = m (g, c, n, l)"
    proof (cases "map_of (rev log2) (c, n)")
      case (Some res)
      with second show ?thesis by (simp add: map_add_Some_iff [THEN iffD2])
    next
      case None
      with second have "m2 (g, c, n, l) = m1 (g, c, n, l)" for g l by simp
      with first None show ?thesis by (cases "map_of (rev log1) (c, n)") (simp_all add: map_add_def shows_reading_def)
    qed
  qed
qed

lemma gauge_cases: "g \<in> set dataVecs \<longleftrightarrow> g \<noteq> scrapeSuccess \<and> g \<noteq> lastSuccess"
  by (cases g) (simp_all add: dataVecs_def)

lemma deleteData_apply:
  "deleteData cluster node m (g, c, n, l) = (if g \<in> set dataVecs \<and> c = cluster \<and> n = node then None else m (g, c, n, l))"
  by (simp add: deleteData_def DeletePartialMatch_def)

lemma deleteNode_apply: "deleteNode cluster node m (g, c, n, l) = (if c = cluster \<and> n = node then None else m (g, c, n, l))"
  by (cases g) (simp_all add: deleteNode_def deleteData_def DeletePartialMatch_def dataVecs_def)

lemma agrees_fail: "agrees [((c, n), None)] m (fail_node c n m)"
proof -
  have app: "fail_node c n m (g, c', n', l) =
      (if (g, c', n', l) = (scrapeSuccess, c, n, []) then Some (Float64 0)
       else if g \<in> set dataVecs \<and> c' = c \<and> n' = n then None else m (g, c', n', l))" for g c' n' l
    by (simp add: fail_node_def deleteData_apply)
  show ?thesis
    unfolding agrees_def shows_reading_def labels_ok_def app by (auto simp: gauge_cases split: if_splits)
qed

lemma set_gauges_other:
  "(c, n) \<noteq> (cluster, node) \<Longrightarrow> set_gauges cluster node vs m (g, c, n, l) = m (g, c, n, l)"
  unfolding set_gauges_def by (induction vs arbitrary: m) auto

lemma set_stats_apply:
  "g \<noteq> lastSuccess \<Longrightarrow> set_stats c n s time m (g, c, n, l) =
     (case series_of s g l of Some v \<Rightarrow> Some (Float64 v) | None \<Rightarrow> m (g, c, n, l))"
  by (cases g) (simp_all add: set_stats_def set_gauges_def)

lemma agrees_set: "agrees [((c, n), Some s)] m (set_stats c n s time m)"
proof -
  let ?m = "set_stats c n s time m"
  have other: "?m (g, c', n', l) = m (g, c', n', l)" if "(c', n') \<noteq> (c, n)" for g c' n' l
    unfolding set_stats_def using that by (rule set_gauges_other)
  have "?m (g, c', n', l) = None" if "labels_ok m" "g \<noteq> lastSuccess" "series_of s' g l = None" for s' g c' n' l
  proof -
    have "series_of s g l = None" using that(3) by (cases g) (auto split: if_splits)
    then show ?thesis
      using that other [of c' n' g l] set_stats_apply [OF that(2)] unfolding labels_ok_def by (cases "(c', n') = (c, n)") auto
  qed
  moreover have "shows_reading ?m c n (Some s)" if "labels_ok m"
    using that unfolding shows_reading_def labels_ok_def by (auto simp: set_stats_apply split: option.splits)
  ultimately show ?thesis
    unfolding agrees_def labels_ok_def [of ?m] using other by auto
qed

lemma pollNode_reads:
  assumes "run_state (pollNode p tc secret ns m) w = (m', w')"
  shows "\<exists>res. run_state (read_node p tc secret ns) w = (res, w') \<and> agrees [((tc_Name tc, ns_Name ns), res)] m m'"
  using assms agrees_fail agrees_set unfolding pollNode_def read_node_def
  by (auto simp: run_or_return split: if_splits option.splits prod.splits sum.splits)

lemma poll_nodes_reads:
  assumes "run_state (poll_nodes p tc secret nss m) w = (m', w')"
  shows "\<exists>log. run_state (read_nodes p tc secret nss) w = (log, w') \<and> agrees log m m' \<and>
    map fst log = map (\<lambda>ns. (tc_Name tc, ns_Name ns)) nss"
  using assms
proof (induction nss arbitrary: m w)
  case (Cons ns nss)
  obtain m1 w1 where 1: "run_state (pollNode p tc secret ns m) w = (m1, w1)" by fastforce
  with Cons.prems have "run_state (poll_nodes p tc secret nss m1) w1 = (m', w')" by simp
  from Cons.IH [OF this] pollNode_reads [OF 1] obtain res log where
    "run_state (read_node p tc secret ns) w = (res, w1)" "agrees [((tc_Name tc, ns_Name ns), res)] m m1"
    "run_state (read_nodes p tc secret nss) w1 = (log, w')" "agrees log m1 m'"
    "map fst log = map (\<lambda>ns. (tc_Name tc, ns_Name ns)) nss" by blast
  with agrees_append [OF this(2,4)] show ?case by simp
qed (simp add: agrees_Nil)

lemma pollCluster_reads:
  assumes "run_state (pollCluster p tc m) w = ((nodes, m'), w')"
  shows "\<exists>log. run_state (read_cluster p tc) w = (log, w') \<and> agrees log m m' \<and> fst ` set log = Pair (tc_Name tc) ` set nodes"
proof (cases "om_DeletionTimestamp (tc_meta tc) = None \<and> ts_Nodes (tc_Status tc) \<noteq> [] \<and> snd (adminSecretKeyFor tc (sp_OperatorNamespace p)) = None")
  case False
  with assms show ?thesis
    unfolding pollCluster_def read_cluster_def by (auto simp: agrees_Nil split: if_splits prod.splits option.splits)
next
  case True
  obtain key where key: "adminSecretKeyFor tc (sp_OperatorNamespace p) = (key, None)" using True by (metis prod.collapse)
  obtain got w1 where got: "run_state (kget (sp_secrets p) key) w = (got, w1)" by fastforce
  show ?thesis
  proof (cases "\<exists>secret. got = Inr secret \<and> map_get (sec_Data secret) adminSecretTokenKey \<noteq> []")
    case False
    with assms True key got show ?thesis
      unfolding pollCluster_def read_cluster_def by (cases got) (auto simp: agrees_Nil)
  next
    case token: True
    then obtain secret where secret: "got = Inr secret" "map_get (sec_Data secret) adminSecretTokenKey \<noteq> []" by blast
    with assms True key got have "run_state (poll_nodes p tc secret (ts_Nodes (tc_Status tc)) m) w1 = (m', w')"
      and nodes: "nodes = map ns_Name (ts_Nodes (tc_Status tc))"
      unfolding pollCluster_def by (auto split: prod.splits)
    from poll_nodes_reads [OF this(1)] obtain log where log: "run_state (read_nodes p tc secret (ts_Nodes (tc_Status tc))) w1 = (log, w')"
      "agrees log m m'" "map fst log = map (\<lambda>ns. (tc_Name tc, ns_Name ns)) (ts_Nodes (tc_Status tc))" by blast
    have "fst ` set log = Pair (tc_Name tc) ` set nodes"
      using arg_cong [OF log(3), of set] by (simp add: nodes image_image)
    with log True key got secret show ?thesis unfolding read_cluster_def by simp
  qed
qed

lemma poll_clusters_reads:
  assumes "run_state (poll_clusters p tcs seen m) w = ((seen', m'), w')"
  shows "\<exists>log. run_state (read_clusters p tcs) w = (log, w') \<and> agrees log m m' \<and> seen' = seen \<union> fst ` set log"
  using assms
proof (induction tcs arbitrary: seen m w)
  case (Cons tc tcs)
  obtain nodes m1 w1 where 1: "run_state (pollCluster p tc m) w = ((nodes, m1), w1)" by (metis prod.collapse)
  with Cons.prems have "run_state (poll_clusters p tcs (seen \<union> Pair (tc_Name tc) ` set nodes) m1) w1 = ((seen', m'), w')" by simp
  from Cons.IH [OF this] pollCluster_reads [OF 1] obtain log1 log2 where
    "run_state (read_cluster p tc) w = (log1, w1)" "agrees log1 m m1" "fst ` set log1 = Pair (tc_Name tc) ` set nodes"
    "run_state (read_clusters p tcs) w1 = (log2, w')" "agrees log2 m1 m'"
    "seen' = seen \<union> Pair (tc_Name tc) ` set nodes \<union> fst ` set log2" by blast
  with agrees_append [OF this(2,5)] show ?case by (simp add: image_Un Un_assoc)
qed (simp add: agrees_Nil)

text \<open>The gauges are those of the pass that wrote them, and every node with a series is known.\<close>

definition poller_ok :: "poller_state \<Rightarrow> bool" where
  "poller_ok st \<longleftrightarrow> labels_ok (pst_metrics st) \<and> (\<forall>g c n l v. pst_metrics st (g, c, n, l) = Some v \<longrightarrow> (c, n) \<in> pst_known st)"

definition shows_pass :: "metrics \<Rightarrow> readings \<Rightarrow> bool" where
  "shows_pass m log \<longleftrightarrow> (\<forall>c n. case map_of (rev log) (c, n) of
     Some res \<Rightarrow> shows_reading m c n res
   | None \<Rightarrow> \<forall>g l. m (g, c, n, l) = None)"

lemma map_of_rev_None: "map_of (rev log) k = None \<longleftrightarrow> k \<notin> fst ` set log"
  by (simp add: map_of_eq_None_iff)

lemma poll_step:
  assumes run: "run_state (poll p st) w = (st', w')" and ok: "poller_ok st"
  shows "poller_ok st'"
    and "case run_state (klist (sp_clusters p) [] []) w of
      (Inl _, w1) \<Rightarrow> st' = st \<and> w' = w1
    | (Inr items, w1) \<Rightarrow> \<exists>log. run_state (read_clusters p items) w1 = (log, w') \<and> shows_pass (pst_metrics st') log" (is "?pass")
proof -
  obtain res w1 where list: "run_state (klist (sp_clusters p) [] []) w = (res, w1)" by fastforce
  have "poller_ok st' \<and> ?pass"
  proof (cases res)
    case (Inl e)
    with run ok list show ?thesis by (simp add: poll_def)
  next
    case (Inr items)
    obtain seen m w2 where pass: "run_state (poll_clusters p items {} (pst_metrics st)) w1 = ((seen, m), w2)" by (metis prod.collapse)
    have st': "st' = \<lparr>pst_metrics = forget (pst_known st - seen) m, pst_known = seen\<rparr>" "w2 = w'"
      using run list Inr pass by (simp_all add: poll_def)
    obtain log where log: "run_state (read_clusters p items) w1 = (log, w2)" "agrees log (pst_metrics st) m" "seen = fst ` set log"
      using poll_clusters_reads [OF pass] by auto
    have app: "pst_metrics st' (g, c, n, l) = (if (c, n) \<in> pst_known st - seen then None else m (g, c, n, l))" for g c n l
      by (simp add: st' forget_def deleteNode_apply)
    have untouched: "m (g, c, n, l) = pst_metrics st (g, c, n, l)" if "(c, n) \<notin> seen" for g c n l
    proof -
      have "map_of (rev log) (c, n) = None" using that log(3) by (simp only: map_of_rev_None not_False_eq_True)
      moreover have "case map_of (rev log) (c, n) of
          Some res \<Rightarrow> shows_reading m c n res | None \<Rightarrow> \<forall>g l. m (g, c, n, l) = pst_metrics st (g, c, n, l)"
        using log(2) ok unfolding agrees_def poller_ok_def by blast
      ultimately show ?thesis by simp
    qed
    have gone: "pst_metrics st' (g, c, n, l) = None" if "(c, n) \<notin> seen" for g c n l
      using that ok untouched [OF that] unfolding app poller_ok_def by (auto simp: not_None_eq) (metis not_None_eq)
    have "shows_reading (pst_metrics st') c n r" if "map_of (rev log) (c, n) = Some r" for c n r
    proof -
      have "(c, n) \<in> seen" using that log(3) map_of_rev_None [of log "(c, n)"] by auto
      then have "pst_metrics st' (g, c, n, l) = m (g, c, n, l)" for g l unfolding app by simp
      moreover have "case map_of (rev log) (c, n) of
          Some res \<Rightarrow> shows_reading m c n res | None \<Rightarrow> \<forall>g l. m (g, c, n, l) = pst_metrics st (g, c, n, l)"
        using log(2) ok unfolding agrees_def poller_ok_def by blast
      ultimately show ?thesis using that unfolding shows_reading_def by simp
    qed
    then have "shows_pass (pst_metrics st') log"
      using gone log(3) map_of_rev_None [of log] unfolding shows_pass_def by (auto split: option.split)
    moreover have "labels_ok (pst_metrics st')"
      using log(2) ok unfolding labels_ok_def app agrees_def poller_ok_def by auto
    ultimately show ?thesis
      using list Inr log(1) gone unfolding poller_ok_def st'(2) by (auto simp: st'(1)) (metis option.distinct(1) poller_state.select_convs(1) st'(1))
  qed
  then show "poller_ok st'" and "?pass" by auto
qed

lemma Start_ok:
  assumes "run_state (Start p n st) w = (st', w')" and "poller_ok st"
  shows "poller_ok st'"
  using assms
proof (induction n arbitrary: st w)
  case (Suc n)
  obtain st1 w1 where 1: "run_state (poll p st) w = (st1, w1)" by fastforce
  with Suc.prems have "run_state (Start p n st1) w1 = (st', w')" by simp
  from Suc.IH [OF this] poll_step(1) [OF 1 Suc.prems(2)] show ?case by simp
qed (simp add: poll_step(1))

text \<open>
  (C18) After any number of passes, a further one that cannot list the clusters changes nothing; and one that can
  leaves the gauges as a function of its own readings, whatever they were before. Let \<open>log\<close> be the
  results of the calls the pass makes on the listed clusters. A node in it whose (last) reading succeeded has the success
  gauge at 1 and every number of that reading, under its own label, and no other; a node whose reading failed has the success gauge at 0 and
  no number; a node that was not read has no series at all.
\<close>

theorem stats_never_stale:
  assumes "run_state (Start p ticks NewTechnitiumStatsPoller) w0 = (st, w)" and "run_state (poll p st) w = (st', w')"
  shows "case run_state (klist (sp_clusters p) [] []) w of
      (Inl _, w1) \<Rightarrow> st' = st \<and> w' = w1
    | (Inr items, w1) \<Rightarrow> \<exists>log. run_state (read_clusters p items) w1 = (log, w') \<and>
        (\<forall>c n. case map_of (rev log) (c, n) of
           Some (Some s) \<Rightarrow> \<forall>g l. g \<noteq> lastSuccess \<longrightarrow> pst_metrics st' (g, c, n, l) = map_option Float64 (series_of s g l)
         | Some None \<Rightarrow> \<forall>g l. g \<noteq> lastSuccess \<longrightarrow>
             pst_metrics st' (g, c, n, l) = (if g = scrapeSuccess \<and> l = [] then Some (Float64 0) else None)
         | None \<Rightarrow> \<forall>g l. pst_metrics st' (g, c, n, l) = None)"
proof -
  have "poller_ok NewTechnitiumStatsPoller"
    by (simp add: poller_ok_def NewTechnitiumStatsPoller_def labels_ok_def)
  note step = poll_step(2) [OF assms(2) Start_ok [OF assms(1) this]]
  obtain res w1 where list: "run_state (klist (sp_clusters p) [] []) w = (res, w1)" by fastforce
  show ?thesis
  proof (cases res)
    case (Inl e)
    with step list show ?thesis by simp
  next
    case (Inr items)
    with step list obtain log where log: "run_state (read_clusters p items) w1 = (log, w')" "shows_pass (pst_metrics st') log" by auto
    have "case map_of (rev log) (c, n) of
           Some (Some s) \<Rightarrow> \<forall>g l. g \<noteq> lastSuccess \<longrightarrow> pst_metrics st' (g, c, n, l) = map_option Float64 (series_of s g l)
         | Some None \<Rightarrow> \<forall>g l. g \<noteq> lastSuccess \<longrightarrow>
             pst_metrics st' (g, c, n, l) = (if g = scrapeSuccess \<and> l = [] then Some (Float64 0) else None)
         | None \<Rightarrow> \<forall>g l. pst_metrics st' (g, c, n, l) = None" for c n
      using log(2) [unfolded shows_pass_def, THEN spec, THEN spec, of c n]
      by (cases "map_of (rev log) (c, n)") (auto simp: shows_reading_def split: option.split)
    with log(1) list Inr show ?thesis by auto
  qed
qed

text \<open>A poller that lists one cluster with a node that answers and a node that is not ready, for the witness.\<close>

definition sample_stats :: dashboard_stats where
  "sample_stats = zero_dashboard_stats\<lparr>st_Zones := 7\<rparr>"

definition sample_nodes :: "node_status list" where
  "sample_nodes = [\<lparr>ns_Name = ''dns-0'', ns_Role = [], ns_State = ''Self'', ns_Version = [], ns_LastSynced = None, ns_Message = []\<rparr>,
     \<lparr>ns_Name = ''dns-1'', ns_Role = [], ns_State = ''NotReady'', ns_Version = [], ns_LastSynced = None, ns_Message = []\<rparr>]"

definition sample_poller :: "unit stats_poller" where
  "sample_poller = \<lparr>sp_rt = plain_runtime (\<lambda>_ s. (RequestFailed ''down'', s)) (Pair 0), sp_clusters = (sample_clusters)
     \<lparr>kc_List := (\<lambda>_ _ s. (Inr [sample_cluster\<lparr>tc_Status := (tc_Status sample_cluster)\<lparr>ts_Nodes := sample_nodes\<rparr>\<rparr>], s))\<rparr>,
     sp_secrets = sample_secrets, sp_OperatorNamespace = ''ops'', sp_NewStatsClient = Some (\<lambda>_ _. ok (ok sample_stats))\<rparr>"

lemma sample_readings:
  "fst (run_state (read_clusters sample_poller [sample_cluster\<lparr>tc_Status := (tc_Status sample_cluster)\<lparr>ts_Nodes := sample_nodes\<rparr>\<rparr>]) w) =
     [((''dns'', ''dns-0''), Some sample_stats), ((''dns'', ''dns-1''), None)]"
proof -
  have o: "ParseInt32 (TrimPrefix ''dns-0'' ''dns-'') = Some 0" "ParseInt32 (TrimPrefix ''dns-1'' ''dns-'') = Some 1"
    "nodeJoined ''Self''" "\<not> nodeJoined ''NotReady''" by code_simp+
  show ?thesis
    using o
    by (simp add: read_cluster_def sample_poller_def sample_nodes_def sample_cluster_def zero_meta_def adminSecretKeyFor_def adminSecretName_def
        run_kube sample_secrets_def sample_secret_def map_get_def adminSecretTokenKey_def read_node_def statsClient_def run_or_return run_now)
qed

theorem stats_never_stale_witness:
  "\<exists>st w st' w'. run_state (Start sample_poller 1 NewTechnitiumStatsPoller) (empty_world ()) = (st, w) \<and>
    run_state (poll sample_poller st) w = (st', w') \<and>
    pst_metrics st' (zones, ''dns'', ''dns-0'', []) = Some (Float64 7) \<and>
    pst_metrics st' (scrapeSuccess, ''dns'', ''dns-1'', []) = Some (Float64 0)"
proof -
  obtain st w where start: "run_state (Start sample_poller 1 NewTechnitiumStatsPoller) (empty_world ()) = (st, w)" by fastforce
  obtain st' w' where pass: "run_state (poll sample_poller st) w = (st', w')" by fastforce
  obtain w1 where list: "run_state (klist (sp_clusters sample_poller) [] []) w =
      (Inr [sample_cluster\<lparr>tc_Status := (tc_Status sample_cluster)\<lparr>ts_Nodes := sample_nodes\<rparr>\<rparr>], w1)"
    by (simp add: sample_poller_def run_kube)
  from stats_never_stale [OF start pass] list
  obtain log where log: "run_state (read_clusters sample_poller [sample_cluster\<lparr>tc_Status := (tc_Status sample_cluster)\<lparr>ts_Nodes := sample_nodes\<rparr>\<rparr>]) w1 = (log, w')"
    and shown: "\<And>c n. case map_of (rev log) (c, n) of
        Some (Some s) \<Rightarrow> \<forall>g l. g \<noteq> lastSuccess \<longrightarrow> pst_metrics st' (g, c, n, l) = map_option Float64 (series_of s g l)
      | Some None \<Rightarrow> \<forall>g l. g \<noteq> lastSuccess \<longrightarrow>
          pst_metrics st' (g, c, n, l) = (if g = scrapeSuccess \<and> l = [] then Some (Float64 0) else None)
      | None \<Rightarrow> \<forall>g l. pst_metrics st' (g, c, n, l) = None"
    by auto
  have "log = [((''dns'', ''dns-0''), Some sample_stats), ((''dns'', ''dns-1''), None)]" using sample_readings [of w1] log by simp
  with shown [of "''dns''" "''dns-0''"] shown [of "''dns''" "''dns-1''"] start pass show ?thesis
    by (auto simp: sample_stats_def)
qed

end
