(* ===== verification/Operator_Main.thy ===== *)
theory Operator_Main
  imports External_DNS_Run Stats_Poller
begin

text \<open>
  The operator's process (\<^verbatim>\<open>cmd/main.go\<close>): its flags, the options of the manager, and the registrations with the
  manager before it is started. The manager, \<^verbatim>\<open>ctrl.NewManager\<close> and what a registration does with
  it are controller-runtime's: a registration is a value of \<open>setup_step\<close>, handed to the parameter
  \<open>oe_step\<close>, and the state keeps the steps made so far, in order. A failed step is logged and ends the process
  with status 1.
\<close>

section \<open>Flags\<close>

record 'z operator_vars =
  ov_metricsAddr :: string
  ov_metricsCertPath :: string
  ov_metricsCertName :: string
  ov_metricsCertKey :: string
  ov_webhookCertPath :: string
  ov_webhookCertName :: string
  ov_webhookCertKey :: string
  ov_enableLeaderElection :: bool
  ov_probeAddr :: string
  ov_statsInterval :: int
  ov_secureMetrics :: bool
  ov_enableHTTP2 :: bool
  ov_opts :: 'z

definition operator_defaults :: "'z \<Rightarrow> 'z operator_vars" where
  "operator_defaults opts = \<lparr>ov_metricsAddr = ''0'', ov_metricsCertPath = [], ov_metricsCertName = ''tls.crt'', ov_metricsCertKey = ''tls.key'',
     ov_webhookCertPath = [], ov_webhookCertName = ''tls.crt'', ov_webhookCertKey = ''tls.key'', ov_enableLeaderElection = False,
     ov_probeAddr = '':8081'', ov_statsInterval = 60 * 1000000000, ov_secureMetrics = True, ov_enableHTTP2 = False, ov_opts = opts\<rparr>"

definition logger_flag :: "'z go_flag \<Rightarrow> 'z operator_vars go_flag" where
  "logger_flag fl = \<lparr>fl_IsBoolFlag = fl_IsBoolFlag fl, fl_Set = (\<lambda>v c. map_sum id (\<lambda>z. c\<lparr>ov_opts := z\<rparr>) (fl_Set fl v (ov_opts c)))\<rparr>"

definition operator_flags :: "(nat \<Rightarrow> nat \<Rightarrow> nat \<Rightarrow> nat) \<Rightarrow> 'z flag_set \<Rightarrow> 'z operator_vars flag_set" where
  "operator_flags frac zap =
     [(''metrics-bind-address'', StringVar (\<lambda>v c. c\<lparr>ov_metricsAddr := v\<rparr>)),
      (''technitium-stats-interval'', DurationVar frac (\<lambda>v c. c\<lparr>ov_statsInterval := v\<rparr>)),
      (''health-probe-bind-address'', StringVar (\<lambda>v c. c\<lparr>ov_probeAddr := v\<rparr>)),
      (''leader-elect'', BoolVar (\<lambda>v c. c\<lparr>ov_enableLeaderElection := v\<rparr>)),
      (''metrics-secure'', BoolVar (\<lambda>v c. c\<lparr>ov_secureMetrics := v\<rparr>)),
      (''webhook-cert-path'', StringVar (\<lambda>v c. c\<lparr>ov_webhookCertPath := v\<rparr>)),
      (''webhook-cert-name'', StringVar (\<lambda>v c. c\<lparr>ov_webhookCertName := v\<rparr>)),
      (''webhook-cert-key'', StringVar (\<lambda>v c. c\<lparr>ov_webhookCertKey := v\<rparr>)),
      (''metrics-cert-path'', StringVar (\<lambda>v c. c\<lparr>ov_metricsCertPath := v\<rparr>)),
      (''metrics-cert-name'', StringVar (\<lambda>v c. c\<lparr>ov_metricsCertName := v\<rparr>)),
      (''metrics-cert-key'', StringVar (\<lambda>v c. c\<lparr>ov_metricsCertKey := v\<rparr>)),
      (''enable-http2'', BoolVar (\<lambda>v c. c\<lparr>ov_enableHTTP2 := v\<rparr>))]
     @ map (\<lambda>(n, fl). (n, logger_flag fl)) zap"

section \<open>The options of the manager\<close>

record tls_config =
  tls_NextProtos :: "string list"

datatype tls_option = DisableHTTP2

primrec disableHTTP2 :: "tls_option \<Rightarrow> tls_config \<Rightarrow> tls_config" where
  "disableHTTP2 DisableHTTP2 c = c\<lparr>tls_NextProtos := [''http/1.1'']\<rparr>"

definition tlsOpts :: "'z operator_vars \<Rightarrow> tls_option list" where
  "tlsOpts v = (if \<not> ov_enableHTTP2 v then [DisableHTTP2] else [])"

record webhook_options =
  wo_TLSOpts :: "tls_option list"
  wo_CertDir :: string
  wo_CertName :: string
  wo_KeyName :: string

definition webhookServerOptions :: "'z operator_vars \<Rightarrow> webhook_options" where
  "webhookServerOptions v =
     (let o0 = \<lparr>wo_TLSOpts = tlsOpts v, wo_CertDir = [], wo_CertName = [], wo_KeyName = []\<rparr>
      in if 0 < length (ov_webhookCertPath v)
         then o0\<lparr>wo_CertDir := ov_webhookCertPath v, wo_CertName := ov_webhookCertName v, wo_KeyName := ov_webhookCertKey v\<rparr> else o0)"

datatype filter_provider = WithAuthenticationAndAuthorization

record metrics_options =
  ms_BindAddress :: string
  ms_SecureServing :: bool
  ms_TLSOpts :: "tls_option list"
  ms_FilterProvider :: "filter_provider option"
  ms_CertDir :: string
  ms_CertName :: string
  ms_KeyName :: string

definition metricsServerOptions :: "'z operator_vars \<Rightarrow> metrics_options" where
  "metricsServerOptions v =
     (let o0 = \<lparr>ms_BindAddress = ov_metricsAddr v, ms_SecureServing = ov_secureMetrics v, ms_TLSOpts = tlsOpts v,
                ms_FilterProvider = None, ms_CertDir = [], ms_CertName = [], ms_KeyName = []\<rparr>;
          o1 = (if ov_secureMetrics v then o0\<lparr>ms_FilterProvider := Some WithAuthenticationAndAuthorization\<rparr> else o0)
      in if 0 < length (ov_metricsCertPath v)
         then o1\<lparr>ms_CertDir := ov_metricsCertPath v, ms_CertName := ov_metricsCertName v, ms_KeyName := ov_metricsCertKey v\<rparr> else o1)"

record manager_options =
  mo_Metrics :: metrics_options
  mo_WebhookServer :: webhook_options
  mo_HealthProbeBindAddress :: string
  mo_LeaderElection :: bool
  mo_LeaderElectionID :: string

definition managerOptions :: "'z operator_vars \<Rightarrow> manager_options" where
  "managerOptions v = \<lparr>mo_Metrics = metricsServerOptions v, mo_WebhookServer = webhookServerOptions v,
     mo_HealthProbeBindAddress = ov_probeAddr v, mo_LeaderElection = ov_enableLeaderElection v,
     mo_LeaderElectionID = ''ac3dc08b.packet.fail''\<rparr>"

section \<open>Registrations\<close>

text \<open>
  What each \<^verbatim>\<open>SetupWithManager\<close> asks of the builder: the kind it reconciles, the kinds it owns, the kinds it
  watches through a mapping of its own (only changes of the generation), and its name.
\<close>

record controller_builder =
  cb_For :: string
  cb_Owns :: "string list"
  cb_Watches :: "string list"
  cb_Named :: string

definition ZoneReconciler_SetupWithManager :: controller_builder where
  "ZoneReconciler_SetupWithManager = \<lparr>cb_For = ''Zone'', cb_Owns = [], cb_Watches = [''TechnitiumCluster''], cb_Named = ''zone''\<rparr>"

definition TechnitiumClusterReconciler_SetupWithManager :: controller_builder where
  "TechnitiumClusterReconciler_SetupWithManager = \<lparr>cb_For = ''TechnitiumCluster'',
     cb_Owns = [''StatefulSet'', ''Service'', ''Secret'', ''PodDisruptionBudget''], cb_Watches = [], cb_Named = ''technitiumcluster''\<rparr>"

definition RecordReconciler_SetupWithManager :: controller_builder where
  "RecordReconciler_SetupWithManager = \<lparr>cb_For = ''Record'', cb_Owns = [], cb_Watches = [], cb_Named = ''record''\<rparr>"

definition ServerSettingsReconciler_SetupWithManager :: controller_builder where
  "ServerSettingsReconciler_SetupWithManager = \<lparr>cb_For = ''ServerSettings'', cb_Owns = [], cb_Watches = [], cb_Named = ''serversettings''\<rparr>"

definition BlocklistReconciler_SetupWithManager :: controller_builder where
  "BlocklistReconciler_SetupWithManager = \<lparr>cb_For = ''Blocklist'', cb_Owns = [], cb_Watches = [], cb_Named = ''blocklist''\<rparr>"

definition DHCPScopeReconciler_SetupWithManager :: controller_builder where
  "DHCPScopeReconciler_SetupWithManager = \<lparr>cb_For = ''DHCPScope'', cb_Owns = [], cb_Watches = [], cb_Named = ''dhcpscope''\<rparr>"

definition DNSSECReconciler_SetupWithManager :: controller_builder where
  "DNSSECReconciler_SetupWithManager = \<lparr>cb_For = ''DNSSEC'', cb_Owns = [], cb_Watches = [], cb_Named = ''dnssec''\<rparr>"

definition DNSAppReconciler_SetupWithManager :: controller_builder where
  "DNSAppReconciler_SetupWithManager = \<lparr>cb_For = ''DNSApp'', cb_Owns = [], cb_Watches = [], cb_Named = ''dnsapp''\<rparr>"

text \<open>A webhook registration: the kind, whose validator and defaulter it names.\<close>

record webhook_builder =
  wb_For :: string
  wb_Validator :: string
  wb_Defaulter :: string

definition SetupZoneWebhookWithManager :: webhook_builder where
  "SetupZoneWebhookWithManager = \<lparr>wb_For = ''Zone'', wb_Validator = ''ZoneCustomValidator'', wb_Defaulter = ''ZoneCustomDefaulter''\<rparr>"

definition SetupRecordWebhookWithManager :: webhook_builder where
  "SetupRecordWebhookWithManager = \<lparr>wb_For = ''Record'', wb_Validator = ''RecordCustomValidator'', wb_Defaulter = ''RecordCustomDefaulter''\<rparr>"

definition SetupServerSettingsWebhookWithManager :: webhook_builder where
  "SetupServerSettingsWebhookWithManager =
     \<lparr>wb_For = ''ServerSettings'', wb_Validator = ''ServerSettingsCustomValidator'', wb_Defaulter = ''ServerSettingsCustomDefaulter''\<rparr>"

definition SetupBlocklistWebhookWithManager :: webhook_builder where
  "SetupBlocklistWebhookWithManager =
     \<lparr>wb_For = ''Blocklist'', wb_Validator = ''BlocklistCustomValidator'', wb_Defaulter = ''BlocklistCustomDefaulter''\<rparr>"

definition SetupDHCPScopeWebhookWithManager :: webhook_builder where
  "SetupDHCPScopeWebhookWithManager =
     \<lparr>wb_For = ''DHCPScope'', wb_Validator = ''DHCPScopeCustomValidator'', wb_Defaulter = ''DHCPScopeCustomDefaulter''\<rparr>"

definition SetupDNSSECWebhookWithManager :: webhook_builder where
  "SetupDNSSECWebhookWithManager = \<lparr>wb_For = ''DNSSEC'', wb_Validator = ''DNSSECCustomValidator'', wb_Defaulter = ''DNSSECCustomDefaulter''\<rparr>"

definition SetupDNSAppWebhookWithManager :: webhook_builder where
  "SetupDNSAppWebhookWithManager = \<lparr>wb_For = ''DNSApp'', wb_Validator = ''DNSAppCustomValidator'', wb_Defaulter = ''DNSAppCustomDefaulter''\<rparr>"

datatype setup_step =
    NewManager manager_options
  | SetupController controller_builder string
  | RegisterCollector gauge_vec
  | AddPoller string int
  | SetupWebhook webhook_builder
  | AddHealthzCheck string
  | AddReadyzCheck string
  | StartManager

definition operatorNamespace :: "process_env \<Rightarrow> string" where
  "operatorNamespace env = (let ns = pe_Getenv env ''POD_NAMESPACE'' in if ns = [] then ''default'' else ns)"

definition webhooks_enabled :: "process_env \<Rightarrow> bool" where
  "webhooks_enabled env \<longleftrightarrow> pe_Getenv env ''ENABLE_WEBHOOKS'' \<noteq> ''false''"

definition setup_webhooks :: "process_env \<Rightarrow> webhook_builder list \<Rightarrow> setup_step list" where
  "setup_webhooks env wbs = (if webhooks_enabled env then map SetupWebhook wbs else [])"

definition setup_poller :: "process_env \<Rightarrow> 'z operator_vars \<Rightarrow> setup_step list" where
  "setup_poller env v =
     (if 0 < ov_statsInterval v then map RegisterCollector collectors @ [AddPoller (operatorNamespace env) (ov_statsInterval v)] else [])"

definition setup_steps :: "process_env \<Rightarrow> 'z operator_vars \<Rightarrow> setup_step list" where
  "setup_steps env v =
     (let ns = operatorNamespace env
      in [SetupController ZoneReconciler_SetupWithManager ns, SetupController TechnitiumClusterReconciler_SetupWithManager ns,
          SetupController RecordReconciler_SetupWithManager ns]
         @ setup_poller env v
         @ setup_webhooks env [SetupZoneWebhookWithManager, SetupRecordWebhookWithManager]
         @ [SetupController ServerSettingsReconciler_SetupWithManager ns] @ setup_webhooks env [SetupServerSettingsWebhookWithManager]
         @ [SetupController BlocklistReconciler_SetupWithManager ns] @ setup_webhooks env [SetupBlocklistWebhookWithManager]
         @ [SetupController DHCPScopeReconciler_SetupWithManager ns] @ setup_webhooks env [SetupDHCPScopeWebhookWithManager]
         @ [SetupController DNSSECReconciler_SetupWithManager ns] @ setup_webhooks env [SetupDNSSECWebhookWithManager]
         @ [SetupController DNSAppReconciler_SetupWithManager ns] @ setup_webhooks env [SetupDNSAppWebhookWithManager]
         @ [AddHealthzCheck ''healthz'', AddReadyzCheck ''readyz''])"

section \<open>The process\<close>

record 's operator_env =
  oe_process :: process_env
  oe_GetConfigOrDie :: "'s \<Rightarrow> bool \<times> 's"
  oe_step :: "setup_step \<Rightarrow> 's \<Rightarrow> (go_error + unit) \<times> 's"
  oe_webhook :: "'s run_env"

record 's op_world =
  op_ext :: 's
  op_steps :: "setup_step list"

definition op_outside :: "('s \<Rightarrow> 'a \<times> 's) \<Rightarrow> ('s op_world, 'a) state" where
  "op_outside f = State (\<lambda>w. case f (op_ext w) of (a, s) \<Rightarrow> (a, w\<lparr>op_ext := s\<rparr>))"

definition perform :: "'s operator_env \<Rightarrow> setup_step \<Rightarrow> ('s op_world, go_error + unit) state" where
  "perform env st = do {
     r \<leftarrow> op_outside (oe_step env st);
     State (\<lambda>w. (r, w\<lparr>op_steps := op_steps w @ [st]\<rparr>))
   }"

definition run_operator :: "'s operator_env \<Rightarrow> 'z operator_vars \<Rightarrow> ('s op_world, int) state" where
  "run_operator env v = do {
     configured \<leftarrow> op_outside (oe_GetConfigOrDie env);
     if \<not> configured then ret 1
     else do {
       r \<leftarrow> for_each (perform env) (NewManager (managerOptions v) # setup_steps (oe_process env) v @ [StartManager]);
       ret (case r of Inl _ \<Rightarrow> 1 | Inr _ \<Rightarrow> 0)
     }
   }"

definition run_status :: "run_end \<Rightarrow> int" where
  "run_status e = (case e of RunReturned None \<Rightarrow> 0 | RunReturned (Some _) \<Rightarrow> 1 | RunExited n \<Rightarrow> n)"

text \<open>\<^verbatim>\<open>main\<close> on the arguments after the program's name: the exit status.\<close>

definition operator_main ::
  "'s operator_env \<Rightarrow> (nat \<Rightarrow> nat \<Rightarrow> nat \<Rightarrow> nat) \<Rightarrow> 'z flag_set \<Rightarrow> 'z \<Rightarrow> string list \<Rightarrow> ('s op_world, int) state" where
  "operator_main env frac zap opts args =
     (if args \<noteq> [] \<and> hd args = ''external-dns-webhook'' then do {
        e \<leftarrow> op_outside (Run (oe_webhook env) zap opts (tl args));
        ret (run_status e)
      }
      else case Parse (operator_flags frac zap) args (operator_defaults opts) of
        Inl err \<Rightarrow> ret (exit_on_error err)
      | Inr (v, _) \<Rightarrow> run_operator env v)"

section \<open>What is registered before the manager starts\<close>

lemma perform_loop:
  assumes "run_state (for_each (perform env) xs) w = (r, w')"
  shows "\<exists>k \<le> length xs. op_steps w' = op_steps w @ take k xs \<and> (r = Inr () \<longrightarrow> k = length xs)"
  using assms
proof (induction xs arbitrary: w)
  case (Cons x xs)
  obtain r1 w1 where head: "run_state (perform env x) w = (r1, w1)" by fastforce
  then have w1: "op_steps w1 = op_steps w @ [x]"
    by (auto simp: perform_def op_outside_def split: prod.splits)
  show ?case
  proof (cases r1)
    case (Inl e)
    then show ?thesis using Cons.prems head w1 by (auto simp: run_or_return intro: exI [of _ 1])
  next
    case (Inr u)
    then have "run_state (for_each (perform env) xs) w1 = (r, w')" using Cons.prems head by (simp add: run_or_return)
    from Cons.IH [OF this] obtain k where "k \<le> length xs" "op_steps w' = op_steps w1 @ take k xs" "r = Inr () \<longrightarrow> k = length xs"
      by blast
    then show ?thesis by (intro exI [of _ "Suc k"]) (simp add: w1)
  qed
qed auto

lemma op_outside_steps: "run_state (op_outside f) w = (a, w') \<Longrightarrow> op_steps w' = op_steps w"
  by (auto simp: op_outside_def split: prod.splits)

lemma operator_main_cases:
  assumes "run_state (operator_main env frac zap opts args) w = (status, w')"
  shows "(\<exists>v rest. Parse (operator_flags frac zap) args (operator_defaults opts) = Inr (v, rest) \<and>
      run_state (run_operator env v) w = (status, w')) \<or> op_steps w' = op_steps w"
proof (cases "args \<noteq> [] \<and> hd args = ''external-dns-webhook''")
  case True
  then show ?thesis using assms by (auto simp: operator_main_def dest: op_outside_steps split: prod.splits)
next
  case False
  then show ?thesis using assms by (auto simp: operator_main_def simp del: Parse_Nil split: sum.splits)
qed

lemma run_operator_cases:
  assumes "run_state (run_operator env v) w = (status, w')"
  shows "(\<exists>w1 r. op_steps w1 = op_steps w \<and>
      run_state (for_each (perform env) ((NewManager (managerOptions v) # setup_steps (oe_process env) v) @ [StartManager])) w1 = (r, w')) \<or>
    op_steps w' = op_steps w"
proof -
  obtain c w1 where c: "run_state (op_outside (oe_GetConfigOrDie env)) w = (c, w1)" by fastforce
  show ?thesis
  proof (cases c)
    case True
    obtain r w2 where loop: "run_state (for_each (perform env) ((NewManager (managerOptions v) # setup_steps (oe_process env) v) @ [StartManager])) w1 = (r, w2)"
      by fastforce
    then have "w2 = w'" using assms c True by (simp add: run_operator_def)
    with loop op_outside_steps [OF c] show ?thesis by blast
  next
    case False
    then show ?thesis using assms c op_outside_steps [OF c] by (simp add: run_operator_def)
  qed
qed

text \<open>The controllers and the webhooks among the steps, in order.\<close>

definition controllers_set_up :: "setup_step list \<Rightarrow> (string \<times> string) list" where
  "controllers_set_up sts = concat (map (\<lambda>st. case st of SetupController cb ns \<Rightarrow> [(cb_For cb, ns)] | _ \<Rightarrow> []) sts)"

definition webhooks_set_up :: "setup_step list \<Rightarrow> string list" where
  "webhooks_set_up sts = concat (map (\<lambda>st. case st of SetupWebhook wb \<Rightarrow> [wb_For wb] | _ \<Rightarrow> []) sts)"

lemmas registrations = ZoneReconciler_SetupWithManager_def TechnitiumClusterReconciler_SetupWithManager_def
  RecordReconciler_SetupWithManager_def ServerSettingsReconciler_SetupWithManager_def BlocklistReconciler_SetupWithManager_def
  DHCPScopeReconciler_SetupWithManager_def DNSSECReconciler_SetupWithManager_def DNSAppReconciler_SetupWithManager_def
  SetupZoneWebhookWithManager_def SetupRecordWebhookWithManager_def SetupServerSettingsWebhookWithManager_def
  SetupBlocklistWebhookWithManager_def SetupDHCPScopeWebhookWithManager_def SetupDNSSECWebhookWithManager_def
  SetupDNSAppWebhookWithManager_def

lemma set_up_append [simp]:
  "controllers_set_up (xs @ ys) = controllers_set_up xs @ controllers_set_up ys"
  "webhooks_set_up (xs @ ys) = webhooks_set_up xs @ webhooks_set_up ys"
  by (simp_all add: controllers_set_up_def webhooks_set_up_def)

lemma set_up_Cons [simp]:
  "controllers_set_up (SetupController cb ns # xs) = (cb_For cb, ns) # controllers_set_up xs"
  "controllers_set_up (SetupWebhook wb # xs) = controllers_set_up xs" "controllers_set_up (AddHealthzCheck n # xs) = controllers_set_up xs"
  "controllers_set_up (AddReadyzCheck n # xs) = controllers_set_up xs" "controllers_set_up (NewManager opts # xs) = controllers_set_up xs"
  "controllers_set_up (StartManager # xs) = controllers_set_up xs" "controllers_set_up [] = []"
  "webhooks_set_up (SetupWebhook wb # xs) = wb_For wb # webhooks_set_up xs"
  "webhooks_set_up (SetupController cb ns # xs) = webhooks_set_up xs" "webhooks_set_up (AddHealthzCheck n # xs) = webhooks_set_up xs"
  "webhooks_set_up (AddReadyzCheck n # xs) = webhooks_set_up xs" "webhooks_set_up (NewManager opts # xs) = webhooks_set_up xs"
  "webhooks_set_up (StartManager # xs) = webhooks_set_up xs" "webhooks_set_up [] = []"
  by (simp_all add: controllers_set_up_def webhooks_set_up_def)

lemma set_up_poller [simp]: "controllers_set_up (setup_poller env v) = []" "webhooks_set_up (setup_poller env v) = []"
  by (auto simp: setup_poller_def controllers_set_up_def webhooks_set_up_def)

lemma set_up_webhooks [simp]:
  "controllers_set_up (setup_webhooks env wbs) = []"
  "webhooks_set_up (setup_webhooks env wbs) = (if webhooks_enabled env then map wb_For wbs else [])"
  by (auto simp: setup_webhooks_def controllers_set_up_def webhooks_set_up_def comp_def)

lemma set_up_steps:
  "controllers_set_up (setup_steps env v) = map (\<lambda>kind. (kind, operatorNamespace env))
     [''Zone'', ''TechnitiumCluster'', ''Record'', ''ServerSettings'', ''Blocklist'', ''DHCPScope'', ''DNSSEC'', ''DNSApp'']"
  "webhooks_set_up (setup_steps env v) = (if webhooks_enabled env then
     [''Zone'', ''Record'', ''ServerSettings'', ''Blocklist'', ''DHCPScope'', ''DNSSEC'', ''DNSApp''] else [])"
  by (simp_all add: setup_steps_def Let_def registrations)

lemma StartManager_not_setup: "StartManager \<notin> set (NewManager opts # setup_steps env v)"
  by (auto simp: setup_steps_def setup_poller_def setup_webhooks_def Let_def split: if_splits)

lemma take_last_only: "x \<in> set (take k (xs @ [x])) \<Longrightarrow> x \<notin> set xs \<Longrightarrow> take k (xs @ [x]) = xs @ [x]"
  by (cases "k \<le> length xs") (auto dest: in_set_takeD)

text \<open>
  (C23) The manager is started only once everything is registered with it: when the process starts it, the flags were parsed,
  the manager was made with the options they give, each of the eight controllers was set up once, all with the same
  operator namespace, and the webhooks of the seven kinds besides TechnitiumCluster were set up once each, unless
  they are switched off. The process makes no step after the start.
\<close>

theorem manager_starts_complete:
  assumes "run_state (operator_main env frac zap opts args) w = (status, w')" and "op_steps w = []"
    and "StartManager \<in> set (op_steps w')"
  shows "\<exists>v rest setup. Parse (operator_flags frac zap) args (operator_defaults opts) = Inr (v, rest) \<and>
    op_steps w' = NewManager (managerOptions v) # setup @ [StartManager] \<and>
    controllers_set_up setup = map (\<lambda>kind. (kind, operatorNamespace (oe_process env)))
      [''Zone'', ''TechnitiumCluster'', ''Record'', ''ServerSettings'', ''Blocklist'', ''DHCPScope'', ''DNSSEC'', ''DNSApp''] \<and>
    webhooks_set_up setup = (if webhooks_enabled (oe_process env) then
      [''Zone'', ''Record'', ''ServerSettings'', ''Blocklist'', ''DHCPScope'', ''DNSSEC'', ''DNSApp''] else [])"
proof -
  obtain v rest where parsed: "Parse (operator_flags frac zap) args (operator_defaults opts) = Inr (v, rest)"
    and run: "run_state (run_operator env v) w = (status, w')"
    using operator_main_cases [OF assms(1)] assms(2,3) by auto
  let ?pre = "NewManager (managerOptions v) # setup_steps (oe_process env) v"
  obtain w1 r where w1: "op_steps w1 = []" and loop: "run_state (for_each (perform env) (?pre @ [StartManager])) w1 = (r, w')"
    using run_operator_cases [OF run] assms(2,3) by auto
  obtain k where "op_steps w' = take k (?pre @ [StartManager])" using perform_loop [OF loop] w1 by auto
  then have "op_steps w' = ?pre @ [StartManager]"
    using take_last_only [of StartManager k ?pre] StartManager_not_setup assms(3) by auto
  with parsed show ?thesis by (intro exI [of _ v] exI [of _ rest] exI [of _ "setup_steps (oe_process env) v"]) (simp add: set_up_steps)
qed

definition sample_operator :: "unit operator_env" where
  "sample_operator = \<lparr>oe_process = empty_env, oe_GetConfigOrDie = (\<lambda>s. (True, s)), oe_step = (\<lambda>_ s. (Inr (), s)),
     oe_webhook = \<lparr>re_process = empty_env, re_GetConfigOrDie = (\<lambda>s. (True, s)), re_NewClient = (\<lambda>s. (Inr (), s)),
       re_Select = (\<lambda>_ s. (None, s)), re_Shutdown = (\<lambda>_ s. s)\<rparr>\<rparr>"

lemma sample_operator_loop:
  "run_state (for_each (perform sample_operator) xs) w = (Inr (), w\<lparr>op_steps := op_steps w @ xs\<rparr>)"
  by (induction xs arbitrary: w) (simp_all add: perform_def op_outside_def sample_operator_def run_or_return)

lemma sample_operator_run:
  "run_state (operator_main sample_operator (\<lambda>_ _ _. 0) [] () []) \<lparr>op_ext = (), op_steps = []\<rparr> =
     (0, \<lparr>op_ext = (), op_steps = NewManager (managerOptions (operator_defaults ())) #
        setup_steps empty_env (operator_defaults ()) @ [StartManager]\<rparr>)"
proof -
  have "oe_process sample_operator = empty_env" "run_state (op_outside (oe_GetConfigOrDie sample_operator)) w = (True, w)" for w
    by (simp_all add: sample_operator_def op_outside_def)
  then show ?thesis by (simp only: operator_main_def run_operator_def) (simp add: sample_operator_loop del: for_each.simps)
qed

theorem manager_starts_complete_witness:
  "\<exists>(v :: unit operator_vars) setup. op_steps (snd (run_state (operator_main sample_operator (\<lambda>_ _ _. 0) [] () []) \<lparr>op_ext = (), op_steps = []\<rparr>)) =
      NewManager (managerOptions v) # setup @ [StartManager] \<and>
    controllers_set_up setup = map (\<lambda>kind. (kind, ''default''))
      [''Zone'', ''TechnitiumCluster'', ''Record'', ''ServerSettings'', ''Blocklist'', ''DHCPScope'', ''DNSSEC'', ''DNSApp'']"
proof -
  have "operatorNamespace (oe_process sample_operator) = ''default''"
    by (simp add: sample_operator_def empty_env_def operatorNamespace_def)
  then show ?thesis using manager_starts_complete [OF sample_operator_run] unfolding sample_operator_run
    by (auto intro: exI [of _ "operator_defaults ()"])
qed

section \<open>What the servers of the manager offer\<close>

text \<open>
  Unless HTTP/2 is switched on, the last word on the protocols of both servers is HTTP/1.1; the metrics are served behind
  authentication and authorization exactly when they are served over TLS.
\<close>

lemma servers_hardened:
  "\<not> ov_enableHTTP2 v \<Longrightarrow> tls_NextProtos (fold disableHTTP2 (wo_TLSOpts (mo_WebhookServer (managerOptions v))) c) = [''http/1.1'']"
  "\<not> ov_enableHTTP2 v \<Longrightarrow> tls_NextProtos (fold disableHTTP2 (ms_TLSOpts (mo_Metrics (managerOptions v))) c) = [''http/1.1'']"
  "ms_FilterProvider (mo_Metrics (managerOptions v)) \<noteq> None \<longleftrightarrow> ms_SecureServing (mo_Metrics (managerOptions v))"
  by (simp_all add: managerOptions_def webhookServerOptions_def metricsServerOptions_def tlsOpts_def Let_def)

end
