(* ===== verification/External_DNS_Publish.thy ===== *)
theory External_DNS_Publish
  imports External_DNS_Server
begin

text \<open>
  The ExternalDNS webhook and the Record controller together: what becomes on the server of an endpoint
  ExternalDNS asks for. The webhook turns the endpoint into one Record for each target
  (\<open>Desired\<close>), the API server stores them with a status of their own and its defaults, and the controller reconciles each
  against the server (\<open>applyRecord\<close>).
\<close>

section \<open>Records of an endpoint\<close>

text \<open>
  A stored Record that has the fields the controller acts on from the webhook, and has not been reconciled
  before.
\<close>

definition fresh_copy :: "record_resource \<Rightarrow> record_resource \<Rightarrow> bool" where
  "fresh_copy rec des \<longleftrightarrow> rs_Zone (rec_Spec rec) = rs_Zone (rec_Spec des) \<and> rs_Name (rec_Spec rec) = rs_Name (rec_Spec des) \<and>
     rs_Type (rec_Spec rec) = rs_Type (rec_Spec des) \<and> rs_TTL (rec_Spec rec) = rs_TTL (rec_Spec des) \<and>
     rs_Data (rec_Spec rec) = rs_Data (rec_Spec des) \<and> rs_Priority (rec_Spec rec) = rs_Priority (rec_Spec des) \<and>
     rst_AppliedData (rec_Status rec) = []"

text \<open>The types whose records are told apart by one text, and that text.\<close>

definition text_types :: "string list" where
  "text_types = [RecordTypeA, RecordTypeAAAA, RecordTypeTXT, RecordTypeNS, RecordTypePTR]"

definition rdata_text :: "dns_record \<Rightarrow> string" where
  "rdata_text tr =
     (let t = tr_Type tr; d = tr_RData tr
      in if t = RecordTypeA \<or> t = RecordTypeAAAA then rd_IPAddress d
         else if t = RecordTypeTXT then rd_Text d
         else if t = RecordTypeNS then rd_NameServer d
         else if t = RecordTypePTR then rd_PtrName d else [])"

text \<open>The set of records of a name that answers exactly the targets.\<close>

definition serves :: "string \<Rightarrow> int \<Rightarrow> string set \<Rightarrow> dns_record set \<Rightarrow> bool" where
  "serves t ttl targets S \<longleftrightarrow> rdata_text ` S = targets \<and> (\<forall>tr \<in> S. tr_Type tr = t \<and> tr_TTL tr = ttl)"

lemma claims_text:
  assumes "rs_Type spec \<in> set text_types"
  shows "claims spec tr \<longleftrightarrow> tr_Type tr = rs_Type spec \<and> rdata_text tr = rs_Data spec"
  using assms by (auto simp: text_types_def record_type_defs claims_def recordDataMatches_def rdata_text_def Let_def)

lemma text_types_record_types:
  "t \<in> set text_types \<Longrightarrow> t \<in> set record_types \<and> t \<noteq> RecordTypeCNAME \<and> t \<noteq> RecordTypeMX"
  by (auto simp: text_types_def record_types_def record_type_defs)

lemma Desired_text:
  assumes "Desired t ep tg = Inr des" and "ToUpper (ep_RecordType ep) \<in> set text_types" and "0 < ep_RecordTTL ep"
  shows "rs_Type (rec_Spec des) = ToUpper (ep_RecordType ep) \<and> rs_Name (rec_Spec des) = normalizeName (ep_DNSName ep) \<and>
    rs_Data (rec_Spec des) = tg \<and> rs_TTL (rec_Spec des) = Some (min (ep_RecordTTL ep) (2 ^ 31 - 1)) \<and>
    rs_Zone (rec_Spec des) = fst (ZoneFor t (normalizeName (ep_DNSName ep)))"
  using assms(1)
proof (cases rule: Desired_cases)
  case (1 zone)
  then show ?thesis using assms(3) by simp
next
  case (2 zone prio host)
  then show ?thesis using text_types_record_types [OF assms(2)] by simp
qed

section \<open>Reconciling them\<close>

lemma applyRecord_text:
  assumes laws: "record_laws api (rs_Zone (rec_Spec rec)) recs" and ty: "rs_Type (rec_Spec rec) \<in> set text_types"
    and data: "rs_Data (rec_Spec rec) \<noteq> []" and ttl: "rs_TTL (rec_Spec rec) = Some ttl" and fresh: "rst_AppliedData (rec_Status rec) = []"
    and S: "rrset_ok (recs (ext w) (rs_Name (rec_Spec rec)))"
      "serves (rs_Type (rec_Spec rec)) ttl targets (recs (ext w) (rs_Name (rec_Spec rec)))"
  shows "\<exists>w'. run_state (applyRecord api rec) w = (Inr (), w') \<and>
    rrset_ok (recs (ext w') (rs_Name (rec_Spec rec))) \<and>
    serves (rs_Type (rec_Spec rec)) ttl (insert (rs_Data (rec_Spec rec)) targets) (recs (ext w') (rs_Name (rec_Spec rec))) \<and>
    (\<forall>name. name \<noteq> rs_Name (rec_Spec rec) \<longrightarrow> recs (ext w') name = recs (ext w) name)"
proof -
  let ?spec = "rec_Spec rec"
  obtain r w' where run: "run_state (applyRecord api rec) w = (r, w')" by fastforce
  have applied: "appliedSpec rec = ?spec" using fresh by (simp add: appliedSpec_def)
  have ok: "spec_ok ?spec" using ty data text_types_record_types by (auto simp: spec_ok_def)
  have co: "coexists (rs_Type ?spec) (recs (ext w) (rs_Name ?spec))"
    using S(2) text_types_record_types [OF ty] by (auto simp: serves_def coexists_def)
  obtain tr where r: "r = Inr ()" and tr: "record_desired ?spec tr"
    and recs': "recs (ext w') = (recs (ext w))(rs_Name ?spec := rrset_apply ?spec ?spec tr (recs (ext w) (rs_Name ?spec)))"
    and wf: "rrset_ok (recs (ext w') (rs_Name ?spec))"
    using applyRecord_effect [OF laws ok _ _ ttl S(1) co run] ok unfolding applied stale_removable_def by blast
  have "tr_Type tr = rs_Type ?spec" "rdata_text tr = rs_Data ?spec" "tr_TTL tr = ttl"
    using tr record_desired_claims [OF tr] ttl by (auto simp: record_desired_def claims_text [OF ty])
  then have "serves (rs_Type ?spec) ttl (insert (rs_Data ?spec) targets) (rrset_apply ?spec ?spec tr (recs (ext w) (rs_Name ?spec)))"
    using S(2) by (auto simp: serves_def rrset_apply_def claims_text [OF ty] image_iff)
  with r run wf show ?thesis by (auto simp: recs')
qed

lemma applyRecord_all:
  assumes laws: "record_laws api zone recs" and ty: "t \<in> set text_types"
    and "list_all2 (\<lambda>tg rec. rs_Zone (rec_Spec rec) = zone \<and> rs_Name (rec_Spec rec) = name \<and> rs_Type (rec_Spec rec) = t \<and>
      rs_TTL (rec_Spec rec) = Some ttl \<and> rs_Data (rec_Spec rec) = tg \<and> tg \<noteq> [] \<and> rst_AppliedData (rec_Status rec) = []) tgs rs"
    and "rrset_ok (recs (ext w) name)" and "serves t ttl targets (recs (ext w) name)"
  shows "\<exists>w'. run_state (for_each (applyRecord api) rs) w = (Inr (), w') \<and> serves t ttl (set tgs \<union> targets) (recs (ext w') name) \<and>
    (\<forall>other. other \<noteq> name \<longrightarrow> recs (ext w') other = recs (ext w) other)"
  using assms(3-)
proof (induction arbitrary: w targets rule: list_all2_induct)
  case Nil
  then show ?case by auto
next
  case (Cons tg tgs rec rs)
  have "\<exists>w1. run_state (applyRecord api rec) w = (Inr (), w1) \<and> rrset_ok (recs (ext w1) name) \<and>
      serves t ttl (insert tg targets) (recs (ext w1) name) \<and> (\<forall>other. other \<noteq> name \<longrightarrow> recs (ext w1) other = recs (ext w) other)"
    using applyRecord_text [of api rec recs ttl w targets] Cons.hyps(1) Cons.prems laws ty by auto
  then obtain w1 where w1: "run_state (applyRecord api rec) w = (Inr (), w1)" "rrset_ok (recs (ext w1) name)"
    "serves t ttl (insert tg targets) (recs (ext w1) name)" "\<forall>other. other \<noteq> name \<longrightarrow> recs (ext w1) other = recs (ext w) other"
    by blast
  obtain w2 where "run_state (for_each (applyRecord api) rs) w1 = (Inr (), w2)"
    "serves t ttl (set tgs \<union> insert tg targets) (recs (ext w2) name)" "\<forall>other. other \<noteq> name \<longrightarrow> recs (ext w2) other = recs (ext w1) other"
    using Cons.IH [OF w1(2,3)] by blast
  then show ?case using w1(1,4) by (auto simp: run_or_return)
qed

text \<open>All Records of an endpoint, reconciled one after the other.\<close>

lemma endpoint_reconciled:
  assumes "record_laws api (fst (ZoneFor t (normalizeName (ep_DNSName ep)))) recs"
    and "ToUpper (ep_RecordType ep) \<in> set text_types" and "0 < ep_RecordTTL ep" and "[] \<notin> set (ep_Targets ep)"
    and "list_all2 (\<lambda>tg rec. \<exists>des. Desired t ep tg = Inr des \<and> fresh_copy rec des) (ep_Targets ep) stored"
    and "recs (ext w) (normalizeName (ep_DNSName ep)) = {}"
  defines "name \<equiv> normalizeName (ep_DNSName ep)"
  shows "\<exists>w'. run_state (for_each (applyRecord api) stored) w = (Inr (), w') \<and>
    rdata_text ` recs (ext w') name = set (ep_Targets ep) \<and>
    (\<forall>tr \<in> recs (ext w') name. tr_Type tr = ToUpper (ep_RecordType ep) \<and> tr_TTL tr = min (ep_RecordTTL ep) (2 ^ 31 - 1)) \<and>
    (\<forall>other. other \<noteq> name \<longrightarrow> recs (ext w') other = recs (ext w) other)"
proof -
  have "list_all2 (\<lambda>tg rec. rs_Zone (rec_Spec rec) = fst (ZoneFor t name) \<and> rs_Name (rec_Spec rec) = name \<and>
      rs_Type (rec_Spec rec) = ToUpper (ep_RecordType ep) \<and> rs_TTL (rec_Spec rec) = Some (min (ep_RecordTTL ep) (2 ^ 31 - 1)) \<and>
      rs_Data (rec_Spec rec) = tg \<and> tg \<noteq> [] \<and> rst_AppliedData (rec_Status rec) = []) (ep_Targets ep) stored"
    using assms(5)
  proof (rule list.rel_mono_strong)
    fix tg rec
    assume "tg \<in> set (ep_Targets ep)" and "\<exists>des. Desired t ep tg = Inr des \<and> fresh_copy rec des"
    then obtain des where "tg \<in> set (ep_Targets ep)" "Desired t ep tg = Inr des" "fresh_copy rec des" by blast
    with Desired_text [OF _ assms(2,3)] assms(4)
    show "rs_Zone (rec_Spec rec) = fst (ZoneFor t name) \<and> rs_Name (rec_Spec rec) = name \<and>
      rs_Type (rec_Spec rec) = ToUpper (ep_RecordType ep) \<and> rs_TTL (rec_Spec rec) = Some (min (ep_RecordTTL ep) (2 ^ 31 - 1)) \<and>
      rs_Data (rec_Spec rec) = tg \<and> tg \<noteq> [] \<and> rst_AppliedData (rec_Status rec) = []"
      by (auto simp: fresh_copy_def name_def)
  qed
  moreover have "rrset_ok (recs (ext w) name)" "serves (ToUpper (ep_RecordType ep)) ttl {} (recs (ext w) name)" for ttl
    using assms(6) by (simp_all add: name_def rrset_ok_def serves_def)
  ultimately show ?thesis
    using applyRecord_all [OF assms(1) [folded name_def] assms(2), of name "min (ep_RecordTTL ep) (2 ^ 31 - 1)" "ep_Targets ep" stored w "{}"]
    by (auto simp: serves_def)
qed

section \<open>From the request to the server\<close>

text \<open>The defaults of the resource definition leave alone what the webhook sets.\<close>

definition keeps_record :: "(record_spec \<Rightarrow> record_spec) \<Rightarrow> bool" where
  "keeps_record dflt \<longleftrightarrow> (\<forall>spec. rs_Zone (dflt spec) = rs_Zone spec \<and> rs_Name (dflt spec) = rs_Name spec \<and> rs_Type (dflt spec) = rs_Type spec \<and>
     (rs_TTL spec \<noteq> None \<longrightarrow> rs_TTL (dflt spec) = rs_TTL spec) \<and> rs_Data (dflt spec) = rs_Data spec \<and>
     rs_Priority (dflt spec) = rs_Priority spec)"

definition create_only :: "endpoint \<Rightarrow> changes" where
  "create_only ep = \<lparr>ch_Create = [Some ep], ch_UpdateOld = [], ch_UpdateNew = [], ch_Delete = []\<rparr>"

lemma fold_put_same:
  assumes "\<And>r'. r' \<in> set rs \<Longrightarrow> om_Name (rec_meta r') = om_Name (rec_meta r) \<Longrightarrow> r' = r"
    and "r \<in> set rs \<or> f (om_Name (rec_meta r)) = Some (dflt (rec_Spec r), om_Labels (rec_meta r), om_Annotations (rec_meta r))"
  shows "fold (put dflt) rs f (om_Name (rec_meta r)) = Some (dflt (rec_Spec r), om_Labels (rec_meta r), om_Annotations (rec_meta r))"
  using assms
proof (induction rs arbitrary: f)
  case (Cons x rs)
  have x: "x = r" if "om_Name (rec_meta x) = om_Name (rec_meta r)" using Cons.prems(1) [of x] that by simp
  have "fold (put dflt) rs (put dflt x f) (om_Name (rec_meta r)) = Some (dflt (rec_Spec r), om_Labels (rec_meta r), om_Annotations (rec_meta r))"
  proof (rule Cons.IH)
    show "r \<in> set rs \<or> put dflt x f (om_Name (rec_meta r)) = Some (dflt (rec_Spec r), om_Labels (rec_meta r), om_Annotations (rec_meta r))"
      using Cons.prems(2) x by (cases "om_Name (rec_meta x) = om_Name (rec_meta r)") (auto simp: put_def)
  qed (use Cons.prems(1) in auto)
  then show ?case by simp
qed simp

lemma set_ttl_status [simp]: "rec_Status (set_ttl ttl rec) = rec_Status rec"
  by (simp add: set_ttl_def)

lemma Desired_name: "Desired t ep tg = Inr des \<Longrightarrow> om_Name (rec_meta des) = record_name_of t ep tg"
  by (erule Desired_cases) simp_all

text \<open>
  After the webhook has accepted the endpoint, the Record of each target is in the store, with the spec the webhook wants and
  the empty status of a new object.
\<close>

definition fresh_under :: "translator \<Rightarrow> record_resource set \<Rightarrow> record_store \<Rightarrow> bool" where
  "fresh_under t new st \<longleftrightarrow>
     (\<forall>r \<in> new. \<forall>cur. st (ObjectKey (tl_Namespace t) (om_Name (rec_meta r))) = Some cur \<longrightarrow> rec_Status cur = zero_record_status)"

lemma create_fresh:
  assumes laws: "record_store_laws kc objs dflt" and own: "own_record t r" and r: "r \<in> new"
    and ready: "ready_for t new existing (objs (ext w))" and fresh: "fresh_under t new (objs (ext w))"
  shows "\<exists>w'. run_state (create_record kc r) w = (Inr (), w') \<and>
    (ready_for t new existing (objs (ext w')) \<and> fresh_under t new (objs (ext w'))) \<and>
    published t (objs (ext w')) = put dflt r (published t (objs (ext w)))"
proof -
  obtain w' where w': "run_state (create_record kc r) w = (Inr (), w')" "ready_for t new existing (objs (ext w'))"
    "published t (objs (ext w')) = put dflt r (published t (objs (ext w)))"
    using create_published [OF laws own r ready] by blast
  obtain r' where "objs (ext w') = (objs (ext w))(ObjectKey (tl_Namespace t) (om_Name (rec_meta r)) \<mapsto> r')"
    and "rec_Status r' = (case objs (ext w) (ObjectKey (tl_Namespace t) (om_Name (rec_meta r))) of
      Some cur \<Rightarrow> rec_Status cur | None \<Rightarrow> zero_record_status)"
    using create_record_step [OF laws own ready_forD(1) [OF ready r], of w] ready_forD(4) [OF ready r] w'(1)
    unfolding writes_record_def own_record_key [OF own] by auto
  then have "fresh_under t new (objs (ext w'))"
    using fresh r unfolding fresh_under_def by (auto split: option.splits)
  with w' show ?thesis by blast
qed

lemma endpoint_stored:
  assumes laws: "record_store_laws kc objs dflt"
    and built: "\<forall>tg \<in> set (ep_Targets ep). \<exists>des. Desired t ep tg = Inr des \<and> record_admitted None des"
    and inj: "inj_on (record_name_of t ep) (set (ep_Targets ep))"
    and free: "\<forall>tg \<in> set (ep_Targets ep). objs (ext w) (ObjectKey (tl_Namespace t) (record_name_of t ep tg)) = None"
  shows "\<exists>w'. run_state (applyChanges kc t (BodyJSON (create_only ep))) w = (NoContent, w') \<and>
    (\<forall>tg \<in> set (ep_Targets ep). \<forall>des. Desired t ep tg = Inr des \<longrightarrow>
       (\<exists>rec. objs (ext w') (ObjectKey (tl_Namespace t) (record_name_of t ep tg)) = Some rec \<and>
          rec_Spec rec = dflt (rec_Spec des) \<and> rec_Status rec = zero_record_status))"
proof -
  have "\<exists>p. BuildPlan t (create_only ep) = Inr p"
    unfolding BuildPlan_returns_iff using built by (auto simp: create_only_def buildable_def)
  then obtain p where p: "BuildPlan t (create_only ep) = Inr p" ..
  have create: "set (pl_Create p) = {des. \<exists>tg \<in> set (ep_Targets ep). Desired t ep tg = Inr des}"
    using BuildPlan_sets(1) [OF p] by (auto simp: create_only_def wanted_def)
  have empty: "pl_Patch p = []" "pl_Delete p = []"
    using BuildPlan_sets(2,3) [OF p] by (auto simp: create_only_def dropped_def old_of_def)
  have same: "r' = des" if mem: "r' \<in> set (pl_Create p)" "des \<in> set (pl_Create p)" and eq: "om_Name (rec_meta r') = om_Name (rec_meta des)" for r' des
  proof -
    obtain tg tg' where tg: "tg \<in> set (ep_Targets ep)" "Desired t ep tg = Inr des" "tg' \<in> set (ep_Targets ep)" "Desired t ep tg' = Inr r'"
      using mem unfolding create by blast
    then have "tg' = tg" using eq inj by (auto simp: Desired_name dest: inj_onD)
    then show ?thesis using tg by simp
  qed
  let ?I = "\<lambda>w. ready_for t (set (pl_Create p)) {} (objs (ext w)) \<and> fresh_under t (set (pl_Create p)) (objs (ext w))"
  have start: "?I w"
    using free built same unfolding ready_for_def fresh_under_def by (fastforce simp: create Desired_name)
  have "\<exists>w'. run_state (for_each (create_record kc) (pl_Create p)) w = (Inr (), w') \<and> ?I w' \<and>
      published t (objs (ext w')) = fold (put dflt) (pl_Create p) (published t (objs (ext w)))"
    by (rule for_each_total [of _ ?I _ "\<lambda>w. published t (objs (ext w))"])
      (use start plan_records_own [OF p] in \<open>auto intro!: create_fresh [OF laws, simplified]\<close>)
  then obtain w' where run: "run_state (for_each (create_record kc) (pl_Create p)) w = (Inr (), w')" and I: "?I w'"
    and pub: "published t (objs (ext w')) = fold (put dflt) (pl_Create p) (published t (objs (ext w)))" by blast
  have "\<exists>rec. objs (ext w') (ObjectKey (tl_Namespace t) (record_name_of t ep tg)) = Some rec \<and>
      rec_Spec rec = dflt (rec_Spec des) \<and> rec_Status rec = zero_record_status"
    if tg: "tg \<in> set (ep_Targets ep)" and des: "Desired t ep tg = Inr des" for tg des
  proof -
    have mem: "des \<in> set (pl_Create p)" using tg des by (auto simp: create)
    have "published t (objs (ext w')) (om_Name (rec_meta des)) = Some (dflt (rec_Spec des), om_Labels (rec_meta des), om_Annotations (rec_meta des))"
      unfolding pub by (rule fold_put_same) (use same mem in blast)+
    then obtain rec where "objs (ext w') (ObjectKey (tl_Namespace t) (om_Name (rec_meta des))) = Some rec" "rec_Spec rec = dflt (rec_Spec des)"
      by (auto simp: published_def content_def split: option.splits if_splits)
    moreover from this(1) have "rec_Status rec = zero_record_status" using I mem unfolding fresh_under_def by blast
    ultimately show ?thesis unfolding Desired_name [OF des] by blast
  qed
  moreover have "run_state (applyChanges kc t (BodyJSON (create_only ep))) w = (NoContent, w')"
    by (simp add: applyChanges_def decode_def p apply_plan_def run_or_return run empty)
  ultimately show ?thesis by blast
qed

text \<open>
  (C9) End to end, for an endpoint of type A, AAAA, TXT, NS or PTR with a positive TTL and no empty target, whose targets all give a Record the API
  server admits, whose Records' names, which are digests, do not collide and are free, and under whose name the server has
  nothing yet. The webhook answers the request to create it with success; the API server then has a Record for each target; and
  when those Records, as they are in the API server, are reconciled one after the other, every reconcile
  succeeds, and afterwards the server's records of the name are exactly the targets, all of the endpoint's type and TTL, and no
  other name has changed.
\<close>

theorem endpoint_served:
  assumes "record_store_laws kc objs dflt" and "keeps_record dflt"
    and "record_laws api (fst (ZoneFor t (normalizeName (ep_DNSName ep)))) recs"
    and "ToUpper (ep_RecordType ep) \<in> set text_types" and "0 < ep_RecordTTL ep" and "[] \<notin> set (ep_Targets ep)"
    and "\<forall>tg \<in> set (ep_Targets ep). \<exists>des. Desired t ep tg = Inr des \<and> record_admitted None des"
    and "inj_on (record_name_of t ep) (set (ep_Targets ep))"
    and "\<forall>tg \<in> set (ep_Targets ep). objs (ext w) (ObjectKey (tl_Namespace t) (record_name_of t ep tg)) = None"
    and "run_state (applyChanges kc t (BodyJSON (create_only ep))) w = (reply, w')"
    and "recs (ext v) (normalizeName (ep_DNSName ep)) = {}"
  defines "name \<equiv> normalizeName (ep_DNSName ep)"
  shows "reply = NoContent \<and> (\<exists>stored v'.
    list_all2 (\<lambda>tg rec. objs (ext w') (ObjectKey (tl_Namespace t) (record_name_of t ep tg)) = Some rec) (ep_Targets ep) stored \<and>
    run_state (for_each (applyRecord api) stored) v = (Inr (), v') \<and>
    rdata_text ` recs (ext v') name = set (ep_Targets ep) \<and>
    (\<forall>tr \<in> recs (ext v') name. tr_Type tr = ToUpper (ep_RecordType ep) \<and> tr_TTL tr = min (ep_RecordTTL ep) (2 ^ 31 - 1)) \<and>
    (\<forall>other. other \<noteq> name \<longrightarrow> recs (ext v') other = recs (ext v) other))"
proof -
  have reply: "reply = NoContent" and specs: "\<And>tg des. tg \<in> set (ep_Targets ep) \<Longrightarrow> Desired t ep tg = Inr des \<Longrightarrow>
      \<exists>rec. objs (ext w') (ObjectKey (tl_Namespace t) (record_name_of t ep tg)) = Some rec \<and> rec_Spec rec = dflt (rec_Spec des) \<and>
        rec_Status rec = zero_record_status"
    using endpoint_stored [OF assms(1,7,8,9)] assms(10) by auto
  define stored where "stored = map (\<lambda>tg. the (objs (ext w') (ObjectKey (tl_Namespace t) (record_name_of t ep tg)))) (ep_Targets ep)"
  have present: "list_all2 (\<lambda>tg rec. objs (ext w') (ObjectKey (tl_Namespace t) (record_name_of t ep tg)) = Some rec) (ep_Targets ep) stored"
    unfolding stored_def list.rel_map using specs assms(7) by (intro list.rel_refl_strong) fastforce
  have "list_all2 (\<lambda>tg rec. \<exists>des. Desired t ep tg = Inr des \<and> fresh_copy rec des) (ep_Targets ep) stored"
    using present
  proof (rule list.rel_mono_strong)
    fix tg rec
    assume tg: "tg \<in> set (ep_Targets ep)" and rec: "objs (ext w') (ObjectKey (tl_Namespace t) (record_name_of t ep tg)) = Some rec"
    obtain des where des: "Desired t ep tg = Inr des" using assms(7) tg by blast
    have "rs_TTL (rec_Spec des) \<noteq> None" using Desired_text [OF des assms(4,5)] by simp
    then have "fresh_copy rec des"
      using specs [OF tg des] rec assms(2) by (auto simp: fresh_copy_def keeps_record_def zero_record_status_def)
    with des show "\<exists>des. Desired t ep tg = Inr des \<and> fresh_copy rec des" by blast
  qed
  from endpoint_reconciled [OF assms(3-6) this assms(11)] reply present show ?thesis unfolding name_def by blast
qed

subsection \<open>An endpoint with one address\<close>

text \<open>
  With one target the names of the Records cannot collide.
\<close>

definition one_target :: endpoint where
  "one_target = sample_endpoint\<lparr>ep_Targets := [''10.0.0.1'']\<rparr>"

lemma one_target_desired:
  "Desired sample_translator one_target tg =
     Inr (set_ttl 300 (base_record sample_translator sample_endpoint tg RecordTypeA ''sub.example.com''))"
  by (simp add: one_target_def Desired_targets sample_desired)

theorem endpoint_served_witness:
  "\<exists>w' rec v'. run_state (applyChanges kube_records sample_translator (BodyJSON (create_only one_target))) (empty_world Map.empty) = (NoContent, w') \<and>
    keyed (ext w') (ObjectKey ''ns'' (record_name_of sample_translator one_target ''10.0.0.1'')) = Some rec \<and>
    run_state (applyRecord memory_record_api rec) (empty_world []) = (Inr (), v') \<and>
    rdata_text ` memory_records (ext v') ''a.sub.example.com'' = {''10.0.0.1''}"
proof -
  have ep: "ep_DNSName one_target = ''a.sub.example.com''" "ep_RecordType one_target = ''A''" "ep_RecordTTL one_target = 300"
    "ep_Targets one_target = [''10.0.0.1'']" "tl_Namespace sample_translator = ''ns''"
    by (simp_all add: one_target_def sample_endpoint_def sample_translator_def)
  have name: "normalizeName (ep_DNSName one_target) = ''a.sub.example.com''" by (simp add: ep sample_names)
  have built: "\<forall>tg \<in> set (ep_Targets one_target). \<exists>des. Desired sample_translator one_target tg = Inr des \<and> record_admitted None des"
    using sample_record_admitted by (simp add: ep one_target_desired)
  have inj: "inj_on (record_name_of sample_translator one_target) (set (ep_Targets one_target))" by (simp add: ep)
  have free: "\<forall>tg \<in> set (ep_Targets one_target).
      keyed (ext (empty_world Map.empty)) (ObjectKey (tl_Namespace sample_translator) (record_name_of sample_translator one_target tg)) = None"
    by (simp add: keyed_def empty_world_def)
  have hyps: "keeps_record id" "ToUpper (ep_RecordType one_target) \<in> set text_types" "0 < ep_RecordTTL one_target" "[] \<notin> set (ep_Targets one_target)"
    "memory_records (ext (empty_world [])) (normalizeName (ep_DNSName one_target)) = {}"
    by (simp_all add: keeps_record_def ep ToUpper_A text_types_def record_type_defs memory_records_def empty_world_def)
  from endpoint_served [where objs = keyed and recs = memory_records and w = "empty_world Map.empty" and v = "empty_world []" and
      ep = one_target and t = sample_translator, OF kube_records_laws hyps(1) memory_record_laws hyps(2-4) built inj free prod.collapse [symmetric] hyps(5)]
  obtain stored v' where fst: "fst (run_state (applyChanges kube_records sample_translator (BodyJSON (create_only one_target))) (empty_world Map.empty)) = NoContent"
    and stored: "list_all2 (\<lambda>tg rec. keyed (ext (snd (run_state (applyChanges kube_records sample_translator (BodyJSON (create_only one_target)))
        (empty_world Map.empty)))) (ObjectKey (tl_Namespace sample_translator) (record_name_of sample_translator one_target tg)) = Some rec)
      (ep_Targets one_target) stored"
    and run: "run_state (for_each (applyRecord memory_record_api) stored) (empty_world []) = (Inr (), v')"
    and shown: "rdata_text ` memory_records (ext v') (normalizeName (ep_DNSName one_target)) = set (ep_Targets one_target)"
    by blast
  from stored obtain rec where rec: "stored = [rec]" "keyed (ext (snd (run_state (applyChanges kube_records sample_translator (BodyJSON (create_only one_target)))
        (empty_world Map.empty)))) (ObjectKey ''ns'' (record_name_of sample_translator one_target ''10.0.0.1'')) = Some rec"
    by (auto simp: ep list_all2_Cons1)
  from run rec(1) have "run_state (applyRecord memory_record_api rec) (empty_world []) = (Inr (), v')"
    by (auto simp: run_or_return split: prod.splits sum.splits)
  with fst rec(2) shown show ?thesis unfolding name ep(4) by (metis list.simps(15) list.set(1) prod.collapse)
qed

end
