(* ===== verification/Go_Text.thy ===== *)
theory Go_Text
  imports Go_Prelude
begin

text \<open>
  The functions of Go's packages \<^verbatim>\<open>strings\<close> and \<^verbatim>\<open>path/filepath\<close> that the chart generator uses, on byte strings:
  searching, splitting, counting and replacing a substring, and slash-separated paths.
\<close>

section \<open>Substrings\<close>

fun Index :: "string \<Rightarrow> string \<Rightarrow> nat option" where
  "Index [] sub = (if sub = [] then Some 0 else None)"
| "Index (c # s) sub = (if HasPrefix (c # s) sub then Some 0 else map_option Suc (Index s sub))"

definition CutStr :: "string \<Rightarrow> string \<Rightarrow> string \<times> string \<times> bool" where
  "CutStr s sep = (case Index s sep of
     Some i \<Rightarrow> (take i s, drop (i + length sep) s, True) | None \<Rightarrow> (s, [], False))"

lemma Index_Some: "Index s sub = Some i \<Longrightarrow> \<exists>t. s = take i s @ sub @ t \<and> i + length sub \<le> length s"
proof (induction s sub arbitrary: i rule: Index.induct)
  case (2 c s sub)
  show ?case
  proof (cases "HasPrefix (c # s) sub")
    case True
    then have "i = 0" using 2(2) by simp
    moreover obtain t where t: "c # s = sub @ t" using True by (auto simp: HasPrefix_iff)
    moreover have "length sub \<le> length (c # s)" unfolding t by simp
    ultimately show ?thesis by simp
  next
    case False
    then obtain j where j: "Index s sub = Some j" "i = Suc j" using 2(2) by auto
    from 2(1) [OF False j(1)] j show ?thesis by auto
  qed
qed (auto split: if_splits)

lemma Index_shorter: "Index s sub = Some i \<Longrightarrow> sub \<noteq> [] \<Longrightarrow> length (drop (i + length sub) s) < length s"
  using Index_Some [of s sub i] by (cases sub) auto

text \<open>The functions that go on after a match loop over what is left.\<close>

function SplitStr :: "string \<Rightarrow> string \<Rightarrow> string list" where
  "SplitStr s sep =
     (if sep = [] then map (\<lambda>c. [c]) s
      else case Index s sep of None \<Rightarrow> [s] | Some i \<Rightarrow> take i s # SplitStr (drop (i + length sep) s) sep)"
  by pat_completeness auto

termination
  by (relation "measure (\<lambda>(s, _). length s)") (use Index_shorter in force)+

function Count :: "string \<Rightarrow> string \<Rightarrow> nat" where
  "Count s sub =
     (if sub = [] then length s + 1
      else case Index s sub of None \<Rightarrow> 0 | Some i \<Rightarrow> Suc (Count (drop (i + length sub) s) sub))"
  by pat_completeness auto

termination
  by (relation "measure (\<lambda>(s, _). length s)") (use Index_shorter in force)+

function ReplaceAll :: "string \<Rightarrow> string \<Rightarrow> string \<Rightarrow> string" where
  "ReplaceAll s old new =
     (if old = [] then new @ concat (map (\<lambda>c. c # new) s)
      else case Index s old of None \<Rightarrow> s | Some i \<Rightarrow> take i s @ new @ ReplaceAll (drop (i + length old) s) old new)"
  by pat_completeness auto

termination
  by (relation "measure (\<lambda>(s, _). length s)") (use Index_shorter in force)+

declare SplitStr.simps [simp del] Count.simps [simp del] ReplaceAll.simps [simp del]

section \<open>Paths\<close>

text \<open>
  \<^verbatim>\<open>filepath.Clean\<close> on its components: empty ones and dots go, two dots drop the component before them unless
  that is two dots itself, and are dropped at the root.
\<close>

fun clean_component :: "bool \<Rightarrow> string \<Rightarrow> string list \<Rightarrow> string list" where
  "clean_component rooted c out =
     (if c = [] \<or> c = ''.'' then out
      else if c = ''..'' then
        (if out \<noteq> [] \<and> last out \<noteq> ''..'' then butlast out else if rooted then out else out @ [c])
      else out @ [c])"

definition Clean :: "string \<Rightarrow> string" where
  "Clean path =
     (if path = [] then ''.''
      else let rooted = (hd path = CHR ''/'');
               comps = fold (clean_component rooted) (Split path CHR ''/'') [];
               body = Join comps ''/''
           in if rooted then CHR ''/'' # body else if body = [] then ''.'' else body)"

definition JoinPath :: "string list \<Rightarrow> string" where
  "JoinPath elems = (case dropWhile (\<lambda>e. e = []) elems of [] \<Rightarrow> [] | es \<Rightarrow> Clean (Join es ''/''))"

definition Base :: "string \<Rightarrow> string" where
  "Base path =
     (if path = [] then ''.''
      else let p = TrimRightFunc (\<lambda>c. c = CHR ''/'') path in if p = [] then ''/'' else last (Split p CHR ''/''))"

definition Dir :: "string \<Rightarrow> string" where
  "Dir path = Clean (rev (dropWhile (\<lambda>c. c \<noteq> CHR ''/'') (rev path)))"

section \<open>Lemmas\<close>

lemma Index_None: "Index s sub = None \<longleftrightarrow> \<not> Contains s sub"
  by (induction s sub rule: Index.induct) auto

lemma Index_first: "Index s sub = Some i \<Longrightarrow> j < i \<Longrightarrow> \<not> HasPrefix (drop j s) sub"
proof (induction s sub arbitrary: i j rule: Index.induct)
  case (2 c s sub)
  then show ?case by (cases j) (auto split: if_splits)
qed (auto split: if_splits)

lemma SplitStr_not_Nil: "sep \<noteq> [] \<Longrightarrow> SplitStr s sep \<noteq> []"
  by (subst SplitStr.simps) (simp split: option.split)

lemma Join_Cons: "ps \<noteq> [] \<Longrightarrow> Join (p # ps) sep = p @ sep @ Join ps sep"
  by (cases ps) simp_all

lemma Join_SplitStr: "sep \<noteq> [] \<Longrightarrow> Join (SplitStr s sep) sep = s"
proof (induction s sep rule: SplitStr.induct)
  case (1 s sep)
  show ?case
  proof (cases "Index s sep")
    case None
    then show ?thesis using 1(2) by (simp add: SplitStr.simps)
  next
    case (Some i)
    obtain t where t: "s = take i s @ sep @ t" and i: "i + length sep \<le> length s" using Index_Some [OF Some] by blast
    have "drop (i + length sep) s = t" using arg_cong [OF t, of "drop (i + length sep)"] i by simp
    then show ?thesis
      using 1(1) [OF 1(2) Some 1(2)] Some 1(2) t
      by (subst SplitStr.simps) (simp add: Join_Cons SplitStr_not_Nil)
  qed
qed

lemma ReplaceAll_eq: "old \<noteq> [] \<Longrightarrow> ReplaceAll s old new = Join (SplitStr s old) new"
proof (induction s old new rule: ReplaceAll.induct)
  case (1 s old new)
  then show ?case
    by (subst ReplaceAll.simps, subst SplitStr.simps) (simp add: Join_Cons SplitStr_not_Nil split: option.split)
qed

lemma Count_eq: "sub \<noteq> [] \<Longrightarrow> length (SplitStr s sub) = Suc (Count s sub)"
proof (induction s sub rule: Count.induct)
  case (1 s sub)
  then show ?case by (subst Count.simps, subst SplitStr.simps) (simp split: option.split)
qed

text \<open>No piece of a split string contains the separator.\<close>

lemma SplitStr_pieces: "p \<in> set (SplitStr s sep) \<Longrightarrow> sep \<noteq> [] \<Longrightarrow> \<not> Contains p sep"
proof (induction s sep rule: SplitStr.induct)
  case (1 s sep)
  show ?case
  proof (cases "Index s sep")
    case None
    then show ?thesis using 1(2,3) Index_None [of s sep] by (subst (asm) SplitStr.simps) simp
  next
    case (Some i)
    have head: "\<not> Contains (take i s) sep"
    proof
      assume "Contains (take i s) sep"
      then obtain u v where uv: "take i s = u @ sep @ v" by (auto simp: Contains_iff)
      have "s = take i s @ drop i s" by simp
      then have "drop (length u) s = sep @ v @ drop i s" unfolding uv by (metis append.assoc append_eq_conv_conj)
      moreover have "length u < i"
        using arg_cong [OF uv, of length] 1(3) by (cases sep) auto
      ultimately show False using Index_first [OF Some, of "length u"] by simp
    qed
    from 1(2) have "p = take i s \<or> p \<in> set (SplitStr (drop (i + length sep) s) sep)"
      by (subst (asm) SplitStr.simps) (simp add: Some 1(3))
    then show ?thesis using head 1(1) [OF 1(3) Some] 1(3) by blast
  qed
qed

text \<open>Where a marker is found first.\<close>

lemma Index_split:
  assumes "Index s sub = Some i" and "sub \<noteq> []"
  obtains t where "s = take i s @ sub @ t" and "\<not> Contains (take i s @ butlast sub) sub"
proof -
  obtain t where t: "s = take i s @ sub @ t" and i: "i + length sub \<le> length s" using Index_Some [OF assms(1)] by blast
  have "\<not> Contains (take i s @ butlast sub) sub"
  proof
    assume "Contains (take i s @ butlast sub) sub"
    then obtain u v where uv: "take i s @ butlast sub = u @ sub @ v" by (auto simp: Contains_iff)
    have len: "length u < i" using arg_cong [OF uv, of length] assms(2) i by (cases sub rule: rev_cases) auto
    have "take i s @ sub @ t = (take i s @ butlast sub) @ last sub # t" using assms(2) by simp
    then have "s = u @ sub @ v @ last sub # t" using t uv by simp
    then have "drop (length u) s = sub @ v @ last sub # t" by (metis append_eq_conv_conj)
    then show False using Index_first [OF assms(1) len] by simp
  qed
  with t that show thesis by blast
qed

end
