(* ===== verification/Chart_Generator.thy ===== *)
theory Chart_Generator
  imports Controller_Common Go_Text Go_Flag "HOL-Library.Multiset" "HOL-Library.AList" "HOL-Library.List_Lexorder" "HOL-Library.Char_ord"
begin

text \<open>
  The generator of the Helm chart (\<^verbatim>\<open>hack/chartgen/main.go\<close>): it writes the chart's templates for the
  resource definitions, the roles and the webhook configurations from the manifests under
  \<^verbatim>\<open>config/\<close>, and checks a rendered chart against them. The file system is the parameter \<open>os\<close>, over a
  state of its own; reading YAML (\<^verbatim>\<open>sigs.k8s.io/yaml\<close>) is the parameter \<open>yaml\<close>, with the values of
  a rule, which the generator only compares, of any type \<open>'v\<close>.
\<close>

section \<open>The outside\<close>

record 's os =
  os_ReadFile :: "string \<Rightarrow> 's \<Rightarrow> (go_error + string) \<times> 's"
  os_Glob :: "string \<Rightarrow> 's \<Rightarrow> (go_error + string list) \<times> 's"
  os_RemoveAll :: "string \<Rightarrow> 's \<Rightarrow> (go_error + unit) \<times> 's"
  os_MkdirAll :: "string \<Rightarrow> 's \<Rightarrow> (go_error + unit) \<times> 's"
  os_WriteFile :: "string \<Rightarrow> string \<Rightarrow> 's \<Rightarrow> (go_error + unit) \<times> 's"

record chart_meta =
  cm_Name :: string
  cm_Annotations :: string_map

record chart_object =
  co_Kind :: string
  co_Metadata :: chart_meta

record webhook_config =
  wc_Kind :: string
  wc_Webhooks :: "string list"

record 'v rendered_webhook =
  rw_Name :: string
  rw_Path :: string
  rw_Rules :: "'v slice"

record 'v rendered_object =
  ro_Kind :: string
  ro_Metadata :: chart_meta
  ro_Rules :: "'v slice"
  ro_Webhooks :: "'v rendered_webhook list"

record 'v yaml =
  yaml_object :: "string \<Rightarrow> go_error + chart_object"
  yaml_webhookConfig :: "string \<Rightarrow> go_error + webhook_config"
  yaml_renderedObject :: "string \<Rightarrow> go_error + 'v rendered_object"

record paths =
  pa_config :: string
  pa_chart :: string

section \<open>Reading the sources\<close>

definition nl :: string where
  "nl = [CHR 0x0A]"

definition line :: "string \<Rightarrow> string" where
  "line s = s @ nl"

definition header :: string where
  "header = line ''# Code generated by hack/chartgen from config/. DO NOT EDIT.'' @ line ''# Regenerate with `just manifests`.''"

definition check_source :: "string \<Rightarrow> string \<Rightarrow> go_error + string" where
  "check_source path b =
     (if Contains b ''{{'' then Inl (ErrorText (path @ '' contains `{{`, which Helm would interpret as a template action''))
      else Inr b)"

definition readSource :: "'s os \<Rightarrow> string \<Rightarrow> ('s, go_error + string) state" where
  "readSource os path = or_return (State (os_ReadFile os path)) (\<lambda>b. ret (check_source path b))"

definition bodyFrom :: "string \<Rightarrow> string \<Rightarrow> string \<Rightarrow> go_error + string" where
  "bodyFrom doc key path =
     (case Index doc (nl @ key @ '':'' @ nl) of
        None \<Rightarrow> Inl (ErrorText (path @ '': no top-level '' @ Quote key @ '' field''))
      | Some i \<Rightarrow> Inr (TrimRightFunc (\<lambda>c. c = CHR 0x0A) (drop (i + 1) doc) @ nl))"

definition splitDocs :: "string \<Rightarrow> string list" where
  "splitDocs b = map (\<lambda>d. nl @ d)
     (filter (\<lambda>d. TrimSpace d \<noteq> []) (map (\<lambda>d. TrimPrefix d (line ''---'')) (SplitStr b (nl @ line ''---''))))"

definition writeFile :: "'s os \<Rightarrow> string \<Rightarrow> string \<Rightarrow> ('s, go_error + unit) state" where
  "writeFile os path content =
     or_return (State (os_MkdirAll os (Dir path))) (\<lambda>_. State (os_WriteFile os path content))"

section \<open>Generating\<close>

subsection \<open>Resource definitions\<close>

definition labels_lines :: string where
  "labels_lines = line ''  labels:'' @ line (''    {{- include '' @ Quote ''technitium-operator.labels'' @ '' . | nindent 4 }}'')"

definition crd_annotations :: "string_map \<Rightarrow> string" where
  "crd_annotations anns = concat (map (\<lambda>k. line (''    '' @ k @ '': '' @ map_get anns k)) (sort (remdups (map fst anns))))"

definition crd_prologue :: "chart_meta \<Rightarrow> string" where
  "crd_prologue m = header @ line ''{{- if .Values.crds.install }}'' @ line ''apiVersion: apiextensions.k8s.io/v1'' @
     line ''kind: CustomResourceDefinition'' @ line ''metadata:'' @ line (''  name: '' @ cm_Name m) @ line ''  annotations:'' @
     crd_annotations (cm_Annotations m) @ line ''    {{- if .Values.crds.keep }}'' @ line ''    helm.sh/resource-policy: keep'' @
     line ''    {{- end }}'' @ labels_lines"

definition crd_template :: "'v yaml \<Rightarrow> string \<Rightarrow> string \<Rightarrow> go_error + string" where
  "crd_template y src b =
     (case yaml_object y b of
        Inl err \<Rightarrow> Inl (ErrorWrap (src @ '': '') err [])
      | Inr crd \<Rightarrow>
          if co_Kind crd \<noteq> ''CustomResourceDefinition'' \<or> cm_Name (co_Metadata crd) = [] then
            Inl (ErrorText (src @ '': not a named CustomResourceDefinition''))
          else and_then (bodyFrom b ''spec'' src) (\<lambda>spec.
            Inr (crd_prologue (co_Metadata crd) @ spec @ line ''{{- end }}'')))"

definition crd_pattern :: "paths \<Rightarrow> string" where
  "crd_pattern p = JoinPath [pa_config p, ''crd'', ''bases'', ''*.yaml'']"

definition crd_dir :: "paths \<Rightarrow> string" where
  "crd_dir p = JoinPath [pa_chart p, ''templates'', ''crds'']"

definition crd_target :: "paths \<Rightarrow> string \<Rightarrow> string" where
  "crd_target p src = JoinPath [crd_dir p, Base src]"

definition generateCRD :: "'s os \<Rightarrow> 'v yaml \<Rightarrow> paths \<Rightarrow> string \<Rightarrow> ('s, go_error + unit) state" where
  "generateCRD os y p src =
     or_return (readSource os src) (\<lambda>b.
     or_return (ret (crd_template y src b)) (\<lambda>out.
     writeFile os (crd_target p src) out))"

definition generateCRDs :: "'s os \<Rightarrow> 'v yaml \<Rightarrow> paths \<Rightarrow> ('s, go_error + unit) state" where
  "generateCRDs os y p =
     or_return (State (os_Glob os (crd_pattern p))) (\<lambda>srcs.
     if srcs = [] then fail (ErrorText ''no CRDs found under config/crd/bases'')
     else or_return (State (os_RemoveAll os (crd_dir p))) (\<lambda>_. for_each (generateCRD os y p) srcs))"

subsection \<open>Roles\<close>

definition fullname :: string where
  "fullname = ''{{ include '' @ Quote ''technitium-operator.fullname'' @ '' . }}''"

definition manager_rbac :: "string \<Rightarrow> string" where
  "manager_rbac rules = header @ line ''{{- if .Values.rbac.create }}'' @ line ''apiVersion: rbac.authorization.k8s.io/v1'' @
     line ''kind: ClusterRole'' @ line ''metadata:'' @ line (''  name: '' @ fullname @ ''-manager-role'') @ labels_lines @ rules @
     line ''---'' @ line ''apiVersion: rbac.authorization.k8s.io/v1'' @ line ''kind: ClusterRoleBinding'' @ line ''metadata:'' @
     line (''  name: '' @ fullname @ ''-manager-rolebinding'') @ labels_lines @ line ''roleRef:'' @
     line ''  apiGroup: rbac.authorization.k8s.io'' @ line ''  kind: ClusterRole'' @ line (''  name: '' @ fullname @ ''-manager-role'') @
     line ''subjects:'' @ line ''- kind: ServiceAccount'' @
     line (''  name: {{ include '' @ Quote ''technitium-operator.serviceAccountName'' @ '' . }}'') @
     line ''  namespace: {{ .Release.Namespace }}'' @ line ''{{- end }}''"

definition role_source :: "paths \<Rightarrow> string" where
  "role_source p = JoinPath [pa_config p, ''rbac'', ''role.yaml'']"

definition generateManagerRBAC :: "'s os \<Rightarrow> paths \<Rightarrow> ('s, go_error + unit) state" where
  "generateManagerRBAC os p =
     or_return (readSource os (role_source p)) (\<lambda>b.
     or_return (ret (bodyFrom b ''rules'' (role_source p))) (\<lambda>rules.
     writeFile os (JoinPath [pa_chart p, ''templates'', ''manager-rbac.yaml'']) (manager_rbac rules)))"

fun collect :: "('a \<Rightarrow> ('s, go_error + 'b list) state) \<Rightarrow> 'a list \<Rightarrow> ('s, go_error + 'b list) state" where
  "collect f [] = ok []"
| "collect f (x # xs) = or_return (f x) (\<lambda>m. or_return (collect f xs) (\<lambda>ms. ok (m @ ms)))"

definition helperRoleSources :: "'s os \<Rightarrow> paths \<Rightarrow> ('s, go_error + string list) state" where
  "helperRoleSources os p =
     or_return (collect (\<lambda>role. State (os_Glob os (JoinPath [pa_config p, ''rbac'', ''*_'' @ role @ ''_role.yaml''])))
       [''admin'', ''editor'', ''viewer'']) (\<lambda>srcs.
     if srcs = [] then fail (ErrorText ''no *_{admin,editor,viewer}_role.yaml found under config/rbac'') else ok (sort srcs))"

definition helper_role :: "'v yaml \<Rightarrow> string \<Rightarrow> string \<Rightarrow> go_error + string" where
  "helper_role y src b =
     (case yaml_object y b of
        Inl err \<Rightarrow> Inl (ErrorWrap (src @ '': '') err [])
      | Inr role \<Rightarrow>
          if co_Kind role \<noteq> ''ClusterRole'' \<or> cm_Name (co_Metadata role) = [] then
            Inl (ErrorText (src @ '': not a named ClusterRole''))
          else and_then (bodyFrom b ''rules'' src) (\<lambda>rules.
            let comment = TrimSpace (fst (CutStr b (nl @ ''apiVersion:'')))
            in Inr (line ''---'' @ (if comment \<noteq> [] then line comment else []) @
              line ''apiVersion: rbac.authorization.k8s.io/v1'' @ line ''kind: ClusterRole'' @ line ''metadata:'' @
              line (''  name: '' @ fullname @ ''-'' @ cm_Name (co_Metadata role)) @ labels_lines @ rules)))"

fun append_each :: "('a \<Rightarrow> ('s, go_error + string) state) \<Rightarrow> 'a list \<Rightarrow> string \<Rightarrow> ('s, go_error + string) state" where
  "append_each f [] out = ok out"
| "append_each f (x # xs) out = or_return (f x) (\<lambda>s. append_each f xs (out @ s))"

definition generateHelperRoles :: "'s os \<Rightarrow> 'v yaml \<Rightarrow> paths \<Rightarrow> ('s, go_error + unit) state" where
  "generateHelperRoles os y p =
     or_return (helperRoleSources os p) (\<lambda>srcs.
     or_return (append_each (\<lambda>src. or_return (readSource os src) (\<lambda>b. ret (helper_role y src b))) srcs
       (header @ line ''{{- if and .Values.rbac.create .Values.rbac.helperRoles }}'')) (\<lambda>out.
     writeFile os (JoinPath [pa_chart p, ''templates'', ''helper-roles.yaml'']) (out @ line ''{{- end }}'')))"

subsection \<open>Webhook configurations\<close>

definition webhookSubstitutions :: "(string \<times> string) list" where
  "webhookSubstitutions =
     [(line ''      namespace: system'', line ''      namespace: {{ .Release.Namespace }}''),
      (line ''  failurePolicy: Fail'', line ''  failurePolicy: {{ .Values.webhook.failurePolicy }}'')]"

definition webhook_source :: "paths \<Rightarrow> string" where
  "webhook_source p = JoinPath [pa_config p, ''webhook'', ''manifests.yaml'']"

definition webhook_names :: "string \<rightharpoonup> string" where
  "webhook_names = map_of [(''MutatingWebhookConfiguration'', ''mutating-webhook-configuration''),
     (''ValidatingWebhookConfiguration'', ''validating-webhook-configuration'')]"

definition substitute :: "string \<Rightarrow> webhook_config \<Rightarrow> string \<times> string \<Rightarrow> string \<Rightarrow> go_error + string" where
  "substitute src cfg s body = (case s of (from, to) \<Rightarrow>
     let n = Count body from; want = length (wc_Webhooks cfg)
     in if n \<noteq> want then Inl (ErrorText (src @ '': '' @ wc_Kind cfg @ '': expected '' @ Itoa (int want) @ '' occurrences of '' @
            Quote (TrimSpace from) @ '', found '' @ Itoa (int n)))
        else Inr (ReplaceAll body from to))"

definition webhook_metadata :: "string \<Rightarrow> string \<Rightarrow> string" where
  "webhook_metadata kind name = line ''---'' @ line ''apiVersion: admissionregistration.k8s.io/v1'' @ line (''kind: '' @ kind) @
     line ''metadata:'' @ line (''  name: '' @ fullname @ ''-'' @ name) @ labels_lines @
     line ''  {{- if .Values.webhook.certManager.enabled }}'' @ line ''  annotations:'' @
     line (''    cert-manager.io/inject-ca-from: {{ .Release.Namespace }}/'' @ fullname @ ''-serving-cert'') @ line ''  {{- end }}''"

definition webhook_body :: "string \<Rightarrow> webhook_config \<Rightarrow> string \<Rightarrow> go_error + string" where
  "webhook_body src cfg doc = and_then (bodyFrom doc ''webhooks'' src) (fold_err (substitute src cfg) webhookSubstitutions)"

definition webhook_template :: "'v yaml \<Rightarrow> string \<Rightarrow> string \<Rightarrow> go_error + string" where
  "webhook_template y src doc =
     (case yaml_webhookConfig y doc of
        Inl err \<Rightarrow> Inl (ErrorWrap (src @ '': '') err [])
      | Inr cfg \<Rightarrow>
          (case webhook_names (wc_Kind cfg) of
             None \<Rightarrow> Inl (ErrorText (src @ '': unexpected kind '' @ Quote (wc_Kind cfg)))
           | Some name \<Rightarrow> and_then (webhook_body src cfg doc) (\<lambda>body. Inr (webhook_metadata (wc_Kind cfg) name @ body))))"

definition generateWebhooks :: "'s os \<Rightarrow> 'v yaml \<Rightarrow> paths \<Rightarrow> ('s, go_error + unit) state" where
  "generateWebhooks os y p =
     or_return (readSource os (webhook_source p)) (\<lambda>b.
     or_return (append_each (\<lambda>doc. ret (webhook_template y (webhook_source p) doc)) (splitDocs b)
       (header @ line ''{{- if .Values.webhook.enabled }}'')) (\<lambda>out.
     writeFile os (JoinPath [pa_chart p, ''templates'', ''webhook-configurations.yaml'']) (out @ line ''{{- end }}'')))"

definition generate :: "'s os \<Rightarrow> 'v yaml \<Rightarrow> paths \<Rightarrow> ('s, go_error + unit) state" where
  "generate os y p =
     or_return (wrap_error ''CRDs: '' (generateCRDs os y p)) (\<lambda>_.
     or_return (wrap_error ''manager RBAC: '' (generateManagerRBAC os p)) (\<lambda>_.
     or_return (wrap_error ''helper roles: '' (generateHelperRoles os y p)) (\<lambda>_.
     wrap_error ''webhooks: '' (generateWebhooks os y p))))"

section \<open>Checking a rendered chart\<close>

definition parseObjects :: "'v yaml \<Rightarrow> string \<Rightarrow> string \<Rightarrow> go_error + 'v rendered_object list" where
  "parseObjects y b src = fold_err (\<lambda>doc objs.
     case yaml_renderedObject y doc of
       Inl err \<Rightarrow> Inl (ErrorWrap (src @ '': '') err [])
     | Inr ob \<Rightarrow> Inr (if ro_Kind ob \<noteq> [] then objs @ [ob] else objs)) (splitDocs b) []"

definition loadObjects :: "'s os \<Rightarrow> 'v yaml \<Rightarrow> string list \<Rightarrow> ('s, go_error + 'v rendered_object list) state" where
  "loadObjects os y files = collect (\<lambda>f. or_return (State (os_ReadFile os f)) (\<lambda>b. ret (parseObjects y b f))) files"

definition byKind :: "'v rendered_object list \<Rightarrow> string \<Rightarrow> 'v rendered_object list" where
  "byKind objs kind = filter (\<lambda>ob. ro_Kind ob = kind) objs"

definition ro_name :: "'v rendered_object \<Rightarrow> string" where
  "ro_name ob = cm_Name (ro_Metadata ob)"

definition object_names :: "'v rendered_object list \<Rightarrow> string list" where
  "object_names objs = sort (map ro_name objs)"

definition print_strings :: "string list \<Rightarrow> string" where
  "print_strings xs = ''['' @ Join xs '' '' @ '']''"

definition crd_problems :: "'v rendered_object list \<Rightarrow> 'v rendered_object list \<Rightarrow> string list" where
  "crd_problems wantCRDs rendered =
     (let want = object_names wantCRDs; got = object_names (byKind rendered ''CustomResourceDefinition'')
      in if want \<noteq> got then [''CRDs: want '' @ print_strings want @ '', rendered '' @ print_strings got] else [])"

definition role_problems :: "'v rendered_object list \<Rightarrow> 'v rendered_object \<Rightarrow> string list" where
  "role_problems gotRoles want =
     (case find (\<lambda>ob. HasSuffix (ro_name ob) (''-'' @ ro_name want)) gotRoles of
        None \<Rightarrow> [''ClusterRole *-'' @ ro_name want @ '': not rendered'']
      | Some got \<Rightarrow> if ro_Rules want \<noteq> ro_Rules got then [''ClusterRole *-'' @ ro_name want @ '': rules differ from config/rbac''] else [])"

definition webhookSummary :: "'v rendered_webhook list \<Rightarrow> (string \<times> string \<times> 'v slice) list" where
  "webhookSummary hooks = fold (\<lambda>h m. AList.update (rw_Name h) (rw_Path h, rw_Rules h) m) hooks []"

text \<open>\<^verbatim>\<open>reflect.DeepEqual\<close> on maps.\<close>

definition same_map :: "('k \<times> 'a) list \<Rightarrow> ('k \<times> 'a) list \<Rightarrow> bool" where
  "same_map m n \<longleftrightarrow> (\<forall>k \<in> fst ` set m \<union> fst ` set n. map_of m k = map_of n k)"

definition hook_problems :: "'v rendered_object list \<Rightarrow> 'v rendered_object \<Rightarrow> string list" where
  "hook_problems rendered want =
     (case byKind rendered (ro_Kind want) of
        [got] \<Rightarrow> if \<not> same_map (webhookSummary (ro_Webhooks want)) (webhookSummary (ro_Webhooks got))
                 then [ro_Kind want @ '': webhooks differ from config/webhook''] else []
      | got \<Rightarrow> [ro_Kind want @ '': rendered '' @ Itoa (int (length got)) @ '', want 1''])"

definition verifyRendered :: "'s os \<Rightarrow> 'v yaml \<Rightarrow> paths \<Rightarrow> go_error + string \<Rightarrow> ('s, go_error + string) state" where
  "verifyRendered os y p stdin =
     or_return (ret stdin) (\<lambda>b.
     or_return (ret (parseObjects y b ''stdin'')) (\<lambda>rendered.
     or_return (State (os_Glob os (crd_pattern p))) (\<lambda>crdFiles.
     or_return (loadObjects os y crdFiles) (\<lambda>wantCRDs.
     or_return (helperRoleSources os p) (\<lambda>roleSrcs.
     or_return (loadObjects os y (role_source p # roleSrcs)) (\<lambda>wantRoles.
     or_return (loadObjects os y [webhook_source p]) (\<lambda>wantHooks.
     let problems = crd_problems wantCRDs rendered @ concat (map (role_problems (byKind rendered ''ClusterRole'')) wantRoles) @
           concat (map (hook_problems rendered) wantHooks)
     in if problems \<noteq> [] then
          fail (ErrorText (''rendered chart does not match config/:'' @ nl @ ''  '' @ Join problems (nl @ ''  '')))
        else ok (line (''Rendered chart matches config/: '' @ Itoa (int (length wantCRDs)) @ '' CRDs, '' @
          Itoa (int (length wantRoles)) @ '' ClusterRoles, '' @ Itoa (int (length wantHooks)) @ '' webhook configurations'')))))))))"

section \<open>The command\<close>

record chartgen_vars =
  cg_paths :: paths
  cg_checkRendered :: bool

definition chartgen_flags :: "chartgen_vars flag_set" where
  "chartgen_flags =
     [(''config'', StringVar (\<lambda>v c. c\<lparr>cg_paths := (cg_paths c)\<lparr>pa_config := v\<rparr>\<rparr>)),
      (''chart'', StringVar (\<lambda>v c. c\<lparr>cg_paths := (cg_paths c)\<lparr>pa_chart := v\<rparr>\<rparr>)),
      (''check-rendered'', BoolVar (\<lambda>v c. c\<lparr>cg_checkRendered := v\<rparr>))]"

definition chartgen_defaults :: chartgen_vars where
  "chartgen_defaults = \<lparr>cg_paths = \<lparr>pa_config = ''config'', pa_chart = ''charts/technitium-operator''\<rparr>, cg_checkRendered = False\<rparr>"

text \<open>How the command ends: in the flags, with the text it printed, or with status 1 and the text on stderr.\<close>

datatype chartgen_end = FlagExit int | Succeeded string | Failed string

definition chartgen_result :: "go_error + string \<Rightarrow> chartgen_end" where
  "chartgen_result r = (case r of Inl err \<Rightarrow> Failed (line (''chartgen: '' @ Error err)) | Inr printed \<Rightarrow> Succeeded printed)"

definition chartgen_main :: "'s os \<Rightarrow> 'v yaml \<Rightarrow> go_error + string \<Rightarrow> string list \<Rightarrow> ('s, chartgen_end) state" where
  "chartgen_main os y stdin args =
     (case Parse chartgen_flags args chartgen_defaults of
        Inl err \<Rightarrow> ret (FlagExit (exit_on_error err))
      | Inr (vars, _) \<Rightarrow> do {
          r \<leftarrow> (if cg_checkRendered vars then verifyRendered os y (cg_paths vars) stdin
                else or_return (generate os y (cg_paths vars)) (\<lambda>_. ok []));
          ret (chartgen_result r)
        })"

section \<open>Bodies\<close>

definition no_action :: "string \<Rightarrow> bool" where
  "no_action s \<longleftrightarrow> \<not> Contains s ''{{''"

lemma no_action_sub: "no_action (u @ s @ v) \<Longrightarrow> no_action s"
  unfolding no_action_def by (meson Contains_append1 Contains_append2)

lemma Contains_brace_Cons: "Contains (c # s) ''{{'' \<longleftrightarrow> c = CHR ''{'' \<and> s \<noteq> [] \<and> hd s = CHR ''{'' \<or> Contains s ''{{''"
  by (cases s) (auto simp: HasPrefix_def)

text \<open>Text without a brace can be put around a string without making an action.\<close>

lemma no_action_front: "CHR ''{'' \<notin> set u \<Longrightarrow> no_action (u @ s) \<longleftrightarrow> no_action s"
  unfolding no_action_def by (induction u) (auto simp: HasPrefix_def)

lemma no_action_back: "CHR ''{'' \<notin> set v \<Longrightarrow> no_action (s @ v) \<longleftrightarrow> no_action s"
proof (induction s)
  case Nil
  then show ?case using no_action_front [of v "[]"] by (simp add: no_action_def)
next
  case (Cons c s)
  have "hd (s @ v) = CHR ''{'' \<and> s @ v \<noteq> [] \<longleftrightarrow> hd s = CHR ''{'' \<and> s \<noteq> []"
    using Cons.prems by (cases s; cases v) auto
  then show ?case using Cons unfolding no_action_def append_Cons Contains_brace_Cons by blast
qed

lemma TrimRightFunc_split: "\<exists>n. s = TrimRightFunc (\<lambda>c. c = x) s @ replicate n x"
proof -
  have "rev s = replicate (length (takeWhile (\<lambda>c. c = x) (rev s))) x @ dropWhile (\<lambda>c. c = x) (rev s)"
    by (metis (full_types) replicate_eqI set_takeWhileD takeWhile_dropWhile_id)
  then have "s = rev (dropWhile (\<lambda>c. c = x) (rev s)) @ replicate (length (takeWhile (\<lambda>c. c = x) (rev s))) x"
    by (metis rev_append rev_replicate rev_rev_ident)
  then show ?thesis unfolding TrimRightFunc_def by blast
qed

text \<open>
  The body is the document from its first line \<^verbatim>\<open>key:\<close> on, up to the newlines at its end, of which it keeps one.
\<close>

lemma bodyFrom_split:
  assumes "bodyFrom doc key path = Inr body" and "key \<noteq> []"
  obtains pre tx n where "doc = pre @ nl @ tx @ replicate n (CHR 0x0A)" and "body = tx @ nl"
    and "HasPrefix (tx @ replicate n (CHR 0x0A)) (key @ '':'' @ nl)" and "\<not> Contains (pre @ nl @ key @ '':'') (nl @ key @ '':'' @ nl)"
proof -
  let ?m = "nl @ key @ '':'' @ nl"
  obtain i where i: "Index doc ?m = Some i" and body: "body = TrimRightFunc (\<lambda>c. c = CHR 0x0A) (drop (i + 1) doc) @ nl"
    using assms(1) by (auto simp: bodyFrom_def split: option.splits)
  obtain t where t: "doc = take i doc @ ?m @ t" and first: "\<not> Contains (take i doc @ butlast ?m) ?m"
    by (rule Index_split [OF i]) (auto simp: nl_def)
  have len: "length (take i doc) = i" using Index_Some [OF i] by auto
  have rest: "drop (i + 1) doc = key @ '':'' @ nl @ t"
    using arg_cong [OF t, of "drop (i + 1)"] len by (simp add: nl_def)
  obtain n where n: "drop (i + 1) doc = TrimRightFunc (\<lambda>c. c = CHR 0x0A) (drop (i + 1) doc) @ replicate n (CHR 0x0A)"
    using TrimRightFunc_split by blast
  show thesis
  proof (rule that)
    show "doc = take i doc @ nl @ TrimRightFunc (\<lambda>c. c = CHR 0x0A) (drop (i + 1) doc) @ replicate n (CHR 0x0A)"
      using t n rest by (simp add: nl_def)
    show "HasPrefix (TrimRightFunc (\<lambda>c. c = CHR 0x0A) (drop (i + 1) doc) @ replicate n (CHR 0x0A)) (key @ '':'' @ nl)"
      unfolding HasPrefix_iff by (rule exI [of _ t], rule trans [OF n [symmetric]]) (simp add: rest [simplified])
    show "\<not> Contains (take i doc @ nl @ key @ '':'') ?m"
      using first by (simp add: nl_def butlast_append)
  qed (rule body)
qed

lemma bodyFrom_no_action:
  assumes "bodyFrom doc key path = Inr body" and "key \<noteq> []" and "no_action doc"
  shows "no_action body"
  using assms(1,2)
proof (rule bodyFrom_split)
  fix pre tx n assume doc: "doc = pre @ nl @ tx @ replicate n (CHR 0x0A)" and body: "body = tx @ nl"
  from assms(3) have "no_action tx" unfolding doc by (metis append.assoc no_action_sub)
  then show ?thesis unfolding body by (simp add: no_action_back nl_def)
qed

text \<open>
  What the chart holds of a resource definition. The source is accepted only without template
  delimiters; the template made of it is the chart's own prologue, then the source from its first top-level
  line \<^verbatim>\<open>spec:\<close> to its end, byte for byte up to the newlines that end it and with nothing for Helm to
  interpret, then the end of the chart's condition.
\<close>

theorem crd_template_verbatim:
  assumes "check_source src raw = Inr b" and "crd_template y src b = Inr out"
  shows "\<exists>m pre tx n. raw = pre @ nl @ tx @ replicate n (CHR 0x0A) \<and>
    HasPrefix (tx @ replicate n (CHR 0x0A)) (line ''spec:'') \<and> \<not> Contains (pre @ nl @ ''spec:'') (nl @ line ''spec:'') \<and>
    out = crd_prologue m @ tx @ nl @ line ''{{- end }}'' \<and> \<not> Contains (tx @ nl) ''{{''"
proof -
  have raw: "b = raw" "no_action raw" using assms(1) by (auto simp: check_source_def no_action_def split: if_splits)
  obtain m spec where spec: "bodyFrom raw ''spec'' src = Inr spec" and out: "out = crd_prologue m @ spec @ line ''{{- end }}''"
    using assms(2) unfolding crd_template_def raw by (auto split: sum.splits if_splits)
  from bodyFrom_no_action [OF spec _ raw(2)] have clean: "\<not> Contains spec ''{{''" by (simp add: no_action_def)
  obtain pre tx n where "raw = pre @ nl @ tx @ replicate n (CHR 0x0A)" "spec = tx @ nl"
    "HasPrefix (tx @ replicate n (CHR 0x0A)) (''spec'' @ '':'' @ nl)" "\<not> Contains (pre @ nl @ ''spec'' @ '':'') (nl @ ''spec'' @ '':'' @ nl)"
    by (rule bodyFrom_split [OF spec]) simp
  then show ?thesis using clean out by (intro exI [of _ m] exI [of _ pre] exI [of _ tx] exI [of _ n]) (simp add: line_def)
qed

section \<open>Substitutions\<close>

text \<open>A separator with text around it, as a separator between pieces that hold that text.\<close>

fun affix :: "string \<Rightarrow> string \<Rightarrow> string list \<Rightarrow> string list" where
  "affix a b (p # q # ps) = (p @ a) # affix a b ((b @ q) # ps)"
| "affix a b ps = ps"

lemma affix_not_Nil: "affix a b (p # ps) \<noteq> []"
  by (cases ps) simp_all

lemma length_affix [simp]: "length (affix a b ps) = length ps"
  by (induction a b ps rule: affix.induct) simp_all

lemma Join_affix: "Join ps (a @ x @ b) = Join (affix a b ps) x"
  by (induction a b ps rule: affix.induct) (simp_all add: Join_Cons affix_not_Nil, metis append.assoc Join.simps(2) Join_Cons)

lemma butlast_affix: "p \<in> set (butlast (affix a b ps)) \<Longrightarrow> \<exists>q. p = q @ a"
  by (induction a b ps rule: affix.induct) (auto simp: affix_not_Nil split: if_splits)

lemma Join_substring: "p \<in> set ps \<Longrightarrow> \<exists>u v. Join ps x = u @ p @ v"
proof (induction ps x rule: Join.induct)
  case (3 p' q ps sep)
  then show ?case by (metis Join.simps(3) append.assoc append_Nil set_ConsD)
qed (auto intro: exI [of _ "[]"])

text \<open>
  A string that cannot overlap what stands before it is found between the pieces it joins, and nowhere
  else.
\<close>

lemma Index_between:
  assumes "\<not> Contains p act" and "p = q @ '': ''" and "CHR '':'' \<notin> set act" and "act \<noteq> []" and "hd act \<noteq> CHR '' ''"
  shows "Index (p @ act @ r) act = Some (length p)"
proof -
  have early: "\<not> HasPrefix (drop j (p @ act @ r)) act" if "j < length p" for j
  proof
    assume "HasPrefix (drop j (p @ act @ r)) act"
    then have pre: "take (length act) (drop j p @ act @ r) = act" using that by (simp add: HasPrefix_def)
    show False
    proof (cases "length act \<le> length p - j")
      case True
      then have "HasPrefix (drop j p) act" using pre by (simp add: HasPrefix_def)
      then show False using assms(1) by (metis Contains_append2 Contains_iff HasPrefix_iff append_Nil append_take_drop_id)
    next
      case False
      then have act: "act = drop j p @ take (length act - (length p - j)) (act @ r)" using pre by (simp add: take_append)
      have "j = length p - 1 \<or> CHR '':'' \<in> set (drop j p)"
        using that assms(2) by (cases "j \<le> length q") (auto simp: drop_Cons')
      then show False
      proof
        assume "j = length p - 1"
        then have "drop j p = '' ''" using assms(2) by simp
        then have "hd act = CHR '' ''" using act by (metis append_Cons list.sel(1))
        then show False using assms(5) by simp
      next
        assume "CHR '':'' \<in> set (drop j p)"
        then have "CHR '':'' \<in> set act" using act by (metis Un_iff set_append)
        then show False using assms(3) by simp
      qed
    qed
  qed
  obtain i where i: "Index (p @ act @ r) act = Some i"
    using Index_None [of "p @ act @ r" act] by (cases "Index (p @ act @ r) act") (auto simp: Contains_iff)
  have "\<not> length p < i" using Index_first [OF i, of "length p"] by auto
  moreover have "\<not> i < length p"
  proof
    assume "i < length p"
    moreover from Index_Some [OF i] obtain t where t: "p @ act @ r = take i (p @ act @ r) @ act @ t" "i + length act \<le> length (p @ act @ r)"
      by blast
    have "drop i (p @ act @ r) = act @ t"
      using arg_cong [OF t(1), of "drop i"] t(2) by simp
    ultimately show False using early [of i] by simp
  qed
  ultimately show ?thesis using i by simp
qed

lemma ReplaceAll_Join:
  assumes "\<And>p. p \<in> set ps \<Longrightarrow> \<not> Contains p act" and "\<And>p. p \<in> set (butlast ps) \<Longrightarrow> \<exists>q. p = q @ '': ''"
    and "CHR '':'' \<notin> set act" "act \<noteq> []" "hd act \<noteq> CHR '' ''"
  shows "ReplaceAll (Join ps act) act v = Join ps v"
  using assms(1,2)
proof (induction ps rule: induct_list012)
  case 1
  then show ?case using assms(4) by (subst ReplaceAll.simps) simp
next
  case (2 p)
  then show ?case using assms(4) Index_None [of p act] by (subst ReplaceAll.simps) simp
next
  case (3 p q ps)
  obtain u where u: "p = u @ '': ''" using 3(4) [of p] by auto
  have "Index (p @ act @ Join (q # ps) act) act = Some (length p)"
    using Index_between [OF _ u assms(3-5)] 3(3) by simp
  moreover have "ReplaceAll (Join (q # ps) act) act v = Join (q # ps) v" using 3(2) [OF 3(3) 3(4)] by simp
  ultimately show ?case using assms(4) by (subst ReplaceAll.simps) simp
qed

lemma Count_Join:
  assumes "\<And>p. p \<in> set ps \<Longrightarrow> \<not> Contains p act" and "\<And>p. p \<in> set (butlast ps) \<Longrightarrow> \<exists>q. p = q @ '': ''"
    and "CHR '':'' \<notin> set act" "act \<noteq> []" "hd act \<noteq> CHR '' ''"
  shows "Count (Join ps act) act = length ps - 1"
  using assms(1,2)
proof (induction ps rule: induct_list012)
  case 1
  then show ?case using assms(4) by (subst Count.simps) simp
next
  case (2 p)
  then show ?case using assms(4) Index_None [of p act] by (subst Count.simps) simp
next
  case (3 p q ps)
  obtain u where u: "p = u @ '': ''" using 3(4) [of p] by auto
  have "Index (p @ act @ Join (q # ps) act) act = Some (length p)"
    using Index_between [OF _ u assms(3-5)] 3(3) by simp
  moreover have "Count (Join (q # ps) act) act = length (q # ps) - 1" using 3(2) [OF 3(3) 3(4)] by simp
  ultimately show ?case using assms(4) by (subst Count.simps) simp
qed

text \<open>Putting an action in place of a value, and a value in place of the action.\<close>

lemma action_in_place:
  assumes "\<not> Contains s act" and "a = u @ '': ''" and "CHR '':'' \<notin> set act" "act \<noteq> []" "hd act \<noteq> CHR '' ''"
  shows "ReplaceAll (ReplaceAll s (a @ v @ b) (a @ act @ b)) act v' = ReplaceAll s (a @ v @ b) (a @ v' @ b)"
    and "ReplaceAll s (a @ v @ b) (a @ v @ b) = s"
    and "Count (ReplaceAll s (a @ v @ b) (a @ act @ b)) act = Count s (a @ v @ b)"
proof -
  let ?ps = "affix a b (SplitStr s (a @ v @ b))"
  have ne: "a @ v @ b \<noteq> []" using assms(2) by simp
  have s: "Join ?ps v = s" using Join_SplitStr [OF ne, of s] by (simp add: Join_affix)
  then show "ReplaceAll s (a @ v @ b) (a @ v @ b) = s" unfolding ReplaceAll_eq [OF ne] Join_affix .
  have clean: "\<not> Contains p act" if "p \<in> set ?ps" for p
    using Join_substring [OF that, of v] assms(1) unfolding s by (metis Contains_append1 Contains_append2)
  have ends: "\<exists>q. p = q @ '': ''" if "p \<in> set (butlast ?ps)" for p
    using butlast_affix [OF that] assms(2) by (metis append.assoc)
  show "ReplaceAll (ReplaceAll s (a @ v @ b) (a @ act @ b)) act v' = ReplaceAll s (a @ v @ b) (a @ v' @ b)"
    unfolding ReplaceAll_eq [OF ne] Join_affix using ReplaceAll_Join [OF clean ends assms(3-5)] by simp
  have "Count (Join ?ps act) act = length ?ps - 1" by (rule Count_Join [OF clean ends assms(3-5)])
  then show "Count (ReplaceAll s (a @ v @ b) (a @ act @ b)) act = Count s (a @ v @ b)"
    unfolding ReplaceAll_eq [OF ne] Join_affix using Count_eq [OF ne, of s] by simp
qed

text \<open>The rendering of the two actions of a webhook configuration with the values the sources have.\<close>

definition namespace_action :: string where
  "namespace_action = ''{{ .Release.Namespace }}''"

definition policy_action :: string where
  "policy_action = ''{{ .Values.webhook.failurePolicy }}''"

definition render_defaults :: "string \<Rightarrow> string" where
  "render_defaults out = ReplaceAll (ReplaceAll out policy_action ''Fail'') namespace_action ''system''"

text \<open>After the first substitution every action is that of the namespace.\<close>

fun only_namespace :: "string \<Rightarrow> bool" where
  "only_namespace [] \<longleftrightarrow> True"
| "only_namespace (c # s) \<longleftrightarrow> (HasPrefix (c # s) ''{{'' \<longrightarrow> HasPrefix (c # s) ''{{ .R'') \<and> only_namespace s"

lemma only_namespace_front:
  assumes "no_action p" and "p = [] \<or> last p \<noteq> CHR ''{''"
  shows "only_namespace (p @ t) \<longleftrightarrow> only_namespace t"
  using assms
proof (induction p)
  case (Cons c p)
  have "\<not> HasPrefix ((c # p) @ t) ''{{''"
    using Cons.prems by (cases p) (auto simp: no_action_def HasPrefix_def)
  moreover have "no_action p" "p = [] \<or> last p \<noteq> CHR ''{''"
    using Cons.prems by (auto simp: no_action_def split: if_splits)
  ultimately show ?case using Cons.IH by simp
qed simp

lemma only_namespace_no_action: "no_action p \<Longrightarrow> only_namespace p"
proof (induction p)
  case (Cons c p)
  then have "no_action p" "\<not> HasPrefix (c # p) ''{{''" by (auto simp: no_action_def)
  then show ?case using Cons.IH by simp
qed simp

lemma only_namespace_action: "only_namespace (namespace_action @ t) \<longleftrightarrow> only_namespace t"
  by (simp add: namespace_action_def HasPrefix_def)

lemma only_namespace_Join:
  assumes "\<And>p. p \<in> set ps \<Longrightarrow> no_action p" and "\<And>p. p \<in> set (butlast ps) \<Longrightarrow> \<exists>q. p = q @ '': ''"
  shows "only_namespace (Join ps namespace_action)"
  using assms
proof (induction ps rule: induct_list012)
  case (3 p q ps)
  obtain u where "p = u @ '': ''" using 3(4) [of p] by auto
  then have "last p \<noteq> CHR ''{''" by simp
  moreover have "only_namespace (Join (q # ps) namespace_action)" using 3(2) [OF 3(3) 3(4)] by simp
  ultimately show ?case using 3(3) by (simp add: only_namespace_front only_namespace_action)
qed (simp_all add: only_namespace_no_action)

lemma only_namespace_policy: "only_namespace s \<Longrightarrow> \<not> Contains s policy_action"
proof (induction s)
  case (Cons c s)
  have "\<not> HasPrefix (c # s) policy_action"
  proof
    assume "HasPrefix (c # s) policy_action"
    then obtain t where t: "c # s = policy_action @ t" by (auto simp: HasPrefix_iff)
    from Cons.prems have "HasPrefix (policy_action @ t) ''{{'' \<longrightarrow> HasPrefix (policy_action @ t) ''{{ .R''" unfolding t [symmetric] by simp
    then show False by (simp add: policy_action_def HasPrefix_def)
  qed
  then show ?case using Cons by simp
qed (simp add: policy_action_def)

lemma substitution_lines:
  "webhookSubstitutions =
     [(''      namespace: '' @ ''system'' @ nl, ''      namespace: '' @ namespace_action @ nl),
      (''  failurePolicy: '' @ ''Fail'' @ nl, ''  failurePolicy: '' @ policy_action @ nl)]"
  by (simp add: webhookSubstitutions_def line_def namespace_action_def policy_action_def)

definition substituted :: "string \<Rightarrow> string \<Rightarrow> nat \<Rightarrow> bool" where
  "substituted body out n \<longleftrightarrow> render_defaults out = body \<and>
     (let mid = ReplaceAll out policy_action ''Fail'' in
        Count body (line ''      namespace: system'') = n \<and> Count mid namespace_action = n \<and>
        Count mid (line ''  failurePolicy: Fail'') = n \<and> Count out policy_action = n \<and>
        (\<forall>ns. ReplaceAll mid namespace_action ns = ReplaceAll body (line ''      namespace: system'') (line (''      namespace: '' @ ns))) \<and>
        (\<forall>policy. ReplaceAll out policy_action policy =
           ReplaceAll mid (line ''  failurePolicy: Fail'') (line (''  failurePolicy: '' @ policy))))"

lemma render_substituted:
  assumes "no_action body" and "fold_err (substitute src cfg) webhookSubstitutions body = Inr out"
  shows "substituted body out (length (wc_Webhooks cfg))"
proof -
  let ?f1 = "''      namespace: '' @ ''system'' @ nl" and ?t1 = "''      namespace: '' @ namespace_action @ nl"
  let ?f2 = "''  failurePolicy: '' @ ''Fail'' @ nl" and ?t2 = "''  failurePolicy: '' @ policy_action @ nl"
  let ?mid = "ReplaceAll body ?f1 ?t1"
  have out: "out = ReplaceAll ?mid ?f2 ?t2" "Count body ?f1 = length (wc_Webhooks cfg)" "Count ?mid ?f2 = length (wc_Webhooks cfg)"
    using assms(2) unfolding substitution_lines by (simp_all add: substitute_def Let_def split: if_splits)
  have act1: "\<not> Contains body namespace_action"
  proof
    assume "Contains body namespace_action"
    then obtain u v where "body = u @ namespace_action @ v" by (auto simp: Contains_iff)
    then have "body = u @ ''{{'' @ ('' .Release.Namespace }}'' @ v)" by (simp add: namespace_action_def)
    then have "Contains body ''{{''" unfolding Contains_iff by blast
    then show False using assms(1) by (simp add: no_action_def)
  qed
  let ?ps = "affix ''      namespace: '' nl (SplitStr body ?f1)"
  have body: "Join ?ps ''system'' = body"
    unfolding Join_affix [symmetric] by (rule Join_SplitStr) simp
  have mid: "?mid = Join ?ps namespace_action"
    by (subst ReplaceAll_eq) (simp_all only: Join_affix, simp)
  have "no_action p" if "p \<in> set ?ps" for p
    using Join_substring [OF that, of "''system''"] assms(1) unfolding body by (metis no_action_sub)
  moreover have "\<exists>q. p = q @ '': ''" if "p \<in> set (butlast ?ps)" for p
  proof -
    have "\<exists>q. p = q @ ''      namespace: ''" by (rule butlast_affix [OF that])
    then obtain q where "p = q @ ''      namespace: ''" ..
    then show ?thesis by (intro exI [of _ "q @ ''      namespace''"]) simp
  qed
  ultimately have "only_namespace ?mid" unfolding mid by (rule only_namespace_Join)
  then have act2: "\<not> Contains ?mid policy_action" by (rule only_namespace_policy)
  note pol = action_in_place [OF act2, where a = "''  failurePolicy: ''" and u = "''  failurePolicy''" and v = "''Fail''" and b = nl]
  note ns = action_in_place [OF act1, where a = "''      namespace: ''" and u = "''      namespace''" and v = "''system''" and b = nl]
  have mid: "ReplaceAll out policy_action ''Fail'' = ?mid"
    unfolding out(1) using pol(1,2) by (simp add: policy_action_def)
  have render: "render_defaults out = body"
    unfolding render_defaults_def mid using ns(1,2) by (simp add: namespace_action_def)
  have "ReplaceAll ?mid namespace_action x = ReplaceAll body ?f1 (''      namespace: '' @ x @ nl)" for x
    using ns(1) by (simp add: namespace_action_def)
  moreover have "ReplaceAll out policy_action x = ReplaceAll ?mid ?f2 (''  failurePolicy: '' @ x @ nl)" for x
    unfolding out(1) using pol(1) by (simp add: policy_action_def)
  moreover have "Count ?mid namespace_action = length (wc_Webhooks cfg)" "Count out policy_action = length (wc_Webhooks cfg)"
    using ns(3) pol(3) out unfolding out(1) by (simp_all add: namespace_action_def policy_action_def)
  ultimately show ?thesis
    unfolding substituted_def Let_def mid using render out(2,3) by (simp add: line_def)
qed

lemma SplitStr_substring: "p \<in> set (SplitStr s sep) \<Longrightarrow> sep \<noteq> [] \<Longrightarrow> \<exists>u v. s = u @ p @ v"
  using Join_substring [of p "SplitStr s sep" sep] by (simp add: Join_SplitStr)

lemma splitDocs_no_action:
  assumes "no_action b" and "doc \<in> set (splitDocs b)"
  shows "no_action doc"
proof -
  obtain d where d: "d \<in> set (SplitStr b (nl @ line ''---''))" and doc: "doc = nl @ TrimPrefix d (line ''---'')"
    using assms(2) by (auto simp: splitDocs_def)
  have "no_action d" using SplitStr_substring [OF d] assms(1) by (auto simp: line_def dest: no_action_sub)
  moreover have "\<exists>u. d = u @ TrimPrefix d (line ''---'')"
    by (auto simp: TrimPrefix_def intro: exI [of _ "take (length (line ''---'')) d"])
  ultimately have "no_action (TrimPrefix d (line ''---''))" by (metis append_Nil2 no_action_sub)
  then show ?thesis unfolding doc by (subst no_action_front) (simp add: nl_def)
qed

text \<open>
  (C17) The webhook configurations of the chart say what the sources say, with two values left to the chart. When a document of the
  manifests is turned into a body of the chart, for a configuration with \<open>n\<close> webhooks: rendering that body with the namespace
  \<^verbatim>\<open>system\<close> and the failure policy \<^verbatim>\<open>Fail\<close>, the values of the sources, gives back the document's own body; the
  body has the namespace action \<open>n\<close> times and the policy action \<open>n\<close> times, in place of the \<open>n\<close> lines that name
  the namespace \<^verbatim>\<open>system\<close> and the \<open>n\<close> lines with the policy \<^verbatim>\<open>Fail\<close>; and rendering it with another
  namespace or policy changes exactly those lines.
\<close>

theorem webhook_body_renders_back:
  assumes "check_source src raw = Inr b" and "doc \<in> set (splitDocs b)" and "webhook_body src cfg doc = Inr out"
  defines "n \<equiv> length (wc_Webhooks cfg)" and "mid \<equiv> ReplaceAll out policy_action ''Fail''"
  shows "\<exists>body. bodyFrom doc ''webhooks'' src = Inr body \<and> render_defaults out = body \<and>
    Count body (line ''      namespace: system'') = n \<and> Count mid namespace_action = n \<and>
    Count mid (line ''  failurePolicy: Fail'') = n \<and> Count out policy_action = n \<and>
    (\<forall>ns. ReplaceAll mid namespace_action ns = ReplaceAll body (line ''      namespace: system'') (line (''      namespace: '' @ ns))) \<and>
    (\<forall>policy. ReplaceAll out policy_action policy =
       ReplaceAll mid (line ''  failurePolicy: Fail'') (line (''  failurePolicy: '' @ policy)))"
proof -
  have "no_action b" using assms(1) by (auto simp: check_source_def no_action_def split: if_splits)
  from splitDocs_no_action [OF this assms(2)] have doc: "no_action doc" .
  obtain body where body: "bodyFrom doc ''webhooks'' src = Inr body"
    and sub: "fold_err (substitute src cfg) webhookSubstitutions body = Inr out"
    using assms(3) by (auto simp: webhook_body_def)
  have "substituted body out n"
    unfolding n_def by (rule render_substituted [OF bodyFrom_no_action [OF body _ doc] sub]) simp
  with body show ?thesis unfolding substituted_def Let_def mid_def by blast
qed

definition sample_yaml :: "unit yaml" where
  "sample_yaml = \<lparr>yaml_object = (\<lambda>_. Inr \<lparr>co_Kind = ''CustomResourceDefinition'', co_Metadata = \<lparr>cm_Name = ''zones'', cm_Annotations = []\<rparr>\<rparr>),
     yaml_webhookConfig = (\<lambda>_. Inr \<lparr>wc_Kind = ''ValidatingWebhookConfiguration'', wc_Webhooks = [''v'']\<rparr>),
     yaml_renderedObject = (\<lambda>d. Inr \<lparr>ro_Kind = (if Contains d ''C'' then ''CustomResourceDefinition'' else if Contains d ''R'' then ''ClusterRole'' else ''W''),
       ro_Metadata = \<lparr>cm_Name = (if Contains d ''-'' then ''op-r'' else ''r''), cm_Annotations = []\<rparr>, ro_Rules = Some [()], ro_Webhooks = []\<rparr>)\<rparr>"

definition sample_crd_source :: string where
  "sample_crd_source = ''a'' @ nl @ line ''spec:'' @ line ''  x''"

lemmas text_evals = nl_def line_def HasPrefix_def TrimRightFunc_def

lemma sample_crd_template:
  "crd_template sample_yaml src sample_crd_source =
     Inr (crd_prologue \<lparr>cm_Name = ''zones'', cm_Annotations = []\<rparr> @ line ''spec:'' @ line ''  x'' @ line ''{{- end }}'')"
  by (simp add: crd_template_def sample_yaml_def bodyFrom_def and_then_def sample_crd_source_def text_evals)

lemma sample_crd_source_read: "check_source f sample_crd_source = Inr sample_crd_source"
  by (simp add: check_source_def sample_crd_source_def text_evals)

theorem crd_template_verbatim_witness:
  "\<exists>m pre tx n. sample_crd_source = pre @ nl @ tx @ replicate n (CHR 0x0A) \<and>
    crd_prologue \<lparr>cm_Name = ''zones'', cm_Annotations = []\<rparr> @ line ''spec:'' @ line ''  x'' @ line ''{{- end }}'' =
      crd_prologue m @ tx @ nl @ line ''{{- end }}''"
proof -
  from crd_template_verbatim [OF sample_crd_source_read sample_crd_template] show ?thesis by metis
qed

definition sample_manifest :: string where
  "sample_manifest = ''k'' @ nl @ line ''webhooks:'' @ line ''      namespace: system'' @ line ''  failurePolicy: Fail''"

definition sample_webhook_config :: webhook_config where
  "sample_webhook_config = \<lparr>wc_Kind = ''ValidatingWebhookConfiguration'', wc_Webhooks = [''v'']\<rparr>"

lemma sample_webhook_body:
  "webhook_body ''f'' sample_webhook_config (nl @ sample_manifest) =
     Inr (line ''webhooks:'' @ line ''      namespace: {{ .Release.Namespace }}'' @ line ''  failurePolicy: {{ .Values.webhook.failurePolicy }}'')"
  by (simp add: webhook_body_def bodyFrom_def and_then_def sample_manifest_def sample_webhook_config_def webhookSubstitutions_def
      substitute_def text_evals Count.simps ReplaceAll.simps)

lemma sample_docs: "splitDocs sample_manifest = [nl @ sample_manifest]"
  by (simp add: splitDocs_def sample_manifest_def text_evals SplitStr.simps TrimPrefix_def TrimSpace_def TrimFunc_def is_space_def char_code_def)

theorem webhook_body_renders_back_witness:
  "bodyFrom (nl @ sample_manifest) ''webhooks'' ''f'' = Inr (render_defaults
     (line ''webhooks:'' @ line ''      namespace: {{ .Release.Namespace }}'' @ line ''  failurePolicy: {{ .Values.webhook.failurePolicy }}'')) \<and>
   Count (line ''webhooks:'' @ line ''      namespace: {{ .Release.Namespace }}'' @ line ''  failurePolicy: {{ .Values.webhook.failurePolicy }}'')
     policy_action = 1"
proof -
  have "check_source ''f'' sample_manifest = Inr sample_manifest"
    by (simp add: check_source_def sample_manifest_def text_evals)
  from webhook_body_renders_back [OF this _ sample_webhook_body] show ?thesis by (auto simp: sample_docs sample_webhook_config_def)
qed

section \<open>What the check of a rendered chart establishes\<close>

text \<open>The last webhook of a name in a configuration, which is the one a map keyed by name keeps.\<close>

definition hook_named :: "'v rendered_webhook list \<Rightarrow> string \<Rightarrow> (string \<times> 'v slice) option" where
  "hook_named hooks name = map_option (\<lambda>h. (rw_Path h, rw_Rules h)) (find (\<lambda>h. rw_Name h = name) (rev hooks))"

definition chart_matches ::
  "'v rendered_object list \<Rightarrow> 'v rendered_object list \<Rightarrow> 'v rendered_object list \<Rightarrow> 'v rendered_object list \<Rightarrow> bool" where
  "chart_matches wantCRDs wantRoles wantHooks rendered \<longleftrightarrow>
     mset (map ro_name wantCRDs) = mset (map ro_name (byKind rendered ''CustomResourceDefinition'')) \<and>
     (\<forall>want \<in> set wantRoles. \<exists>pre got post. byKind rendered ''ClusterRole'' = pre @ got # post \<and>
        HasSuffix (ro_name got) (''-'' @ ro_name want) \<and> (\<forall>ob \<in> set pre. \<not> HasSuffix (ro_name ob) (''-'' @ ro_name want)) \<and>
        ro_Rules got = ro_Rules want) \<and>
     (\<forall>want \<in> set wantHooks. \<exists>got. byKind rendered (ro_Kind want) = [got] \<and>
        hook_named (ro_Webhooks want) = hook_named (ro_Webhooks got))"

lemma map_of_webhookSummary: "map_of (webhookSummary hooks) = hook_named hooks"
proof (induction hooks rule: rev_induct)
  case (snoc h hooks)
  then show ?case by (auto simp: webhookSummary_def hook_named_def update_conv' fun_eq_iff)
qed (simp add: webhookSummary_def hook_named_def fun_eq_iff)

lemma same_map_iff: "same_map m n \<longleftrightarrow> map_of m = map_of n"
  by (auto simp: same_map_def fun_eq_iff) (metis UnCI map_of_eq_None_iff)

lemma crd_problems_iff:
  "crd_problems wantCRDs rendered = [] \<longleftrightarrow>
     mset (map ro_name wantCRDs) = mset (map ro_name (byKind rendered ''CustomResourceDefinition''))"
proof -
  have "sort xs = sort ys \<longleftrightarrow> mset xs = mset ys" for xs ys :: "string list"
    by (metis mset_sort properties_for_sort sorted_sort)
  then show ?thesis by (simp add: crd_problems_def object_names_def)
qed

lemma find_first: "find P xs = Some x \<longleftrightarrow> (\<exists>pre post. xs = pre @ x # post \<and> P x \<and> (\<forall>y \<in> set pre. \<not> P y))"
proof
  assume "find P xs = Some x"
  then obtain i where i: "i < length xs" "P (xs ! i)" "x = xs ! i" "\<forall>j<i. \<not> P (xs ! j)"
    by (auto simp: find_Some_iff)
  then have "xs = take i xs @ x # drop (Suc i) xs" by (simp add: id_take_nth_drop)
  moreover have "\<forall>y \<in> set (take i xs). \<not> P y" using i by (auto simp: in_set_conv_nth)
  ultimately show "\<exists>pre post. xs = pre @ x # post \<and> P x \<and> (\<forall>y \<in> set pre. \<not> P y)" using i by blast
next
  assume "\<exists>pre post. xs = pre @ x # post \<and> P x \<and> (\<forall>y \<in> set pre. \<not> P y)"
  then obtain pre post where xs: "xs = pre @ x # post" and "P x" "\<forall>y \<in> set pre. \<not> P y" by blast
  then have "find P (pre @ x # post) = Some x" by (induction pre arbitrary: xs) auto
  then show "find P xs = Some x" by (simp add: xs)
qed

lemma role_problems_iff:
  "role_problems gotRoles want = [] \<longleftrightarrow> (\<exists>pre got post. gotRoles = pre @ got # post \<and>
     HasSuffix (ro_name got) (''-'' @ ro_name want) \<and> (\<forall>ob \<in> set pre. \<not> HasSuffix (ro_name ob) (''-'' @ ro_name want)) \<and>
     ro_Rules got = ro_Rules want)"
proof -
  have "role_problems gotRoles want = [] \<longleftrightarrow>
    (\<exists>got. find (\<lambda>ob. HasSuffix (ro_name ob) (''-'' @ ro_name want)) gotRoles = Some got \<and> ro_Rules got = ro_Rules want)"
    by (auto simp: role_problems_def split: option.splits)
  then show ?thesis unfolding find_first by blast
qed

lemma hook_problems_iff:
  "hook_problems rendered want = [] \<longleftrightarrow>
     (\<exists>got. byKind rendered (ro_Kind want) = [got] \<and> hook_named (ro_Webhooks want) = hook_named (ro_Webhooks got))"
  by (auto simp: hook_problems_def same_map_iff map_of_webhookSummary split: list.splits)

lemma no_problems_iff:
  "crd_problems wantCRDs rendered @ concat (map (role_problems (byKind rendered ''ClusterRole'')) wantRoles) @
     concat (map (hook_problems rendered) wantHooks) = [] \<longleftrightarrow> chart_matches wantCRDs wantRoles wantHooks rendered"
  by (simp add: chart_matches_def crd_problems_iff role_problems_iff hook_problems_iff)

text \<open>
  (C16) The check of a rendered chart accepts exactly the charts that match the sources: the same resource definition
  names, as often; for every role of the sources the first rendered role whose name ends in its name has its
  rules; and for every webhook configuration of the sources exactly one rendered configuration of its kind, with the
  same paths and rules under the same webhook names. When it does not accept, it returns an error.
\<close>

theorem verifyRendered_iff:
  assumes "parseObjects y b ''stdin'' = Inr rendered"
    and "os_Glob os (crd_pattern p) s = (Inr crdFiles, s1)" and "run_state (loadObjects os y crdFiles) s1 = (Inr wantCRDs, s2)"
    and "run_state (helperRoleSources os p) s2 = (Inr roleSrcs, s3)"
    and "run_state (loadObjects os y (role_source p # roleSrcs)) s3 = (Inr wantRoles, s4)"
    and "run_state (loadObjects os y [webhook_source p]) s4 = (Inr wantHooks, s5)"
  shows "(\<exists>msg. fst (run_state (verifyRendered os y p (Inr b)) s) = Inr msg) \<longleftrightarrow> chart_matches wantCRDs wantRoles wantHooks rendered"
  unfolding no_problems_iff [symmetric]
  by (simp add: verifyRendered_def run_or_return assms Let_def)

section \<open>The chart's directory of resource definitions\<close>

text \<open>
  A file system by the contents of its files: reading, matching a pattern and making directories change
  none, \<^verbatim>\<open>RemoveAll\<close> drops the files at and below a path, \<^verbatim>\<open>WriteFile\<close> sets one.
\<close>

definition below :: "string \<Rightarrow> string \<Rightarrow> bool" where
  "below dir f \<longleftrightarrow> f = dir \<or> HasPrefix f (dir @ ''/'')"

definition read_law :: "'s os \<Rightarrow> ('s \<Rightarrow> string \<rightharpoonup> string) \<Rightarrow> bool" where
  "read_law os files \<longleftrightarrow>
     (\<forall>f s r s'. os_ReadFile os f s = (r, s') \<longrightarrow> files s' = files s \<and> (\<forall>b. r = Inr b \<longrightarrow> files s f = Some b)) \<and>
     (\<forall>pat s r s'. os_Glob os pat s = (r, s') \<longrightarrow> files s' = files s)"

definition write_law :: "'s os \<Rightarrow> ('s \<Rightarrow> string \<rightharpoonup> string) \<Rightarrow> bool" where
  "write_law os files \<longleftrightarrow>
     (\<forall>d s r s'. os_MkdirAll os d s = (r, s') \<longrightarrow> files s' = files s) \<and>
     (\<forall>f c s u s'. os_WriteFile os f c s = (Inr u, s') \<longrightarrow> files s' = (files s)(f \<mapsto> c)) \<and>
     (\<forall>d s u s'. os_RemoveAll os d s = (Inr u, s') \<longrightarrow> files s' = files s |` {f. \<not> below d f})"

definition crd_output :: "'v yaml \<Rightarrow> (string \<rightharpoonup> string) \<Rightarrow> string \<Rightarrow> string \<Rightarrow> bool" where
  "crd_output y files src out \<longleftrightarrow> (\<exists>b. files src = Some b \<and> check_source src b = Inr b \<and> crd_template y src b = Inr out)"

lemma check_source_Inr: "check_source path b = Inr b' \<Longrightarrow> b' = b"
  by (simp add: check_source_def split: if_splits)

lemma generateCRD_effect:
  assumes "read_law os files" and "write_law os files" and "run_state (generateCRD os y p src) s = (Inr u, s')"
  shows "\<exists>out. crd_output y (files s) src out \<and> files s' = (files s)(crd_target p src \<mapsto> out)"
proof -
  obtain b c s1 out s2 v where "os_ReadFile os src s = (Inr b, s1)" "check_source src b = Inr c" "crd_template y src c = Inr out"
    "os_MkdirAll os (Dir (crd_target p src)) s1 = (Inr v, s2)" "os_WriteFile os (crd_target p src) out s2 = (Inr u, s')"
    using assms(3) by (auto simp: generateCRD_def readSource_def writeFile_def or_return_Inr_iff)
  moreover from this have "c = b" by (simp add: check_source_Inr)
  moreover from calculation have "files s1 = files s" "files s src = Some b" using assms(1) by (auto simp: read_law_def)
  moreover from calculation have "files s2 = files s1" "files s' = (files s2)(crd_target p src \<mapsto> out)"
    using assms(2) by (auto simp: write_law_def)
  ultimately show ?thesis by (auto simp: crd_output_def)
qed

lemma generateCRD_loop:
  assumes laws: "read_law os files" "write_law os files" and "run_state (for_each (generateCRD os y p) srcs) s = (Inr u, s')"
    and "\<And>src src'. src \<in> set srcs \<Longrightarrow> src' \<in> set srcs \<Longrightarrow> src \<noteq> crd_target p src'"
  shows "\<exists>outs. list_all2 (crd_output y (files s)) srcs outs \<and> files s' = files s ++ map_of (rev (zip (map (crd_target p) srcs) outs))"
  using assms(3,4)
proof (induction srcs arbitrary: s)
  case (Cons src srcs)
  obtain v s1 where head: "run_state (generateCRD os y p src) s = (Inr v, s1)"
    and tail: "run_state (for_each (generateCRD os y p) srcs) s1 = (Inr u, s')"
    using Cons.prems(1) by (auto simp: or_return_Inr_iff)
  obtain out where out: "crd_output y (files s) src out" and s1: "files s1 = (files s)(crd_target p src \<mapsto> out)"
    using generateCRD_effect [OF laws head] by blast
  obtain outs where outs: "list_all2 (crd_output y (files s1)) srcs outs"
    and s': "files s' = files s1 ++ map_of (rev (zip (map (crd_target p) srcs) outs))"
    using Cons.IH [OF tail] Cons.prems(2) by auto
  have "crd_output y (files s1) src' o' = crd_output y (files s) src' o'" if "src' \<in> set srcs" for src' o'
    using Cons.prems(2) [of src' src] that by (simp add: crd_output_def s1)
  then have "list_all2 (crd_output y (files s)) srcs outs"
    using outs by (auto simp: list_all2_conv_all_nth)
  then show ?case
    using out by (intro exI [of _ "out # outs"]) (simp add: s' s1 map_add_def fun_eq_iff split: option.splits)
qed (auto intro: exI [of _ "[]"])

text \<open>
  (C22) After a run that succeeds, the chart's directory of resource definitions holds one template for each source,
  made of what that source held when the run began, and nothing else: templates of definitions that are gone are removed, and
  no file outside the directory and the written ones is touched.
\<close>

theorem generateCRDs_directory:
  assumes "read_law os files" and "write_law os files" and "os_Glob os (crd_pattern p) s = (Inr srcs, s0)"
    and "run_state (generateCRDs os y p) s = (Inr u, s')"
    and "\<forall>src \<in> set srcs. \<not> below (crd_dir p) src \<and> (\<forall>src' \<in> set srcs. src \<noteq> crd_target p src')"
  shows "\<exists>outs. list_all2 (crd_output y (files s)) srcs outs \<and> srcs \<noteq> [] \<and>
    files s' = (files s |` {f. \<not> below (crd_dir p) f}) ++ map_of (rev (zip (map (crd_target p) srcs) outs))"
proof -
  have s0: "files s0 = files s" using assms(1,3) by (auto simp: read_law_def)
  obtain v s1 where rm: "os_RemoveAll os (crd_dir p) s0 = (Inr v, s1)" and ne: "srcs \<noteq> []"
    and loop: "run_state (for_each (generateCRD os y p) srcs) s1 = (Inr u, s')"
    using assms(4) by (auto simp: generateCRDs_def or_return_Inr_iff assms(3) split: if_splits)
  have s1: "files s1 = files s |` {f. \<not> below (crd_dir p) f}" using assms(2) rm s0 by (auto simp: write_law_def)
  obtain outs where outs: "list_all2 (crd_output y (files s1)) srcs outs"
    and s': "files s' = files s1 ++ map_of (rev (zip (map (crd_target p) srcs) outs))"
    using generateCRD_loop [OF assms(1,2) loop] assms(5) by blast
  have "crd_output y (files s1) src out = crd_output y (files s) src out" if "src \<in> set srcs" for src out
    using assms(5) that by (simp add: crd_output_def s1 restrict_map_def)
  then have "list_all2 (crd_output y (files s)) srcs outs" using outs by (auto simp: list_all2_conv_all_nth)
  with ne s' show ?thesis unfolding s1 by blast
qed

subsection \<open>A file system in memory\<close>

definition mem_match :: "string \<Rightarrow> string \<Rightarrow> bool" where
  "mem_match pat f = (case Cut pat (CHR ''*'') of (pre, post, _) \<Rightarrow>
     HasPrefix f pre \<and> HasSuffix (drop (length pre) f) post \<and> CHR ''/'' \<notin> set (drop (length pre) f))"

definition mem_os :: "(string \<times> string) list os" where
  "mem_os = \<lparr>os_ReadFile = (\<lambda>f s. (case map_of s f of None \<Rightarrow> Inl (ErrorText ''no such file'') | Some b \<Rightarrow> Inr b, s)),
     os_Glob = (\<lambda>pat s. (Inr (filter (mem_match pat) (map fst s)), s)),
     os_RemoveAll = (\<lambda>d s. (Inr (), filter (\<lambda>(f, _). \<not> below d f) s)),
     os_MkdirAll = (\<lambda>_ s. (Inr (), s)), os_WriteFile = (\<lambda>f c s. (Inr (), (f, c) # s))\<rparr>"

lemma map_of_filter_key: "map_of (filter (\<lambda>(k, _). P k) s) = map_of s |` {k. P k}"
  by (induction s) (auto simp: fun_eq_iff restrict_map_def)

lemma mem_os_laws: "read_law mem_os map_of" "write_law mem_os map_of"
  by (auto simp: read_law_def write_law_def mem_os_def map_of_filter_key split: option.splits)

definition sample_paths :: paths where
  "sample_paths = \<lparr>pa_config = ''c'', pa_chart = ''h''\<rparr>"

definition sample_disk :: "(string \<times> string) list" where
  "sample_disk = [(''c/crd/bases/a.yaml'', sample_crd_source), (''h/templates/crds/b.yaml'', ''stale'')]"

lemmas path_evals = JoinPath_def Clean_def Base_def Dir_def crd_pattern_def crd_dir_def crd_target_def role_source_def webhook_source_def
  sample_paths_def

lemma sample_crd_paths:
  "crd_pattern sample_paths = ''c/crd/bases/*.yaml''" "crd_dir sample_paths = ''h/templates/crds''"
  "crd_target sample_paths ''c/crd/bases/a.yaml'' = ''h/templates/crds/a.yaml''"
  by (simp_all add: path_evals TrimRightFunc_def)

lemma sample_glob: "os_Glob mem_os (crd_pattern sample_paths) sample_disk = (Inr [''c/crd/bases/a.yaml''], sample_disk)"
  by (simp add: sample_crd_paths mem_os_def mem_match_def sample_disk_def HasPrefix_def HasSuffix_def)

lemma sample_generated:
  "run_state (generateCRDs mem_os sample_yaml sample_paths) sample_disk =
     (Inr (), [(''h/templates/crds/a.yaml'', crd_prologue \<lparr>cm_Name = ''zones'', cm_Annotations = []\<rparr> @ line ''spec:'' @ line ''  x'' @ line ''{{- end }}''),
       (''c/crd/bases/a.yaml'', sample_crd_source)])"
proof -
  have "os_RemoveAll mem_os (crd_dir sample_paths) sample_disk = (Inr (), [(''c/crd/bases/a.yaml'', sample_crd_source)])"
    by (simp add: sample_crd_paths mem_os_def sample_disk_def below_def HasPrefix_def)
  moreover have "os_ReadFile mem_os ''c/crd/bases/a.yaml'' [(''c/crd/bases/a.yaml'', sample_crd_source)] =
      (Inr sample_crd_source, [(''c/crd/bases/a.yaml'', sample_crd_source)])"
    "os_MkdirAll mem_os d s = (Inr (), s)" "os_WriteFile mem_os f c s = (Inr (), (f, c) # s)" for d f c s
    by (simp_all add: mem_os_def)
  ultimately show ?thesis
    by (simp add: generateCRDs_def generateCRD_def readSource_def writeFile_def run_or_return sample_glob sample_crd_source_read
        sample_crd_template sample_crd_paths(3))
qed

theorem generateCRDs_directory_witness:
  "map_of (snd (run_state (generateCRDs mem_os sample_yaml sample_paths) sample_disk)) ''h/templates/crds/b.yaml'' = None"
proof -
  have "\<forall>src \<in> set [''c/crd/bases/a.yaml'']. \<not> below (crd_dir sample_paths) src \<and>
      (\<forall>src' \<in> set [''c/crd/bases/a.yaml'']. src \<noteq> crd_target sample_paths src')"
    by (simp add: sample_crd_paths below_def HasPrefix_def)
  from generateCRDs_directory [OF mem_os_laws sample_glob sample_generated this]
  obtain outs where outs: "list_all2 (crd_output sample_yaml (map_of sample_disk)) [''c/crd/bases/a.yaml''] outs"
    and files: "map_of (snd (run_state (generateCRDs mem_os sample_yaml sample_paths) sample_disk)) =
      (map_of sample_disk |` {f. \<not> below (crd_dir sample_paths) f}) ++
        map_of (rev (zip (map (crd_target sample_paths) [''c/crd/bases/a.yaml'']) outs))"
    unfolding sample_generated by auto
  from outs obtain out where "outs = [out]" by (auto simp: list_all2_Cons1)
  then show ?thesis unfolding files by (simp add: sample_crd_paths below_def HasPrefix_def restrict_map_def)
qed

definition check_disk :: "(string \<times> string) list" where
  "check_disk = [(''c/crd/bases/a.yaml'', ''C''), (''c/rbac/role.yaml'', ''R''), (''c/rbac/x_admin_role.yaml'', ''R''), (''c/webhook/manifests.yaml'', ''W'')]"

lemma splitDocs_one:
  assumes "\<not> Contains b (nl @ line ''---'')" and "\<not> HasPrefix b (line ''---'')" and "TrimSpace b \<noteq> []"
  shows "splitDocs b = [nl @ b]"
proof -
  have "SplitStr b (nl @ line ''---'') = [b]"
    using assms(1) Index_None [of b "nl @ line ''---''"] by (subst SplitStr.simps) (simp add: line_def)
  then show ?thesis using assms by (simp add: splitDocs_def TrimPrefix_def)
qed

lemma sample_parsed:
  "splitDocs ''C'' = [nl @ ''C'']" "splitDocs ''R'' = [nl @ ''R'']" "splitDocs ''W'' = [nl @ ''W'']"
  by (intro splitDocs_one; simp add: text_evals TrimSpace_def TrimFunc_def is_space_def char_code_def)+

definition sample_rendered :: "string \<Rightarrow> string \<Rightarrow> unit rendered_object" where
  "sample_rendered kind name = \<lparr>ro_Kind = kind, ro_Metadata = \<lparr>cm_Name = name, cm_Annotations = []\<rparr>, ro_Rules = Some [()], ro_Webhooks = []\<rparr>"

lemma sample_check_paths:
  "role_source sample_paths = ''c/rbac/role.yaml''" "webhook_source sample_paths = ''c/webhook/manifests.yaml''"
  "JoinPath [pa_config sample_paths, ''rbac'', ''*_admin_role.yaml''] = ''c/rbac/*_admin_role.yaml''"
  "JoinPath [pa_config sample_paths, ''rbac'', ''*_editor_role.yaml''] = ''c/rbac/*_editor_role.yaml''"
  "JoinPath [pa_config sample_paths, ''rbac'', ''*_viewer_role.yaml''] = ''c/rbac/*_viewer_role.yaml''"
  by (simp_all add: path_evals)

lemma sample_stdin:
  "parseObjects sample_yaml (''C'' @ nl @ line ''---'' @ ''R-'' @ nl @ line ''---'' @ ''W'') ''stdin'' =
     Inr [sample_rendered ''CustomResourceDefinition'' ''r'', sample_rendered ''ClusterRole'' ''op-r'', sample_rendered ''W'' ''r'']"
  by (simp add: parseObjects_def splitDocs_def SplitStr.simps TrimPrefix_def TrimSpace_def TrimFunc_def is_space_def char_code_def
      text_evals sample_yaml_def sample_rendered_def)

lemma sample_loaded:
  "parseObjects sample_yaml ''C'' f = Inr [sample_rendered ''CustomResourceDefinition'' ''r'']"
  "parseObjects sample_yaml ''R'' f = Inr [sample_rendered ''ClusterRole'' ''r'']"
  "parseObjects sample_yaml ''W'' f = Inr [sample_rendered ''W'' ''r'']"
  by (simp_all add: parseObjects_def sample_parsed sample_yaml_def sample_rendered_def text_evals)

lemma check_disk_globs:
  "os_Glob mem_os (crd_pattern sample_paths) check_disk = (Inr [''c/crd/bases/a.yaml''], check_disk)"
  "os_Glob mem_os ''c/rbac/*_admin_role.yaml'' check_disk = (Inr [''c/rbac/x_admin_role.yaml''], check_disk)"
  "os_Glob mem_os ''c/rbac/*_editor_role.yaml'' check_disk = (Inr [], check_disk)"
  "os_Glob mem_os ''c/rbac/*_viewer_role.yaml'' check_disk = (Inr [], check_disk)"
  by (simp_all add: sample_crd_paths mem_os_def mem_match_def check_disk_def HasPrefix_def HasSuffix_def)

lemma check_disk_reads:
  "os_ReadFile mem_os ''c/crd/bases/a.yaml'' check_disk = (Inr ''C'', check_disk)"
  "os_ReadFile mem_os ''c/rbac/role.yaml'' check_disk = (Inr ''R'', check_disk)"
  "os_ReadFile mem_os ''c/rbac/x_admin_role.yaml'' check_disk = (Inr ''R'', check_disk)"
  "os_ReadFile mem_os ''c/webhook/manifests.yaml'' check_disk = (Inr ''W'', check_disk)"
  by (simp_all add: mem_os_def check_disk_def)

theorem verifyRendered_iff_witness:
  "\<exists>msg. fst (run_state (verifyRendered mem_os sample_yaml sample_paths
     (Inr (''C'' @ nl @ line ''---'' @ ''R-'' @ nl @ line ''---'' @ ''W''))) check_disk) = Inr msg"
proof -
  let ?crd = "sample_rendered ''CustomResourceDefinition'' ''r''" and ?role = "sample_rendered ''ClusterRole'' ''r''"
    and ?got = "sample_rendered ''ClusterRole'' ''op-r''" and ?hook = "sample_rendered ''W'' ''r''"
  have roles: "run_state (helperRoleSources mem_os sample_paths) check_disk = (Inr [''c/rbac/x_admin_role.yaml''], check_disk)"
    by (simp add: helperRoleSources_def run_or_return sample_check_paths check_disk_globs)
  have loads: "run_state (loadObjects mem_os sample_yaml [''c/crd/bases/a.yaml'']) check_disk = (Inr [?crd], check_disk)"
    "run_state (loadObjects mem_os sample_yaml [role_source sample_paths, ''c/rbac/x_admin_role.yaml'']) check_disk = (Inr [?role, ?role], check_disk)"
    "run_state (loadObjects mem_os sample_yaml [webhook_source sample_paths]) check_disk = (Inr [?hook], check_disk)"
    by (simp_all add: loadObjects_def run_or_return sample_check_paths check_disk_reads sample_loaded)
  have "chart_matches [?crd] [?role, ?role] [?hook] [?crd, ?got, ?hook]"
    unfolding no_problems_iff [symmetric]
    by (simp add: crd_problems_def role_problems_def hook_problems_def object_names_def byKind_def sample_rendered_def ro_name_def HasSuffix_def
        same_map_def)
  then show ?thesis using verifyRendered_iff [OF sample_stdin check_disk_globs(1) loads(1) roles loads(2,3)] by blast
qed

end
