(* ===== verification/Rollout.thy ===== *)
theory Rollout
  imports Cluster_Nodes
begin

text \<open>
  The gated rolling upgrade (\<^verbatim>\<open>technitiumcluster_rollout.go\<close>).

  The StatefulSet's partition says which ordinals may run the new pod template: those at or above
  it. A pass checks the gate of every released ordinal and releases the next one down only when
  all of them pass. The gate's cached read of the Primary is the value \<open>memo\<close> threaded through
  the checks. The decision of a pass is the pure function \<open>rollout_decision\<close>; on it rests the
  model of a whole rollout, \<open>rollout_step\<close>, in which passes interleave with nodes finishing
  their upgrade.
\<close>

section \<open>Data\<close>

definition defaultUpgradeStallTimeout :: int where
  "defaultUpgradeStallTimeout = 10 * 60 * 1000000000"

definition reasonRollingOut :: string where
  "reasonRollingOut = ''RollingOut''"

definition reasonUpToDate :: string where
  "reasonUpToDate = ''UpToDate''"

definition reasonUpgradeStalled :: string where
  "reasonUpgradeStalled = ''Stalled''"

definition reasonDowngradeBlocked :: string where
  "reasonDowngradeBlocked = ''DowngradeBlocked''"

definition degradedUpgradeStall :: string where
  "degradedUpgradeStall = ''UpgradeStalled''"

definition dnsServerContainerName :: string where
  "dnsServerContainerName = ''dns-server''"

record rollout_state =
  rs_status :: condition_status
  rs_reason :: string
  rs_message :: string
  rs_bookmark :: "rollout_bookmark option"
  rs_degradedReason :: string
  rs_degradedMessage :: string

record downgrade_block =
  db_image :: string
  db_deployed :: version
  db_requested :: version

record stateful_set_outcome =
  ou_sts :: stateful_set
  ou_templateChanged :: bool
  ou_downgrade :: "downgrade_block option"

definition downgrade_message :: "downgrade_block \<Rightarrow> string" where
  "downgrade_message d =
     ''Refusing to downgrade Technitium from '' @ version_String (db_deployed d) @ '' to '' @ version_String (db_requested d) @
     '': a newer server may have written configuration on the data volume that an older one cannot read. The deployed image '' @
     db_image d @ '' is kept; set the annotation '' @ AllowDowngradeAnnotation @ ''='' @ [CHR 0x22] @ ''true'' @ [CHR 0x22] @
     '' on the TechnitiumCluster to allow it''"

definition templateImage :: "stateful_set \<Rightarrow> string" where
  "templateImage sts =
     (case find (\<lambda>c. ct_Name c = dnsServerContainerName) (pt_Containers (sts_Template sts)) of
        Some c \<Rightarrow> ct_Image c
      | None \<Rightarrow> [])"

definition checkDowngrade :: "technitium_cluster \<Rightarrow> stateful_set \<Rightarrow> downgrade_block option" where
  "checkDowngrade tc existing =
     (if map_get (om_Annotations (tc_meta tc)) AllowDowngradeAnnotation = ''true'' then None
      else case ParseImageVersion (tc_Image (tc_Spec tc)) of
        None \<Rightarrow> None
      | Some requested \<Rightarrow>
          (let image = templateImage existing in
           if image = [] then None
           else
             let deployed =
                   (case ParseImageVersion image of
                      Some v \<Rightarrow> Some v
                    | None \<Rightarrow> (case ParseVersion (ts_Version (tc_Status tc)) of Inl _ \<Rightarrow> None | Inr v \<Rightarrow> Some v))
             in case deployed of
                  None \<Rightarrow> None
                | Some deployed \<Rightarrow>
                    if Compare requested deployed \<ge> 0 then None
                    else Some \<lparr>db_image = image, db_deployed = deployed, db_requested = requested\<rparr>))"

definition reconciler_now :: "'s cluster_reconciler \<Rightarrow> ('s world, int) state" where
  "reconciler_now r = (case cr_Now r of Some f \<Rightarrow> f | None \<Rightarrow> now (cr_runtime r))"

definition stallTimeout :: "'s cluster_reconciler \<Rightarrow> int" where
  "stallTimeout r = (if cr_StallTimeout r > 0 then cr_StallTimeout r else defaultUpgradeStallTimeout)"

section \<open>The gate\<close>

record rollout_gate =
  rg_username :: string
  rg_password :: string
  rg_pods :: "int \<Rightarrow> cluster_pod_info option"
  rg_revision :: string
  rg_target :: "version option"
  rg_replicas :: int

type_synonym primary_memo = "(go_error + cluster_state) option"

definition gate_primary ::
  "'s cluster_reconciler \<Rightarrow> technitium_cluster \<Rightarrow> rollout_gate \<Rightarrow> primary_memo
    \<Rightarrow> ('s world, (go_error + cluster_state) \<times> primary_memo) state" where
  "gate_primary r tc g memo =
     (case memo of
        Some res \<Rightarrow> ret (res, memo)
      | None \<Rightarrow> do {
          res \<leftarrow> or_return
            (nodeClientFactory r (nodeEndpoint (tc_Name tc) primaryOrdinal (cr_OperatorNamespace r)) (rg_username g) (rg_password g))
            (\<lambda>c. na_GetClusterState c);
          ret (res, Some res)
        })"

text \<open>The checks on the pod alone: \<open>None\<close> when they pass, the reason otherwise.\<close>

definition pod_gate :: "rollout_gate \<Rightarrow> int \<Rightarrow> string option" where
  "pod_gate g ordinal =
     (case rg_pods g ordinal of
        None \<Rightarrow> Some ''its pod does not exist yet''
      | Some pod \<Rightarrow>
          if pi_revision pod \<noteq> rg_revision g then Some ''its pod has not been recreated on the new revision''
          else if \<not> pi_ready pod then Some ''its pod is not Ready''
          else None)"

text \<open>The node's own API reports the target version, when the target image has one.\<close>

definition version_gate ::
  "'s cluster_reconciler \<Rightarrow> technitium_cluster \<Rightarrow> rollout_gate \<Rightarrow> int \<Rightarrow> ('s world, string option) state" where
  "version_gate r tc g ordinal =
     (case rg_target g of
        None \<Rightarrow> ret None
      | Some target \<Rightarrow> do {
          built \<leftarrow> nodeClientFactory r (nodeEndpoint (tc_Name tc) ordinal (cr_OperatorNamespace r)) (rg_username g) (rg_password g);
          case built of
            Inl err \<Rightarrow> ret (Some (''building a client failed: '' @ Error err))
          | Inr node \<Rightarrow> do {
              got \<leftarrow> na_GetClusterState node;
              ret (case got of
                Inl err \<Rightarrow> Some (''its API is not reachable: '' @ Error err)
              | Inr state \<Rightarrow>
                  if ParseVersion (cs_Version state) = Inr target then None
                  else Some (''it reports version '' @ Quote (cs_Version state) @ '', not '' @ version_String target))
            }
        })"

text \<open>The Primary lists the node as Connected, under its new address, and has seen it since it became Ready.\<close>

definition member_gate :: "cluster_state \<Rightarrow> string \<Rightarrow> cluster_pod_info \<Rightarrow> string option" where
  "member_gate ps name pod =
     (if \<not> cs_ClusterInitialized ps then None
      else case findClusterMember (cs_Nodes ps) name of
        None \<Rightarrow> Some ''it is not Connected in the Primary's cluster state''
      | Some member \<Rightarrow>
          if cn_State member \<noteq> nodeConnectedState then Some ''it is not Connected in the Primary's cluster state''
          else if pi_ip pod \<notin> set (cn_IPAddresses member) then Some ''the Primary has not yet recorded its new pod IP''
          else if (case pi_readySince pod of
                     None \<Rightarrow> False
                   | Some t \<Rightarrow> (case cn_LastSeen member of None \<Rightarrow> True | Some seen \<Rightarrow> \<not> seen > t))
               then Some ''the Primary has not seen it since its pod restarted''
          else None)"

definition gate_check ::
  "'s cluster_reconciler \<Rightarrow> technitium_cluster \<Rightarrow> rollout_gate \<Rightarrow> int \<Rightarrow> primary_memo
    \<Rightarrow> ('s world, string option \<times> primary_memo) state" where
  "gate_check r tc g ordinal memo =
     (case pod_gate g ordinal of
        Some why \<Rightarrow> ret (Some why, memo)
      | None \<Rightarrow> do {
          v \<leftarrow> version_gate r tc g ordinal;
          case v of
            Some why \<Rightarrow> ret (Some why, memo)
          | None \<Rightarrow>
              if ordinal \<noteq> primaryOrdinal \<and> rg_replicas g > 1 then do {
                (res, memo') \<leftarrow> gate_primary r tc g memo;
                ret (case res of
                  Inl err \<Rightarrow> (Some (''the Primary's cluster state is not readable: '' @ Error err), memo')
                | Inr ps \<Rightarrow> (member_gate ps (ordinal_name (tc_Name tc) ordinal) (the (rg_pods g ordinal)), memo'))
              }
              else ret (None, memo)
        })"

text \<open>The loop over the released ordinals: each with the reason it fails its gate, if it does.\<close>

fun gate_all ::
  "'s cluster_reconciler \<Rightarrow> technitium_cluster \<Rightarrow> rollout_gate \<Rightarrow> int list \<Rightarrow> primary_memo
    \<Rightarrow> ('s world, (int \<times> string option) list) state" where
  "gate_all r tc g [] memo = ret []"
| "gate_all r tc g (i # is) memo = do {
     (why, memo') \<leftarrow> gate_check r tc g i memo;
     rest \<leftarrow> gate_all r tc g is memo';
     ret ((i, why) # rest)
   }"

section \<open>A pass\<close>

datatype rollout_move = Release int | Finished | WaitOn int string

definition rollout_decision :: "int \<Rightarrow> (int \<times> string option) list \<Rightarrow> rollout_move" where
  "rollout_decision part gated =
     (case find (\<lambda>(i, why). why \<noteq> None) gated of
        Some (i, why) \<Rightarrow> WaitOn i (the why)
      | None \<Rightarrow> if part > 0 then Release (part - 1) else Finished)"

text \<open>\<^verbatim>\<open>time.Time.Truncate(time.Second)\<close>, and a duration of whole seconds printed with \<^verbatim>\<open>%s\<close>.\<close>

definition truncate_second :: "int \<Rightarrow> int" where
  "truncate_second t = t - t mod 1000000000"

definition duration_string :: "int \<Rightarrow> string" where
  "duration_string d =
     (let secs = d div 1000000000; h = secs div 3600; m = secs div 60 mod 60; s = secs mod 60
      in if h > 0 then Itoa h @ ''h'' @ Itoa m @ ''m'' @ Itoa s @ ''s''
         else if m > 0 then Itoa m @ ''m'' @ Itoa s @ ''s''
         else Itoa s @ ''s'')"

definition waiting_state ::
  "'s cluster_reconciler \<Rightarrow> technitium_cluster \<Rightarrow> string \<Rightarrow> int \<Rightarrow> string \<Rightarrow> int \<Rightarrow> int \<Rightarrow> int \<Rightarrow> int \<Rightarrow> rollout_state" where
  "waiting_state r tc targetLabel pending why updated replicas started t =
     (let node = ordinal_name (tc_Name tc) pending;
          state = \<lparr>rs_status = ConditionTrue, rs_reason = reasonRollingOut,
            rs_message = ''Upgrading '' @ node @ '' to '' @ targetLabel @ '' ('' @ Itoa updated @ ''/'' @ Itoa replicas @ '' nodes updated)'',
            rs_bookmark = Some \<lparr>rb_Node = node, rb_NodeStartedTime = started\<rparr>,
            rs_degradedReason = [], rs_degradedMessage = []\<rparr>;
          waited = t - started
      in if waited > stallTimeout r then
           let message = ''Upgrade to '' @ targetLabel @ '' is stalled on '' @ node @ '' after '' @ duration_string waited @ '': '' @ why @
                 ''. No further nodes will be restarted until it recovers''
           in state\<lparr>rs_reason := reasonUpgradeStalled, rs_message := message,
                rs_degradedReason := degradedUpgradeStall, rs_degradedMessage := message\<rparr>
         else state)"

definition idle_state :: "string \<Rightarrow> rollout_state" where
  "idle_state targetLabel = \<lparr>rs_status = ConditionFalse, rs_reason = reasonUpToDate,
     rs_message = ''Every node runs '' @ targetLabel, rs_bookmark = None, rs_degradedReason = [], rs_degradedMessage = []\<rparr>"

definition rolling_state :: "technitium_cluster \<Rightarrow> string \<Rightarrow> rollout_state" where
  "rolling_state tc message = \<lparr>rs_status = ConditionTrue, rs_reason = reasonRollingOut, rs_message = message,
     rs_bookmark = ts_Rollout (tc_Status tc), rs_degradedReason = [], rs_degradedMessage = []\<rparr>"

definition sts_replicas :: "stateful_set \<Rightarrow> int" where
  "sts_replicas sts = (case sts_Replicas sts of Some n \<Rightarrow> n | None \<Rightarrow> 1)"

definition sts_partition :: "stateful_set \<Rightarrow> int" where
  "sts_partition sts = (case sts_RollingUpdate sts of Some (Some p) \<Rightarrow> p | _ \<Rightarrow> 0)"

text \<open>\<open>part .. replicas - 1\<close>, in order.\<close>

definition released :: "int \<Rightarrow> int \<Rightarrow> int list" where
  "released part replicas = [part .. replicas - 1]"

text \<open>The pass past its early returns: the gates of the released ordinals, and what follows them.\<close>

definition rollout_pass ::
  "'s cluster_reconciler \<Rightarrow> technitium_cluster \<Rightarrow> stateful_set \<Rightarrow> rollout_gate \<Rightarrow> int \<Rightarrow> string
    \<Rightarrow> ('s world, go_error + rollout_state \<times> stateful_set) state" where
  "rollout_pass r tc sts g part targetLabel = do {
     gated \<leftarrow> gate_all r tc g (released part (rg_replicas g)) None;
     t0 \<leftarrow> reconciler_now r;
     let updated = int (length (filter (\<lambda>(_, why). why = None) gated));
     case rollout_decision part gated of
       Finished \<Rightarrow> ok (idle_state targetLabel, sts)
     | Release next \<Rightarrow>
         or_return (wrap_error (''lowering partition of StatefulSet '' @ om_Name (sts_meta sts) @ '' to '' @ Itoa next @ '': '')
           (kpatch (cr_statefulSets r) sts (sts\<lparr>sts_RollingUpdate := Some (Some next)\<rparr>))) (\<lambda>sts'. do {
           t1 \<leftarrow> reconciler_now r;
           ok (waiting_state r tc targetLabel next ''its pod has not been recreated on the new revision''
                 updated (rg_replicas g) (truncate_second t0) t1, sts')
         })
     | WaitOn pending why \<Rightarrow>
         (let started = (case ts_Rollout (tc_Status tc) of
                Some b \<Rightarrow> if rb_Node b = ordinal_name (tc_Name tc) pending then rb_NodeStartedTime b else truncate_second t0
              | None \<Rightarrow> truncate_second t0)
          in do {
            t1 \<leftarrow> reconciler_now r;
            ok (waiting_state r tc targetLabel pending why updated (rg_replicas g) started t1, sts)
          })
   }"

definition target_label :: "stateful_set \<Rightarrow> string" where
  "target_label sts = (case ParseImageVersion (templateImage sts) of Some v \<Rightarrow> version_String v | None \<Rightarrow> templateImage sts)"

text \<open>
  The StatefulSet is the second result: lowering the partition patches it in place, and the caller
  reads its status afterwards.
\<close>

definition walkRollout ::
  "'s cluster_reconciler \<Rightarrow> technitium_cluster \<Rightarrow> stateful_set_outcome
    \<Rightarrow> ('s world, go_error + rollout_state \<times> stateful_set) state" where
  "walkRollout r tc out =
     (let sts = ou_sts out;
          replicas = sts_replicas sts;
          part = sts_partition sts;
          targetLabel = target_label sts;
          wasUpgrading = (case rt_FindStatusCondition (cr_runtime r) (ts_Conditions (tc_Status tc)) ConditionUpgrading of
                            Some c \<Rightarrow> c_Status c = ConditionTrue | None \<Rightarrow> False);
          revisionsDiffer = (sts_CurrentRevision sts \<noteq> [] \<and> sts_UpdateRevision sts \<noteq> [] \<and>
                             sts_CurrentRevision sts \<noteq> sts_UpdateRevision sts)
      in if \<not> ou_templateChanged out \<and> part = 0 \<and> \<not> wasUpgrading \<and> \<not> revisionsDiffer then
           ok (idle_state targetLabel, sts)
         else if ou_templateChanged out then
           ok (rolling_state tc (''Starting upgrade to '' @ targetLabel), sts)
         else if sts_ObservedGeneration sts < om_Generation (sts_meta sts) \<or> sts_UpdateRevision sts = [] then
           ok (rolling_state tc (''Waiting for the StatefulSet controller to observe the upgrade to '' @ targetLabel), sts)
         else
           or_return (adminCredentials r tc) (\<lambda>(username, password).
           or_return (resolveClusterPods r tc replicas) (\<lambda>pods.
             rollout_pass r tc sts
               \<lparr>rg_username = username, rg_password = password, rg_pods = pods, rg_revision = sts_UpdateRevision sts,
                rg_target = ParseImageVersion (templateImage sts), rg_replicas = replicas\<rparr>
               (min part replicas) targetLabel)))"

definition reconcileRollout ::
  "'s cluster_reconciler \<Rightarrow> technitium_cluster \<Rightarrow> stateful_set_outcome
    \<Rightarrow> ('s world, go_error + rollout_state \<times> stateful_set) state" where
  "reconcileRollout r tc out =
     or_return (walkRollout r tc out) (\<lambda>(state, sts).
       case ou_downgrade out of
         None \<Rightarrow> ok (state, sts)
       | Some d \<Rightarrow>
           (let state = state\<lparr>rs_degradedReason := reasonDowngradeBlocked, rs_degradedMessage := downgrade_message d\<rparr>
            in ok (if rs_status state = ConditionFalse
                   then state\<lparr>rs_reason := reasonDowngradeBlocked, rs_message := rs_degradedMessage state\<rparr>
                   else state, sts)))"

section \<open>Lemmas\<close>

lemma emits_version_gate: "production r \<Longrightarrow> emits is_http (version_gate r tc g i)"
  unfolding version_gate_def
  by (intro emits_case_option emits_return emits_with_node emits_bind emits_login)

lemma emits_gate_primary: "production r \<Longrightarrow> emits is_http (gate_primary r tc g memo)"
  unfolding gate_primary_def
  by (intro emits_case_option emits_return emits_or_return_node emits_bind emits_login)

lemma emits_gate_check: "production r \<Longrightarrow> emits is_http (gate_check r tc g i memo)"
  unfolding gate_check_def
  by (intro emits_rules emits_return emits_version_gate emits_gate_primary)

lemma emits_gate_all: "production r \<Longrightarrow> emits is_http (gate_all r tc g is memo)"
proof (induction "is" arbitrary: memo)
  case (Cons i "is")
  then show ?case
    by simp (intro emits_rules emits_return emits_gate_check)
qed simp

lemma emits_reconciler_now: "production r \<Longrightarrow> emits P (reconciler_now r)"
  by (simp add: reconciler_now_def production_def)

lemma gate_all_ordinals:
  "run_state (gate_all r tc g is memo) w = (gated, w') \<Longrightarrow> map fst gated = is"
  by (induction "is" arbitrary: memo w gated w') (auto split: prod.splits)

lemma find_SomeD: "find P xs = Some x \<Longrightarrow> x \<in> set xs \<and> P x"
  by (induction xs) (auto split: if_splits)

lemma all_gated_iff:
  "find (\<lambda>(i, why). why \<noteq> None) gated = None \<longleftrightarrow> (\<forall>(i, why) \<in> set gated. why = None)"
  by (auto simp: find_None_iff)

lemma rollout_decision_Release_iff:
  "rollout_decision part gated = Release q \<longleftrightarrow> 0 < part \<and> q = part - 1 \<and> (\<forall>(i, why) \<in> set gated. why = None)"
  unfolding rollout_decision_def all_gated_iff [symmetric] by (auto split: option.split)

lemma rollout_decision_Finished_iff:
  "rollout_decision part gated = Finished \<longleftrightarrow> part \<le> 0 \<and> (\<forall>(i, why) \<in> set gated. why = None)"
  unfolding rollout_decision_def all_gated_iff [symmetric] by (auto split: option.split)

section \<open>A whole rollout\<close>

text \<open>
  A rollout over \<open>n\<close> ordinals as a transition system: the state is the partition and the set of
  ordinals whose nodes have finished their upgrade, that is, pass the gate. A node that was
  released may finish at any time; a pass of the controller may release the next ordinal, by the
  decision of the code on the gates of the released ones. A template change parks the partition
  at \<open>n\<close>, with no node on the new revision.
\<close>

definition gate_results :: "int set \<Rightarrow> int \<Rightarrow> int \<Rightarrow> (int \<times> string option) list" where
  "gate_results D p n = map (\<lambda>i. (i, if i \<in> D then None else Some [])) (released p n)"

inductive rollout_step :: "int \<Rightarrow> int \<times> int set \<Rightarrow> int \<times> int set \<Rightarrow> bool" for n where
  node_finished: "p \<le> i \<Longrightarrow> i < n \<Longrightarrow> i \<notin> D \<Longrightarrow> rollout_step n (p, D) (p, insert i D)"
| pass: "rollout_decision p (gate_results D p n) = Release q \<Longrightarrow> rollout_step n (p, D) (q, D)"

inductive_cases rollout_stepE: "rollout_step n (p, D) (q, E)"

lemma set_released [simp]: "set (released p n) = {p ..< n}"
  by (auto simp: released_def)

lemma gate_results_Release_iff:
  "rollout_decision p (gate_results D p n) = Release q \<longleftrightarrow> 0 < p \<and> q = p - 1 \<and> {p ..< n} \<subseteq> D"
  by (auto simp: rollout_decision_Release_iff gate_results_def)

definition rollout_inv :: "int \<Rightarrow> int \<times> int set \<Rightarrow> bool" where
  "rollout_inv n s \<longleftrightarrow> (case s of (p, D) \<Rightarrow> 0 \<le> p \<and> p \<le> n \<and> D \<subseteq> {p ..< n} \<and> {p + 1 ..< n} \<subseteq> D)"

lemma rollout_inv_step: "rollout_step n s s' \<Longrightarrow> rollout_inv n s \<Longrightarrow> rollout_inv n s'"
proof (induction rule: rollout_step.induct)
  case (node_finished p i D)
  then show ?case by (auto simp: rollout_inv_def)
next
  case (pass p D q)
  then show ?case by (auto simp: rollout_inv_def gate_results_Release_iff)
qed

definition unfinished :: "int \<Rightarrow> int \<times> int set \<Rightarrow> nat" where
  "unfinished n s = (case s of (p, D) \<Rightarrow> nat p + (nat n - card D))"

lemma rollout_inv_card: "rollout_inv n (p, D) \<Longrightarrow> finite D \<and> card D \<le> nat n"
proof -
  assume "rollout_inv n (p, D)"
  then have D: "D \<subseteq> {0 ..< n}" by (auto simp: rollout_inv_def)
  then have "finite D" by (rule finite_subset) simp
  moreover have "card D \<le> nat n" using card_mono [OF _ D] by simp
  ultimately show ?thesis by simp
qed

lemma rollout_step_decreases:
  assumes "rollout_step n s s'" and "rollout_inv n s"
  shows "unfinished n s = Suc (unfinished n s')"
  using assms
proof (induction rule: rollout_step.induct)
  case (node_finished p i D)
  have "rollout_inv n (p, insert i D)"
    using rollout_inv_step [OF rollout_step.node_finished] node_finished by blast
  then have "card (insert i D) \<le> nat n" "finite D"
    using rollout_inv_card rollout_inv_card [OF node_finished.prems] by blast+
  with node_finished show ?case by (simp add: unfinished_def)
next
  case (pass p D q)
  then show ?case by (auto simp: gate_results_Release_iff unfinished_def)
qed

lemma rollout_relpowp_inv:
  assumes "(rollout_step n ^^ k) s s'" and "rollout_inv n s"
  shows "rollout_inv n s' \<and> unfinished n s = k + unfinished n s'"
  using assms
proof (induction k arbitrary: s')
  case (Suc k)
  then obtain s1 where "(rollout_step n ^^ k) s s1" "rollout_step n s1 s'" by (meson relpowp_Suc_E)
  moreover have "rollout_inv n s1 \<and> unfinished n s = k + unfinished n s1"
    using Suc.IH [OF calculation(1)] Suc.prems(2) .
  ultimately show ?case
    using rollout_inv_step [of n s1 s'] rollout_step_decreases [of n s1 s'] by simp
qed simp

lemma rollout_inv_start: "0 \<le> n \<Longrightarrow> rollout_inv n (n, {})"
  by (simp add: rollout_inv_def)

lemma rollout_reachable_inv: "0 \<le> n \<Longrightarrow> (rollout_step n)\<^sup>*\<^sup>* (n, {}) s \<Longrightarrow> rollout_inv n s"
  by (metis rollout_inv_start rollout_relpowp_inv rtranclp_imp_relpowp)

text \<open>
  (C1) At every moment of a rollout at most one released node has not finished its upgrade, and it
  is the one released last; in particular the Primary (ordinal 0) is released only when every
  other node has finished.
\<close>

theorem rollout_one_at_a_time:
  assumes "0 \<le> n" and "(rollout_step n)\<^sup>*\<^sup>* (n, {}) (p, D)"
  shows "{p ..< n} - D \<subseteq> {p} \<and> (p = 0 \<longrightarrow> {1 ..< n} \<subseteq> D)"
proof -
  have inv: "{p + 1 ..< n} \<subseteq> D" using rollout_reachable_inv [OF assms] by (simp add: rollout_inv_def)
  moreover have "x = p" if "x \<in> {p ..< n} - D" for x
  proof (rule ccontr)
    assume "x \<noteq> p"
    with that have "x \<in> {p + 1 ..< n}" by auto
    with inv that show False by blast
  qed
  ultimately show ?thesis by auto
qed

text \<open>
  (C2) Every rollout ends: it makes at most \<open>2 * n\<close> steps, and a rollout that can make no further
  step has released and finished every node.
\<close>

theorem rollout_completes:
  assumes "0 \<le> n" and "(rollout_step n ^^ k) (n, {}) (p, D)"
  shows "k \<le> 2 * nat n \<and> ((\<nexists>s. rollout_step n (p, D) s) \<longrightarrow> p = 0 \<and> D = {0 ..< n})"
proof
  have inv: "rollout_inv n (p, D)" and count: "2 * nat n = k + unfinished n (p, D)"
    using rollout_relpowp_inv [OF assms(2) rollout_inv_start [OF assms(1)]] by (auto simp: unfinished_def)
  then show "k \<le> 2 * nat n" by simp
  show "(\<nexists>s. rollout_step n (p, D) s) \<longrightarrow> p = 0 \<and> D = {0 ..< n}"
  proof
    assume stuck: "\<nexists>s. rollout_step n (p, D) s"
    have "{p ..< n} \<subseteq> D"
    proof
      fix i
      assume "i \<in> {p ..< n}"
      with stuck show "i \<in> D" by (metis atLeastLessThan_iff rollout_step.node_finished)
    qed
    moreover have "\<not> 0 < p"
      using stuck rollout_step.pass calculation by (metis gate_results_Release_iff)
    ultimately show "p = 0 \<and> D = {0 ..< n}" using inv by (auto simp: rollout_inv_def)
  qed
qed

section \<open>A pass of the controller\<close>

lemma run_reconciler_now:
  "production r \<Longrightarrow> run_state (reconciler_now r) w =
     (fst (rt_Now (cr_runtime r) (ext w)), w\<lparr>ext := snd (rt_Now (cr_runtime r) (ext w))\<rparr>)"
  by (simp add: reconciler_now_def production_def run_now)

lemma no_patch_events:
  "list_all is_kube_read es \<Longrightarrow> EvPatch k m \<notin> set es" "list_all is_http es \<Longrightarrow> EvPatch k m \<notin> set es"
  by (auto simp: list_all_iff is_kube_read_def is_http_def)

lemma walkRollout_cases:
  assumes "run_state (walkRollout r tc out) w = (res, w')"
  obtains (early) "w' = w" "\<exists>st. res = Inr (st, ou_sts out)"
  | (no_credentials) e where "run_state (adminCredentials r tc) w = (Inl e, w')" "res = Inl e"
  | (no_pods) c e w1 where "run_state (adminCredentials r tc) w = (Inr c, w1)"
      "run_state (resolveClusterPods r tc (sts_replicas (ou_sts out))) w1 = (Inl e, w')" "res = Inl e"
  | (gates) u pw w1 pods w2 where
      "run_state (adminCredentials r tc) w = (Inr (u, pw), w1)"
      "run_state (resolveClusterPods r tc (sts_replicas (ou_sts out))) w1 = (Inr pods, w2)"
      "run_state (rollout_pass r tc (ou_sts out)
         \<lparr>rg_username = u, rg_password = pw, rg_pods = pods, rg_revision = sts_UpdateRevision (ou_sts out),
          rg_target = ParseImageVersion (templateImage (ou_sts out)), rg_replicas = sts_replicas (ou_sts out)\<rparr>
         (min (sts_partition (ou_sts out)) (sts_replicas (ou_sts out))) (target_label (ou_sts out))) w2 = (res, w')"
  using assms unfolding walkRollout_def Let_def
  by (auto simp: run_or_return split: if_splits prod.splits sum.splits)

lemma emits_rollout_pass: "production r \<Longrightarrow> emits any_event (rollout_pass r tc sts g part lbl)"
  unfolding rollout_pass_def Let_def
  by (intro emits_bind emits_any [OF emits_gate_all] emits_reconciler_now)
    (auto split: rollout_move.split intro!: emits_rules emits_reconciler_now)

text \<open>
  The patch of a pass: it sets the partition and nothing else, is sent in a state \<open>w\<^sub>1\<close> that differs
  from \<open>w\<close> by a reading of the clock only, and decides the result of the pass.
\<close>

definition lowers ::
  "'s cluster_reconciler \<Rightarrow> stateful_set \<Rightarrow> int \<Rightarrow> 's world \<Rightarrow> go_error + rollout_state \<times> stateful_set \<Rightarrow> 's world \<Rightarrow> bool" where
  "lowers r sts q w res w' \<longleftrightarrow>
     (\<exists>w1 got w2. trace w1 = trace w \<and>
        run_state (kpatch (cr_statefulSets r) sts (sts\<lparr>sts_RollingUpdate := Some (Some q)\<rparr>)) w1 = (got, w2) \<and>
        (case got of
           Inl _ \<Rightarrow> w' = w2 \<and> (\<exists>e. res = Inl e)
         | Inr sts' \<Rightarrow> w' = w2\<lparr>ext := snd (rt_Now (cr_runtime r) (ext w2))\<rparr> \<and> (\<exists>st. res = Inr (st, sts'))))"

lemma lowers_trace:
  "lowers r sts q w res w' \<Longrightarrow> trace w' = trace w @ [EvPatch (kc_kind (cr_statefulSets r))
     (kc_meta (cr_statefulSets r) (sts\<lparr>sts_RollingUpdate := Some (Some q)\<rparr>))]"
  unfolding lowers_def by (elim exE conjE) (simp add: kpatch_def run_outside prod_eq_iff split: sum.split_asm; auto)

lemma rollout_pass_patch:
  assumes prod: "production r"
    and run: "run_state (rollout_pass r tc sts g part lbl) w = (res, w')"
    and patch: "EvPatch k m \<in> set (new_events w w')"
  shows "\<exists>gated w1. run_state (gate_all r tc g (released part (rg_replicas g)) None) w = (gated, w1) \<and>
    0 < part \<and> (\<forall>(i, why) \<in> set gated. why = None) \<and>
    lowers r sts (part - 1) w1 res w'"
proof -
  obtain gated w1 where gated: "run_state (gate_all r tc g (released part (rg_replicas g)) None) w = (gated, w1)"
    by fastforce
  obtain es where es: "trace w1 = trace w @ es" "list_all is_http es"
    using emits_D [OF emits_gate_all [OF prod] gated] by blast
  note now = run_reconciler_now [OF prod]
  show ?thesis
  proof (cases "rollout_decision part gated")
    case (Release q)
    then have q: "0 < part" "q = part - 1" "\<forall>(i, why) \<in> set gated. why = None"
      by (simp_all add: rollout_decision_Release_iff)
    have "lowers r sts q w1 res w'"
      unfolding lowers_def
      by (rule exI [of _ "snd (run_state (reconciler_now r) w1)"])
        (use run gated Release in \<open>auto simp: rollout_pass_def now run_or_return run_wrap_error Let_def
          map_sum_def split: sum.splits prod.splits\<close>)
    with q gated show ?thesis by blast
  next
    case Finished
    then have "trace w' = trace w1"
      using run gated by (auto simp: rollout_pass_def now)
    with es patch no_patch_events show ?thesis by auto
  next
    case (WaitOn j why)
    then have "trace w' = trace w1"
      using run gated by (auto simp: rollout_pass_def now Let_def)
    with es patch no_patch_events show ?thesis by auto
  qed
qed

section \<open>What a released node has shown\<close>

text \<open>
  The conditions of the gate as facts about the outside: the listed pod of the node, the answer of
  the node's own API, and the Primary's answer about the node. \<open>between w w' v\<close> says that the state
  \<open>v\<close> of the world lies between \<open>w\<close> and \<open>w'\<close>.
\<close>

definition between :: "'s world \<Rightarrow> 's world \<Rightarrow> 's world \<Rightarrow> bool" where
  "between w w' v \<longleftrightarrow> (\<exists>es es'. trace v = trace w @ es \<and> trace w' = trace v @ es')"

definition reads_state ::
  "'s cluster_reconciler \<Rightarrow> technitium_cluster \<Rightarrow> string \<Rightarrow> string \<Rightarrow> int \<Rightarrow> 's world \<Rightarrow> cluster_state \<Rightarrow> bool" where
  "reads_state r tc u pw i w st \<longleftrightarrow>
     (\<exists>node w1. run_state (nodeClientFactory r (nodeEndpoint (tc_Name tc) i (cr_OperatorNamespace r)) u pw) w = (Inr node, w1) \<and>
        fst (run_state (na_GetClusterState node) w1) = Inr st)"

definition ready_on_revision :: "string \<Rightarrow> string \<Rightarrow> pod \<Rightarrow> bool" where
  "ready_on_revision name revision pod \<longleftrightarrow>
     om_Name (pod_meta pod) = name \<and> pod_IP pod \<noteq> [] \<and>
     map_get (om_Labels (pod_meta pod)) ''controller-revision-hash'' = revision \<and>
     (\<exists>c \<in> set (pod_Conditions pod). pc_Type c = ''Ready'' \<and> pc_Status c = ConditionTrue)"

definition ready_condition :: "pod \<Rightarrow> pod_condition option" where
  "ready_condition pod = find (\<lambda>c. pc_Type c = ''Ready'' \<and> pc_Status c = ConditionTrue) (pod_Conditions pod)"

definition connected_member :: "cluster_state \<Rightarrow> string \<Rightarrow> pod \<Rightarrow> bool" where
  "connected_member ps name pod \<longleftrightarrow>
     (\<exists>m \<in> set (cs_Nodes ps). HasPrefix (cn_Name m) (name @ ''.'') \<and> cn_State m = ''Connected'' \<and>
        pod_IP pod \<in> set (cn_IPAddresses m) \<and>
        (\<forall>c t. ready_condition pod = Some c \<and> pc_LastTransitionTime c = Some t \<longrightarrow>
           (\<exists>seen. cn_LastSeen m = Some seen \<and> t < seen)))"

lemma between_refl [simp]: "between w w w"
  by (simp add: between_def)

lemma between_trans: "between w w' v \<Longrightarrow> between w' w'' w' \<Longrightarrow> between w w'' v"
  by (auto simp: between_def)

lemma between_emits: "emits P m \<Longrightarrow> run_state m w = (a, w') \<Longrightarrow> between w w' w \<and> between w w' w'"
  by (auto simp: between_def dest: emits_D)

lemma between_chain: "between w0 w w \<Longrightarrow> between w w' w' \<Longrightarrow> between w0 w' w \<and> between w0 w' w'"
  by (auto simp: between_def)

lemma between_narrow: "between w0 w w0 \<Longrightarrow> between w w' v \<Longrightarrow> between w0 w' v"
  by (auto simp: between_def)

text \<open>The cached answer of the Primary was read during the pass.\<close>

definition memo_read ::
  "'s cluster_reconciler \<Rightarrow> technitium_cluster \<Rightarrow> rollout_gate \<Rightarrow> 's world \<Rightarrow> 's world \<Rightarrow> primary_memo \<Rightarrow> bool" where
  "memo_read r tc g w0 w memo \<longleftrightarrow>
     (\<forall>ps. memo = Some (Inr ps) \<longrightarrow> (\<exists>v. between w0 w v \<and> reads_state r tc (rg_username g) (rg_password g) 0 v ps))"

lemma memo_read_later: "memo_read r tc g w0 w memo \<Longrightarrow> between w w' w \<Longrightarrow> memo_read r tc g w0 w' memo"
  unfolding memo_read_def by (blast intro: between_trans)

lemma memo_read_primary:
  assumes "production r" and "run_state (gate_primary r tc g memo) w = ((res, memo'), w')"
    and "between w0 w w" and "memo_read r tc g w0 w memo"
  shows "memo_read r tc g w0 w' memo'"
proof (cases memo)
  case None
  then have "reads_state r tc (rg_username g) (rg_password g) 0 w ps" if "memo' = Some (Inr ps)" for ps
    using assms(2) that
    by (auto simp: gate_primary_def reads_state_def run_or_return primaryOrdinal_def split: prod.splits sum.splits)
  moreover have "between w0 w' w"
    using assms(3) between_emits [OF emits_gate_primary [OF assms(1)] assms(2)] by (auto intro: between_trans)
  ultimately show ?thesis unfolding memo_read_def by blast
next
  case (Some r)
  with assms show ?thesis by (auto simp: gate_primary_def)
qed

lemma memo_read_check:
  assumes r: "production r" and run: "run_state (gate_check r tc g i memo) w = ((why, memo'), w')"
    and w0: "between w0 w w" and memo: "memo_read r tc g w0 w memo"
  shows "memo_read r tc g w0 w' memo'"
proof (cases "pod_gate g i")
  case None
  obtain v w1 where vg: "run_state (version_gate r tc g i) w = (v, w1)" by fastforce
  note between_emits [OF emits_version_gate [OF r] vg]
  then have w1: "between w0 w1 w1" "memo_read r tc g w0 w1 memo"
    using w0 memo between_chain memo_read_later by blast+
  show ?thesis
    using run None vg w1 memo_read_primary [OF r _ w1]
    by (auto simp: gate_check_def split: option.splits if_splits prod.splits sum.splits)
next
  case (Some why)
  with run memo show ?thesis by (auto simp: gate_check_def)
qed

text \<open>Every ordinal whose gate passed was checked during the pass, with a Primary read during the pass.\<close>

lemma gate_all_checked:
  assumes r: "production r" and "run_state (gate_all r tc g is memo) w = (gated, w')" and "(i, why) \<in> set gated"
    and "between w0 w w" "memo_read r tc g w0 w memo"
  shows "\<exists>memo1 memo2 w1 w2. run_state (gate_check r tc g i memo1) w1 = ((why, memo2), w2) \<and>
    between w0 w' w1 \<and> memo_read r tc g w0 w' memo2"
  using assms(2-)
proof (induction "is" arbitrary: memo w gated w')
  case (Cons j "is")
  obtain why' memo' w1 where 1: "run_state (gate_check r tc g j memo) w = ((why', memo'), w1)"
    by (metis prod.collapse)
  obtain rest w2 where 2: "run_state (gate_all r tc g is memo') w1 = (rest, w2)" by fastforce
  have gated: "gated = (j, why') # rest" "w' = w2" using Cons.prems(1) 1 2 by simp_all
  note step = between_emits [OF emits_gate_check [OF r] 1] between_emits [OF emits_gate_all [OF r] 2]
  have w1: "between w0 w1 w1" "memo_read r tc g w0 w1 memo'"
    using between_chain Cons.prems(3) step memo_read_check [OF r 1 Cons.prems(3,4)] by blast+
  have "between w0 w2 w" using between_chain between_trans Cons.prems(3) step by blast
  with Cons.prems(2) Cons.IH [OF 2 _ w1] 1 gated memo_read_later [OF w1(2)] step show ?case by auto
qed simp

lemma listed_pods:
  assumes "run_state (resolveClusterPods r tc n) w = (Inr infos, w')"
  shows "\<exists>pods. run_state (klist (cr_pods r) (cr_OperatorNamespace r) (instanceLabels (tc_Name tc))) w = (Inr pods, w') \<and>
    (\<forall>i inf. infos i = Some inf \<longrightarrow>
       (\<exists>pod \<in> set pods. om_Name (pod_meta pod) = ordinal_name (tc_Name tc) i \<and> inf = pod_info pod))"
proof -
  obtain pods where list: "run_state (klist (cr_pods r) (cr_OperatorNamespace r) (instanceLabels (tc_Name tc))) w = (Inr pods, w')"
    and infos: "infos = pods_by_ordinal (tc_Name tc) n pods"
    using assms by (auto simp: resolveClusterPods_def or_return_Inr_iff)
  have "\<exists>pod \<in> set pods. om_Name (pod_meta pod) = ordinal_name (tc_Name tc) i \<and> inf = pod_info pod"
    if "infos i = Some inf" for i inf
    using that by (fastforce simp: infos pods_by_ordinal_def dest!: map_of_SomeD split: if_splits)
  with list show ?thesis by blast
qed

lemma pod_info_shown:
  assumes "pi_ready (pod_info pod)" and "om_Name (pod_meta pod) = name"
  shows "ready_on_revision name (pi_revision (pod_info pod)) pod"
    and "member_gate ps name (pod_info pod) = None \<Longrightarrow> cs_ClusterInitialized ps \<Longrightarrow> connected_member ps name pod"
proof -
  show "ready_on_revision name (pi_revision (pod_info pod)) pod"
    using assms
    by (auto simp: pod_info_def ready_on_revision_def ControllerRevisionHashLabelKey_def Let_def dest: find_SomeD)
  assume "member_gate ps name (pod_info pod) = None" "cs_ClusterInitialized ps"
  then obtain m where "findClusterMember (cs_Nodes ps) name = Some m" "cn_State m = nodeConnectedState"
      "pod_IP pod \<in> set (cn_IPAddresses m)"
      "\<forall>t. pi_readySince (pod_info pod) = Some t \<longrightarrow> (\<exists>seen. cn_LastSeen m = Some seen \<and> t < seen)"
    by (auto simp: member_gate_def pod_info_def Let_def split: option.splits if_splits)
  then show "connected_member ps name pod"
    by (auto simp: connected_member_def findClusterMember_def nodeConnectedState_def pod_info_def ready_condition_def Let_def
        intro!: bexI [of _ m] dest: find_SomeD)
qed

lemma gate_check_None:
  assumes "run_state (gate_check r tc g i memo) w = ((None, memo'), w')"
  shows "\<exists>inf. rg_pods g i = Some inf \<and> pi_revision inf = rg_revision g \<and> pi_ready inf \<and>
    (\<forall>v. rg_target g = Some v \<longrightarrow>
       (\<exists>st. reads_state r tc (rg_username g) (rg_password g) i w st \<and> ParseVersion (cs_Version st) = Inr v)) \<and>
    (i \<noteq> 0 \<and> 1 < rg_replicas g \<longrightarrow>
       (\<exists>ps. memo' = Some (Inr ps) \<and> member_gate ps (ordinal_name (tc_Name tc) i) inf = None))"
proof -
  obtain v w1 where vg: "run_state (version_gate r tc g i) w = (v, w1)" by fastforce
  obtain pod where pod: "rg_pods g i = Some pod" "pi_revision pod = rg_revision g" "pi_ready pod" "pod_gate g i = None"
    using assms by (auto simp: gate_check_def pod_gate_def split: option.splits if_splits)
  have v: "v = None" using assms pod vg by (auto simp: gate_check_def split: option.splits)
  have target: "\<exists>st. reads_state r tc (rg_username g) (rg_password g) i w st \<and> ParseVersion (cs_Version st) = Inr u"
    if "rg_target g = Some u" for u
    using vg v that by (auto simp: version_gate_def reads_state_def split: prod.splits sum.splits if_splits)
  have "\<exists>ps. memo' = Some (Inr ps) \<and> member_gate ps (ordinal_name (tc_Name tc) i) pod = None"
    if "i \<noteq> 0" "1 < rg_replicas g"
  proof -
    obtain res memo1 w2 where gp: "run_state (gate_primary r tc g memo) w1 = ((res, memo1), w2)" by (metis prod.collapse)
    have "memo1 = Some res"
      using gp by (auto simp: gate_primary_def split: option.splits prod.splits)
    with gp assms pod vg v that show ?thesis
      by (auto simp: gate_check_def primaryOrdinal_def split: sum.splits)
  qed
  with pod target show ?thesis by blast
qed

lemma released_node_shown:
  assumes prod: "production r" and gated: "run_state (gate_all r tc g (released p (rg_replicas g)) None) w = (gated, w')"
    and all: "\<forall>(i, why) \<in> set gated. why = None" and i: "0 < p" "p \<le> i" "i < rg_replicas g"
  shows "\<exists>inf. rg_pods g i = Some inf \<and> pi_revision inf = rg_revision g \<and> pi_ready inf \<and>
    (\<forall>v. rg_target g = Some v \<longrightarrow>
       (\<exists>wi st. between w w' wi \<and> reads_state r tc (rg_username g) (rg_password g) i wi st \<and> ParseVersion (cs_Version st) = Inr v)) \<and>
    (1 < rg_replicas g \<longrightarrow>
       (\<exists>wi ps. between w w' wi \<and> reads_state r tc (rg_username g) (rg_password g) 0 wi ps \<and>
          member_gate ps (ordinal_name (tc_Name tc) i) inf = None))"
proof -
  have "i \<in> set (map fst gated)"
    using i gate_all_ordinals [OF gated] by simp
  then have "(i, None) \<in> set gated" using all by auto
  then obtain memo1 memo2 w1 w2 where "run_state (gate_check r tc g i memo1) w1 = ((None, memo2), w2)"
      "between w w' w1" "memo_read r tc g w w' memo2"
    using gate_all_checked [OF prod gated, of i None w] by (auto simp: memo_read_def)
  with gate_check_None [OF this(1)] i show ?thesis
    unfolding memo_read_def by force
qed

text \<open>
  (C3) A pass sends at most one patch. If it sends one, then in that pass it has read the admin
  credentials, listed the pods, and checked every released node: the listed pod of the node is on
  the new revision, has an address and a true Ready condition; the node's own API, asked with those
  credentials, reports the version of the target image when that image carries one; and of a
  Secondary of several replicas the Primary was asked, and, once a cluster is initialized, listed
  the node as Connected under the pod's address. No event before the patch is a patch, the patch is the last call of
  the pass, and the only thing it changes is the partition, which it lowers by exactly one.
\<close>

theorem rollout_releases_one_gated_node:
  assumes prod: "production r"
    and run: "run_state (walkRollout r tc out) w = (res, w')"
    and patch: "EvPatch k m \<in> set (new_events w w')"
  shows "let n = sts_replicas (ou_sts out); p = min (sts_partition (ou_sts out)) n in
    \<exists>u pw w1 pods w2 es w3.
      run_state (adminCredentials r tc) w = (Inr (u, pw), w1) \<and>
      run_state (klist (cr_pods r) (cr_OperatorNamespace r) (instanceLabels (tc_Name tc))) w1 = (Inr pods, w2) \<and>
      0 < p \<and>
      (\<forall>i. p \<le> i \<and> i < n \<longrightarrow>
         (\<exists>pod \<in> set pods. ready_on_revision (ordinal_name (tc_Name tc) i) (sts_UpdateRevision (ou_sts out)) pod \<and>
            (\<forall>v. ParseImageVersion (templateImage (ou_sts out)) = Some v \<longrightarrow>
               (\<exists>wi st. between w2 w' wi \<and> reads_state r tc u pw i wi st \<and> ParseVersion (cs_Version st) = Inr v)) \<and>
            (1 < n \<longrightarrow>
               (\<exists>wi ps. between w2 w' wi \<and> reads_state r tc u pw 0 wi ps \<and>
                  (cs_ClusterInitialized ps \<longrightarrow> connected_member ps (ordinal_name (tc_Name tc) i) pod))))) \<and>
      trace w3 = trace w @ es \<and> (\<forall>k m. EvPatch k m \<notin> set es) \<and>
      lowers r (ou_sts out) (p - 1) w3 res w'"
  using run
proof (cases rule: walkRollout_cases)
  case early
  with patch show ?thesis by (simp add: new_events_def)
next
  case (no_credentials e)
  then obtain es where "trace w' = trace w @ es" "list_all is_kube_read es"
    using emits_D [OF emits_adminCredentials] by blast
  with patch no_patch_events show ?thesis by auto
next
  case (no_pods c e w1)
  obtain es where es: "trace w1 = trace w @ es" "list_all is_kube_read es"
    using emits_D [OF emits_adminCredentials no_pods(1)] by blast
  obtain es' where "trace w' = trace w1 @ es'" "list_all is_kube_read es'"
    using emits_D [OF emits_resolveClusterPods no_pods(2)] by blast
  with es patch no_patch_events show ?thesis by auto
next
  case (gates u pw w1 infos w2)
  define n where "n = sts_replicas (ou_sts out)"
  define p where "p = min (sts_partition (ou_sts out)) n"
  define g where "g = \<lparr>rg_username = u, rg_password = pw, rg_pods = infos, rg_revision = sts_UpdateRevision (ou_sts out),
    rg_target = ParseImageVersion (templateImage (ou_sts out)), rg_replicas = n\<rparr>"
  note gates = gates [folded n_def, folded p_def, folded g_def]
  obtain es1 where es1: "trace w1 = trace w @ es1" "list_all is_kube_read es1"
    using emits_D [OF emits_adminCredentials gates(1)] by blast
  obtain es2 where es2: "trace w2 = trace w1 @ es2" "list_all is_kube_read es2"
    using emits_D [OF emits_resolveClusterPods gates(2)] by blast
  obtain es where "trace w' = trace w2 @ es"
    using emits_D [OF emits_rollout_pass [OF prod] gates(3)] by blast
  then have "EvPatch k m \<in> set (new_events w2 w')"
    using patch es1 es2 no_patch_events by auto
  from rollout_pass_patch [OF prod gates(3) this]
  obtain gated w3 where gated: "run_state (gate_all r tc g (released p n) None) w2 = (gated, w3)"
    and p: "0 < p" and all: "\<forall>(i, why) \<in> set gated. why = None"
    and last: "lowers r (ou_sts out) (p - 1) w3 res w'"
    by (auto simp: g_def)
  have gated': "run_state (gate_all r tc g (released p (rg_replicas g)) None) w2 = (gated, w3)"
    using gated by (simp add: g_def)
  obtain es3 where es3: "trace w3 = trace w2 @ es3" "list_all is_http es3"
    using emits_D [OF emits_gate_all [OF prod] gated] by blast
  have w3: "between w3 w' w3" using lowers_trace [OF last] by (simp add: between_def)
  have later: "between w2 w' v" if "between w2 w3 v" for v
    using that w3 by (rule between_trans)
  obtain pods where pods: "run_state (klist (cr_pods r) (cr_OperatorNamespace r) (instanceLabels (tc_Name tc))) w1 = (Inr pods, w2)"
    and listed: "\<And>i inf. infos i = Some inf \<Longrightarrow>
      \<exists>pod \<in> set pods. om_Name (pod_meta pod) = ordinal_name (tc_Name tc) i \<and> inf = pod_info pod"
    using listed_pods [OF gates(2)] by blast
  have shown: "\<exists>pod \<in> set pods. ready_on_revision (ordinal_name (tc_Name tc) i) (sts_UpdateRevision (ou_sts out)) pod \<and>
      (\<forall>v. ParseImageVersion (templateImage (ou_sts out)) = Some v \<longrightarrow>
         (\<exists>wi st. between w2 w' wi \<and> reads_state r tc u pw i wi st \<and> ParseVersion (cs_Version st) = Inr v)) \<and>
      (1 < n \<longrightarrow> (\<exists>wi ps. between w2 w' wi \<and> reads_state r tc u pw 0 wi ps \<and>
         (cs_ClusterInitialized ps \<longrightarrow> connected_member ps (ordinal_name (tc_Name tc) i) pod)))"
    if i: "p \<le> i \<and> i < n" for i
  proof -
    obtain inf where inf: "infos i = Some inf" "pi_revision inf = sts_UpdateRevision (ou_sts out)" "pi_ready inf"
        "\<forall>v. ParseImageVersion (templateImage (ou_sts out)) = Some v \<longrightarrow>
          (\<exists>wi st. between w2 w3 wi \<and> reads_state r tc u pw i wi st \<and> ParseVersion (cs_Version st) = Inr v)"
        "1 < n \<longrightarrow> (\<exists>wi ps. between w2 w3 wi \<and> reads_state r tc u pw 0 wi ps \<and>
          member_gate ps (ordinal_name (tc_Name tc) i) inf = None)"
      using released_node_shown [OF prod gated' all p, of i] i by (auto simp: g_def)
    from listed [OF this(1)] obtain pod where pod: "pod \<in> set pods" "om_Name (pod_meta pod) = ordinal_name (tc_Name tc) i"
        "inf = pod_info pod" by blast
    note facts = pod_info_shown [of pod, OF inf(3) [unfolded pod(3)] pod(2)]
    from pod inf facts show ?thesis by (intro bexI [of _ pod]) (metis later)+
  qed
  have quiet: "\<forall>k m. EvPatch k m \<notin> set (es1 @ es2 @ es3)"
    using es1(2) es2(2) es3(2) no_patch_events by auto
  have "trace w3 = trace w @ (es1 @ es2 @ es3)"
    using es1(1) es2(1) es3(1) by simp
  with gates(1) pods p shown quiet last show ?thesis
    unfolding Let_def n_def [symmetric] p_def [symmetric] by blast
qed

text \<open>
  (C26) A node passes the gate only if its pod exists, is Ready and was created from the new
  revision, if its own API answered with the target version (when the target image carries one),
  and, for a Secondary of several replicas, if the Primary's cluster state was read and, once a
  cluster is initialized, lists the node as Connected under the pod's current address and has seen
  it after the pod became Ready.
\<close>

theorem gate_check_sound:
  assumes "run_state (gate_check r tc g i memo) w = ((None, memo'), w')"
  shows "\<exists>pod. rg_pods g i = Some pod \<and> pi_revision pod = rg_revision g \<and> pi_ready pod \<and>
    (\<forall>v. rg_target g = Some v \<longrightarrow>
       (\<exists>node w1 st. run_state (nodeClientFactory r (nodeEndpoint (tc_Name tc) i (cr_OperatorNamespace r))
            (rg_username g) (rg_password g)) w = (Inr node, w1) \<and>
          fst (run_state (na_GetClusterState node) w1) = Inr st \<and> ParseVersion (cs_Version st) = Inr v)) \<and>
    (i \<noteq> 0 \<and> 1 < rg_replicas g \<longrightarrow>
       (\<exists>ps. memo' = Some (Inr ps) \<and>
          (cs_ClusterInitialized ps \<longrightarrow>
             (\<exists>member. findClusterMember (cs_Nodes ps) (ordinal_name (tc_Name tc) i) = Some member \<and>
                cn_State member = nodeConnectedState \<and> pi_ip pod \<in> set (cn_IPAddresses member) \<and>
                (\<forall>t. pi_readySince pod = Some t \<longrightarrow> (\<exists>seen. cn_LastSeen member = Some seen \<and> t < seen))))))"
proof -
  obtain inf where inf: "rg_pods g i = Some inf" "pi_revision inf = rg_revision g" "pi_ready inf"
    and target: "\<And>v. rg_target g = Some v \<Longrightarrow>
      \<exists>st. reads_state r tc (rg_username g) (rg_password g) i w st \<and> ParseVersion (cs_Version st) = Inr v"
    and memo: "i \<noteq> 0 \<Longrightarrow> 1 < rg_replicas g \<Longrightarrow>
      \<exists>ps. memo' = Some (Inr ps) \<and> member_gate ps (ordinal_name (tc_Name tc) i) inf = None"
    using gate_check_None [OF assms] by blast
  have "\<exists>member. findClusterMember (cs_Nodes ps) (ordinal_name (tc_Name tc) i) = Some member \<and>
      cn_State member = nodeConnectedState \<and> pi_ip inf \<in> set (cn_IPAddresses member) \<and>
      (\<forall>t. pi_readySince inf = Some t \<longrightarrow> (\<exists>seen. cn_LastSeen member = Some seen \<and> t < seen))"
    if "member_gate ps (ordinal_name (tc_Name tc) i) inf = None" "cs_ClusterInitialized ps" for ps
    using that by (auto simp: member_gate_def split: option.splits if_splits)
  moreover have "\<exists>node w1 st. run_state (nodeClientFactory r (nodeEndpoint (tc_Name tc) i (cr_OperatorNamespace r))
            (rg_username g) (rg_password g)) w = (Inr node, w1) \<and>
          fst (run_state (na_GetClusterState node) w1) = Inr st \<and> ParseVersion (cs_Version st) = Inr v"
    if "rg_target g = Some v" for v
    using target [OF that] by (auto simp: reads_state_def)
  ultimately show ?thesis using inf memo by blast
qed

text \<open>The version the guard compares with: the deployed image's, or else the one the cluster reports.\<close>

definition deployed_version :: "technitium_cluster \<Rightarrow> stateful_set \<Rightarrow> version option" where
  "deployed_version tc sts =
     (case ParseImageVersion (templateImage sts) of
        Some v \<Rightarrow> Some v
      | None \<Rightarrow> (case ParseVersion (ts_Version (tc_Status tc)) of Inl _ \<Rightarrow> None | Inr v \<Rightarrow> Some v))"

lemma deployed_version_valid: "deployed_version tc sts = Some v \<Longrightarrow> valid_version v"
  by (auto simp: deployed_version_def split: option.splits sum.splits
      intro: ParseImageVersion_valid ParseVersion_valid_aux)

text \<open>
  An image change is refused exactly when it would move the deployed version backwards, both
  versions are known, and the opt-in annotation is not set; the refusal keeps the deployed image.
\<close>

theorem checkDowngrade_iff:
  "checkDowngrade tc sts = Some d \<longleftrightarrow>
     map_get (om_Annotations (tc_meta tc)) AllowDowngradeAnnotation \<noteq> ''true'' \<and> templateImage sts \<noteq> [] \<and>
     (\<exists>requested deployed. ParseImageVersion (tc_Image (tc_Spec tc)) = Some requested \<and>
        deployed_version tc sts = Some deployed \<and> requested < deployed \<and>
        d = \<lparr>db_image = templateImage sts, db_deployed = deployed, db_requested = requested\<rparr>)"
proof -
  have eq: "checkDowngrade tc sts =
     (if map_get (om_Annotations (tc_meta tc)) AllowDowngradeAnnotation = ''true'' then None
      else case ParseImageVersion (tc_Image (tc_Spec tc)) of
        None \<Rightarrow> None
      | Some requested \<Rightarrow>
          if templateImage sts = [] then None
          else case deployed_version tc sts of
            None \<Rightarrow> None
          | Some deployed \<Rightarrow>
              if Compare requested deployed \<ge> 0 then None
              else Some \<lparr>db_image = templateImage sts, db_deployed = deployed, db_requested = requested\<rparr>)"
    by (simp add: checkDowngrade_def deployed_version_def Let_def split: option.split)
  have cmp: "(Compare q v \<ge> 0) \<longleftrightarrow> \<not> q < v"
    if "ParseImageVersion (tc_Image (tc_Spec tc)) = Some q" "deployed_version tc sts = Some v" for q v
    using Compare_order_aux [OF ParseImageVersion_valid [OF that(1)] deployed_version_valid [OF that(2)]] by simp
  show ?thesis
    unfolding eq using cmp by (auto split: option.splits if_splits)
qed

lemma waiting_state_sel:
  "rs_bookmark (waiting_state r tc lbl j why u n started t) =
     Some \<lparr>rb_Node = ordinal_name (tc_Name tc) j, rb_NodeStartedTime = started\<rparr>"
  "rs_reason (waiting_state r tc lbl j why u n started t) =
     (if t - started > stallTimeout r then reasonUpgradeStalled else reasonRollingOut)"
  "rs_degradedReason (waiting_state r tc lbl j why u n started t) =
     (if t - started > stallTimeout r then degradedUpgradeStall else [])"
  "rs_status (waiting_state r tc lbl j why u n started t) = ConditionTrue"
  by (simp_all add: waiting_state_def Let_def)

lemma rollout_reasons_distinct [simp]:
  "reasonRollingOut \<noteq> reasonUpgradeStalled" "degradedUpgradeStall \<noteq> []" "[] \<noteq> degradedUpgradeStall"
  by (simp_all add: reasonRollingOut_def reasonUpgradeStalled_def degradedUpgradeStall_def)

text \<open>
  (C37) While a node stays in flight its clock is kept: a pass that waits on the node the status
  already names returns the same bookmark and the same StatefulSet, and reports the rollout as
  stalled, and the cluster as degraded, exactly when the time since the recorded start exceeds the
  timeout.
\<close>

theorem rollout_stall_clock:
  assumes "production r"
    and "run_state (gate_all r tc g (released part (rg_replicas g)) None) w = (gated, w1)"
    and "rollout_decision part gated = WaitOn pending why"
    and "ts_Rollout (tc_Status tc) = Some b" and "rb_Node b = ordinal_name (tc_Name tc) pending"
    and "run_state (rollout_pass r tc sts g part lbl) w = (res, w')"
  shows "\<exists>st t. res = Inr (st, sts) \<and> rs_bookmark st = Some b \<and> trace w' = trace w1 \<and>
    (\<exists>s. t = fst (rt_Now (cr_runtime r) s)) \<and>
    (rs_reason st = reasonUpgradeStalled \<longleftrightarrow> t - rb_NodeStartedTime b > stallTimeout r) \<and>
    (rs_degradedReason st = degradedUpgradeStall \<longleftrightarrow> t - rb_NodeStartedTime b > stallTimeout r)"
proof -
  let ?t = "fst (rt_Now (cr_runtime r) (snd (rt_Now (cr_runtime r) (ext w1))))"
  let ?st = "waiting_state r tc lbl pending why (int (length (filter (\<lambda>(_, why). why = None) gated)))
      (rg_replicas g) (rb_NodeStartedTime b) ?t"
  have "rs_bookmark ?st = Some b" using assms(5) by (simp add: waiting_state_sel)
  moreover have "res = Inr (?st, sts)" "trace w' = trace w1"
    using assms by (auto simp: rollout_pass_def run_reconciler_now Let_def)
  ultimately show ?thesis
    by (intro exI [of _ ?st] exI [of _ ?t]) (auto simp: waiting_state_sel)
qed

section \<open>Witnesses\<close>

lemma two_node_rollout: "(rollout_step 2 ^^ 2) (2, {}) (1, {1})"
proof -
  have "rollout_step 2 (2, {}) (1, {})"
    by (rule pass) (simp add: gate_results_Release_iff)
  moreover have "rollout_step 2 (1, {}) (1, {1})"
    using node_finished [of 1 1 2 "{}"] by simp
  ultimately show ?thesis by (auto simp: numeral_2_eq_2 intro!: relcomppI)
qed

theorem rollout_one_at_a_time_witness:
  "(rollout_step 2)\<^sup>*\<^sup>* (2, {}) (1, {1}) \<and> {1 ..< 2} - {1 :: int} \<subseteq> {1}"
  using rollout_one_at_a_time [of 2 1 "{1}"] relpowp_imp_rtranclp [OF two_node_rollout] by simp

theorem rollout_completes_witness: "(rollout_step 2 ^^ 2) (2, {}) (1, {1 :: int}) \<and> (2 :: nat) \<le> 2 * nat 2"
  using rollout_completes [OF _ two_node_rollout] two_node_rollout by simp

definition sample_sts :: stateful_set where
  "sample_sts = \<lparr>sts_meta = zero_meta\<lparr>om_Name := ''dns''\<rparr>, sts_Replicas = Some 3,
     sts_Template = \<lparr>pt_Labels = [], pt_RunAsNonRoot = True, pt_RunAsUser = 1000, pt_RunAsGroup = 1000, pt_FSGroup = 1000,
       pt_SeccompProfile = [], pt_Affinity = NoAffinity, pt_TopologySpreadConstraints = [], pt_Tolerations = [],
       pt_NodeSelector = [], pt_PriorityClassName = [], pt_Containers = [], pt_Volumes = []\<rparr>,
     sts_StrategyType = ''RollingUpdate'', sts_RollingUpdate = Some (Some 3), sts_ServiceName = [], sts_Selector = [],
     sts_VolumeClaimTemplates = [], sts_ReadyReplicas = 3, sts_CurrentRevision = ''r1'', sts_UpdateRevision = ''r2'',
     sts_ObservedGeneration = 0\<rparr>"

lemma sample_sts_sel [simp]:
  "sts_replicas sample_sts = 3" "sts_partition sample_sts = 3" "om_Generation (sts_meta sample_sts) = 0"
  "sts_CurrentRevision sample_sts = ''r1''" "sts_UpdateRevision sample_sts = ''r2''" "sts_ObservedGeneration sample_sts = 0"
  by (simp_all add: sample_sts_def sts_replicas_def sts_partition_def zero_meta_def)

abbreviation refused :: "unit cluster_reconciler" where
  "refused \<equiv> sample_cluster_reconciler no_reply"

text \<open>Two nodes, the second one released and upgraded: the pass releases the first.\<close>

definition joined_server :: "http_request \<Rightarrow> unit \<Rightarrow> http_reply \<times> unit" where
  "joined_server req s = (Response 200 (Envelope \<lparr>env_status = ''ok'', env_errorMessage = [], env_token = Some ''t'',
     env_response = ClusterStatePayload joined_state\<rparr>), s)"

definition upgraded_pod :: pod where
  "upgraded_pod = \<lparr>pod_meta = zero_meta\<lparr>om_Name := ''dns-1'', om_Labels := [(''controller-revision-hash'', ''r2'')]\<rparr>,
     pod_IP = ''10.0.0.2'',
     pod_Conditions = [\<lparr>pc_Type = ''Ready'', pc_Status = ConditionTrue, pc_LastTransitionTime = Some 10\<rparr>]\<rparr>"

definition upgrading :: "unit cluster_reconciler" where
  "upgrading = (sample_cluster_reconciler joined_server)\<lparr>cr_pods :=
     (plain_kclient ''Pod'' pod_meta no_object)\<lparr>kc_List := (\<lambda>_ _ s. (Inr [upgraded_pod], s))\<rparr>\<rparr>"

definition half_sts :: stateful_set where
  "half_sts = sample_sts\<lparr>sts_Replicas := Some 2, sts_RollingUpdate := Some (Some 1),
     sts_Template := (sts_Template sample_sts)\<lparr>pt_Containers := [\<lparr>ct_Name = ''dns-server'', ct_Image = ''technitium/dns-server:15.5.0'',
       ct_Ports = [], ct_Env = [], ct_Resources = [], ct_VolumeMounts = [], ct_ReadinessProbe = TCPProbe 53 1 1,
       ct_LivenessProbe = TCPProbe 53 1 1, ct_AllowPrivilegeEscalation = False, ct_RunAsNonRoot = True,
       ct_CapabilitiesDrop = [], ct_CapabilitiesAdd = []\<rparr>]\<rparr>\<rparr>"

definition half_outcome :: stateful_set_outcome where
  "half_outcome = \<lparr>ou_sts = half_sts, ou_templateChanged = False, ou_downgrade = None\<rparr>"

lemma half_sel [simp]:
  "ou_sts half_outcome = half_sts" "\<not> ou_templateChanged half_outcome"
  "sts_replicas half_sts = 2" "sts_partition half_sts = 1" "om_Generation (sts_meta half_sts) = 0"
  "sts_CurrentRevision half_sts = ''r1''" "sts_UpdateRevision half_sts = ''r2''" "sts_ObservedGeneration half_sts = 0"
  "templateImage half_sts = ''technitium/dns-server:15.5.0''"
  by (simp_all add: half_outcome_def half_sts_def sts_replicas_def sts_partition_def templateImage_def dnsServerContainerName_def
      sample_sts_def zero_meta_def)

lemma upgrading_sel [simp]:
  "cr_runtime upgrading = plain_runtime joined_server (Pair 0)" "cr_secrets upgrading = sample_secrets"
  "cr_OperatorNamespace upgrading = ''ops''" "cr_statefulSets upgrading = plain_kclient ''StatefulSet'' sts_meta no_object"
  "production upgrading"
  by (simp_all add: upgrading_def production_def)

lemma upgrading_state:
  assumes "e \<noteq> []" and "u \<noteq> []"
  shows "\<exists>c w1 w2. run_state (nodeClientFactory upgrading e u p) w = (Inr c, w1) \<and>
    run_state (na_GetClusterState c) w1 = (Inr joined_state, w2)"
proof -
  have "classifyStatus ''ok'' [] = None" by code_simp
  then show ?thesis
    using assms
    by (simp add: production_nodeClientFactory NewClient_def run_or_return run_simps loginNodeClient_def ensureLoggedIn_def Token_def
        Login_def doRaw_def joined_server_def reply_result_def GetClusterState_def do_call_def decode_response_def plain_runtime_def
        zero_client_def run_wrap_error ignore_result_def)
qed

lemma upgrading_gate:
  assumes g: "g = \<lparr>rg_username = ''admin'', rg_password = ''pw'', rg_pods = infos, rg_revision = ''r2'',
      rg_target = Some (Version 15 5 0), rg_replicas = 2\<rparr>" and infos: "infos 1 = Some (pod_info upgraded_pod)"
  shows "\<exists>w'. run_state (gate_all upgrading sample_cluster g (released 1 2) None) w = ([(1, None)], w')"
proof -
  let ?e = "\<lambda>i. nodeEndpoint (tc_Name sample_cluster) i ''ops''"
  have e: "?e i \<noteq> []" for i by (simp add: nodeEndpoint_def)
  have one: "released 1 2 = [1]" by (simp add: released_def)
  have v: "ParseVersion (cs_Version joined_state) = Inr (Version 15 5 0)" by code_simp
  have m: "member_gate joined_state (ordinal_name (tc_Name sample_cluster) 1) (pod_info upgraded_pod) = None" by code_simp
  have p: "pod_gate g 1 = None" using infos by (simp add: g pod_gate_def) code_simp
  obtain c1 w1 w2 where 1: "run_state (nodeClientFactory upgrading (?e 1) ''admin'' ''pw'') w = (Inr c1, w1)"
      "run_state (na_GetClusterState c1) w1 = (Inr joined_state, w2)"
    using upgrading_state [OF e] by (metis list.distinct(1))
  obtain c2 w3 w4 where 2: "run_state (nodeClientFactory upgrading (?e 0) ''admin'' ''pw'') w2 = (Inr c2, w3)"
      "run_state (na_GetClusterState c2) w3 = (Inr joined_state, w4)"
    using upgrading_state [OF e] by (metis list.distinct(1))
  have "run_state (version_gate upgrading sample_cluster g 1) w = (None, w2)"
    using 1 v by (simp add: g version_gate_def)
  then have "run_state (gate_check upgrading sample_cluster g 1 None) w = ((None, Some (Inr joined_state)), w4)"
    using 2 p m infos by (simp add: gate_check_def gate_primary_def run_or_return primaryOrdinal_def g)
  then show ?thesis by (simp add: one)
qed

lemma upgrading_credentials:
  "run_state (adminCredentials upgrading sample_cluster) w =
     (Inr (''admin'', ''pw''), w\<lparr>trace := trace w @ [EvGet ''Secret'' (ObjectKey ''ops'' ''dns-admin'')]\<rparr>)"
  by (simp add: adminCredentials_def resolveAdminSecret_def adminSecretKeyFor_def sample_cluster_def zero_meta_def
      adminSecretName_def run_or_return run_wrap_error run_kube sample_secrets_def sample_secret_def
      Let_def map_get_def adminSecretUsernameKey_def adminSecretPasswordKey_def)

lemma upgrading_pods:
  "run_state (resolveClusterPods upgrading sample_cluster 2) w =
     (Inr (pods_by_ordinal ''dns'' 2 [upgraded_pod]), w\<lparr>trace := trace w @ [EvList ''Pod'']\<rparr>)"
  by (simp add: resolveClusterPods_def run_or_return run_wrap_error run_kube upgrading_def sample_cluster_def zero_meta_def)

lemma target_version: "ParseImageVersion ''technitium/dns-server:15.5.0'' = Some (Version 15 5 0)"
  by code_simp

lemma upgrading_walk:
  "EvPatch ''StatefulSet'' (sts_meta half_sts) \<in>
     set (new_events (empty_world ()) (snd (run_state (walkRollout upgrading sample_cluster half_outcome) (empty_world ()))))"
proof -
  have info: "pods_by_ordinal ''dns'' 2 [upgraded_pod] 1 = Some (pod_info upgraded_pod)" by code_simp
  let ?w = "(empty_world ())\<lparr>trace := [EvGet ''Secret'' (ObjectKey ''ops'' ''dns-admin''), EvList ''Pod'']\<rparr>"
  let ?g = "\<lparr>rg_username = ''admin'', rg_password = ''pw'', rg_pods = pods_by_ordinal ''dns'' 2 [upgraded_pod],
    rg_revision = ''r2'', rg_target = Some (Version 15 5 0), rg_replicas = 2\<rparr>"
  obtain w' where gated: "run_state (gate_all upgrading sample_cluster ?g (released 1 2) None) ?w = ([(1, None)], w')"
    using upgrading_gate [of ?g "pods_by_ordinal ''dns'' 2 [upgraded_pod]", OF refl info] by blast
  have "\<exists>t. trace (snd (run_state (walkRollout upgrading sample_cluster half_outcome) (empty_world ()))) =
      t @ [EvPatch ''StatefulSet'' (sts_meta half_sts)]"
    using gated
    by (simp add: walkRollout_def Let_def run_or_return upgrading_credentials upgrading_pods target_version rollout_pass_def
        run_reconciler_now rollout_decision_def kpatch_def run_outside run_wrap_error empty_world_def)
  then show ?thesis by (auto simp: new_events_def empty_world_def)
qed

theorem rollout_releases_one_gated_node_witness:
  "\<exists>es w3 wi st. trace w3 = es \<and> (\<forall>k m. EvPatch k m \<notin> set es) \<and>
     lowers upgrading half_sts 0 w3 (fst (run_state (walkRollout upgrading sample_cluster half_outcome) (empty_world ())))
       (snd (run_state (walkRollout upgrading sample_cluster half_outcome) (empty_world ()))) \<and>
     reads_state upgrading sample_cluster ''admin'' ''pw'' 1 wi st \<and> ParseVersion (cs_Version st) = Inr (Version 15 5 0)"
  using rollout_releases_one_gated_node [OF upgrading_sel(5) prod.collapse [symmetric] upgrading_walk]
  by (fastforce simp: upgrading_credentials target_version empty_world_def elim!: allE [of _ "1 :: int"])

definition sample_gate :: rollout_gate where
  "sample_gate = \<lparr>rg_username = ''admin'', rg_password = ''pw'',
     rg_pods = [1 \<mapsto> \<lparr>pi_ip = ''10.0.0.2'', pi_ready = True, pi_revision = ''r2'', pi_readySince = Some 10\<rparr>],
     rg_revision = ''r2'', rg_target = Some (Version 15 5 0), rg_replicas = 3\<rparr>"

lemma sample_gate_passes:
  "run_state (gate_check answering_reconciler sample_cluster sample_gate 1 None) (empty_world ()) =
     ((None, Some (Inr joined_state)), empty_world ())"
proof -
  have v: "ParseVersion ''15.5.0'' = Inr (Version 15 5 0)" by code_simp
  have o: "ordinal_name ''dns'' 1 = ''dns-1''" by code_simp
  have m: "member_gate joined_state ''dns-1'' \<lparr>pi_ip = ''10.0.0.2'', pi_ready = True, pi_revision = ''r2'', pi_readySince = Some 10\<rparr> = None"
    by code_simp
  show ?thesis
    using v o m
    by (simp add: gate_check_def pod_gate_def sample_gate_def version_gate_def gate_primary_def nodeClientFactory_def
        answering_reconciler_def answering_node_def run_or_return primaryOrdinal_def sample_cluster_def zero_meta_def)
      (simp add: joined_state_def v)
qed

theorem gate_check_sound_witness:
  "\<exists>pod. rg_pods sample_gate 1 = Some pod \<and> pi_revision pod = ''r2'' \<and> pi_ready pod \<and>
     (\<exists>member. findClusterMember (cs_Nodes joined_state) (ordinal_name ''dns'' 1) = Some member \<and>
        pi_ip pod \<in> set (cn_IPAddresses member))"
  using gate_check_sound [OF sample_gate_passes]
  by (auto simp: sample_gate_def joined_state_def sample_cluster_def zero_meta_def)

definition stuck_gate :: rollout_gate where
  "stuck_gate = sample_gate\<lparr>rg_pods := Map.empty\<rparr>"

definition stuck_cluster :: technitium_cluster where
  "stuck_cluster = sample_cluster\<lparr>tc_Status := (tc_Status sample_cluster)\<lparr>ts_Rollout :=
     Some \<lparr>rb_Node = ordinal_name ''dns'' 2, rb_NodeStartedTime = - 700000000000\<rparr>\<rparr>\<rparr>"

theorem rollout_stall_clock_witness:
  "\<exists>st. run_state (rollout_pass refused stuck_cluster sample_sts stuck_gate 2 ''15.5.0'') (empty_world ()) =
      (Inr (st, sample_sts), empty_world ()) \<and>
    rs_bookmark st = Some \<lparr>rb_Node = ordinal_name ''dns'' 2, rb_NodeStartedTime = - 700000000000\<rparr> \<and>
    rs_reason st = reasonUpgradeStalled"
proof -
  have one: "[2 .. 2 :: int] = [2]" by simp
  have gated: "run_state (gate_all refused stuck_cluster stuck_gate (released 2 (rg_replicas stuck_gate)) None) (empty_world ()) =
      ([(2, Some ''its pod does not exist yet'')], empty_world ())"
    by (simp add: released_def stuck_gate_def sample_gate_def one gate_check_def pod_gate_def)
  have decision: "rollout_decision 2 [(2, Some ''its pod does not exist yet'')] = WaitOn 2 ''its pod does not exist yet''"
    by (simp add: rollout_decision_def)
  have bookmark: "ts_Rollout (tc_Status stuck_cluster) = Some \<lparr>rb_Node = ordinal_name ''dns'' 2, rb_NodeStartedTime = - 700000000000\<rparr>"
    "rb_Node \<lparr>rb_Node = ordinal_name ''dns'' 2, rb_NodeStartedTime = - 700000000000\<rparr> = ordinal_name (tc_Name stuck_cluster) 2"
    by (simp_all add: stuck_cluster_def sample_cluster_def zero_meta_def)
  have run: "snd (run_state (rollout_pass refused stuck_cluster sample_sts stuck_gate 2 ''15.5.0'') (empty_world ())) = empty_world ()"
    using gated decision
    by (simp add: rollout_pass_def run_reconciler_now [OF sample_production] Let_def empty_world_def)
  from rollout_stall_clock [OF sample_production gated decision bookmark prod.collapse [symmetric]] run
  show ?thesis
    by (auto simp: stallTimeout_def defaultUpgradeStallTimeout_def prod_eq_iff)
qed

end
