(* ===== verification/Workload.thy ===== *)
theory Workload
  imports Rollout "HOL-Library.List_Lexorder" "HOL-Library.Char_ord"
begin

text \<open>
  The Kubernetes objects of a cluster: Services (\<^verbatim>\<open>technitiumcluster_services.go\<close> and the Service
  part of \<^verbatim>\<open>technitiumcluster_controller.go\<close>), the admin Secret, the StatefulSet and its pod
  template, and the PodDisruptionBudget (\<^verbatim>\<open>technitiumcluster_pdb.go\<close>).

  The function each \<^verbatim>\<open>CreateOrUpdate\<close> call passes is a definition of its own, \<open>mutate_...\<close>, from
  the object as found to the object as it should be.
\<close>

section \<open>Services\<close>

definition serviceRoleLabel :: string where
  "serviceRoleLabel = ''dns.packet.fail/service-role''"

definition serviceRoleReplica :: string where
  "serviceRoleReplica = ''replica''"

definition podNameLabel :: string where
  "podNameLabel = ''statefulset.kubernetes.io/pod-name''"

definition managedAnnotationsKey :: string where
  "managedAnnotationsKey = ''dns.packet.fail/managed-annotations''"

definition applyManagedAnnotations :: "string_map \<Rightarrow> string_map \<Rightarrow> string_map" where
  "applyManagedAnnotations annotations desired =
     (let previous = map_get annotations managedAnnotationsKey;
          annotations =
            (if previous \<noteq> []
             then fold (\<lambda>key m. if map_of desired key = None then map_delete key m else m) (Split previous CHR '','') annotations
             else annotations);
          annotations = map_delete managedAnnotationsKey annotations;
          annotations = map_copy desired annotations
      in if desired \<noteq> []
         then map_set managedAnnotationsKey (Join (sort (map fst desired)) '','') annotations
         else annotations)"

definition replicaServiceName :: "string \<Rightarrow> int \<Rightarrow> string" where
  "replicaServiceName clusterName ordinal = ordinal_name clusterName ordinal"

definition serviceTypeSupportsTrafficPolicy :: "string \<Rightarrow> bool" where
  "serviceTypeSupportsTrafficPolicy t \<longleftrightarrow> t = ''LoadBalancer'' \<or> t = ''NodePort''"

definition preserveNodePorts :: "service_port list \<Rightarrow> service_port list \<Rightarrow> service_port list" where
  "preserveNodePorts desired existing =
     map (\<lambda>d. fold (\<lambda>e d. if sp_Name e = sp_Name d \<and> sp_Protocol e = sp_Protocol d
                          then d\<lparr>sp_NodePort := sp_NodePort e\<rparr> else d) existing d) desired"

definition replicaServiceAnnotations :: "per_replica_service_spec \<Rightarrow> int \<Rightarrow> string_map" where
  "replicaServiceAnnotations spec ordinal =
     fold (\<lambda>o' merged. if ro_Ordinal o' \<noteq> ordinal \<or> ro_Annotations o' = [] then merged
                       else map_copy (ro_Annotations o') merged)
       (pr_Ordinals spec) (pr_Annotations spec)"

definition isReplicaServiceName :: "string \<Rightarrow> string \<Rightarrow> bool" where
  "isReplicaServiceName clusterName name =
     (case CutPrefix name (clusterName @ ''-'') of
        None \<Rightarrow> False
      | Some suffix \<Rightarrow> (case Atoi suffix of None \<Rightarrow> False | Some n \<Rightarrow> n \<ge> 0))"

definition apiExposed :: "technitium_cluster \<Rightarrow> bool" where
  "apiExposed tc = (case sv_ExposeAPI (tc_Service (tc_Spec tc)) of None \<Rightarrow> True | Some b \<Rightarrow> b)"

definition clientServiceEndpoint :: "technitium_cluster \<Rightarrow> string \<Rightarrow> string" where
  "clientServiceEndpoint tc namespace =
     (if \<not> apiExposed tc then clientServiceName (tc_Name tc) @ ''.'' @ namespace @ ''.svc:53''
      else ''http://'' @ clientServiceName (tc_Name tc) @ ''.'' @ namespace @ ''.svc:5380'')"

definition apiServicePort :: service_port where
  "apiServicePort = \<lparr>sp_Name = ''api'', sp_Port = 5380, sp_Protocol = ''TCP'', sp_TargetPort = FromInt 5380, sp_NodePort = 0\<rparr>"

definition dnsServicePorts :: "bool \<Rightarrow> service_port list" where
  "dnsServicePorts withAPI =
     [\<lparr>sp_Name = ''dns-udp'', sp_Port = 53, sp_Protocol = ''UDP'', sp_TargetPort = FromInt 53, sp_NodePort = 0\<rparr>,
      \<lparr>sp_Name = ''dns-tcp'', sp_Port = 53, sp_Protocol = ''TCP'', sp_TargetPort = FromInt 53, sp_NodePort = 0\<rparr>]
     @ (if withAPI then [apiServicePort] else [])"

definition new_meta :: "string \<Rightarrow> string \<Rightarrow> object_meta" where
  "new_meta name namespace = zero_meta\<lparr>om_Name := name, om_Namespace := namespace\<rparr>"

definition new_service :: "string \<Rightarrow> string \<Rightarrow> service" where
  "new_service name namespace = \<lparr>svc_meta = new_meta name namespace, svc_Type = [], svc_ClusterIP = [],
     svc_ExternalTrafficPolicy = [], svc_Selector = [], svc_Ports = []\<rparr>"

text \<open>\<^verbatim>\<open>SetControllerReference\<close> on the object's metadata, then the rest of the function.\<close>

definition controlled ::
  "'s cluster_reconciler \<Rightarrow> technitium_cluster \<Rightarrow> object_meta \<Rightarrow> (object_meta \<Rightarrow> go_error + 'o) \<Rightarrow> go_error + 'o" where
  "controlled r tc m f =
     (case rt_SetControllerReference (cr_runtime r) (tc_meta tc) m of Inl err \<Rightarrow> Inl err | Inr m' \<Rightarrow> f m')"

definition mutate_headless :: "'s cluster_reconciler \<Rightarrow> technitium_cluster \<Rightarrow> service \<Rightarrow> go_error + service" where
  "mutate_headless r tc svc =
     controlled r tc (svc_meta svc) (\<lambda>m. Inr (svc\<lparr>
       svc_meta := m\<lparr>om_Labels := commonLabels (tc_Name tc)\<rparr>,
       svc_ClusterIP := (if om_CreationTimestamp m = None then ''None'' else svc_ClusterIP svc),
       svc_Selector := instanceLabels (tc_Name tc),
       svc_Ports := dnsServicePorts True\<rparr>))"

definition reconcileHeadlessService :: "'s cluster_reconciler \<Rightarrow> technitium_cluster \<Rightarrow> ('s world, go_error + unit) state" where
  "reconcileHeadlessService r tc =
     ignore_result (kcreate_or_update (cr_services r)
       (new_service (headlessServiceName (tc_Name tc)) (cr_OperatorNamespace r)) (mutate_headless r tc))"

definition mutate_client :: "'s cluster_reconciler \<Rightarrow> technitium_cluster \<Rightarrow> service \<Rightarrow> go_error + service" where
  "mutate_client r tc svc =
     controlled r tc (svc_meta svc) (\<lambda>m.
       let spec = tc_Service (tc_Spec tc);
           svcType = (if sv_Type spec \<noteq> [] then sv_Type spec else svc_Type svc)
       in Inr (svc\<lparr>
         svc_meta := m\<lparr>om_Labels := commonLabels (tc_Name tc),
           om_Annotations := applyManagedAnnotations (om_Annotations m) (sv_Annotations spec)\<rparr>,
         svc_Type := svcType,
         svc_ExternalTrafficPolicy := (if serviceTypeSupportsTrafficPolicy svcType then sv_ExternalTrafficPolicy spec else []),
         svc_Selector := instanceLabels (tc_Name tc),
         svc_Ports := preserveNodePorts (dnsServicePorts (apiExposed tc)) (svc_Ports svc)\<rparr>))"

definition reconcileClientService :: "'s cluster_reconciler \<Rightarrow> technitium_cluster \<Rightarrow> ('s world, go_error + unit) state" where
  "reconcileClientService r tc =
     ignore_result (kcreate_or_update (cr_services r)
       (new_service (clientServiceName (tc_Name tc)) (cr_OperatorNamespace r)) (mutate_client r tc))"

definition mutate_pinned ::
  "'s cluster_reconciler \<Rightarrow> technitium_cluster \<Rightarrow> string_map \<Rightarrow> string_map \<Rightarrow> string \<Rightarrow> string \<Rightarrow> string \<Rightarrow> service_port list
    \<Rightarrow> service \<Rightarrow> go_error + service" where
  "mutate_pinned r tc labels annotations svcType policy podName ports svc =
     controlled r tc (svc_meta svc) (\<lambda>m. Inr (svc\<lparr>
       svc_meta := m\<lparr>om_Labels := labels, om_Annotations := applyManagedAnnotations (om_Annotations m) annotations\<rparr>,
       svc_Type := svcType,
       svc_ExternalTrafficPolicy := policy,
       svc_Selector := map_set podNameLabel podName (instanceLabels (tc_Name tc)),
       svc_Ports := preserveNodePorts ports (svc_Ports svc)\<rparr>))"

text \<open>\<^verbatim>\<open>if err := r.Delete(...); client.IgnoreNotFound(err) != nil\<close>: a deletion of which not-found is no error.\<close>

definition delete_ignoring :: "('s, 'o) kclient \<Rightarrow> string \<Rightarrow> 'o \<Rightarrow> ('s world, go_error + unit) state" where
  "delete_ignoring kc prefix obj = do {
     d \<leftarrow> kdelete kc obj;
     case d of
       Inl err \<Rightarrow> if IsNotFound err then ok () else fail (ErrorWrap prefix err [])
     | Inr _ \<Rightarrow> ok ()
   }"

text \<open>The Service is deleted only when this cluster controls it.\<close>

definition delete_primary_service :: "'s cluster_reconciler \<Rightarrow> technitium_cluster \<Rightarrow> string \<Rightarrow> ('s world, go_error + unit) state" where
  "delete_primary_service r tc name = do {
     got \<leftarrow> kget (cr_services r) (ObjectKey (cr_OperatorNamespace r) name);
     case got of
       Inl err \<Rightarrow> ignore_not_found err ()
     | Inr svc \<Rightarrow>
         if \<not> rt_IsControlledBy (cr_runtime r) (svc_meta svc) (tc_meta tc) then ok ()
         else delete_ignoring (cr_services r) (''deleting Service '' @ om_Name (svc_meta svc) @ '': '') svc
   }"

definition reconcilePrimaryService :: "'s cluster_reconciler \<Rightarrow> technitium_cluster \<Rightarrow> ('s world, go_error + unit) state" where
  "reconcilePrimaryService r tc =
     (let name = primaryServiceName (tc_Name tc) in
      case sv_Primary (tc_Service (tc_Spec tc)) of
        None \<Rightarrow> delete_primary_service r tc name
      | Some spec \<Rightarrow>
          if \<not> ps_Enabled spec then delete_primary_service r tc name
          else
            let svcType = (if ps_Type spec = [] then ''ClusterIP'' else ps_Type spec);
                policy = (if serviceTypeSupportsTrafficPolicy svcType then ps_ExternalTrafficPolicy spec else [])
            in ignore_result (wrap_error (''reconciling Service '' @ name @ '': '')
                 (kcreate_or_update (cr_services r) (new_service name (cr_OperatorNamespace r))
                   (mutate_pinned r tc (commonLabels (tc_Name tc)) (ps_Annotations spec) svcType policy
                     (ordinal_name (tc_Name tc) primaryOrdinal) [apiServicePort]))))"

text \<open>The loops of \<^verbatim>\<open>reconcileReplicaServices\<close>: over the ordinals, and over the Services found.\<close>

fun ensure_replica_services ::
  "'s cluster_reconciler \<Rightarrow> technitium_cluster \<Rightarrow> per_replica_service_spec \<Rightarrow> string \<Rightarrow> string \<Rightarrow> int list
    \<Rightarrow> ('s world, go_error + unit) state" where
  "ensure_replica_services r tc spec svcType policy [] = ok ()"
| "ensure_replica_services r tc spec svcType policy (ordinal # rest) =
     (let name = replicaServiceName (tc_Name tc) ordinal in
      or_return (wrap_error (''reconciling Service '' @ name @ '': '')
        (kcreate_or_update (cr_services r) (new_service name (cr_OperatorNamespace r))
          (mutate_pinned r tc (map_set serviceRoleLabel serviceRoleReplica (commonLabels (tc_Name tc)))
            (replicaServiceAnnotations spec ordinal) svcType policy name (dnsServicePorts False))))
        (\<lambda>_. ensure_replica_services r tc spec svcType policy rest))"

fun delete_stale_services ::
  "'s cluster_reconciler \<Rightarrow> technitium_cluster \<Rightarrow> string set \<Rightarrow> service list \<Rightarrow> ('s world, go_error + unit) state" where
  "delete_stale_services r tc wanted [] = ok ()"
| "delete_stale_services r tc wanted (svc # rest) =
     (if om_Name (svc_meta svc) \<in> wanted \<or> \<not> rt_IsControlledBy (cr_runtime r) (svc_meta svc) (tc_meta tc) \<or>
         \<not> isReplicaServiceName (tc_Name tc) (om_Name (svc_meta svc))
      then delete_stale_services r tc wanted rest
      else or_return (delete_ignoring (cr_services r) (''deleting Service '' @ om_Name (svc_meta svc) @ '': '') svc)
             (\<lambda>_. delete_stale_services r tc wanted rest))"

definition wanted_services :: "technitium_cluster \<Rightarrow> string set" where
  "wanted_services tc =
     (case sv_PerReplica (tc_Service (tc_Spec tc)) of
        None \<Rightarrow> {}
      | Some _ \<Rightarrow> set (map (replicaServiceName (tc_Name tc)) [0 .. desiredReplicaCount tc - 1]))"

definition reconcileReplicaServices :: "'s cluster_reconciler \<Rightarrow> technitium_cluster \<Rightarrow> ('s world, go_error + unit) state" where
  "reconcileReplicaServices r tc =
     or_return
       (case sv_PerReplica (tc_Service (tc_Spec tc)) of
          None \<Rightarrow> ok ()
        | Some spec \<Rightarrow>
            (let svcType = (if pr_Type spec = [] then ''LoadBalancer'' else pr_Type spec);
                 policy = (if serviceTypeSupportsTrafficPolicy svcType
                           then (if pr_ExternalTrafficPolicy spec = [] then ''Local'' else pr_ExternalTrafficPolicy spec)
                           else [])
             in ensure_replica_services r tc spec svcType policy [0 .. desiredReplicaCount tc - 1]))
     (\<lambda>_. or_return
       (wrap_error ''listing per-replica Services: ''
         (klist (cr_services r) (cr_OperatorNamespace r)
           [(''app.kubernetes.io/instance'', tc_Name tc), (serviceRoleLabel, serviceRoleReplica)]))
     (\<lambda>existing. delete_stale_services r tc (wanted_services tc) existing))"

section \<open>The admin Secret\<close>

definition mutate_admin_secret :: "'s cluster_reconciler \<Rightarrow> technitium_cluster \<Rightarrow> secret \<Rightarrow> go_error + secret" where
  "mutate_admin_secret r tc sec =
     (let stale = (\<lambda>ref. or_Controller ref = Some True \<and> or_Kind ref = ''TechnitiumCluster'' \<and> or_UID ref \<noteq> om_UID (tc_meta tc));
          m = (sec_meta sec)\<lparr>om_OwnerReferences := filter (\<lambda>ref. \<not> stale ref) (om_OwnerReferences (sec_meta sec))\<rparr>
      in controlled r tc m (\<lambda>m.
        let sec = sec\<lparr>sec_meta := m\<lparr>om_Labels := commonLabels (tc_Name tc)\<rparr>, sec_Type := ''Opaque''\<rparr>;
            sec = (if map_of (sec_Data sec) adminSecretUsernameKey = None
                   then sec\<lparr>sec_Data := map_set adminSecretUsernameKey ''admin'' (sec_Data sec)\<rparr> else sec)
        in if map_of (sec_Data sec) adminSecretPasswordKey = None then
             (case generatePassword r of
                Inl err \<Rightarrow> Inl (ErrorWrap ''generating admin password: '' err [])
              | Inr password \<Rightarrow> Inr (sec\<lparr>sec_Data := map_set adminSecretPasswordKey password (sec_Data sec)\<rparr>))
           else Inr sec))"

definition reconcileAdminSecret :: "'s cluster_reconciler \<Rightarrow> technitium_cluster \<Rightarrow> ('s world, go_error + unit) state" where
  "reconcileAdminSecret r tc =
     ignore_result (kcreate_or_update (cr_secrets r)
       \<lparr>sec_meta = new_meta (adminSecretName (tc_Name tc)) (cr_OperatorNamespace r), sec_Type = [], sec_Data = []\<rparr>
       (mutate_admin_secret r tc))"

section \<open>The StatefulSet\<close>

definition podTemplateHashAnnotation :: string where
  "podTemplateHashAnnotation = ''dns.packet.fail/pod-template-hash''"

definition healthCheckMinVersion :: version where
  "healthCheckMinVersion = Version 15 5 0"

definition readinessProbeFor :: "string \<Rightarrow> probe" where
  "readinessProbeFor img =
     (if (case ParseImageVersion img of Some v \<Rightarrow> Compare v healthCheckMinVersion < 0 | None \<Rightarrow> False)
      then TCPProbe 53 10 10
      else ExecProbe [''/bin/sh'', ''-c'',
             ''curl -fsS --max-time 4 http://127.0.0.1:5380/api/dnsClient/healthCheck | grep -q '' @ [CHR 0x27, CHR 0x22] @ ''status'' @
             [CHR 0x22] @ '':'' @ [CHR 0x22] @ ''ok'' @ [CHR 0x22, CHR 0x27]] 5 5 5 3)"

definition affinityFor :: "technitium_cluster \<Rightarrow> affinity" where
  "affinityFor tc =
     (case tc_Affinity (tc_Spec tc) of
        Some a \<Rightarrow> SpecAffinity a
      | None \<Rightarrow>
          (case tc_Replicas (tc_Spec tc) of
             None \<Rightarrow> NoAffinity
           | Some n \<Rightarrow> if n \<le> 1 then NoAffinity
                       else HostnameAntiAffinity 100 ''kubernetes.io/hostname'' (instanceLabels (tc_Name tc))))"

definition volumeClaimTemplateFor :: "technitium_cluster \<Rightarrow> pvc" where
  "volumeClaimTemplateFor tc = \<lparr>pvc_meta = zero_meta\<lparr>om_Name := ''data'', om_Labels := commonLabels (tc_Name tc)\<rparr>,
     pvc_AccessModes = [''ReadWriteOnce''], pvc_Storage = ss_Size (tc_Storage (tc_Spec tc)),
     pvc_StorageClassName = ss_StorageClassName (tc_Storage (tc_Spec tc))\<rparr>"

definition pod_env :: "technitium_cluster \<Rightarrow> (string \<times> env_value) list" where
  "pod_env tc =
     (''DNS_SERVER_ADMIN_PASSWORD_FILE'', EnvValue ''/etc/technitium/admin/password'') #
     (if desiredReplicaCount tc > 1 then
        [(''POD_NAME'', EnvFieldRef ''metadata.name''),
         (''DNS_SERVER_DOMAIN'', EnvValue (''$(POD_NAME).'' @ clusterDomainFor tc))]
      else if tc_DNSServerDomain (tc_Spec tc) \<noteq> [] then
        [(''DNS_SERVER_DOMAIN'', EnvValue (tc_DNSServerDomain (tc_Spec tc)))]
      else [])"

definition podTemplateFor :: "technitium_cluster \<Rightarrow> string \<Rightarrow> pod_template" where
  "podTemplateFor tc operatorNamespace = \<lparr>
     pt_Labels = commonLabels (tc_Name tc),
     pt_RunAsNonRoot = True, pt_RunAsUser = 1000, pt_RunAsGroup = 1000, pt_FSGroup = 1000,
     pt_SeccompProfile = ''RuntimeDefault'',
     pt_Affinity = affinityFor tc,
     pt_TopologySpreadConstraints = tc_TopologySpreadConstraints (tc_Spec tc),
     pt_Tolerations = tc_Tolerations (tc_Spec tc),
     pt_NodeSelector = tc_NodeSelector (tc_Spec tc),
     pt_PriorityClassName = tc_PriorityClassName (tc_Spec tc),
     pt_Containers = [\<lparr>
       ct_Name = ''dns-server'', ct_Image = tc_Image (tc_Spec tc),
       ct_Ports = [(''dns-udp'', 53, ''UDP''), (''dns-tcp'', 53, ''TCP''), (''api'', 5380, ''TCP'')],
       ct_Env = pod_env tc, ct_Resources = tc_Resources (tc_Spec tc),
       ct_VolumeMounts = [(''data'', ''/etc/dns'', False), (''admin'', ''/etc/technitium/admin'', True),
         (''varlog'', ''/var/log/technitium'', False), (''tmp'', ''/tmp'', False)],
       ct_ReadinessProbe = readinessProbeFor (tc_Image (tc_Spec tc)), ct_LivenessProbe = TCPProbe 5380 10 10,
       ct_AllowPrivilegeEscalation = False, ct_RunAsNonRoot = True,
       ct_CapabilitiesDrop = [''ALL''], ct_CapabilitiesAdd = [''NET_BIND_SERVICE'']\<rparr>],
     pt_Volumes = [SecretVolume ''admin'' (resolvedAdminSecretName tc operatorNamespace) [(adminSecretPasswordKey, ''password'')],
       EmptyDirVolume ''varlog'', EmptyDirVolume ''tmp'']\<rparr>"

text \<open>A nil map is the empty one.\<close>

definition mergeAnnotation :: "string_map \<Rightarrow> string \<Rightarrow> string \<Rightarrow> string_map" where
  "mergeAnnotation annotations key v = map_set key v annotations"

definition template_changed :: "string \<Rightarrow> stateful_set \<Rightarrow> bool" where
  "template_changed hash sts =
     (let previous = map_get (om_Annotations (sts_meta sts)) podTemplateHashAnnotation
      in om_CreationTimestamp (sts_meta sts) \<noteq> None \<and> previous \<noteq> [] \<and> previous \<noteq> hash)"

definition next_partition :: "string \<Rightarrow> int \<Rightarrow> stateful_set \<Rightarrow> int" where
  "next_partition hash replicas sts =
     (if om_CreationTimestamp (sts_meta sts) = None \<or> replicas \<le> 1 then 0
      else if template_changed hash sts then replicas
      else case sts_RollingUpdate sts of Some (Some p) \<Rightarrow> min p replicas | _ \<Rightarrow> 0)"

definition mutate_statefulSet ::
  "'s cluster_reconciler \<Rightarrow> technitium_cluster \<Rightarrow> technitium_cluster \<Rightarrow> stateful_set \<Rightarrow> go_error + stateful_set" where
  "mutate_statefulSet r tc effective sts =
     controlled r tc (sts_meta sts) (\<lambda>m.
       let sts = sts\<lparr>sts_meta := m\<lparr>om_Labels := commonLabels (tc_Name tc)\<rparr>\<rparr>;
           replicas = desiredReplicaCount tc;
           template = podTemplateFor effective (cr_OperatorNamespace r);
           hash = hashPodTemplate r template;
           part = next_partition hash replicas sts;
           created = (om_CreationTimestamp (sts_meta sts) = None);
           sts = sts\<lparr>sts_meta := (sts_meta sts)\<lparr>om_Annotations :=
                     mergeAnnotation (om_Annotations (sts_meta sts)) podTemplateHashAnnotation hash\<rparr>,
                   sts_Replicas := Some replicas, sts_Template := template,
                   sts_StrategyType := ''RollingUpdate'', sts_RollingUpdate := Some (Some part)\<rparr>
       in Inr (if created
               then sts\<lparr>sts_ServiceName := headlessServiceName (tc_Name tc), sts_Selector := instanceLabels (tc_Name tc),
                     sts_VolumeClaimTemplates := [volumeClaimTemplateFor tc]\<rparr>
               else sts))"

definition new_statefulSet :: "string \<Rightarrow> string \<Rightarrow> stateful_set" where
  "new_statefulSet name namespace = \<lparr>sts_meta = new_meta name namespace, sts_Replicas = None,
     sts_Template = \<lparr>pt_Labels = [], pt_RunAsNonRoot = False, pt_RunAsUser = 0, pt_RunAsGroup = 0, pt_FSGroup = 0,
       pt_SeccompProfile = [], pt_Affinity = NoAffinity, pt_TopologySpreadConstraints = [], pt_Tolerations = [],
       pt_NodeSelector = [], pt_PriorityClassName = [], pt_Containers = [], pt_Volumes = []\<rparr>,
     sts_StrategyType = [], sts_RollingUpdate = None, sts_ServiceName = [], sts_Selector = [],
     sts_VolumeClaimTemplates = [], sts_ReadyReplicas = 0, sts_CurrentRevision = [], sts_UpdateRevision = [],
     sts_ObservedGeneration = 0\<rparr>"

definition with_image :: "string \<Rightarrow> technitium_cluster \<Rightarrow> technitium_cluster" where
  "with_image img tc = tc\<lparr>tc_Spec := (tc_Spec tc)\<lparr>tc_Image := img\<rparr>\<rparr>"

definition reconcileStatefulSet ::
  "'s cluster_reconciler \<Rightarrow> technitium_cluster \<Rightarrow> ('s world, go_error + stateful_set_outcome) state" where
  "reconcileStatefulSet r tc = do {
     let fresh = new_statefulSet (statefulSetName (tc_Name tc)) (cr_OperatorNamespace r);
     got \<leftarrow> kget (cr_statefulSets r) (meta_key (sts_meta fresh));
     case (case got of
             Inr existing \<Rightarrow> Inr (checkDowngrade tc existing)
           | Inl err \<Rightarrow> if IsNotFound err then Inr None else Inl err) of
       Inl err \<Rightarrow> fail err
     | Inr downgrade \<Rightarrow>
         (let effective = (case downgrade of Some d \<Rightarrow> with_image (db_image d) tc | None \<Rightarrow> tc);
              hash = hashPodTemplate r (podTemplateFor effective (cr_OperatorNamespace r))
          in or_return (kcreate_or_update (cr_statefulSets r) fresh (mutate_statefulSet r tc effective))
               (\<lambda>(seen, stored). ok \<lparr>ou_sts = stored, ou_templateChanged = template_changed hash seen, ou_downgrade = downgrade\<rparr>))
   }"

section \<open>The PodDisruptionBudget\<close>

definition podDisruptionBudgetName :: "string \<Rightarrow> string" where
  "podDisruptionBudgetName clusterName = clusterName"

definition podDisruptionBudgetEnabled :: "technitium_cluster \<Rightarrow> bool" where
  "podDisruptionBudgetEnabled tc = (case pb_Enabled (tc_PodDisruptionBudget (tc_Spec tc)) of None \<Rightarrow> True | Some e \<Rightarrow> e)"

definition podDisruptionBudgetMaxUnavailable :: "technitium_cluster \<Rightarrow> int_or_string" where
  "podDisruptionBudgetMaxUnavailable tc =
     (case pb_MaxUnavailable (tc_PodDisruptionBudget (tc_Spec tc)) of Some m \<Rightarrow> m | None \<Rightarrow> FromInt 1)"

definition mutate_pdb :: "'s cluster_reconciler \<Rightarrow> technitium_cluster \<Rightarrow> pod_disruption_budget \<Rightarrow> go_error + pod_disruption_budget" where
  "mutate_pdb r tc pdb =
     controlled r tc (pdb_meta pdb) (\<lambda>m. Inr (pdb\<lparr>
       pdb_meta := m\<lparr>om_Labels := commonLabels (tc_Name tc)\<rparr>,
       pdb_MaxUnavailable := Some (podDisruptionBudgetMaxUnavailable tc),
       pdb_MinAvailable := None,
       pdb_Selector := instanceLabels (tc_Name tc)\<rparr>))"

definition ensure_pdb :: "'s cluster_reconciler \<Rightarrow> technitium_cluster \<Rightarrow> object_key \<Rightarrow> ('s world, go_error + unit) state" where
  "ensure_pdb r tc key =
     ignore_result (kcreate_or_update (cr_pdbs r)
       \<lparr>pdb_meta = new_meta (key_Name key) (key_Namespace key), pdb_MaxUnavailable = None, pdb_MinAvailable = None, pdb_Selector = []\<rparr>
       (mutate_pdb r tc))"

definition reconcilePodDisruptionBudget :: "'s cluster_reconciler \<Rightarrow> technitium_cluster \<Rightarrow> ('s world, go_error + unit) state" where
  "reconcilePodDisruptionBudget r tc =
     (let key = ObjectKey (cr_OperatorNamespace r) (podDisruptionBudgetName (tc_Name tc)) in do {
        got \<leftarrow> kget (cr_pdbs r) key;
        case got of
          Inl err \<Rightarrow>
            if \<not> IsNotFound err then fail err
            else if \<not> podDisruptionBudgetEnabled tc \<or> desiredReplicaCount tc \<le> 1 then ok ()
            else ensure_pdb r tc key
        | Inr existing \<Rightarrow>
            (let owned = rt_IsControlledBy (cr_runtime r) (pdb_meta existing) (tc_meta tc)
             in if \<not> podDisruptionBudgetEnabled tc \<or> desiredReplicaCount tc \<le> 1 then
                  (if \<not> owned then ok ()
                   else do {
                     d \<leftarrow> kdelete (cr_pdbs r) existing;
                     case d of Inl err \<Rightarrow> ignore_not_found err () | Inr _ \<Rightarrow> ok ()
                   })
                else if \<not> owned then
                  fail (ErrorWrap [] errPDBNotOwned ('': '' @ key_string key @
                    ''; remove it or set spec.podDisruptionBudget.enabled to false''))
                else ensure_pdb r tc key)
      })"

section \<open>The workload\<close>

definition reconcileWorkload ::
  "'s cluster_reconciler \<Rightarrow> technitium_cluster \<Rightarrow> ('s world, go_error + stateful_set_outcome) state" where
  "reconcileWorkload r tc =
     or_return (wrap_error ''reconciling headless service: '' (reconcileHeadlessService r tc)) (\<lambda>_.
     or_return (wrap_error ''reconciling client service: '' (reconcileClientService r tc)) (\<lambda>_.
     or_return (wrap_error ''reconciling per-replica services: '' (reconcileReplicaServices r tc)) (\<lambda>_.
     or_return (wrap_error ''reconciling primary service: '' (reconcilePrimaryService r tc)) (\<lambda>_.
     or_return (if tc_AdminSecretRef (tc_Spec tc) = None
                then wrap_error ''reconciling admin secret: '' (reconcileAdminSecret r tc) else ok ()) (\<lambda>_.
     or_return (wrap_error ''reconciling statefulset: '' (reconcileStatefulSet r tc)) (\<lambda>workload.
     or_return (wrap_error ''reconciling pod disruption budget: '' (reconcilePodDisruptionBudget r tc)) (\<lambda>_.
     ok workload)))))))"

section \<open>Annotations\<close>

text \<open>The keys an object records as set by the operator.\<close>

definition managed_keys :: "string_map \<Rightarrow> string set" where
  "managed_keys m =
     (let previous = map_get m managedAnnotationsKey in if previous = [] then {} else set (Split previous CHR '',''))"

definition annotation_keys_ok :: "string_map \<Rightarrow> bool" where
  "annotation_keys_ok d \<longleftrightarrow>
     distinct (map fst d) \<and> (\<forall>k \<in> fst ` set d. k \<noteq> [] \<and> CHR '','' \<notin> set k \<and> k \<noteq> managedAnnotationsKey)"

lemma map_of_fold_delete:
  "map_of (fold (\<lambda>key m. if map_of d key = None then map_delete key m else m) ks m) k =
     (if k \<in> set ks \<and> map_of d k = None then None else map_of m k)"
  by (induction ks arbitrary: m) auto

lemma key_iff: "k \<in> fst ` set d \<longleftrightarrow> map_of d k \<noteq> None"
  by (metis map_of_eq_None_iff)

lemma map_of_fold_map_delete: "map_of (fold map_delete ks m) k = (if k \<in> set ks then None else map_of m k)"
  using map_of_fold_delete [of "[]" ks m k] by simp

lemma applyManagedAnnotations_lookup:
  assumes "annotation_keys_ok d" and "k \<noteq> managedAnnotationsKey"
  shows "map_of (applyManagedAnnotations m d) k =
    (case map_of d k of Some v \<Rightarrow> Some v | None \<Rightarrow> if k \<in> managed_keys m then None else map_of m k)"
  using assms
  by (auto simp: applyManagedAnnotations_def managed_keys_def annotation_keys_ok_def Let_def map_of_map_copy
      map_add_def map_of_fold_delete map_of_fold_map_delete split: option.splits)

lemma applyManagedAnnotations_managed:
  assumes "annotation_keys_ok d"
  shows "managed_keys (applyManagedAnnotations m d) = fst ` set d"
proof (cases "d = []")
  case True
  then show ?thesis
    by (simp add: managed_keys_def applyManagedAnnotations_def Let_def map_get_def map_copy_def)
next
  case False
  let ?ks = "sort (map fst d)"
  have len: "length ?ks = length d" by simp
  have ks: "?ks \<noteq> []" using False len by (metis length_0_conv)
  have ok: "\<forall>p \<in> set ?ks. CHR '','' \<notin> set p" "[] \<notin> set ?ks"
    using assms by (auto simp: annotation_keys_ok_def)
  have split: "Split (Join ?ks '','') CHR '','' = ?ks"
    using Split_Join [OF ks ok(1)] by simp
  have "Join ?ks '','' \<noteq> []"
  proof
    assume "Join ?ks '','' = []"
    with split have "?ks = [[]]" by simp
    with ok(2) show False by simp
  qed
  with False split show ?thesis
    by (simp add: managed_keys_def applyManagedAnnotations_def Let_def map_get_def)
qed

text \<open>
  The operator's annotations replace its own earlier ones and nothing else: after a pass
  for \<open>d\<close> and then one for \<open>d'\<close> an annotation has the value \<open>d'\<close> gives it, is gone when only
  the operator had set it, in either pass or before, and is otherwise as it was. In particular a
  repeated pass changes nothing, so that the annotations of other controllers start no loop.
\<close>

theorem managed_annotations_converge:
  assumes "annotation_keys_ok d" and "annotation_keys_ok d'" and "k \<noteq> managedAnnotationsKey"
  shows "map_of (applyManagedAnnotations (applyManagedAnnotations m d) d') k =
      (case map_of d' k of
         Some v \<Rightarrow> Some v
       | None \<Rightarrow> if k \<in> fst ` set d \<or> k \<in> managed_keys m then None else map_of m k) \<and>
    map_of (applyManagedAnnotations (applyManagedAnnotations m d) d) = map_of (applyManagedAnnotations m d)"
proof
  show "map_of (applyManagedAnnotations (applyManagedAnnotations m d) d') k =
      (case map_of d' k of
         Some v \<Rightarrow> Some v
       | None \<Rightarrow> if k \<in> fst ` set d \<or> k \<in> managed_keys m then None else map_of m k)"
  proof (cases "map_of d' k")
    case None
    then show ?thesis
      using assms
      by (cases "map_of d k")
        (auto simp: applyManagedAnnotations_lookup applyManagedAnnotations_managed key_iff)
  next
    case (Some v)
    then show ?thesis using assms by (simp add: applyManagedAnnotations_lookup)
  qed
  show "map_of (applyManagedAnnotations (applyManagedAnnotations m d) d) = map_of (applyManagedAnnotations m d)"
  proof
    fix j
    show "map_of (applyManagedAnnotations (applyManagedAnnotations m d) d) j = map_of (applyManagedAnnotations m d) j"
    proof (cases "j = managedAnnotationsKey")
      case True
      then show ?thesis
        using assms(1) by (auto simp: applyManagedAnnotations_def Let_def map_of_map_copy annotation_keys_ok_def map_copy_def)
    next
      case False
      then show ?thesis
        using assms(1)
        by (cases "map_of d j")
          (auto simp: applyManagedAnnotations_lookup applyManagedAnnotations_managed key_iff)
    qed
  qed
qed

section \<open>Ownership\<close>

text \<open>The deletions the replica Services' reconciliation may make.\<close>

definition stale_replica_delete :: "'s cluster_reconciler \<Rightarrow> technitium_cluster \<Rightarrow> event \<Rightarrow> bool" where
  "stale_replica_delete r tc ev \<longleftrightarrow>
     (\<forall>k m. ev = EvDelete k m \<longrightarrow>
        rt_IsControlledBy (cr_runtime r) m (tc_meta tc) \<and> isReplicaServiceName (tc_Name tc) (om_Name m) \<and>
        om_Name m \<notin> wanted_services tc)"

lemma emits_delete_ignoring: "P (EvDelete (kc_kind kc) (kc_meta kc obj)) \<Longrightarrow> emits P (delete_ignoring kc pre obj)"
  unfolding delete_ignoring_def by (intro emits_rules emits_return) simp_all

lemma emits_delete_stale_services:
  assumes "kc_meta (cr_services r) = svc_meta"
  shows "emits (stale_replica_delete r tc) (delete_stale_services r tc (wanted_services tc) svcs)"
proof (induction svcs)
  case (Cons svc svcs)
  then show ?case
    using assms by (auto simp: stale_replica_delete_def intro!: emits_or_return emits_delete_ignoring)
qed simp

lemma emits_ensure_replica_services:
  "emits (stale_replica_delete r tc) (ensure_replica_services r tc spec svcType policy is)"
proof (induction "is")
  case (Cons i "is")
  then show ?case
    by (auto simp: Let_def intro!: emits_or_return emits_wrap_error emits_kube(8)) (simp add: stale_replica_delete_def)
qed simp

text \<open>
  Reconciling the per-replica Services deletes only Services that this cluster controls,
  that carry a per-replica name and that are not wanted any more.
\<close>

theorem replica_services_delete_only_own:
  assumes "kc_meta (cr_services r) = svc_meta"
    and "run_state (reconcileReplicaServices r tc) w = (res, w')" and "EvDelete k m \<in> set (new_events w w')"
  shows "rt_IsControlledBy (cr_runtime r) m (tc_meta tc) \<and> isReplicaServiceName (tc_Name tc) (om_Name m) \<and>
    om_Name m \<notin> wanted_services tc"
proof -
  have emits: "emits (stale_replica_delete r tc) (reconcileReplicaServices r tc)"
    unfolding reconcileReplicaServices_def Let_def
    by (intro emits_or_return emits_case_option emits_return emits_ensure_replica_services emits_wrap_error emits_kube
        emits_delete_stale_services assms(1)) (simp add: stale_replica_delete_def)
  obtain es where "trace w' = trace w @ es" "list_all (stale_replica_delete r tc) es"
    using emits_D [OF emits assms(2)] by blast
  with assms(3) show ?thesis by (auto simp: list_all_iff stale_replica_delete_def)
qed

text \<open>
  A PodDisruptionBudget of the cluster's name that the cluster does not control is neither
  updated nor deleted: the reconcile only reads it, and reports a conflict when a budget is wanted.
\<close>

theorem unowned_pdb_untouched:
  assumes "kc_Get (cr_pdbs r) (ObjectKey (cr_OperatorNamespace r) (tc_Name tc)) (ext w) = (Inr existing, s)"
    and "\<not> rt_IsControlledBy (cr_runtime r) (pdb_meta existing) (tc_meta tc)"
    and "run_state (reconcilePodDisruptionBudget r tc) w = (res, w')"
  shows "trace w' = trace w @ [EvGet (kc_kind (cr_pdbs r)) (ObjectKey (cr_OperatorNamespace r) (tc_Name tc))] \<and>
    (if podDisruptionBudgetEnabled tc \<and> 1 < desiredReplicaCount tc
     then \<exists>e. res = Inl e \<and> errors_Is e errPDBNotOwned else res = Inr ())"
  using assms
  by (auto simp: reconcilePodDisruptionBudget_def podDisruptionBudgetName_def Let_def run_kube split: if_splits)

section \<open>The admin Secret keeps its credentials\<close>

text \<open>
  (C36) Reconciling the admin Secret never changes a value it already holds, neither the password
  nor the minted token nor anything else, adds at most the user name and the password, and leaves
  both present.
\<close>

theorem admin_secret_preserved:
  assumes "mutate_admin_secret r tc sec = Inr sec'"
  shows "(\<forall>k v. map_of (sec_Data sec) k = Some v \<longrightarrow> map_of (sec_Data sec') k = Some v) \<and>
    dom (map_of (sec_Data sec')) = dom (map_of (sec_Data sec)) \<union> {adminSecretUsernameKey, adminSecretPasswordKey}"
  using assms
  by (auto simp: mutate_admin_secret_def controlled_def Let_def adminSecretUsernameKey_def adminSecretPasswordKey_def
      split: sum.splits if_splits)

section \<open>A template change parks the rollout\<close>

text \<open>The hash in the annotation of a StatefulSet, empty if there is none.\<close>

definition recorded_hash :: "stateful_set \<Rightarrow> string" where
  "recorded_hash sts = map_get (om_Annotations (sts_meta sts)) podTemplateHashAnnotation"

lemma hashPodTemplate_nonempty: "hashPodTemplate r t \<noteq> []"
proof -
  have "length (hashPodTemplate r t) = 16" by (simp add: hashPodTemplate_def length_EncodeToString length_sha256)
  then show ?thesis by auto
qed

text \<open>
  (C25) Reconciling an existing StatefulSet of several replicas releases no further node. The replica count and the
  pod template become those of the spec, and the hash of that template, never empty, is recorded in the
  annotation; so the next pass finds there the hash of the template that this pass wrote. If the StatefulSet
  has a recorded hash and the template of the spec has another one, the partition is parked
  at the replica count: no ordinal gets the new template before the rollout releases it. If the hash is the
  recorded one, the partition is kept, clamped to the replica count, and no ordinal is released that was not. The exception is
  a StatefulSet with no recorded hash: there too the partition is kept, so a new template reaches the ordinals
  released already without a gate.
\<close>

theorem statefulSet_update_releases_nothing:
  assumes "controller_reference_laws (cr_runtime r)" and "mutate_statefulSet r tc effective sts = Inr sts'"
    and "om_CreationTimestamp (sts_meta sts) \<noteq> None" and "1 < desiredReplicaCount tc"
  shows "sts_replicas sts' = desiredReplicaCount tc \<and>
    sts_Template sts' = podTemplateFor effective (cr_OperatorNamespace r) \<and>
    recorded_hash sts' = hashPodTemplate r (sts_Template sts') \<and> recorded_hash sts' \<noteq> [] \<and>
    (if recorded_hash sts \<noteq> [] \<and> recorded_hash sts \<noteq> recorded_hash sts'
     then sts_partition sts' = sts_replicas sts' \<and> released (sts_partition sts') (sts_replicas sts') = []
     else sts_partition sts' = min (sts_partition sts) (sts_replicas sts') \<and>
       set (released (sts_partition sts') (sts_replicas sts')) = set (released (sts_partition sts) (sts_replicas sts')))"
proof -
  obtain m where m: "rt_SetControllerReference (cr_runtime r) (tc_meta tc) (sts_meta sts) = Inr m"
    using assms(2) by (auto simp: mutate_statefulSet_def controlled_def split: sum.splits)
  have owner: "m = (sts_meta sts)\<lparr>om_OwnerReferences := om_OwnerReferences m\<rparr>"
    using assms(1) m unfolding controller_reference_laws_def by blast
  have meta: "om_CreationTimestamp m = om_CreationTimestamp (sts_meta sts)" "om_Annotations m = om_Annotations (sts_meta sts)"
    using arg_cong [OF owner, of om_CreationTimestamp] arg_cong [OF owner, of om_Annotations] by simp_all
  let ?hash = "hashPodTemplate r (podTemplateFor effective (cr_OperatorNamespace r))"
  have recorded: "recorded_hash sts' = ?hash"
    using assms(2) m by (auto simp: recorded_hash_def mutate_statefulSet_def controlled_def Let_def mergeAnnotation_def map_get_def)
  have part: "sts_partition sts' =
      (if recorded_hash sts \<noteq> [] \<and> recorded_hash sts \<noteq> ?hash then desiredReplicaCount tc else min (sts_partition sts) (desiredReplicaCount tc))"
    using assms(2-4) m meta
    by (auto simp: recorded_hash_def mutate_statefulSet_def controlled_def Let_def next_partition_def template_changed_def sts_partition_def
        split: option.split)
  have "sts_replicas sts' = desiredReplicaCount tc" "sts_Template sts' = podTemplateFor effective (cr_OperatorNamespace r)"
    using assms(2) m by (auto simp: mutate_statefulSet_def controlled_def Let_def sts_replicas_def)
  with recorded part show ?thesis by (auto simp: hashPodTemplate_nonempty released_def)
qed

section \<open>Witnesses\<close>

lemma sample_annotations_ok: "annotation_keys_ok [(''a'', ''1'')]" "annotation_keys_ok [(''b'', ''2'')]"
  by (simp_all add: annotation_keys_ok_def managedAnnotationsKey_def)

theorem managed_annotations_converge_witness:
  "map_of (applyManagedAnnotations (applyManagedAnnotations [(''pool'', ''x'')] [(''a'', ''1'')]) [(''b'', ''2'')]) ''a'' = None \<and>
   map_of (applyManagedAnnotations (applyManagedAnnotations [(''pool'', ''x'')] [(''a'', ''1'')]) [(''b'', ''2'')]) ''pool'' = Some ''x''"
proof -
  have "managed_keys [(''pool'', ''x'')] = {}"
    by (simp add: managed_keys_def map_get_def managedAnnotationsKey_def)
  with managed_annotations_converge [OF sample_annotations_ok, of "''a''" "[(''pool'', ''x'')]"]
    managed_annotations_converge [OF sample_annotations_ok, of "''pool''" "[(''pool'', ''x'')]"]
  show ?thesis by (simp add: managedAnnotationsKey_def)
qed

definition owned_meta :: "string \<Rightarrow> object_meta" where
  "owned_meta name = (new_meta name ''ops'')\<lparr>om_OwnerReferences :=
     [\<lparr>or_Kind = ''TechnitiumCluster'', or_Name = ''dns'', or_UID = [], or_Controller = Some True\<rparr>]\<rparr>"

definition stale_service :: service where
  "stale_service = (new_service ''dns-7'' ''ops'')\<lparr>svc_meta := owned_meta ''dns-7''\<rparr>"

definition stale_services_reconciler :: "unit cluster_reconciler" where
  "stale_services_reconciler = (sample_cluster_reconciler no_reply)\<lparr>cr_services :=
     (plain_kclient ''Service'' svc_meta no_object)\<lparr>kc_List := (\<lambda>_ _ s. (Inr [stale_service], s))\<rparr>\<rparr>"

lemma stale_service_controlled:
  "rt_IsControlledBy (plain_runtime http clock) (svc_meta stale_service) (tc_meta sample_cluster)"
  by (simp add: plain_runtime_def stale_service_def owned_meta_def sample_cluster_def zero_meta_def new_meta_def)

lemma stale_service_name: "isReplicaServiceName (tc_Name sample_cluster) (om_Name (svc_meta stale_service))"
  by code_simp

theorem replica_services_delete_only_own_witness:
  "\<exists>m. trace (snd (run_state (reconcileReplicaServices stale_services_reconciler sample_cluster) (empty_world ()))) =
      [EvList ''Service'', EvDelete ''Service'' m] \<and> isReplicaServiceName (tc_Name sample_cluster) (om_Name m)"
proof -
  let ?run = "run_state (reconcileReplicaServices stale_services_reconciler sample_cluster) (empty_world ())"
  have client: "kc_meta (cr_services stale_services_reconciler) = svc_meta"
    by (simp add: stale_services_reconciler_def)
  have trace: "trace (snd ?run) = [EvList ''Service'', EvDelete ''Service'' (svc_meta stale_service)]"
    using stale_service_controlled stale_service_name
    by (simp add: reconcileReplicaServices_def stale_services_reconciler_def run_or_return run_wrap_error run_kube delete_ignoring_def
        kdelete_def run_outside wanted_services_def empty_world_def sample_cluster_def zero_meta_def)
  then have "EvDelete ''Service'' (svc_meta stale_service) \<in> set (new_events (empty_world ()) (snd ?run))"
    by (simp add: new_events_def empty_world_def)
  from replica_services_delete_only_own [OF client prod.collapse [symmetric] this] trace
  show ?thesis by auto
qed

definition foreign_pdb :: pod_disruption_budget where
  "foreign_pdb = \<lparr>pdb_meta = new_meta ''dns'' ''ops'', pdb_MaxUnavailable = None, pdb_MinAvailable = None, pdb_Selector = []\<rparr>"

definition foreign_pdb_reconciler :: "unit cluster_reconciler" where
  "foreign_pdb_reconciler = (sample_cluster_reconciler no_reply)\<lparr>cr_pdbs :=
     plain_kclient ''PodDisruptionBudget'' pdb_meta (\<lambda>_. Inr foreign_pdb)\<rparr>"

lemma sample_cluster_sel:
  "desiredReplicaCount sample_cluster = 3" "tc_Name sample_cluster = ''dns''" "podDisruptionBudgetEnabled sample_cluster"
  by (simp_all add: sample_cluster_def desiredReplicaCount_def podDisruptionBudgetEnabled_def)

theorem unowned_pdb_untouched_witness:
  "\<exists>e w'. run_state (reconcilePodDisruptionBudget foreign_pdb_reconciler sample_cluster) (empty_world ()) = (Inl e, w') \<and>
     errors_Is e errPDBNotOwned \<and> trace w' = [EvGet ''PodDisruptionBudget'' (ObjectKey ''ops'' ''dns'')]"
proof -
  let ?run = "run_state (reconcilePodDisruptionBudget foreign_pdb_reconciler sample_cluster) (empty_world ())"
  have get: "kc_Get (cr_pdbs foreign_pdb_reconciler)
      (ObjectKey (cr_OperatorNamespace foreign_pdb_reconciler) (tc_Name sample_cluster)) (ext (empty_world ())) = (Inr foreign_pdb, ())"
    by (simp add: foreign_pdb_reconciler_def)
  have foreign: "\<not> rt_IsControlledBy (cr_runtime foreign_pdb_reconciler) (pdb_meta foreign_pdb) (tc_meta sample_cluster)"
    by (simp add: foreign_pdb_reconciler_def plain_runtime_def foreign_pdb_def new_meta_def zero_meta_def)
  have sel: "kc_kind (cr_pdbs foreign_pdb_reconciler) = ''PodDisruptionBudget''"
    "cr_OperatorNamespace foreign_pdb_reconciler = ''ops''"
    by (simp_all add: foreign_pdb_reconciler_def)
  from unowned_pdb_untouched [OF get foreign prod.collapse [symmetric]]
  show ?thesis by (auto simp: sample_cluster_sel sel empty_world_def prod_eq_iff)
qed

definition tokened_secret :: secret where
  "tokened_secret = sample_secret\<lparr>sec_Data := [(''token'', ''t''), (''password'', ''old'')]\<rparr>"

theorem admin_secret_preserved_witness:
  "\<exists>sec'. mutate_admin_secret (sample_cluster_reconciler no_reply :: unit cluster_reconciler) sample_cluster tokened_secret = Inr sec' \<and>
     map_of (sec_Data sec') ''password'' = Some ''old'' \<and>
     dom (map_of (sec_Data sec')) = {''token'', ''password'', ''username''}"
proof -
  obtain sec' where mutate:
    "mutate_admin_secret (sample_cluster_reconciler no_reply :: unit cluster_reconciler) sample_cluster tokened_secret = Inr sec'"
    by (simp add: mutate_admin_secret_def controlled_def plain_runtime_def Let_def tokened_secret_def sample_secret_def
        adminSecretUsernameKey_def adminSecretPasswordKey_def)
  from admin_secret_preserved [OF mutate] mutate show ?thesis
    by (auto simp: tokened_secret_def adminSecretUsernameKey_def adminSecretPasswordKey_def)
qed

definition rolled_sts :: stateful_set where
  "rolled_sts = sample_sts\<lparr>sts_meta := (new_meta ''dns'' ''ops'')\<lparr>om_CreationTimestamp := Some 1,
     om_Annotations := [(podTemplateHashAnnotation, ''old'')]\<rparr>, sts_RollingUpdate := Some (Some 0)\<rparr>"

theorem statefulSet_update_releases_nothing_witness:
  "\<exists>sts'. mutate_statefulSet (sample_cluster_reconciler no_reply :: unit cluster_reconciler) sample_cluster sample_cluster rolled_sts = Inr sts' \<and>
     released (sts_partition sts') (sts_replicas sts') = [] \<and> sts_replicas sts' = 3"
proof -
  let ?r = "sample_cluster_reconciler no_reply :: unit cluster_reconciler"
  obtain sts' where mutate: "mutate_statefulSet ?r sample_cluster sample_cluster rolled_sts = Inr sts'"
    by (simp add: mutate_statefulSet_def controlled_def plain_runtime_def Let_def)
  have hyps: "controller_reference_laws (cr_runtime ?r)" "om_CreationTimestamp (sts_meta rolled_sts) \<noteq> None"
    "1 < desiredReplicaCount sample_cluster"
    by (simp_all add: rolled_sts_def controller_reference_laws_plain sample_cluster_sel)
  have "length (hashPodTemplate ?r t) = 16" for t by (simp add: hashPodTemplate_def length_EncodeToString length_sha256)
  then have "hashPodTemplate ?r t \<noteq> ''old''" for t by (auto dest: arg_cong [of _ _ length])
  moreover have "recorded_hash rolled_sts = ''old''"
    by (simp add: recorded_hash_def rolled_sts_def map_get_def)
  moreover note statefulSet_update_releases_nothing [OF hyps(1) mutate hyps(2,3)]
  ultimately show ?thesis using mutate by (metis list.distinct(1) sample_cluster_sel(1))
qed

end
