(* ===== verification/Clustering.thy ===== *)
theory Clustering
  imports Workload
begin

text \<open>
  Technitium's own clustering as the operator drives it (\<^verbatim>\<open>technitiumcluster_controller.go\<close>):
  initialising the Primary, joining the Secondaries, repairing recorded addresses, and the
  teardown and retention steps of a cluster that is being deleted.

  The steps of \<open>reconcileClustering\<close> that return early are definitions of their own: \<open>prepare_primary\<close>
  up to the point where the Primary's cluster exists, \<open>join_secondaries\<close> for the loop,
  \<open>check_converged\<close> for the final read. Log lines are not modelled.
\<close>

section \<open>Repairing a node's address\<close>

definition refreshNodeIP ::
  "technitium_cluster \<Rightarrow> int \<Rightarrow> 's node_api \<Rightarrow> cluster_state \<Rightarrow> cluster_node option \<Rightarrow> string
    \<Rightarrow> ('s world, go_error + unit) state" where
  "refreshNodeIP tc ordinal node state primaryView podIP =
     (if \<not> cs_ClusterInitialized state then ok ()
      else case find (\<lambda>n. cn_State n = nodeSelfState) (cs_Nodes state) of
        None \<Rightarrow> ok ()
      | Some self \<Rightarrow>
          if podIP \<notin> set (cn_IPAddresses self) \<or>
             (case primaryView of Some v \<Rightarrow> podIP \<notin> set (cn_IPAddresses v) | None \<Rightarrow> False)
          then ignore_result (wrap_error
                 (''updating IP address of ordinal '' @ Itoa ordinal @ '' of '' @ tc_Name tc @ '' to '' @ podIP @ '': '')
                 (na_UpdateNodeIPAddresses node [podIP]))
          else ok ())"

section \<open>Initialising and joining\<close>

text \<open>
  \<open>None\<close> stands for the deferral \<^verbatim>\<open>return false, nil\<close>; \<open>Some\<close> carries the Primary's client and the
  state it reports once its cluster is initialised.
\<close>

definition ensure_initialized ::
  "technitium_cluster \<Rightarrow> cluster_pod_info \<Rightarrow> 's node_api \<Rightarrow> ('s world, go_error + cluster_state option) state" where
  "ensure_initialized tc primaryPod primaryClient = do {
     got \<leftarrow> na_GetClusterState primaryClient;
     case got of
       Inl _ \<Rightarrow> ok None
     | Inr primaryState \<Rightarrow>
         if cs_ClusterInitialized primaryState then ok (Some primaryState)
         else do {
           inited \<leftarrow> na_InitCluster primaryClient
             \<lparr>ic_ClusterDomain = clusterDomainFor tc, ic_PrimaryNodeIPAddresses = [pi_ip primaryPod]\<rparr>;
           case (case inited of
                   Inl err \<Rightarrow> if errors_Is err ErrClusterAlreadyInitialized then None else Some err
                 | Inr _ \<Rightarrow> None) of
             Some err \<Rightarrow> fail (ErrorWrap (''initializing cluster on primary of '' @ tc_Name tc @ '': '') err [])
           | None \<Rightarrow>
               or_return (wrap_error (''reading cluster state of primary of '' @ tc_Name tc @ '' after init: '')
                 (na_GetClusterState primaryClient)) (\<lambda>primaryState. ok (Some primaryState))
         }
   }"

definition prepare_primary ::
  "'s cluster_reconciler \<Rightarrow> technitium_cluster \<Rightarrow> string \<Rightarrow> string \<Rightarrow> cluster_pod_info
    \<Rightarrow> ('s world, go_error + ('s node_api \<times> cluster_state) option) state" where
  "prepare_primary r tc username password primaryPod =
     or_return (wrap_error (''building node client for primary of '' @ tc_Name tc @ '': '')
       (nodeClientFactory r (nodeEndpoint (tc_Name tc) primaryOrdinal (cr_OperatorNamespace r)) username password))
     (\<lambda>primaryClient. or_return (ensure_initialized tc primaryPod primaryClient)
       (\<lambda>state. ok (map_option (Pair primaryClient) state)))"

definition primary_url :: "technitium_cluster \<Rightarrow> cluster_state \<Rightarrow> string" where
  "primary_url tc primaryState =
     ''https://'' @ (if cs_DNSServerDomain primaryState = [] then tc_Name tc @ ''-0.'' @ clusterDomainFor tc
                     else cs_DNSServerDomain primaryState) @ '':53443/''"

definition join_options :: "technitium_cluster \<Rightarrow> string \<Rightarrow> string \<Rightarrow> cluster_state \<Rightarrow> string \<Rightarrow> string \<Rightarrow> init_join_options" where
  "join_options tc username password primaryState primaryIP podIP = \<lparr>
     ij_SecondaryNodeIPAddresses = [podIP], ij_PrimaryNodeURL = primary_url tc primaryState,
     ij_PrimaryNodeUsername = username, ij_PrimaryNodePassword = password,
     ij_PrimaryNodeIPAddress = primaryIP, ij_IgnoreCertificateErrors = True\<rparr>"

text \<open>
  One Secondary: the outcome says whether the pass leaves it behind (\<open>False\<close>) or finds it
  clustered or joining (\<open>True\<close>).
\<close>

definition join_secondary ::
  "'s cluster_reconciler \<Rightarrow> technitium_cluster \<Rightarrow> string \<Rightarrow> string \<Rightarrow> cluster_state \<Rightarrow> string
    \<Rightarrow> (int \<Rightarrow> cluster_pod_info option) \<Rightarrow> int \<Rightarrow> ('s world, go_error + bool) state" where
  "join_secondary r tc username password primaryState primaryIP pods i =
     (case pods i of
        None \<Rightarrow> ok False
      | Some pod \<Rightarrow>
          if \<not> pi_ready pod then ok False
          else or_return (wrap_error (''building node client for ordinal '' @ Itoa i @ '' of '' @ tc_Name tc @ '': '')
            (nodeClientFactory r (nodeEndpoint (tc_Name tc) i (cr_OperatorNamespace r)) username password))
          (\<lambda>secondaryClient. do {
            got \<leftarrow> na_GetClusterState secondaryClient;
            case got of
              Inl _ \<Rightarrow> ok False
            | Inr secondaryState \<Rightarrow>
                if cs_ClusterInitialized secondaryState then
                  or_return (refreshNodeIP tc i secondaryClient secondaryState
                    (findClusterMember (cs_Nodes primaryState) (ordinal_name (tc_Name tc) i)) (pi_ip pod)) (\<lambda>_. ok True)
                else do {
                  joined \<leftarrow> na_InitJoinCluster secondaryClient
                    (join_options tc username password primaryState primaryIP (pi_ip pod));
                  case joined of
                    Inr _ \<Rightarrow> ok True
                  | Inl err \<Rightarrow>
                      if errors_Is err ErrClusterAlreadyInitialized then ok True
                      else fail (ErrorWrap (''joining cluster as secondary ordinal '' @ Itoa i @ '' of '' @ tc_Name tc @ '': '') err [])
                }
          }))"

fun join_secondaries ::
  "'s cluster_reconciler \<Rightarrow> technitium_cluster \<Rightarrow> string \<Rightarrow> string \<Rightarrow> cluster_state \<Rightarrow> string
    \<Rightarrow> (int \<Rightarrow> cluster_pod_info option) \<Rightarrow> int list \<Rightarrow> bool \<Rightarrow> ('s world, go_error + bool) state" where
  "join_secondaries r tc username password primaryState primaryIP pods [] allJoined = ok allJoined"
| "join_secondaries r tc username password primaryState primaryIP pods (i # rest) allJoined =
     or_return (join_secondary r tc username password primaryState primaryIP pods i) (\<lambda>joined.
       join_secondaries r tc username password primaryState primaryIP pods rest (allJoined \<and> joined))"

definition converged :: "string \<Rightarrow> int \<Rightarrow> cluster_state \<Rightarrow> bool" where
  "converged clusterName desiredReplicas state =
     list_all (\<lambda>i. case findClusterMember (cs_Nodes state) (ordinal_name clusterName i) of
         None \<Rightarrow> False
       | Some member \<Rightarrow> nodeJoined (cn_State member)) [1 .. desiredReplicas - 1]"

text \<open>The pass once the Primary's pod is Ready.\<close>

definition clustering_from ::
  "'s cluster_reconciler \<Rightarrow> technitium_cluster \<Rightarrow> int \<Rightarrow> string \<Rightarrow> string \<Rightarrow> (int \<Rightarrow> cluster_pod_info option)
    \<Rightarrow> cluster_pod_info \<Rightarrow> ('s world, go_error + bool) state" where
  "clustering_from r tc desiredReplicas username password pods primaryPod =
     or_return (prepare_primary r tc username password primaryPod) (\<lambda>prepared.
       case prepared of
         None \<Rightarrow> ok False
       | Some (primaryClient, primaryState) \<Rightarrow>
           or_return (refreshNodeIP tc primaryOrdinal primaryClient primaryState None (pi_ip primaryPod)) (\<lambda>_.
           or_return (join_secondaries r tc username password primaryState (pi_ip primaryPod) pods
             [1 .. desiredReplicas - 1] True) (\<lambda>allJoined.
             if \<not> allJoined then ok False
             else do {
               got \<leftarrow> na_GetClusterState primaryClient;
               case got of
                 Inl _ \<Rightarrow> ok False
               | Inr convergedState \<Rightarrow> ok (converged (tc_Name tc) desiredReplicas convergedState)
             })))"

definition reconcileClustering ::
  "'s cluster_reconciler \<Rightarrow> technitium_cluster \<Rightarrow> int \<Rightarrow> ('s world, go_error + bool) state" where
  "reconcileClustering r tc desiredReplicas =
     or_return (adminCredentials r tc) (\<lambda>(username, password).
     or_return (resolveClusterPods r tc desiredReplicas) (\<lambda>pods.
       case pods 0 of
         None \<Rightarrow> ok False
       | Some primaryPod \<Rightarrow>
           if \<not> pi_ready primaryPod then ok False
           else clustering_from r tc desiredReplicas username password pods primaryPod))"

section \<open>Deleting a cluster\<close>

definition clusterFinalizer :: string where
  "clusterFinalizer = ''dns.packet.fail/cluster-cleanup''"

text \<open>The teardown ignores every error, so its result is only its effects.\<close>

fun remove_secondaries :: "'s node_api \<Rightarrow> cluster_node list \<Rightarrow> ('s world, unit) state" where
  "remove_secondaries primaryClient [] = ret ()"
| "remove_secondaries primaryClient (node # rest) =
     (if cn_Type node \<noteq> ''Secondary'' then remove_secondaries primaryClient rest
      else do {
        _ \<leftarrow> na_RemoveSecondary primaryClient (cn_ID node);
        _ \<leftarrow> na_DeleteSecondary primaryClient (cn_ID node);
        remove_secondaries primaryClient rest
      })"

definition teardownClusterState :: "'s cluster_reconciler \<Rightarrow> technitium_cluster \<Rightarrow> ('s world, unit) state" where
  "teardownClusterState r tc = do {
     creds \<leftarrow> adminCredentials r tc;
     case creds of
       Inl _ \<Rightarrow> ret ()
     | Inr (username, password) \<Rightarrow> do {
         built \<leftarrow> nodeClientFactory r (nodeEndpoint (tc_Name tc) primaryOrdinal (cr_OperatorNamespace r)) username password;
         case built of
           Inl _ \<Rightarrow> ret ()
         | Inr primaryClient \<Rightarrow> do {
             got \<leftarrow> na_GetClusterState primaryClient;
             case got of
               Inl _ \<Rightarrow> ret ()
             | Inr state \<Rightarrow>
                 if \<not> cs_ClusterInitialized state then ret ()
                 else do {
                   remove_secondaries primaryClient (cs_Nodes state);
                   _ \<leftarrow> na_DeletePrimaryCluster primaryClient True;
                   ret ()
                 }
           }
       }
   }"

fun delete_pvcs :: "('s, pvc) kclient \<Rightarrow> pvc list \<Rightarrow> ('s world, go_error + unit) state" where
  "delete_pvcs kc [] = ok ()"
| "delete_pvcs kc (p # rest) =
     or_return (delete_ignoring kc (''deleting PVC '' @ om_Name (pvc_meta p) @ '': '') p) (\<lambda>_. delete_pvcs kc rest)"

definition reconcilePVCRetention :: "'s cluster_reconciler \<Rightarrow> technitium_cluster \<Rightarrow> ('s world, go_error + unit) state" where
  "reconcilePVCRetention r tc =
     (if ss_RetentionPolicy (tc_Storage (tc_Spec tc)) \<noteq> PVCRetentionPolicyDelete then ok ()
      else or_return (wrap_error (''listing data PVCs for '' @ tc_Name tc @ '': '')
          (klist (cr_pvcs r) (cr_OperatorNamespace r) (instanceLabels (tc_Name tc))))
        (\<lambda>pvcs. delete_pvcs (cr_pvcs r) pvcs))"

text \<open>\<^verbatim>\<open>if apierrors.IsNotFound(err) { return nil }; return fmt.Errorf(...)\<close>\<close>

definition absent_ok :: "string \<Rightarrow> go_error \<Rightarrow> ('w, go_error + unit) state" where
  "absent_ok prefix err = (if IsNotFound err then ok () else fail (ErrorWrap prefix err []))"

definition without_owner :: "string \<Rightarrow> secret \<Rightarrow> secret" where
  "without_owner uid sec = sec\<lparr>sec_meta := (sec_meta sec)\<lparr>om_OwnerReferences :=
     filter (\<lambda>ref. or_UID ref \<noteq> uid) (om_OwnerReferences (sec_meta sec))\<rparr>\<rparr>"

definition reconcileAdminSecretRetention :: "'s cluster_reconciler \<Rightarrow> technitium_cluster \<Rightarrow> ('s world, go_error + unit) state" where
  "reconcileAdminSecretRetention r tc =
     (if tc_AdminSecretRef (tc_Spec tc) \<noteq> None \<or> ss_RetentionPolicy (tc_Storage (tc_Spec tc)) = PVCRetentionPolicyDelete
      then ok ()
      else
        let secretKey = ObjectKey (cr_OperatorNamespace r) (adminSecretName (tc_Name tc)) in do {
          got \<leftarrow> kget (cr_secrets r) secretKey;
          case got of
            Inl err \<Rightarrow> absent_ok (''getting admin secret '' @ key_string secretKey @ '': '') err
          | Inr secret \<Rightarrow>
              (let kept = without_owner (om_UID (tc_meta tc)) secret in
               if length (om_OwnerReferences (sec_meta kept)) = length (om_OwnerReferences (sec_meta secret)) then ok ()
               else do {
                 updated \<leftarrow> kupdate (cr_secrets r) kept;
                 case updated of
                   Inl err \<Rightarrow> absent_ok (''releasing admin secret '' @ key_string secretKey @ '': '') err
                 | Inr _ \<Rightarrow> ok ()
               })
        })"

definition cluster_with_finalizers :: "string list \<Rightarrow> technitium_cluster \<Rightarrow> technitium_cluster" where
  "cluster_with_finalizers fs tc = tc\<lparr>tc_meta := (tc_meta tc)\<lparr>om_Finalizers := fs\<rparr>\<rparr>"

definition finalizeCluster :: "'s cluster_reconciler \<Rightarrow> technitium_cluster \<Rightarrow> ('s world, go_error + unit) state" where
  "finalizeCluster r tc =
     (if \<not> rt_ContainsFinalizer (cr_runtime r) (om_Finalizers (tc_meta tc)) clusterFinalizer then ok ()
      else do {
        _ \<leftarrow> (if tc_DeletionPolicy (tc_Spec tc) = DeletionPolicyOrphan then ret () else teardownClusterState r tc);
        or_return (reconcileAdminSecretRetention r tc) (\<lambda>_.
        or_return (reconcilePVCRetention r tc) (\<lambda>_.
          ignore_result (kupdate (cr_clusters r)
            (cluster_with_finalizers (rt_RemoveFinalizer (cr_runtime r) (om_Finalizers (tc_meta tc)) clusterFinalizer) tc))))
      })"

section \<open>Clustering\<close>

lemma run_try_iff:
  "run_state (State_Monad.bind m (\<lambda>r. case r of Inl e \<Rightarrow> f e | Inr a \<Rightarrow> g a)) w = (b, w'') \<longleftrightarrow>
     (\<exists>e w'. run_state m w = (Inl e, w') \<and> run_state (f e) w' = (b, w'')) \<or>
     (\<exists>a w'. run_state m w = (Inr a, w') \<and> run_state (g a) w' = (b, w''))"
  by (auto split: prod.splits sum.splits)

lemma join_secondaries_all:
  "run_state (join_secondaries r tc u p st ip pods is b) w = (Inr True, w') \<Longrightarrow>
     b \<and> (\<forall>i \<in> set is. \<exists>pod. pods i = Some pod \<and> pi_ready pod)"
proof (induction "is" arbitrary: b w)
  case (Cons i "is")
  from Cons.prems obtain j w1 where j: "run_state (join_secondary r tc u p st ip pods i) w = (Inr j, w1)"
    and rest: "run_state (join_secondaries r tc u p st ip pods is (b \<and> j)) w1 = (Inr True, w')"
    by (auto simp: or_return_Inr_iff)
  from Cons.IH [OF rest] have "b" "j" "\<forall>i \<in> set is. \<exists>pod. pods i = Some pod \<and> pi_ready pod" by auto
  moreover have "\<exists>pod. pods i = Some pod \<and> pi_ready pod"
    using j \<open>j\<close> by (auto simp: join_secondary_def split: option.splits if_splits)
  ultimately show ?case by simp
qed simp

lemma converged_iff:
  "converged c n st \<longleftrightarrow>
     (\<forall>i. 1 \<le> i \<and> i < n \<longrightarrow> (\<exists>m. findClusterMember (cs_Nodes st) (ordinal_name c i) = Some m \<and> nodeJoined (cn_State m)))"
  by (auto simp: converged_def list_all_iff split: option.splits) force+

lemma prepare_primary_client:
  assumes "run_state (prepare_primary r tc u p pod) w = (Inr (Some (c, st)), w')"
  shows "\<exists>w1. run_state (nodeClientFactory r (nodeEndpoint (tc_Name tc) primaryOrdinal (cr_OperatorNamespace r)) u p) w = (Inr c, w1)"
  using assms
  by (auto simp: prepare_primary_def or_return_Inr_iff)

text \<open>
  (C19) Clustering is reported as done only when the Primary itself says so: the last thing that
  happened is a read of the Primary's cluster state which lists every Secondary of the desired
  replicas in a joined state, and every pod of the cluster was Ready.
\<close>

theorem clustered_means_converged:
  assumes "run_state (reconcileClustering r tc n) w = (Inr True, w')" and "1 < n"
  shows "\<exists>u p pods primary st w0 w1 w2 w3.
    run_state (resolveClusterPods r tc n) w0 = (Inr pods, w1) \<and>
    (\<forall>i. 0 \<le> i \<and> i < n \<longrightarrow> (\<exists>pod. pods i = Some pod \<and> pi_ready pod)) \<and>
    run_state (nodeClientFactory r (nodeEndpoint (tc_Name tc) primaryOrdinal (cr_OperatorNamespace r)) u p) w1 = (Inr primary, w2) \<and>
    run_state (na_GetClusterState primary) w3 = (Inr st, w') \<and>
    (\<forall>i. 1 \<le> i \<and> i < n \<longrightarrow> (\<exists>m. findClusterMember (cs_Nodes st) (ordinal_name (tc_Name tc) i) = Some m \<and> nodeJoined (cn_State m)))"
proof -
  from assms(1) obtain up w0 where "run_state (adminCredentials r tc) w = (Inr up, w0)"
    and run: "run_state (case up of (u, p) \<Rightarrow> or_return (resolveClusterPods r tc n) (\<lambda>pods.
      case pods 0 of None \<Rightarrow> ok False
      | Some pod \<Rightarrow> if \<not> pi_ready pod then ok False else clustering_from r tc n u p pods pod)) w0 = (Inr True, w')"
    unfolding reconcileClustering_def or_return_Inr_iff by blast
  obtain u p where up: "up = (u, p)" by (cases up)
  from run [unfolded up]
  obtain pods w1 pod where
      pods: "run_state (resolveClusterPods r tc n) w0 = (Inr pods, w1)"
    and zero: "pods 0 = Some pod" "pi_ready pod"
    and "run_state (clustering_from r tc n u p pods pod) w1 = (Inr True, w')"
    by (auto simp: or_return_Inr_iff split: option.splits if_splits)
  then obtain primary ps w2 w3 w4 st where
      primary: "run_state (prepare_primary r tc u p pod) w1 = (Inr (Some (primary, ps)), w2)"
    and joins: "run_state (join_secondaries r tc u p ps (pi_ip pod) pods [1 .. n - 1] True) w3 = (Inr True, w4)"
    and state: "run_state (na_GetClusterState primary) w4 = (Inr st, w')" "converged (tc_Name tc) n st"
    by (auto simp: clustering_from_def or_return_Inr_iff run_try_iff simp del: run_state_bind
        split: option.split_asm if_split_asm)
  have "\<exists>pod. pods i = Some pod \<and> pi_ready pod" if "0 \<le> i" "i < n" for i
    using join_secondaries_all [OF joins] zero that by (cases "i = 0") auto
  moreover obtain w2' where
    "run_state (nodeClientFactory r (nodeEndpoint (tc_Name tc) primaryOrdinal (cr_OperatorNamespace r)) u p) w1 = (Inr primary, w2')"
    using prepare_primary_client [OF primary] by blast
  ultimately show ?thesis using pods state by (auto simp: converged_iff) metis
qed

text \<open>
  Secondaries wait for the Primary. While the Primary's state cannot be read the pass ends
  there, without an error; when its cluster is not initialised the Primary is initialised first,
  and a failure of that other than "already initialised" ends the pass with the error. In
  both cases nothing happens after the Primary's answer, so no Secondary was contacted.
\<close>

theorem secondaries_wait_for_primary:
  assumes "run_state (adminCredentials r tc) w = (Inr (u, p), w1)"
    and "run_state (resolveClusterPods r tc n) w1 = (Inr pods, w2)"
    and "pods 0 = Some pod" and "pi_ready pod"
    and "run_state (nodeClientFactory r (nodeEndpoint (tc_Name tc) primaryOrdinal (cr_OperatorNamespace r)) u p) w2 = (Inr primary, w3)"
    and "run_state (na_GetClusterState primary) w3 = (got, w4)"
  shows "(\<forall>e. got = Inl e \<longrightarrow> run_state (reconcileClustering r tc n) w = (Inr False, w4)) \<and>
    (\<forall>st e w5. got = Inr st \<and> \<not> cs_ClusterInitialized st \<and> \<not> errors_Is e ErrClusterAlreadyInitialized \<and>
       run_state (na_InitCluster primary \<lparr>ic_ClusterDomain = clusterDomainFor tc, ic_PrimaryNodeIPAddresses = [pi_ip pod]\<rparr>) w4 = (Inl e, w5)
       \<longrightarrow> run_state (reconcileClustering r tc n) w =
             (Inl (ErrorWrap (''initializing cluster on primary of '' @ tc_Name tc @ '': '') e []), w5))"
  using assms by (auto simp: reconcileClustering_def clustering_from_def prepare_primary_def ensure_initialized_def run_or_return run_wrap_error)

section \<open>Deletion\<close>

definition no_kube_write :: "event \<Rightarrow> bool" where
  "no_kube_write ev \<longleftrightarrow> is_http ev \<or> is_kube_read ev"

lemma emits_remove_secondaries: "emits is_http (remove_secondaries (loginNodeClient rt c) nodes)"
  by (induction nodes) (auto intro!: emits_bind emits_login)

lemma emits_teardown:
  fixes r :: "'s cluster_reconciler"
  assumes "production r"
  shows "emits no_kube_write (teardownClusterState r tc)"
proof -
  have http: "emits is_http m \<Longrightarrow> emits no_kube_write m" for m :: "('s world, 'b) state"
    by (auto elim!: emits_mono simp: no_kube_write_def)
  have creds: "emits no_kube_write (adminCredentials r tc)"
    by (rule emits_mono [OF emits_adminCredentials]) (simp add: no_kube_write_def)
  show ?thesis
    unfolding teardownClusterState_def
    by (intro emits_bind emits_case_sum emits_case_prod creds emits_with_node [OF assms] http [OF emits_remove_secondaries]
        http [OF login_state.guarded_emits] http [OF login_primary.guarded_emits] emits_if emits_return)
qed

lemma run_delete_pvcs:
  assumes "run_state (delete_pvcs kc ps) w = (Inr (), w')"
  shows "trace w' = trace w @ map (\<lambda>p. EvDelete (kc_kind kc) (kc_meta kc p)) ps"
  using assms
proof (induction ps arbitrary: w)
  case (Cons p ps)
  from Cons.prems obtain w1 where "run_state (delete_ignoring kc (''deleting PVC '' @ om_Name (pvc_meta p) @ '': '') p) w = (Inr (), w1)"
    and rest: "run_state (delete_pvcs kc ps) w1 = (Inr (), w')"
    by (auto simp: or_return_Inr_iff)
  then have "trace w1 = trace w @ [EvDelete (kc_kind kc) (kc_meta kc p)]"
    by (auto simp: delete_ignoring_def kdelete_def run_outside split: sum.splits if_splits)
  with Cons.IH [OF rest] show ?case by simp
qed simp

text \<open>The steps of a finalization that succeeds.\<close>

lemma finalizeCluster_steps:
  assumes "production r" and "finalizer_laws (cr_runtime r)" and "clusterFinalizer \<in> set (om_Finalizers (tc_meta tc))"
    and "run_state (finalizeCluster r tc) w = (Inr (), w')"
  shows "\<exists>es w1 w2 w3 fs. trace w1 = trace w @ es \<and> list_all no_kube_write es \<and>
    run_state (reconcileAdminSecretRetention r tc) w1 = (Inr (), w2) \<and>
    run_state (reconcilePVCRetention r tc) w2 = (Inr (), w3) \<and>
    clusterFinalizer \<notin> set fs \<and>
    trace w' = trace w3 @ [EvUpdate (kc_kind (cr_clusters r)) (kc_meta (cr_clusters r) (cluster_with_finalizers fs tc))]"
proof -
  define tear where "tear = (if tc_DeletionPolicy (tc_Spec tc) = DeletionPolicyOrphan then ret () else teardownClusterState r tc)"
  obtain w1 where w1: "run_state tear w = ((), w1)" by (cases "run_state tear w") auto
  have emits: "emits no_kube_write tear" unfolding tear_def using emits_teardown [OF assms(1)] by auto
  obtain es where es: "trace w1 = trace w @ es" "list_all no_kube_write es"
    using emits_D [OF emits w1] by blast
  have contains: "rt_ContainsFinalizer (cr_runtime r) (om_Finalizers (tc_meta tc)) clusterFinalizer"
    using assms(2,3) by (simp add: finalizer_laws_def)
  have gone: "clusterFinalizer \<notin> set (rt_RemoveFinalizer (cr_runtime r) (om_Finalizers (tc_meta tc)) clusterFinalizer)"
    using assms(2) by (simp add: finalizer_laws_def)
  let ?fs = "rt_RemoveFinalizer (cr_runtime r) (om_Finalizers (tc_meta tc)) clusterFinalizer"
  have "run_state (or_return (reconcileAdminSecretRetention r tc) (\<lambda>_. or_return (reconcilePVCRetention r tc) (\<lambda>_.
      ignore_result (kupdate (cr_clusters r) (cluster_with_finalizers ?fs tc))))) w1 = (Inr (), w')"
    using assms(4) contains w1 unfolding finalizeCluster_def tear_def [symmetric] by simp
  then obtain w2 w3 where
      "run_state (reconcileAdminSecretRetention r tc) w1 = (Inr (), w2)"
      "run_state (reconcilePVCRetention r tc) w2 = (Inr (), w3)"
      and "run_state (ignore_result (kupdate (cr_clusters r) (cluster_with_finalizers ?fs tc))) w3 = (Inr (), w')"
    by (auto simp: or_return_Inr_iff)
  moreover from this(3) have "trace w' =
      trace w3 @ [EvUpdate (kc_kind (cr_clusters r)) (kc_meta (cr_clusters r) (cluster_with_finalizers ?fs tc))]"
    by (auto simp: run_ignore_result run_kube)
  ultimately show ?thesis using es gone by blast
qed

text \<open>
  Under the retention policy Delete a finished finalization has deleted every data volume
  it found, and only then released the finalizer: the release is the last event, preceded by one
  deletion per listed PersistentVolumeClaim.
\<close>

theorem delete_policy_removes_volumes:
  assumes "production r" and "finalizer_laws (cr_runtime r)" and "clusterFinalizer \<in> set (om_Finalizers (tc_meta tc))"
    and "ss_RetentionPolicy (tc_Storage (tc_Spec tc)) = PVCRetentionPolicyDelete"
    and "run_state (finalizeCluster r tc) w = (Inr (), w')"
  shows "\<exists>es pvcs s s' fs.
    kc_List (cr_pvcs r) (cr_OperatorNamespace r) (instanceLabels (tc_Name tc)) s = (Inr pvcs, s') \<and>
    trace w' = trace w @ es @ [EvList (kc_kind (cr_pvcs r))] @
      map (\<lambda>p. EvDelete (kc_kind (cr_pvcs r)) (kc_meta (cr_pvcs r) p)) pvcs @
      [EvUpdate (kc_kind (cr_clusters r)) (kc_meta (cr_clusters r) (cluster_with_finalizers fs tc))] \<and>
    list_all no_kube_write es \<and> clusterFinalizer \<notin> set fs"
proof -
  obtain es w1 w2 w3 fs where steps: "trace w1 = trace w @ es" "list_all no_kube_write es"
      "run_state (reconcileAdminSecretRetention r tc) w1 = (Inr (), w2)"
      "run_state (reconcilePVCRetention r tc) w2 = (Inr (), w3)" "clusterFinalizer \<notin> set fs"
      "trace w' = trace w3 @ [EvUpdate (kc_kind (cr_clusters r)) (kc_meta (cr_clusters r) (cluster_with_finalizers fs tc))]"
    using finalizeCluster_steps [OF assms(1-3,5)] by blast
  have "w2 = w1" using steps(3) assms(4) by (simp add: reconcileAdminSecretRetention_def)
  moreover from steps(4) assms(4) obtain pvcs w4 where
      list: "run_state (klist (cr_pvcs r) (cr_OperatorNamespace r) (instanceLabels (tc_Name tc))) w2 = (Inr pvcs, w4)"
    and del: "run_state (delete_pvcs (cr_pvcs r) pvcs) w4 = (Inr (), w3)"
    by (auto simp: reconcilePVCRetention_def or_return_Inr_iff)
  moreover have "trace w4 = trace w2 @ [EvList (kc_kind (cr_pvcs r))]"
    using list by (auto simp: run_kube)
  moreover have "kc_List (cr_pvcs r) (cr_OperatorNamespace r) (instanceLabels (tc_Name tc)) (ext w2) = (Inr pvcs, ext w4)"
    using list by (auto simp: run_kube prod_eq_iff)
  ultimately show ?thesis
    using steps run_delete_pvcs [OF del] by (intro exI [of _ es] exI [of _ pvcs]) auto
qed

text \<open>
  (C27) Under the other retention policies a finished finalization deletes nothing from
  Kubernetes, and when the cluster's admin Secret is its own, it takes the cluster off the Secret's
  owners before it releases the finalizer, so that the credentials of the retained volumes are not
  collected with the cluster.
\<close>

theorem retain_policy_keeps_credentials:
  assumes "production r" and "finalizer_laws (cr_runtime r)" and "clusterFinalizer \<in> set (om_Finalizers (tc_meta tc))"
    and "ss_RetentionPolicy (tc_Storage (tc_Spec tc)) \<noteq> PVCRetentionPolicyDelete"
    and "tc_AdminSecretRef (tc_Spec tc) = None" and "kc_meta (cr_secrets r) = sec_meta"
    and "run_state (finalizeCluster r tc) w = (Inr (), w')"
  shows "\<exists>es got s s' fs.
    kc_Get (cr_secrets r) (ObjectKey (cr_OperatorNamespace r) (adminSecretName (tc_Name tc))) s = (got, s') \<and>
    trace w' = trace w @ es @
      [EvGet (kc_kind (cr_secrets r)) (ObjectKey (cr_OperatorNamespace r) (adminSecretName (tc_Name tc)))] @
      (case got of
         Inr sec \<Rightarrow> if \<exists>ref \<in> set (om_OwnerReferences (sec_meta sec)). or_UID ref = om_UID (tc_meta tc)
                    then [EvUpdate (kc_kind (cr_secrets r)) (sec_meta (without_owner (om_UID (tc_meta tc)) sec))] else []
       | Inl _ \<Rightarrow> []) @
      [EvUpdate (kc_kind (cr_clusters r)) (kc_meta (cr_clusters r) (cluster_with_finalizers fs tc))] \<and>
    list_all no_kube_write es \<and> (\<forall>e. got = Inl e \<longrightarrow> IsNotFound e) \<and> clusterFinalizer \<notin> set fs"
proof -
  let ?key = "ObjectKey (cr_OperatorNamespace r) (adminSecretName (tc_Name tc))"
  obtain es w1 w2 w3 fs where steps: "trace w1 = trace w @ es" "list_all no_kube_write es"
      "run_state (reconcileAdminSecretRetention r tc) w1 = (Inr (), w2)"
      "run_state (reconcilePVCRetention r tc) w2 = (Inr (), w3)" "clusterFinalizer \<notin> set fs"
      "trace w' = trace w3 @ [EvUpdate (kc_kind (cr_clusters r)) (kc_meta (cr_clusters r) (cluster_with_finalizers fs tc))]"
    using finalizeCluster_steps [OF assms(1-3,7)] by blast
  obtain got s' where got: "kc_Get (cr_secrets r) ?key (ext w1) = (got, s')" by fastforce
  have "w3 = w2" using steps(4) assms(4) by (simp add: reconcilePVCRetention_def)
  moreover have filter: "length (filter (\<lambda>ref. or_UID ref \<noteq> u) refs) = length refs \<longleftrightarrow> \<not> (\<exists>ref \<in> set refs. or_UID ref = u)" for u refs
    by (induction refs) (auto simp: le_imp_less_Suc less_not_refl3 [OF le_imp_less_Suc [OF length_filter_le]])
  have "trace w2 = trace w1 @ EvGet (kc_kind (cr_secrets r)) ?key #
      (case got of
         Inr sec \<Rightarrow> if \<exists>ref \<in> set (om_OwnerReferences (sec_meta sec)). or_UID ref = om_UID (tc_meta tc)
                    then [EvUpdate (kc_kind (cr_secrets r)) (sec_meta (without_owner (om_UID (tc_meta tc)) sec))] else []
       | Inl _ \<Rightarrow> []) \<and> (\<forall>e. got = Inl e \<longrightarrow> IsNotFound e)"
    using steps(3) assms(4-6) got
    by (auto simp: reconcileAdminSecretRetention_def Let_def run_kube absent_ok_def without_owner_def filter
        split: sum.split_asm if_split_asm sum.splits)
  ultimately show ?thesis
    using steps got by (intro exI [of _ es] exI [of _ got]) auto
qed

section \<open>Witnesses\<close>

definition ready_pod :: "string \<Rightarrow> pod" where
  "ready_pod name = \<lparr>pod_meta = new_meta name ''ops'', pod_IP = ''10.0.0.2'',
     pod_Conditions = [\<lparr>pc_Type = ''Ready'', pc_Status = ConditionTrue, pc_LastTransitionTime = None\<rparr>]\<rparr>"

definition two_pods :: "('s, pod) kclient" where
  "two_pods = (plain_kclient ''Pod'' pod_meta no_object)\<lparr>kc_List := (\<lambda>_ _ s. (Inr [ready_pod ''dns-0'', ready_pod ''dns-1''], s))\<rparr>"

definition clustered_reconciler :: "unit cluster_reconciler" where
  "clustered_reconciler = answering_reconciler\<lparr>cr_pods := two_pods\<rparr>"

definition silent_reconciler :: "unit cluster_reconciler" where
  "silent_reconciler = clustered_reconciler\<lparr>cr_NewNodeClient :=
     Some (\<lambda>_ _ _. ok ((answering_node joined_state)\<lparr>na_GetClusterState := fail (ErrorText ''down'')\<rparr>))\<rparr>"

lemma reconciler_pods [simp]:
  "cr_pods clustered_reconciler = two_pods" "cr_pods silent_reconciler = two_pods"
  "cr_OperatorNamespace clustered_reconciler = ''ops''" "cr_OperatorNamespace silent_reconciler = ''ops''"
  "cr_secrets clustered_reconciler = sample_secrets" "cr_secrets silent_reconciler = sample_secrets"
  by (simp_all add: clustered_reconciler_def silent_reconciler_def answering_reconciler_def)

lemma ordinal_names: "ordinal_name ''dns'' 0 = ''dns-0''" "ordinal_name ''dns'' 1 = ''dns-1''"
  by code_simp+

definition two_pod_infos :: "int \<Rightarrow> cluster_pod_info option" where
  "two_pod_infos i = (if i = 0 then Some (pod_info (ready_pod ''dns-0'')) else if i = 1 then Some (pod_info (ready_pod ''dns-1'')) else None)"

lemma two_pods_by_ordinal: "pods_by_ordinal ''dns'' 2 [ready_pod ''dns-0'', ready_pod ''dns-1''] = two_pod_infos"
proof
  fix i :: int
  consider "i = 0" | "i = 1" | "i < 0 \<or> 2 \<le> i" by linarith
  then show "pods_by_ordinal ''dns'' 2 [ready_pod ''dns-0'', ready_pod ''dns-1''] i = two_pod_infos i"
    by cases (auto simp: pods_by_ordinal_def two_pod_infos_def ordinal_names ready_pod_def new_meta_def)
qed

lemma resolve_two_pods:
  "cr_pods r = two_pods \<Longrightarrow> run_state (resolveClusterPods r sample_cluster 2) w =
     (Inr two_pod_infos, w\<lparr>trace := trace w @ [EvList ''Pod'']\<rparr>)"
  by (simp add: resolveClusterPods_def run_or_return run_wrap_error run_kube two_pods_def sample_cluster_sel two_pods_by_ordinal)

lemma clustered_credentials:
  "cr_secrets r = sample_secrets \<Longrightarrow> cr_OperatorNamespace r = ''ops'' \<Longrightarrow>
     run_state (adminCredentials r sample_cluster) w = (Inr (''admin'', ''pw''),
       w\<lparr>trace := trace w @ [EvGet ''Secret'' (ObjectKey ''ops'' ''dns-admin'')]\<rparr>)"
  by (simp add: adminCredentials_def resolveAdminSecret_def adminSecretKeyFor_def sample_cluster_def zero_meta_def
      adminSecretName_def run_or_return run_wrap_error run_kube sample_secrets_def sample_secret_def
      map_get_def adminSecretUsernameKey_def adminSecretPasswordKey_def)

lemma two_pod_infos_sel [simp]:
  "two_pod_infos 0 = Some (pod_info (ready_pod ''dns-0''))" "two_pod_infos 1 = Some (pod_info (ready_pod ''dns-1''))"
  "pi_ready (pod_info (ready_pod name))"
  by (simp_all add: two_pod_infos_def pod_info_def ready_pod_def)

lemma run_clustered:
  "run_state (reconcileClustering clustered_reconciler sample_cluster 2) (empty_world ()) =
     (Inr True, (empty_world ())\<lparr>trace := [EvGet ''Secret'' (ObjectKey ''ops'' ''dns-admin''), EvList ''Pod'']\<rparr>)"
proof -
  have node: "nodeClientFactory clustered_reconciler e u p = ok (answering_node joined_state)" for e u p
    by (simp add: nodeClientFactory_def clustered_reconciler_def answering_reconciler_def)
  have one: "[1 .. 2 - 1] = [1 :: int]" by (simp add: upto.simps)
  have "converged ''dns'' 2 joined_state" by code_simp
  moreover have "find (\<lambda>n. cn_State n = nodeSelfState) (cs_Nodes joined_state) = None" by code_simp
  moreover have "cs_ClusterInitialized joined_state" by (simp add: joined_state_def)
  ultimately show ?thesis
    by (simp add: reconcileClustering_def clustering_from_def run_or_return clustered_credentials resolve_two_pods
        prepare_primary_def run_wrap_error node ensure_initialized_def answering_node_def refreshNodeIP_def one join_secondary_def
        sample_cluster_sel empty_world_def)
qed

theorem clustered_means_converged_witness:
  "\<exists>primary :: unit node_api. \<exists>st w3 w' m. run_state (reconcileClustering clustered_reconciler sample_cluster 2) (empty_world ()) = (Inr True, w') \<and>
     run_state (na_GetClusterState primary) w3 = (Inr st, w') \<and>
     findClusterMember (cs_Nodes st) ''dns-1'' = Some m \<and> nodeJoined (cn_State m)"
  using clustered_means_converged [OF run_clustered] run_clustered
  by (auto simp: sample_cluster_sel dest!: spec [of _ "1 :: int"] simp flip: ordinal_names)

theorem secondaries_wait_for_primary_witness:
  "\<exists>w'. run_state (reconcileClustering silent_reconciler sample_cluster 2) (empty_world ()) = (Inr False, w') \<and>
     trace w' = [EvGet ''Secret'' (ObjectKey ''ops'' ''dns-admin''), EvList ''Pod'']"
proof -
  have node: "nodeClientFactory silent_reconciler e u p =
      ok ((answering_node joined_state)\<lparr>na_GetClusterState := fail (ErrorText ''down'')\<rparr>)" for e u p
    by (simp add: nodeClientFactory_def silent_reconciler_def)
  have run: "run_state (nodeClientFactory silent_reconciler e u p) w =
      (Inr ((answering_node joined_state)\<lparr>na_GetClusterState := fail (ErrorText ''down'')\<rparr>), w)" for e u p w
    by (simp add: node)
  from secondaries_wait_for_primary [OF clustered_credentials resolve_two_pods two_pod_infos_sel(1,3) run, of "empty_world ()"]
  show ?thesis by (simp add: empty_world_def)
qed

definition dying_cluster :: "string \<Rightarrow> technitium_cluster" where
  "dying_cluster policy = sample_cluster\<lparr>tc_meta := (tc_meta sample_cluster)\<lparr>om_Finalizers := [clusterFinalizer]\<rparr>,
     tc_Spec := (tc_Spec sample_cluster)\<lparr>tc_DeletionPolicy := DeletionPolicyOrphan,
       tc_Storage := \<lparr>ss_Size = ''1Gi'', ss_StorageClassName = None, ss_RetentionPolicy = policy\<rparr>\<rparr>\<rparr>"

lemma dying_cluster_sel [simp]:
  "om_Finalizers (tc_meta (dying_cluster policy)) = [clusterFinalizer]"
  "tc_Name (dying_cluster policy) = ''dns''" "om_UID (tc_meta (dying_cluster policy)) = []"
  "ss_RetentionPolicy (tc_Storage (tc_Spec (dying_cluster policy))) = policy"
  "tc_AdminSecretRef (tc_Spec (dying_cluster policy)) = None"
  "tc_DeletionPolicy (tc_Spec (dying_cluster policy)) = DeletionPolicyOrphan"
  by (simp_all add: dying_cluster_def sample_cluster_def zero_meta_def)

definition volume_reconciler :: "unit cluster_reconciler" where
  "volume_reconciler = (sample_cluster_reconciler no_reply)\<lparr>
     cr_pvcs := (plain_kclient ''PersistentVolumeClaim'' pvc_meta no_object)\<lparr>
       kc_List := (\<lambda>_ _ s. (Inr [volumeClaimTemplateFor sample_cluster], s))\<rparr>,
     cr_secrets := plain_kclient ''Secret'' sec_meta
       (\<lambda>_. Inr \<lparr>sec_meta = owned_meta ''dns-admin'', sec_Type = ''Opaque'', sec_Data = []\<rparr>)\<rparr>"

lemma volume_reconciler_ok:
  "production volume_reconciler" "finalizer_laws (cr_runtime volume_reconciler)"
  "kc_meta (cr_secrets volume_reconciler) = sec_meta"
  by (simp_all add: volume_reconciler_def production_def finalizer_laws_plain)

lemma volume_reconciler_sel:
  "kc_kind (cr_pvcs volume_reconciler) = ''PersistentVolumeClaim''" "kc_meta (cr_pvcs volume_reconciler) = pvc_meta"
  "kc_kind (cr_clusters volume_reconciler) = ''TechnitiumCluster''" "kc_meta (cr_clusters volume_reconciler) = tc_meta"
  "kc_kind (cr_secrets volume_reconciler) = ''Secret''" "cr_OperatorNamespace volume_reconciler = ''ops''"
  "kc_Get (cr_secrets volume_reconciler) key s = (Inr \<lparr>sec_meta = owned_meta ''dns-admin'', sec_Type = ''Opaque'', sec_Data = []\<rparr>, s)"
  by (simp_all add: volume_reconciler_def sample_clusters_def)

lemma finalize_volumes:
  "fst (run_state (finalizeCluster volume_reconciler (dying_cluster policy)) (empty_world ())) = Inr ()"
  by (simp add: finalizeCluster_def volume_reconciler_def reconcileAdminSecretRetention_def reconcilePVCRetention_def Let_def
      run_or_return run_wrap_error run_kube run_ignore_result delete_ignoring_def kdelete_def run_outside sample_clusters_def)

theorem delete_policy_removes_volumes_witness:
  "\<exists>es m. \<exists>pvcs :: pvc list. trace (snd (run_state (finalizeCluster volume_reconciler (dying_cluster PVCRetentionPolicyDelete)) (empty_world ()))) =
     es @ EvList ''PersistentVolumeClaim'' # map (\<lambda>p. EvDelete ''PersistentVolumeClaim'' (pvc_meta p)) pvcs @ [EvUpdate ''TechnitiumCluster'' m] \<and>
     clusterFinalizer \<notin> set (om_Finalizers m)"
proof -
  let ?run = "run_state (finalizeCluster volume_reconciler (dying_cluster PVCRetentionPolicyDelete)) (empty_world ())"
  have run: "?run = (Inr (), snd ?run)" using finalize_volumes by (metis prod.collapse)
  have hyps: "clusterFinalizer \<in> set (om_Finalizers (tc_meta (dying_cluster PVCRetentionPolicyDelete)))"
    "ss_RetentionPolicy (tc_Storage (tc_Spec (dying_cluster PVCRetentionPolicyDelete))) = PVCRetentionPolicyDelete"
    by simp_all
  obtain es fs and pvcs :: "pvc list" where "trace (snd ?run) = [] @ es @ [EvList ''PersistentVolumeClaim''] @
      map (\<lambda>p. EvDelete ''PersistentVolumeClaim'' (pvc_meta p)) pvcs @
      [EvUpdate ''TechnitiumCluster'' (tc_meta (cluster_with_finalizers fs (dying_cluster PVCRetentionPolicyDelete)))]"
    "clusterFinalizer \<notin> set fs"
    using delete_policy_removes_volumes [OF volume_reconciler_ok(1,2) hyps run]
    unfolding volume_reconciler_sel empty_world_def world.simps
    by blast
  then show ?thesis
    by (intro exI [of _ es] exI [of _ "tc_meta (cluster_with_finalizers fs (dying_cluster PVCRetentionPolicyDelete))"] exI [of _ pvcs])
      (auto simp: cluster_with_finalizers_def)
qed

theorem retain_policy_keeps_credentials_witness:
  "\<exists>es m m'. trace (snd (run_state (finalizeCluster volume_reconciler (dying_cluster ''Retain'')) (empty_world ()))) =
     es @ [EvGet ''Secret'' (ObjectKey ''ops'' ''dns-admin''), EvUpdate ''Secret'' m, EvUpdate ''TechnitiumCluster'' m'] \<and>
     om_OwnerReferences m = []"
proof -
  let ?run = "run_state (finalizeCluster volume_reconciler (dying_cluster ''Retain'')) (empty_world ())"
  let ?sec = "\<lparr>sec_meta = owned_meta ''dns-admin'', sec_Type = ''Opaque'', sec_Data = []\<rparr>"
  have run: "?run = (Inr (), snd ?run)" using finalize_volumes by (metis prod.collapse)
  have hyps: "clusterFinalizer \<in> set (om_Finalizers (tc_meta (dying_cluster ''Retain'')))"
    "ss_RetentionPolicy (tc_Storage (tc_Spec (dying_cluster ''Retain''))) \<noteq> PVCRetentionPolicyDelete"
    "tc_AdminSecretRef (tc_Spec (dying_cluster ''Retain'')) = None"
    by (simp_all add: PVCRetentionPolicyDelete_def)
  have owned: "\<exists>ref \<in> set (om_OwnerReferences (sec_meta ?sec)). or_UID ref = om_UID (tc_meta (dying_cluster ''Retain''))"
    by (simp add: owned_meta_def)
  obtain es fs where "trace (snd ?run) = [] @ es @ [EvGet ''Secret'' (ObjectKey ''ops'' ''dns-admin'')] @
      [EvUpdate ''Secret'' (sec_meta (without_owner [] ?sec))] @
      [EvUpdate ''TechnitiumCluster'' (tc_meta (cluster_with_finalizers fs (dying_cluster ''Retain'')))]"
    using retain_policy_keeps_credentials [OF volume_reconciler_ok(1,2) hyps volume_reconciler_ok(3) run] owned
    by (auto simp: volume_reconciler_sel empty_world_def adminSecretName_def)
  then show ?thesis
    by (intro exI [of _ es]) (simp add: without_owner_def owned_meta_def)
qed

end
