(* ===== verification/Cluster_Status.thy ===== *)
theory Cluster_Status
  imports Clustering
begin

text \<open>
  The status of a TechnitiumCluster and the reconciler's entry point
  (\<^verbatim>\<open>technitiumcluster_controller.go\<close>): the per-node report, the phase, the conditions, and
  \<open>ClusterReconciler_Reconcile\<close>, which puts workload, bootstrap, clustering, rollout and status
  together. Times are integers, so that a node report equals another when all its values do.
\<close>

section \<open>Node reports\<close>

definition clusterPollInterval :: int where
  "clusterPollInterval = 15 * 1000000000"

definition clusterDriftInterval :: int where
  "clusterDriftInterval = 5 * 60 * 1000000000"

definition mixedVersion :: string where
  "mixedVersion = ''mixed''"

text \<open>The loop of \<^verbatim>\<open>summarizeVersions\<close>, with the summary so far.\<close>

fun summarize_from :: "string \<Rightarrow> node_status list \<Rightarrow> string" where
  "summarize_from summary [] = summary"
| "summarize_from summary (n # rest) =
     (if ns_Version n = [] then summarize_from summary rest
      else if summary = [] then summarize_from (ns_Version n) rest
      else if summary \<noteq> ns_Version n then mixedVersion
      else summarize_from summary rest)"

definition summarizeVersions :: "node_status list \<Rightarrow> string" where
  "summarizeVersions nodes = summarize_from [] nodes"

text \<open>\<^verbatim>\<open>fmt.Sprintf("%d/%d", joined, desiredReplicas)\<close>, where \<^verbatim>\<open>joined\<close> counts the nodes in a joined state.\<close>

definition members_string :: "node_status list \<Rightarrow> int \<Rightarrow> string" where
  "members_string nodes desiredReplicas =
     Itoa (int (length (filter (\<lambda>n. nodeJoined (ns_State n)) nodes))) @ ''/'' @ Itoa desiredReplicas"

definition blank_status :: "string \<Rightarrow> int \<Rightarrow> string \<Rightarrow> string \<Rightarrow> node_status" where
  "blank_status clusterName i state message = \<lparr>ns_Name = ordinal_name clusterName i, ns_Role = roleForOrdinal i,
     ns_State = state, ns_Version = [], ns_LastSynced = None, ns_Message = message\<rparr>"

definition status_from_primary :: "string \<Rightarrow> cluster_state \<Rightarrow> int \<Rightarrow> node_status" where
  "status_from_primary clusterName primaryState i =
     (let status = blank_status clusterName i nodeNotReadyState ''not yet joined the cluster'' in
      case findClusterMember (cs_Nodes primaryState) (ordinal_name clusterName i) of
        None \<Rightarrow> status
      | Some member \<Rightarrow>
          status\<lparr>ns_Role := cn_Type member, ns_State := cn_State member, ns_Message := [],
            ns_Version := (if cn_Version member = [] \<and> cn_State member = nodeSelfState then cs_Version primaryState
                           else cn_Version member),
            ns_LastSynced := cn_ConfigLastSynced member\<rparr>)"

text \<open>\<open>None\<close> is the result \<^verbatim>\<open>ok=false\<close>.\<close>

definition buildNodeStatusesFromPrimary ::
  "'s cluster_reconciler \<Rightarrow> technitium_cluster \<Rightarrow> string \<Rightarrow> string \<Rightarrow> int
    \<Rightarrow> ('s world, (node_status list \<times> string) option) state" where
  "buildNodeStatusesFromPrimary r tc username password desiredReplicas = do {
     built \<leftarrow> nodeClientFactory r (nodeEndpoint (tc_Name tc) primaryOrdinal (cr_OperatorNamespace r)) username password;
     case built of
       Inl _ \<Rightarrow> ret None
     | Inr primaryClient \<Rightarrow> do {
         got \<leftarrow> na_GetClusterState primaryClient;
         case got of
           Inl _ \<Rightarrow> ret None
         | Inr primaryState \<Rightarrow>
             if \<not> cs_ClusterInitialized primaryState then ret None
             else
               let nodes = map (status_from_primary (tc_Name tc) primaryState) [0 .. desiredReplicas - 1]
               in ret (Some (nodes, members_string nodes desiredReplicas))
       }
   }"

text \<open>One ordinal's own report; a node that cannot be read is \<open>NotReady\<close>, which is not a joined state.\<close>

definition own_status ::
  "'s cluster_reconciler \<Rightarrow> technitium_cluster \<Rightarrow> string \<Rightarrow> string \<Rightarrow> int \<Rightarrow> ('s world, node_status) state" where
  "own_status r tc username password i =
     (let status = blank_status (tc_Name tc) i nodeReadyState [] in do {
        built \<leftarrow> nodeClientFactory r (nodeEndpoint (tc_Name tc) i (cr_OperatorNamespace r)) username password;
        case built of
          Inl err \<Rightarrow> ret (status\<lparr>ns_State := nodeNotReadyState, ns_Message := Error err\<rparr>)
        | Inr nodeClient \<Rightarrow> do {
            got \<leftarrow> na_GetClusterState nodeClient;
            case got of
              Inl _ \<Rightarrow> ret (status\<lparr>ns_State := nodeNotReadyState, ns_Message := ''cluster state not yet reachable''\<rparr>)
            | Inr state \<Rightarrow>
                (let status = status\<lparr>ns_Version := cs_Version state\<rparr> in
                 ret (if \<not> cs_ClusterInitialized state then status
                      else case findClusterMember (cs_Nodes state) (ordinal_name (tc_Name tc) i) of
                        None \<Rightarrow> status
                      | Some member \<Rightarrow> status\<lparr>ns_Role := cn_Type member, ns_State := cn_State member,
                          ns_LastSynced := cn_ConfigLastSynced member\<rparr>))
          }
      })"

fun own_statuses ::
  "'s cluster_reconciler \<Rightarrow> technitium_cluster \<Rightarrow> string \<Rightarrow> string \<Rightarrow> int list \<Rightarrow> ('s world, node_status list) state" where
  "own_statuses r tc username password [] = ret []"
| "own_statuses r tc username password (i # rest) = do {
     status \<leftarrow> own_status r tc username password i;
     statuses \<leftarrow> own_statuses r tc username password rest;
     ret (status # statuses)
   }"

definition buildNodeStatuses ::
  "'s cluster_reconciler \<Rightarrow> technitium_cluster \<Rightarrow> int \<Rightarrow> ('s world, node_status list \<times> string) state" where
  "buildNodeStatuses r tc desiredReplicas = do {
     creds \<leftarrow> adminCredentials r tc;
     case creds of
       Inl _ \<Rightarrow>
         ret (map (\<lambda>i. blank_status (tc_Name tc) i ''Unknown'' ''admin credentials unavailable'') [0 .. desiredReplicas - 1],
              ''0/'' @ Itoa desiredReplicas)
     | Inr (username, password) \<Rightarrow> do {
         primary \<leftarrow> (if desiredReplicas > 1 then buildNodeStatusesFromPrimary r tc username password desiredReplicas else ret None);
         case primary of
           Some res \<Rightarrow> ret res
         | None \<Rightarrow> do {
             nodes \<leftarrow> own_statuses r tc username password [0 .. desiredReplicas - 1];
             ret (nodes, members_string nodes desiredReplicas)
           }
       }
   }"

section \<open>Conditions and phase\<close>

definition setClusterCondition ::
  "'s runtime \<Rightarrow> string \<Rightarrow> condition_status \<Rightarrow> string \<Rightarrow> string \<Rightarrow> technitium_cluster \<Rightarrow> technitium_cluster \<times> bool" where
  "setClusterCondition rt condType status reason message tc =
     (let (conds, changed) = rt_SetStatusCondition rt (ts_Conditions (tc_Status tc))
            (mk_condition condType status reason message (om_Generation (tc_meta tc)))
      in (tc\<lparr>tc_Status := (tc_Status tc)\<lparr>ts_Conditions := conds\<rparr>\<rparr>, changed))"

definition reasonAdminCredentialsRejected :: string where
  "reasonAdminCredentialsRejected = ''AdminCredentialsRejected''"

definition reasonInvalidAdminSecretRef :: string where
  "reasonInvalidAdminSecretRef = ''InvalidAdminSecretRef''"

definition reasonPDBConflict :: string where
  "reasonPDBConflict = ''PodDisruptionBudgetConflict''"

text \<open>The three conditions a failure sets.\<close>

definition set_failed :: "'s runtime \<Rightarrow> string \<Rightarrow> string \<Rightarrow> technitium_cluster \<Rightarrow> technitium_cluster" where
  "set_failed rt reason message tc =
     (let tc = fst (setClusterCondition rt ConditionDegraded ConditionTrue reason message tc);
          tc = fst (setClusterCondition rt ConditionProgressing ConditionFalse reason message tc)
      in fst (setClusterCondition rt ConditionAvailable ConditionFalse reason message tc))"

definition degraded_reason :: "go_error \<Rightarrow> string" where
  "degraded_reason cause =
     (if errors_Is cause errPDBNotOwned then reasonPDBConflict
      else if errors_Is cause errAdminCredentialsRejected then reasonAdminCredentialsRejected
      else ''ReconcileFailed'')"

definition markDegraded :: "'s cluster_reconciler \<Rightarrow> object_key \<Rightarrow> go_error \<Rightarrow> ('s world, go_error + unit) state" where
  "markDegraded r key cause = do {
     got \<leftarrow> kget (cr_clusters r) key;
     case got of
       Inl err \<Rightarrow> ignore_not_found err ()
     | Inr tc \<Rightarrow> ignore_result (kstatus_update (cr_clusters r) (set_failed (cr_runtime r) (degraded_reason cause) (Error cause) tc))
   }"

definition markInvalidAdminSecretRef :: "'s cluster_reconciler \<Rightarrow> object_key \<Rightarrow> go_error \<Rightarrow> ('s world, go_error + unit) state" where
  "markInvalidAdminSecretRef r key cause = do {
     got \<leftarrow> kget (cr_clusters r) key;
     case got of
       Inl err \<Rightarrow> ignore_not_found err ()
     | Inr tc \<Rightarrow>
         (let tc = tc\<lparr>tc_Status := (tc_Status tc)\<lparr>ts_ObservedGeneration := om_Generation (tc_meta tc)\<rparr>\<rparr>
          in ignore_result (kstatus_update (cr_clusters r) (set_failed (cr_runtime r) reasonInvalidAdminSecretRef (Error cause) tc)))
   }"

record phase_report =
  ph_phase :: cluster_phase
  ph_reason :: string
  ph_message :: string
  ph_available :: condition_status
  ph_progressing :: condition_status
  ph_requeueAfter :: int

definition phase_report_for :: "int \<Rightarrow> int \<Rightarrow> bool \<Rightarrow> bool \<Rightarrow> phase_report" where
  "phase_report_for readyReplicas desiredReplicas bootstrapped clustered =
     (if readyReplicas < desiredReplicas then
        \<lparr>ph_phase = Provisioning, ph_reason = ''WorkloadProvisioning'',
         ph_message = ''Waiting for the StatefulSet to report ready replicas'',
         ph_available = ConditionFalse, ph_progressing = ConditionTrue, ph_requeueAfter = clusterPollInterval\<rparr>
      else if \<not> bootstrapped then
        \<lparr>ph_phase = Bootstrapping, ph_reason = ''AwaitingBootstrap'',
         ph_message = ''Workload is ready; minting the admin API token'',
         ph_available = ConditionFalse, ph_progressing = ConditionTrue, ph_requeueAfter = clusterPollInterval\<rparr>
      else if desiredReplicas > 1 \<and> \<not> clustered then
        \<lparr>ph_phase = Clustering, ph_reason = ''AwaitingClusterJoin'',
         ph_message = ''Admin API token is bootstrapped; waiting for cluster init/join to converge across nodes'',
         ph_available = ConditionFalse, ph_progressing = ConditionTrue, ph_requeueAfter = clusterPollInterval\<rparr>
      else
        \<lparr>ph_phase = Ready, ph_reason = ''InstanceReady'',
         ph_message = ''Workload is ready and the admin API token is bootstrapped'',
         ph_available = ConditionTrue, ph_progressing = ConditionFalse, ph_requeueAfter = clusterDriftInterval\<rparr>)"

definition primary_service_of :: "technitium_cluster \<Rightarrow> string" where
  "primary_service_of tc =
     (case sv_Primary (tc_Service (tc_Spec tc)) of
        Some p \<Rightarrow> if ps_Enabled p then primaryServiceName (tc_Name tc) else []
      | None \<Rightarrow> [])"

text \<open>
  The status fields other than the conditions as a pass leaves them; \<open>reports\<close> is the node report,
  which is read only when the workload is up. Go sets \<^verbatim>\<open>changed\<close> for every field that differs.
\<close>

definition observed_fields ::
  "'s cluster_reconciler \<Rightarrow> technitium_cluster \<Rightarrow> int \<Rightarrow> string \<Rightarrow> (node_status list \<times> string) option \<Rightarrow> cluster_phase
    \<Rightarrow> rollout_bookmark option \<Rightarrow> cluster_status" where
  "observed_fields r tc readyReplicas endpoint reports phase bookmark =
     (let st = (tc_Status tc)\<lparr>ts_Endpoint := endpoint,
            ts_PrimaryEndpoint := nodeEndpoint (tc_Name tc) primaryOrdinal (cr_OperatorNamespace r),
            ts_PrimaryService := primary_service_of tc, ts_ReadyReplicas := readyReplicas,
            ts_ObservedGeneration := om_Generation (tc_meta tc), ts_Phase := phase, ts_Rollout := bookmark\<rparr>
      in case reports of
           None \<Rightarrow> st
         | Some (nodes, members) \<Rightarrow> st\<lparr>ts_Nodes := nodes, ts_Version := summarizeVersions nodes, ts_Members := members\<rparr>)"

definition status_conditions :: "phase_report \<Rightarrow> rollout_state \<Rightarrow> int \<Rightarrow> condition list" where
  "status_conditions ph rollout generation =
     [mk_condition ConditionProgressing (ph_progressing ph) (ph_reason ph) (ph_message ph) generation,
      mk_condition ConditionAvailable (ph_available ph) (ph_reason ph) (ph_message ph) generation,
      (if rs_degradedReason rollout \<noteq> []
       then mk_condition ConditionDegraded ConditionTrue (rs_degradedReason rollout) (rs_degradedMessage rollout) generation
       else mk_condition ConditionDegraded ConditionFalse (ph_reason ph) (ph_message ph) generation),
      mk_condition ConditionUpgrading (rs_status rollout) (rs_reason rollout) (rs_message rollout) generation]"

definition next_status ::
  "'s cluster_reconciler \<Rightarrow> technitium_cluster \<Rightarrow> int \<Rightarrow> string \<Rightarrow> (node_status list \<times> string) option \<Rightarrow> phase_report
    \<Rightarrow> rollout_state \<Rightarrow> technitium_cluster \<times> bool" where
  "next_status r tc readyReplicas endpoint reports ph rollout =
     (let st = observed_fields r tc readyReplicas endpoint reports (ph_phase ph) (rs_bookmark rollout);
          (conds, changed) = set_conditions (cr_runtime r) (status_conditions ph rollout (om_Generation (tc_meta tc)))
            (ts_Conditions (tc_Status tc))
      in (tc\<lparr>tc_Status := st\<lparr>ts_Conditions := conds\<rparr>\<rparr>, st \<noteq> tc_Status tc \<or> changed))"

definition updateStatus ::
  "'s cluster_reconciler \<Rightarrow> object_key \<Rightarrow> stateful_set \<Rightarrow> string \<Rightarrow> bool \<Rightarrow> bool \<Rightarrow> rollout_state \<Rightarrow> ('s world, go_error + int) state" where
  "updateStatus r key sts endpoint bootstrapped clustered rollout = do {
     got \<leftarrow> kget (cr_clusters r) key;
     case got of
       Inl err \<Rightarrow> ignore_not_found err 0
     | Inr tc \<Rightarrow> do {
         let desiredReplicas = desiredReplicaCount tc;
         let readyReplicas = sts_ReadyReplicas sts;
         reports \<leftarrow> (if readyReplicas \<ge> desiredReplicas
                    then do { res \<leftarrow> buildNodeStatuses r tc desiredReplicas; ret (Some res) } else ret None);
         let ph = phase_report_for readyReplicas desiredReplicas bootstrapped clustered;
         let (tc', changed) = next_status r tc readyReplicas endpoint reports ph rollout;
         let requeueAfter = (if rs_status rollout = ConditionTrue then min (ph_requeueAfter ph) clusterPollInterval else ph_requeueAfter ph);
         if \<not> changed then ok requeueAfter
         else or_return (kstatus_update (cr_clusters r) tc') (\<lambda>_. ok requeueAfter)
       }
   }"

section \<open>The reconciler\<close>

text \<open>A failure is recorded on the resource, and returned whether or not that worked.\<close>

definition degraded :: "'s cluster_reconciler \<Rightarrow> object_key \<Rightarrow> ('s world, go_error + 'a) state \<Rightarrow> ('s world, go_error + 'a) state" where
  "degraded r key m = do {
     res \<leftarrow> m;
     case res of
       Inr a \<Rightarrow> ok a
     | Inl err \<Rightarrow> do { _ \<leftarrow> markDegraded r key err; fail err }
   }"

text \<open>Bootstrap and clustering: whether the token exists, and whether the nodes are clustered.\<close>

definition bootstrap_and_cluster ::
  "'s cluster_reconciler \<Rightarrow> object_key \<Rightarrow> technitium_cluster \<Rightarrow> int \<Rightarrow> int \<Rightarrow> ('s world, go_error + bool \<times> bool) state" where
  "bootstrap_and_cluster r key tc readyReplicas desiredReplicas =
     (if readyReplicas < desiredReplicas then ok (False, desiredReplicas \<le> 1)
      else or_return (degraded r key (ensureToken r tc (nodeEndpoint (tc_Name tc) primaryOrdinal (cr_OperatorNamespace r)))) (\<lambda>bootstrapped.
        if bootstrapped \<and> desiredReplicas > 1 then
          or_return (degraded r key (reconcileClustering r tc desiredReplicas)) (\<lambda>clustered. ok (bootstrapped, clustered))
        else ok (bootstrapped, desiredReplicas \<le> 1)))"

definition cluster_live ::
  "'s cluster_reconciler \<Rightarrow> object_key \<Rightarrow> technitium_cluster \<Rightarrow> ('s world, go_error + int) state" where
  "cluster_live r key tc =
     or_return (degraded r key (reconcileWorkload r tc)) (\<lambda>workload.
       let desiredReplicas = desiredReplicaCount tc;
           readyReplicas = sts_ReadyReplicas (ou_sts workload);
           endpoint = clientServiceEndpoint tc (cr_OperatorNamespace r)
       in or_return (bootstrap_and_cluster r key tc readyReplicas desiredReplicas) (\<lambda>(bootstrapped, clustered).
          or_return (degraded r key (reconcileRollout r tc workload)) (\<lambda>(rollout, sts).
            updateStatus r key sts endpoint bootstrapped clustered rollout)))"

definition ClusterReconciler_Reconcile :: "'s cluster_reconciler \<Rightarrow> object_key \<Rightarrow> ('s world, go_error + int) state" where
  "ClusterReconciler_Reconcile r key = do {
     got \<leftarrow> kget (cr_clusters r) key;
     case got of
       Inl err \<Rightarrow> ignore_not_found err 0
     | Inr tc \<Rightarrow>
         if om_DeletionTimestamp (tc_meta tc) \<noteq> None then or_return (finalizeCluster r tc) (\<lambda>_. ok 0)
         else case snd (adminSecretKeyFor tc (cr_OperatorNamespace r)) of
           Some err \<Rightarrow> or_return (markInvalidAdminSecretRef r key err) (\<lambda>_. ok 0)
         | None \<Rightarrow>
             (let (fs, added) = rt_AddFinalizer (cr_runtime r) (om_Finalizers (tc_meta tc)) clusterFinalizer;
                  tc' = cluster_with_finalizers fs tc
              in or_return (if added then kupdate (cr_clusters r) tc' else ok tc') (cluster_live r key))
   }"

section \<open>The version column\<close>

lemma summarize_from_eq:
  "v \<noteq> [] \<Longrightarrow> summarize_from v nodes =
     (if \<forall>n \<in> set nodes. ns_Version n = [] \<or> ns_Version n = v then v else mixedVersion)"
  by (induction nodes) auto

text \<open>
  The version shown for a cluster is that of the nodes that report one, when they all report
  the same, \<^verbatim>\<open>mixed\<close> when two of them differ, and empty when none reports one; an unreadable
  node, which reports none, never turns it into \<^verbatim>\<open>mixed\<close>.
\<close>

theorem summarizeVersions_eq:
  "summarizeVersions nodes =
     (case remdups (filter (\<lambda>v. v \<noteq> []) (map ns_Version nodes)) of [] \<Rightarrow> [] | [v] \<Rightarrow> v | _ \<Rightarrow> mixedVersion)"
  unfolding summarizeVersions_def
proof (induction nodes)
  case (Cons n nodes)
  let ?rest = "filter (\<lambda>v. v \<noteq> []) (map ns_Version nodes)"
  show ?case
  proof (cases "ns_Version n = []")
    case False
    have all: "(\<forall>m \<in> set nodes. ns_Version m = [] \<or> ns_Version m = ns_Version n) \<longleftrightarrow> set (remdups ?rest) \<subseteq> {ns_Version n}"
      by auto
    show ?thesis
    proof (cases "remdups ?rest")
      case Nil
      then show ?thesis using False all by (auto simp: summarize_from_eq)
    next
      case (Cons v vs)
      then have d: "distinct (v # vs)" and set: "set ?rest = set (v # vs)" by (metis distinct_remdups, metis set_remdups)
      have "remdups (ns_Version n # ?rest) = (if ns_Version n \<in> set ?rest then v # vs else ns_Version n # v # vs)"
        using Cons by simp
      then show ?thesis
        using False all d set Cons by (cases vs) (auto simp: summarize_from_eq)
    qed
  qed (use Cons in simp)
qed simp

section \<open>The node report\<close>

lemma own_statuses_names:
  "run_state (own_statuses r tc u p is) w = (nodes, w') \<Longrightarrow> map ns_Name nodes = map (ordinal_name (tc_Name tc)) is"
proof (induction "is" arbitrary: w nodes)
  case (Cons i "is")
  have "ns_Name (fst (run_state (own_status r tc u p i) w)) = ordinal_name (tc_Name tc) i" for w
    by (auto simp: own_status_def blank_status_def Let_def split: prod.splits sum.splits option.splits)
  with Cons show ?case by (auto split: prod.splits) (metis fst_conv)
qed simp

lemma not_joined [simp]: "\<not> nodeJoined ''Unknown''"
  by (simp add: nodeJoined_def nodeReadyState_def nodeSelfState_def nodeConnectedState_def)

text \<open>
  The node report names every ordinal of the desired replicas once, in order, whatever the
  nodes answer, and its summary is the number of the reported nodes in a joined state over the
  number of replicas.
\<close>

theorem node_report_complete:
  assumes "run_state (buildNodeStatuses r tc n) w = ((nodes, members), w')"
  shows "map ns_Name nodes = map (ordinal_name (tc_Name tc)) [0 .. n - 1] \<and> members = members_string nodes n"
proof -
  have primary: "map ns_Name nodes = map (ordinal_name (tc_Name tc)) [0 .. n - 1] \<and> members = members_string nodes n"
    if "run_state (buildNodeStatusesFromPrimary r tc u p n) w = (Some (nodes, members), w')" for u p w
    using that by (auto simp: buildNodeStatusesFromPrimary_def status_from_primary_def blank_status_def Let_def
        split: prod.splits sum.splits if_splits option.splits)
  have zero: "Itoa 0 = ''0''" by code_simp
  show ?thesis
    using assms unfolding buildNodeStatuses_def
    by (auto simp: blank_status_def members_string_def zero filter_empty_conv own_statuses_names comp_def
        split: prod.splits sum.splits option.splits if_splits dest: primary [unfolded members_string_def])
qed

section \<open>The token\<close>

lemma CreateToken_nonempty: "run_state (CreateToken rt c name) w = (Inr token, w') \<Longrightarrow> token \<noteq> []"
  by (auto simp: CreateToken_def run_deref or_return_Inr_iff split: if_splits option.splits)

text \<open>
  (C35) The admin token is minted once. The bootstrap step with the production client reads the admin Secret of the
  cluster. If the Secret holds a token, the step reports success and does nothing else. If it holds none, the step reports success only
  after it has had a token created by a client with the user name and password of that Secret and stored it, by
  an update that is its last event, in the Secret it read: the same object, with the minted token, which is
  not empty, under the token key and every other key as it was (so the next step that reads it mints none). When it
  reports that the instance is not ready yet it has written nothing to Kubernetes.
\<close>

theorem token_minted_once:
  assumes "cr_NewBootstrapClient r = None" and "adminSecretKeyFor tc (cr_OperatorNamespace r) = (key, None)"
    and "run_state (kget (cr_secrets r) key) w = (Inr sec, w1)"
    and "run_state (ensureToken r tc endpoint) w = (res, w')"
  shows "if map_get (sec_Data sec) adminSecretTokenKey \<noteq> [] then res = Inr True \<and> w' = w1
    else (res = Inr True \<longrightarrow>
        (\<exists>c w2 token w3 sec' stored.
          run_state (NewClient endpoint [WithCredentials (map_get (sec_Data sec) adminSecretUsernameKey)
            (map_get (sec_Data sec) adminSecretPasswordKey)]) w1 = (Inr c, w2) \<and>
          run_state (CreateToken (cr_runtime r) c operatorTokenName) w2 = (Inr token, w3) \<and>
          run_state (kupdate (cr_secrets r) sec') w3 = (Inr stored, w') \<and>
          token \<noteq> [] \<and> sec_meta sec' = sec_meta sec \<and> sec_Type sec' = sec_Type sec \<and>
          map_of (sec_Data sec') = (map_of (sec_Data sec))(adminSecretTokenKey \<mapsto> token))) \<and>
      (res = Inr False \<longrightarrow> (\<exists>es. trace w' = trace w1 @ es \<and> list_all is_http es))"
proof (cases "map_get (sec_Data sec) adminSecretTokenKey = []")
  case False
  with assms show ?thesis
    by (simp add: ensureToken_def resolveAdminSecret_def run_or_return run_wrap_error)
next
  case True
  have secret: "run_state (resolveAdminSecret r tc) w = (Inr (sec, key), w1)"
    using assms(2,3) by (simp add: resolveAdminSecret_def run_or_return run_wrap_error)
  note facts = assms(1) True secret
  let ?new = "\<lambda>c w2. run_state (NewClient endpoint [WithCredentials (map_get (sec_Data sec) adminSecretUsernameKey)
            (map_get (sec_Data sec) adminSecretPasswordKey)]) w1 = (Inr c, w2)"
  let ?sec' = "\<lambda>token. sec\<lparr>sec_Data := map_set adminSecretTokenKey token (sec_Data sec)\<rparr>"
  have "\<exists>c w2 token w3 sec' stored. ?new c w2 \<and>
      run_state (CreateToken (cr_runtime r) c operatorTokenName) w2 = (Inr token, w3) \<and>
      run_state (kupdate (cr_secrets r) sec') w3 = (Inr stored, w') \<and>
      token \<noteq> [] \<and> sec_meta sec' = sec_meta sec \<and> sec_Type sec' = sec_Type sec \<and>
      map_of (sec_Data sec') = (map_of (sec_Data sec))(adminSecretTokenKey \<mapsto> token)" if minted: "res = Inr True"
  proof -
    obtain c w2 token w3 stored where "?new c w2" "run_state (CreateToken (cr_runtime r) c operatorTokenName) w2 = (Inr token, w3)"
        "run_state (kupdate (cr_secrets r) (?sec' token)) w3 = (Inr stored, w')"
      using facts assms(4) [unfolded minted]
      by (auto simp: ensureToken_def bootstrapClientFactory_def or_return_Inr_iff run_try_iff Let_def simp del: run_state_bind split: if_split_asm)
    then show ?thesis
      by (intro exI [of _ c] exI [of _ w2] exI [of _ token] exI [of _ w3] exI [of _ "?sec' token"] exI [of _ stored])
        (auto dest: CreateToken_nonempty)
  qed
  moreover have "\<exists>es. trace w' = trace w1 @ es \<and> list_all is_http es" if minted: "res = Inr False"
  proof -
    obtain c w2 err where new: "?new c w2" and mint: "run_state (CreateToken (cr_runtime r) c operatorTokenName) w2 = (Inl err, w')"
      using facts assms(4) [unfolded minted]
      by (auto simp: ensureToken_def bootstrapClientFactory_def or_return_Inr_iff run_try_iff Let_def simp del: run_state_bind split: if_split_asm)
    from new have "trace w2 = trace w1" by (auto simp: NewClient_def run_simps split: if_splits)
    with mint emits_CreateToken [of "cr_runtime r" c operatorTokenName] show ?thesis unfolding emits_def by (metis snd_conv)
  qed
  ultimately show ?thesis using True by simp
qed

section \<open>The reconciler\<close>

text \<open>
  A cluster whose admin Secret reference names another namespace is not touched: the pass
  reads it, records the error on its status and asks for no retry; nothing of the workload, and
  not even the finalizer, is written.
\<close>

theorem misplaced_secret_ref_stops:
  assumes "kc_Get (cr_clusters r) key (ext w) = (Inr tc, s)" and "om_DeletionTimestamp (tc_meta tc) = None"
    and "snd (adminSecretKeyFor tc (cr_OperatorNamespace r)) = Some err"
    and "run_state (ClusterReconciler_Reconcile r key) w = (res, w')"
  shows "(\<exists>m. trace w' = trace w @ [EvGet (kc_kind (cr_clusters r)) key, EvGet (kc_kind (cr_clusters r)) key,
        EvStatusUpdate (kc_kind (cr_clusters r)) m] \<or>
      trace w' = trace w @ [EvGet (kc_kind (cr_clusters r)) key, EvGet (kc_kind (cr_clusters r)) key]) \<and>
    (\<forall>d. res = Inr d \<longrightarrow> d = 0)"
  using assms
  by (auto simp: ClusterReconciler_Reconcile_def markInvalidAdminSecretRef_def Let_def run_or_return run_kube run_ignore_result
      ignore_not_found_simp split: sum.splits prod.splits if_splits)

lemma degraded_Inr_iff [simp]: "run_state (degraded r key m) w = (Inr a, w') \<longleftrightarrow> run_state m w = (Inr a, w')"
  by (auto simp: degraded_def split: prod.splits sum.splits)

text \<open>What a successful status step has read, and the status the cluster has after it.\<close>

lemma updateStatus_Inr:
  assumes "run_state (updateStatus r key sts endpoint b c rollout) w = (Inr d, w')" and "d \<noteq> 0"
  shows "\<exists>tc w1 ph tc' w2. run_state (kget (cr_clusters r) key) w = (Inr tc, w1) \<and>
    ph = phase_report_for (sts_ReadyReplicas sts) (desiredReplicaCount tc) b c \<and>
    d = (if rs_status rollout = ConditionTrue then min (ph_requeueAfter ph) clusterPollInterval else ph_requeueAfter ph) \<and>
    ts_Phase (tc_Status tc') = ph_phase ph \<and>
    (tc_Status tc' = tc_Status tc \<or> (\<exists>stored. run_state (kstatus_update (cr_clusters r) tc') w2 = (Inr stored, w')))"
proof -
  obtain got w1 where got: "run_state (kget (cr_clusters r) key) w = (got, w1)" by fastforce
  obtain tc where tc: "got = Inr tc" using assms got by (cases got) (auto simp: updateStatus_def ignore_not_found_simp split: if_splits)
  let ?ph = "phase_report_for (sts_ReadyReplicas sts) (desiredReplicaCount tc) b c"
  obtain reports w2 where reports: "run_state (if sts_ReadyReplicas sts \<ge> desiredReplicaCount tc
      then do { res \<leftarrow> buildNodeStatuses r tc (desiredReplicaCount tc); ret (Some res) } else ret None) w1 = (reports, w2)" by fastforce
  obtain tc' changed where nxt: "next_status r tc (sts_ReadyReplicas sts) endpoint reports ?ph rollout = (tc', changed)" by fastforce
  have d: "d = (if rs_status rollout = ConditionTrue then min (ph_requeueAfter ?ph) clusterPollInterval else ph_requeueAfter ?ph)"
    and upd: "changed \<longrightarrow> (\<exists>stored. run_state (kstatus_update (cr_clusters r) tc') w2 = (Inr stored, w'))"
    using assms(1) got tc reports nxt
    by (cases "desiredReplicaCount tc \<le> sts_ReadyReplicas sts"; auto simp: updateStatus_def Let_def or_return_Inr_iff split: prod.splits if_splits)+
  have phase: "ts_Phase (observed_fields r tc (sts_ReadyReplicas sts) endpoint reports (ph_phase ?ph) bm) = ph_phase ?ph" for bm
    by (simp add: observed_fields_def Let_def split: option.split prod.split)
  show ?thesis
  proof (cases changed)
    case True
    moreover have "ts_Phase (tc_Status (fst (next_status r tc (sts_ReadyReplicas sts) endpoint reports ?ph rollout))) = ph_phase ?ph"
      by (simp add: next_status_def Let_def phase split: prod.split)
    then have "ts_Phase (tc_Status tc') = ph_phase ?ph" by (simp add: nxt)
    ultimately show ?thesis using got tc d upd by blast
  next
    case False
    then have "ts_Phase (tc_Status tc) = ph_phase ?ph"
      using nxt phase [of "rs_bookmark rollout"] by (auto simp: next_status_def Let_def split: prod.splits)
    then show ?thesis using got tc d by blast
  qed
qed

text \<open>
  (C21) The reconciler goes over to the long drift interval only for a cluster that is up. A pass over a
  live cluster \<open>tc\<close> that returns it has, in this order: found as many replicas ready as \<open>tc\<close> wants; found or
  minted the admin token; run the clustering step if \<open>tc\<close> wants several nodes; run the rollout step, with
  no upgrade under way; and read the cluster again, as \<open>tc'\<close>, by then with as many replicas ready as \<open>tc'\<close> wants.
  If \<open>tc'\<close> still wants several nodes, the clustering step reported that they have converged. The
  status of the cluster is then in the phase Ready, written by the pass unless it was there already.
\<close>

theorem drift_interval_means_ready:
  assumes "run_state (cluster_live r key tc) w = (Inr clusterDriftInterval, w')"
  shows "\<exists>workload w1 w2 clustered w3 rollout sts w4 tc' w5 tc'' w6.
    run_state (reconcileWorkload r tc) w = (Inr workload, w1) \<and>
    desiredReplicaCount tc \<le> sts_ReadyReplicas (ou_sts workload) \<and>
    run_state (ensureToken r tc (nodeEndpoint (tc_Name tc) primaryOrdinal (cr_OperatorNamespace r))) w1 = (Inr True, w2) \<and>
    (if 1 < desiredReplicaCount tc
     then run_state (reconcileClustering r tc (desiredReplicaCount tc)) w2 = (Inr clustered, w3) else w3 = w2 \<and> clustered) \<and>
    run_state (reconcileRollout r tc workload) w3 = (Inr (rollout, sts), w4) \<and> rs_status rollout \<noteq> ConditionTrue \<and>
    run_state (kget (cr_clusters r) key) w4 = (Inr tc', w5) \<and> desiredReplicaCount tc' \<le> sts_ReadyReplicas sts \<and>
    (1 < desiredReplicaCount tc' \<longrightarrow> clustered) \<and>
    ts_Phase (tc_Status tc'') = Ready \<and>
    (tc_Status tc'' = tc_Status tc' \<or> (\<exists>stored. run_state (kstatus_update (cr_clusters r) tc'') w6 = (Inr stored, w')))"
proof -
  have pos: "clusterDriftInterval \<noteq> 0" "clusterDriftInterval \<noteq> clusterPollInterval"
    "min clusterDriftInterval clusterPollInterval = clusterPollInterval" "clusterPollInterval \<noteq> 0"
    by (simp_all add: clusterDriftInterval_def clusterPollInterval_def)
  from assms obtain workload w1 b c w4 rollout sts w5 where
      workload: "run_state (reconcileWorkload r tc) w = (Inr workload, w1)"
    and boot: "run_state (bootstrap_and_cluster r key tc (sts_ReadyReplicas (ou_sts workload)) (desiredReplicaCount tc)) w1 = (Inr (b, c), w4)"
    and rollout: "run_state (reconcileRollout r tc workload) w4 = (Inr (rollout, sts), w5)"
    and status: "run_state (updateStatus r key sts (clientServiceEndpoint tc (cr_OperatorNamespace r)) b c rollout) w5 = (Inr clusterDriftInterval, w')"
    by (auto simp: cluster_live_def or_return_Inr_iff Let_def split: prod.split_asm)
  from updateStatus_Inr [OF status pos(1)] obtain tc' w6 ph tc'' w7 where
      read: "run_state (kget (cr_clusters r) key) w5 = (Inr tc', w6)"
    and ph: "ph = phase_report_for (sts_ReadyReplicas sts) (desiredReplicaCount tc') b c"
    and d: "clusterDriftInterval = (if rs_status rollout = ConditionTrue then min (ph_requeueAfter ph) clusterPollInterval else ph_requeueAfter ph)"
    and ready: "ts_Phase (tc_Status tc'') = ph_phase ph"
    and upd: "tc_Status tc'' = tc_Status tc' \<or> (\<exists>stored. run_state (kstatus_update (cr_clusters r) tc'') w7 = (Inr stored, w'))"
    by blast
  from d have up: "rs_status rollout \<noteq> ConditionTrue" "b" "desiredReplicaCount tc' \<le> sts_ReadyReplicas sts"
      "1 < desiredReplicaCount tc' \<longrightarrow> c" "ph_phase ph = Ready"
    using pos by (auto simp: ph phase_report_for_def Let_def split: if_splits)
  from boot up(2) obtain w2 where "desiredReplicaCount tc \<le> sts_ReadyReplicas (ou_sts workload)"
      "run_state (ensureToken r tc (nodeEndpoint (tc_Name tc) primaryOrdinal (cr_OperatorNamespace r))) w1 = (Inr True, w2)"
      "if 1 < desiredReplicaCount tc then run_state (reconcileClustering r tc (desiredReplicaCount tc)) w2 = (Inr c, w4) else w4 = w2 \<and> c"
    by (auto simp: bootstrap_and_cluster_def or_return_Inr_iff split: if_split_asm)
  with workload rollout read up ready upd show ?thesis by (intro exI conjI) (assumption | simp)+
qed

section \<open>The finalizer comes first\<close>

text \<open>
  The reconciler as production wires it, and that everything it runs only appends to the trace.
\<close>

definition production_cluster :: "'s cluster_reconciler \<Rightarrow> 's cluster_reconciler" where
  "production_cluster r = r\<lparr>cr_NewBootstrapClient := None, cr_NewNodeClient := None, cr_Now := None\<rparr>"

lemma production_production [simp]: "production (production_cluster r)"
  by (simp add: production_cluster_def production_def)

lemma production_cluster_sel [simp]:
  "cr_clusters (production_cluster r) = cr_clusters r" "cr_runtime (production_cluster r) = cr_runtime r"
  "cr_OperatorNamespace (production_cluster r) = cr_OperatorNamespace r"
  by (simp_all add: production_cluster_def)

lemma production_node:
  "production r \<Longrightarrow> run_state (nodeClientFactory r e u p) w = (Inr node, w') \<Longrightarrow> \<exists>c. node = loginNodeClient (cr_runtime r) c"
  by (auto simp: production_nodeClientFactory or_return_Inr_iff)

lemma emits_factory: "production r \<Longrightarrow> emits P (nodeClientFactory r e u p)"
  unfolding production_nodeClientFactory by (intro emits_or_return emits_NewClient emits_return)

lemma emits_or_return_built:
  assumes "production r" and "\<And>c. emits P (f (loginNodeClient (cr_runtime r) c))"
  shows "emits P (or_return (wrap_error pre (nodeClientFactory r e u p)) f)"
proof (rule emits_or_return_result)
  show "emits P (wrap_error pre (nodeClientFactory r e u p))"
    by (intro emits_wrap_error emits_factory assms(1))
  show "emits P (f a)" if "run_state (wrap_error pre (nodeClientFactory r e u p)) w = (Inr a, w')" for a w w'
    using production_node [OF assms(1)] that assms(2) by fastforce
qed

lemma any_kube:
  "emits any_event (kget kc key)" "emits any_event (klist kc ns ls)" "emits any_event (kupdate kc obj)"
  "emits any_event (kstatus_update kc obj)" "emits any_event (kdelete kc obj)" "emits any_event (kcreate_or_update kc obj f)"
  "emits any_event (ignore_not_found err a)"
  by auto

lemmas any_rules = emits_or_return emits_bind emits_if emits_case_sum emits_case_option emits_case_prod
  emits_wrap_error emits_ignore(2) any_kube emits_return
lemmas any_login = emits_login [THEN emits_any]

lemma any_delete_ignoring: "emits any_event (delete_ignoring kc pre obj)"
  by (rule emits_delete_ignoring) simp

lemma any_loops:
  "emits any_event (delete_stale_services r tc wanted svcs)"
  "emits any_event (ensure_replica_services r tc spec t p is)"
proof -
  show "emits any_event (delete_stale_services r tc wanted svcs)"
    by (induction svcs) (auto intro!: any_rules any_delete_ignoring)
  show "emits any_event (ensure_replica_services r tc spec t p is)"
    by (induction "is") (auto simp: Let_def intro!: any_rules)
qed

lemma any_workload: "emits any_event (reconcileWorkload r tc)"
  unfolding reconcileWorkload_def reconcileHeadlessService_def reconcileClientService_def reconcileReplicaServices_def
    reconcilePrimaryService_def delete_primary_service_def reconcileAdminSecret_def reconcileStatefulSet_def
    reconcilePodDisruptionBudget_def ensure_pdb_def Let_def
  by (intro any_rules any_loops any_delete_ignoring)

lemma any_ensureToken: "production r \<Longrightarrow> emits any_event (ensureToken r tc e)"
  unfolding ensureToken_def Let_def
  by (intro any_rules emits_any [OF emits_resolveAdminSecret] emits_or_return_result)
    (auto simp: bootstrapClientFactory_def production_def or_return_Inr_iff intro!: any_rules emits_NewClient emits_any [OF emits_CreateToken])

lemma any_refresh: "emits any_event (refreshNodeIP tc i (loginNodeClient rt c) st v ip)"
  unfolding refreshNodeIP_def by (intro any_rules any_login)

lemma any_join: "production r \<Longrightarrow> emits any_event (join_secondary r tc u p st ip pods i)"
  unfolding join_secondary_def by (intro emits_or_return_built any_rules any_login any_refresh)

lemma any_joins: "production r \<Longrightarrow> emits any_event (join_secondaries r tc u p st ip pods is b)"
  by (induction "is" arbitrary: b) (auto intro!: emits_or_return any_join)

lemma any_clustering:
  assumes "production r"
  shows "emits any_event (reconcileClustering r tc n)"
proof -
  have prepare: "emits any_event (prepare_primary r tc u p pod)" for u p pod
    unfolding prepare_primary_def ensure_initialized_def
    by (intro emits_or_return_built assms any_rules any_login)
  have from_pod: "emits any_event (clustering_from r tc n u p pods pod)" for u p pods pod
    unfolding clustering_from_def
  proof (rule emits_or_return_result [OF prepare])
    fix prepared w w'
    assume run: "run_state (prepare_primary r tc u p pod) w = (Inr prepared, w')"
    show "emits any_event (case prepared of None \<Rightarrow> ok False
       | Some (primaryClient, primaryState) \<Rightarrow>
           or_return (refreshNodeIP tc primaryOrdinal primaryClient primaryState None (pi_ip pod)) (\<lambda>_.
           or_return (join_secondaries r tc u p primaryState (pi_ip pod) pods [1 .. n - 1] True) (\<lambda>allJoined.
             if \<not> allJoined then ok False
             else do {
               got \<leftarrow> na_GetClusterState primaryClient;
               case got of Inl _ \<Rightarrow> ok False | Inr convergedState \<Rightarrow> ok (converged (tc_Name tc) n convergedState)
             })))"
    proof (cases prepared)
      case (Some pc)
      obtain primary st where pc: "pc = (primary, st)" by (cases pc)
      with run Some obtain c where "primary = loginNodeClient (cr_runtime r) c"
        using prepare_primary_client production_node [OF assms] by metis
      with Some pc show ?thesis
        by (auto intro!: any_refresh any_joins [OF assms] emits_or_return emits_bind any_login emits_case_sum)
    qed simp
  qed
  show ?thesis
    unfolding reconcileClustering_def
    by (intro any_rules from_pod emits_any [OF emits_adminCredentials] emits_any [OF emits_resolveClusterPods])
qed

lemma any_rollout: "production r \<Longrightarrow> emits any_event (reconcileRollout r tc out)"
  unfolding reconcileRollout_def walkRollout_def Let_def
  by (intro any_rules emits_rollout_pass emits_any [OF emits_adminCredentials] emits_any [OF emits_resolveClusterPods])

lemma any_status: "production r \<Longrightarrow> emits any_event (updateStatus r key sts e b c rollout)"
proof -
  assume r: "production r"
  have "emits any_event (own_status r tc u p i)" for tc u p i
    unfolding own_status_def Let_def by (intro emits_with_node [OF r] any_login any_rules)
  then have own: "emits any_event (own_statuses r tc u p is)" for tc u p "is"
    by (induction "is") (auto intro!: emits_bind)
  show ?thesis
    unfolding updateStatus_def buildNodeStatuses_def buildNodeStatusesFromPrimary_def Let_def
    by (intro emits_with_node [OF r] own emits_any [OF emits_adminCredentials] any_login any_rules)
qed

lemma any_degraded: "emits any_event m \<Longrightarrow> emits any_event (degraded r key m)"
  unfolding degraded_def markDegraded_def by (intro any_rules)

lemma any_live: "production r \<Longrightarrow> emits any_event (cluster_live r key tc)"
  unfolding cluster_live_def bootstrap_and_cluster_def Let_def
  by (intro any_rules any_degraded any_workload any_ensureToken any_clustering any_rollout any_status)

interpretation cluster_controller: finalizing_controller "cr_runtime r" "cr_clusters r" tc_meta cluster_with_finalizers clusterFinalizer
    "\<lambda>tc. or_return (finalizeCluster (production_cluster r) tc) (\<lambda>_. ok 0)"
    "\<lambda>key tc. map_option (\<lambda>err. or_return (markInvalidAdminSecretRef (production_cluster r) key err) (\<lambda>_. ok 0))
      (snd (adminSecretKeyFor tc (cr_OperatorNamespace r)))"
    "cluster_live (production_cluster r)" "ClusterReconciler_Reconcile (production_cluster r)"
  for r :: "'s cluster_reconciler"
proof unfold_locales
  show "om_Finalizers (tc_meta (cluster_with_finalizers fs tc)) = fs" for fs tc
    by (simp add: cluster_with_finalizers_def)
  show "emits any_event (cluster_live (production_cluster r) key tc)" for key tc
    by (rule any_live) simp
qed (unfold ClusterReconciler_Reconcile_def production_cluster_sel case_map_option comp_def, rule refl)

text \<open>
  The cluster's controller registers its finalizer before it creates anything: on a live
  cluster without it, the first call after the read is the update that adds it, and when that
  fails the pass ends with its error and no further call.
\<close>

theorem cluster_finalizer_before_workload:
  assumes "finalizer_laws (cr_runtime r)" and "kc_Get (cr_clusters r) key (ext w) = (Inr tc, s)"
    and "om_DeletionTimestamp (tc_meta tc) = None" and "snd (adminSecretKeyFor tc (cr_OperatorNamespace r)) = None"
    and "clusterFinalizer \<notin> set (om_Finalizers (tc_meta tc))"
    and "run_state (ClusterReconciler_Reconcile (production_cluster r) key) w = (res, w')"
  shows "\<exists>tc' es.
    trace w' = trace w @ [EvGet (kc_kind (cr_clusters r)) key, EvUpdate (kc_kind (cr_clusters r)) (kc_meta (cr_clusters r) tc')] @ es \<and>
    clusterFinalizer \<in> set (om_Finalizers (tc_meta tc')) \<and>
    (\<forall>err s'. kc_Update (cr_clusters r) tc' s = (Inl err, s') \<longrightarrow> es = [] \<and> res = Inl err)"
  using assms(1-3) _ assms(5,6) by (rule cluster_controller.finalizer_first) (simp add: assms(4))

section \<open>Witnesses\<close>

theorem node_report_complete_witness:
  "\<exists>nodes members. fst (run_state (buildNodeStatuses (sample_cluster_reconciler no_reply) sample_cluster 2) (empty_world ())) = (nodes, members) \<and>
     map ns_Name nodes = [''dns-0'', ''dns-1''] \<and> members = members_string nodes 2"
proof -
  let ?run = "run_state (buildNodeStatuses (sample_cluster_reconciler no_reply) sample_cluster 2) (empty_world ())"
  have "?run = ((fst (fst ?run), snd (fst ?run)), snd ?run)" by simp
  from node_report_complete [OF this] have
    "map ns_Name (fst (fst ?run)) = [''dns-0'', ''dns-1''] \<and> snd (fst ?run) = members_string (fst (fst ?run)) 2"
    by (simp add: sample_cluster_sel upto.simps ordinal_names)
  then show ?thesis by (metis prod.collapse)
qed

lemma sample_key: "adminSecretKeyFor sample_cluster ''ops'' = (ObjectKey ''ops'' ''dns-admin'', None)"
  by (simp add: adminSecretKeyFor_def sample_cluster_def adminSecretName_def)

text \<open>An instance that mints tokens, and an admin Secret that holds none yet.\<close>

definition fresh_secret :: secret where
  "fresh_secret = sample_secret\<lparr>sec_Data := [(''username'', ''admin''), (''password'', ''pw'')]\<rparr>"

definition minting_reconciler :: "unit cluster_reconciler" where
  "minting_reconciler = (sample_cluster_reconciler joined_server)\<lparr>cr_secrets := plain_kclient ''Secret'' sec_meta (\<lambda>_. Inr fresh_secret)\<rparr>"

lemma minting_sel [simp]:
  "cr_NewBootstrapClient minting_reconciler = None" "cr_OperatorNamespace minting_reconciler = ''ops''"
  "cr_runtime minting_reconciler = plain_runtime joined_server (Pair 0)"
  "cr_secrets minting_reconciler = plain_kclient ''Secret'' sec_meta (\<lambda>_. Inr fresh_secret)"
  by (simp_all add: minting_reconciler_def)

lemma fresh_sel:
  "map_get (sec_Data fresh_secret) adminSecretTokenKey = []" "map_get (sec_Data fresh_secret) adminSecretUsernameKey = ''admin''"
  "map_get (sec_Data fresh_secret) adminSecretPasswordKey = ''pw''" "map_get (sec_Data sample_secret) adminSecretTokenKey \<noteq> []"
  by code_simp+

lemma minting_run: "fst (run_state (ensureToken minting_reconciler sample_cluster ''e'') w) = Inr True"
proof -
  have "classifyStatus ''ok'' [] = None" by code_simp
  then show ?thesis
    by (simp add: ensureToken_def resolveAdminSecret_def sample_key run_or_return run_wrap_error run_simps fresh_sel
        bootstrapClientFactory_def NewClient_def CreateToken_def doRaw_def reply_result_def joined_server_def plain_runtime_def)
qed

theorem token_minted_once_witness:
  "(\<exists>w'. run_state (ensureToken (sample_cluster_reconciler no_reply) sample_cluster ''e'') (empty_world ()) = (Inr True, w') \<and>
     trace w' = [EvGet ''Secret'' (ObjectKey ''ops'' ''dns-admin'')]) \<and>
   (\<exists>w' w3 token sec' stored. run_state (ensureToken minting_reconciler sample_cluster ''e'') (empty_world ()) = (Inr True, w') \<and>
     run_state (kupdate (cr_secrets minting_reconciler) sec') w3 = (Inr stored, w') \<and> token \<noteq> [] \<and>
     map_of (sec_Data sec') = [''username'' \<mapsto> ''admin'', ''password'' \<mapsto> ''pw'', adminSecretTokenKey \<mapsto> token])"
proof
  let ?r = "sample_cluster_reconciler no_reply :: unit cluster_reconciler"
  have key: "adminSecretKeyFor sample_cluster (cr_OperatorNamespace ?r) = (ObjectKey ''ops'' ''dns-admin'', None)"
    "adminSecretKeyFor sample_cluster (cr_OperatorNamespace minting_reconciler) = (ObjectKey ''ops'' ''dns-admin'', None)"
    by (simp_all add: sample_key)
  obtain w1 where read: "run_state (kget (cr_secrets ?r) (ObjectKey ''ops'' ''dns-admin'')) (empty_world ()) = (Inr sample_secret, w1)"
    and w1: "trace w1 = [EvGet ''Secret'' (ObjectKey ''ops'' ''dns-admin'')]"
    by (simp add: run_kube sample_secrets_def empty_world_def)
  from token_minted_once [OF _ key(1) read prod.collapse [symmetric], of "''e''"] w1
  show "\<exists>w'. run_state (ensureToken ?r sample_cluster ''e'') (empty_world ()) = (Inr True, w') \<and>
     trace w' = [EvGet ''Secret'' (ObjectKey ''ops'' ''dns-admin'')]"
    using fresh_sel(4) by (intro exI [of _ w1]) (simp add: prod_eq_iff)
  obtain w2 where fresh: "run_state (kget (cr_secrets minting_reconciler) (ObjectKey ''ops'' ''dns-admin'')) (empty_world ()) = (Inr fresh_secret, w2)"
    by (simp add: run_kube)
  obtain w' where run: "run_state (ensureToken minting_reconciler sample_cluster ''e'') (empty_world ()) = (Inr True, w')"
    using minting_run by (metis prod.collapse)
  from token_minted_once [OF _ key(2) fresh run] fresh_sel(1) obtain w3 token sec' stored where
    "run_state (kupdate (cr_secrets minting_reconciler) sec') w3 = (Inr stored, w')" "token \<noteq> []"
    "map_of (sec_Data sec') = (map_of (sec_Data fresh_secret))(adminSecretTokenKey \<mapsto> token)" by auto
  with run show "\<exists>w' w3 token sec' stored. run_state (ensureToken minting_reconciler sample_cluster ''e'') (empty_world ()) = (Inr True, w') \<and>
     run_state (kupdate (cr_secrets minting_reconciler) sec') w3 = (Inr stored, w') \<and> token \<noteq> [] \<and>
     map_of (sec_Data sec') = [''username'' \<mapsto> ''admin'', ''password'' \<mapsto> ''pw'', adminSecretTokenKey \<mapsto> token]"
    by (intro exI conjI) (assumption | simp add: fresh_secret_def fun_upd_twist)+
qed

definition misplaced_cluster :: technitium_cluster where
  "misplaced_cluster = sample_cluster\<lparr>tc_Spec := (tc_Spec sample_cluster)\<lparr>tc_AdminSecretRef := Some \<lparr>sr_Name = ''x'', sr_Namespace = ''y''\<rparr>\<rparr>\<rparr>"

theorem misplaced_secret_ref_stops_witness:
  "\<exists>m. trace (snd (run_state (ClusterReconciler_Reconcile
      ((sample_cluster_reconciler no_reply)\<lparr>cr_clusters := plain_kclient ''TechnitiumCluster'' tc_meta (\<lambda>_. Inr misplaced_cluster)\<rparr>)
      (ObjectKey [] ''dns'')) (empty_world ()))) =
     [EvGet ''TechnitiumCluster'' (ObjectKey [] ''dns''), EvGet ''TechnitiumCluster'' (ObjectKey [] ''dns''),
      EvStatusUpdate ''TechnitiumCluster'' m] \<or>
   trace (snd (run_state (ClusterReconciler_Reconcile
      ((sample_cluster_reconciler no_reply)\<lparr>cr_clusters := plain_kclient ''TechnitiumCluster'' tc_meta (\<lambda>_. Inr misplaced_cluster)\<rparr>)
      (ObjectKey [] ''dns'')) (empty_world ()))) =
     [EvGet ''TechnitiumCluster'' (ObjectKey [] ''dns''), EvGet ''TechnitiumCluster'' (ObjectKey [] ''dns'')]"
proof -
  let ?r = "(sample_cluster_reconciler no_reply :: unit cluster_reconciler)\<lparr>cr_clusters :=
    plain_kclient ''TechnitiumCluster'' tc_meta (\<lambda>_. Inr misplaced_cluster)\<rparr>"
  obtain err where hyps: "kc_Get (cr_clusters ?r) (ObjectKey [] ''dns'') (ext (empty_world ())) = (Inr misplaced_cluster, ())"
    "om_DeletionTimestamp (tc_meta misplaced_cluster) = None"
    "snd (adminSecretKeyFor misplaced_cluster (cr_OperatorNamespace ?r)) = Some err"
    by (simp add: misplaced_cluster_def adminSecretKeyFor_def sample_cluster_def zero_meta_def)
  from misplaced_secret_ref_stops [OF hyps prod.collapse [symmetric]] show ?thesis
    by (simp add: empty_world_def)
qed

theorem cluster_finalizer_before_workload_witness:
  "\<exists>tc' es. trace (snd (run_state (ClusterReconciler_Reconcile (production_cluster (sample_cluster_reconciler no_reply))
      (ObjectKey [] ''dns'')) (empty_world ()))) =
     [EvGet ''TechnitiumCluster'' (ObjectKey [] ''dns''), EvUpdate ''TechnitiumCluster'' (tc_meta tc')] @ es \<and>
     clusterFinalizer \<in> set (om_Finalizers (tc_meta (tc' :: technitium_cluster)))"
proof -
  let ?r = "sample_cluster_reconciler no_reply :: unit cluster_reconciler"
  have hyps: "finalizer_laws (cr_runtime ?r)" "kc_Get (cr_clusters ?r) (ObjectKey [] ''dns'') (ext (empty_world ())) = (Inr sample_cluster, ())"
    "om_DeletionTimestamp (tc_meta sample_cluster) = None" "snd (adminSecretKeyFor sample_cluster (cr_OperatorNamespace ?r)) = None"
    "clusterFinalizer \<notin> set (om_Finalizers (tc_meta sample_cluster))"
    by (simp_all add: finalizer_laws_plain sample_clusters_def sample_key) (simp_all add: sample_cluster_def zero_meta_def)
  from cluster_finalizer_before_workload [OF hyps prod.collapse [symmetric]] show ?thesis
    by (auto simp: empty_world_def sample_clusters_def)
qed

definition single_cluster :: technitium_cluster where
  "single_cluster = sample_cluster\<lparr>tc_Spec := (tc_Spec sample_cluster)\<lparr>tc_Replicas := Some 1\<rparr>\<rparr>"

text \<open>A cluster whose StatefulSet has its one replica ready.\<close>

definition up_reconciler :: "unit cluster_reconciler" where
  "up_reconciler = answering_reconciler\<lparr>
     cr_clusters := plain_kclient ''TechnitiumCluster'' tc_meta (\<lambda>_. Inr single_cluster),
     cr_statefulSets := (plain_kclient ''StatefulSet'' sts_meta no_object)\<lparr>kc_CreateOrUpdate :=
       (\<lambda>obj f s. (map_sum id (\<lambda>sts. (obj, sts\<lparr>sts_ReadyReplicas := 1\<rparr>)) (f obj), s))\<rparr>\<rparr>"

lemma up_reconciler_sel [simp]:
  "cr_runtime up_reconciler = plain_runtime no_reply (Pair 0)"
  "cr_OperatorNamespace up_reconciler = ''ops''" "cr_secrets up_reconciler = sample_secrets"
  "cr_services up_reconciler = plain_kclient ''Service'' svc_meta no_object"
  "cr_pdbs up_reconciler = plain_kclient ''PodDisruptionBudget'' pdb_meta no_object"
  "cr_clusters up_reconciler = plain_kclient ''TechnitiumCluster'' tc_meta (\<lambda>_. Inr single_cluster)"
  "cr_statefulSets up_reconciler = (plain_kclient ''StatefulSet'' sts_meta no_object)\<lparr>kc_CreateOrUpdate :=
       (\<lambda>obj f s. (map_sum id (\<lambda>sts. (obj, sts\<lparr>sts_ReadyReplicas := 1\<rparr>)) (f obj), s))\<rparr>"
  "nodeClientFactory up_reconciler e u p = ok (answering_node joined_state)"
  by (simp_all add: up_reconciler_def answering_reconciler_def nodeClientFactory_def)

lemma single_cluster_sel [simp]:
  "desiredReplicaCount single_cluster = 1" "tc_Name single_cluster = ''dns''" "tc_Status single_cluster = tc_Status sample_cluster"
  "tc_meta single_cluster = tc_meta sample_cluster"
  "sv_PerReplica (tc_Service (tc_Spec single_cluster)) = None" "sv_Primary (tc_Service (tc_Spec single_cluster)) = None"
  "tc_AdminSecretRef (tc_Spec single_cluster) = None"
  by (simp_all add: single_cluster_def sample_cluster_def desiredReplicaCount_def)

lemma up_secret: "run_state (resolveAdminSecret up_reconciler single_cluster) w =
    (Inr (sample_secret, ObjectKey ''ops'' ''dns-admin''), w\<lparr>trace := trace w @ [EvGet ''Secret'' (ObjectKey ''ops'' ''dns-admin'')]\<rparr>)"
  by (simp add: resolveAdminSecret_def adminSecretKeyFor_def adminSecretName_def run_or_return run_wrap_error run_kube sample_secrets_def
      sample_cluster_sel(2))

lemma run_create_or_update [run_simps]:
  "run_state (kcreate_or_update kc obj f) w = (fst (kc_CreateOrUpdate kc obj f (ext w)),
     w\<lparr>ext := snd (kc_CreateOrUpdate kc obj f (ext w)), trace := trace w @ [EvCreateOrUpdate (kc_kind kc) (kc_meta kc obj)]\<rparr>)"
  by (simp add: kcreate_or_update_def run_outside)

text \<open>A computation that always succeeds with a result that satisfies \<open>Q\<close>.\<close>

definition succeeds :: "('a \<Rightarrow> bool) \<Rightarrow> ('s world, go_error + 'a) state \<Rightarrow> bool" where
  "succeeds Q m \<longleftrightarrow> (\<forall>w. \<exists>a w'. run_state m w = (Inr a, w') \<and> Q a)"

lemma succeeds_or_return: "succeeds Q m \<Longrightarrow> (\<And>a. Q a \<Longrightarrow> succeeds R (f a)) \<Longrightarrow> succeeds R (or_return m f)"
  unfolding succeeds_def by (metis or_return_Inr)

lemma succeeds_wrap: "succeeds Q m \<Longrightarrow> succeeds Q (wrap_error p m)"
  by (simp add: succeeds_def)

lemma succeeds_ok: "Q a \<Longrightarrow> succeeds Q (ok a)"
  by (simp add: succeeds_def)

abbreviation up_ready :: "stateful_set_outcome \<Rightarrow> bool" where
  "up_ready out \<equiv> sts_ReadyReplicas (ou_sts out) = 1 \<and> \<not> ou_templateChanged out \<and> ou_downgrade out = None \<and>
     sts_partition (ou_sts out) = 0 \<and> sts_CurrentRevision (ou_sts out) = []"

lemma plain_create_or_update: "kc_CreateOrUpdate (plain_kclient k m g) obj f s = (map_sum id (Pair obj) (f obj), s)"
  by (simp add: plain_kclient_def)

lemma up_services:
  "succeeds (\<lambda>_. True) (reconcileHeadlessService up_reconciler single_cluster)"
  "succeeds (\<lambda>_. True) (reconcileClientService up_reconciler single_cluster)"
  "succeeds (\<lambda>_. True) (reconcileReplicaServices up_reconciler single_cluster)"
  "succeeds (\<lambda>_. True) (reconcilePrimaryService up_reconciler single_cluster)"
  "succeeds (\<lambda>_. True) (reconcilePodDisruptionBudget up_reconciler single_cluster)"
  by (simp_all add: succeeds_def reconcileHeadlessService_def reconcileClientService_def reconcileReplicaServices_def
      reconcilePrimaryService_def delete_primary_service_def reconcilePodDisruptionBudget_def Let_def mutate_headless_def mutate_client_def
      controlled_def plain_runtime_def no_object_def run_or_return run_wrap_error run_ignore_result run_kube run_create_or_update
      plain_create_or_update ignore_not_found_simp)

lemma up_secret_reconcile: "succeeds (\<lambda>_. True) (reconcileAdminSecret up_reconciler single_cluster)"
  by (simp add: succeeds_def reconcileAdminSecret_def run_ignore_result run_create_or_update sample_secrets_def plain_create_or_update
      mutate_admin_secret_def generatePassword_def controlled_def plain_runtime_def Let_def up_reconciler_def answering_reconciler_def sample_cluster_reconciler_def)

lemma up_statefulSet: "succeeds up_ready (reconcileStatefulSet up_reconciler single_cluster)"
  by (simp add: succeeds_def reconcileStatefulSet_def run_kube run_or_return run_create_or_update no_object_def Let_def
      mutate_statefulSet_def controlled_def plain_runtime_def template_changed_def next_partition_def new_statefulSet_def new_meta_def
      zero_meta_def sts_partition_def)

lemma up_workload: "succeeds up_ready (reconcileWorkload up_reconciler single_cluster)"
  unfolding reconcileWorkload_def
  by (rule succeeds_or_return succeeds_wrap succeeds_ok up_services up_secret_reconcile up_statefulSet | simp)+

lemma up_token: "succeeds (\<lambda>b. b) (ensureToken up_reconciler single_cluster e)"
proof -
  have "map_get (sec_Data sample_secret) adminSecretTokenKey \<noteq> []" by code_simp
  then show ?thesis by (auto simp: succeeds_def ensureToken_def run_or_return up_secret)
qed

lemma up_rollout:
  "up_ready out \<Longrightarrow> succeeds (\<lambda>(st, sts). rs_status st = ConditionFalse \<and> sts_ReadyReplicas sts = 1) (reconcileRollout up_reconciler single_cluster out)"
  by (simp add: succeeds_def reconcileRollout_def walkRollout_def Let_def run_or_return idle_state_def) (simp add: sample_cluster_def)

lemma up_status:
  "rs_status st = ConditionFalse \<Longrightarrow> sts_ReadyReplicas sts = 1 \<Longrightarrow>
     succeeds (\<lambda>d. d = clusterDriftInterval) (updateStatus up_reconciler key sts e True True st)"
  by (auto simp: succeeds_def updateStatus_def run_kube Let_def run_or_return phase_report_for_def split: prod.splits)

lemma succeeds_degraded: "succeeds Q m \<Longrightarrow> succeeds Q (degraded r key m)"
  by (simp add: succeeds_def)

lemma up_live: "succeeds (\<lambda>d. d = clusterDriftInterval) (cluster_live up_reconciler key single_cluster)"
proof -
  have boot: "succeeds (\<lambda>(b, c). b \<and> c) (bootstrap_and_cluster up_reconciler key single_cluster 1 1)"
    unfolding bootstrap_and_cluster_def
    by simp (rule succeeds_or_return [OF succeeds_degraded [OF up_token]], simp add: succeeds_ok)
  show ?thesis
    unfolding cluster_live_def Let_def
    by (rule succeeds_or_return [OF succeeds_degraded [OF up_workload]])
      (auto intro!: succeeds_or_return [OF boot] succeeds_or_return [OF succeeds_degraded [OF up_rollout]] up_status)
qed

theorem drift_interval_means_ready_witness:
  "\<exists>w' w1 w2. run_state (cluster_live up_reconciler (ObjectKey [] ''dns'') single_cluster) (empty_world ()) = (Inr clusterDriftInterval, w') \<and>
     run_state (ensureToken up_reconciler single_cluster (nodeEndpoint ''dns'' 0 ''ops'')) w1 = (Inr True, w2)"
proof -
  obtain w' where run: "run_state (cluster_live up_reconciler (ObjectKey [] ''dns'') single_cluster) (empty_world ()) = (Inr clusterDriftInterval, w')"
    using up_live unfolding succeeds_def by blast
  from drift_interval_means_ready [OF run] run show ?thesis by (auto simp: primaryOrdinal_def sample_cluster_sel)
qed

end
