(* ===== verification/Record_Lifecycle.thy ===== *)
theory Record_Lifecycle
  imports Record_Controller
begin

text \<open>
  Many Records on one zone: they are created, edited, reconciled and deleted in any order, and each pass of the controller
  (\<^verbatim>\<open>controller/record_controller.go\<close>) is a run of \<open>applyRecord\<close>, each deletion a run of \<open>record_cleanup\<close>. The theorem is an
  exact account of the server in every reachable state. It holds for passes that finish; what a pass that is cut short
  by an error can leave behind is the second theorem.
\<close>

section \<open>Records that do not claim each other's records\<close>

definition separate :: "record_spec \<Rightarrow> record_spec \<Rightarrow> bool" where
  "separate s t \<longleftrightarrow> rs_Name s \<noteq> rs_Name t \<or> rs_Type s \<noteq> rs_Type t \<or>
     rs_Type s \<noteq> RecordTypeCNAME \<and> (rs_Data s \<noteq> rs_Data t \<or> rs_Type s = RecordTypeMX \<and> rs_Priority s \<noteq> rs_Priority t)"

lemma separate_sym: "separate s t \<longleftrightarrow> separate t s"
  by (auto simp: separate_def)

lemma separate_claims:
  assumes "spec_ok s" "spec_ok t" "separate s t" "rs_Name s = rs_Name t" "claims s x"
  shows "\<not> claims t x"
proof
  assume t: "claims t x"
  then have ty: "rs_Type t = rs_Type s" using assms(5) by (simp add: claims_def)
  show False
    using spec_ok_type [OF assms(1)] assms t ty
    by (cases rule: record_type_cases) (auto simp: record_value_defs separate_def split: if_splits option.splits)
qed

lemma matches_cong:
  "rs_Type s = rs_Type t \<Longrightarrow> rs_Data s = rs_Data t \<Longrightarrow> rs_Priority s = rs_Priority t \<Longrightarrow> recordDataMatches s x = recordDataMatches t x"
  by (simp add: recordDataMatches_def)

lemma claims_cong:
  "rs_Type s = rs_Type t \<Longrightarrow> rs_Data s = rs_Data t \<Longrightarrow> rs_Priority s = rs_Priority t \<Longrightarrow> claims s x = claims t x"
  using matches_cong[of s t x] by (simp add: claims_def)

lemma separate_cong:
  "rs_Name s = rs_Name s' \<Longrightarrow> rs_Type s = rs_Type s' \<Longrightarrow> rs_Data s = rs_Data s' \<Longrightarrow> rs_Priority s = rs_Priority s' \<Longrightarrow>
     separate s t = separate s' t"
  by (simp add: separate_def)

definition apart :: "record_resource \<Rightarrow> record_resource \<Rightarrow> bool" where
  "apart r r' \<longleftrightarrow> separate (rec_Spec r) (rec_Spec r') \<and> separate (rec_Spec r) (appliedSpec r') \<and>
     separate (appliedSpec r) (rec_Spec r') \<and> separate (appliedSpec r) (appliedSpec r')"

lemma apart_sym: "apart r r' \<longleftrightarrow> apart r' r"
  by (auto simp: apart_def separate_sym)

section \<open>The steps\<close>

text \<open>
  The Records and the world, with two ghosts: the spec each Record was last reconciled with, and every spec a pass or a
  deletion has run with.
\<close>

record 's records_state =
  st_records :: "object_key \<Rightarrow> record_resource option"
  st_world :: "'s world"
  st_applied :: "object_key \<Rightarrow> record_spec option"
  st_claimed :: "record_spec set"

definition complete :: "string \<Rightarrow> record_spec \<Rightarrow> bool" where
  "complete zone spec \<longleftrightarrow> spec_ok spec \<and> rs_Zone spec = zone \<and> rs_TTL spec \<noteq> None"

text \<open>
  The edits that are reconciled without a trace. The name is immutable. Until a Record is applied its spec may change freely
  within the zone; afterwards its type is fixed and an MX record of priority 0 keeps its rdata, because the controller does not
  remove what it had applied under another type, nor an MX record of preference 0.
\<close>

definition clean_edit :: "record_resource \<Rightarrow> record_spec \<Rightarrow> bool" where
  "clean_edit rec spec \<longleftrightarrow> rs_Name spec = rs_Name (rec_Spec rec) \<and>
     (rst_AppliedData (rec_Status rec) \<noteq> [] \<longrightarrow>
        rs_Type spec = rs_Type (rec_Spec rec) \<and>
        (rs_Type spec = RecordTypeMX \<and> rst_AppliedPriority (rec_Status rec) = Some 0 \<longrightarrow>
           rs_Data spec = rst_AppliedData (rec_Status rec) \<and> rs_Priority spec = Some 0))"

lemma clean_edit_removable: "clean_edit rec spec \<Longrightarrow> stale_removable (rec\<lparr>rec_Spec := spec\<rparr>)"
  by (cases spec) (auto simp: clean_edit_def stale_removable_def nonzero_MX_def appliedSpec_def)

inductive records_reach ::
  "'s record_api \<Rightarrow> string \<Rightarrow> ('s \<Rightarrow> string \<Rightarrow> dns_record set) \<Rightarrow> 's world \<Rightarrow> 's records_state \<Rightarrow> bool"
  for api :: "'s record_api" and zone :: string and recs :: "'s \<Rightarrow> string \<Rightarrow> dns_record set" and w0 :: "'s world" where
  start: "records_reach api zone recs w0 \<lparr>st_records = Map.empty, st_world = w0, st_applied = Map.empty, st_claimed = {}\<rparr>"
| create: "records_reach api zone recs w0 st \<Longrightarrow> st_records st k = None \<Longrightarrow> rst_AppliedData (rec_Status rec) = [] \<Longrightarrow>
    complete zone (rec_Spec rec) \<Longrightarrow> \<forall>j r. st_records st j = Some r \<longrightarrow> apart rec r \<Longrightarrow>
    records_reach api zone recs w0 (st\<lparr>st_records := (st_records st)(k \<mapsto> rec)\<rparr>)"
| edit: "records_reach api zone recs w0 st \<Longrightarrow> st_records st k = Some rec \<Longrightarrow>
    clean_edit rec spec \<Longrightarrow> complete zone spec \<Longrightarrow>
    \<forall>j r. j \<noteq> k \<longrightarrow> st_records st j = Some r \<longrightarrow> apart (rec\<lparr>rec_Spec := spec\<rparr>) r \<Longrightarrow>
    records_reach api zone recs w0 (st\<lparr>st_records := (st_records st)(k \<mapsto> rec\<lparr>rec_Spec := spec\<rparr>)\<rparr>)"
| pass: "records_reach api zone recs w0 st \<Longrightarrow> st_records st k = Some rec \<Longrightarrow>
    coexists (rs_Type (rec_Spec rec)) (recs (ext (st_world st)) (rs_Name (rec_Spec rec))) \<Longrightarrow>
    run_state (applyRecord api rec) (st_world st) = (Inr (), w') \<Longrightarrow>
    records_reach api zone recs w0 (st\<lparr>st_records := (st_records st)(k \<mapsto> record_applied_fields (rec_Spec rec) rec), st_world := w',
      st_applied := (st_applied st)(k \<mapsto> rec_Spec rec), st_claimed := insert (rec_Spec rec) (st_claimed st)\<rparr>)"
| delete: "records_reach api zone recs w0 st \<Longrightarrow> st_records st k = Some rec \<Longrightarrow>
    run_state (record_cleanup api rec) (st_world st) = (Inr (), w') \<Longrightarrow>
    records_reach api zone recs w0 (st\<lparr>st_records := (st_records st)(k := None), st_world := w',
      st_applied := (st_applied st)(k := None), st_claimed := insert (appliedSpec rec) (st_claimed st)\<rparr>)"

section \<open>The invariant\<close>

text \<open>The status of a Record tells what was applied.\<close>

definition status_ok :: "string \<Rightarrow> record_resource \<Rightarrow> record_spec option \<Rightarrow> bool" where
  "status_ok zone rec a \<longleftrightarrow> complete zone (rec_Spec rec) \<and> stale_removable rec \<and> (case a of
     None \<Rightarrow> rst_AppliedData (rec_Status rec) = []
   | Some s \<Rightarrow> complete zone s \<and> rst_AppliedData (rec_Status rec) = rs_Data s \<and> rst_AppliedPriority (rec_Status rec) = rs_Priority s \<and>
       rs_Type s = rs_Type (rec_Spec rec) \<and> rs_Name s = rs_Name (rec_Spec rec))"

definition records_ok :: "string \<Rightarrow> 's records_state \<Rightarrow> bool" where
  "records_ok zone st \<longleftrightarrow>
     (\<forall>k rec. st_records st k = Some rec \<longrightarrow> status_ok zone rec (st_applied st k)) \<and>
     (\<forall>k. st_applied st k \<noteq> None \<longrightarrow> st_records st k \<noteq> None) \<and>
     (\<forall>j k r r'. j \<noteq> k \<longrightarrow> st_records st j = Some r \<longrightarrow> st_records st k = Some r' \<longrightarrow> apart r r')"

lemma status_applied:
  assumes "status_ok zone rec (Some s)"
  shows "rs_Data (appliedSpec rec) = rs_Data s" "rs_Priority (appliedSpec rec) = rs_Priority s" "rs_Type (appliedSpec rec) = rs_Type s"
    "rs_Name (appliedSpec rec) = rs_Name s" "spec_ok (appliedSpec rec)"
  using assms by (auto simp: status_ok_def complete_def appliedSpec_def spec_ok_def)

lemma status_unapplied: "status_ok zone rec None \<Longrightarrow> appliedSpec rec = rec_Spec rec"
  by (simp add: status_ok_def appliedSpec_def)

lemma status_spec_ok: "status_ok zone rec a \<Longrightarrow> spec_ok (rec_Spec rec) \<and> spec_ok (appliedSpec rec)"
  by (cases a) (auto simp: status_unapplied dest: status_applied(5), auto simp: status_ok_def complete_def)

lemma status_claims: "status_ok zone rec (Some s) \<Longrightarrow> claims (appliedSpec rec) x = claims s x"
  by (intro claims_cong status_applied)

lemma reach_records_ok:
  assumes "records_reach api zone recs w0 st"
  shows "records_ok zone st"
  using assms
proof (induction rule: records_reach.induct)
  case (create st k rec)
  then show ?case
    unfolding records_ok_def by (auto simp: status_ok_def apart_sym stale_removable_def appliedSpec_def split: option.splits)
next
  case (edit st k rec spec)
  have "status_ok zone rec (st_applied st k)" using edit.IH edit.hyps(2) unfolding records_ok_def by blast
  then have "status_ok zone (rec\<lparr>rec_Spec := spec\<rparr>) (st_applied st k)"
    using edit.hyps clean_edit_removable [OF edit.hyps(3)]
    by (auto simp: status_ok_def clean_edit_def complete_def spec_ok_def split: option.splits)
  with edit show ?case unfolding records_ok_def by (auto simp: apart_sym)
next
  case (pass st k rec w')
  have "status_ok zone (record_applied_fields (rec_Spec rec) rec) (Some (rec_Spec rec))"
    using pass.IH pass.hyps(2) unfolding records_ok_def by (auto simp: status_ok_def stale_removable_def) (simp_all add: record_applied_fields_def)
  moreover have "apart (record_applied_fields (rec_Spec rec) rec) r" if "apart rec r" for r
    using that by (simp add: apart_def)
  moreover have "apart r (record_applied_fields (rec_Spec rec) rec)" if "apart r rec" for r
    using that by (simp add: apart_def)
  ultimately show ?case using pass.IH pass.hyps(2) unfolding records_ok_def by auto
next
  case (delete st k rec w')
  then show ?case unfolding records_ok_def by auto
qed (simp add: records_ok_def)

text \<open>The account of the server: what it had and nobody claimed, and one record for each Record that was applied.\<close>

definition own :: "(object_key \<Rightarrow> record_spec option) \<Rightarrow> (object_key \<Rightarrow> dns_record) \<Rightarrow> string \<Rightarrow> dns_record set" where
  "own A T d = {T k | k s. A k = Some s \<and> rs_Name s = d}"

definition account :: "('s \<Rightarrow> string \<Rightarrow> dns_record set) \<Rightarrow> 's world \<Rightarrow> 's records_state \<Rightarrow> (string \<Rightarrow> dns_record set)
    \<Rightarrow> (object_key \<Rightarrow> dns_record) \<Rightarrow> bool" where
  "account recs w0 st B T \<longleftrightarrow>
     (\<forall>d. recs (ext (st_world st)) d = B d \<union> own (st_applied st) T d \<and> rrset_ok (recs (ext (st_world st)) d)) \<and>
     (\<forall>d. B d \<subseteq> recs (ext w0) d \<and> (\<forall>x\<in>recs (ext w0) d - B d. \<exists>s\<in>st_claimed st. rs_Name s = d \<and> claims s x)) \<and>
     (\<forall>k s. st_applied st k = Some s \<longrightarrow> record_desired s (T k) \<and> (\<forall>x\<in>B (rs_Name s). \<not> claims s x))"

lemma accountD:
  assumes "account recs w0 st B T"
  shows "recs (ext (st_world st)) d = B d \<union> own (st_applied st) T d" "rrset_ok (recs (ext (st_world st)) d)" "x \<in> B d \<Longrightarrow> x \<in> recs (ext w0) d"
    "x \<in> recs (ext w0) d \<Longrightarrow> x \<notin> B d \<Longrightarrow> \<exists>s\<in>st_claimed st. rs_Name s = d \<and> claims s x"
    "st_applied st k = Some s \<Longrightarrow> record_desired s (T k)"
    "st_applied st k = Some s \<Longrightarrow> x \<in> B (rs_Name s) \<Longrightarrow> \<not> claims s x"
  using assms unfolding account_def by blast+

lemma accountI:
  assumes "\<And>d. recs (ext (st_world st)) d = B d \<union> own (st_applied st) T d" "\<And>d. rrset_ok (recs (ext (st_world st)) d)" "\<And>d x. x \<in> B d \<Longrightarrow> x \<in> recs (ext w0) d"
    "\<And>d x. x \<in> recs (ext w0) d \<Longrightarrow> x \<notin> B d \<Longrightarrow> \<exists>s\<in>st_claimed st. rs_Name s = d \<and> claims s x"
    "\<And>k s. st_applied st k = Some s \<Longrightarrow> record_desired s (T k)"
    "\<And>k s x. st_applied st k = Some s \<Longrightarrow> x \<in> B (rs_Name s) \<Longrightarrow> \<not> claims s x"
  shows "account recs w0 st B T"
  using assms unfolding account_def by blast

lemma own_applied: "own (A(k \<mapsto> s)) (T(k := tr)) d = (if rs_Name s = d then insert tr (own (A(k := None)) T d) else own (A(k := None)) T d)"
  by (auto simp: own_def)

lemma own_split: "own A T d = own (A(k := None)) T d \<union> (case A k of Some s \<Rightarrow> if rs_Name s = d then {T k} else {} | None \<Rightarrow> {})"
  by (auto simp: own_def split: option.splits) (metis option.distinct(1) option.inject)+

text \<open>The records of the other Records are none of this Record's, neither of its spec nor of what it applied before.\<close>

lemma others_unclaimed:
  assumes "records_ok zone st" "account recs w0 st B T" "st_records st k = Some rec" "x \<in> own ((st_applied st)(k := None)) T (rs_Name (rec_Spec rec))"
  shows "\<not> claims (rec_Spec rec) x \<and> \<not> claims (appliedSpec rec) x"
proof -
  obtain j s where j: "j \<noteq> k" "st_applied st j = Some s" "rs_Name s = rs_Name (rec_Spec rec)" "x = T j"
    using assms(4) by (auto simp: own_def split: if_splits)
  obtain r where r: "st_records st j = Some r" "status_ok zone r (Some s)"
    using assms(1) j(2) unfolding records_ok_def by (metis not_None_eq)
  have "claims s x" using accountD(5)[OF assms(2)] j record_desired_claims by blast
  then have x: "claims (appliedSpec r) x" using status_claims[OF r(2)] by simp
  have "apart r rec" and "status_ok zone rec (st_applied st k)" using assms(1,3) j(1) r(1) unfolding records_ok_def by blast+
  then show ?thesis
    using separate_claims[OF _ _ _ _ x] status_spec_ok[of zone rec] status_applied(4,5)[OF r(2)] j(3) by (auto simp: apart_def)
qed

text \<open>What nobody claimed is not what this Record applied before, unless that is its spec.\<close>

lemma base_unclaimed:
  assumes "records_ok zone st" "account recs w0 st B T" "st_records st k = Some rec" "x \<in> B (rs_Name (rec_Spec rec))" "\<not> claims (rec_Spec rec) x"
  shows "\<not> claims (appliedSpec rec) x"
proof (cases "st_applied st k")
  case None
  then show ?thesis using assms(1,3,5) status_unapplied unfolding records_ok_def by metis
next
  case (Some s)
  then have "status_ok zone rec (Some s)" using assms(1,3) unfolding records_ok_def by metis
  then show ?thesis using accountD(6)[OF assms(2) Some] assms(4) status_claims[of zone rec s x] by (auto simp: status_ok_def)
qed

lemma own_before_claimed:
  assumes "records_ok zone st" "account recs w0 st B T" "st_records st k = Some rec" "st_applied st k = Some s"
  shows "claims (appliedSpec rec) (T k)" "rs_Name s = rs_Name (rec_Spec rec)" "record_desired s (T k)"
proof -
  have ok: "status_ok zone rec (Some s)" using assms(1,3,4) unfolding records_ok_def by metis
  show d: "record_desired s (T k)" by (rule accountD(5)[OF assms(2,4)])
  show "claims (appliedSpec rec) (T k)" using status_claims[OF ok] record_desired_claims[OF d] by simp
  show "rs_Name s = rs_Name (rec_Spec rec)" using ok by (simp add: status_ok_def)
qed

lemma rrset_ok_subset: "rrset_ok S \<Longrightarrow> S' \<subseteq> S \<Longrightarrow> rrset_ok S'"
  unfolding rrset_ok_def by (meson subsetD)

lemma pass_account:
  assumes laws: "record_laws api zone recs" and ok: "records_ok zone st" and acc: "account recs w0 st B T"
    and k: "st_records st k = Some rec" and co: "coexists (rs_Type (rec_Spec rec)) (recs (ext (st_world st)) (rs_Name (rec_Spec rec)))"
    and run: "run_state (applyRecord api rec) (st_world st) = (r, w')"
  shows "r = Inr () \<and> (\<exists>B' T'. account recs w0 (st\<lparr>st_records := R, st_world := w', st_applied := (st_applied st)(k \<mapsto> rec_Spec rec),
      st_claimed := insert (rec_Spec rec) (st_claimed st)\<rparr>) B' T')"
proof -
  let ?spec = "rec_Spec rec"
  let ?n = "rs_Name ?spec"
  have st: "status_ok zone rec (st_applied st k)" using ok k unfolding records_ok_def by blast
  then obtain ttl where spec: "rs_Zone ?spec = zone" "rs_TTL ?spec = Some ttl" by (auto simp: status_ok_def complete_def)
  have wf: "rrset_ok (recs (ext (st_world st)) ?n)" by (rule accountD(2)[OF acc])
  obtain tr where r: "r = Inr ()" and tr: "record_desired ?spec tr"
    and w': "recs (ext w') = (recs (ext (st_world st)))(?n := rrset_apply ?spec (appliedSpec rec) tr (recs (ext (st_world st)) ?n))"
    and wf': "rrset_ok (recs (ext w') ?n)"
    using applyRecord_effect[of api rec recs, unfolded spec(1), OF laws _ _ _ spec(2) wf co run] status_spec_ok[OF st] st
    unfolding status_ok_def by blast
  let ?B = "B(?n := {x \<in> B ?n. \<not> claims ?spec x})" and ?T = "T(k := tr)"
  let ?others = "own ((st_applied st)(k := None)) T"
  have S: "recs (ext (st_world st)) d = B d \<union> ?others d \<union> (case st_applied st k of Some s \<Rightarrow> if rs_Name s = d then {T k} else {} | None \<Rightarrow> {})" for d
    using accountD(1)[OF acc, of d] own_split[of "st_applied st" T d k] by auto
  have "rrset_apply ?spec (appliedSpec rec) tr (recs (ext (st_world st)) ?n) = ?B ?n \<union> insert tr (?others ?n)"
    unfolding S rrset_apply_def using others_unclaimed[OF ok acc k] base_unclaimed[OF ok acc k] own_before_claimed(1)[OF ok acc k]
    by (auto split: option.splits if_splits)
  moreover have "recs (ext (st_world st)) d = B d \<union> ?others d" if "d \<noteq> ?n" for d
    using S[of d] own_before_claimed(2)[OF ok acc k] that by (auto split: option.splits)
  ultimately have "recs (ext w') d = ?B d \<union> own ((st_applied st)(k \<mapsto> ?spec)) ?T d" for d
    unfolding w' own_applied by auto
  moreover have "rrset_ok (recs (ext w') d)" for d
    using wf' w' accountD(2)[OF acc, of d] by (cases "d = ?n") simp_all
  ultimately have "account recs w0 (st\<lparr>st_records := R, st_world := w', st_applied := (st_applied st)(k \<mapsto> ?spec),
      st_claimed := insert ?spec (st_claimed st)\<rparr>) ?B ?T"
    using accountD(3-6)[OF acc] tr by (intro accountI) (auto split: if_splits)
  then show ?thesis using r by blast
qed

lemma delete_account:
  assumes laws: "record_laws api zone recs" and ok: "records_ok zone st" and acc: "account recs w0 st B T"
    and k: "st_records st k = Some rec" and run: "run_state (record_cleanup api rec) (st_world st) = (r, w')"
  shows "r = Inr () \<and> (\<exists>B' T'. account recs w0 (st\<lparr>st_records := R, st_world := w', st_applied := (st_applied st)(k := None),
      st_claimed := insert (appliedSpec rec) (st_claimed st)\<rparr>) B' T')"
proof -
  let ?a = "appliedSpec rec"
  let ?n = "rs_Name (rec_Spec rec)"
  let ?hit = "\<lambda>x. tr_Type x = rs_Type ?a \<and> recordDataMatches ?a x"
  have st: "status_ok zone rec (st_applied st k)" using ok k unfolding records_ok_def by blast
  then have a: "spec_ok ?a" "rs_Zone ?a = zone" using status_spec_ok by (auto simp: status_ok_def complete_def)
  have "record_delete_law api zone recs" using laws by (simp add: record_laws_def)
  moreover have "carries (rs_Type ?a) (setRecordValue zero_record_value ?a) x \<longleftrightarrow> ?hit x" for x
    by (rule value_of_spec(2)[OF a(1)])
  ultimately have "\<exists>w'. run_state (tolerate ErrRecordNotFound (ra_DeleteRecord api (deleteOptionsFromSpec ?a))) (st_world st) = (Inr (), w') \<and>
      recs (ext w') = (recs (ext (st_world st)))(?n := {x \<in> recs (ext (st_world st)) ?n. \<not> ?hit x})"
    using delete_record[OF _ value_of_spec(1)[OF a(1)], of api zone recs ?n "st_world st"] a(2)
    by (simp only: deleteOptionsFromSpec_def appliedSpec_sel)
  then have r: "r = Inr ()" and w': "recs (ext w') = (recs (ext (st_world st)))(?n := {x \<in> recs (ext (st_world st)) ?n. \<not> ?hit x})"
    using run by (auto simp: record_cleanup_def)
  have hit: "claims ?a x" if "?hit x" for x using that by (simp add: claims_def)
  let ?B = "B(?n := {x \<in> B ?n. \<not> ?hit x})"
  let ?others = "own ((st_applied st)(k := None)) T"
  have S: "recs (ext (st_world st)) d = B d \<union> ?others d \<union> (case st_applied st k of Some s \<Rightarrow> if rs_Name s = d then {T k} else {} | None \<Rightarrow> {})" for d
    using accountD(1)[OF acc, of d] own_split[of "st_applied st" T d k] by auto
  have own: "?hit (T k)" if "st_applied st k = Some s" for s
    using own_before_claimed(3)[OF ok acc k that] status_applied(1-3)[of zone rec s] matches_cong[of ?a s "T k"] st that
    by (simp add: record_desired_def)
  have "{x \<in> recs (ext (st_world st)) ?n. \<not> ?hit x} = ?B ?n \<union> ?others ?n"
    unfolding S using others_unclaimed[OF ok acc k] hit own by (auto split: option.splits if_splits)
  moreover have "recs (ext (st_world st)) d = B d \<union> ?others d" if "d \<noteq> ?n" for d
    using S[of d] own_before_claimed(2)[OF ok acc k] that by (auto split: option.splits)
  ultimately have "recs (ext w') d = ?B d \<union> ?others d" for d
    unfolding w' by auto
  moreover have "rrset_ok (recs (ext w') d)" for d
    using w' rrset_ok_subset[OF accountD(2)[OF acc, of d]] by (cases "d = ?n") auto
  ultimately have "account recs w0 (st\<lparr>st_records := R, st_world := w', st_applied := (st_applied st)(k := None),
      st_claimed := insert ?a (st_claimed st)\<rparr>) ?B T"
    using accountD(3-6)[OF acc] hit by (intro accountI) (auto split: if_splits)
  then show ?thesis using r by blast
qed

lemma records_account:
  assumes "record_laws api zone recs" "\<And>d. rrset_ok (recs (ext w0) d)" "records_reach api zone recs w0 st"
  shows "\<exists>B T. account recs w0 st B T"
  using assms(3)
proof (induction rule: records_reach.induct)
  case start
  show ?case by (rule exI[of _ "recs (ext w0)"]) (use assms(2) in \<open>auto simp: account_def own_def\<close>)
next
  case (create st k rec)
  then show ?case by (auto simp: account_def)
next
  case (edit st k rec spec)
  then show ?case by (auto simp: account_def)
next
  case (pass st k rec w')
  then show ?case using pass_account[OF assms(1) reach_records_ok] by metis
next
  case (delete st k rec w')
  then show ?case using delete_account[OF assms(1) reach_records_ok] by metis
qed


definition new_record :: record_resource where
  "new_record = moved_record\<lparr>rec_Status := (rec_Status moved_record)\<lparr>rst_RecordCreated := False, rst_AppliedData := []\<rparr>\<rparr>"

lemma new_record_pass:
  "run_state (applyRecord memory_record_api new_record) (empty_world []) =
     (Inr (), empty_world [memory_record ''www.example.com'' ''A'' 300 (zero_record_value\<lparr>rv_IPAddress := ''10.0.0.3''\<rparr>)])"
  by (simp add: new_record_def moved_record_def applyRecord_def memory_record_api_def run_or_return findRecord_def tolerate_if_def
      deleteStaleRecord_def addOptionsFromSpec_def setRecordValue_def record_type_defs empty_world_def Let_def)


section \<open>A pass that is cut short\<close>

text \<open>A server that takes new records and answers every deletion with an error, without effect.\<close>

definition record_delete_fails :: "'s record_api \<Rightarrow> ('s \<Rightarrow> string \<Rightarrow> dns_record set) \<Rightarrow> bool" where
  "record_delete_fails api recs \<longleftrightarrow> (\<forall>opts w. \<exists>e w'. run_state (ra_DeleteRecord api opts) w = (Inl e, w') \<and>
     \<not> errors_Is e ErrRecordNotFound \<and> recs (ext w') = recs (ext w))"

lemma interrupted_pass:
  assumes laws: "record_read_law bad (rs_Zone (rec_Spec rec)) recs" "record_add_law bad (rs_Zone (rec_Spec rec)) recs" "record_delete_fails bad recs"
    and spec: "complete zone (rec_Spec rec)" "rs_Type (rec_Spec rec) \<noteq> RecordTypeCNAME" "separate (rec_Spec rec) (appliedSpec rec)"
      "rst_AppliedData (rec_Status rec) \<noteq> []"
    and co: "coexists (rs_Type (rec_Spec rec)) (recs (ext w) (rs_Name (rec_Spec rec)))"
    and new: "\<forall>x\<in>recs (ext w) (rs_Name (rec_Spec rec)). \<not> claims (rec_Spec rec) x"
    and old: "\<exists>x\<in>recs (ext w) (rs_Name (rec_Spec rec)). claims (appliedSpec rec) x"
  shows "\<exists>e w1 tr. run_state (applyRecord bad rec) w = (Inl e, w1) \<and> record_desired (rec_Spec rec) tr \<and>
    recs (ext w1) = (recs (ext w))(rs_Name (rec_Spec rec) := insert tr (recs (ext w) (rs_Name (rec_Spec rec))))"
proof -
  let ?spec = "rec_Spec rec"
  obtain ttl where ttl: "rs_TTL ?spec = Some ttl" "spec_ok ?spec" using spec(1) by (auto simp: complete_def)
  obtain records w0 where get: "run_state (ra_GetRecords bad (rs_Zone ?spec) (rs_Name ?spec)) w = (Inr records, w0)"
    and records: "set records = recs (ext w) (rs_Name ?spec)" "recs (ext w0) = recs (ext w)"
    using laws(1) unfolding record_read_law_def by metis
  have none: "findRecord records ?spec = None" using new records by (simp add: findRecord_None)
  obtain stale where stale: "findRecord records (appliedSpec rec) = Some stale"
    using old records findRecord_None by (metis not_None_eq)
  obtain tr w1 where add: "run_state (tolerate ErrRecordAlreadyExists (ra_AddRecord bad (addOptionsFromSpec ?spec))) w0 = (Inr (), w1)"
    "record_desired ?spec tr" "recs (ext w1) = (recs (ext w))(rs_Name ?spec := insert tr (recs (ext w) (rs_Name ?spec)))"
    using add_desired[of bad ?spec recs ttl w0 ErrRecordAlreadyExists] laws(2) ttl new co records(2) spec(2) by auto
  obtain e w2 where "run_state (ra_DeleteRecord bad (deleteOptionsFromCurrent ?spec (records ! stale))) w1 = (Inl e, w2)"
    "\<not> errors_Is e ErrRecordNotFound" "recs (ext w2) = recs (ext w1)"
    using laws(3) unfolding record_delete_fails_def by metis
  moreover have "\<not> (rst_AppliedData (rec_Status rec) = rs_Data ?spec \<and> rst_AppliedPriority (rec_Status rec) = rs_Priority ?spec)"
    using spec(2-4) by (auto simp: separate_def appliedSpec_def split: if_splits)
  ultimately have "run_state (applyRecord bad rec) w = (Inl e, w2)" "recs (ext w2) = recs (ext w1)"
    using get none add(1) stale spec(2,4)
    by (simp_all add: applyRecord_def run_or_return deleteStaleRecord_def tolerate_if_def Let_def)
  with add show ?thesis by metis
qed

text \<open>
  (C30) A record can be left behind for good. A Record is edited and its pass adds the new record, but fails on the deletion of the
  old one; before the next pass it is edited again. That pass succeeds, and from then on neither the spec nor the status
  knows of the record in between: it is still on the server, and it is still there after the Record is deleted.
\<close>

theorem interrupted_edit_leaks:
  assumes laws: "record_laws api zone recs" "record_read_law bad zone recs" "record_add_law bad zone recs" "record_delete_fails bad recs"
    and spec: "complete zone (rec_Spec rec)" "rs_Type (rec_Spec rec) \<noteq> RecordTypeCNAME" "separate (rec_Spec rec) (appliedSpec rec)"
      "rst_AppliedData (rec_Status rec) \<noteq> []" "spec_ok (appliedSpec rec)" "nonzero_MX (appliedSpec rec)"
    and next_spec: "complete zone s" "rs_Name s = rs_Name (rec_Spec rec)" "rs_Type s = rs_Type (rec_Spec rec)" "separate s (rec_Spec rec)"
    and wf: "rrset_ok (recs (ext w) (rs_Name s))" "coexists (rs_Type s) (recs (ext w) (rs_Name s))"
    and new: "\<forall>x\<in>recs (ext w) (rs_Name s). \<not> claims (rec_Spec rec) x" and old: "\<exists>x\<in>recs (ext w) (rs_Name s). claims (appliedSpec rec) x"
    and run1: "run_state (applyRecord bad rec) w = (r1, w1)"
    and run2: "run_state (applyRecord api (rec\<lparr>rec_Spec := s\<rparr>)) w1 = (r2, w2)"
    and run3: "run_state (record_cleanup api (record_applied_fields s (rec\<lparr>rec_Spec := s\<rparr>))) w2 = (r3, w3)"
  shows "(\<exists>e. r1 = Inl e) \<and> r2 = Inr () \<and> r3 = Inr () \<and>
    (\<exists>x. record_desired (rec_Spec rec) x \<and> \<not> claims s x \<and> x \<in> recs (ext w2) (rs_Name s) \<and> x \<in> recs (ext w3) (rs_Name s))"
proof -
  let ?spec = "rec_Spec rec" and ?rec = "rec\<lparr>rec_Spec := s\<rparr>" and ?n = "rs_Name (rec_Spec rec)"
  let ?S = "recs (ext w) ?n" and ?last = "record_applied_fields s (rec\<lparr>rec_Spec := s\<rparr>)"
  have ok: "spec_ok ?spec" "spec_ok s" "rs_Zone ?spec = zone" "rs_Zone s = zone" using spec(1) next_spec(1) by (auto simp: complete_def)
  obtain ttl where ttl: "rs_TTL s = Some ttl" using next_spec(1) by (auto simp: complete_def)
  obtain e x where fail: "r1 = Inl e" and x: "record_desired ?spec x" and w1: "recs (ext w1) = (recs (ext w))(?n := insert x ?S)"
    using interrupted_pass[of bad rec recs zone w] laws(2-4) spec new old wf run1 next_spec(2,3) ok(3) by auto
  have same: "claims (appliedSpec ?rec) y = claims (appliedSpec rec) y" for y
    by (rule claims_cong) (simp_all add: appliedSpec_def spec(4) next_spec(3))
  have a: "spec_ok (appliedSpec ?rec)" "stale_removable ?rec"
    using spec(4-6) next_spec(3) by (simp_all add: appliedSpec_def spec_ok_def stale_removable_def nonzero_MX_def)
  have cx: "claims ?spec x" by (rule record_desired_claims[OF x])
  have apart: "\<not> claims s x" "\<not> claims (appliedSpec rec) x"
    using separate_claims[OF ok(1,2) _ _ cx] separate_claims[OF ok(1) spec(5,3) _ cx] next_spec by (simp_all add: separate_sym)
  have "insert x ?S = rrset_apply ?spec ?spec x ?S" using new next_spec(2) by (auto simp: rrset_apply_def)
  then have "rrset_ok (recs (ext w1) ?n)" using rrset_apply_ok[OF ok(1) x] wf(1) next_spec(2) w1 by simp
  moreover have "coexists (rs_Type s) (recs (ext w1) ?n)"
    using wf(2) x next_spec(2,3) w1 by (auto simp: coexists_def record_desired_def)
  ultimately have r2: "r2 = Inr ()" and "\<exists>tr. recs (ext w2) = (recs (ext w1))(?n := rrset_apply s (appliedSpec ?rec) tr (insert x ?S))"
    using applyRecord_effect[of api ?rec recs ttl w1 r2 w2] laws(1) ok a ttl run2 next_spec(2) w1 by auto
  then have x2: "x \<in> recs (ext w2) ?n" using apart same by (auto simp: rrset_apply_def)
  have "appliedSpec ?last = s" using ok(2) by (simp add: appliedSpec_def record_applied_fields_def spec_ok_def)
  then have "r3 = Inr () \<and> recs (ext w3) = (recs (ext w2))(?n := {y \<in> recs (ext w2) ?n. \<not> carries (rs_Type s) (setRecordValue zero_record_value s) y})"
    using delete_record[OF _ value_of_spec(1)[OF ok(2)], of api zone recs ?n w2] laws(1) run3 ok(4) next_spec(2)
    by (auto simp: record_cleanup_def deleteOptionsFromSpec_def record_laws_def)
  then have "r3 = Inr ()" "x \<in> recs (ext w3) ?n" using x2 apart(1) value_of_spec(2)[OF ok(2), of x] by (auto simp: claims_def)
  then show ?thesis using fail r2 x apart(1) x2 next_spec(2) by auto
qed

definition failing_record_api :: "dns_record list record_api" where
  "failing_record_api = memory_record_api\<lparr>ra_DeleteRecord := \<lambda>_. memory_call (\<lambda>s. (Inl (ErrorText ''timeout''), s))\<rparr>"

lemma failing_record_laws:
  "record_read_law failing_record_api zone memory_records" "record_add_law failing_record_api zone memory_records"
  "record_delete_fails failing_record_api memory_records"
  using memory_record_laws[of zone]
  by (simp_all add: failing_record_api_def record_laws_def record_read_law_def record_add_law_def record_delete_fails_def)

definition next_spec :: record_spec where
  "next_spec = (rec_Spec moved_record)\<lparr>rs_Data := ''10.0.0.4''\<rparr>"

theorem interrupted_edit_leaks_witness:
  "\<exists>x. record_desired (rec_Spec moved_record) x \<and> \<not> claims next_spec x \<and>
     x \<in> memory_records (ext (snd (run_state (applyRecord memory_record_api (moved_record\<lparr>rec_Spec := next_spec\<rparr>))
       (snd (run_state (applyRecord failing_record_api moved_record) (empty_world [address_record ''10.0.0.2'']))))))
       ''www.example.com''"
proof -
  let ?w = "empty_world [address_record ''10.0.0.2'']"
  have n: "rs_Name next_spec = ''www.example.com''" "rs_Type next_spec = ''A''" by (simp_all add: next_spec_def moved_record_def)
  have S: "memory_records (ext ?w) ''www.example.com'' = {address_record ''10.0.0.2''}"
    by (auto simp: memory_records_def empty_world_def address_record_def memory_record_def)
  have spec: "complete ''example.com'' (rec_Spec moved_record)" "rs_Type (rec_Spec moved_record) \<noteq> RecordTypeCNAME"
    "separate (rec_Spec moved_record) (appliedSpec moved_record)" "rst_AppliedData (rec_Status moved_record) \<noteq> []" "spec_ok (appliedSpec moved_record)"
    "nonzero_MX (appliedSpec moved_record)"
    by (simp_all add: nonzero_MX_def moved_record_def complete_def spec_ok_def record_types_def record_type_defs separate_def appliedSpec_def)
  have nxt: "complete ''example.com'' next_spec" "rs_Name next_spec = rs_Name (rec_Spec moved_record)"
    "rs_Type next_spec = rs_Type (rec_Spec moved_record)" "separate next_spec (rec_Spec moved_record)"
    by (simp_all add: next_spec_def moved_record_def complete_def spec_ok_def record_types_def record_type_defs separate_def)
  have wf: "rrset_ok (memory_records (ext ?w) (rs_Name next_spec))" "coexists (rs_Type next_spec) (memory_records (ext ?w) (rs_Name next_spec))"
    unfolding n S by (simp_all add: rrset_ok_def coexists_def address_record_def memory_record_def record_type_defs)
  have claims: "\<forall>x\<in>memory_records (ext ?w) (rs_Name next_spec). \<not> claims (rec_Spec moved_record) x"
    "\<exists>x\<in>memory_records (ext ?w) (rs_Name next_spec). claims (appliedSpec moved_record) x"
    unfolding n S by (simp_all add: claims_def address_record_def memory_record_def moved_record_def appliedSpec_def recordDataMatches_def
        record_type_defs zero_record_value_def)
  show ?thesis
    using interrupted_edit_leaks[OF memory_record_laws failing_record_laws spec nxt wf claims prod.collapse[symmetric] prod.collapse[symmetric]
        prod.collapse[symmetric]] unfolding n by blast
qed

end
