(* ===== verification/Go_Heap.thy ===== *)
theory Go_Heap
  imports Go_Prelude "HOL-Library.Multiset" "HOL-Library.AList"
begin

text \<open>
  Go values with their references: structs, pointers, slices and maps in a store. The component theories work on
  values, in which nothing is shared; here sharing is explicit, so that it can be stated that a copy shares
  nothing with its original.

  A struct is the list of its fields, a pointer the address of a cell, a slice the address of its backing array
  with an offset and a length, a map the address of a table. The store is the list of its cells and an allocation
  appends one. A computation returns \<^const>\<open>None\<close> where Go panics (a nil or dangling reference).
\<close>

section \<open>Types, values and the store\<close>

datatype go_type = TBool | TInt | TString
  | TStruct "(string \<times> go_type) list"
  | TPtr go_type
  | TSlice go_type
  | TMap go_type

datatype go_lit = LBool bool | LInt int | LString string

datatype go_val = GLit go_lit
  | GRec "(string \<times> go_val) list"
  | GNil
  | GPtr nat
  | GSlice nat nat nat
  | GMap nat

datatype go_cell = Cell go_val | Array "go_val list" | Table "(string \<times> go_val) list"

type_synonym go_heap = "go_cell list"

definition cell_at :: "go_heap \<Rightarrow> nat \<Rightarrow> go_cell option" where
  "cell_at h a = (if a < length h then Some (h ! a) else None)"

definition load :: "go_val \<Rightarrow> go_heap \<Rightarrow> go_val option" where
  "load v h = (case v of GPtr a \<Rightarrow> (case cell_at h a of Some (Cell x) \<Rightarrow> Some x | _ \<Rightarrow> None) | _ \<Rightarrow> None)"

definition slice_elems :: "go_val \<Rightarrow> go_heap \<Rightarrow> go_val list option" where
  "slice_elems v h = (case v of
     GSlice a off n \<Rightarrow> (case cell_at h a of Some (Array xs) \<Rightarrow> if off + n \<le> length xs then Some (take n (drop off xs)) else None | _ \<Rightarrow> None)
   | _ \<Rightarrow> None)"

definition map_entries :: "go_val \<Rightarrow> go_heap \<Rightarrow> (string \<times> go_val) list option" where
  "map_entries v h = (case v of GMap a \<Rightarrow> (case cell_at h a of Some (Table kvs) \<Rightarrow> Some kvs | _ \<Rightarrow> None) | _ \<Rightarrow> None)"

text \<open>The zero value of a type, with which \<^verbatim>\<open>new\<close> and \<^verbatim>\<open>make\<close> fill what they allocate.\<close>

fun zero_value :: "go_type \<Rightarrow> go_val" where
  "zero_value TBool = GLit (LBool False)"
| "zero_value TInt = GLit (LInt 0)"
| "zero_value TString = GLit (LString [])"
| "zero_value (TStruct fs) = GRec (map (\<lambda>(n, t). (n, zero_value t)) fs)"
| "zero_value (TPtr t) = GNil"
| "zero_value (TSlice t) = GNil"
| "zero_value (TMap t) = GNil"

section \<open>What a value denotes\<close>

text \<open>
  The tree a value stands for, with every reference followed: two values with the same tree are equal for a
  program that only reads them. There is none for a value that does not have the type.
\<close>

datatype go_data = DLit go_lit
  | DRec "(string \<times> go_data) list"
  | DNil
  | DPtr go_data
  | DSlice "go_data list"
  | DMap "string \<Rightarrow> go_data option"

fun denote :: "go_heap \<Rightarrow> go_type \<Rightarrow> go_val \<Rightarrow> go_data option"
and denote_fields :: "go_heap \<Rightarrow> (string \<times> go_type) list \<Rightarrow> (string \<times> go_val) list \<Rightarrow> (string \<times> go_data) list option" where
  "denote h TBool v = (case v of GLit (LBool b) \<Rightarrow> Some (DLit (LBool b)) | _ \<Rightarrow> None)"
| "denote h TInt v = (case v of GLit (LInt i) \<Rightarrow> Some (DLit (LInt i)) | _ \<Rightarrow> None)"
| "denote h TString v = (case v of GLit (LString s) \<Rightarrow> Some (DLit (LString s)) | _ \<Rightarrow> None)"
| "denote h (TStruct fs) v = (case v of GRec vs \<Rightarrow> map_option DRec (denote_fields h fs vs) | _ \<Rightarrow> None)"
| "denote h (TPtr t) v = (if v = GNil then Some DNil else Option.bind (load v h) (\<lambda>x. map_option DPtr (denote h t x)))"
| "denote h (TSlice t) v =
     (if v = GNil then Some DNil else Option.bind (slice_elems v h) (\<lambda>xs. map_option DSlice (those (map (\<lambda>x. denote h t x) xs))))"
| "denote h (TMap t) v =
     (if v = GNil then Some DNil
      else Option.bind (map_entries v h) (\<lambda>kvs.
        if distinct (map fst kvs) \<and> list_all (\<lambda>kv. denote h t (snd kv) \<noteq> None) kvs
        then Some (DMap (\<lambda>k. Option.bind (map_of kvs k) (\<lambda>x. denote h t x))) else None))"
| "denote_fields h [] vs = (if vs = [] then Some [] else None)"
| "denote_fields h (f # fs) vs =
     (case vs of [] \<Rightarrow> None
      | v # vs' \<Rightarrow> if fst v = fst f
          then Option.bind (denote h (snd f) (snd v)) (\<lambda>d. map_option (\<lambda>ds. (fst f, d) # ds) (denote_fields h fs vs')) else None)"

text \<open>The addresses a value reaches.\<close>

fun reach :: "go_heap \<Rightarrow> go_type \<Rightarrow> go_val \<Rightarrow> nat list"
and reach_fields :: "go_heap \<Rightarrow> (string \<times> go_type) list \<Rightarrow> (string \<times> go_val) list \<Rightarrow> nat list" where
  "reach h (TStruct fs) v = (case v of GRec vs \<Rightarrow> reach_fields h fs vs | _ \<Rightarrow> [])"
| "reach h (TPtr t) v = (case v of GPtr a \<Rightarrow> (case load v h of Some x \<Rightarrow> a # reach h t x | None \<Rightarrow> []) | _ \<Rightarrow> [])"
| "reach h (TSlice t) v =
     (case v of GSlice a off n \<Rightarrow> (case slice_elems v h of Some xs \<Rightarrow> a # concat (map (\<lambda>x. reach h t x) xs) | None \<Rightarrow> []) | _ \<Rightarrow> [])"
| "reach h (TMap t) v =
     (case v of GMap a \<Rightarrow> (case map_entries v h of Some kvs \<Rightarrow> a # concat (map (\<lambda>kv. reach h t (snd kv)) kvs) | None \<Rightarrow> []) | _ \<Rightarrow> [])"
| "reach h _ v = []"
| "reach_fields h [] vs = []"
| "reach_fields h (f # fs) vs = (case vs of [] \<Rightarrow> [] | v # vs' \<Rightarrow> reach h (snd f) (snd v) @ reach_fields h fs vs')"

text \<open>A type whose values hold no reference: an assignment copies them completely.\<close>

fun plain :: "go_type \<Rightarrow> bool" where
  "plain (TStruct fs) = list_all (\<lambda>f. plain (snd f)) fs"
| "plain (TPtr t) = False"
| "plain (TSlice t) = False"
| "plain (TMap t) = False"
| "plain _ = True"

lemma those_map_Some: "those (map f xs) = Some ys \<longleftrightarrow> list_all2 (\<lambda>x y. f x = Some y) xs ys"
  by (induction xs arbitrary: ys) (auto split: option.splits simp: list_all2_Cons1)

lemma load_frame:
  assumes "load v h = Some x"
  obtains a where "v = GPtr a" "cell_at h a = Some (Cell x)"
  using assms by (auto simp: load_def split: go_val.splits option.splits go_cell.splits)

lemma slice_frame:
  assumes "slice_elems v h = Some xs"
  obtains a off n ys where "v = GSlice a off n" "cell_at h a = Some (Array ys)" "off + n \<le> length ys" "xs = take n (drop off ys)"
  using assms by (auto simp: slice_elems_def split: go_val.splits option.splits go_cell.splits if_splits)

lemma map_frame:
  assumes "map_entries v h = Some kvs"
  obtains a where "v = GMap a" "cell_at h a = Some (Table kvs)"
  using assms by (auto simp: map_entries_def split: go_val.splits option.splits go_cell.splits)

text \<open>Frame: what is not reached does not matter.\<close>

lemma denote_frame:
  "denote h T v = Some d \<Longrightarrow> \<forall>a\<in>set (reach h T v). cell_at h' a = cell_at h a
     \<Longrightarrow> denote h' T v = Some d \<and> reach h' T v = reach h T v"
  "denote_fields h fs vs = Some ds \<Longrightarrow> \<forall>a\<in>set (reach_fields h fs vs). cell_at h' a = cell_at h a
     \<Longrightarrow> denote_fields h' fs vs = Some ds \<and> reach_fields h' fs vs = reach_fields h fs vs"
proof (induction h T v and h fs vs arbitrary: d and ds rule: denote_denote_fields.induct)
  case (4 h fs v)
  then show ?case by (auto split: go_val.splits)
next
  case (5 h t v)
  show ?case
  proof (cases "v = GNil")
    case False
    then obtain x e where x: "load v h = Some x" "denote h t x = Some e" "d = DPtr e"
      using 5(2) by (auto simp: bind_eq_Some_conv)
    then obtain a where a: "v = GPtr a" "cell_at h a = Some (Cell x)" by (metis load_frame)
    then have "load v h' = Some x" using 5(3) x by (simp add: load_def)
    then show ?thesis using 5(1)[OF False, of x e] 5(3) x a by simp
  qed (use 5 in simp)
next
  case (6 h t v)
  show ?case
  proof (cases "v = GNil")
    case False
    then obtain xs es where x: "slice_elems v h = Some xs" "those (map (denote h t) xs) = Some es" "d = DSlice es"
      using 6(2) by (auto simp: bind_eq_Some_conv)
    then obtain a off n ys where a: "v = GSlice a off n" "cell_at h a = Some (Array ys)" "off + n \<le> length ys" "xs = take n (drop off ys)"
      by (metis slice_frame)
    then have s: "slice_elems v h' = Some xs" using 6(3) x by (simp add: slice_elems_def)
    have "denote h' t y = denote h t y \<and> reach h' t y = reach h t y" if "y \<in> set xs" for y
    proof -
      obtain e where "denote h t y = Some e"
        using x(2) \<open>y \<in> set xs\<close> by (auto simp: those_map_Some list_all2_conv_all_nth in_set_conv_nth)
      moreover have "set (reach h t y) \<subseteq> set (reach h (TSlice t) v)"
        using x a \<open>y \<in> set xs\<close> by auto
      ultimately show ?thesis using 6(1)[OF False x(1) that] 6(3) by (metis subsetD)
    qed
    then have "map (denote h' t) xs = map (denote h t) xs" "map (reach h' t) xs = map (reach h t) xs" by simp_all
    then show ?thesis using s x(1,2,3) a(1) False by (simp del: map_eq_conv)
  qed (use 6 in simp)
next
  case (7 h t v)
  show ?case
  proof (cases "v = GNil")
    case False
    then obtain kvs where x: "map_entries v h = Some kvs" "distinct (map fst kvs)" "list_all (\<lambda>kv. denote h t (snd kv) \<noteq> None) kvs"
      "d = DMap (\<lambda>k. Option.bind (map_of kvs k) (denote h t))"
      using 7(3) by (auto simp: bind_eq_Some_conv split: if_splits)
    then obtain a where a: "v = GMap a" "cell_at h a = Some (Table kvs)" by (metis map_frame)
    then have s: "map_entries v h' = Some kvs" using 7(4) x by (simp add: map_entries_def)
    have eq: "denote h' t (snd kv) = denote h t (snd kv) \<and> reach h' t (snd kv) = reach h t (snd kv)" if "kv \<in> set kvs" for kv
    proof -
      obtain e where "denote h t (snd kv) = Some e" using x(3) \<open>kv \<in> set kvs\<close> by (auto simp: list_all_iff)
      moreover have "set (reach h t (snd kv)) \<subseteq> set (reach h (TMap t) v)" using x a that by auto
      ultimately show ?thesis using 7(1)[OF False x(1) that] 7(4) by (metis subsetD)
    qed
    have "(\<lambda>k. Option.bind (map_of kvs k) (denote h' t)) = (\<lambda>k. Option.bind (map_of kvs k) (denote h t))"
      using eq by (force dest: map_of_SomeD split: bind_splits)
    moreover have "map (\<lambda>kv. reach h' t (snd kv)) kvs = map (\<lambda>kv. reach h t (snd kv)) kvs" using eq by simp
    ultimately show ?thesis using s x a(1) False eq by (auto simp: list_all_iff simp del: map_eq_conv)
  qed (use 7 in simp)
next
  case (9 h f fs vs)
  then show ?case by (force simp: bind_eq_Some_conv split: list.splits if_splits)
qed (auto split: go_val.splits go_lit.splits if_splits)


lemma reach_bound:
  "set (reach h T v) \<subseteq> {..<length h}"
  "set (reach_fields h fs vs) \<subseteq> {..<length h}"
  by (induction h T v and h fs vs rule: reach_reach_fields.induct)
    (fastforce simp: load_def slice_elems_def map_entries_def cell_at_def split: go_val.splits option.splits go_cell.splits if_splits list.splits)+

lemma plain_reach:
  "plain T \<Longrightarrow> reach h T v = []"
  "list_all (\<lambda>f. plain (snd f)) fs \<Longrightarrow> reach_fields h fs vs = []"
  by (induction h T v and h fs vs rule: reach_reach_fields.induct) (auto split: go_val.splits list.splits)

text \<open>\<open>v\<close> denotes \<open>d\<close> and reaches nothing below \<open>n\<close>.\<close>

definition fresh_at :: "nat \<Rightarrow> go_heap \<Rightarrow> go_type \<Rightarrow> go_val \<Rightarrow> go_data \<Rightarrow> bool" where
  "fresh_at n h T v d \<longleftrightarrow> denote h T v = Some d \<and> (\<forall>a\<in>set (reach h T v). n \<le> a)"

lemma cell_at_append [simp]: "a < length h \<Longrightarrow> cell_at (h @ ext) a = cell_at h a"
  by (simp add: cell_at_def nth_append)

lemma cell_at_new [simp]: "cell_at (h @ c # ext) (length h) = Some c"
  by (simp add: cell_at_def)

lemma cell_at_update: "cell_at (h[b := c]) a = (if a = b \<and> a < length h then Some c else cell_at h a)"
  by (simp add: cell_at_def)

lemma denote_append: "denote h T v = Some d \<Longrightarrow> denote (h @ ext) T v = Some d \<and> reach (h @ ext) T v = reach h T v"
proof -
  assume d: "denote h T v = Some d"
  have "\<forall>a\<in>set (reach h T v). cell_at (h @ ext) a = cell_at h a"
    using reach_bound(1)[of h T v] by (simp add: subset_iff)
  then show ?thesis using denote_frame(1)[OF d] by blast
qed

lemma fresh_append: "fresh_at n h T v d \<Longrightarrow> fresh_at n (h @ ext) T v d"
  using denote_append[of h T v d ext] by (simp add: fresh_at_def)

lemma denote_update: "denote h T v = Some d \<Longrightarrow> b \<notin> set (reach h T v) \<Longrightarrow> denote (h[b := c]) T v = Some d \<and> reach (h[b := c]) T v = reach h T v"
  by (rule denote_frame(1)) (auto simp: cell_at_update)

lemma fresh_update: "fresh_at n h T v d \<Longrightarrow> b < n \<Longrightarrow> fresh_at n (h[b := c]) T v d"
  using denote_update[of h T v d b c] by (fastforce simp: fresh_at_def)

lemma fresh_mono: "fresh_at n h T v d \<Longrightarrow> m \<le> n \<Longrightarrow> fresh_at m h T v d"
  by (auto simp: fresh_at_def)

lemma fresh_plain: "plain T \<Longrightarrow> denote h T v = Some d \<Longrightarrow> fresh_at n h T v d"
  by (simp add: fresh_at_def plain_reach)

lemma denote_fields_nth:
  "denote_fields h fs vs = Some ds \<longleftrightarrow> length vs = length fs \<and> length ds = length fs \<and>
     (\<forall>i<length fs. fst (vs ! i) = fst (fs ! i) \<and> fst (ds ! i) = fst (fs ! i) \<and> denote h (snd (fs ! i)) (snd (vs ! i)) = Some (snd (ds ! i)))"
proof (induction fs arbitrary: vs ds)
  case (Cons f fs)
  show ?case
  proof (cases "vs = [] \<or> ds = []")
    case False
    then obtain v vs' d ds' where "vs = v # vs'" "ds = d # ds'" by (meson list.exhaust)
    then show ?thesis using Cons[of vs' ds'] by (cases d) (force simp: All_less_Suc2 bind_eq_Some_conv)
  qed (auto simp: bind_eq_Some_conv split: list.splits if_splits)
qed auto

lemma reach_fields_nth:
  "length vs = length fs \<Longrightarrow> set (reach_fields h fs vs) = (\<Union>i<length fs. set (reach h (snd (fs ! i)) (snd (vs ! i))))"
proof (induction fs arbitrary: vs)
  case (Cons f fs)
  then obtain v vs' where "vs = v # vs'" "length vs' = length fs" by (cases vs) auto
  then show ?case using Cons.IH[of vs'] by (simp add: lessThan_Suc_eq_insert_0 image_image)
qed simp

lemma fresh_struct:
  "fresh_at n h (TStruct fs) (GRec vs) (DRec ds) \<longleftrightarrow> length vs = length fs \<and> length ds = length fs \<and>
     (\<forall>i<length fs. fst (vs ! i) = fst (fs ! i) \<and> fst (ds ! i) = fst (fs ! i) \<and> fresh_at n h (snd (fs ! i)) (snd (vs ! i)) (snd (ds ! i)))"
proof (cases "denote_fields h fs vs = Some ds")
  case True
  then have "set (reach_fields h fs vs) = (\<Union>i<length fs. set (reach h (snd (fs ! i)) (snd (vs ! i))))"
    by (intro reach_fields_nth) (simp add: denote_fields_nth)
  then show ?thesis using True by (auto simp: fresh_at_def denote_fields_nth)
qed (auto simp: fresh_at_def denote_fields_nth)

section \<open>Copying\<close>

text \<open>
  A copier reads a value and returns the value written to the destination. These are the statements the copying
  functions are made of: assignment, \<^verbatim>\<open>new\<close>, \<^verbatim>\<open>make\<close>, the loops over slices and maps, and the guard
  \<^verbatim>\<open>if in.F != nil\<close>, in which the destination keeps the nil it was assigned.
\<close>

type_synonym copier = "go_val \<Rightarrow> go_heap \<Rightarrow> (go_val \<times> go_heap) option"

definition assign :: copier where
  "assign v h = Some (v, h)"

definition unless_nil :: "copier \<Rightarrow> copier" where
  "unless_nil f v h = (if v = GNil then Some (v, h) else f v h)"

definition new_into :: "go_type \<Rightarrow> copier \<Rightarrow> copier" where
  "new_into T f v h = do {
     x \<leftarrow> load v h;
     (y, h') \<leftarrow> f x (h @ [Cell (zero_value T)]);
     Some (GPtr (length h), h'[length h := Cell y])
   }"

definition make_copy :: "go_type \<Rightarrow> copier" where
  "make_copy T v h = do {
     xs \<leftarrow> slice_elems v h;
     Some (GSlice (length h) 0 (length xs), (h @ [Array (replicate (length xs) (zero_value T))])[length h := Array xs])
   }"

definition store_elem :: "nat \<Rightarrow> nat \<Rightarrow> go_val \<Rightarrow> go_heap \<Rightarrow> go_heap option" where
  "store_elem a i y h = (case cell_at h a of Some (Array ys) \<Rightarrow> if i < length ys then Some (h[a := Array (ys[i := y])]) else None | _ \<Rightarrow> None)"

fun copy_each :: "copier \<Rightarrow> nat \<Rightarrow> nat \<Rightarrow> go_val list \<Rightarrow> go_heap \<Rightarrow> go_heap option" where
  "copy_each f a i [] h = Some h"
| "copy_each f a i (x # xs) h = do {
     (y, h') \<leftarrow> f x h;
     h'' \<leftarrow> store_elem a i y h';
     copy_each f a (Suc i) xs h''
   }"

definition make_each :: "go_type \<Rightarrow> copier \<Rightarrow> copier" where
  "make_each T f v h = do {
     xs \<leftarrow> slice_elems v h;
     h' \<leftarrow> copy_each f (length h) 0 xs (h @ [Array (replicate (length xs) (zero_value T))]);
     Some (GSlice (length h) 0 (length xs), h')
   }"

text \<open>The order in which \<^verbatim>\<open>range\<close> visits a map is not specified: it is the argument \<open>order\<close>.\<close>

definition make_map :: "((string \<times> go_val) list \<Rightarrow> (string \<times> go_val) list) \<Rightarrow> copier" where
  "make_map order v h = do {
     kvs \<leftarrow> map_entries v h;
     Some (GMap (length h), h @ [Table (fold (\<lambda>(k, x) t. AList.update k x t) (order kvs) [])])
   }"

definition get_field :: "string \<Rightarrow> go_val \<Rightarrow> go_val option" where
  "get_field F v = (case v of GRec vs \<Rightarrow> map_of vs F | _ \<Rightarrow> None)"

definition set_field :: "string \<Rightarrow> go_val \<Rightarrow> go_val \<Rightarrow> go_val" where
  "set_field F w v = (case v of GRec vs \<Rightarrow> GRec (map (\<lambda>(n, x). (n, if n = F then w else x)) vs) | _ \<Rightarrow> v)"

fun copy_fields :: "(string \<times> copier) list \<Rightarrow> go_val \<Rightarrow> copier" where
  "copy_fields [] v out h = Some (out, h)"
| "copy_fields (s # ss) v out h = do {
     x \<leftarrow> get_field (fst s) v;
     (y, h') \<leftarrow> snd s x h;
     copy_fields ss v (set_field (fst s) y out) h'
   }"

text \<open>A copy of a struct: \<^verbatim>\<open>*out = *in\<close>, then a statement for each field that needs one.\<close>

definition copy_struct :: "(string \<times> copier) list \<Rightarrow> copier" where
  "copy_struct ss v h = copy_fields ss v v h"

section \<open>The contract of a deep copy\<close>

text \<open>
  A deep copy does not panic, changes no cell there was, and yields a value with the same tree that reaches only
  cells allocated for it.
\<close>

locale deep_copier =
  fixes T :: go_type and f :: copier
  assumes copies: "denote h T v = Some d \<Longrightarrow> \<exists>v' ext. f v h = Some (v', h @ ext) \<and> fresh_at (length h) (h @ ext) T v' d"
begin

lemma copyE:
  assumes "denote h T v = Some d"
  obtains v' ext where "f v h = Some (v', h @ ext)" "fresh_at (length h) (h @ ext) T v' d"
  using copies[OF assms] by blast

text \<open>Writing to what either value reaches is not seen through the other one.\<close>

lemma isolated:
  assumes "denote h T v = Some d"
  shows "\<exists>v' h'. f v h = Some (v', h') \<and> take (length h) h' = h \<and> denote h' T v' = Some d \<and> denote h' T v = Some d
    \<and> (\<forall>a c. a \<in> set (reach h' T v') \<longrightarrow> denote (h'[a := c]) T v = Some d)
    \<and> (\<forall>a c. a \<in> set (reach h' T v) \<longrightarrow> denote (h'[a := c]) T v' = Some d)"
proof -
  obtain v' ext where c: "f v h = Some (v', h @ ext)" "fresh_at (length h) (h @ ext) T v' d"
    using copyE[OF assms] .
  have v: "denote (h @ ext) T v = Some d" "reach (h @ ext) T v = reach h T v"
    using denote_append[OF assms] by simp_all
  have "denote ((h @ ext)[a := x]) T v = Some d" if "a \<in> set (reach (h @ ext) T v')" for a x
  proof -
    have "a \<notin> set (reach (h @ ext) T v)" using that c(2) v(2) reach_bound(1)[of h T v] by (fastforce simp: fresh_at_def)
    then show ?thesis using denote_update[OF v(1)] by blast
  qed
  moreover have "denote ((h @ ext)[a := x]) T v' = Some d" if "a \<in> set (reach (h @ ext) T v)" for a x
  proof -
    have "a < length h" using that v(2) reach_bound(1)[of h T v] by auto
    then show ?thesis using fresh_update[OF c(2)] by (simp add: fresh_at_def)
  qed
  moreover have "denote (h @ ext) T v' = Some d" using c(2) by (simp add: fresh_at_def)
  ultimately show ?thesis using c(1) v(1) by auto
qed

end

section \<open>The statements keep the contract\<close>

named_theorems copier_intros \<open>deep copies made of the statements of the copying functions\<close>

lemma assign_copier [copier_intros]: "plain T \<Longrightarrow> deep_copier T assign"
  by unfold_locales (auto simp: assign_def intro!: exI[of _ "[]"] fresh_plain)

lemma unless_nil_copier:
  assumes "\<And>h v d. denote h T v = Some d \<Longrightarrow> v \<noteq> GNil \<Longrightarrow> \<exists>v' ext. f v h = Some (v', h @ ext) \<and> fresh_at (length h) (h @ ext) T v' d"
    and "\<And>h. reach h T GNil = []"
  shows "deep_copier T (unless_nil f)"
proof
  fix h v d assume d: "denote h T v = Some d"
  show "\<exists>v' ext. unless_nil f v h = Some (v', h @ ext) \<and> fresh_at (length h) (h @ ext) T v' d"
  proof (cases "v = GNil")
    case True
    then show ?thesis using d assms(2) by (auto simp: unless_nil_def fresh_at_def intro!: exI[of _ "[]"])
  next
    case False
    then show ?thesis using assms(1)[OF d False] by (simp add: unless_nil_def)
  qed
qed

lemma new_into_copier [copier_intros]:
  assumes "deep_copier T f"
  shows "deep_copier (TPtr T) (unless_nil (new_into T f))"
proof (rule unless_nil_copier)
  fix h v d assume "denote h (TPtr T) v = Some d" "v \<noteq> GNil"
  then obtain x e where x: "load v h = Some x" "denote h T x = Some e" "d = DPtr e"
    by (auto simp: bind_eq_Some_conv)
  let ?h = "h @ [Cell (zero_value T)]"
  have "denote ?h T x = Some e" using denote_append[OF x(2)] by simp
  then obtain y ext where y: "f x ?h = Some (y, ?h @ ext)" "fresh_at (length ?h) (?h @ ext) T y e"
    using deep_copier.copyE[OF assms] by blast
  have "fresh_at (Suc (length h)) (h @ Cell y # ext) T y e"
    using fresh_update[OF y(2), of "length h" "Cell y"] by simp
  then have "fresh_at (length h) (h @ Cell y # ext) (TPtr T) (GPtr (length h)) d"
    using x(3) by (auto simp: fresh_at_def load_def)
  then show "\<exists>v' ext. new_into T f v h = Some (v', h @ ext) \<and> fresh_at (length h) (h @ ext) (TPtr T) v' d"
    using x y by (auto simp: new_into_def)
qed simp

lemma fresh_slice:
  assumes "list_all2 (fresh_at (Suc (length h)) (h @ Array ys # ext) T) ys ds"
  shows "fresh_at (length h) (h @ Array ys # ext) (TSlice T) (GSlice (length h) 0 (length ys)) (DSlice ds)"
proof -
  have "those (map (denote (h @ Array ys # ext) T) ys) = Some ds"
    using assms by (auto simp: those_map_Some fresh_at_def elim: list_all2_mono)
  moreover have "\<forall>y\<in>set ys. \<forall>a\<in>set (reach (h @ Array ys # ext) T y). length h \<le> a"
  proof (intro ballI)
    fix y a assume "y \<in> set ys" and a: "a \<in> set (reach (h @ Array ys # ext) T y)"
    then obtain d where "fresh_at (Suc (length h)) (h @ Array ys # ext) T y d"
      using assms by (metis list_all2_conv_all_nth in_set_conv_nth)
    then show "length h \<le> a" using a by (auto simp: fresh_at_def)
  qed
  ultimately show ?thesis by (simp add: fresh_at_def slice_elems_def)
qed

lemma denote_sliceE:
  assumes "denote h (TSlice T) v = Some d" "v \<noteq> GNil"
  obtains xs ds where "slice_elems v h = Some xs" "list_all2 (\<lambda>x e. denote h T x = Some e) xs ds" "d = DSlice ds"
  using assms by (auto simp: bind_eq_Some_conv those_map_Some)

lemma make_copy_copier [copier_intros]:
  assumes "plain T"
  shows "deep_copier (TSlice T) (unless_nil (make_copy T))"
proof (rule unless_nil_copier)
  fix h v d assume "denote h (TSlice T) v = Some d" "v \<noteq> GNil"
  then obtain xs ds where x: "slice_elems v h = Some xs" "list_all2 (\<lambda>x e. denote h T x = Some e) xs ds" "d = DSlice ds"
    by (rule denote_sliceE)
  have "list_all2 (fresh_at (Suc (length h)) (h @ [Array xs]) T) xs ds"
    using x(2) by (rule list_all2_mono) (use assms denote_append in \<open>auto intro!: fresh_plain\<close>)
  then have "fresh_at (length h) (h @ [Array xs]) (TSlice T) (GSlice (length h) 0 (length xs)) d"
    using fresh_slice x(3) by blast
  then show "\<exists>v' ext. make_copy T v h = Some (v', h @ ext) \<and> fresh_at (length h) (h @ ext) (TSlice T) v' d"
    using x by (auto simp: make_copy_def)
qed simp

lemma copy_each_fresh:
  assumes "deep_copier T f"
  shows "list_all2 (fresh_at (Suc (length h)) (h @ Array (ys @ zs) # ext) T) ys es \<Longrightarrow> length zs = length xs
    \<Longrightarrow> list_all2 (\<lambda>x e. denote h T x = Some e) xs ds
    \<Longrightarrow> \<exists>ws ext'. copy_each f (length h) (length ys) xs (h @ Array (ys @ zs) # ext) = Some (h @ Array (ys @ ws) # ext')
          \<and> length ws = length xs \<and> list_all2 (fresh_at (Suc (length h)) (h @ Array (ys @ ws) # ext') T) (ys @ ws) (es @ ds)"
proof (induction xs arbitrary: ys zs es ds ext)
  case (Cons x xs)
  then obtain z zs' e ds' where zs: "zs = z # zs'" "length zs' = length xs" and ds: "ds = e # ds'"
    "denote h T x = Some e" "list_all2 (\<lambda>x e. denote h T x = Some e) xs ds'"
    by (cases zs) (auto simp: list_all2_Cons1)
  let ?h = "h @ Array (ys @ zs) # ext"
  have "denote ?h T x = Some e" using denote_append[OF ds(2)] by blast
  then obtain y ex where y: "f x ?h = Some (y, ?h @ ex)" "fresh_at (length ?h) (?h @ ex) T y e"
    using deep_copier.copyE[OF assms] by blast
  let ?h' = "h @ Array ((ys @ [y]) @ zs') # ext @ ex"
  have st: "store_elem (length h) (length ys) y (?h @ ex) = Some ?h'"
    by (simp add: store_elem_def zs(1))
  have upd: "fresh_at (Suc (length h)) ?h' T w c" if "fresh_at (Suc (length h)) (?h @ ex) T w c" for w c
    using fresh_update[OF that, of "length h" "Array ((ys @ [y]) @ zs')"] by simp
  have "list_all2 (fresh_at (Suc (length h)) ?h' T) ys es"
    using Cons.prems(1) by (rule list_all2_mono) (use fresh_append[of _ ?h T _ _ ex] upd in simp)
  moreover have "fresh_at (Suc (length h)) ?h' T y e"
    by (rule upd, rule fresh_mono[OF y(2)]) simp
  ultimately have "list_all2 (fresh_at (Suc (length h)) ?h' T) (ys @ [y]) (es @ [e])"
    by (simp add: list_all2_appendI)
  from Cons.IH[OF this zs(2) ds(3)] obtain ws ext' where ws:
    "copy_each f (length h) (length (ys @ [y])) xs ?h' = Some (h @ Array ((ys @ [y]) @ ws) # ext')"
    "length ws = length xs"
    "list_all2 (fresh_at (Suc (length h)) (h @ Array ((ys @ [y]) @ ws) # ext') T) ((ys @ [y]) @ ws) ((es @ [e]) @ ds')"
    by blast
  then show ?case using y(1) st ds(1) by (intro exI[of _ "y # ws"] exI[of _ ext']) simp
qed auto

lemma make_each_copier [copier_intros]:
  assumes "deep_copier T f"
  shows "deep_copier (TSlice T) (unless_nil (make_each T f))"
proof (rule unless_nil_copier)
  fix h v d assume "denote h (TSlice T) v = Some d" "v \<noteq> GNil"
  then obtain xs ds where x: "slice_elems v h = Some xs" "list_all2 (\<lambda>x e. denote h T x = Some e) xs ds" "d = DSlice ds"
    by (rule denote_sliceE)
  obtain ws ext where "copy_each f (length h) 0 xs (h @ [Array (replicate (length xs) (zero_value T))]) = Some (h @ Array ws # ext)"
    "length ws = length xs" "list_all2 (fresh_at (Suc (length h)) (h @ Array ws # ext) T) ws ds"
    using copy_each_fresh[OF assms _ _ x(2), where ys = "[]" and es = "[]" and ext = "[]" and zs = "replicate (length xs) (zero_value T)"] by auto
  then show "\<exists>v' ext. make_each T f v h = Some (v', h @ ext) \<and> fresh_at (length h) (h @ ext) (TSlice T) v' d"
    using x(1,3) fresh_slice[of h ws ext T ds] by (auto simp: make_each_def)
qed simp

lemma fold_update_map_of:
  "map_of (fold (\<lambda>(k, x) t. AList.update k x t) kvs t) = map_of t ++ map_of (rev kvs)"
  "distinct (map fst t) \<Longrightarrow> distinct (map fst (fold (\<lambda>(k, x) t. AList.update k x t) kvs t))"
  by (induction kvs arbitrary: t) (auto simp: update_conv' distinct_update map_add_def fun_eq_iff split: option.splits)

lemma range_copy_entries:
  assumes "distinct (map fst kvs)" "mset (order kvs) = mset kvs"
  shows "map_of (fold (\<lambda>(k, x) t. AList.update k x t) (order kvs) []) = map_of kvs"
    and "distinct (map fst (fold (\<lambda>(k, x) t. AList.update k x t) (order kvs) []))"
    and "set (fold (\<lambda>(k, x) t. AList.update k x t) (order kvs) []) = set kvs"
proof -
  let ?t = "fold (\<lambda>(k, x) t. AList.update k x t) (order kvs) []"
  have "distinct (map fst (order kvs))"
    using assms by (metis mset_eq_imp_distinct_iff mset_map)
  then have "map_of (rev (order kvs)) = map_of kvs"
    using assms by (subst map_of_inject_set) (auto simp: rev_map[symmetric] dest: mset_eq_setD)
  then show m: "map_of ?t = map_of kvs" by (simp add: fold_update_map_of(1))
  show "distinct (map fst ?t)" by (rule fold_update_map_of(2)) simp
  then show "set ?t = set kvs" using m assms(1) map_of_inject_set by blast
qed

lemma make_map_copier [copier_intros]:
  assumes "plain T" and order: "\<And>kvs. mset (order kvs) = mset kvs"
  shows "deep_copier (TMap T) (unless_nil (make_map order))"
proof (rule unless_nil_copier)
  fix h v d assume "denote h (TMap T) v = Some d" "v \<noteq> GNil"
  then obtain kvs where x: "map_entries v h = Some kvs" "distinct (map fst kvs)" "list_all (\<lambda>kv. denote h T (snd kv) \<noteq> None) kvs"
    "d = DMap (\<lambda>k. Option.bind (map_of kvs k) (denote h T))"
    by (auto simp: bind_eq_Some_conv split: if_splits)
  let ?t = "fold (\<lambda>(k, x) t. AList.update k x t) (order kvs) []"
  let ?h = "h @ [Table ?t]"
  note t = range_copy_entries[where order = order, OF x(2) order]
  have eq: "denote ?h T (snd kv) = denote h T (snd kv)" if "kv \<in> set kvs" for kv
  proof -
    obtain e where "denote h T (snd kv) = Some e" using x(3) \<open>kv \<in> set kvs\<close> by (auto simp: list_all_iff)
    then show ?thesis using denote_append by metis
  qed
  have "(\<lambda>k. Option.bind (map_of ?t k) (denote ?h T)) = (\<lambda>k. Option.bind (map_of kvs k) (denote h T))"
    using eq by (force simp: t(1) dest: map_of_SomeD split: bind_splits)
  then have "fresh_at (length h) ?h (TMap T) (GMap (length h)) d"
    using x eq t(2,3) assms(1) by (auto simp: fresh_at_def map_entries_def plain_reach list_all_iff)
  then show "\<exists>v' ext. make_map order v h = Some (v', h @ ext) \<and> fresh_at (length h) (h @ ext) (TMap T) v' d"
    using x(1) by (auto simp: make_map_def)
qed simp

text \<open>
  A struct: every field with references has a statement that copies it. The loop keeps that the fields without a
  statement to come are copied already.
\<close>

definition copies_fields :: "(string \<times> go_type) list \<Rightarrow> (string \<times> copier) list \<Rightarrow> bool" where
  "copies_fields fs ss \<longleftrightarrow> distinct (map fst fs)
     \<and> list_all (\<lambda>s. case map_of fs (fst s) of Some t \<Rightarrow> deep_copier t (snd s) | None \<Rightarrow> False) ss
     \<and> list_all (\<lambda>f. fst f \<in> fst ` set ss \<or> plain (snd f)) fs"

lemma map_of_nth_distinct: "distinct (map fst xs) \<Longrightarrow> i < length xs \<Longrightarrow> map_of xs (fst (xs ! i)) = Some (snd (xs ! i))"
  by (simp add: map_of_eq_Some_iff)

lemma copy_fields_fresh:
  assumes fs: "distinct (map fst fs)" and vs: "denote_fields h fs vs = Some ds"
  shows "list_all (\<lambda>s. case map_of fs (fst s) of Some t \<Rightarrow> deep_copier t (snd s) | None \<Rightarrow> False) ss \<Longrightarrow>
    length ws = length fs \<Longrightarrow> \<forall>i<length fs. fst (ws ! i) = fst (fs ! i) \<Longrightarrow>
    \<forall>i<length fs. fst (fs ! i) \<notin> fst ` set ss \<longrightarrow> fresh_at (length h) (h @ ext) (snd (fs ! i)) (snd (ws ! i)) (snd (ds ! i)) \<Longrightarrow>
    \<exists>ws' ext'. copy_fields ss (GRec vs) (GRec ws) (h @ ext) = Some (GRec ws', h @ ext')
      \<and> fresh_at (length h) (h @ ext') (TStruct fs) (GRec ws') (DRec ds)"
proof (induction ss arbitrary: ws ext)
  case Nil
  then show ?case using vs by (auto simp: fresh_struct denote_fields_nth)
next
  case (Cons s ss)
  obtain t where t: "map_of fs (fst s) = Some t" "deep_copier t (snd s)"
    using Cons.prems(1) by (auto split: option.splits)
  then obtain j where j: "j < length fs" "fs ! j = (fst s, t)" by (metis map_of_SomeD in_set_conv_nth)
  have names: "length vs = length fs" "map fst vs = map fst fs"
    using vs by (auto simp: denote_fields_nth intro: nth_equalityI)
  then have "map_of vs (fst s) = Some (snd (vs ! j))"
    using map_of_nth_distinct[of vs j] fs j by (metis fst_conv nth_map)
  then have x: "get_field (fst s) (GRec vs) = Some (snd (vs ! j))" by (simp add: get_field_def)
  have "denote h t (snd (vs ! j)) = Some (snd (ds ! j))" using vs j by (auto simp: denote_fields_nth)
  then obtain y ex where y: "snd s (snd (vs ! j)) (h @ ext) = Some (y, (h @ ext) @ ex)"
    "fresh_at (length (h @ ext)) ((h @ ext) @ ex) t y (snd (ds ! j))"
    using deep_copier.copyE[OF t(2)] denote_append by metis
  define us where "us = map (\<lambda>(n, x). (n, if n = fst s then y else x)) ws"
  have other: "fst (fs ! i) = fst s \<longleftrightarrow> i = j" if "i < length fs" for i
    using that fs j nth_eq_iff_index_eq[OF fs, of i j] by auto
  have us: "us ! i = (fst (fs ! i), if i = j then y else snd (ws ! i))" if "i < length fs" for i
    using that Cons.prems(2,3) other[OF that] by (simp add: us_def case_prod_beta)
  have "fresh_at (length h) (h @ ext @ ex) (snd (fs ! i)) (snd (us ! i)) (snd (ds ! i))"
    if "i < length fs" "fst (fs ! i) \<notin> fst ` set ss" for i
  proof (cases "i = j")
    case True
    then show ?thesis using us[OF that(1)] j fresh_mono[OF y(2), of "length h"] by simp
  next
    case False
    then have "fst (fs ! i) \<noteq> fst s" using other[OF that(1)] by simp
    then show ?thesis using us[OF that(1)] False that Cons.prems(4) fresh_append[of _ "h @ ext" _ _ _ ex] by simp
  qed
  then have "\<exists>ws' ext'. copy_fields ss (GRec vs) (GRec us) (h @ ext @ ex) = Some (GRec ws', h @ ext')
      \<and> fresh_at (length h) (h @ ext') (TStruct fs) (GRec ws') (DRec ds)"
    using Cons.prems us by (intro Cons.IH) (auto simp: us_def)
  then show ?case using x y(1) by (auto simp: set_field_def us_def)
qed

lemma struct_copier:
  assumes "copies_fields fs ss"
  shows "deep_copier (TStruct fs) (copy_struct ss)"
proof
  fix h v d assume "denote h (TStruct fs) v = Some d"
  then obtain vs ds where d: "v = GRec vs" "d = DRec ds" "denote_fields h fs vs = Some ds"
    by (auto split: go_val.splits)
  have "fresh_at (length h) (h @ []) (snd (fs ! i)) (snd (vs ! i)) (snd (ds ! i))"
    if "i < length fs" "fst (fs ! i) \<notin> fst ` set ss" for i
    using that assms d(3) by (auto simp: copies_fields_def denote_fields_nth list_all_length intro!: fresh_plain)
  then have "\<exists>ws' ext'. copy_fields ss (GRec vs) (GRec vs) (h @ []) = Some (GRec ws', h @ ext')
      \<and> fresh_at (length h) (h @ ext') (TStruct fs) (GRec ws') (DRec ds)"
    using assms d(3) by (intro copy_fields_fresh) (auto simp: copies_fields_def denote_fields_nth)
  then show "\<exists>v' ext. copy_struct ss v h = Some (v', h @ ext) \<and> fresh_at (length h) (h @ ext) (TStruct fs) v' d"
    using d by (auto simp: copy_struct_def)
qed

section \<open>Objects\<close>

text \<open>
  A \<^verbatim>\<open>runtime.Object\<close> is an interface value: nil, or a pointer with the name of its type. A nil pointer in an
  interface is not the nil interface, which is why the pointer is tested before it is returned.
\<close>

datatype go_object = NilObject | Object string go_val

definition as_object :: "string \<Rightarrow> copier \<Rightarrow> go_val \<Rightarrow> go_heap \<Rightarrow> (go_object \<times> go_heap) option" where
  "as_object name f v h = do {
     (c, h') \<leftarrow> f v h;
     Some (if c \<noteq> GNil then Object name c else NilObject, h')
   }"

end
