(* ===== verification/Api_Layout.thy ===== *)
theory Api_Layout
  imports Go_Heap
begin

text \<open>
  The API types of the operator (\<^verbatim>\<open>api/v1alpha1/*_types.go\<close>) with their references: every struct as the list of its fields,
  in the order of the source, with pointers, slices and maps where the source has them. A named string or number type is the
  basic type it is defined as. The types of the Kubernetes libraries are looked up in a parameter, as are their copying
  functions.
\<close>

text \<open>
  \<open>ka_type\<close> is the layout of a type of the libraries, \<open>ka_into\<close> its \<^verbatim>\<open>DeepCopyInto\<close> (for \<^verbatim>\<open>resource.Quantity\<close>, whose
  \<^verbatim>\<open>DeepCopy\<close> returns a value, that one), \<open>ka_ptr\<close> the \<^verbatim>\<open>DeepCopy\<close> of a pointer; \<open>ka_order\<close> is the order in which \<^verbatim>\<open>range\<close>
  visits a map.
\<close>

record k8s_api =
  ka_type :: "string \<Rightarrow> go_type"
  ka_into :: "string \<Rightarrow> copier"
  ka_ptr :: "string \<Rightarrow> copier"
  ka_order :: "(string \<times> go_val) list \<Rightarrow> (string \<times> go_val) list"

text \<open>The types that are copied with their own functions, and those that are copied by assignment.\<close>

definition k8s_copied :: "string list" where
  "k8s_copied = [''corev1.Affinity'', ''corev1.ResourceRequirements'', ''corev1.Toleration'', ''corev1.TopologySpreadConstraint'', ''metav1.Condition'', ''metav1.ListMeta'', ''metav1.ObjectMeta'', ''metav1.Time'', ''resource.Quantity'']"

definition k8s_assigned :: "string list" where
  "k8s_assigned = [''corev1.ServiceExternalTrafficPolicy'', ''corev1.ServiceType'', ''intstr.IntOrString'', ''metav1.TypeMeta'']"

text \<open>
  What the copies rely on: the library's own deep copies meet the contract (the location of a \<^verbatim>\<open>metav1.Time\<close>, which is never
  written to, is part of its value), the types that are assigned hold no references, and \<^verbatim>\<open>range\<close> visits every
  entry of a map once.
\<close>

definition k8s_api_laws :: "k8s_api \<Rightarrow> bool" where
  "k8s_api_laws K \<longleftrightarrow> list_all (\<lambda>n. deep_copier (ka_type K n) (ka_into K n)) k8s_copied
     \<and> deep_copier (TPtr (ka_type K ''metav1.Time'')) (ka_ptr K ''metav1.Time'')
     \<and> list_all (\<lambda>n. plain (ka_type K n)) k8s_assigned
     \<and> (\<forall>kvs. mset (ka_order K kvs) = mset kvs)"

section \<open>The structs\<close>

definition SecretReference_layout :: "k8s_api \<Rightarrow> go_type" where
  "SecretReference_layout K = TStruct [(''Name'', TString), (''Namespace'', TString)]"

definition BlocklistSpec_layout :: "k8s_api \<Rightarrow> go_type" where
  "BlocklistSpec_layout K = TStruct
     [(''ServerRef'', SecretReference_layout K), (''Enabled'', TPtr TBool), (''BlockListURLs'', TSlice TString),
      (''UpdateIntervalHours'', TPtr TInt), (''BlockingType'', TPtr TString), (''AllowedDomains'', TSlice TString),
      (''BlockedDomains'', TSlice TString), (''DeletionPolicy'', TString)]"

definition BlocklistStatus_layout :: "k8s_api \<Rightarrow> go_type" where
  "BlocklistStatus_layout K = TStruct
     [(''Conditions'', TSlice (ka_type K ''metav1.Condition'')), (''ObservedGeneration'', TInt),
      (''AppliedBlockListURLs'', TSlice TString), (''AppliedAllowedDomains'', TSlice TString),
      (''AppliedBlockedDomains'', TSlice TString)]"

definition Blocklist_layout :: "k8s_api \<Rightarrow> go_type" where
  "Blocklist_layout K = TStruct
     [(''TypeMeta'', ka_type K ''metav1.TypeMeta''), (''ObjectMeta'', ka_type K ''metav1.ObjectMeta''),
      (''Spec'', BlocklistSpec_layout K), (''Status'', BlocklistStatus_layout K)]"

definition BlocklistList_layout :: "k8s_api \<Rightarrow> go_type" where
  "BlocklistList_layout K = TStruct
     [(''TypeMeta'', ka_type K ''metav1.TypeMeta''), (''ListMeta'', ka_type K ''metav1.ListMeta''),
      (''Items'', TSlice (Blocklist_layout K))]"

definition CacheSettings_layout :: "k8s_api \<Rightarrow> go_type" where
  "CacheSettings_layout K = TStruct
     [(''ServeStale'', TPtr TBool), (''ServeStaleTTLSeconds'', TPtr TInt), (''MaximumRecordTTLSeconds'', TPtr TInt),
      (''MinimumRecordTTLSeconds'', TPtr TInt)]"

definition DHCPReservation_layout :: "k8s_api \<Rightarrow> go_type" where
  "DHCPReservation_layout K = TStruct
     [(''HardwareAddress'', TString), (''IPAddress'', TString), (''HostName'', TPtr TString), (''Comments'', TPtr TString)]"

definition DHCPScopeSpec_layout :: "k8s_api \<Rightarrow> go_type" where
  "DHCPScopeSpec_layout K = TStruct
     [(''ServerRef'', SecretReference_layout K), (''ScopeName'', TString), (''StartingAddress'', TString),
      (''EndingAddress'', TString), (''SubnetMask'', TString), (''RouterAddress'', TPtr TString),
      (''DNSServers'', TSlice TString), (''LeaseTimeDays'', TPtr TInt), (''LeaseTimeHours'', TPtr TInt),
      (''LeaseTimeMinutes'', TPtr TInt), (''DomainName'', TPtr TString), (''Enabled'', TPtr TBool),
      (''Reservations'', TSlice (DHCPReservation_layout K)), (''DeletionPolicy'', TString)]"

definition DHCPScopeStatus_layout :: "k8s_api \<Rightarrow> go_type" where
  "DHCPScopeStatus_layout K = TStruct
     [(''Conditions'', TSlice (ka_type K ''metav1.Condition'')), (''ObservedGeneration'', TInt), (''ScopeCreated'', TBool),
      (''AppliedReservations'', TSlice TString)]"

definition DHCPScope_layout :: "k8s_api \<Rightarrow> go_type" where
  "DHCPScope_layout K = TStruct
     [(''TypeMeta'', ka_type K ''metav1.TypeMeta''), (''ObjectMeta'', ka_type K ''metav1.ObjectMeta''),
      (''Spec'', DHCPScopeSpec_layout K), (''Status'', DHCPScopeStatus_layout K)]"

definition DHCPScopeList_layout :: "k8s_api \<Rightarrow> go_type" where
  "DHCPScopeList_layout K = TStruct
     [(''TypeMeta'', ka_type K ''metav1.TypeMeta''), (''ListMeta'', ka_type K ''metav1.ListMeta''),
      (''Items'', TSlice (DHCPScope_layout K))]"

definition DNSAppSpec_layout :: "k8s_api \<Rightarrow> go_type" where
  "DNSAppSpec_layout K = TStruct
     [(''ServerRef'', SecretReference_layout K), (''AppName'', TString), (''URL'', TString), (''Version'', TString),
      (''Config'', TString), (''DeletionPolicy'', TString)]"

definition DNSAppStatus_layout :: "k8s_api \<Rightarrow> go_type" where
  "DNSAppStatus_layout K = TStruct
     [(''Conditions'', TSlice (ka_type K ''metav1.Condition'')), (''ObservedGeneration'', TInt),
      (''InstalledVersion'', TString)]"

definition DNSApp_layout :: "k8s_api \<Rightarrow> go_type" where
  "DNSApp_layout K = TStruct
     [(''TypeMeta'', ka_type K ''metav1.TypeMeta''), (''ObjectMeta'', ka_type K ''metav1.ObjectMeta''),
      (''Spec'', DNSAppSpec_layout K), (''Status'', DNSAppStatus_layout K)]"

definition DNSAppList_layout :: "k8s_api \<Rightarrow> go_type" where
  "DNSAppList_layout K = TStruct
     [(''TypeMeta'', ka_type K ''metav1.TypeMeta''), (''ListMeta'', ka_type K ''metav1.ListMeta''),
      (''Items'', TSlice (DNSApp_layout K))]"

definition DNSSECSpec_layout :: "k8s_api \<Rightarrow> go_type" where
  "DNSSECSpec_layout K = TStruct
     [(''ServerRef'', SecretReference_layout K), (''Zone'', TString), (''Algorithm'', TString),
      (''HashAlgorithm'', TPtr TString), (''KSKKeySize'', TPtr TInt), (''ZSKKeySize'', TPtr TInt),
      (''Curve'', TPtr TString), (''NSECType'', TString), (''NSEC3Iterations'', TPtr TInt),
      (''NSEC3SaltLength'', TPtr TInt), (''DNSKeyTTL'', TPtr TInt), (''ZSKRolloverDays'', TPtr TInt),
      (''DeletionPolicy'', TString)]"

definition DNSSECStatus_layout :: "k8s_api \<Rightarrow> go_type" where
  "DNSSECStatus_layout K = TStruct
     [(''Conditions'', TSlice (ka_type K ''metav1.Condition'')), (''ObservedGeneration'', TInt), (''Signed'', TBool)]"

definition DNSSEC_layout :: "k8s_api \<Rightarrow> go_type" where
  "DNSSEC_layout K = TStruct
     [(''TypeMeta'', ka_type K ''metav1.TypeMeta''), (''ObjectMeta'', ka_type K ''metav1.ObjectMeta''),
      (''Spec'', DNSSECSpec_layout K), (''Status'', DNSSECStatus_layout K)]"

definition DNSSECList_layout :: "k8s_api \<Rightarrow> go_type" where
  "DNSSECList_layout K = TStruct
     [(''TypeMeta'', ka_type K ''metav1.TypeMeta''), (''ListMeta'', ka_type K ''metav1.ListMeta''),
      (''Items'', TSlice (DNSSEC_layout K))]"

definition ForwarderProxy_layout :: "k8s_api \<Rightarrow> go_type" where
  "ForwarderProxy_layout K = TStruct
     [(''Type'', TString), (''Address'', TPtr TString), (''Port'', TPtr TInt), (''Username'', TPtr TString),
      (''Password'', TPtr TString)]"

definition ForwarderSettings_layout :: "k8s_api \<Rightarrow> go_type" where
  "ForwarderSettings_layout K = TStruct [(''Addresses'', TSlice TString), (''Protocol'', TPtr TString)]"

definition LoggingSettings_layout :: "k8s_api \<Rightarrow> go_type" where
  "LoggingSettings_layout K = TStruct
     [(''Enabled'', TPtr TBool), (''LogQueries'', TPtr TBool), (''UseLocalTime'', TPtr TBool), (''MaxFileDays'', TPtr TInt)]"

definition ObservedServerSettings_layout :: "k8s_api \<Rightarrow> go_type" where
  "ObservedServerSettings_layout K = TStruct
     [(''Forwarders'', TSlice TString), (''ForwarderProtocol'', TString), (''Recursion'', TString),
      (''RecursionNetworkACL'', TSlice TString), (''ServeStale'', TPtr TBool), (''ServeStaleTTLSeconds'', TPtr TInt),
      (''CacheMaximumRecordTTLSeconds'', TPtr TInt), (''CacheMinimumRecordTTLSeconds'', TPtr TInt),
      (''LoggingEnabled'', TPtr TBool), (''LogQueries'', TPtr TBool), (''UseLocalTime'', TPtr TBool),
      (''MaxLogFileDays'', TPtr TInt)]"

definition RecordSpec_layout :: "k8s_api \<Rightarrow> go_type" where
  "RecordSpec_layout K = TStruct
     [(''ServerRef'', SecretReference_layout K), (''Zone'', TString), (''Name'', TString), (''Type'', TString),
      (''TTL'', TPtr TInt), (''Data'', TString), (''Priority'', TPtr TInt), (''DeletionPolicy'', TString)]"

definition RecordStatus_layout :: "k8s_api \<Rightarrow> go_type" where
  "RecordStatus_layout K = TStruct
     [(''Conditions'', TSlice (ka_type K ''metav1.Condition'')), (''ObservedGeneration'', TInt), (''RecordCreated'', TBool),
      (''AppliedData'', TString), (''AppliedPriority'', TPtr TInt)]"

definition Record_layout :: "k8s_api \<Rightarrow> go_type" where
  "Record_layout K = TStruct
     [(''TypeMeta'', ka_type K ''metav1.TypeMeta''), (''ObjectMeta'', ka_type K ''metav1.ObjectMeta''),
      (''Spec'', RecordSpec_layout K), (''Status'', RecordStatus_layout K)]"

definition RecordList_layout :: "k8s_api \<Rightarrow> go_type" where
  "RecordList_layout K = TStruct
     [(''TypeMeta'', ka_type K ''metav1.TypeMeta''), (''ListMeta'', ka_type K ''metav1.ListMeta''),
      (''Items'', TSlice (Record_layout K))]"

definition RecursionSettings_layout :: "k8s_api \<Rightarrow> go_type" where
  "RecursionSettings_layout K = TStruct [(''Policy'', TString), (''NetworkACL'', TSlice TString)]"

definition ServerSettingsSpec_layout :: "k8s_api \<Rightarrow> go_type" where
  "ServerSettingsSpec_layout K = TStruct
     [(''ServerRef'', SecretReference_layout K), (''Forwarders'', TPtr (ForwarderSettings_layout K)),
      (''Recursion'', TPtr (RecursionSettings_layout K)), (''Cache'', TPtr (CacheSettings_layout K)),
      (''Logging'', TPtr (LoggingSettings_layout K)), (''DeletionPolicy'', TString)]"

definition ServerSettingsStatus_layout :: "k8s_api \<Rightarrow> go_type" where
  "ServerSettingsStatus_layout K = TStruct
     [(''Conditions'', TSlice (ka_type K ''metav1.Condition'')), (''ObservedGeneration'', TInt),
      (''Observed'', TPtr (ObservedServerSettings_layout K))]"

definition ServerSettings_layout :: "k8s_api \<Rightarrow> go_type" where
  "ServerSettings_layout K = TStruct
     [(''TypeMeta'', ka_type K ''metav1.TypeMeta''), (''ObjectMeta'', ka_type K ''metav1.ObjectMeta''),
      (''Spec'', ServerSettingsSpec_layout K), (''Status'', ServerSettingsStatus_layout K)]"

definition ServerSettingsList_layout :: "k8s_api \<Rightarrow> go_type" where
  "ServerSettingsList_layout K = TStruct
     [(''TypeMeta'', ka_type K ''metav1.TypeMeta''), (''ListMeta'', ka_type K ''metav1.ListMeta''),
      (''Items'', TSlice (ServerSettings_layout K))]"

definition TechnitiumClusterStorageSpec_layout :: "k8s_api \<Rightarrow> go_type" where
  "TechnitiumClusterStorageSpec_layout K = TStruct
     [(''Size'', ka_type K ''resource.Quantity''), (''StorageClassName'', TPtr TString), (''RetentionPolicy'', TString)]"

definition TechnitiumClusterReplicaServiceOverride_layout :: "k8s_api \<Rightarrow> go_type" where
  "TechnitiumClusterReplicaServiceOverride_layout K = TStruct [(''Ordinal'', TInt), (''Annotations'', TMap TString)]"

definition TechnitiumClusterPerReplicaServiceSpec_layout :: "k8s_api \<Rightarrow> go_type" where
  "TechnitiumClusterPerReplicaServiceSpec_layout K = TStruct
     [(''Type'', ka_type K ''corev1.ServiceType''),
      (''ExternalTrafficPolicy'', ka_type K ''corev1.ServiceExternalTrafficPolicy''), (''Annotations'', TMap TString),
      (''Ordinals'', TSlice (TechnitiumClusterReplicaServiceOverride_layout K))]"

definition TechnitiumClusterPrimaryServiceSpec_layout :: "k8s_api \<Rightarrow> go_type" where
  "TechnitiumClusterPrimaryServiceSpec_layout K = TStruct
     [(''Enabled'', TBool), (''Type'', ka_type K ''corev1.ServiceType''),
      (''ExternalTrafficPolicy'', ka_type K ''corev1.ServiceExternalTrafficPolicy''), (''Annotations'', TMap TString)]"

definition TechnitiumClusterServiceSpec_layout :: "k8s_api \<Rightarrow> go_type" where
  "TechnitiumClusterServiceSpec_layout K = TStruct
     [(''Type'', ka_type K ''corev1.ServiceType''), (''Annotations'', TMap TString),
      (''ExternalTrafficPolicy'', ka_type K ''corev1.ServiceExternalTrafficPolicy''), (''ExposeAPI'', TPtr TBool),
      (''PerReplica'', TPtr (TechnitiumClusterPerReplicaServiceSpec_layout K)),
      (''Primary'', TPtr (TechnitiumClusterPrimaryServiceSpec_layout K))]"

definition TechnitiumClusterPodDisruptionBudgetSpec_layout :: "k8s_api \<Rightarrow> go_type" where
  "TechnitiumClusterPodDisruptionBudgetSpec_layout K = TStruct
     [(''Enabled'', TPtr TBool), (''MaxUnavailable'', TPtr (ka_type K ''intstr.IntOrString''))]"

definition TechnitiumClusterSpec_layout :: "k8s_api \<Rightarrow> go_type" where
  "TechnitiumClusterSpec_layout K = TStruct
     [(''Image'', TString), (''Replicas'', TPtr TInt), (''Storage'', TechnitiumClusterStorageSpec_layout K),
      (''Resources'', ka_type K ''corev1.ResourceRequirements''), (''Affinity'', TPtr (ka_type K ''corev1.Affinity'')),
      (''TopologySpreadConstraints'', TSlice (ka_type K ''corev1.TopologySpreadConstraint'')),
      (''Tolerations'', TSlice (ka_type K ''corev1.Toleration'')), (''NodeSelector'', TMap TString),
      (''PriorityClassName'', TString), (''Service'', TechnitiumClusterServiceSpec_layout K),
      (''PodDisruptionBudget'', TechnitiumClusterPodDisruptionBudgetSpec_layout K),
      (''AdminSecretRef'', TPtr (SecretReference_layout K)), (''DNSServerDomain'', TString), (''ClusterDomain'', TString),
      (''DeletionPolicy'', TString)]"

definition TechnitiumClusterNodeStatus_layout :: "k8s_api \<Rightarrow> go_type" where
  "TechnitiumClusterNodeStatus_layout K = TStruct
     [(''Name'', TString), (''Role'', TString), (''State'', TString), (''Version'', TString),
      (''LastSynced'', TPtr (ka_type K ''metav1.Time'')), (''Message'', TString)]"

definition TechnitiumClusterRolloutStatus_layout :: "k8s_api \<Rightarrow> go_type" where
  "TechnitiumClusterRolloutStatus_layout K = TStruct
     [(''Node'', TString), (''NodeStartedTime'', ka_type K ''metav1.Time'')]"

definition TechnitiumClusterStatus_layout :: "k8s_api \<Rightarrow> go_type" where
  "TechnitiumClusterStatus_layout K = TStruct
     [(''Conditions'', TSlice (ka_type K ''metav1.Condition'')), (''Phase'', TString), (''ReadyReplicas'', TInt),
      (''Endpoint'', TString), (''PrimaryEndpoint'', TString), (''PrimaryService'', TString),
      (''ObservedGeneration'', TInt), (''Nodes'', TSlice (TechnitiumClusterNodeStatus_layout K)), (''Version'', TString),
      (''Members'', TString), (''Rollout'', TPtr (TechnitiumClusterRolloutStatus_layout K))]"

definition TechnitiumCluster_layout :: "k8s_api \<Rightarrow> go_type" where
  "TechnitiumCluster_layout K = TStruct
     [(''TypeMeta'', ka_type K ''metav1.TypeMeta''), (''ObjectMeta'', ka_type K ''metav1.ObjectMeta''),
      (''Spec'', TechnitiumClusterSpec_layout K), (''Status'', TechnitiumClusterStatus_layout K)]"

definition TechnitiumClusterList_layout :: "k8s_api \<Rightarrow> go_type" where
  "TechnitiumClusterList_layout K = TStruct
     [(''TypeMeta'', ka_type K ''metav1.TypeMeta''), (''ListMeta'', ka_type K ''metav1.ListMeta''),
      (''Items'', TSlice (TechnitiumCluster_layout K))]"

definition ZoneSpec_layout :: "k8s_api \<Rightarrow> go_type" where
  "ZoneSpec_layout K = TStruct
     [(''ZoneName'', TString), (''ServerRef'', SecretReference_layout K), (''Type'', TString),
      (''PrimaryNameServerAddresses'', TSlice TString), (''Forwarder'', TPtr TString),
      (''ForwarderProtocol'', TPtr TString), (''Catalog'', TPtr TString), (''DNSSECValidation'', TPtr TBool),
      (''ForwarderProxy'', TPtr (ForwarderProxy_layout K)), (''DeletionPolicy'', TString)]"

definition ZoneStatus_layout :: "k8s_api \<Rightarrow> go_type" where
  "ZoneStatus_layout K = TStruct
     [(''Conditions'', TSlice (ka_type K ''metav1.Condition'')), (''ObservedGeneration'', TInt), (''ZoneCreated'', TBool)]"

definition Zone_layout :: "k8s_api \<Rightarrow> go_type" where
  "Zone_layout K = TStruct
     [(''TypeMeta'', ka_type K ''metav1.TypeMeta''), (''ObjectMeta'', ka_type K ''metav1.ObjectMeta''),
      (''Spec'', ZoneSpec_layout K), (''Status'', ZoneStatus_layout K)]"

definition ZoneList_layout :: "k8s_api \<Rightarrow> go_type" where
  "ZoneList_layout K = TStruct
     [(''TypeMeta'', ka_type K ''metav1.TypeMeta''), (''ListMeta'', ka_type K ''metav1.ListMeta''),
      (''Items'', TSlice (Zone_layout K))]"

end
