(* ===== verification/Deep_Copy.thy ===== *)
theory Deep_Copy
  imports Api_Layout
begin

text \<open>
  The generated deep copies (\<^verbatim>\<open>api/v1alpha1/zz_generated.deepcopy.go\<close>) over the store of \<open>Go_Heap\<close>, statement by statement. The
  argument of a \<^verbatim>\<open>DeepCopyInto\<close> is the struct its receiver points to and its result the struct written to \<^verbatim>\<open>out\<close>. The
  theorem is that each of them meets the contract \<open>deep_copier\<close> at the layout of its type; it fails for a type in which a field
  with references is left out. It is what lets the other theories work on values: an object the code copies before it changes it
  is not changed through the copy.
\<close>

section \<open>The generated functions\<close>

definition SecretReference_DeepCopyInto :: "k8s_api \<Rightarrow> copier" where
  "SecretReference_DeepCopyInto K = copy_struct []"

definition SecretReference_DeepCopy :: "k8s_api \<Rightarrow> copier" where
  "SecretReference_DeepCopy K = unless_nil (new_into (SecretReference_layout K) (SecretReference_DeepCopyInto K))"

definition BlocklistSpec_DeepCopyInto :: "k8s_api \<Rightarrow> copier" where
  "BlocklistSpec_DeepCopyInto K = copy_struct
     [(''ServerRef'', assign), (''Enabled'', unless_nil (new_into TBool assign)),
      (''BlockListURLs'', unless_nil (make_copy TString)), (''UpdateIntervalHours'', unless_nil (new_into TInt assign)),
      (''BlockingType'', unless_nil (new_into TString assign)), (''AllowedDomains'', unless_nil (make_copy TString)),
      (''BlockedDomains'', unless_nil (make_copy TString))]"

definition BlocklistSpec_DeepCopy :: "k8s_api \<Rightarrow> copier" where
  "BlocklistSpec_DeepCopy K = unless_nil (new_into (BlocklistSpec_layout K) (BlocklistSpec_DeepCopyInto K))"

definition BlocklistStatus_DeepCopyInto :: "k8s_api \<Rightarrow> copier" where
  "BlocklistStatus_DeepCopyInto K = copy_struct
     [(''Conditions'', unless_nil (make_each (ka_type K ''metav1.Condition'') (ka_into K ''metav1.Condition''))),
      (''AppliedBlockListURLs'', unless_nil (make_copy TString)),
      (''AppliedAllowedDomains'', unless_nil (make_copy TString)),
      (''AppliedBlockedDomains'', unless_nil (make_copy TString))]"

definition BlocklistStatus_DeepCopy :: "k8s_api \<Rightarrow> copier" where
  "BlocklistStatus_DeepCopy K = unless_nil (new_into (BlocklistStatus_layout K) (BlocklistStatus_DeepCopyInto K))"

definition Blocklist_DeepCopyInto :: "k8s_api \<Rightarrow> copier" where
  "Blocklist_DeepCopyInto K = copy_struct
     [(''TypeMeta'', assign), (''ObjectMeta'', ka_into K ''metav1.ObjectMeta''), (''Spec'', BlocklistSpec_DeepCopyInto K),
      (''Status'', BlocklistStatus_DeepCopyInto K)]"

definition Blocklist_DeepCopy :: "k8s_api \<Rightarrow> copier" where
  "Blocklist_DeepCopy K = unless_nil (new_into (Blocklist_layout K) (Blocklist_DeepCopyInto K))"

definition Blocklist_DeepCopyObject :: "k8s_api \<Rightarrow> go_val \<Rightarrow> go_heap \<Rightarrow> (go_object \<times> go_heap) option" where
  "Blocklist_DeepCopyObject K = as_object ''Blocklist'' (Blocklist_DeepCopy K)"

definition BlocklistList_DeepCopyInto :: "k8s_api \<Rightarrow> copier" where
  "BlocklistList_DeepCopyInto K = copy_struct
     [(''TypeMeta'', assign), (''ListMeta'', ka_into K ''metav1.ListMeta''),
      (''Items'', unless_nil (make_each (Blocklist_layout K) (Blocklist_DeepCopyInto K)))]"

definition BlocklistList_DeepCopy :: "k8s_api \<Rightarrow> copier" where
  "BlocklistList_DeepCopy K = unless_nil (new_into (BlocklistList_layout K) (BlocklistList_DeepCopyInto K))"

definition BlocklistList_DeepCopyObject :: "k8s_api \<Rightarrow> go_val \<Rightarrow> go_heap \<Rightarrow> (go_object \<times> go_heap) option" where
  "BlocklistList_DeepCopyObject K = as_object ''BlocklistList'' (BlocklistList_DeepCopy K)"

definition CacheSettings_DeepCopyInto :: "k8s_api \<Rightarrow> copier" where
  "CacheSettings_DeepCopyInto K = copy_struct
     [(''ServeStale'', unless_nil (new_into TBool assign)), (''ServeStaleTTLSeconds'', unless_nil (new_into TInt assign)),
      (''MaximumRecordTTLSeconds'', unless_nil (new_into TInt assign)),
      (''MinimumRecordTTLSeconds'', unless_nil (new_into TInt assign))]"

definition CacheSettings_DeepCopy :: "k8s_api \<Rightarrow> copier" where
  "CacheSettings_DeepCopy K = unless_nil (new_into (CacheSettings_layout K) (CacheSettings_DeepCopyInto K))"

definition DHCPReservation_DeepCopyInto :: "k8s_api \<Rightarrow> copier" where
  "DHCPReservation_DeepCopyInto K = copy_struct
     [(''HostName'', unless_nil (new_into TString assign)), (''Comments'', unless_nil (new_into TString assign))]"

definition DHCPReservation_DeepCopy :: "k8s_api \<Rightarrow> copier" where
  "DHCPReservation_DeepCopy K = unless_nil (new_into (DHCPReservation_layout K) (DHCPReservation_DeepCopyInto K))"

definition DHCPScopeSpec_DeepCopyInto :: "k8s_api \<Rightarrow> copier" where
  "DHCPScopeSpec_DeepCopyInto K = copy_struct
     [(''ServerRef'', assign), (''RouterAddress'', unless_nil (new_into TString assign)),
      (''DNSServers'', unless_nil (make_copy TString)), (''LeaseTimeDays'', unless_nil (new_into TInt assign)),
      (''LeaseTimeHours'', unless_nil (new_into TInt assign)), (''LeaseTimeMinutes'', unless_nil (new_into TInt assign)),
      (''DomainName'', unless_nil (new_into TString assign)), (''Enabled'', unless_nil (new_into TBool assign)),
      (''Reservations'', unless_nil (make_each (DHCPReservation_layout K) (DHCPReservation_DeepCopyInto K)))]"

definition DHCPScopeSpec_DeepCopy :: "k8s_api \<Rightarrow> copier" where
  "DHCPScopeSpec_DeepCopy K = unless_nil (new_into (DHCPScopeSpec_layout K) (DHCPScopeSpec_DeepCopyInto K))"

definition DHCPScopeStatus_DeepCopyInto :: "k8s_api \<Rightarrow> copier" where
  "DHCPScopeStatus_DeepCopyInto K = copy_struct
     [(''Conditions'', unless_nil (make_each (ka_type K ''metav1.Condition'') (ka_into K ''metav1.Condition''))),
      (''AppliedReservations'', unless_nil (make_copy TString))]"

definition DHCPScopeStatus_DeepCopy :: "k8s_api \<Rightarrow> copier" where
  "DHCPScopeStatus_DeepCopy K = unless_nil (new_into (DHCPScopeStatus_layout K) (DHCPScopeStatus_DeepCopyInto K))"

definition DHCPScope_DeepCopyInto :: "k8s_api \<Rightarrow> copier" where
  "DHCPScope_DeepCopyInto K = copy_struct
     [(''TypeMeta'', assign), (''ObjectMeta'', ka_into K ''metav1.ObjectMeta''), (''Spec'', DHCPScopeSpec_DeepCopyInto K),
      (''Status'', DHCPScopeStatus_DeepCopyInto K)]"

definition DHCPScope_DeepCopy :: "k8s_api \<Rightarrow> copier" where
  "DHCPScope_DeepCopy K = unless_nil (new_into (DHCPScope_layout K) (DHCPScope_DeepCopyInto K))"

definition DHCPScope_DeepCopyObject :: "k8s_api \<Rightarrow> go_val \<Rightarrow> go_heap \<Rightarrow> (go_object \<times> go_heap) option" where
  "DHCPScope_DeepCopyObject K = as_object ''DHCPScope'' (DHCPScope_DeepCopy K)"

definition DHCPScopeList_DeepCopyInto :: "k8s_api \<Rightarrow> copier" where
  "DHCPScopeList_DeepCopyInto K = copy_struct
     [(''TypeMeta'', assign), (''ListMeta'', ka_into K ''metav1.ListMeta''),
      (''Items'', unless_nil (make_each (DHCPScope_layout K) (DHCPScope_DeepCopyInto K)))]"

definition DHCPScopeList_DeepCopy :: "k8s_api \<Rightarrow> copier" where
  "DHCPScopeList_DeepCopy K = unless_nil (new_into (DHCPScopeList_layout K) (DHCPScopeList_DeepCopyInto K))"

definition DHCPScopeList_DeepCopyObject :: "k8s_api \<Rightarrow> go_val \<Rightarrow> go_heap \<Rightarrow> (go_object \<times> go_heap) option" where
  "DHCPScopeList_DeepCopyObject K = as_object ''DHCPScopeList'' (DHCPScopeList_DeepCopy K)"

definition DNSAppSpec_DeepCopyInto :: "k8s_api \<Rightarrow> copier" where
  "DNSAppSpec_DeepCopyInto K = copy_struct [(''ServerRef'', assign)]"

definition DNSAppSpec_DeepCopy :: "k8s_api \<Rightarrow> copier" where
  "DNSAppSpec_DeepCopy K = unless_nil (new_into (DNSAppSpec_layout K) (DNSAppSpec_DeepCopyInto K))"

definition DNSAppStatus_DeepCopyInto :: "k8s_api \<Rightarrow> copier" where
  "DNSAppStatus_DeepCopyInto K = copy_struct
     [(''Conditions'', unless_nil (make_each (ka_type K ''metav1.Condition'') (ka_into K ''metav1.Condition'')))]"

definition DNSAppStatus_DeepCopy :: "k8s_api \<Rightarrow> copier" where
  "DNSAppStatus_DeepCopy K = unless_nil (new_into (DNSAppStatus_layout K) (DNSAppStatus_DeepCopyInto K))"

definition DNSApp_DeepCopyInto :: "k8s_api \<Rightarrow> copier" where
  "DNSApp_DeepCopyInto K = copy_struct
     [(''TypeMeta'', assign), (''ObjectMeta'', ka_into K ''metav1.ObjectMeta''), (''Spec'', assign),
      (''Status'', DNSAppStatus_DeepCopyInto K)]"

definition DNSApp_DeepCopy :: "k8s_api \<Rightarrow> copier" where
  "DNSApp_DeepCopy K = unless_nil (new_into (DNSApp_layout K) (DNSApp_DeepCopyInto K))"

definition DNSApp_DeepCopyObject :: "k8s_api \<Rightarrow> go_val \<Rightarrow> go_heap \<Rightarrow> (go_object \<times> go_heap) option" where
  "DNSApp_DeepCopyObject K = as_object ''DNSApp'' (DNSApp_DeepCopy K)"

definition DNSAppList_DeepCopyInto :: "k8s_api \<Rightarrow> copier" where
  "DNSAppList_DeepCopyInto K = copy_struct
     [(''TypeMeta'', assign), (''ListMeta'', ka_into K ''metav1.ListMeta''),
      (''Items'', unless_nil (make_each (DNSApp_layout K) (DNSApp_DeepCopyInto K)))]"

definition DNSAppList_DeepCopy :: "k8s_api \<Rightarrow> copier" where
  "DNSAppList_DeepCopy K = unless_nil (new_into (DNSAppList_layout K) (DNSAppList_DeepCopyInto K))"

definition DNSAppList_DeepCopyObject :: "k8s_api \<Rightarrow> go_val \<Rightarrow> go_heap \<Rightarrow> (go_object \<times> go_heap) option" where
  "DNSAppList_DeepCopyObject K = as_object ''DNSAppList'' (DNSAppList_DeepCopy K)"

definition DNSSECSpec_DeepCopyInto :: "k8s_api \<Rightarrow> copier" where
  "DNSSECSpec_DeepCopyInto K = copy_struct
     [(''ServerRef'', assign), (''HashAlgorithm'', unless_nil (new_into TString assign)),
      (''KSKKeySize'', unless_nil (new_into TInt assign)), (''ZSKKeySize'', unless_nil (new_into TInt assign)),
      (''Curve'', unless_nil (new_into TString assign)), (''NSEC3Iterations'', unless_nil (new_into TInt assign)),
      (''NSEC3SaltLength'', unless_nil (new_into TInt assign)), (''DNSKeyTTL'', unless_nil (new_into TInt assign)),
      (''ZSKRolloverDays'', unless_nil (new_into TInt assign))]"

definition DNSSECSpec_DeepCopy :: "k8s_api \<Rightarrow> copier" where
  "DNSSECSpec_DeepCopy K = unless_nil (new_into (DNSSECSpec_layout K) (DNSSECSpec_DeepCopyInto K))"

definition DNSSECStatus_DeepCopyInto :: "k8s_api \<Rightarrow> copier" where
  "DNSSECStatus_DeepCopyInto K = copy_struct
     [(''Conditions'', unless_nil (make_each (ka_type K ''metav1.Condition'') (ka_into K ''metav1.Condition'')))]"

definition DNSSECStatus_DeepCopy :: "k8s_api \<Rightarrow> copier" where
  "DNSSECStatus_DeepCopy K = unless_nil (new_into (DNSSECStatus_layout K) (DNSSECStatus_DeepCopyInto K))"

definition DNSSEC_DeepCopyInto :: "k8s_api \<Rightarrow> copier" where
  "DNSSEC_DeepCopyInto K = copy_struct
     [(''TypeMeta'', assign), (''ObjectMeta'', ka_into K ''metav1.ObjectMeta''), (''Spec'', DNSSECSpec_DeepCopyInto K),
      (''Status'', DNSSECStatus_DeepCopyInto K)]"

definition DNSSEC_DeepCopy :: "k8s_api \<Rightarrow> copier" where
  "DNSSEC_DeepCopy K = unless_nil (new_into (DNSSEC_layout K) (DNSSEC_DeepCopyInto K))"

definition DNSSEC_DeepCopyObject :: "k8s_api \<Rightarrow> go_val \<Rightarrow> go_heap \<Rightarrow> (go_object \<times> go_heap) option" where
  "DNSSEC_DeepCopyObject K = as_object ''DNSSEC'' (DNSSEC_DeepCopy K)"

definition DNSSECList_DeepCopyInto :: "k8s_api \<Rightarrow> copier" where
  "DNSSECList_DeepCopyInto K = copy_struct
     [(''TypeMeta'', assign), (''ListMeta'', ka_into K ''metav1.ListMeta''),
      (''Items'', unless_nil (make_each (DNSSEC_layout K) (DNSSEC_DeepCopyInto K)))]"

definition DNSSECList_DeepCopy :: "k8s_api \<Rightarrow> copier" where
  "DNSSECList_DeepCopy K = unless_nil (new_into (DNSSECList_layout K) (DNSSECList_DeepCopyInto K))"

definition DNSSECList_DeepCopyObject :: "k8s_api \<Rightarrow> go_val \<Rightarrow> go_heap \<Rightarrow> (go_object \<times> go_heap) option" where
  "DNSSECList_DeepCopyObject K = as_object ''DNSSECList'' (DNSSECList_DeepCopy K)"

definition ForwarderProxy_DeepCopyInto :: "k8s_api \<Rightarrow> copier" where
  "ForwarderProxy_DeepCopyInto K = copy_struct
     [(''Address'', unless_nil (new_into TString assign)), (''Port'', unless_nil (new_into TInt assign)),
      (''Username'', unless_nil (new_into TString assign)), (''Password'', unless_nil (new_into TString assign))]"

definition ForwarderProxy_DeepCopy :: "k8s_api \<Rightarrow> copier" where
  "ForwarderProxy_DeepCopy K = unless_nil (new_into (ForwarderProxy_layout K) (ForwarderProxy_DeepCopyInto K))"

definition ForwarderSettings_DeepCopyInto :: "k8s_api \<Rightarrow> copier" where
  "ForwarderSettings_DeepCopyInto K = copy_struct
     [(''Addresses'', unless_nil (make_copy TString)), (''Protocol'', unless_nil (new_into TString assign))]"

definition ForwarderSettings_DeepCopy :: "k8s_api \<Rightarrow> copier" where
  "ForwarderSettings_DeepCopy K = unless_nil (new_into (ForwarderSettings_layout K) (ForwarderSettings_DeepCopyInto K))"

definition LoggingSettings_DeepCopyInto :: "k8s_api \<Rightarrow> copier" where
  "LoggingSettings_DeepCopyInto K = copy_struct
     [(''Enabled'', unless_nil (new_into TBool assign)), (''LogQueries'', unless_nil (new_into TBool assign)),
      (''UseLocalTime'', unless_nil (new_into TBool assign)), (''MaxFileDays'', unless_nil (new_into TInt assign))]"

definition LoggingSettings_DeepCopy :: "k8s_api \<Rightarrow> copier" where
  "LoggingSettings_DeepCopy K = unless_nil (new_into (LoggingSettings_layout K) (LoggingSettings_DeepCopyInto K))"

definition ObservedServerSettings_DeepCopyInto :: "k8s_api \<Rightarrow> copier" where
  "ObservedServerSettings_DeepCopyInto K = copy_struct
     [(''Forwarders'', unless_nil (make_copy TString)), (''RecursionNetworkACL'', unless_nil (make_copy TString)),
      (''ServeStale'', unless_nil (new_into TBool assign)), (''ServeStaleTTLSeconds'', unless_nil (new_into TInt assign)),
      (''CacheMaximumRecordTTLSeconds'', unless_nil (new_into TInt assign)),
      (''CacheMinimumRecordTTLSeconds'', unless_nil (new_into TInt assign)),
      (''LoggingEnabled'', unless_nil (new_into TBool assign)), (''LogQueries'', unless_nil (new_into TBool assign)),
      (''UseLocalTime'', unless_nil (new_into TBool assign)), (''MaxLogFileDays'', unless_nil (new_into TInt assign))]"

definition ObservedServerSettings_DeepCopy :: "k8s_api \<Rightarrow> copier" where
  "ObservedServerSettings_DeepCopy K = unless_nil (new_into (ObservedServerSettings_layout K) (ObservedServerSettings_DeepCopyInto K))"

definition RecordSpec_DeepCopyInto :: "k8s_api \<Rightarrow> copier" where
  "RecordSpec_DeepCopyInto K = copy_struct
     [(''ServerRef'', assign), (''TTL'', unless_nil (new_into TInt assign)),
      (''Priority'', unless_nil (new_into TInt assign))]"

definition RecordSpec_DeepCopy :: "k8s_api \<Rightarrow> copier" where
  "RecordSpec_DeepCopy K = unless_nil (new_into (RecordSpec_layout K) (RecordSpec_DeepCopyInto K))"

definition RecordStatus_DeepCopyInto :: "k8s_api \<Rightarrow> copier" where
  "RecordStatus_DeepCopyInto K = copy_struct
     [(''Conditions'', unless_nil (make_each (ka_type K ''metav1.Condition'') (ka_into K ''metav1.Condition''))),
      (''AppliedPriority'', unless_nil (new_into TInt assign))]"

definition RecordStatus_DeepCopy :: "k8s_api \<Rightarrow> copier" where
  "RecordStatus_DeepCopy K = unless_nil (new_into (RecordStatus_layout K) (RecordStatus_DeepCopyInto K))"

definition Record_DeepCopyInto :: "k8s_api \<Rightarrow> copier" where
  "Record_DeepCopyInto K = copy_struct
     [(''TypeMeta'', assign), (''ObjectMeta'', ka_into K ''metav1.ObjectMeta''), (''Spec'', RecordSpec_DeepCopyInto K),
      (''Status'', RecordStatus_DeepCopyInto K)]"

definition Record_DeepCopy :: "k8s_api \<Rightarrow> copier" where
  "Record_DeepCopy K = unless_nil (new_into (Record_layout K) (Record_DeepCopyInto K))"

definition Record_DeepCopyObject :: "k8s_api \<Rightarrow> go_val \<Rightarrow> go_heap \<Rightarrow> (go_object \<times> go_heap) option" where
  "Record_DeepCopyObject K = as_object ''Record'' (Record_DeepCopy K)"

definition RecordList_DeepCopyInto :: "k8s_api \<Rightarrow> copier" where
  "RecordList_DeepCopyInto K = copy_struct
     [(''TypeMeta'', assign), (''ListMeta'', ka_into K ''metav1.ListMeta''),
      (''Items'', unless_nil (make_each (Record_layout K) (Record_DeepCopyInto K)))]"

definition RecordList_DeepCopy :: "k8s_api \<Rightarrow> copier" where
  "RecordList_DeepCopy K = unless_nil (new_into (RecordList_layout K) (RecordList_DeepCopyInto K))"

definition RecordList_DeepCopyObject :: "k8s_api \<Rightarrow> go_val \<Rightarrow> go_heap \<Rightarrow> (go_object \<times> go_heap) option" where
  "RecordList_DeepCopyObject K = as_object ''RecordList'' (RecordList_DeepCopy K)"

definition RecursionSettings_DeepCopyInto :: "k8s_api \<Rightarrow> copier" where
  "RecursionSettings_DeepCopyInto K = copy_struct [(''NetworkACL'', unless_nil (make_copy TString))]"

definition RecursionSettings_DeepCopy :: "k8s_api \<Rightarrow> copier" where
  "RecursionSettings_DeepCopy K = unless_nil (new_into (RecursionSettings_layout K) (RecursionSettings_DeepCopyInto K))"

definition ServerSettingsSpec_DeepCopyInto :: "k8s_api \<Rightarrow> copier" where
  "ServerSettingsSpec_DeepCopyInto K = copy_struct
     [(''ServerRef'', assign),
      (''Forwarders'', unless_nil (new_into (ForwarderSettings_layout K) (ForwarderSettings_DeepCopyInto K))),
      (''Recursion'', unless_nil (new_into (RecursionSettings_layout K) (RecursionSettings_DeepCopyInto K))),
      (''Cache'', unless_nil (new_into (CacheSettings_layout K) (CacheSettings_DeepCopyInto K))),
      (''Logging'', unless_nil (new_into (LoggingSettings_layout K) (LoggingSettings_DeepCopyInto K)))]"

definition ServerSettingsSpec_DeepCopy :: "k8s_api \<Rightarrow> copier" where
  "ServerSettingsSpec_DeepCopy K = unless_nil (new_into (ServerSettingsSpec_layout K) (ServerSettingsSpec_DeepCopyInto K))"

definition ServerSettingsStatus_DeepCopyInto :: "k8s_api \<Rightarrow> copier" where
  "ServerSettingsStatus_DeepCopyInto K = copy_struct
     [(''Conditions'', unless_nil (make_each (ka_type K ''metav1.Condition'') (ka_into K ''metav1.Condition''))),
      (''Observed'', unless_nil (new_into (ObservedServerSettings_layout K) (ObservedServerSettings_DeepCopyInto K)))]"

definition ServerSettingsStatus_DeepCopy :: "k8s_api \<Rightarrow> copier" where
  "ServerSettingsStatus_DeepCopy K = unless_nil (new_into (ServerSettingsStatus_layout K) (ServerSettingsStatus_DeepCopyInto K))"

definition ServerSettings_DeepCopyInto :: "k8s_api \<Rightarrow> copier" where
  "ServerSettings_DeepCopyInto K = copy_struct
     [(''TypeMeta'', assign), (''ObjectMeta'', ka_into K ''metav1.ObjectMeta''),
      (''Spec'', ServerSettingsSpec_DeepCopyInto K), (''Status'', ServerSettingsStatus_DeepCopyInto K)]"

definition ServerSettings_DeepCopy :: "k8s_api \<Rightarrow> copier" where
  "ServerSettings_DeepCopy K = unless_nil (new_into (ServerSettings_layout K) (ServerSettings_DeepCopyInto K))"

definition ServerSettings_DeepCopyObject :: "k8s_api \<Rightarrow> go_val \<Rightarrow> go_heap \<Rightarrow> (go_object \<times> go_heap) option" where
  "ServerSettings_DeepCopyObject K = as_object ''ServerSettings'' (ServerSettings_DeepCopy K)"

definition ServerSettingsList_DeepCopyInto :: "k8s_api \<Rightarrow> copier" where
  "ServerSettingsList_DeepCopyInto K = copy_struct
     [(''TypeMeta'', assign), (''ListMeta'', ka_into K ''metav1.ListMeta''),
      (''Items'', unless_nil (make_each (ServerSettings_layout K) (ServerSettings_DeepCopyInto K)))]"

definition ServerSettingsList_DeepCopy :: "k8s_api \<Rightarrow> copier" where
  "ServerSettingsList_DeepCopy K = unless_nil (new_into (ServerSettingsList_layout K) (ServerSettingsList_DeepCopyInto K))"

definition ServerSettingsList_DeepCopyObject :: "k8s_api \<Rightarrow> go_val \<Rightarrow> go_heap \<Rightarrow> (go_object \<times> go_heap) option" where
  "ServerSettingsList_DeepCopyObject K = as_object ''ServerSettingsList'' (ServerSettingsList_DeepCopy K)"

definition TechnitiumClusterStorageSpec_DeepCopyInto :: "k8s_api \<Rightarrow> copier" where
  "TechnitiumClusterStorageSpec_DeepCopyInto K = copy_struct
     [(''Size'', ka_into K ''resource.Quantity''), (''StorageClassName'', unless_nil (new_into TString assign))]"

definition TechnitiumClusterStorageSpec_DeepCopy :: "k8s_api \<Rightarrow> copier" where
  "TechnitiumClusterStorageSpec_DeepCopy K = unless_nil (new_into (TechnitiumClusterStorageSpec_layout K) (TechnitiumClusterStorageSpec_DeepCopyInto K))"

definition TechnitiumClusterReplicaServiceOverride_DeepCopyInto :: "k8s_api \<Rightarrow> copier" where
  "TechnitiumClusterReplicaServiceOverride_DeepCopyInto K = copy_struct
     [(''Annotations'', unless_nil (make_map (ka_order K)))]"

definition TechnitiumClusterReplicaServiceOverride_DeepCopy :: "k8s_api \<Rightarrow> copier" where
  "TechnitiumClusterReplicaServiceOverride_DeepCopy K = unless_nil (new_into (TechnitiumClusterReplicaServiceOverride_layout K) (TechnitiumClusterReplicaServiceOverride_DeepCopyInto K))"

definition TechnitiumClusterPerReplicaServiceSpec_DeepCopyInto :: "k8s_api \<Rightarrow> copier" where
  "TechnitiumClusterPerReplicaServiceSpec_DeepCopyInto K = copy_struct
     [(''Annotations'', unless_nil (make_map (ka_order K))),
      (''Ordinals'', unless_nil (make_each (TechnitiumClusterReplicaServiceOverride_layout K) (TechnitiumClusterReplicaServiceOverride_DeepCopyInto K)))]"

definition TechnitiumClusterPerReplicaServiceSpec_DeepCopy :: "k8s_api \<Rightarrow> copier" where
  "TechnitiumClusterPerReplicaServiceSpec_DeepCopy K = unless_nil (new_into (TechnitiumClusterPerReplicaServiceSpec_layout K) (TechnitiumClusterPerReplicaServiceSpec_DeepCopyInto K))"

definition TechnitiumClusterPrimaryServiceSpec_DeepCopyInto :: "k8s_api \<Rightarrow> copier" where
  "TechnitiumClusterPrimaryServiceSpec_DeepCopyInto K = copy_struct [(''Annotations'', unless_nil (make_map (ka_order K)))]"

definition TechnitiumClusterPrimaryServiceSpec_DeepCopy :: "k8s_api \<Rightarrow> copier" where
  "TechnitiumClusterPrimaryServiceSpec_DeepCopy K = unless_nil (new_into (TechnitiumClusterPrimaryServiceSpec_layout K) (TechnitiumClusterPrimaryServiceSpec_DeepCopyInto K))"

definition TechnitiumClusterServiceSpec_DeepCopyInto :: "k8s_api \<Rightarrow> copier" where
  "TechnitiumClusterServiceSpec_DeepCopyInto K = copy_struct
     [(''Annotations'', unless_nil (make_map (ka_order K))), (''ExposeAPI'', unless_nil (new_into TBool assign)),
      (''PerReplica'', unless_nil (new_into (TechnitiumClusterPerReplicaServiceSpec_layout K) (TechnitiumClusterPerReplicaServiceSpec_DeepCopyInto K))),
      (''Primary'', unless_nil (new_into (TechnitiumClusterPrimaryServiceSpec_layout K) (TechnitiumClusterPrimaryServiceSpec_DeepCopyInto K)))]"

definition TechnitiumClusterServiceSpec_DeepCopy :: "k8s_api \<Rightarrow> copier" where
  "TechnitiumClusterServiceSpec_DeepCopy K = unless_nil (new_into (TechnitiumClusterServiceSpec_layout K) (TechnitiumClusterServiceSpec_DeepCopyInto K))"

definition TechnitiumClusterPodDisruptionBudgetSpec_DeepCopyInto :: "k8s_api \<Rightarrow> copier" where
  "TechnitiumClusterPodDisruptionBudgetSpec_DeepCopyInto K = copy_struct
     [(''Enabled'', unless_nil (new_into TBool assign)),
      (''MaxUnavailable'', unless_nil (new_into (ka_type K ''intstr.IntOrString'') assign))]"

definition TechnitiumClusterPodDisruptionBudgetSpec_DeepCopy :: "k8s_api \<Rightarrow> copier" where
  "TechnitiumClusterPodDisruptionBudgetSpec_DeepCopy K = unless_nil (new_into (TechnitiumClusterPodDisruptionBudgetSpec_layout K) (TechnitiumClusterPodDisruptionBudgetSpec_DeepCopyInto K))"

definition TechnitiumClusterSpec_DeepCopyInto :: "k8s_api \<Rightarrow> copier" where
  "TechnitiumClusterSpec_DeepCopyInto K = copy_struct
     [(''Replicas'', unless_nil (new_into TInt assign)), (''Storage'', TechnitiumClusterStorageSpec_DeepCopyInto K),
      (''Resources'', ka_into K ''corev1.ResourceRequirements''),
      (''Affinity'', unless_nil (new_into (ka_type K ''corev1.Affinity'') (ka_into K ''corev1.Affinity''))),
      (''TopologySpreadConstraints'', unless_nil (make_each (ka_type K ''corev1.TopologySpreadConstraint'') (ka_into K ''corev1.TopologySpreadConstraint''))),
      (''Tolerations'', unless_nil (make_each (ka_type K ''corev1.Toleration'') (ka_into K ''corev1.Toleration''))),
      (''NodeSelector'', unless_nil (make_map (ka_order K))), (''Service'', TechnitiumClusterServiceSpec_DeepCopyInto K),
      (''PodDisruptionBudget'', TechnitiumClusterPodDisruptionBudgetSpec_DeepCopyInto K),
      (''AdminSecretRef'', unless_nil (new_into (SecretReference_layout K) assign))]"

definition TechnitiumClusterSpec_DeepCopy :: "k8s_api \<Rightarrow> copier" where
  "TechnitiumClusterSpec_DeepCopy K = unless_nil (new_into (TechnitiumClusterSpec_layout K) (TechnitiumClusterSpec_DeepCopyInto K))"

definition TechnitiumClusterNodeStatus_DeepCopyInto :: "k8s_api \<Rightarrow> copier" where
  "TechnitiumClusterNodeStatus_DeepCopyInto K = copy_struct [(''LastSynced'', unless_nil (ka_ptr K ''metav1.Time''))]"

definition TechnitiumClusterNodeStatus_DeepCopy :: "k8s_api \<Rightarrow> copier" where
  "TechnitiumClusterNodeStatus_DeepCopy K = unless_nil (new_into (TechnitiumClusterNodeStatus_layout K) (TechnitiumClusterNodeStatus_DeepCopyInto K))"

definition TechnitiumClusterRolloutStatus_DeepCopyInto :: "k8s_api \<Rightarrow> copier" where
  "TechnitiumClusterRolloutStatus_DeepCopyInto K = copy_struct [(''NodeStartedTime'', ka_into K ''metav1.Time'')]"

definition TechnitiumClusterRolloutStatus_DeepCopy :: "k8s_api \<Rightarrow> copier" where
  "TechnitiumClusterRolloutStatus_DeepCopy K = unless_nil (new_into (TechnitiumClusterRolloutStatus_layout K) (TechnitiumClusterRolloutStatus_DeepCopyInto K))"

definition TechnitiumClusterStatus_DeepCopyInto :: "k8s_api \<Rightarrow> copier" where
  "TechnitiumClusterStatus_DeepCopyInto K = copy_struct
     [(''Conditions'', unless_nil (make_each (ka_type K ''metav1.Condition'') (ka_into K ''metav1.Condition''))),
      (''Nodes'', unless_nil (make_each (TechnitiumClusterNodeStatus_layout K) (TechnitiumClusterNodeStatus_DeepCopyInto K))),
      (''Rollout'', unless_nil (new_into (TechnitiumClusterRolloutStatus_layout K) (TechnitiumClusterRolloutStatus_DeepCopyInto K)))]"

definition TechnitiumClusterStatus_DeepCopy :: "k8s_api \<Rightarrow> copier" where
  "TechnitiumClusterStatus_DeepCopy K = unless_nil (new_into (TechnitiumClusterStatus_layout K) (TechnitiumClusterStatus_DeepCopyInto K))"

definition TechnitiumCluster_DeepCopyInto :: "k8s_api \<Rightarrow> copier" where
  "TechnitiumCluster_DeepCopyInto K = copy_struct
     [(''TypeMeta'', assign), (''ObjectMeta'', ka_into K ''metav1.ObjectMeta''),
      (''Spec'', TechnitiumClusterSpec_DeepCopyInto K), (''Status'', TechnitiumClusterStatus_DeepCopyInto K)]"

definition TechnitiumCluster_DeepCopy :: "k8s_api \<Rightarrow> copier" where
  "TechnitiumCluster_DeepCopy K = unless_nil (new_into (TechnitiumCluster_layout K) (TechnitiumCluster_DeepCopyInto K))"

definition TechnitiumCluster_DeepCopyObject :: "k8s_api \<Rightarrow> go_val \<Rightarrow> go_heap \<Rightarrow> (go_object \<times> go_heap) option" where
  "TechnitiumCluster_DeepCopyObject K = as_object ''TechnitiumCluster'' (TechnitiumCluster_DeepCopy K)"

definition TechnitiumClusterList_DeepCopyInto :: "k8s_api \<Rightarrow> copier" where
  "TechnitiumClusterList_DeepCopyInto K = copy_struct
     [(''TypeMeta'', assign), (''ListMeta'', ka_into K ''metav1.ListMeta''),
      (''Items'', unless_nil (make_each (TechnitiumCluster_layout K) (TechnitiumCluster_DeepCopyInto K)))]"

definition TechnitiumClusterList_DeepCopy :: "k8s_api \<Rightarrow> copier" where
  "TechnitiumClusterList_DeepCopy K = unless_nil (new_into (TechnitiumClusterList_layout K) (TechnitiumClusterList_DeepCopyInto K))"

definition TechnitiumClusterList_DeepCopyObject :: "k8s_api \<Rightarrow> go_val \<Rightarrow> go_heap \<Rightarrow> (go_object \<times> go_heap) option" where
  "TechnitiumClusterList_DeepCopyObject K = as_object ''TechnitiumClusterList'' (TechnitiumClusterList_DeepCopy K)"

definition ZoneSpec_DeepCopyInto :: "k8s_api \<Rightarrow> copier" where
  "ZoneSpec_DeepCopyInto K = copy_struct
     [(''ServerRef'', assign), (''PrimaryNameServerAddresses'', unless_nil (make_copy TString)),
      (''Forwarder'', unless_nil (new_into TString assign)), (''ForwarderProtocol'', unless_nil (new_into TString assign)),
      (''Catalog'', unless_nil (new_into TString assign)), (''DNSSECValidation'', unless_nil (new_into TBool assign)),
      (''ForwarderProxy'', unless_nil (new_into (ForwarderProxy_layout K) (ForwarderProxy_DeepCopyInto K)))]"

definition ZoneSpec_DeepCopy :: "k8s_api \<Rightarrow> copier" where
  "ZoneSpec_DeepCopy K = unless_nil (new_into (ZoneSpec_layout K) (ZoneSpec_DeepCopyInto K))"

definition ZoneStatus_DeepCopyInto :: "k8s_api \<Rightarrow> copier" where
  "ZoneStatus_DeepCopyInto K = copy_struct
     [(''Conditions'', unless_nil (make_each (ka_type K ''metav1.Condition'') (ka_into K ''metav1.Condition'')))]"

definition ZoneStatus_DeepCopy :: "k8s_api \<Rightarrow> copier" where
  "ZoneStatus_DeepCopy K = unless_nil (new_into (ZoneStatus_layout K) (ZoneStatus_DeepCopyInto K))"

definition Zone_DeepCopyInto :: "k8s_api \<Rightarrow> copier" where
  "Zone_DeepCopyInto K = copy_struct
     [(''TypeMeta'', assign), (''ObjectMeta'', ka_into K ''metav1.ObjectMeta''), (''Spec'', ZoneSpec_DeepCopyInto K),
      (''Status'', ZoneStatus_DeepCopyInto K)]"

definition Zone_DeepCopy :: "k8s_api \<Rightarrow> copier" where
  "Zone_DeepCopy K = unless_nil (new_into (Zone_layout K) (Zone_DeepCopyInto K))"

definition Zone_DeepCopyObject :: "k8s_api \<Rightarrow> go_val \<Rightarrow> go_heap \<Rightarrow> (go_object \<times> go_heap) option" where
  "Zone_DeepCopyObject K = as_object ''Zone'' (Zone_DeepCopy K)"

definition ZoneList_DeepCopyInto :: "k8s_api \<Rightarrow> copier" where
  "ZoneList_DeepCopyInto K = copy_struct
     [(''TypeMeta'', assign), (''ListMeta'', ka_into K ''metav1.ListMeta''),
      (''Items'', unless_nil (make_each (Zone_layout K) (Zone_DeepCopyInto K)))]"

definition ZoneList_DeepCopy :: "k8s_api \<Rightarrow> copier" where
  "ZoneList_DeepCopy K = unless_nil (new_into (ZoneList_layout K) (ZoneList_DeepCopyInto K))"

definition ZoneList_DeepCopyObject :: "k8s_api \<Rightarrow> go_val \<Rightarrow> go_heap \<Rightarrow> (go_object \<times> go_heap) option" where
  "ZoneList_DeepCopyObject K = as_object ''ZoneList'' (ZoneList_DeepCopy K)"

section \<open>They are deep copies\<close>

lemma k8s_copied_law: "k8s_api_laws K \<Longrightarrow> n \<in> set k8s_copied \<Longrightarrow> deep_copier (ka_type K n) (ka_into K n)"
  by (auto simp: k8s_api_laws_def list_all_iff)

lemma k8s_assigned_law: "k8s_api_laws K \<Longrightarrow> n \<in> set k8s_assigned \<Longrightarrow> plain (ka_type K n)"
  by (auto simp: k8s_api_laws_def list_all_iff)

lemma k8s_time_law: "k8s_api_laws K \<Longrightarrow> deep_copier (TPtr (ka_type K ''metav1.Time'')) (unless_nil (ka_ptr K ''metav1.Time''))"
  by (rule unless_nil_copier) (auto simp: k8s_api_laws_def elim: deep_copier.copies)

lemma k8s_order_law: "k8s_api_laws K \<Longrightarrow> plain T \<Longrightarrow> deep_copier (TMap T) (unless_nil (make_map (ka_order K)))"
  by (rule make_map_copier) (auto simp: k8s_api_laws_def)

lemma plain_structs [simp]: "plain (SecretReference_layout K)" "plain (DNSAppSpec_layout K)"
  by (simp_all add: SecretReference_layout_def DNSAppSpec_layout_def)

lemmas k8s_laws = k8s_copied_law k8s_assigned_law k8s_time_law k8s_order_law k8s_copied_def k8s_assigned_def

lemma SecretReference_copier [copier_intros]: "deep_copier (SecretReference_layout K) (SecretReference_DeepCopyInto K)"
  unfolding SecretReference_layout_def SecretReference_DeepCopyInto_def by (rule struct_copier) (simp add: copies_fields_def copier_intros)

lemma BlocklistSpec_copier [copier_intros]: "deep_copier (BlocklistSpec_layout K) (BlocklistSpec_DeepCopyInto K)"
  unfolding BlocklistSpec_layout_def BlocklistSpec_DeepCopyInto_def by (rule struct_copier) (simp add: copies_fields_def copier_intros)

lemma BlocklistStatus_copier [copier_intros]: "k8s_api_laws K \<Longrightarrow> deep_copier (BlocklistStatus_layout K) (BlocklistStatus_DeepCopyInto K)"
  unfolding BlocklistStatus_layout_def BlocklistStatus_DeepCopyInto_def by (rule struct_copier) (simp add: copies_fields_def k8s_laws copier_intros)

lemma Blocklist_copier [copier_intros]: "k8s_api_laws K \<Longrightarrow> deep_copier (Blocklist_layout K) (Blocklist_DeepCopyInto K)"
  unfolding Blocklist_layout_def Blocklist_DeepCopyInto_def by (rule struct_copier) (simp add: copies_fields_def k8s_laws copier_intros)

lemma BlocklistList_copier [copier_intros]: "k8s_api_laws K \<Longrightarrow> deep_copier (BlocklistList_layout K) (BlocklistList_DeepCopyInto K)"
  unfolding BlocklistList_layout_def BlocklistList_DeepCopyInto_def by (rule struct_copier) (simp add: copies_fields_def k8s_laws copier_intros)

lemma CacheSettings_copier [copier_intros]: "deep_copier (CacheSettings_layout K) (CacheSettings_DeepCopyInto K)"
  unfolding CacheSettings_layout_def CacheSettings_DeepCopyInto_def by (rule struct_copier) (simp add: copies_fields_def copier_intros)

lemma DHCPReservation_copier [copier_intros]: "deep_copier (DHCPReservation_layout K) (DHCPReservation_DeepCopyInto K)"
  unfolding DHCPReservation_layout_def DHCPReservation_DeepCopyInto_def by (rule struct_copier) (simp add: copies_fields_def copier_intros)

lemma DHCPScopeSpec_copier [copier_intros]: "deep_copier (DHCPScopeSpec_layout K) (DHCPScopeSpec_DeepCopyInto K)"
  unfolding DHCPScopeSpec_layout_def DHCPScopeSpec_DeepCopyInto_def by (rule struct_copier) (simp add: copies_fields_def copier_intros)

lemma DHCPScopeStatus_copier [copier_intros]: "k8s_api_laws K \<Longrightarrow> deep_copier (DHCPScopeStatus_layout K) (DHCPScopeStatus_DeepCopyInto K)"
  unfolding DHCPScopeStatus_layout_def DHCPScopeStatus_DeepCopyInto_def by (rule struct_copier) (simp add: copies_fields_def k8s_laws copier_intros)

lemma DHCPScope_copier [copier_intros]: "k8s_api_laws K \<Longrightarrow> deep_copier (DHCPScope_layout K) (DHCPScope_DeepCopyInto K)"
  unfolding DHCPScope_layout_def DHCPScope_DeepCopyInto_def by (rule struct_copier) (simp add: copies_fields_def k8s_laws copier_intros)

lemma DHCPScopeList_copier [copier_intros]: "k8s_api_laws K \<Longrightarrow> deep_copier (DHCPScopeList_layout K) (DHCPScopeList_DeepCopyInto K)"
  unfolding DHCPScopeList_layout_def DHCPScopeList_DeepCopyInto_def by (rule struct_copier) (simp add: copies_fields_def k8s_laws copier_intros)

lemma DNSAppSpec_copier [copier_intros]: "k8s_api_laws K \<Longrightarrow> deep_copier (DNSAppSpec_layout K) (DNSAppSpec_DeepCopyInto K)"
  unfolding DNSAppSpec_layout_def DNSAppSpec_DeepCopyInto_def by (rule struct_copier) (simp add: copies_fields_def k8s_laws copier_intros)

lemma DNSAppStatus_copier [copier_intros]: "k8s_api_laws K \<Longrightarrow> deep_copier (DNSAppStatus_layout K) (DNSAppStatus_DeepCopyInto K)"
  unfolding DNSAppStatus_layout_def DNSAppStatus_DeepCopyInto_def by (rule struct_copier) (simp add: copies_fields_def k8s_laws copier_intros)

lemma DNSApp_copier [copier_intros]: "k8s_api_laws K \<Longrightarrow> deep_copier (DNSApp_layout K) (DNSApp_DeepCopyInto K)"
  unfolding DNSApp_layout_def DNSApp_DeepCopyInto_def by (rule struct_copier) (simp add: copies_fields_def k8s_laws copier_intros)

lemma DNSAppList_copier [copier_intros]: "k8s_api_laws K \<Longrightarrow> deep_copier (DNSAppList_layout K) (DNSAppList_DeepCopyInto K)"
  unfolding DNSAppList_layout_def DNSAppList_DeepCopyInto_def by (rule struct_copier) (simp add: copies_fields_def k8s_laws copier_intros)

lemma DNSSECSpec_copier [copier_intros]: "deep_copier (DNSSECSpec_layout K) (DNSSECSpec_DeepCopyInto K)"
  unfolding DNSSECSpec_layout_def DNSSECSpec_DeepCopyInto_def by (rule struct_copier) (simp add: copies_fields_def copier_intros)

lemma DNSSECStatus_copier [copier_intros]: "k8s_api_laws K \<Longrightarrow> deep_copier (DNSSECStatus_layout K) (DNSSECStatus_DeepCopyInto K)"
  unfolding DNSSECStatus_layout_def DNSSECStatus_DeepCopyInto_def by (rule struct_copier) (simp add: copies_fields_def k8s_laws copier_intros)

lemma DNSSEC_copier [copier_intros]: "k8s_api_laws K \<Longrightarrow> deep_copier (DNSSEC_layout K) (DNSSEC_DeepCopyInto K)"
  unfolding DNSSEC_layout_def DNSSEC_DeepCopyInto_def by (rule struct_copier) (simp add: copies_fields_def k8s_laws copier_intros)

lemma DNSSECList_copier [copier_intros]: "k8s_api_laws K \<Longrightarrow> deep_copier (DNSSECList_layout K) (DNSSECList_DeepCopyInto K)"
  unfolding DNSSECList_layout_def DNSSECList_DeepCopyInto_def by (rule struct_copier) (simp add: copies_fields_def k8s_laws copier_intros)

lemma ForwarderProxy_copier [copier_intros]: "deep_copier (ForwarderProxy_layout K) (ForwarderProxy_DeepCopyInto K)"
  unfolding ForwarderProxy_layout_def ForwarderProxy_DeepCopyInto_def by (rule struct_copier) (simp add: copies_fields_def copier_intros)

lemma ForwarderSettings_copier [copier_intros]: "deep_copier (ForwarderSettings_layout K) (ForwarderSettings_DeepCopyInto K)"
  unfolding ForwarderSettings_layout_def ForwarderSettings_DeepCopyInto_def by (rule struct_copier) (simp add: copies_fields_def copier_intros)

lemma LoggingSettings_copier [copier_intros]: "deep_copier (LoggingSettings_layout K) (LoggingSettings_DeepCopyInto K)"
  unfolding LoggingSettings_layout_def LoggingSettings_DeepCopyInto_def by (rule struct_copier) (simp add: copies_fields_def copier_intros)

lemma ObservedServerSettings_copier [copier_intros]: "deep_copier (ObservedServerSettings_layout K) (ObservedServerSettings_DeepCopyInto K)"
  unfolding ObservedServerSettings_layout_def ObservedServerSettings_DeepCopyInto_def by (rule struct_copier) (simp add: copies_fields_def copier_intros)

lemma RecordSpec_copier [copier_intros]: "deep_copier (RecordSpec_layout K) (RecordSpec_DeepCopyInto K)"
  unfolding RecordSpec_layout_def RecordSpec_DeepCopyInto_def by (rule struct_copier) (simp add: copies_fields_def copier_intros)

lemma RecordStatus_copier [copier_intros]: "k8s_api_laws K \<Longrightarrow> deep_copier (RecordStatus_layout K) (RecordStatus_DeepCopyInto K)"
  unfolding RecordStatus_layout_def RecordStatus_DeepCopyInto_def by (rule struct_copier) (simp add: copies_fields_def k8s_laws copier_intros)

lemma Record_copier [copier_intros]: "k8s_api_laws K \<Longrightarrow> deep_copier (Record_layout K) (Record_DeepCopyInto K)"
  unfolding Record_layout_def Record_DeepCopyInto_def by (rule struct_copier) (simp add: copies_fields_def k8s_laws copier_intros)

lemma RecordList_copier [copier_intros]: "k8s_api_laws K \<Longrightarrow> deep_copier (RecordList_layout K) (RecordList_DeepCopyInto K)"
  unfolding RecordList_layout_def RecordList_DeepCopyInto_def by (rule struct_copier) (simp add: copies_fields_def k8s_laws copier_intros)

lemma RecursionSettings_copier [copier_intros]: "deep_copier (RecursionSettings_layout K) (RecursionSettings_DeepCopyInto K)"
  unfolding RecursionSettings_layout_def RecursionSettings_DeepCopyInto_def by (rule struct_copier) (simp add: copies_fields_def copier_intros)

lemma ServerSettingsSpec_copier [copier_intros]: "deep_copier (ServerSettingsSpec_layout K) (ServerSettingsSpec_DeepCopyInto K)"
  unfolding ServerSettingsSpec_layout_def ServerSettingsSpec_DeepCopyInto_def by (rule struct_copier) (simp add: copies_fields_def copier_intros)

lemma ServerSettingsStatus_copier [copier_intros]: "k8s_api_laws K \<Longrightarrow> deep_copier (ServerSettingsStatus_layout K) (ServerSettingsStatus_DeepCopyInto K)"
  unfolding ServerSettingsStatus_layout_def ServerSettingsStatus_DeepCopyInto_def by (rule struct_copier) (simp add: copies_fields_def k8s_laws copier_intros)

lemma ServerSettings_copier [copier_intros]: "k8s_api_laws K \<Longrightarrow> deep_copier (ServerSettings_layout K) (ServerSettings_DeepCopyInto K)"
  unfolding ServerSettings_layout_def ServerSettings_DeepCopyInto_def by (rule struct_copier) (simp add: copies_fields_def k8s_laws copier_intros)

lemma ServerSettingsList_copier [copier_intros]: "k8s_api_laws K \<Longrightarrow> deep_copier (ServerSettingsList_layout K) (ServerSettingsList_DeepCopyInto K)"
  unfolding ServerSettingsList_layout_def ServerSettingsList_DeepCopyInto_def by (rule struct_copier) (simp add: copies_fields_def k8s_laws copier_intros)

lemma TechnitiumClusterStorageSpec_copier [copier_intros]: "k8s_api_laws K \<Longrightarrow> deep_copier (TechnitiumClusterStorageSpec_layout K) (TechnitiumClusterStorageSpec_DeepCopyInto K)"
  unfolding TechnitiumClusterStorageSpec_layout_def TechnitiumClusterStorageSpec_DeepCopyInto_def by (rule struct_copier) (simp add: copies_fields_def k8s_laws copier_intros)

lemma TechnitiumClusterReplicaServiceOverride_copier [copier_intros]: "k8s_api_laws K \<Longrightarrow> deep_copier (TechnitiumClusterReplicaServiceOverride_layout K) (TechnitiumClusterReplicaServiceOverride_DeepCopyInto K)"
  unfolding TechnitiumClusterReplicaServiceOverride_layout_def TechnitiumClusterReplicaServiceOverride_DeepCopyInto_def by (rule struct_copier) (simp add: copies_fields_def k8s_laws copier_intros)

lemma TechnitiumClusterPerReplicaServiceSpec_copier [copier_intros]: "k8s_api_laws K \<Longrightarrow> deep_copier (TechnitiumClusterPerReplicaServiceSpec_layout K) (TechnitiumClusterPerReplicaServiceSpec_DeepCopyInto K)"
  unfolding TechnitiumClusterPerReplicaServiceSpec_layout_def TechnitiumClusterPerReplicaServiceSpec_DeepCopyInto_def by (rule struct_copier) (simp add: copies_fields_def k8s_laws copier_intros)

lemma TechnitiumClusterPrimaryServiceSpec_copier [copier_intros]: "k8s_api_laws K \<Longrightarrow> deep_copier (TechnitiumClusterPrimaryServiceSpec_layout K) (TechnitiumClusterPrimaryServiceSpec_DeepCopyInto K)"
  unfolding TechnitiumClusterPrimaryServiceSpec_layout_def TechnitiumClusterPrimaryServiceSpec_DeepCopyInto_def by (rule struct_copier) (simp add: copies_fields_def k8s_laws copier_intros)

lemma TechnitiumClusterServiceSpec_copier [copier_intros]: "k8s_api_laws K \<Longrightarrow> deep_copier (TechnitiumClusterServiceSpec_layout K) (TechnitiumClusterServiceSpec_DeepCopyInto K)"
  unfolding TechnitiumClusterServiceSpec_layout_def TechnitiumClusterServiceSpec_DeepCopyInto_def by (rule struct_copier) (simp add: copies_fields_def k8s_laws copier_intros)

lemma TechnitiumClusterPodDisruptionBudgetSpec_copier [copier_intros]: "k8s_api_laws K \<Longrightarrow> deep_copier (TechnitiumClusterPodDisruptionBudgetSpec_layout K) (TechnitiumClusterPodDisruptionBudgetSpec_DeepCopyInto K)"
  unfolding TechnitiumClusterPodDisruptionBudgetSpec_layout_def TechnitiumClusterPodDisruptionBudgetSpec_DeepCopyInto_def by (rule struct_copier) (simp add: copies_fields_def k8s_laws copier_intros)

lemma TechnitiumClusterSpec_copier [copier_intros]: "k8s_api_laws K \<Longrightarrow> deep_copier (TechnitiumClusterSpec_layout K) (TechnitiumClusterSpec_DeepCopyInto K)"
  unfolding TechnitiumClusterSpec_layout_def TechnitiumClusterSpec_DeepCopyInto_def by (rule struct_copier) (simp add: copies_fields_def k8s_laws copier_intros)

lemma TechnitiumClusterNodeStatus_copier [copier_intros]: "k8s_api_laws K \<Longrightarrow> deep_copier (TechnitiumClusterNodeStatus_layout K) (TechnitiumClusterNodeStatus_DeepCopyInto K)"
  unfolding TechnitiumClusterNodeStatus_layout_def TechnitiumClusterNodeStatus_DeepCopyInto_def by (rule struct_copier) (simp add: copies_fields_def k8s_laws copier_intros)

lemma TechnitiumClusterRolloutStatus_copier [copier_intros]: "k8s_api_laws K \<Longrightarrow> deep_copier (TechnitiumClusterRolloutStatus_layout K) (TechnitiumClusterRolloutStatus_DeepCopyInto K)"
  unfolding TechnitiumClusterRolloutStatus_layout_def TechnitiumClusterRolloutStatus_DeepCopyInto_def by (rule struct_copier) (simp add: copies_fields_def k8s_laws copier_intros)

lemma TechnitiumClusterStatus_copier [copier_intros]: "k8s_api_laws K \<Longrightarrow> deep_copier (TechnitiumClusterStatus_layout K) (TechnitiumClusterStatus_DeepCopyInto K)"
  unfolding TechnitiumClusterStatus_layout_def TechnitiumClusterStatus_DeepCopyInto_def by (rule struct_copier) (simp add: copies_fields_def k8s_laws copier_intros)

lemma TechnitiumCluster_copier [copier_intros]: "k8s_api_laws K \<Longrightarrow> deep_copier (TechnitiumCluster_layout K) (TechnitiumCluster_DeepCopyInto K)"
  unfolding TechnitiumCluster_layout_def TechnitiumCluster_DeepCopyInto_def by (rule struct_copier) (simp add: copies_fields_def k8s_laws copier_intros)

lemma TechnitiumClusterList_copier [copier_intros]: "k8s_api_laws K \<Longrightarrow> deep_copier (TechnitiumClusterList_layout K) (TechnitiumClusterList_DeepCopyInto K)"
  unfolding TechnitiumClusterList_layout_def TechnitiumClusterList_DeepCopyInto_def by (rule struct_copier) (simp add: copies_fields_def k8s_laws copier_intros)

lemma ZoneSpec_copier [copier_intros]: "deep_copier (ZoneSpec_layout K) (ZoneSpec_DeepCopyInto K)"
  unfolding ZoneSpec_layout_def ZoneSpec_DeepCopyInto_def by (rule struct_copier) (simp add: copies_fields_def copier_intros)

lemma ZoneStatus_copier [copier_intros]: "k8s_api_laws K \<Longrightarrow> deep_copier (ZoneStatus_layout K) (ZoneStatus_DeepCopyInto K)"
  unfolding ZoneStatus_layout_def ZoneStatus_DeepCopyInto_def by (rule struct_copier) (simp add: copies_fields_def k8s_laws copier_intros)

lemma Zone_copier [copier_intros]: "k8s_api_laws K \<Longrightarrow> deep_copier (Zone_layout K) (Zone_DeepCopyInto K)"
  unfolding Zone_layout_def Zone_DeepCopyInto_def by (rule struct_copier) (simp add: copies_fields_def k8s_laws copier_intros)

lemma ZoneList_copier [copier_intros]: "k8s_api_laws K \<Longrightarrow> deep_copier (ZoneList_layout K) (ZoneList_DeepCopyInto K)"
  unfolding ZoneList_layout_def ZoneList_DeepCopyInto_def by (rule struct_copier) (simp add: copies_fields_def k8s_laws copier_intros)

text \<open>The specs of the resources hold no type of the libraries: they meet the contract whatever those do.\<close>

interpretation blocklist_spec: deep_copier "BlocklistSpec_layout K" "BlocklistSpec_DeepCopyInto K" for K
  by (rule BlocklistSpec_copier)

interpretation dhcp_reservation: deep_copier "DHCPReservation_layout K" "DHCPReservation_DeepCopyInto K" for K
  by (rule DHCPReservation_copier)

interpretation dhcp_scope_spec: deep_copier "DHCPScopeSpec_layout K" "DHCPScopeSpec_DeepCopyInto K" for K
  by (rule DHCPScopeSpec_copier)

interpretation dnssec_spec: deep_copier "DNSSECSpec_layout K" "DNSSECSpec_DeepCopyInto K" for K
  by (rule DNSSECSpec_copier)

interpretation record_spec: deep_copier "RecordSpec_layout K" "RecordSpec_DeepCopyInto K" for K
  by (rule RecordSpec_copier)

interpretation server_settings_spec: deep_copier "ServerSettingsSpec_layout K" "ServerSettingsSpec_DeepCopyInto K" for K
  by (rule ServerSettingsSpec_copier)

interpretation zone_spec: deep_copier "ZoneSpec_layout K" "ZoneSpec_DeepCopyInto K" for K
  by (rule ZoneSpec_copier)

end
