(* ===== verification/Api_Scheme.thy ===== *)
theory Api_Scheme
  imports Deep_Copy Api_Errors
begin

text \<open>
  The registration of the API types with a scheme (\<^verbatim>\<open>api/v1alpha1/groupversion_info.go\<close>, the \<^verbatim>\<open>init\<close> functions of
  \<^verbatim>\<open>api/v1alpha1/*_types.go\<close> and of \<^verbatim>\<open>cmd/main.go\<close>). The scheme and its builder are apimachinery's and are parameters, with
  what is documented of them as a hypothesis. The theorems: the scheme of the process knows exactly the operator's kinds and
  their lists under the operator's group, each with the type of that name; and whatever object of such a type is
  copied through the interface, the copy shares nothing with it.
\<close>

record group_version =
  gv_Group :: string
  gv_Version :: string

definition SchemeGroupVersion :: group_version where
  "SchemeGroupVersion = \<lparr>gv_Group = ''dns.packet.fail'', gv_Version = ''v1alpha1''\<rparr>"

definition GroupVersion :: group_version where
  "GroupVersion = SchemeGroupVersion"

text \<open>A type whose pointers are objects: its name, its layout and its method.\<close>

record object_type =
  ot_Name :: string
  ot_Layout :: go_type
  ot_DeepCopyObject :: "go_val \<Rightarrow> go_heap \<Rightarrow> (go_object \<times> go_heap) option"

definition Blocklist_object :: "k8s_api \<Rightarrow> object_type" where
  "Blocklist_object K = \<lparr>ot_Name = ''Blocklist'', ot_Layout = Blocklist_layout K, ot_DeepCopyObject = Blocklist_DeepCopyObject K\<rparr>"

definition BlocklistList_object :: "k8s_api \<Rightarrow> object_type" where
  "BlocklistList_object K = \<lparr>ot_Name = ''BlocklistList'', ot_Layout = BlocklistList_layout K, ot_DeepCopyObject = BlocklistList_DeepCopyObject K\<rparr>"

definition DHCPScope_object :: "k8s_api \<Rightarrow> object_type" where
  "DHCPScope_object K = \<lparr>ot_Name = ''DHCPScope'', ot_Layout = DHCPScope_layout K, ot_DeepCopyObject = DHCPScope_DeepCopyObject K\<rparr>"

definition DHCPScopeList_object :: "k8s_api \<Rightarrow> object_type" where
  "DHCPScopeList_object K = \<lparr>ot_Name = ''DHCPScopeList'', ot_Layout = DHCPScopeList_layout K, ot_DeepCopyObject = DHCPScopeList_DeepCopyObject K\<rparr>"

definition DNSApp_object :: "k8s_api \<Rightarrow> object_type" where
  "DNSApp_object K = \<lparr>ot_Name = ''DNSApp'', ot_Layout = DNSApp_layout K, ot_DeepCopyObject = DNSApp_DeepCopyObject K\<rparr>"

definition DNSAppList_object :: "k8s_api \<Rightarrow> object_type" where
  "DNSAppList_object K = \<lparr>ot_Name = ''DNSAppList'', ot_Layout = DNSAppList_layout K, ot_DeepCopyObject = DNSAppList_DeepCopyObject K\<rparr>"

definition DNSSEC_object :: "k8s_api \<Rightarrow> object_type" where
  "DNSSEC_object K = \<lparr>ot_Name = ''DNSSEC'', ot_Layout = DNSSEC_layout K, ot_DeepCopyObject = DNSSEC_DeepCopyObject K\<rparr>"

definition DNSSECList_object :: "k8s_api \<Rightarrow> object_type" where
  "DNSSECList_object K = \<lparr>ot_Name = ''DNSSECList'', ot_Layout = DNSSECList_layout K, ot_DeepCopyObject = DNSSECList_DeepCopyObject K\<rparr>"

definition Record_object :: "k8s_api \<Rightarrow> object_type" where
  "Record_object K = \<lparr>ot_Name = ''Record'', ot_Layout = Record_layout K, ot_DeepCopyObject = Record_DeepCopyObject K\<rparr>"

definition RecordList_object :: "k8s_api \<Rightarrow> object_type" where
  "RecordList_object K = \<lparr>ot_Name = ''RecordList'', ot_Layout = RecordList_layout K, ot_DeepCopyObject = RecordList_DeepCopyObject K\<rparr>"

definition ServerSettings_object :: "k8s_api \<Rightarrow> object_type" where
  "ServerSettings_object K = \<lparr>ot_Name = ''ServerSettings'', ot_Layout = ServerSettings_layout K, ot_DeepCopyObject = ServerSettings_DeepCopyObject K\<rparr>"

definition ServerSettingsList_object :: "k8s_api \<Rightarrow> object_type" where
  "ServerSettingsList_object K = \<lparr>ot_Name = ''ServerSettingsList'', ot_Layout = ServerSettingsList_layout K, ot_DeepCopyObject = ServerSettingsList_DeepCopyObject K\<rparr>"

definition TechnitiumCluster_object :: "k8s_api \<Rightarrow> object_type" where
  "TechnitiumCluster_object K = \<lparr>ot_Name = ''TechnitiumCluster'', ot_Layout = TechnitiumCluster_layout K, ot_DeepCopyObject = TechnitiumCluster_DeepCopyObject K\<rparr>"

definition TechnitiumClusterList_object :: "k8s_api \<Rightarrow> object_type" where
  "TechnitiumClusterList_object K = \<lparr>ot_Name = ''TechnitiumClusterList'', ot_Layout = TechnitiumClusterList_layout K, ot_DeepCopyObject = TechnitiumClusterList_DeepCopyObject K\<rparr>"

definition Zone_object :: "k8s_api \<Rightarrow> object_type" where
  "Zone_object K = \<lparr>ot_Name = ''Zone'', ot_Layout = Zone_layout K, ot_DeepCopyObject = Zone_DeepCopyObject K\<rparr>"

definition ZoneList_object :: "k8s_api \<Rightarrow> object_type" where
  "ZoneList_object K = \<lparr>ot_Name = ''ZoneList'', ot_Layout = ZoneList_layout K, ot_DeepCopyObject = ZoneList_DeepCopyObject K\<rparr>"

text \<open>
  A setup function returns an error or nil, with the scheme it leaves; \<^const>\<open>None\<close> is a panic. The prototypes passed to
  \<^verbatim>\<open>AddKnownTypes\<close> are represented by their types, which is all it reads of them.
\<close>

type_synonym 'sch scheme_func = "'sch \<Rightarrow> (go_error option \<times> 'sch) option"

record ('sch, 'b) scheme_lib =
  sl_NewScheme :: 'sch
  sl_AddToGroupVersion :: "group_version \<Rightarrow> 'sch \<Rightarrow> 'sch option"
  sl_AddKnownTypes :: "group_version \<Rightarrow> object_type list \<Rightarrow> 'sch \<Rightarrow> 'sch option"
  sl_NewSchemeBuilder :: "'sch scheme_func list \<Rightarrow> 'b"
  sl_Register :: "'sch scheme_func list \<Rightarrow> 'b \<Rightarrow> 'b"
  sl_AddToScheme :: "'b \<Rightarrow> 'sch scheme_func"
  sl_clientgo :: "'sch scheme_func"
  sl_Must :: "go_error option \<Rightarrow> unit option"

definition SchemeBuilder :: "('sch, 'b) scheme_lib \<Rightarrow> 'b" where
  "SchemeBuilder L = sl_NewSchemeBuilder L [\<lambda>s. map_option (Pair None) (sl_AddToGroupVersion L SchemeGroupVersion s)]"

definition add_known_types :: "('sch, 'b) scheme_lib \<Rightarrow> object_type list \<Rightarrow> 'sch scheme_func" where
  "add_known_types L ots s = map_option (Pair None) (sl_AddKnownTypes L SchemeGroupVersion ots s)"

definition Blocklist_init :: "('sch, 'b) scheme_lib \<Rightarrow> k8s_api \<Rightarrow> 'b \<Rightarrow> 'b" where
  "Blocklist_init L K = sl_Register L [add_known_types L [Blocklist_object K, BlocklistList_object K]]"

definition DHCPScope_init :: "('sch, 'b) scheme_lib \<Rightarrow> k8s_api \<Rightarrow> 'b \<Rightarrow> 'b" where
  "DHCPScope_init L K = sl_Register L [add_known_types L [DHCPScope_object K, DHCPScopeList_object K]]"

definition DNSApp_init :: "('sch, 'b) scheme_lib \<Rightarrow> k8s_api \<Rightarrow> 'b \<Rightarrow> 'b" where
  "DNSApp_init L K = sl_Register L [add_known_types L [DNSApp_object K, DNSAppList_object K]]"

definition DNSSEC_init :: "('sch, 'b) scheme_lib \<Rightarrow> k8s_api \<Rightarrow> 'b \<Rightarrow> 'b" where
  "DNSSEC_init L K = sl_Register L [add_known_types L [DNSSEC_object K, DNSSECList_object K]]"

definition Record_init :: "('sch, 'b) scheme_lib \<Rightarrow> k8s_api \<Rightarrow> 'b \<Rightarrow> 'b" where
  "Record_init L K = sl_Register L [add_known_types L [Record_object K, RecordList_object K]]"

definition ServerSettings_init :: "('sch, 'b) scheme_lib \<Rightarrow> k8s_api \<Rightarrow> 'b \<Rightarrow> 'b" where
  "ServerSettings_init L K = sl_Register L [add_known_types L [ServerSettings_object K, ServerSettingsList_object K]]"

definition TechnitiumCluster_init :: "('sch, 'b) scheme_lib \<Rightarrow> k8s_api \<Rightarrow> 'b \<Rightarrow> 'b" where
  "TechnitiumCluster_init L K = sl_Register L [add_known_types L [TechnitiumCluster_object K, TechnitiumClusterList_object K]]"

definition Zone_init :: "('sch, 'b) scheme_lib \<Rightarrow> k8s_api \<Rightarrow> 'b \<Rightarrow> 'b" where
  "Zone_init L K = sl_Register L [add_known_types L [Zone_object K, ZoneList_object K]]"

text \<open>
  The \<^verbatim>\<open>init\<close> functions run in the order of the file names. \<^verbatim>\<open>AddToScheme\<close> is a method of the variable
  \<^verbatim>\<open>SchemeBuilder\<close>, not of its value when the package was loaded: it runs what they have registered.
\<close>

definition api_init :: "('sch, 'b) scheme_lib \<Rightarrow> k8s_api \<Rightarrow> 'b \<Rightarrow> 'b" where
  "api_init L K b = fold (\<lambda>f. f L K) [Blocklist_init, DHCPScope_init, DNSApp_init, DNSSEC_init, Record_init, ServerSettings_init, TechnitiumCluster_init, Zone_init] b"

definition AddToScheme :: "('sch, 'b) scheme_lib \<Rightarrow> k8s_api \<Rightarrow> 'sch scheme_func" where
  "AddToScheme L K = sl_AddToScheme L (api_init L K (SchemeBuilder L))"

text \<open>The same two registrations make the schemes of both commands; \<^verbatim>\<open>utilruntime.Must\<close> panics on an error.\<close>

definition operator_init :: "('sch, 'b) scheme_lib \<Rightarrow> k8s_api \<Rightarrow> 'sch option" where
  "operator_init L K = do {
     (e, s) \<leftarrow> sl_clientgo L (sl_NewScheme L);
     _ \<leftarrow> sl_Must L e;
     (e', s') \<leftarrow> AddToScheme L K s;
     _ \<leftarrow> sl_Must L e';
     Some s'
   }"

definition webhook_scheme :: "('sch, 'b) scheme_lib \<Rightarrow> k8s_api \<Rightarrow> 'sch option" where
  "webhook_scheme L K = do {
     (e, s) \<leftarrow> sl_clientgo L (sl_NewScheme L);
     _ \<leftarrow> sl_Must L e;
     (e', s') \<leftarrow> AddToScheme L K s;
     _ \<leftarrow> sl_Must L e';
     Some s'
   }"

section \<open>Copies of objects\<close>

definition api_object_groups :: "k8s_api \<Rightarrow> object_type list list" where
  "api_object_groups K =
       [[Blocklist_object K, BlocklistList_object K],
        [DHCPScope_object K, DHCPScopeList_object K],
        [DNSApp_object K, DNSAppList_object K],
        [DNSSEC_object K, DNSSECList_object K],
        [Record_object K, RecordList_object K],
        [ServerSettings_object K, ServerSettingsList_object K],
        [TechnitiumCluster_object K, TechnitiumClusterList_object K],
        [Zone_object K, ZoneList_object K]]"

definition api_objects :: "k8s_api \<Rightarrow> object_type list" where
  "api_objects K = concat (api_object_groups K)"

lemmas api_object_defs = Blocklist_object_def BlocklistList_object_def DHCPScope_object_def DHCPScopeList_object_def DNSApp_object_def DNSAppList_object_def DNSSEC_object_def DNSSECList_object_def Record_object_def RecordList_object_def ServerSettings_object_def ServerSettingsList_object_def TechnitiumCluster_object_def TechnitiumClusterList_object_def Zone_object_def ZoneList_object_def

lemmas deep_copy_objects = Blocklist_DeepCopyObject_def Blocklist_DeepCopy_def BlocklistList_DeepCopyObject_def BlocklistList_DeepCopy_def DHCPScope_DeepCopyObject_def DHCPScope_DeepCopy_def DHCPScopeList_DeepCopyObject_def DHCPScopeList_DeepCopy_def DNSApp_DeepCopyObject_def DNSApp_DeepCopy_def DNSAppList_DeepCopyObject_def DNSAppList_DeepCopy_def DNSSEC_DeepCopyObject_def DNSSEC_DeepCopy_def DNSSECList_DeepCopyObject_def DNSSECList_DeepCopy_def Record_DeepCopyObject_def Record_DeepCopy_def RecordList_DeepCopyObject_def RecordList_DeepCopy_def ServerSettings_DeepCopyObject_def ServerSettings_DeepCopy_def ServerSettingsList_DeepCopyObject_def ServerSettingsList_DeepCopy_def TechnitiumCluster_DeepCopyObject_def TechnitiumCluster_DeepCopy_def TechnitiumClusterList_DeepCopyObject_def TechnitiumClusterList_DeepCopy_def Zone_DeepCopyObject_def Zone_DeepCopy_def ZoneList_DeepCopyObject_def ZoneList_DeepCopy_def

definition copies_object :: "object_type \<Rightarrow> bool" where
  "copies_object ot \<longleftrightarrow> (\<exists>f. deep_copier (ot_Layout ot) f \<and>
     ot_DeepCopyObject ot = as_object (ot_Name ot) (unless_nil (new_into (ot_Layout ot) f)))"

lemma copies_objectI:
  "deep_copier T f \<Longrightarrow> copies_object \<lparr>ot_Name = n, ot_Layout = T, ot_DeepCopyObject = as_object n (unless_nil (new_into T f))\<rparr>"
  by (auto simp: copies_object_def)

lemma api_objects_copy: "k8s_api_laws K \<Longrightarrow> ot \<in> set (api_objects K) \<Longrightarrow> copies_object ot"
  unfolding api_objects_def api_object_groups_def by (auto simp: api_object_defs deep_copy_objects intro!: copies_objectI intro: copier_intros)

text \<open>
  (C10) For every type of the API, the copy of an object through its interface does not panic, leaves every cell of the store as it
  was, has the same content as the object, and shares no reference with it: whatever is written to a cell one of the
  two reaches, the other one still reads as before. The copy of a nil pointer is the nil interface.
\<close>

theorem deep_copy_isolated:
  assumes "k8s_api_laws K" "ot \<in> set (api_objects K)" "denote h (TPtr (ot_Layout ot)) p = Some d"
  shows "if p = GNil then ot_DeepCopyObject ot p h = Some (NilObject, h)
    else \<exists>q h'. ot_DeepCopyObject ot p h = Some (Object (ot_Name ot) q, h') \<and> take (length h) h' = h
      \<and> denote h' (TPtr (ot_Layout ot)) q = Some d \<and> denote h' (TPtr (ot_Layout ot)) p = Some d
      \<and> (\<forall>a c. a \<in> set (reach h' (TPtr (ot_Layout ot)) q) \<longrightarrow> denote (h'[a := c]) (TPtr (ot_Layout ot)) p = Some d)
      \<and> (\<forall>a c. a \<in> set (reach h' (TPtr (ot_Layout ot)) p) \<longrightarrow> denote (h'[a := c]) (TPtr (ot_Layout ot)) q = Some d)"
proof -
  obtain g where g: "deep_copier (ot_Layout ot) g"
    "ot_DeepCopyObject ot = as_object (ot_Name ot) (unless_nil (new_into (ot_Layout ot) g))"
    using api_objects_copy[OF assms(1,2)] by (auto simp: copies_object_def)
  let ?f = "unless_nil (new_into (ot_Layout ot) g)"
  show ?thesis
  proof (cases "p = GNil")
    case True
    then show ?thesis using g(2) by (simp add: as_object_def unless_nil_def)
  next
    case False
    obtain q h' where q: "?f p h = Some (q, h')" "take (length h) h' = h" "denote h' (TPtr (ot_Layout ot)) q = Some d"
      "denote h' (TPtr (ot_Layout ot)) p = Some d"
      "\<forall>a c. a \<in> set (reach h' (TPtr (ot_Layout ot)) q) \<longrightarrow> denote (h'[a := c]) (TPtr (ot_Layout ot)) p = Some d"
      "\<forall>a c. a \<in> set (reach h' (TPtr (ot_Layout ot)) p) \<longrightarrow> denote (h'[a := c]) (TPtr (ot_Layout ot)) q = Some d"
      using deep_copier.isolated[OF new_into_copier[OF g(1)] assms(3)] by blast
    have "q \<noteq> GNil" using q(3) assms(3) False by (auto simp: bind_eq_Some_conv)
    then have "ot_DeepCopyObject ot p h = Some (Object (ot_Name ot) q, h')" using g(2) q(1) by (simp add: as_object_def)
    then show ?thesis using False q by auto
  qed
qed

text \<open>An instance: object metadata with a name and labels, the other types of the libraries strings.\<close>

definition sample_k8s :: k8s_api where
  "sample_k8s =
     (let meta = ''metav1.ObjectMeta''
      in \<lparr>ka_type = (\<lambda>n. if n = meta then TStruct [(''Name'', TString), (''Labels'', TMap TString)] else TString),
          ka_into = (\<lambda>n. if n = meta then copy_struct [(''Labels'', unless_nil (make_map id))] else assign),
          ka_ptr = (\<lambda>n. unless_nil (new_into TString assign)), ka_order = id\<rparr>)"

lemma sample_k8s_laws: "k8s_api_laws sample_k8s"
proof -
  have "deep_copier (TStruct [(''Name'', TString), (''Labels'', TMap TString)]) (copy_struct [(''Labels'', unless_nil (make_map id))])"
    by (rule struct_copier) (simp add: copies_fields_def copier_intros)
  then show ?thesis
    by (simp add: k8s_api_laws_def sample_k8s_def k8s_copied_def k8s_assigned_def Let_def copier_intros)
qed

definition sample_string :: "string \<Rightarrow> go_val" where
  "sample_string s = GLit (LString s)"

definition sample_app_object :: go_val where
  "sample_app_object = GRec
     [(''TypeMeta'', sample_string ''DNSApp''), (''ObjectMeta'', GRec [(''Name'', sample_string ''geo''), (''Labels'', GMap 1)]),
      (''Spec'', GRec [(''ServerRef'', GRec [(''Name'', sample_string ''dns''), (''Namespace'', sample_string [])]),
         (''AppName'', sample_string ''Geo''), (''URL'', sample_string ''https://example.com/geo.zip''), (''Version'', sample_string []),
         (''Config'', sample_string []), (''DeletionPolicy'', sample_string ''Delete'')]),
      (''Status'', GRec [(''Conditions'', GSlice 2 0 1), (''ObservedGeneration'', GLit (LInt 1)), (''InstalledVersion'', sample_string [])])]"

definition sample_heap :: go_heap where
  "sample_heap = [Cell sample_app_object, Table [(''team'', sample_string ''net'')], Array [sample_string ''Ready'']]"


lemma sample_app_object_typed: "\<exists>d. denote sample_heap (TPtr (DNSApp_layout sample_k8s)) (GPtr 0) = Some d"
  by (simp add: sample_heap_def sample_app_object_def sample_string_def sample_k8s_def DNSApp_layout_def DNSAppSpec_layout_def DNSAppStatus_layout_def
      SecretReference_layout_def Let_def load_def cell_at_def slice_elems_def map_entries_def)

theorem deep_copy_isolated_witness:
  "\<exists>q h'. DNSApp_DeepCopyObject sample_k8s (GPtr 0) sample_heap = Some (Object ''DNSApp'' q, h') \<and>
     denote h' (TPtr (DNSApp_layout sample_k8s)) q = denote sample_heap (TPtr (DNSApp_layout sample_k8s)) (GPtr 0) \<and>
     (\<forall>a c. a \<in> set (reach h' (TPtr (DNSApp_layout sample_k8s)) q) \<longrightarrow>
        denote (h'[a := c]) (TPtr (DNSApp_layout sample_k8s)) (GPtr 0) = denote sample_heap (TPtr (DNSApp_layout sample_k8s)) (GPtr 0))"
proof -
  obtain d where d: "denote sample_heap (TPtr (DNSApp_layout sample_k8s)) (GPtr 0) = Some d" using sample_app_object_typed by blast
  have "DNSApp_object sample_k8s \<in> set (api_objects sample_k8s)" by (simp add: api_objects_def api_object_groups_def)
  from deep_copy_isolated[OF sample_k8s_laws this, of sample_heap "GPtr 0" d] d show ?thesis
    by (simp add: DNSApp_object_def del: denote.simps reach.simps) blast
qed

section \<open>What the scheme knows\<close>

fun run_funcs :: "'sch scheme_func list \<Rightarrow> 'sch scheme_func" where
  "run_funcs [] s = Some (None, s)"
| "run_funcs (f # fs) s = (case f s of Some (None, s') \<Rightarrow> run_funcs fs s' | r \<Rightarrow> r)"

definition meta_kinds :: "string list" where
  "meta_kinds = [''WatchEvent'', ''InternalEvent'', ''ListOptions'', ''GetOptions'', ''DeleteOptions'', ''CreateOptions'', ''UpdateOptions'',
     ''PatchOptions'', ''Status'', ''APIVersions'', ''APIGroupList'', ''APIGroup'', ''APIResourceList'']"

definition by_name :: "object_type list \<Rightarrow> string \<Rightarrow> object_type option" where
  "by_name ots = map_of (map (\<lambda>ot. (ot_Name ot, ot)) ots)"

text \<open>
  What is documented of the scheme, in terms of the types it knows: \<^verbatim>\<open>AddKnownTypes\<close> makes each type known under the name Go
  gives it and panics only where another type has that name; \<^verbatim>\<open>AddToGroupVersion\<close> adds types of the meta package; a
  builder runs its functions in order up to the first error; \<^verbatim>\<open>Must\<close> panics on an error only; the client's own scheme has no type of the operator's group.
\<close>

definition scheme_laws ::
  "('sch, 'b) scheme_lib \<Rightarrow> ('sch \<Rightarrow> group_version \<Rightarrow> string \<Rightarrow> object_type option) \<Rightarrow> ('b \<Rightarrow> 'sch scheme_func list) \<Rightarrow> bool" where
  "scheme_laws L known funcs \<longleftrightarrow>
     sl_Must L None = Some () \<and> (\<forall>e. sl_Must L (Some e) = None) \<and>
     (\<forall>fs. funcs (sl_NewSchemeBuilder L fs) = fs) \<and> (\<forall>fs b. funcs (sl_Register L fs b) = funcs b @ fs) \<and>
     (\<forall>b s. sl_AddToScheme L b s = run_funcs (funcs b) s) \<and>
     (\<forall>gv s. \<exists>s'. sl_AddToGroupVersion L gv s = Some s' \<and> (\<forall>gv' k. k \<notin> set meta_kinds \<longrightarrow> known s' gv' k = known s gv' k)) \<and>
     (\<forall>gv ots s. gv_Version gv \<noteq> [] \<and> distinct (map ot_Name ots) \<and> (\<forall>ot\<in>set ots. known s gv (ot_Name ot) = None) \<longrightarrow>
        (\<exists>s'. sl_AddKnownTypes L gv ots s = Some s' \<and>
           (\<forall>gv' k. known s' gv' k = (if gv' = gv \<and> by_name ots k \<noteq> None then by_name ots k else known s gv' k)))) \<and>
     (\<exists>s. sl_clientgo L (sl_NewScheme L) = Some (None, s) \<and> (\<forall>k. k \<notin> set meta_kinds \<longrightarrow> known s SchemeGroupVersion k = None))"

lemma by_name_append: "by_name (xs @ ys) k = (case by_name xs k of None \<Rightarrow> by_name ys k | r \<Rightarrow> r)"
  by (simp add: by_name_def map_add_def split: option.splits)

lemma add_known_types_run:
  assumes "scheme_laws L known funcs"
  shows "distinct (map ot_Name (concat otss)) \<Longrightarrow> \<forall>ot\<in>set (concat otss). known s SchemeGroupVersion (ot_Name ot) = None \<Longrightarrow>
    \<exists>s'. run_funcs (map (add_known_types L) otss) s = Some (None, s') \<and>
      (\<forall>k. known s' SchemeGroupVersion k = (case by_name (concat otss) k of None \<Rightarrow> known s SchemeGroupVersion k | r \<Rightarrow> r))"
proof (induction otss arbitrary: s)
  case Nil
  then show ?case by (simp add: by_name_def)
next
  case (Cons ots otss)
  have "gv_Version SchemeGroupVersion \<noteq> []" by (simp add: SchemeGroupVersion_def)
  then obtain s1 where s1: "sl_AddKnownTypes L SchemeGroupVersion ots s = Some s1"
    "\<forall>k. known s1 SchemeGroupVersion k = (if by_name ots k \<noteq> None then by_name ots k else known s SchemeGroupVersion k)"
    using assms Cons.prems unfolding scheme_laws_def by (auto 0 4)
  have "by_name ots (ot_Name ot) = None" if "ot \<in> set (concat otss)" for ot
    using that Cons.prems(1) by (auto simp: by_name_def map_of_eq_None_iff image_iff)
  then have "\<forall>ot\<in>set (concat otss). known s1 SchemeGroupVersion (ot_Name ot) = None" using s1(2) Cons.prems(2) by auto
  then obtain s' where s': "run_funcs (map (add_known_types L) otss) s1 = Some (None, s')"
    "\<forall>k. known s' SchemeGroupVersion k = (case by_name (concat otss) k of None \<Rightarrow> known s1 SchemeGroupVersion k | r \<Rightarrow> r)"
    using Cons.IH[of s1] Cons.prems(1) by auto
  have "known s' SchemeGroupVersion k =
      (case by_name (concat (ots # otss)) k of None \<Rightarrow> known s SchemeGroupVersion k | r \<Rightarrow> r)" for k
  proof (cases "by_name ots k")
    case None
    then show ?thesis using s'(2) s1(2) by (cases "by_name (concat otss) k") (simp_all add: by_name_append)
  next
    case (Some ot)
    then have "k \<in> ot_Name ` set ots" by (force simp: by_name_def dest!: map_of_SomeD)
    then have "by_name (concat otss) k = None" using Cons.prems(1) by (fastforce simp: by_name_def map_of_eq_None_iff)
    then show ?thesis using Some s' s1(2) by (simp add: by_name_append)
  qed
  moreover have "add_known_types L ots s = Some (None, s1)" using s1(1) by (simp add: add_known_types_def)
  ultimately show ?case using s'(1) by (intro exI[of _ s']) simp
qed

lemma api_object_names: "distinct (map ot_Name (api_objects K))" "ot \<in> set (api_objects K) \<Longrightarrow> ot_Name ot \<notin> set meta_kinds"
  unfolding api_objects_def api_object_groups_def by (auto simp: api_object_defs meta_kinds_def)

lemma api_funcs:
  assumes "scheme_laws L known funcs"
  shows "funcs (api_init L K (SchemeBuilder L)) = (\<lambda>s. map_option (Pair None) (sl_AddToGroupVersion L SchemeGroupVersion s)) #
    map (add_known_types L) (api_object_groups K)"
proof -
  have "funcs (sl_NewSchemeBuilder L fs) = fs" "funcs (sl_Register L fs b) = funcs b @ fs" for fs b
    using assms unfolding scheme_laws_def by blast+
  then show ?thesis
    by (simp add: api_object_groups_def api_init_def SchemeBuilder_def Blocklist_init_def DHCPScope_init_def DNSApp_init_def DNSSEC_init_def Record_init_def ServerSettings_init_def TechnitiumCluster_init_def Zone_init_def)
qed

lemma scheme_known:
  assumes "scheme_laws L known funcs"
  shows "\<exists>s. operator_init L K = Some s \<and> webhook_scheme L K = Some s \<and>
    (\<forall>k. k \<notin> set meta_kinds \<longrightarrow> known s SchemeGroupVersion k = by_name (api_objects K) k)"
proof -
  obtain s0 where s0: "sl_clientgo L (sl_NewScheme L) = Some (None, s0)" "\<forall>k. k \<notin> set meta_kinds \<longrightarrow> known s0 SchemeGroupVersion k = None"
    using assms unfolding scheme_laws_def by blast
  obtain s1 where s1: "sl_AddToGroupVersion L SchemeGroupVersion s0 = Some s1"
    "\<forall>k. k \<notin> set meta_kinds \<longrightarrow> known s1 SchemeGroupVersion k = known s0 SchemeGroupVersion k"
    using assms unfolding scheme_laws_def by metis
  have "\<forall>ot\<in>set (api_objects K). known s1 SchemeGroupVersion (ot_Name ot) = None" using s0(2) s1(2) api_object_names(2) by metis
  then obtain s where s: "run_funcs (map (add_known_types L) (api_object_groups K)) s1 = Some (None, s)"
    "\<forall>k. known s SchemeGroupVersion k = (case by_name (api_objects K) k of None \<Rightarrow> known s1 SchemeGroupVersion k | r \<Rightarrow> r)"
    using add_known_types_run[OF assms api_object_names(1)[unfolded api_objects_def]] unfolding api_objects_def by blast
  have "sl_AddToScheme L b t = run_funcs (funcs b) t" for b t using assms unfolding scheme_laws_def by blast
  then have "AddToScheme L K s0 = Some (None, s)"
    using s(1) s1(1) by (simp add: AddToScheme_def api_funcs[OF assms])
  then have "operator_init L K = Some s" "webhook_scheme L K = Some s"
    using s0(1) assms by (simp_all add: operator_init_def webhook_scheme_def scheme_laws_def)
  moreover have "known s SchemeGroupVersion k = by_name (api_objects K) k" if "k \<notin> set meta_kinds" for k
    using s(2) s1(2) s0(2) that by (auto split: option.splits)
  ultimately show ?thesis by blast
qed

text \<open>An instance: the known types as a map, a builder as the list of its functions.\<close>

definition sample_scheme :: "(group_version \<Rightarrow> string \<Rightarrow> object_type option,
    (group_version \<Rightarrow> string \<Rightarrow> object_type option) scheme_func list) scheme_lib" where
  "sample_scheme = \<lparr>sl_NewScheme = (\<lambda>_ _. None), sl_AddToGroupVersion = (\<lambda>_ s. Some s),
     sl_AddKnownTypes = (\<lambda>gv ots s. Some (\<lambda>gv' k. if gv' = gv \<and> by_name ots k \<noteq> None then by_name ots k else s gv' k)),
     sl_NewSchemeBuilder = id, sl_Register = (\<lambda>fs b. b @ fs), sl_AddToScheme = run_funcs, sl_clientgo = (\<lambda>s. Some (None, s)),
     sl_Must = (\<lambda>e. case e of None \<Rightarrow> Some () | Some _ \<Rightarrow> None)\<rparr>"

lemma sample_scheme_laws: "scheme_laws sample_scheme id id"
  unfolding scheme_laws_def sample_scheme_def by auto

end
