(* ===== verification/Spec2Isabelle.thy ===== *)
theory Spec2Isabelle
  imports Operator_Main External_DNS_Publish Chart_Generator Cluster_Status Record_Lifecycle Api_Scheme
begin

text \<open>
  A model of the Technitium Kubernetes operator and the theorems that make it correct.

  \<^bold>\<open>The program.\<close> The operator runs Technitium DNS servers on Kubernetes and configures them. A
  TechnitiumCluster becomes a StatefulSet with its Services, admin Secret and disruption budget; its
  controller bootstraps an API token, forms the DNS cluster (one Primary, several Secondaries), and upgrades
  the nodes one at a time. Seven more resources (Zone, Record, DNSSEC, DNSApp, Blocklist, ServerSettings,
  DHCPScope) name a cluster in \<^verbatim>\<open>spec.serverRef\<close>; the controller of each resolves it to a client of the
  cluster's Primary and brings the server to the state of the spec, guarding what it created there with a
  finalizer. Admission webhooks default and validate these resources. A statistics poller publishes the
  nodes' dashboards as gauges. The ExternalDNS webhook, a subcommand that runs as a process of its own, turns endpoints
  into Records. A generator writes the Helm chart from the manifests and checks a rendered chart against them.

  \<^bold>\<open>Theories and source.\<close> Paths are under \<^verbatim>\<open>src/internal\<close> unless they start with \<^verbatim>\<open>api\<close>, \<^verbatim>\<open>cmd\<close> or \<^verbatim>\<open>hack\<close>.
    \<^item> \<open>Go_Prelude\<close>, \<open>Go_Net\<close>, \<open>Go_Hash\<close>, \<open>Go_Text\<close>, \<open>Go_Flag\<close>: what the code uses of Go's language and standard
      library: strings, decimal numbers, early return, IP and hardware addresses, SHA-256, substrings and file
      paths, command line flags and durations.
    \<^item> \<open>Api_Errors\<close> (\<^verbatim>\<open>technitium/errors.go\<close>), \<open>Technitium_Types\<close> (the payloads of \<^verbatim>\<open>technitium/*.go\<close>),
      \<open>Version\<close> (\<^verbatim>\<open>technitium/version.go\<close>).
    \<^item> \<open>Runtime\<close>: HTTP transport, clock, Kubernetes API and helper functions as parameters; the operator's own
      state, and the ghost trace of calls in which ordering is stated.
    \<^item> \<open>Client\<close>, \<open>Client_Zones\<close>, \<open>Client_Admin\<close>: the API client (\<^verbatim>\<open>technitium/client.go\<close> and the endpoint
      files beside it).
    \<^item> \<open>Cluster_Types\<close> (\<^verbatim>\<open>api/v1alpha1/technitiumcluster_types.go\<close>, names and labels), \<open>Server_Ref\<close>
      (\<^verbatim>\<open>config/credentials.go\<close>, \<^verbatim>\<open>controller/serverref.go\<close>: resolution and the client cache).
    \<^item> \<open>Controller_Common\<close>, \<open>Resource_Controller\<close>: the body the controllers share; \<open>Zone_Controller\<close>,
      \<open>Record_Controller\<close>, \<open>Dnssec_Controller\<close>, \<open>App_Controller\<close>, \<open>Settings_Controller\<close>,
      \<open>Blocklist_Controller\<close>, \<open>Dhcp_Controller\<close>: the resource (\<^verbatim>\<open>api/v1alpha1/*_types.go\<close>) and its
      handler (\<^verbatim>\<open>controller/*_controller.go\<close>).
    \<^item> \<open>Cluster_Nodes\<close>, \<open>Rollout\<close>, \<open>Workload\<close>, \<open>Clustering\<close>, \<open>Cluster_Status\<close>: the cluster controller
      (\<^verbatim>\<open>controller/technitiumcluster_*.go\<close>): node clients, token bootstrap, rolling upgrade, the objects of
      the workload, joining and deletion, status and \<^verbatim>\<open>Reconcile\<close>.
    \<^item> \<open>Webhooks\<close> (\<^verbatim>\<open>webhook/v1alpha1/*_webhook.go\<close>), \<open>Stats_Poller\<close> (\<^verbatim>\<open>controller/technitium_stats.go\<close>),
      \<open>External_DNS\<close> (\<^verbatim>\<open>externaldns/types.go\<close>, \<^verbatim>\<open>translate.go\<close>), \<open>External_DNS_Server\<close>
      (\<^verbatim>\<open>externaldns/server.go\<close>) and \<open>External_DNS_Run\<close> (\<^verbatim>\<open>externaldns/run.go\<close>).
    \<^item> \<open>Operator_Main\<close> (\<^verbatim>\<open>cmd/main.go\<close>, the \<^verbatim>\<open>SetupWithManager\<close> methods and the registration of the webhooks),
      \<open>Chart_Generator\<close> (\<^verbatim>\<open>hack/chartgen/main.go\<close>).
    \<^item> \<open>External_DNS_Publish\<close>: the ExternalDNS webhook and the Record controller together; \<open>Record_Lifecycle\<close>: many Records on
      one zone, created, edited, reconciled and deleted in any order.
    \<^item> \<open>Go_Heap\<close> (pointers, slices and maps in a store), \<open>Api_Layout\<close> (the structs of \<^verbatim>\<open>api/v1alpha1/*_types.go\<close> with their
      references), \<open>Deep_Copy\<close> (\<^verbatim>\<open>api/v1alpha1/zz_generated.deepcopy.go\<close>), \<open>Api_Scheme\<close>
      (\<^verbatim>\<open>api/v1alpha1/groupversion_info.go\<close> and the \<^verbatim>\<open>init\<close> functions). This theory puts the scheme and the controllers together.

  \<^bold>\<open>How the code is modelled.\<close> Definitions keep the names of the source; a method \<^verbatim>\<open>T.m\<close> whose name would
  clash is \<open>T_m\<close>. A function with effects is a state computation over \<open>world\<close>: the outside state \<open>'s\<close> with
  whatever the transport and the API server do to it, the trace of calls, the heap of API clients and the
  client cache. Errors are values of \<open>go_error\<close> and every \<^verbatim>\<open>if err != nil\<close> is an \<open>or_return\<close>, so each
  early return is a branch. A pointer that may be nil is an option; nil and empty slices are told apart where
  the code compares them (\<open>slice\<close>). Logging, contexts and events are left out. What is not in the
  repository (the Technitium server, the Kubernetes API, controller-runtime) is a parameter, and a theorem that
  needs its documented behaviour has it as a hypothesis, a predicate such as \<open>record_laws\<close> or
  \<open>record_store_laws\<close>, with an in-memory instance on which its witness applies it. The laws of zones, settings and apps let any call
  fail and say what a call that succeeds does; those of the Record store have the API server refuse what the
  resource definition or the admission webhook refuses. Values share nothing in this model. That this is
  right for the objects the code copies before it changes them is what \<open>Deep_Copy\<close> shows, in a model of its own in which
  sharing is explicit and a dereference may panic.

  \<^bold>\<open>Interfaces.\<close> \<open>finalizing_controller\<close> is the contract of every controller with a finalizer (nothing is done
  to the server before the finalizer is stored; a deleted object is only finalized); \<open>resource_live\<close> and
  \<open>resource_controller\<close> give it for the shared body, and are interpreted at the Record, DNSSEC, DNSApp,
  DHCPScope, Blocklist and ServerSettings controllers; the Zone and cluster controllers are interpreted
  directly. The server interfaces of the controllers (\<open>record_server\<close> and its like) are locales
  interpreted at the API client. \<open>deep_copier\<close> is the contract of a copying function at a type (no panic, no cell changed, the
  same content, only fresh cells reached); every generated copy meets it, given that the copies of the Kubernetes libraries
  do, and the specs of the resources, which hold none of their types, are interpretations.

  \<^bold>\<open>What is proved.\<close>
    \<^item> Rolling upgrades: at most one released node is unfinished in every reachable state, the Primary is last,
      a pass releases one gated node, the rollout completes, and a stall is measured on a clock that is not
      restarted; workload updates release nothing, a StatefulSet without a recorded template hash apart; downgrades
      are refused.
    \<^item> Cluster: a token is minted only when the Secret holds none, and that token is stored there, clustering is reported only
      after every member joined, the drift interval means ready, deletion policies keep or remove volumes and credentials, objects of
      others are left alone.
    \<^item> Resources: a pass of each controller that succeeds brings the server to the spec, refining for Record and Blocklist
      an abstract effect on the set of records or domains, and a second pass changes nothing; the conditions are in the
      theorems (a new zone's name without the misread words, a Record that is not edited away from MX priority 0). Finalizers are
      dropped only after the server's answer, or when the cluster or its admin Secret does not exist. The settings writers do not disturb each other, and neither do
      Records of one zone: the server holds an exact account of them in every reachable state.
    \<^item> Client: error classification, pagination that returns with all zones, versions; a resolved client
      always has the current endpoint and credentials.
    \<^item> Admission: which DHCP scopes and zones are admitted, in terms of numbers and subnets; an admitted Record
      is complete for the client.
    \<^item> ExternalDNS: the zone of a name, the exact content of a plan, the effect of applying it (refinement of
      a map of published Records), deletions last whatever the API server answers, the round trip of
      endpoints, the round trip of the command line, and that every Record built under an accepted one is admitted. End to
      end, an endpoint whose Records are reconciled is what the server answers.
    \<^item> Process: the manager is started only after everything is registered with it, and both its servers are
      held to HTTP/1.1 unless HTTP/2 is switched on. The scheme knows exactly the operator's kinds, and every kind with a controller.
    \<^item> Objects: a deep copy has the content of its original and shares no reference with it, for every type of the API.
    \<^item> Chart: the specs of the resource definitions are copied verbatim into a directory that then holds nothing else, the
      webhook configurations render back to their sources, nothing copied is a template action, and the check of
      a rendered chart accepts exactly the matching ones.
    \<^item> Statistics: after each pass the gauges show exactly the readings of that pass.
    \<^item> Deviations found are theorems too: a zone name with one of five words misclassifies a missing zone, a
      missing Secret orphans server state, changed reservations are never sent, an empty list rewrites the
      status on every tick, a Record being deleted swallows its re-creation, and an edit after a pass that failed halfway leaves
      a record, or a domain, that nothing accounts for.

  \<^bold>\<open>Loops and bounds.\<close> Loops over lists are structural. \<open>ListZones\<close> is a partial function to option, and
  proved to return for a paginating server; the IPv6 parser ends because each round adds two bytes to at
  most sixteen; \<open>root_floor\<close> of the hash constants tries 35 bits, enough for the primes used; \<open>Start\<close> of the
  poller runs a given number of passes, and its invariant holds for every number. Machine integers are kept
  at their width: bytes are 8-bit words, SHA-256 works on 32-bit words, and conversions to \<^verbatim>\<open>int32\<close> wrap
  (\<open>go_int32\<close>).
  \<^verbatim>\<open>flag.Parse\<close> consumes an argument in each round, \<^verbatim>\<open>ParseDuration\<close> and the substring loops a part of the text.

  \<^bold>\<open>Not modelled.\<close> Every source file with code is modelled. What the manager
  does with a registration, the scheme, the HTTP servers, the logger's flags, the file system and the YAML parser are parameters. Log
  lines, help texts and file modes are left out. The floating point of a fraction in a duration is a parameter. Case mapping and white
  space are those of ASCII. The HTTP client's TLS settings are recorded, not interpreted. Concurrency between
  controllers is represented by an outside state that may change at every call, and for Records by the interleaving of whole passes. The
  types that only the Kubernetes libraries define are parameters, in the structs and in the copies.
\<close>

section \<open>The scheme and the controllers\<close>

lemma by_name_api_objects:
  "kind \<in> {''Zone'', ''TechnitiumCluster'', ''Record'', ''ServerSettings'', ''Blocklist'', ''DHCPScope'', ''DNSSEC'', ''DNSApp''} \<Longrightarrow>
     kind \<notin> set meta_kinds \<and> kind @ ''List'' \<notin> set meta_kinds \<and>
     (\<exists>ot. by_name (api_objects K) kind = Some ot \<and> ot_Name ot = kind) \<and>
     (\<exists>ot. by_name (api_objects K) (kind @ ''List'') = Some ot \<and> ot_Name ot = kind @ ''List'')"
  unfolding by_name_def api_objects_def api_object_groups_def meta_kinds_def by (elim insertE) (simp_all add: api_object_defs)

text \<open>
  (C24) The schemes of both commands are made without a panic and know, under the operator's group and version, exactly the
  eight kinds and their lists, each with the Go type of that name, besides the meta types; and every kind a controller
  is set up for, or a webhook is registered for, is known with its list.
\<close>

theorem scheme_serves_controllers:
  assumes "scheme_laws L known funcs"
  shows "\<exists>s. operator_init L K = Some s \<and> webhook_scheme L K = Some s \<and>
    (\<forall>kind. kind \<notin> set meta_kinds \<longrightarrow> known s SchemeGroupVersion kind = by_name (api_objects K) kind) \<and>
    (\<forall>kind \<in> fst ` set (controllers_set_up (setup_steps env v)) \<union> set (webhooks_set_up (setup_steps env v)).
       (\<exists>ot. known s SchemeGroupVersion kind = Some ot \<and> ot_Name ot = kind) \<and>
       (\<exists>ot. known s SchemeGroupVersion (kind @ ''List'') = Some ot \<and> ot_Name ot = kind @ ''List''))"
proof -
  obtain s where s: "operator_init L K = Some s" "webhook_scheme L K = Some s"
    "\<forall>kind. kind \<notin> set meta_kinds \<longrightarrow> known s SchemeGroupVersion kind = by_name (api_objects K) kind"
    using scheme_known [OF assms] by blast
  have sub: "fst ` set (controllers_set_up (setup_steps env v)) \<union> set (webhooks_set_up (setup_steps env v)) \<subseteq>
      {''Zone'', ''TechnitiumCluster'', ''Record'', ''ServerSettings'', ''Blocklist'', ''DHCPScope'', ''DNSSEC'', ''DNSApp''}"
    by (auto simp: set_up_steps)
  have known: "(\<exists>ot. known s SchemeGroupVersion kind = Some ot \<and> ot_Name ot = kind) \<and>
       (\<exists>ot. known s SchemeGroupVersion (kind @ ''List'') = Some ot \<and> ot_Name ot = kind @ ''List'')"
    if "kind \<in> {''Zone'', ''TechnitiumCluster'', ''Record'', ''ServerSettings'', ''Blocklist'', ''DHCPScope'', ''DNSSEC'', ''DNSApp''}" for kind
    using by_name_api_objects [OF that, of K] s(3) by simp
  show ?thesis by (rule exI [of _ s], intro conjI s ballI known, drule subsetD [OF sub], assumption)+
qed

theorem scheme_serves_controllers_witness:
  "\<exists>s. operator_init sample_scheme sample_k8s = Some s \<and> s SchemeGroupVersion ''Zone'' = Some (Zone_object sample_k8s) \<and>
     s SchemeGroupVersion ''Pod'' = None"
proof -
  obtain s where s: "operator_init sample_scheme sample_k8s = Some s"
    "\<forall>kind. kind \<notin> set meta_kinds \<longrightarrow> s SchemeGroupVersion kind = by_name (api_objects sample_k8s) kind"
    using scheme_serves_controllers [OF sample_scheme_laws, of sample_k8s empty_env "operator_defaults ()"] by auto
  then have "s SchemeGroupVersion ''Zone'' = by_name (api_objects sample_k8s) ''Zone''" "s SchemeGroupVersion ''Pod'' = by_name (api_objects sample_k8s) ''Pod''"
    by (simp_all add: meta_kinds_def)
  moreover have "by_name (api_objects sample_k8s) ''Zone'' = Some (Zone_object sample_k8s)" "by_name (api_objects sample_k8s) ''Pod'' = None"
    by (simp_all add: by_name_def api_objects_def api_object_groups_def api_object_defs)
  ultimately show ?thesis using s(1) by auto
qed

end
